(* ===== verification/Prelude.thy ===== *)
theory Prelude
  imports Main "HOL-Library.Word"
begin

unbundle bit_operations_syntax

text \<open>
  The vocabulary shared by every component of the development:
  \<^item> Rust's \<open>Result\<close> as a datatype with the combinators the sources use
    (\<open>and_then\<close> is the \<open>?\<close> operator, \<open>map_err\<close>, \<open>ok_or\<close>), and the case rules that
    let \<open>auto\<close> take a chain of \<open>?\<close> apart;
  \<^item> Rust's strings as their UTF-8 bytes (\<open>string\<close>, one \<open>char\<close> per byte, so that
    \<open>length\<close> is \<open>str::len\<close>), with \<open>str::trim\<close> (the Unicode White\_Space characters,
    one, two or three bytes long), \<open>trim_ascii\<close>, ASCII case mapping, the digit readers
    behind \<open>u64::from_str_radix\<close> and \<open>u32::from_str\<close>, and \<open>str::get(..n)\<close>;
  \<^item> the machine integers of the sources as words;
  \<^item> the collections \<open>result_simps\<close> and \<open>str_simps\<close>, which the component proofs pass
    to \<open>simp\<close> and \<open>auto\<close>.
  Identifiers that wrap a UUID are represented by their canonical text, so that
  \<open>to_string\<close> on an identifier is the identity and equality of identifiers is equality
  of texts.
\<close>

named_theorems result_simps
named_theorems str_simps

section \<open>Machine integers and identifiers\<close>

type_synonym u8 = "8 word"
type_synonym u16 = "16 word"
type_synonym u32 = "32 word"
type_synonym u64 = "64 word"

text \<open>
  Signed values are only compared and copied, never computed with, in the modelled
  code: they are integers, with the range checks of the conversions written out.
\<close>

type_synonym i8 = int
type_synonym i32 = int
type_synonym i64 = int

type_synonym tenant_id = string
type_synonym agent_id = string
type_synonym command_id = string
type_synonym job_id = string
type_synonym session_id = string
type_synonym timestamp = string

section \<open>Results\<close>

datatype ('a, 'e) result = Ok 'a | Err 'e

primrec and_then :: "('a, 'e) result \<Rightarrow> ('a \<Rightarrow> ('b, 'e) result) \<Rightarrow> ('b, 'e) result" where
  "and_then (Ok x) f = f x"
| "and_then (Err e) f = Err e"

primrec map_err :: "('e \<Rightarrow> 'f) \<Rightarrow> ('a, 'e) result \<Rightarrow> ('a, 'f) result" where
  "map_err g (Ok x) = Ok x"
| "map_err g (Err e) = Err (g e)"

primrec is_ok :: "('a, 'e) result \<Rightarrow> bool" where
  "is_ok (Ok x) = True"
| "is_ok (Err e) = False"

primrec result_ok :: "('a, 'e) result \<Rightarrow> 'a option" where
  "result_ok (Ok x) = Some x"
| "result_ok (Err e) = None"

primrec ok_or :: "'a option \<Rightarrow> 'e \<Rightarrow> ('a, 'e) result" where
  "ok_or None e = Err e"
| "ok_or (Some x) e = Ok x"

text \<open>\<open>Option<Result<T, E>>::transpose\<close> after a fallible \<open>map\<close>.\<close>

primrec traverse_option :: "('a \<Rightarrow> ('b, 'e) result) \<Rightarrow> 'a option \<Rightarrow> ('b option, 'e) result" where
  "traverse_option f None = Ok None"
| "traverse_option f (Some x) = and_then (f x) (\<lambda>y. Ok (Some y))"

text \<open>\<open>collect::<Result<Vec<_>, _>>()\<close>: the first error wins.\<close>

primrec traverse_list :: "('a \<Rightarrow> ('b, 'e) result) \<Rightarrow> 'a list \<Rightarrow> ('b list, 'e) result" where
  "traverse_list f [] = Ok []"
| "traverse_list f (x # xs) =
     and_then (f x) (\<lambda>y. and_then (traverse_list f xs) (\<lambda>ys. Ok (y # ys)))"

text \<open>\<open>Option::or\<close>.\<close>

definition or_else :: "'a option \<Rightarrow> 'a option \<Rightarrow> 'a option" where
  "or_else m n = (case m of Some x \<Rightarrow> Some x | None \<Rightarrow> n)"

lemma find_member: "find P xs = Some x \<Longrightarrow> x \<in> set xs \<and> P x"
  by (auto simp: find_Some_iff)

lemma set_map_filter: "set (List.map_filter f xs) = {y. \<exists>x \<in> set xs. f x = Some y}"
  by (induction xs) (auto simp: map_filter_simps split: option.split)

lemma and_then_eq_Ok [result_simps]:
  "and_then r f = Ok y \<longleftrightarrow> (\<exists>x. r = Ok x \<and> f x = Ok y)"
  by (cases r) auto

lemma and_then_eq_Err [result_simps]:
  "and_then r f = Err e \<longleftrightarrow> r = Err e \<or> (\<exists>x. r = Ok x \<and> f x = Err e)"
  by (cases r) auto

lemma and_then_cong [fundef_cong]:
  "r = r' \<Longrightarrow> (\<And>x. r' = Ok x \<Longrightarrow> f x = g x) \<Longrightarrow> and_then r f = and_then r' g"
  by (cases r') auto

lemma map_err_eq_Ok [result_simps]: "map_err g r = Ok x \<longleftrightarrow> r = Ok x"
  by (cases r) auto

lemma map_err_eq_Err [result_simps]: "map_err g r = Err e \<longleftrightarrow> (\<exists>e'. r = Err e' \<and> e = g e')"
  by (cases r) auto

lemma ok_or_eq_Ok [result_simps]: "ok_or m e = Ok x \<longleftrightarrow> m = Some x"
  by (cases m) auto

lemma ok_or_eq_Err [result_simps]: "ok_or m e = Err e' \<longleftrightarrow> m = None \<and> e' = e"
  by (cases m) auto

lemma is_ok_iff [result_simps]: "is_ok r \<longleftrightarrow> (\<exists>x. r = Ok x)"
  by (cases r) auto

lemma result_ok_eq_Some [result_simps]: "result_ok r = Some x \<longleftrightarrow> r = Ok x"
  by (cases r) auto

lemma traverse_option_eq_Ok [result_simps]:
  "traverse_option f m = Ok y \<longleftrightarrow>
     (case m of None \<Rightarrow> y = None | Some x \<Rightarrow> \<exists>z. f x = Ok z \<and> y = Some z)"
  by (cases m) (auto simp: result_simps)

lemma traverse_list_eq_Ok:
  "traverse_list f xs = Ok ys \<longleftrightarrow> list_all2 (\<lambda>x y. f x = Ok y) xs ys"
  by (induction xs arbitrary: ys) (auto simp: result_simps list_all2_Cons1)

lemma and_then_assoc: "and_then (and_then r f) g = and_then r (\<lambda>x. and_then (f x) g)"
  by (cases r) auto

lemma traverse_list_member:
  "traverse_list f xs = Ok ys \<Longrightarrow> y \<in> set ys \<Longrightarrow> \<exists>x \<in> set xs. f x = Ok y"
  by (induction xs arbitrary: ys) (auto simp: result_simps)

lemma traverse_list_append:
  "traverse_list f (xs @ ys) =
     and_then (traverse_list f xs) (\<lambda>us. and_then (traverse_list f ys) (\<lambda>vs. Ok (us @ vs)))"
proof (induction xs)
  case Nil
  show ?case by (cases "traverse_list f ys") simp_all
qed (simp add: and_then_assoc)

section \<open>Strings\<close>

subsection \<open>Whitespace and trimming\<close>

text \<open>
  The UTF-8 encodings of the characters with the Unicode property White\_Space: U+0009 to
  U+000D and U+0020 (one byte), U+0085 and U+00A0 (two bytes), U+1680, U+2000 to U+200A,
  U+2028, U+2029, U+202F, U+205F and U+3000 (three bytes).
\<close>

abbreviation byte :: "char \<Rightarrow> nat" where
  "byte c \<equiv> of_char c"

definition ws1 :: "char \<Rightarrow> bool" where
  "ws1 c \<longleftrightarrow> (9 \<le> byte c \<and> byte c \<le> 13) \<or> byte c = 32"

definition ws2 :: "char \<Rightarrow> char \<Rightarrow> bool" where
  "ws2 a b \<longleftrightarrow> byte a = 194 \<and> (byte b = 133 \<or> byte b = 160)"

definition ws3 :: "char \<Rightarrow> char \<Rightarrow> char \<Rightarrow> bool" where
  "ws3 a b c \<longleftrightarrow>
     (byte a = 225 \<and> byte b = 154 \<and> byte c = 128) \<or>
     (byte a = 226 \<and> byte b = 128 \<and>
        ((128 \<le> byte c \<and> byte c \<le> 138) \<or> byte c = 168 \<or> byte c = 169 \<or> byte c = 175)) \<or>
     (byte a = 226 \<and> byte b = 129 \<and> byte c = 159) \<or>
     (byte a = 227 \<and> byte b = 128 \<and> byte c = 128)"

text \<open>The number of bytes of the whitespace character a byte list starts with, 0 if none.\<close>

fun ws_len :: "string \<Rightarrow> nat" where
  "ws_len (a # b # c # cs) = (if ws1 a then 1 else if ws2 a b then 2 else if ws3 a b c then 3 else 0)"
| "ws_len [a, b] = (if ws1 a then 1 else if ws2 a b then 2 else 0)"
| "ws_len [a] = (if ws1 a then 1 else 0)"
| "ws_len [] = 0"

text \<open>The same at the end of a string, read on the reversed bytes.\<close>

fun ws_len_rev :: "string \<Rightarrow> nat" where
  "ws_len_rev (c # b # a # cs) =
     (if ws1 c then 1 else if ws2 b c then 2 else if ws3 a b c then 3 else 0)"
| "ws_len_rev [c, b] = (if ws1 c then 1 else if ws2 b c then 2 else 0)"
| "ws_len_rev [c] = (if ws1 c then 1 else 0)"
| "ws_len_rev [] = 0"

lemma ws_len_le: "ws_len s \<le> length s"
  by (cases s rule: ws_len.cases) auto

lemma ws_len_rev_le: "ws_len_rev s \<le> length s"
  by (cases s rule: ws_len_rev.cases) auto

function drop_ws :: "(string \<Rightarrow> nat) \<Rightarrow> string \<Rightarrow> string" where
  "drop_ws w s = (if w s = 0 \<or> s = [] then s else drop_ws w (drop (w s) s))"
  by pat_completeness auto
termination
  by (relation "measure (\<lambda>(w, s). length s)") auto

declare drop_ws.simps [simp del]

definition trim_start :: "string \<Rightarrow> string" where
  "trim_start s = drop_ws ws_len s"

definition trim_end :: "string \<Rightarrow> string" where
  "trim_end s = rev (drop_ws ws_len_rev (rev s))"

definition trim :: "string \<Rightarrow> string" where
  "trim s = trim_end (trim_start s)"

text \<open>\<open>str::trim_ascii\<close>: space, tab, line feed, form feed and carriage return.\<close>

definition ascii_ws :: "char \<Rightarrow> bool" where
  "ascii_ws c \<longleftrightarrow> byte c = 32 \<or> byte c = 9 \<or> byte c = 10 \<or> byte c = 12 \<or> byte c = 13"

definition trim_ascii :: "string \<Rightarrow> string" where
  "trim_ascii s = rev (dropWhile ascii_ws (rev (dropWhile ascii_ws s)))"

lemma drop_ws_0 [str_simps]: "w s = 0 \<Longrightarrow> drop_ws w s = s"
  by (simp add: drop_ws.simps)

lemma drop_ws_Nil [str_simps]: "drop_ws w [] = []"
  by (simp add: drop_ws.simps)

lemma drop_ws_fixed: "drop_ws w s = [] \<or> w (drop_ws w s) = 0"
proof (induction w s rule: drop_ws.induct)
  case (1 w s)
  then show ?case by (cases "w s = 0 \<or> s = []") (auto simp: drop_ws.simps [of w s])
qed

lemma drop_ws_suffix: "\<exists>p. s = p @ drop_ws w s"
proof (induction w s rule: drop_ws.induct)
  case (1 w s)
  show ?case
  proof (cases "w s = 0 \<or> s = []")
    case True
    then show ?thesis by (auto simp: drop_ws.simps [of w s])
  next
    case False
    with "1.IH" obtain p where "drop (w s) s = p @ drop_ws w (drop (w s) s)" by blast
    then have "s = (take (w s) s @ p) @ drop_ws w s"
      using False by (metis append.assoc append_take_drop_id drop_ws.simps)
    then show ?thesis by blast
  qed
qed

lemma drop_ws_idem: "drop_ws w (drop_ws w s) = drop_ws w s"
  using drop_ws_fixed [of w s] by (auto simp: str_simps)

text \<open>Whether a string starts with whitespace depends on its first bytes only.\<close>

lemma ws_len_append: "0 < ws_len p \<Longrightarrow> 0 < ws_len (p @ s)"
proof (cases p rule: ws_len.cases)
  case (2 a b)
  then show "0 < ws_len p \<Longrightarrow> ?thesis" by (cases s) (auto split: if_splits)
next
  case (3 a)
  then show "0 < ws_len p \<Longrightarrow> ?thesis" by (cases "a # s" rule: ws_len.cases) (auto split: if_splits)
qed auto

lemma trim_end_prefix: "\<exists>p. s = trim_end s @ p"
proof -
  obtain q where "rev s = q @ drop_ws ws_len_rev (rev s)" using drop_ws_suffix by blast
  then have "s = trim_end s @ rev q"
    by (metis rev_append rev_rev_ident trim_end_def)
  then show ?thesis by blast
qed

lemma trim_start_trim_end: "trim_start (trim_end (trim_start s)) = trim_end (trim_start s)"
proof -
  obtain p where p: "trim_start s = trim_end (trim_start s) @ p" using trim_end_prefix by blast
  have "trim_start s = [] \<or> ws_len (trim_start s) = 0"
    unfolding trim_start_def by (rule drop_ws_fixed)
  then have "ws_len (trim_end (trim_start s)) = 0"
    using p ws_len_append [of "trim_end (trim_start s)" p] by (metis append_is_Nil_conv gr0I ws_len.simps(4) less_numeral_extra(3))
  then show ?thesis by (simp add: trim_start_def str_simps)
qed

lemma trim_idem [simp]: "trim (trim s) = trim s"
  by (simp add: trim_def trim_start_trim_end)
    (simp add: trim_end_def drop_ws_idem)

lemma trim_Nil [simp]: "trim [] = []"
  by (simp add: trim_def trim_start_def trim_end_def str_simps)

text \<open>Printable ASCII text without blanks is left alone.\<close>

definition plain_char :: "char \<Rightarrow> bool" where
  "plain_char c \<longleftrightarrow> 33 \<le> byte c \<and> byte c < 128"

lemma plain_not_ws:
  assumes "plain_char c"
  shows "\<not> ws1 c" and "\<not> ws2 c b" and "\<not> ws2 b c" and "\<not> ws3 c b d" and "\<not> ws3 b d c"
  using assms by (auto simp: plain_char_def ws1_def ws2_def ws3_def)

lemma trim_plain:
  assumes "list_all plain_char s"
  shows "trim s = s"
proof -
  have "ws_len s = 0"
    using assms by (cases s rule: ws_len.cases) (auto simp: plain_not_ws)
  moreover have "list_all plain_char (rev s)" using assms by (simp add: list_all_iff)
  then have "ws_len_rev (rev s) = 0"
    by (cases "rev s" rule: ws_len_rev.cases) (auto simp: plain_not_ws)
  ultimately show ?thesis
    by (simp add: trim_def trim_start_def trim_end_def str_simps)
qed

subsection \<open>ASCII case, prefixes and substrings\<close>

definition ascii_upper_char :: "char \<Rightarrow> char" where
  "ascii_upper_char c = (if 97 \<le> byte c \<and> byte c \<le> 122 then char_of (byte c - 32) else c)"

definition ascii_lower_char :: "char \<Rightarrow> char" where
  "ascii_lower_char c = (if 65 \<le> byte c \<and> byte c \<le> 90 then char_of (byte c + 32) else c)"

abbreviation to_ascii_uppercase :: "string \<Rightarrow> string" where
  "to_ascii_uppercase \<equiv> map ascii_upper_char"

abbreviation to_ascii_lowercase :: "string \<Rightarrow> string" where
  "to_ascii_lowercase \<equiv> map ascii_lower_char"

fun strip_prefix :: "string \<Rightarrow> string \<Rightarrow> string option" where
  "strip_prefix [] s = Some s"
| "strip_prefix (p # ps) (c # cs) = (if p = c then strip_prefix ps cs else None)"
| "strip_prefix (p # ps) [] = None"

fun starts_with :: "string \<Rightarrow> string \<Rightarrow> bool" where
  "starts_with s [] = True"
| "starts_with (c # cs) (p # ps) = (c = p \<and> starts_with cs ps)"
| "starts_with [] (p # ps) = False"

fun contains_str :: "string \<Rightarrow> string \<Rightarrow> bool" where
  "contains_str [] needle = (needle = [])"
| "contains_str (c # cs) needle = (starts_with (c # cs) needle \<or> contains_str cs needle)"

text \<open>\<open>str::is_char_boundary\<close> and \<open>str::get(..n)\<close> on UTF-8 bytes.\<close>

definition is_char_boundary :: "string \<Rightarrow> nat \<Rightarrow> bool" where
  "is_char_boundary s n \<longleftrightarrow>
     n = 0 \<or> n = length s \<or> (n < length s \<and> \<not> (128 \<le> byte (s ! n) \<and> byte (s ! n) < 192))"

definition get_prefix :: "string \<Rightarrow> nat \<Rightarrow> string option" where
  "get_prefix s n = (if is_char_boundary s n then Some (take n s) else None)"

lemma strip_prefix_Some [str_simps]: "strip_prefix p s = Some t \<longleftrightarrow> s = p @ t"
  by (induction p s rule: strip_prefix.induct) auto

lemma strip_prefix_None: "strip_prefix p s = None \<longleftrightarrow> (\<forall>t. s \<noteq> p @ t)"
  using strip_prefix_Some [of p s] by (metis not_Some_eq)

lemma starts_with_iff [str_simps]: "starts_with s p \<longleftrightarrow> (\<exists>t. s = p @ t)"
  by (induction s p rule: starts_with.induct) auto

lemma contains_str_iff: "contains_str s needle \<longleftrightarrow> (\<exists>p t. s = p @ needle @ t)"
proof (induction s)
  case Nil
  then show ?case by auto
next
  case (Cons c cs)
  show ?case
  proof
    assume "contains_str (c # cs) needle"
    then consider "starts_with (c # cs) needle" | "contains_str cs needle" by auto
    then show "\<exists>p t. c # cs = p @ needle @ t"
    proof cases
      case 1
      then show ?thesis by (metis append_Nil starts_with_iff)
    next
      case 2
      with Cons.IH show ?thesis by (metis append_Cons)
    qed
  next
    assume "\<exists>p t. c # cs = p @ needle @ t"
    then obtain p t where eq: "c # cs = p @ needle @ t" by blast
    show "contains_str (c # cs) needle"
    proof (cases p)
      case Nil
      with eq have "starts_with (c # cs) needle" by (simp add: starts_with_iff)
      then show ?thesis by simp
    next
      case (Cons q qs)
      with eq Cons.IH show ?thesis by auto
    qed
  qed
qed

lemma get_prefix_Some: "get_prefix s n = Some p \<Longrightarrow> p = take n s \<and> n \<le> length s"
  by (auto simp: get_prefix_def is_char_boundary_def split: if_splits)

lemma ascii_upper_char_idem [simp]: "ascii_upper_char (ascii_upper_char c) = ascii_upper_char c"
  by (auto simp: ascii_upper_char_def)

lemma to_ascii_uppercase_idem [simp]:
  "to_ascii_uppercase (to_ascii_uppercase s) = to_ascii_uppercase s"
  by simp

subsection \<open>Order\<close>

text \<open>The order of texts, byte by byte: the order of text columns and of the keys of a \<open>BTreeMap\<close>.\<close>

fun text_less :: "string \<Rightarrow> string \<Rightarrow> bool" where
  "text_less [] [] = False"
| "text_less [] (d # ds) = True"
| "text_less (c # cs) [] = False"
| "text_less (c # cs) (d # ds) =
     (byte c < byte d \<or> (byte c = byte d \<and> text_less cs ds))"

lemma text_less_irrefl [simp]: "\<not> text_less s s"
  by (induction s) simp_all

lemma text_less_trans: "text_less a b \<Longrightarrow> text_less b c \<Longrightarrow> text_less a c"
proof (induction a b arbitrary: c rule: text_less.induct)
  case (2 d ds)
  then show ?case by (cases c) simp_all
next
  case (4 x xs y ys)
  then show ?case by (cases c) auto
qed simp_all

lemma text_less_linear: "text_less a b \<or> a = b \<or> text_less b a"
  by (induction a b rule: text_less.induct) auto

subsection \<open>Digits\<close>

definition digit_val :: "nat \<Rightarrow> char \<Rightarrow> nat option" where
  "digit_val radix c =
     (let b = byte c;
          v = (if 48 \<le> b \<and> b \<le> 57 then b - 48
               else if 97 \<le> b \<and> b \<le> 122 then b - 87
               else if 65 \<le> b \<and> b \<le> 90 then b - 55
               else radix)
      in if v < radix then Some v else None)"

fun digits_val :: "nat \<Rightarrow> nat \<Rightarrow> string \<Rightarrow> nat option" where
  "digits_val radix acc [] = Some acc"
| "digits_val radix acc (c # cs) =
     (case digit_val radix c of None \<Rightarrow> None | Some v \<Rightarrow> digits_val radix (acc * radix + v) cs)"

text \<open>
  \<open>uN::from_str_radix\<close>: an optional plus sign, at least one digit, no overflow of the
  type (whose number of values is \<open>bound\<close>). \<open>str::parse::<uN>\<close> is radix 10.
\<close>

definition from_str_radix :: "nat \<Rightarrow> nat \<Rightarrow> string \<Rightarrow> nat option" where
  "from_str_radix radix bound s =
     (let digits = (case s of c # cs \<Rightarrow> if c = CHR ''+'' then cs else s | [] \<Rightarrow> [])
      in if digits = [] then None
         else (case digits_val radix 0 digits of
                 None \<Rightarrow> None
               | Some n \<Rightarrow> if n < bound then Some n else None))"

definition digit_char :: "nat \<Rightarrow> char" where
  "digit_char v = (if v < 10 then char_of (48 + v) else char_of (55 + v))"

text \<open>The digits of a number, most significant first (upper case above nine), \<open>0\<close> for zero.\<close>

function to_digits :: "nat \<Rightarrow> nat \<Rightarrow> string" where
  "to_digits radix n =
     (if radix < 2 \<or> n < radix then [digit_char n]
      else to_digits radix (n div radix) @ [digit_char (n mod radix)])"
  by pat_completeness auto
termination
  by (relation "measure snd") auto

declare to_digits.simps [simp del]

abbreviation decimal :: "nat \<Rightarrow> string" where
  "decimal n \<equiv> to_digits 10 n"

lemma digit_val_less: "digit_val radix c = Some v \<Longrightarrow> v < radix"
  by (simp add: digit_val_def Let_def split: if_splits)

lemma digit_val_char [str_simps]: "v < radix \<Longrightarrow> radix \<le> 16 \<Longrightarrow> digit_val radix (digit_char v) = Some v"
  by (simp add: digit_val_def digit_char_def)

lemma digits_val_append:
  "digits_val radix acc (xs @ ys) =
     (case digits_val radix acc xs of None \<Rightarrow> None | Some n \<Rightarrow> digits_val radix n ys)"
  by (induction xs arbitrary: acc) (auto split: option.splits)

lemma digits_val_to_digits:
  "2 \<le> radix \<Longrightarrow> radix \<le> 16 \<Longrightarrow> digits_val radix 0 (to_digits radix n) = Some n"
proof (induction radix n rule: to_digits.induct)
  case (1 radix n)
  show ?case
  proof (cases "n < radix")
    case True
    with "1.prems" show ?thesis by (simp add: to_digits.simps [of radix n] str_simps)
  next
    case False
    with "1.prems" "1.IH" have "digits_val radix 0 (to_digits radix (n div radix)) = Some (n div radix)"
      by simp
    with False "1.prems" show ?thesis
      by (simp add: to_digits.simps [of radix n] digits_val_append str_simps)
  qed
qed

lemma to_digits_nonempty [simp]: "to_digits radix n \<noteq> []"
  by (simp add: to_digits.simps)

lemma to_digits_set:
  assumes "2 \<le> radix"
  shows "set (to_digits radix n) \<subseteq> digit_char ` {..<radix}"
  using assms
proof (induction radix n rule: to_digits.induct)
  case (1 radix n)
  show ?case
  proof (cases "n < radix")
    case True
    with "1.prems" show ?thesis by (simp add: to_digits.simps [of radix n])
  next
    case False
    with "1.prems" "1.IH" have "set (to_digits radix (n div radix)) \<subseteq> digit_char ` {..<radix}"
      by simp
    with False "1.prems" show ?thesis by (auto simp: to_digits.simps [of radix n])
  qed
qed

lemma digit_char_ne_plus: "v < 16 \<Longrightarrow> digit_char v \<noteq> CHR ''+''"
proof
  assume "v < 16" "digit_char v = CHR ''+''"
  then have "byte (digit_char v) = 43" by simp
  with \<open>v < 16\<close> show False by (simp add: digit_char_def split: if_splits)
qed

lemma from_str_radix_to_digits:
  assumes "2 \<le> radix" "radix \<le> 16" "n < bound"
  shows "from_str_radix radix bound (to_digits radix n) = Some n"
proof -
  obtain c cs where c: "to_digits radix n = c # cs"
    using to_digits_nonempty [of radix n] by (meson neq_Nil_conv)
  moreover have "c \<noteq> CHR ''+''"
  proof -
    have "c \<in> digit_char ` {..<radix}" using to_digits_set [of radix n] assms(1) c by auto
    then obtain v where "v < radix" "c = digit_char v" by auto
    with assms(2) digit_char_ne_plus [of v] show ?thesis by simp
  qed
  ultimately show ?thesis
    using assms digits_val_to_digits [of radix n] by (simp add: from_str_radix_def)
qed

lemma from_str_radix_less: "from_str_radix radix bound s = Some n \<Longrightarrow> n < bound"
  by (auto simp: from_str_radix_def Let_def split: if_splits option.splits)

lemma filter_one_key:
  "distinct (map key xs) \<Longrightarrow> length (filter (\<lambda>x. key x = k \<and> P x) xs) = Suc 0 \<Longrightarrow> y \<in> set xs \<Longrightarrow> key y = k \<Longrightarrow> P y"
proof -
  assume d: "distinct (map key xs)" and l: "length (filter (\<lambda>x. key x = k \<and> P x) xs) = Suc 0"
    and y: "y \<in> set xs" "key y = k"
  then obtain z where "z \<in> set xs" "key z = k" "P z"
    by (metis (mono_tags, lifting) filter_False length_0_conv nat.distinct(1))
  with d y show "P y" by (metis distinct_map inj_onD)
qed

lemma image_restricted: "(i \<in> A \<and> i \<notin> f ` {x \<in> J. f x \<in> A}) = (i \<in> A \<and> i \<notin> f ` J)"
  by auto

end
