(* ===== verification/Statuses.thy ===== *)
theory Statuses
  imports Prelude
begin

text \<open>
  The closed vocabularies of \<open>crates/pandar-core/src\<close>: the error enumeration of the crate
  (\<open>lib.rs\<close>), the identifier parsers (\<open>ids.rs\<close>), the status enumerations with their
  textual form (\<open>job.rs\<close>, \<open>command.rs\<close>, \<open>agent.rs\<close>), the calibration mode, the Studio
  submission id (\<open>studio_print.rs\<close>) and the phases of a print transfer
  (\<open>print_transfer.rs\<close>).

  Every status enumeration is stored by its text and read back with \<open>FromStr\<close>. The
  interface \<open>text_enum\<close> states what the stores rely on, that the text determines the
  value and that every other text is refused, and is interpreted on each enumeration.

  Constructors of different enumerations share their names in the sources
  (\<open>JobStatus::Queued\<close>, \<open>CommandStatus::Queued\<close>); they are written with the type in front
  (\<open>job_status.Queued\<close>, \<open>command_status.Queued\<close>).
\<close>

section \<open>Errors\<close>

datatype core_error =
    InvalidTenantId
  | InvalidAgentId
  | InvalidCommandId
  | InvalidJobId
  | EmptyTenantSlug
  | EmptyTenantDisplayName
  | EmptyAgentName
  | EmptyPrinterId
  | EmptyPrinterSerialNumber
  | EmptyPrinterName
  | EmptyPrinterStatus
  | EmptyCommandKind
  | EmptyArtifactId
  | EmptyArtifactFilename
  | EmptyArtifactContentType
  | EmptyArtifactStoragePath
  | EmptyJobPrinterId
  | EmptyJobArtifactId
  | EmptyArtifactBody
  | InvalidAgentStatus string
  | InvalidCommandStatus string
  | InvalidJobStatus string
  | InvalidPrintStatus string
  | InvalidPrintCalibrationMode u8
  | InvalidStudioSubmissionId i64
  | NonFiniteStudioNumber
  | InvalidStudioPrintMetadata string

definition required :: "string \<Rightarrow> core_error \<Rightarrow> (unit, core_error) result" where
  "required v e = (if trim v \<noteq> [] then Ok () else Err e)"

lemma required_Ok [result_simps]: "required v e = Ok u \<longleftrightarrow> trim v \<noteq> []"
  by (simp add: required_def)

lemma required_Err [result_simps]: "required v e = Err e' \<longleftrightarrow> trim v = [] \<and> e' = e"
  by (auto simp: required_def)

section \<open>Identifiers\<close>

text \<open>
  The \<open>uuid_id!\<close> macro. \<open>Uuid::parse_str\<close> belongs to the \<open>uuid\<close> crate and is the parameter
  \<open>uuid_parse\<close>, which maps a text to the canonical text of the UUID it denotes.
\<close>

type_synonym uuid_parser = "string \<Rightarrow> string option"

definition parse_id :: "core_error \<Rightarrow> uuid_parser \<Rightarrow> string \<Rightarrow> (string, core_error) result" where
  "parse_id e uuid_parse v = ok_or (uuid_parse v) e"

definition TenantId_parse :: "uuid_parser \<Rightarrow> string \<Rightarrow> (tenant_id, core_error) result" where
  "TenantId_parse = parse_id InvalidTenantId"

definition AgentId_parse :: "uuid_parser \<Rightarrow> string \<Rightarrow> (agent_id, core_error) result" where
  "AgentId_parse = parse_id InvalidAgentId"

definition CommandId_parse :: "uuid_parser \<Rightarrow> string \<Rightarrow> (command_id, core_error) result" where
  "CommandId_parse = parse_id InvalidCommandId"

definition JobId_parse :: "uuid_parser \<Rightarrow> string \<Rightarrow> (job_id, core_error) result" where
  "JobId_parse = parse_id InvalidJobId"

lemmas id_parse_defs = TenantId_parse_def AgentId_parse_def CommandId_parse_def JobId_parse_def
  parse_id_def

section \<open>Status enumerations\<close>

datatype job_status = Queued | Sent | Acknowledged | Succeeded | Failed | Cancelled

primrec JobStatus_as_str :: "job_status \<Rightarrow> string" where
  "JobStatus_as_str job_status.Queued = ''queued''"
| "JobStatus_as_str job_status.Sent = ''sent''"
| "JobStatus_as_str job_status.Acknowledged = ''acknowledged''"
| "JobStatus_as_str job_status.Succeeded = ''succeeded''"
| "JobStatus_as_str job_status.Failed = ''failed''"
| "JobStatus_as_str job_status.Cancelled = ''cancelled''"

definition JobStatus_from_str :: "string \<Rightarrow> (job_status, core_error) result" where
  "JobStatus_from_str v =
     (if v = ''queued'' then Ok job_status.Queued
      else if v = ''sent'' then Ok job_status.Sent
      else if v = ''acknowledged'' then Ok job_status.Acknowledged
      else if v = ''succeeded'' then Ok job_status.Succeeded
      else if v = ''failed'' then Ok job_status.Failed
      else if v = ''cancelled'' then Ok job_status.Cancelled
      else Err (InvalidJobStatus v))"

datatype print_status = Pending | Stalled | Running | Completed | Failed | Cancelled

primrec PrintStatus_as_str :: "print_status \<Rightarrow> string" where
  "PrintStatus_as_str print_status.Pending = ''pending''"
| "PrintStatus_as_str print_status.Stalled = ''stalled''"
| "PrintStatus_as_str print_status.Running = ''running''"
| "PrintStatus_as_str print_status.Completed = ''completed''"
| "PrintStatus_as_str print_status.Failed = ''failed''"
| "PrintStatus_as_str print_status.Cancelled = ''cancelled''"

definition PrintStatus_from_str :: "string \<Rightarrow> (print_status, core_error) result" where
  "PrintStatus_from_str v =
     (if v = ''pending'' then Ok print_status.Pending
      else if v = ''stalled'' then Ok print_status.Stalled
      else if v = ''running'' then Ok print_status.Running
      else if v = ''completed'' then Ok print_status.Completed
      else if v = ''failed'' then Ok print_status.Failed
      else if v = ''cancelled'' then Ok print_status.Cancelled
      else Err (InvalidPrintStatus v))"

datatype command_status = Queued | Sent | Acknowledged | Succeeded | Failed | Cancelled

primrec CommandStatus_as_str :: "command_status \<Rightarrow> string" where
  "CommandStatus_as_str command_status.Queued = ''queued''"
| "CommandStatus_as_str command_status.Sent = ''sent''"
| "CommandStatus_as_str command_status.Acknowledged = ''acknowledged''"
| "CommandStatus_as_str command_status.Succeeded = ''succeeded''"
| "CommandStatus_as_str command_status.Failed = ''failed''"
| "CommandStatus_as_str command_status.Cancelled = ''cancelled''"

definition CommandStatus_from_str :: "string \<Rightarrow> (command_status, core_error) result" where
  "CommandStatus_from_str v =
     (if v = ''queued'' then Ok command_status.Queued
      else if v = ''sent'' then Ok command_status.Sent
      else if v = ''acknowledged'' then Ok command_status.Acknowledged
      else if v = ''succeeded'' then Ok command_status.Succeeded
      else if v = ''failed'' then Ok command_status.Failed
      else if v = ''cancelled'' then Ok command_status.Cancelled
      else Err (InvalidCommandStatus v))"

datatype agent_status = Offline | Connecting | Online

primrec AgentStatus_as_str :: "agent_status \<Rightarrow> string" where
  "AgentStatus_as_str Offline = ''offline''"
| "AgentStatus_as_str Connecting = ''connecting''"
| "AgentStatus_as_str Online = ''online''"

definition AgentStatus_from_str :: "string \<Rightarrow> (agent_status, core_error) result" where
  "AgentStatus_from_str v =
     (if v = ''offline'' then Ok Offline
      else if v = ''connecting'' then Ok Connecting
      else if v = ''online'' then Ok Online
      else Err (InvalidAgentStatus v))"

section \<open>The interface of a textual enumeration\<close>

text \<open>
  What a store relies on when it keeps an enumeration as text: reading a written value
  gives it back, what is read was written from that value, and a text outside the
  vocabulary is refused with the text in the error.
\<close>

locale text_enum =
  fixes as_str :: "'s \<Rightarrow> string"
    and from_str :: "string \<Rightarrow> ('s, core_error) result"
    and invalid :: "string \<Rightarrow> core_error"
  assumes from_as: "from_str (as_str s) = Ok s"
    and as_from: "from_str v = Ok s \<Longrightarrow> as_str s = v"
    and refused: "from_str v = Err e \<Longrightarrow> e = invalid v"
begin

lemma as_str_inject: "as_str s = as_str t \<longleftrightarrow> s = t"
  by (metis from_as result.inject(1))

lemma from_str_Ok_iff: "from_str v = Ok s \<longleftrightarrow> v = as_str s"
  using as_from from_as by blast

lemma from_str_cases: "(\<exists>s. v = as_str s \<and> from_str v = Ok s) \<or> (v \<notin> range as_str \<and> from_str v = Err (invalid v))"
proof (cases "from_str v")
  case (Ok s)
  then show ?thesis using as_from by auto
next
  case (Err e)
  then have "v \<notin> range as_str" using from_as by auto
  then show ?thesis using Err refused by blast
qed

lemma from_str_total: "from_str v = (if v \<in> range as_str then Ok (inv as_str v) else Err (invalid v))"
  using from_str_cases [of v] by (auto simp: inv_f_f inj_def as_str_inject)

end

interpretation job_status_text: text_enum JobStatus_as_str JobStatus_from_str InvalidJobStatus
proof unfold_locales
  show "JobStatus_from_str (JobStatus_as_str s) = Ok s" for s
    by (cases s) (simp_all add: JobStatus_from_str_def)
qed (auto simp: JobStatus_from_str_def split: if_splits)

interpretation print_status_text: text_enum PrintStatus_as_str PrintStatus_from_str InvalidPrintStatus
proof unfold_locales
  show "PrintStatus_from_str (PrintStatus_as_str s) = Ok s" for s
    by (cases s) (simp_all add: PrintStatus_from_str_def)
qed (auto simp: PrintStatus_from_str_def split: if_splits)

interpretation command_status_text: text_enum CommandStatus_as_str CommandStatus_from_str InvalidCommandStatus
proof unfold_locales
  show "CommandStatus_from_str (CommandStatus_as_str s) = Ok s" for s
    by (cases s) (simp_all add: CommandStatus_from_str_def)
qed (auto simp: CommandStatus_from_str_def split: if_splits)

interpretation agent_status_text: text_enum AgentStatus_as_str AgentStatus_from_str InvalidAgentStatus
proof unfold_locales
  show "AgentStatus_from_str (AgentStatus_as_str s) = Ok s" for s
    by (cases s) (simp_all add: AgentStatus_from_str_def)
qed (auto simp: AgentStatus_from_str_def split: if_splits)

lemmas status_text_simps [simp] =
  job_status_text.from_as print_status_text.from_as
  command_status_text.from_as agent_status_text.from_as
  job_status_text.as_str_inject print_status_text.as_str_inject
  command_status_text.as_str_inject agent_status_text.as_str_inject

section \<open>Calibration mode, submission id, transfer phase\<close>

datatype print_calibration_mode = Off | On | Auto

primrec PrintCalibrationMode_as_u8 :: "print_calibration_mode \<Rightarrow> u8" where
  "PrintCalibrationMode_as_u8 Off = 0"
| "PrintCalibrationMode_as_u8 On = 1"
| "PrintCalibrationMode_as_u8 Auto = 2"

definition PrintCalibrationMode_is_on :: "print_calibration_mode \<Rightarrow> bool" where
  "PrintCalibrationMode_is_on m \<longleftrightarrow> m = On"

definition PrintCalibrationMode_is_off :: "print_calibration_mode \<Rightarrow> bool" where
  "PrintCalibrationMode_is_off m \<longleftrightarrow> m = Off"

definition PrintCalibrationMode_try_from :: "u8 \<Rightarrow> (print_calibration_mode, core_error) result" where
  "PrintCalibrationMode_try_from v =
     (if v = 0 then Ok Off else if v = 1 then Ok On else if v = 2 then Ok Auto
      else Err (InvalidPrintCalibrationMode v))"

lemma PrintCalibrationMode_try_from_iff:
  "PrintCalibrationMode_try_from v = Ok m \<longleftrightarrow> v = PrintCalibrationMode_as_u8 m"
  by (cases m) (auto simp: PrintCalibrationMode_try_from_def)

datatype studio_submission_id = StudioSubmissionId (StudioSubmissionId_get: i32)

definition StudioSubmissionId_try_from :: "i64 \<Rightarrow> (studio_submission_id, core_error) result" where
  "StudioSubmissionId_try_from v =
     (if \<not> (- (2 ^ 31) \<le> v \<and> v < 2 ^ 31) then Err (InvalidStudioSubmissionId v)
      else if v \<le> 0 then Err (InvalidStudioSubmissionId v)
      else Ok (StudioSubmissionId v))"

definition StudioSubmissionId_into_i64 :: "studio_submission_id \<Rightarrow> i64" where
  "StudioSubmissionId_into_i64 i = StudioSubmissionId_get i"

lemma StudioSubmissionId_try_from_Ok [result_simps]:
  "StudioSubmissionId_try_from v = Ok i \<longleftrightarrow> 0 < v \<and> v < 2 ^ 31 \<and> i = StudioSubmissionId v"
  by (auto simp: StudioSubmissionId_try_from_def)

lemma StudioSubmissionId_try_from_Err [result_simps]:
  "StudioSubmissionId_try_from v = Err e \<longleftrightarrow> \<not> (0 < v \<and> v < 2 ^ 31) \<and> e = InvalidStudioSubmissionId v"
  by (auto simp: StudioSubmissionId_try_from_def)

datatype print_transfer_phase =
  Connect | Login | Protection | DataConnection | Write | Finalize | Verify | Timeout

primrec PrintTransferPhase_display :: "print_transfer_phase \<Rightarrow> string" where
  "PrintTransferPhase_display Connect = ''FTPS connect phase''"
| "PrintTransferPhase_display Login = ''FTPS login phase''"
| "PrintTransferPhase_display Protection = ''FTPS protection phase''"
| "PrintTransferPhase_display DataConnection = ''FTPS data connection phase''"
| "PrintTransferPhase_display Write = ''FTPS write phase''"
| "PrintTransferPhase_display Finalize = ''FTPS finalize phase''"
| "PrintTransferPhase_display Verify = ''FTPS verify phase''"
| "PrintTransferPhase_display Timeout = ''FTPS timeout phase''"

record print_transfer_failure =
  ptf_phase :: print_transfer_phase
  ptf_cause :: string

end
