(* ===== verification/Floats.thy ===== *)
theory Floats
  imports Complex_Main Prelude
begin

text \<open>
  Rust's \<open>f32\<close> and \<open>f64\<close> as far as the modelled code uses them: values are only read,
  compared and negated, never added or multiplied, so a finite value is the rational it
  denotes. The two zeros are equal in every comparison and share the rational 0. Reading a
  decimal (\<open>str::parse\<close>) rounds to the nearest value of the format, ties to the even
  significand.
\<close>

datatype rust_float = Finite rat | PosInf | NegInf | NaN

type_synonym f32 = rust_float
type_synonym f64 = rust_float

definition is_finite :: "rust_float \<Rightarrow> bool" where
  "is_finite x \<longleftrightarrow> (case x of Finite _ \<Rightarrow> True | _ \<Rightarrow> False)"

text \<open>\<open>PartialEq\<close> and \<open>PartialOrd\<close>: every comparison with NaN is false.\<close>

fun float_eq :: "rust_float \<Rightarrow> rust_float \<Rightarrow> bool" where
  "float_eq (Finite a) (Finite b) = (a = b)"
| "float_eq PosInf PosInf = True"
| "float_eq NegInf NegInf = True"
| "float_eq _ _ = False"

fun float_gt :: "rust_float \<Rightarrow> rust_float \<Rightarrow> bool" where
  "float_gt (Finite a) (Finite b) = (b < a)"
| "float_gt PosInf (Finite _) = True"
| "float_gt PosInf NegInf = True"
| "float_gt (Finite _) NegInf = True"
| "float_gt _ _ = False"

definition float_ge :: "rust_float \<Rightarrow> rust_float \<Rightarrow> bool" where
  "float_ge x y \<longleftrightarrow> float_gt x y \<or> float_eq x y"

fun float_abs :: "rust_float \<Rightarrow> rust_float" where
  "float_abs (Finite a) = Finite \<bar>a\<bar>"
| "float_abs NegInf = PosInf"
| "float_abs x = x"

fun float_neg :: "rust_float \<Rightarrow> rust_float" where
  "float_neg (Finite a) = Finite (- a)"
| "float_neg PosInf = NegInf"
| "float_neg NegInf = PosInf"
| "float_neg NaN = NaN"

lemma is_finite_iff [simp]: "is_finite x \<longleftrightarrow> (\<exists>a. x = Finite a)"
  by (cases x) (auto simp: is_finite_def)

lemma is_finite_code [code]:
  "is_finite (Finite a) = True" "is_finite PosInf = False"
  "is_finite NegInf = False" "is_finite NaN = False"
  by auto

section \<open>Rounding to a binary format\<close>

function nbits :: "int \<Rightarrow> int" where
  "nbits n = (if n \<le> 0 then 0 else 1 + nbits (n div 2))"
  by pat_completeness auto
termination
  by (relation "measure nat") auto

declare nbits.simps [simp del]

definition pow2 :: "int \<Rightarrow> rat" where
  "pow2 e = (if 0 \<le> e then 2 ^ nat e else 1 / 2 ^ nat (- e))"

text \<open>The exponent of the leading bit of a positive rational.\<close>

definition floor_log2 :: "rat \<Rightarrow> int" where
  "floor_log2 q =
     (let (a, b) = quotient_of q;
          k = nbits a - nbits b
      in if pow2 k \<le> q then k else k - 1)"

definition round_half_even :: "rat \<Rightarrow> int" where
  "round_half_even q =
     (let n = \<lfloor>q\<rfloor>; r = q - of_int n
      in if r < 1 / 2 then n else if 1 / 2 < r then n + 1 else if even n then n else n + 1)"

text \<open>
  The positive rational \<open>q\<close> in the format with \<open>prec\<close> significand bits, least exponent
  \<open>emin\<close> and values below \<open>2 ^ emax\<close>.
\<close>

definition round_positive :: "int \<Rightarrow> int \<Rightarrow> int \<Rightarrow> rat \<Rightarrow> rust_float" where
  "round_positive prec emin emax q =
     (let e = max emin (floor_log2 q - (prec - 1));
          v = of_int (round_half_even (q / pow2 e)) * pow2 e
      in if pow2 emax \<le> v then PosInf else Finite v)"

definition round_f32 :: "rat \<Rightarrow> f32" where
  "round_f32 q = (if q = 0 then Finite 0 else round_positive 24 (- 149) 128 q)"

definition round_f64 :: "rat \<Rightarrow> f64" where
  "round_f64 q = (if q = 0 then Finite 0 else round_positive 53 (- 1074) 1024 q)"

section \<open>Reading a decimal\<close>

definition is_dec_digit :: "char \<Rightarrow> bool" where
  "is_dec_digit c \<longleftrightarrow> 48 \<le> byte c \<and> byte c \<le> 57"

definition dec_value :: "string \<Rightarrow> int" where
  "dec_value s = fold (\<lambda>c acc. acc * 10 + (of_char c - 48)) s 0"

definition split_sign :: "string \<Rightarrow> bool \<times> string" where
  "split_sign s =
     (case s of [] \<Rightarrow> (False, [])
      | c # cs \<Rightarrow> if c = CHR ''-'' then (True, cs) else if c = CHR ''+'' then (False, cs)
                  else (False, s))"

definition parse_exponent :: "string \<Rightarrow> int option" where
  "parse_exponent s =
     (case s of [] \<Rightarrow> Some 0
      | c # cs \<Rightarrow>
          (let (neg, ds) = split_sign cs
           in if (c = CHR ''e'' \<or> c = CHR ''E'') \<and> ds \<noteq> [] \<and> list_all is_dec_digit ds
              then Some (if neg then - dec_value ds else dec_value ds)
              else None))"

definition parse_number :: "string \<Rightarrow> rat option" where
  "parse_number s =
     (let whole = takeWhile is_dec_digit s;
          rest = dropWhile is_dec_digit s;
          (frac, tail) =
            (case rest of
               c # cs \<Rightarrow> if c = CHR ''.'' then (takeWhile is_dec_digit cs, dropWhile is_dec_digit cs)
                         else ([], rest)
             | [] \<Rightarrow> ([], []))
      in if whole = [] \<and> frac = [] then None
         else (case parse_exponent tail of
                 None \<Rightarrow> None
               | Some e \<Rightarrow>
                   (let k = e - int (length frac); m = of_int (dec_value (whole @ frac))
                    in Some (if 0 \<le> k then m * 10 ^ nat k else m / 10 ^ nat (- k)))))"

definition parse_float :: "(rat \<Rightarrow> rust_float) \<Rightarrow> string \<Rightarrow> rust_float option" where
  "parse_float rnd s =
     (let (neg, body) = split_sign s;
          word = to_ascii_lowercase body;
          magnitude =
            (if word = ''inf'' \<or> word = ''infinity'' then Some PosInf
             else if word = ''nan'' then Some NaN
             else map_option rnd (parse_number body))
      in map_option (\<lambda>x. if neg then float_neg x else x) magnitude)"

definition parse_f32 :: "string \<Rightarrow> f32 option" where
  "parse_f32 = parse_float round_f32"

definition parse_f64 :: "string \<Rightarrow> f64 option" where
  "parse_f64 = parse_float round_f64"

end
