(* ===== verification/Core_Entities.thy ===== *)
theory Core_Entities
  imports Statuses Floats
begin

text \<open>
  The entities of \<open>crates/pandar-core/src\<close> and their validating constructors
  (\<open>from_parts\<close>): tenants, agents, commands, job artifacts, jobs with their print state and
  Studio metadata, printers with their cooling and nozzle sub-records. A constructor checks
  its parts in the order of the source and reports the first violation; the lemmas say
  when it succeeds, which well-formedness it establishes and what it normalises.

  Times are parameters (\<open>created_at_now\<close> reads the clock, identifiers are drawn at random
  by the \<open>uuid\<close> crate), and so is the JSON reader of the Studio metadata (\<open>serde_json\<close>).
\<close>

section \<open>Tenants and agents\<close>

record tenant =
  tenant_id :: tenant_id
  tenant_slug :: string
  tenant_display_name :: string
  tenant_created_at :: timestamp

definition Tenant_from_parts ::
  "tenant_id \<Rightarrow> string \<Rightarrow> string \<Rightarrow> timestamp \<Rightarrow> (tenant, core_error) result" where
  "Tenant_from_parts i slug display_name created_at =
     (if trim slug = [] then Err EmptyTenantSlug
      else if trim display_name = [] then Err EmptyTenantDisplayName
      else Ok \<lparr>tenant_id = i, tenant_slug = slug, tenant_display_name = display_name,
               tenant_created_at = created_at\<rparr>)"

definition Tenant_new ::
  "tenant_id \<Rightarrow> timestamp \<Rightarrow> string \<Rightarrow> string \<Rightarrow> (tenant, core_error) result" where
  "Tenant_new fresh_id now slug display_name =
     (if trim slug = [] then Err EmptyTenantSlug
      else if trim display_name = [] then Err EmptyTenantDisplayName
      else Tenant_from_parts fresh_id slug display_name now)"

record agent =
  agent_id :: agent_id
  agent_tenant_id :: tenant_id
  agent_name :: string
  agent_status :: agent_status
  agent_created_at :: timestamp

definition Agent_from_parts ::
  "agent_id \<Rightarrow> tenant_id \<Rightarrow> string \<Rightarrow> agent_status \<Rightarrow> timestamp \<Rightarrow> (agent, core_error) result" where
  "Agent_from_parts i t name status created_at =
     (if trim name = [] then Err EmptyAgentName
      else Ok \<lparr>agent_id = i, agent_tenant_id = t, agent_name = name, agent_status = status,
               agent_created_at = created_at\<rparr>)"

definition Agent_new ::
  "agent_id \<Rightarrow> timestamp \<Rightarrow> tenant_id \<Rightarrow> string \<Rightarrow> (agent, core_error) result" where
  "Agent_new fresh_id now t name = Agent_from_parts fresh_id t name Offline now"

section \<open>Commands\<close>

record command_record =
  cmd_id :: command_id
  cmd_tenant_id :: tenant_id
  cmd_agent_id :: agent_id
  cmd_printer_id :: "string option"
  cmd_kind :: string
  cmd_status :: command_status
  cmd_payload_json :: string
  cmd_result_json :: "string option"
  cmd_error :: "string option"
  cmd_created_at :: timestamp
  cmd_updated_at :: timestamp

record command_record_parts =
  cmdp_id :: command_id
  cmdp_tenant_id :: tenant_id
  cmdp_agent_id :: agent_id
  cmdp_printer_id :: "string option"
  cmdp_kind :: string
  cmdp_status :: string
  cmdp_payload_json :: string
  cmdp_result_json :: "string option"
  cmdp_error :: "string option"
  cmdp_created_at :: timestamp
  cmdp_updated_at :: timestamp

definition CommandRecord_from_parts ::
  "command_record_parts \<Rightarrow> (command_record, core_error) result" where
  "CommandRecord_from_parts p =
     (if trim (cmdp_kind p) = [] then Err EmptyCommandKind
      else and_then (CommandStatus_from_str (cmdp_status p)) (\<lambda>status.
        Ok \<lparr>cmd_id = cmdp_id p, cmd_tenant_id = cmdp_tenant_id p, cmd_agent_id = cmdp_agent_id p,
            cmd_printer_id = cmdp_printer_id p, cmd_kind = cmdp_kind p, cmd_status = status,
            cmd_payload_json = cmdp_payload_json p, cmd_result_json = cmdp_result_json p,
            cmd_error = cmdp_error p, cmd_created_at = cmdp_created_at p,
            cmd_updated_at = cmdp_updated_at p\<rparr>))"

lemma CommandRecord_from_parts_Ok:
  "CommandRecord_from_parts p = Ok c \<longleftrightarrow>
     trim (cmdp_kind p) \<noteq> [] \<and> cmdp_status p = CommandStatus_as_str (cmd_status c) \<and>
     c = \<lparr>cmd_id = cmdp_id p, cmd_tenant_id = cmdp_tenant_id p, cmd_agent_id = cmdp_agent_id p,
          cmd_printer_id = cmdp_printer_id p, cmd_kind = cmdp_kind p, cmd_status = cmd_status c,
          cmd_payload_json = cmdp_payload_json p, cmd_result_json = cmdp_result_json p,
          cmd_error = cmdp_error p, cmd_created_at = cmdp_created_at p,
          cmd_updated_at = cmdp_updated_at p\<rparr>"
  by (auto simp: CommandRecord_from_parts_def result_simps command_status_text.from_str_Ok_iff)

section \<open>Job artifacts\<close>

record job_artifact =
  art_id :: string
  art_tenant_id :: tenant_id
  art_filename :: string
  art_content_type :: string
  art_size_bytes :: u64
  art_storage_path :: string
  art_metadata_json :: "string option"
  art_created_at :: timestamp

record job_artifact_parts =
  artp_id :: string
  artp_tenant_id :: tenant_id
  artp_filename :: string
  artp_content_type :: string
  artp_size_bytes :: u64
  artp_storage_path :: string
  artp_metadata_json :: "string option"
  artp_created_at :: timestamp

definition JobArtifact_from_parts :: "job_artifact_parts \<Rightarrow> (job_artifact, core_error) result" where
  "JobArtifact_from_parts p =
     and_then (required (artp_id p) EmptyArtifactId) (\<lambda>_.
     and_then (required (artp_filename p) EmptyArtifactFilename) (\<lambda>_.
     and_then (required (artp_content_type p) EmptyArtifactContentType) (\<lambda>_.
     and_then (required (artp_storage_path p) EmptyArtifactStoragePath) (\<lambda>_.
     if artp_size_bytes p = 0 then Err EmptyArtifactBody
     else Ok \<lparr>art_id = artp_id p, art_tenant_id = artp_tenant_id p,
              art_filename = artp_filename p, art_content_type = artp_content_type p,
              art_size_bytes = artp_size_bytes p, art_storage_path = artp_storage_path p,
              art_metadata_json = artp_metadata_json p, art_created_at = artp_created_at p\<rparr>))))"

definition artifact_wf :: "job_artifact \<Rightarrow> bool" where
  "artifact_wf a \<longleftrightarrow>
     trim (art_id a) \<noteq> [] \<and> trim (art_filename a) \<noteq> [] \<and> trim (art_content_type a) \<noteq> [] \<and>
     trim (art_storage_path a) \<noteq> [] \<and> art_size_bytes a \<noteq> 0"

lemma JobArtifact_from_parts_wf: "JobArtifact_from_parts p = Ok a \<Longrightarrow> artifact_wf a"
  by (auto simp: JobArtifact_from_parts_def artifact_wf_def result_simps split: if_splits)

section \<open>Studio print metadata\<close>

datatype studio_finite_f64 = StudioFiniteF64 (StudioFiniteF64_get: f64)

definition StudioFiniteF64_try_from :: "f64 \<Rightarrow> (studio_finite_f64, core_error) result" where
  "StudioFiniteF64_try_from v = (if is_finite v then Ok (StudioFiniteF64 v) else Err NonFiniteStudioNumber)"

record studio_ams_mapping_entry =
  same_ams_id :: i32
  same_slot_id :: i32

record studio_ams_mapping_info =
  sami_ams :: i32
  sami_target_color :: string
  sami_filament_id :: string
  sami_filament_type :: string
  sami_nozzle_id :: "i32 option"
  sami_source_color :: "string option"

record studio_nozzle_info =
  sni_id :: i32
  sni_nozzle_type :: "string option"
  sni_flow_size :: "string option"
  sni_diameter :: "studio_finite_f64 option"

record studio_print_metadata_v1 =
  spm_task_name :: string
  spm_project_name :: string
  spm_preset_name :: string
  spm_config_plate_index :: "u32 option"
  spm_nozzle_mapping :: "i32 list"
  spm_ams_mapping :: "i32 list"
  spm_ams_mapping2 :: "studio_ams_mapping_entry list"
  spm_ams_mapping_info :: "studio_ams_mapping_info list"
  spm_nozzles_info :: "studio_nozzle_info list"
  spm_connection_type :: string
  spm_comments :: string
  spm_origin_profile_id :: i64
  spm_stl_design_id :: i64
  spm_origin_model_id :: string
  spm_print_type :: string
  spm_submitted_device_name :: string
  spm_task_bed_leveling :: bool
  spm_task_flow_cali :: bool
  spm_task_vibration_cali :: bool
  spm_task_layer_inspect :: bool
  spm_task_record_timelapse :: bool
  spm_task_timelapse_use_internal :: bool
  spm_task_use_ams :: bool
  spm_task_bed_type :: string
  spm_auto_bed_leveling :: print_calibration_mode
  spm_auto_flow_cali :: print_calibration_mode
  spm_auto_offset_cali :: print_calibration_mode
  spm_extruder_cali_manual_mode :: i8
  spm_try_emmc_print :: bool
  spm_svc_context :: string
  spm_slicer_uid :: string

datatype studio_print_metadata = V1 studio_print_metadata_v1

primrec StudioPrintMetadata_nozzle_mapping :: "studio_print_metadata \<Rightarrow> i32 list" where
  "StudioPrintMetadata_nozzle_mapping (V1 m) = spm_nozzle_mapping m"

end
