(* ===== verification/Core_Jobs.thy ===== *)
theory Core_Jobs
  imports Core_Entities
begin

text \<open>
  Jobs (\<open>crates/pandar-core/src/job.rs\<close>): the print state, the filament usage rows, the
  stored parts and the validating constructor \<open>Job::from_parts\<close>. The well-formedness it
  establishes is \<open>job_wf\<close>: a printer and an artifact are named and the Studio submission id is
  a positive 32-bit integer. \<open>JobPrintState::pending\<close> is the state of a job that was never
  reported on.
\<close>

record job_print_state =
  jps_status :: print_status
  jps_printer_state :: "string option"
  jps_progress_percent :: "u8 option"
  jps_remaining_time_minutes :: "u32 option"
  jps_current_layer :: "u32 option"
  jps_total_layers :: "u32 option"
  jps_active_file :: "string option"
  jps_last_progress_percent :: "u8 option"
  jps_last_layer :: "u32 option"
  jps_error :: "string option"
  jps_started_at :: "timestamp option"
  jps_finished_at :: "timestamp option"
  jps_updated_at :: "timestamp option"

definition JobPrintState_pending :: job_print_state where
  "JobPrintState_pending =
     \<lparr>jps_status = print_status.Pending, jps_printer_state = None, jps_progress_percent = None,
      jps_remaining_time_minutes = None, jps_current_layer = None, jps_total_layers = None,
      jps_active_file = None, jps_last_progress_percent = None, jps_last_layer = None,
      jps_error = None, jps_started_at = None, jps_finished_at = None, jps_updated_at = None\<rparr>"

record job_filament_usage =
  jfu_id :: string
  jfu_tenant_id :: tenant_id
  jfu_job_id :: job_id
  jfu_slot_index :: u32
  jfu_source :: string
  jfu_ams_id :: "string option"
  jfu_tray_id :: "string option"
  jfu_global_tray_id :: "u32 option"
  jfu_external_id :: "string option"
  jfu_filament_id :: "string option"
  jfu_setting_id :: "string option"
  jfu_filament_type :: "string option"
  jfu_color :: "string option"
  jfu_used_mm :: "string option"
  jfu_used_grams :: "string option"
  jfu_confidence :: string
  jfu_created_at :: timestamp

record job =
  job_id :: job_id
  job_tenant_id :: tenant_id
  job_printer_id :: string
  job_agent_id :: agent_id
  job_artifact_id :: string
  job_command_id :: command_id
  job_studio_submission_id :: studio_submission_id
  job_plate_index :: u32
  job_studio_metadata :: "studio_print_metadata option"
  job_status :: job_status
  job_error :: "string option"
  job_print :: job_print_state
  job_ams_mapping_json :: "string option"
  job_ams_mapping2_json :: "string option"
  job_ams_mapping_info_json :: "string option"
  job_uploaded_url :: "string option"
  job_filament_usage :: "job_filament_usage list"
  job_created_at :: timestamp
  job_updated_at :: timestamp

record job_parts =
  jp_id :: job_id
  jp_tenant_id :: tenant_id
  jp_printer_id :: string
  jp_agent_id :: agent_id
  jp_artifact_id :: string
  jp_command_id :: command_id
  jp_studio_submission_id :: i64
  jp_plate_index :: u32
  jp_studio_metadata_json :: "string option"
  jp_status :: string
  jp_error :: "string option"
  jp_print_status :: string
  jp_printer_state :: "string option"
  jp_progress_percent :: "u8 option"
  jp_remaining_time_minutes :: "u32 option"
  jp_current_layer :: "u32 option"
  jp_total_layers :: "u32 option"
  jp_active_file :: "string option"
  jp_last_progress_percent :: "u8 option"
  jp_last_layer :: "u32 option"
  jp_print_error :: "string option"
  jp_print_started_at :: "timestamp option"
  jp_print_finished_at :: "timestamp option"
  jp_print_updated_at :: "timestamp option"
  jp_ams_mapping_json :: "string option"
  jp_ams_mapping2_json :: "string option"
  jp_ams_mapping_info_json :: "string option"
  jp_uploaded_url :: "string option"
  jp_filament_usage :: "job_filament_usage list"
  jp_created_at :: timestamp
  jp_updated_at :: timestamp

text \<open>
  The reader of the Studio metadata is \<open>serde_json::from_str\<close>, which gives the metadata or the
  text of its error.
\<close>

type_synonym metadata_reader = "string \<Rightarrow> (studio_print_metadata, string) result"

definition read_studio_metadata ::
  "metadata_reader \<Rightarrow> string option \<Rightarrow> (studio_print_metadata option, core_error) result" where
  "read_studio_metadata json m =
     traverse_option (\<lambda>v. map_err InvalidStudioPrintMetadata (json v)) m"

definition Job_from_parts :: "metadata_reader \<Rightarrow> job_parts \<Rightarrow> (job, core_error) result" where
  "Job_from_parts json p =
     and_then (required (jp_printer_id p) EmptyJobPrinterId) (\<lambda>_.
     and_then (required (jp_artifact_id p) EmptyJobArtifactId) (\<lambda>_.
     and_then (StudioSubmissionId_try_from (jp_studio_submission_id p)) (\<lambda>submission.
     and_then (read_studio_metadata json (jp_studio_metadata_json p)) (\<lambda>metadata.
     and_then (JobStatus_from_str (jp_status p)) (\<lambda>status.
     and_then (PrintStatus_from_str (jp_print_status p)) (\<lambda>print_status.
     Ok \<lparr>job_id = jp_id p, job_tenant_id = jp_tenant_id p, job_printer_id = jp_printer_id p,
         job_agent_id = jp_agent_id p, job_artifact_id = jp_artifact_id p,
         job_command_id = jp_command_id p, job_studio_submission_id = submission,
         job_plate_index = jp_plate_index p, job_studio_metadata = metadata,
         job_status = status, job_error = jp_error p,
         job_print =
           \<lparr>jps_status = print_status, jps_printer_state = jp_printer_state p,
            jps_progress_percent = jp_progress_percent p,
            jps_remaining_time_minutes = jp_remaining_time_minutes p,
            jps_current_layer = jp_current_layer p, jps_total_layers = jp_total_layers p,
            jps_active_file = jp_active_file p,
            jps_last_progress_percent = jp_last_progress_percent p,
            jps_last_layer = jp_last_layer p, jps_error = jp_print_error p,
            jps_started_at = jp_print_started_at p, jps_finished_at = jp_print_finished_at p,
            jps_updated_at = jp_print_updated_at p\<rparr>,
         job_ams_mapping_json = jp_ams_mapping_json p,
         job_ams_mapping2_json = jp_ams_mapping2_json p,
         job_ams_mapping_info_json = jp_ams_mapping_info_json p,
         job_uploaded_url = jp_uploaded_url p, job_filament_usage = jp_filament_usage p,
         job_created_at = jp_created_at p, job_updated_at = jp_updated_at p\<rparr>))))))"

definition job_wf :: "job \<Rightarrow> bool" where
  "job_wf j \<longleftrightarrow>
     trim (job_printer_id j) \<noteq> [] \<and> trim (job_artifact_id j) \<noteq> [] \<and>
     0 < StudioSubmissionId_get (job_studio_submission_id j) \<and>
     StudioSubmissionId_get (job_studio_submission_id j) < 2 ^ 31"

lemma Job_from_parts_wf: "Job_from_parts json p = Ok j \<Longrightarrow> job_wf j"
  by (auto simp: Job_from_parts_def job_wf_def result_simps)

text \<open>The stored texts are the texts of the statuses read.\<close>

lemma Job_from_parts_statuses:
  "Job_from_parts json p = Ok j \<Longrightarrow>
     jp_status p = JobStatus_as_str (job_status j) \<and>
     jp_print_status p = PrintStatus_as_str (jps_status (job_print j))"
  by (auto simp: Job_from_parts_def result_simps
      job_status_text.from_str_Ok_iff print_status_text.from_str_Ok_iff)

end
