(* ===== verification/Json.thy ===== *)
theory Json
  imports Floats
begin

text \<open>
  The value type of \<open>serde_json\<close> the sources pattern-match on. A number is a non-negative
  integer that fits \<open>u64\<close>, a negative integer that fits \<open>i64\<close>, or an \<open>f64\<close>; an object is
  the association list of its entries in key order (\<open>serde_json\<close>'s map is a
  \<open>BTreeMap<String, Value>\<close> in this workspace), so a key occurs once.
\<close>

datatype json_number = PosInt u64 | NegInt int | Float f64

datatype json =
    JNull
  | JBool bool
  | JNumber json_number
  | JString string
  | JArray "json list"
  | JObject "(string \<times> json) list"

fun as_u64 :: "json \<Rightarrow> u64 option" where
  "as_u64 (JNumber (PosInt n)) = Some n"
| "as_u64 _ = None"

fun as_str :: "json \<Rightarrow> string option" where
  "as_str (JString s) = Some s"
| "as_str _ = None"

fun as_object :: "json \<Rightarrow> (string \<times> json) list option" where
  "as_object (JObject m) = Some m"
| "as_object _ = None"

fun as_array :: "json \<Rightarrow> json list option" where
  "as_array (JArray xs) = Some xs"
| "as_array _ = None"

text \<open>\<open>Value::get\<close> with a string key.\<close>

fun json_get :: "json \<Rightarrow> string \<Rightarrow> json option" where
  "json_get (JObject m) k = map_of m k"
| "json_get _ k = None"

section \<open>Objects\<close>

type_synonym json_object = "(string \<times> json) list"

fun obj_insert :: "string \<Rightarrow> json \<Rightarrow> json_object \<Rightarrow> json_object" where
  "obj_insert k v [] = [(k, v)]"
| "obj_insert k v ((k', v') # m) =
     (if k' = k then (k, v) # m
      else if text_less k k' then (k, v) # (k', v') # m
      else (k', v') # obj_insert k v m)"

definition obj_wf :: "json_object \<Rightarrow> bool" where
  "obj_wf m \<longleftrightarrow> sorted_wrt text_less (map fst m)"

lemma map_of_obj_insert: "map_of (obj_insert k v m) = (map_of m)(k \<mapsto> v)"
  by (induction k v m rule: obj_insert.induct) auto

lemma set_obj_insert: "set (obj_insert k v m) \<subseteq> insert (k, v) (set m)"
  by (induction k v m rule: obj_insert.induct) auto

lemma obj_wf_insert: "obj_wf m \<Longrightarrow> obj_wf (obj_insert k v m)"
proof (induction k v m rule: obj_insert.induct)
  case (2 k v k' v' m)
  have "\<forall>x \<in> set (obj_insert k v m). text_less k' (fst x)" if "text_less k' k"
    using 2(2) that set_obj_insert [of k v m] by (auto simp: obj_wf_def)
  moreover have "\<forall>x \<in> set m. text_less k (fst x)" if "text_less k k'"
    using 2(2) that text_less_trans by (auto simp: obj_wf_def)
  ultimately show ?case
    using 2 text_less_linear [of k k'] by (auto simp: obj_wf_def)
qed (simp add: obj_wf_def)

lemma obj_wf_filter: "obj_wf m \<Longrightarrow> obj_wf (filter P m)"
  by (induction m) (auto simp: obj_wf_def)

lemma obj_wf_distinct: "obj_wf m \<Longrightarrow> distinct (map fst m)"
  by (induction m) (auto simp: obj_wf_def)

end
