(* ===== verification/Hub_Audit.thy ===== *)
theory Hub_Audit
  imports Json
begin

text \<open>
  \<open>crates/pandar-hub/src/repositories/audit.rs\<close>: the audit events the hub writes in the same
  transaction as the change they record. The metadata of the event and of its actor are
  merged; on a shared key the actor's entry wins. The rendering of the metadata
  as JSON text is \<open>serde_json::to_string\<close>, a parameter.
\<close>

datatype audit_metadata =
    AuditObject "(string \<times> audit_metadata) list"
  | AuditArray "audit_metadata list"
  | AuditString string
  | AuditNumber json_number
  | AuditBool bool
  | AuditNull

record audit_event =
  ev_id :: string
  ev_tenant_id :: tenant_id
  ev_actor_type :: string
  ev_user_id :: "string option"
  ev_action :: string
  ev_target_type :: string
  ev_target_id :: "string option"
  ev_metadata_json :: string
  ev_created_at :: timestamp

record audit_actor =
  actor_type :: string
  actor_user_id :: "string option"
  actor_metadata :: "audit_metadata option"

text \<open>A \<open>BTreeMap\<close> by its entries: \<open>insert\<close> replaces the value of a present key.\<close>

fun btree_insert :: "string \<Rightarrow> 'v \<Rightarrow> (string \<times> 'v) list \<Rightarrow> (string \<times> 'v) list" where
  "btree_insert k v [] = [(k, v)]"
| "btree_insert k v ((k', v') # m) =
     (if k = k' then (k, v) # m else (k', v') # btree_insert k v m)"

definition btree_extend :: "(string \<times> 'v) list \<Rightarrow> (string \<times> 'v) list \<Rightarrow> (string \<times> 'v) list" where
  "btree_extend m n = fold (\<lambda>(k, v). btree_insert k v) n m"

definition merge_actor_metadata :: "audit_metadata \<Rightarrow> audit_metadata option \<Rightarrow> audit_metadata" where
  "merge_actor_metadata metadata actor =
     (case actor of
        None \<Rightarrow> metadata
      | Some a \<Rightarrow>
          (let merged = (case metadata of AuditObject m \<Rightarrow> m | other \<Rightarrow> [(''metadata'', other)])
           in AuditObject (case a of AuditObject n \<Rightarrow> btree_extend merged n | _ \<Rightarrow> merged)))"

definition record_audit_event ::
  "(audit_metadata \<Rightarrow> string) \<Rightarrow> string \<Rightarrow> timestamp \<Rightarrow> tenant_id \<Rightarrow> audit_actor \<Rightarrow> string \<Rightarrow> string \<Rightarrow>
     string option \<Rightarrow> audit_metadata \<Rightarrow> audit_event" where
  "record_audit_event to_text fresh_id now tenant actor action target_type target metadata =
     \<lparr>ev_id = fresh_id, ev_tenant_id = tenant, ev_actor_type = actor_type actor,
      ev_user_id = actor_user_id actor, ev_action = action, ev_target_type = target_type,
      ev_target_id = target,
      ev_metadata_json = to_text (merge_actor_metadata metadata (actor_metadata actor)),
      ev_created_at = now\<rparr>"

definition AuditActor_user :: "string \<Rightarrow> audit_actor" where
  "AuditActor_user u = \<lparr>actor_type = ''user'', actor_user_id = Some u, actor_metadata = None\<rparr>"

definition token_metadata :: "string \<Rightarrow> string list \<Rightarrow> audit_metadata" where
  "token_metadata token_id scopes =
     AuditObject [(''tenant_token_id'', AuditString token_id),
                  (''tenant_token_scopes'', AuditArray (map AuditString scopes))]"

definition AuditActor_tenant_token :: "string option \<Rightarrow> string \<Rightarrow> string list \<Rightarrow> audit_actor" where
  "AuditActor_tenant_token u token_id scopes =
     \<lparr>actor_type = ''tenant_token'', actor_user_id = u,
      actor_metadata = Some (token_metadata token_id scopes)\<rparr>"

definition AuditActor_plugin_token :: "string option \<Rightarrow> string \<Rightarrow> string list \<Rightarrow> audit_actor" where
  "AuditActor_plugin_token u token_id scopes =
     \<lparr>actor_type = ''plugin_token'', actor_user_id = u,
      actor_metadata = Some (token_metadata token_id scopes)\<rparr>"

definition AuditActor_no_auth :: audit_actor where
  "AuditActor_no_auth = \<lparr>actor_type = ''no_auth'', actor_user_id = None, actor_metadata = None\<rparr>"

section \<open>Properties\<close>

lemma map_of_btree_insert: "map_of (btree_insert k v m) = (map_of m)(k \<mapsto> v)"
  by (induction m) auto

lemma keys_btree_insert:
  "set (map fst (btree_insert k v m)) = insert k (set (map fst m))"
  by (induction k v m rule: btree_insert.induct) (simp_all add: insert_commute)

lemma distinct_btree_insert: "distinct (map fst m) \<Longrightarrow> distinct (map fst (btree_insert k v m))"
proof (induction m)
  case (Cons e m)
  then show ?case using keys_btree_insert [of k v m] by (cases e) auto
qed simp

lemma map_of_btree_extend:
  "distinct (map fst n) \<Longrightarrow> map_of (btree_extend m n) = map_of m ++ map_of n"
proof (induction n arbitrary: m)
  case Nil
  then show ?case by (simp add: btree_extend_def)
next
  case (Cons e n)
  obtain k v where e: "e = (k, v)" by (cases e)
  have "map_of (btree_extend m (e # n)) = map_of (btree_insert k v m) ++ map_of n"
    using Cons by (simp add: btree_extend_def e)
  moreover have "map_of n k = None" using Cons.prems by (simp add: e map_of_eq_None_iff)
  ultimately show ?case
    by (auto simp: map_of_btree_insert e map_add_def fun_eq_iff split: option.split)
qed

lemma distinct_btree_extend: "distinct (map fst m) \<Longrightarrow> distinct (map fst (btree_extend m n))"
  by (induction n arbitrary: m) (auto simp: btree_extend_def distinct_btree_insert)

text \<open>
  An audit event always carries the whole identity of its actor. Whatever the metadata
  of the event, every entry of the actor's metadata object is found in the merged object,
  and every other entry of the event's object is kept.
\<close>

lemma merge_actor_metadata_lookup:
  assumes "distinct (map fst n)"
  shows "\<exists>m'. merge_actor_metadata (AuditObject m) (Some (AuditObject n)) = AuditObject m' \<and>
           (\<forall>k. map_of m' k = (case map_of n k of Some v \<Rightarrow> Some v | None \<Rightarrow> map_of m k))"
  using assms by (simp add: merge_actor_metadata_def map_of_btree_extend map_add_def)

end
