(* ===== verification/Hub_Store.thy ===== *)
theory Hub_Store
  imports Core_Jobs Hub_Audit
begin

text \<open>
  The hub's database as the repositories of \<open>crates/pandar-hub/src/repositories\<close> see it: one
  list of row records per table (\<open>crates/pandar-hub/src/entities\<close>), \<open>update_many\<close> with the
  number of rows it changed, lookups by primary key, and the error type of the
  repositories. An operation is one transaction: it gives the new database, or an error and
  then the transaction is rolled back. Failures of the database itself (connection loss,
  serialization failure) are not modelled.

  The locale \<open>guarded_update\<close> is the contract of the updates that the command and job
  repositories issue: they keep the primary key and touch no row in a terminal status.
\<close>

section \<open>Errors\<close>

text \<open>
  \<open>anyhow::Error\<close> is represented by its outermost context, or by the domain error it wraps.
\<close>

datatype anyhow_error = CoreErr core_error | Message string

datatype repository_error =
    DuplicateTenantSlug
  | DuplicateAgentName
  | DuplicateTenantTokenHash
  | DuplicatePluginLoginTicketHash
  | DuplicateJoinLinkHash
  | DuplicateUserEmail
  | DuplicateExternalIdentity
  | DuplicateUserExternalIdentity
  | MissingTenant
  | MissingUser
  | LastTenantAdmin
  | MissingTenantToken
  | MissingPluginLoginTicket
  | InvalidJoinLink
  | JoinLinkEmailMismatch
  | MissingAgent
  | AgentOnline
  | AgentSessionNotCurrent
  | MissingPrinter
  | MissingPersonalPreset
  | DuplicatePersonalPresetName
  | PersonalPresetLimitExceeded
  | InvalidPersonalPreset
  | PersonalPresetTooLarge
  | PersonalPresetClockExhausted
  | InvalidPersistedPersonalPreset anyhow_error
  | MissingCommand
  | MissingJob
  | ArtifactQuotaExceeded
  | JobNotClearable
  | CommandOwnershipMismatch
  | InvalidCommandTransition (ict_from: string) (ict_action: string)
  | InvalidPersistedStatus string
  | InvalidPersistedCommandStatus string
  | InvalidPersistedJobStatus string
  | InvalidPersistedPrintStatus string
  | InvalidPersistedArtifactMetadata anyhow_error
  | InvalidPersistedStudioMetadata anyhow_error
  | InvalidPersistedUserRole string
  | InvalidTokenScope string
  | InvalidPluginRedirectUrl
  | RetryNotSafe
  | H2cNozzleMappingRequired
  | ReprintNotAllowed
  | StudioSubmissionIdExhausted
  | StudioCancellationTooLate
  | PrinterControlUnavailable
  | InvalidPrinterControl
  | Database anyhow_error

type_synonym 'a repository_result = "('a, repository_error) result"

section \<open>Rows\<close>

record agent_row =
  ar_id :: string
  ar_tenant_id :: string
  ar_name :: string
  ar_status :: string
  ar_version :: "string option"
  ar_last_seen_at :: "timestamp option"
  ar_created_at :: timestamp
  ar_credential_hash :: "string option"
  ar_credential_rotated_at :: "timestamp option"
  ar_credential_revoked_at :: "timestamp option"
  ar_current_session_id :: "string option"

record command_row =
  cr_id :: string
  cr_tenant_id :: string
  cr_agent_id :: string
  cr_printer_id :: "string option"
  cr_kind :: string
  cr_status :: string
  cr_payload_json :: string
  cr_result_json :: "string option"
  cr_error :: "string option"
  cr_created_at :: timestamp
  cr_updated_at :: timestamp

record job_row =
  jr_id :: string
  jr_tenant_id :: string
  jr_printer_id :: string
  jr_agent_id :: string
  jr_artifact_id :: string
  jr_command_id :: string
  jr_studio_submission_id :: i32
  jr_plate_index :: i32
  jr_studio_metadata_json :: "string option"
  jr_status :: string
  jr_error :: "string option"
  jr_created_at :: timestamp
  jr_updated_at :: timestamp
  jr_print_status :: string
  jr_printer_state :: "string option"
  jr_progress_percent :: "i32 option"
  jr_remaining_time_minutes :: "i32 option"
  jr_current_layer :: "i32 option"
  jr_total_layers :: "i32 option"
  jr_active_file :: "string option"
  jr_last_progress_percent :: "i32 option"
  jr_last_layer :: "i32 option"
  jr_print_error :: "string option"
  jr_print_started_at :: "timestamp option"
  jr_print_finished_at :: "timestamp option"
  jr_print_updated_at :: "timestamp option"
  jr_ams_mapping_json :: "string option"
  jr_ams_mapping2_json :: "string option"
  jr_ams_mapping_info_json :: "string option"
  jr_uploaded_url :: "string option"

record artifact_row =
  fr_id :: string
  fr_tenant_id :: string
  fr_filename :: string
  fr_content_type :: string
  fr_size_bytes :: i64
  fr_storage_path :: string
  fr_metadata_json :: "string option"
  fr_created_at :: timestamp

record usage_row =
  ur_id :: string
  ur_tenant_id :: string
  ur_job_id :: string
  ur_slot_index :: i32
  ur_source :: string
  ur_ams_id :: "string option"
  ur_tray_id :: "string option"
  ur_global_tray_id :: "i32 option"
  ur_external_id :: "string option"
  ur_filament_id :: "string option"
  ur_setting_id :: "string option"
  ur_filament_type :: "string option"
  ur_color :: "string option"
  ur_used_mm :: "string option"
  ur_used_grams :: "string option"
  ur_confidence :: string
  ur_created_at :: timestamp

text \<open>The identifying columns of \<open>printers\<close>, which is all the job store reads of that table.\<close>

record printer_row =
  prr_id :: string
  prr_tenant_id :: string
  prr_agent_id :: string
  prr_serial_number :: string
  prr_name :: string
  prr_model :: "string option"

record sequence_row =
  sr_tenant_id :: string
  sr_last_id :: i64

record hub_db =
  db_agents :: "agent_row list"
  db_commands :: "command_row list"
  db_jobs :: "job_row list"
  db_artifacts :: "artifact_row list"
  db_usages :: "usage_row list"
  db_printers :: "printer_row list"
  db_sequences :: "sequence_row list"
  db_audit :: "audit_event list"
  db_artifact_deletions :: "string list"

datatype db_backend = Sqlite | Postgres

section \<open>Foreign keys\<close>

text \<open>
  What deleting a row does to the rows that refer to it (\<open>migrations/shared\<close>): usage rows go with their job, jobs with
  their command or printer, printers, commands and jobs with their agent; a command whose printer goes stays
  and loses the reference. Tenants are never deleted.
\<close>

definition delete_job_rows :: "(job_row \<Rightarrow> bool) \<Rightarrow> hub_db \<Rightarrow> hub_db" where
  "delete_job_rows gone db =
     (let ids = map jr_id (filter gone (db_jobs db))
      in db\<lparr>db_jobs := filter (\<lambda>j. \<not> gone j) (db_jobs db),
            db_usages := filter (\<lambda>u. ur_job_id u \<notin> set ids) (db_usages db)\<rparr>)"

definition delete_command_rows :: "(command_row \<Rightarrow> bool) \<Rightarrow> hub_db \<Rightarrow> hub_db" where
  "delete_command_rows gone db =
     (let ids = map cr_id (filter gone (db_commands db))
      in delete_job_rows (\<lambda>j. jr_command_id j \<in> set ids)
           (db\<lparr>db_commands := filter (\<lambda>c. \<not> gone c) (db_commands db)\<rparr>))"

definition forget_printers :: "string list \<Rightarrow> command_row \<Rightarrow> command_row" where
  "forget_printers ids c =
     (if cr_printer_id c \<in> Some ` set ids then c\<lparr>cr_printer_id := None\<rparr> else c)"

definition delete_printer_rows :: "(printer_row \<Rightarrow> bool) \<Rightarrow> hub_db \<Rightarrow> hub_db" where
  "delete_printer_rows gone db =
     (let ids = map prr_id (filter gone (db_printers db))
      in delete_job_rows (\<lambda>j. jr_printer_id j \<in> set ids)
           (db\<lparr>db_printers := filter (\<lambda>p. \<not> gone p) (db_printers db),
               db_commands := map (forget_printers ids) (db_commands db)\<rparr>))"

definition delete_agent_rows :: "(agent_row \<Rightarrow> bool) \<Rightarrow> hub_db \<Rightarrow> hub_db" where
  "delete_agent_rows gone db =
     (let ids = map ar_id (filter gone (db_agents db))
      in delete_job_rows (\<lambda>j. jr_agent_id j \<in> set ids)
           (delete_command_rows (\<lambda>c. cr_agent_id c \<in> set ids)
             (delete_printer_rows (\<lambda>p. prr_agent_id p \<in> set ids)
               (db\<lparr>db_agents := filter (\<lambda>a. \<not> gone a) (db_agents db)\<rparr>))))"

lemma delete_job_rows_tables [simp]:
  "db_jobs (delete_job_rows gone db) = filter (\<lambda>j. \<not> gone j) (db_jobs db)"
  "db_commands (delete_job_rows gone db) = db_commands db"
  "db_agents (delete_job_rows gone db) = db_agents db"
  "db_printers (delete_job_rows gone db) = db_printers db"
  "db_artifacts (delete_job_rows gone db) = db_artifacts db"
  "db_artifact_deletions (delete_job_rows gone db) = db_artifact_deletions db"
  "db_audit (delete_job_rows gone db) = db_audit db"
  by (simp_all add: delete_job_rows_def Let_def)

lemma delete_command_rows_tables [simp]:
  "db_jobs (delete_command_rows gone db) =
     filter (\<lambda>j. jr_command_id j \<notin> cr_id ` set (filter gone (db_commands db))) (db_jobs db)"
  "db_commands (delete_command_rows gone db) = filter (\<lambda>c. \<not> gone c) (db_commands db)"
  "db_agents (delete_command_rows gone db) = db_agents db"
  "db_printers (delete_command_rows gone db) = db_printers db"
  "db_audit (delete_command_rows gone db) = db_audit db"
  by (simp_all add: delete_command_rows_def Let_def)

lemma delete_printer_rows_tables [simp]:
  "db_jobs (delete_printer_rows gone db) =
     filter (\<lambda>j. jr_printer_id j \<notin> prr_id ` set (filter gone (db_printers db))) (db_jobs db)"
  "db_commands (delete_printer_rows gone db) = map (forget_printers (map prr_id (filter gone (db_printers db)))) (db_commands db)"
  "db_printers (delete_printer_rows gone db) = filter (\<lambda>p. \<not> gone p) (db_printers db)"
  "db_agents (delete_printer_rows gone db) = db_agents db"
  "db_audit (delete_printer_rows gone db) = db_audit db"
  by (simp_all add: delete_printer_rows_def Let_def)

lemma forget_printers_columns [simp]:
  "cr_id (forget_printers ids c) = cr_id c" "cr_kind (forget_printers ids c) = cr_kind c"
  "cr_status (forget_printers ids c) = cr_status c" "cr_agent_id (forget_printers ids c) = cr_agent_id c"
  by (simp_all add: forget_printers_def)

section \<open>Queries\<close>

definition find_by_id :: "('r \<Rightarrow> string) \<Rightarrow> string \<Rightarrow> 'r list \<Rightarrow> 'r option" where
  "find_by_id key i rows = find (\<lambda>r. key r = i) rows"

definition update_many :: "('r \<Rightarrow> bool) \<Rightarrow> ('r \<Rightarrow> 'r) \<Rightarrow> 'r list \<Rightarrow> 'r list \<times> nat" where
  "update_many p f rows = (map (\<lambda>r. if p r then f r else r) rows, length (filter p rows))"

lemma find_by_id_Some:
  "find_by_id key i rows = Some r \<Longrightarrow> r \<in> set rows \<and> key r = i"
  by (auto simp: find_by_id_def find_Some_iff)

lemma find_by_id_eq_Some:
  assumes "distinct (map key rows)"
  shows "find_by_id key i rows = Some r \<longleftrightarrow> r \<in> set rows \<and> key r = i"
proof
  assume r: "r \<in> set rows \<and> key r = i"
  then obtain s where s: "find_by_id key i rows = Some s"
    by (cases "find_by_id key i rows") (auto simp: find_by_id_def find_None_iff)
  then have "s \<in> set rows \<and> key s = i" by (rule find_by_id_Some)
  with r assms have "s = r" by (auto simp: distinct_map inj_on_def)
  with s show "find_by_id key i rows = Some r" by simp
qed (rule find_by_id_Some)

lemma find_by_id_None: "find_by_id key i rows = None \<longleftrightarrow> i \<notin> key ` set rows"
  by (auto simp: find_by_id_def find_None_iff)

lemma find_by_id_map:
  assumes "\<And>r. key (g r) = key r"
  shows "find_by_id key i (map g rows) = map_option g (find_by_id key i rows)"
  using assms by (induction rows) (auto simp: find_by_id_def)

lemma update_many_fst: "fst (update_many p f rows) = map (\<lambda>r. if p r then f r else r) rows"
  by (simp add: update_many_def)

lemma update_many_snd: "snd (update_many p f rows) = length (filter p rows)"
  by (simp add: update_many_def)

lemma update_many_keys:
  "(\<And>r. key (f r) = key r) \<Longrightarrow> map key (fst (update_many p f rows)) = map key rows"
  by (simp add: update_many_def)

lemma update_many_none: "snd (update_many p f rows) = 0 \<Longrightarrow> fst (update_many p f rows) = rows"
  by (auto simp: update_many_def filter_empty_conv intro: map_idI)

text \<open>A predicate that pins the primary key selects at most one row.\<close>

lemma filter_key_length:
  assumes "distinct (map key rows)" and "\<And>r. p r \<Longrightarrow> key r = i"
  shows "length (filter p rows) \<le> 1"
proof -
  have "distinct (map key (filter p rows))" using assms(1) by (rule distinct_map_filter)
  moreover have "set (map key (filter p rows)) \<subseteq> {i}" using assms(2) by auto
  then have "card (set (map key (filter p rows))) \<le> card {i}" by (rule card_mono [rotated]) simp
  ultimately show ?thesis using distinct_card [of "map key (filter p rows)"] by simp
qed

section \<open>The contract of a guarded update\<close>

definition terminal_text :: "string \<Rightarrow> bool" where
  "terminal_text s \<longleftrightarrow> s = ''succeeded'' \<or> s = ''failed'' \<or> s = ''cancelled''"

locale guarded_update =
  fixes key :: "'r \<Rightarrow> string"
    and status :: "'r \<Rightarrow> string"
    and valid :: "'p \<Rightarrow> bool"
    and sel :: "'p \<Rightarrow> 'r \<Rightarrow> bool"
    and upd :: "'p \<Rightarrow> 'r \<Rightarrow> 'r"
  assumes key_upd: "key (upd a r) = key r"
    and sel_open: "valid a \<Longrightarrow> sel a r \<Longrightarrow> \<not> terminal_text (status r)"
begin

lemma keys_kept: "map key (fst (update_many (sel a) (upd a) rows)) = map key rows"
  by (rule update_many_keys) (rule key_upd)

lemma find_after:
  "find_by_id key i (fst (update_many (sel a) (upd a) rows)) =
     map_option (\<lambda>r. if sel a r then upd a r else r) (find_by_id key i rows)"
  unfolding update_many_fst by (rule find_by_id_map) (simp add: key_upd)

lemma terminal_kept:
  assumes "valid a" "find_by_id key i rows = Some r" "terminal_text (status r)"
  shows "find_by_id key i (fst (update_many (sel a) (upd a) rows)) = Some r"
  using assms sel_open by (auto simp: find_after)

lemma count_le:
  assumes "distinct (map key rows)" and "\<And>r. sel a r \<Longrightarrow> key r = i"
  shows "snd (update_many (sel a) (upd a) rows) \<le> 1"
  unfolding update_many_snd using assms by (rule filter_key_length)

lemma hit_iff:
  assumes "distinct (map key rows)" and "\<And>r. sel a r \<Longrightarrow> key r = i"
  shows "snd (update_many (sel a) (upd a) rows) = 1 \<longleftrightarrow>
           (\<exists>r. find_by_id key i rows = Some r \<and> sel a r)"
proof
  assume "snd (update_many (sel a) (upd a) rows) = 1"
  then obtain r where "r \<in> set rows" "sel a r"
    by (metis (mono_tags, lifting) filter_empty_conv length_0_conv update_many_snd zero_neq_one)
  with assms show "\<exists>r. find_by_id key i rows = Some r \<and> sel a r"
    by (auto simp: find_by_id_eq_Some)
next
  assume "\<exists>r. find_by_id key i rows = Some r \<and> sel a r"
  then obtain r where "r \<in> set rows" "sel a r" using find_by_id_Some by metis
  then have "0 < length (filter (sel a) rows)" by (auto simp: filter_empty_conv)
  moreover have "snd (update_many (sel a) (upd a) rows) \<le> 1" using assms by (rule count_le)
  ultimately show "snd (update_many (sel a) (upd a) rows) = 1" unfolding update_many_snd by linarith
qed

end

lemma find_by_id_append: "find_by_id key i xs = Some r \<Longrightarrow> find_by_id key i (xs @ ys) = Some r"
  by (induction xs) (auto simp: find_by_id_def)

lemma find_by_id_filter:
  "(\<And>r. r \<in> set rows \<Longrightarrow> key r = i \<Longrightarrow> P r) \<Longrightarrow> find_by_id key i (filter P rows) = find_by_id key i rows"
  by (induction rows) (auto simp: find_by_id_def)

end
