(* ===== verification/Hub_Agents.thy ===== *)
theory Hub_Agents
  imports Hub_Store
begin

text \<open>
  Agent sessions, \<open>crates/pandar-hub/src/repositories/agents\<close> (\<open>connections.rs\<close>, \<open>rows.rs\<close> and the
  lifecycle operations of \<open>agents.rs\<close>). The agent row holds the session that is current;
  every write on behalf of an agent first locks that row and compares the session, the
  fences \<open>begin_current_agent_transaction\<close> and \<open>begin_closing_agent_transaction\<close>. A fence is modelled by
  its verdict: the locked row, or the error with which the caller's transaction ends.

  Parameters: \<open>uuid\<close> parsing, the RFC 3339 reader of the \<open>time\<close> crate (an instant is an
  integer number of nanoseconds).
\<close>

section \<open>Rows\<close>

definition agent_from_model :: "uuid_parser \<Rightarrow> agent_row \<Rightarrow> agent repository_result" where
  "agent_from_model uuid m =
     and_then (map_err (\<lambda>_. InvalidPersistedStatus (ar_status m)) (AgentStatus_from_str (ar_status m))) (\<lambda>status.
     and_then (map_err (\<lambda>e. Database (CoreErr e)) (AgentId_parse uuid (ar_id m))) (\<lambda>i.
     and_then (map_err (\<lambda>e. Database (CoreErr e)) (TenantId_parse uuid (ar_tenant_id m))) (\<lambda>t.
     map_err (\<lambda>_. Database (Message ''failed to rehydrate agent''))
       (Agent_from_parts i t (ar_name m) status (ar_created_at m)))))"

record agent_credential_record =
  acr_agent :: agent
  acr_credential_hash :: "string option"
  acr_credential_rotated_at :: "timestamp option"
  acr_credential_revoked_at :: "timestamp option"

definition agent_credential_from_model :: "uuid_parser \<Rightarrow> agent_row \<Rightarrow> agent_credential_record repository_result" where
  "agent_credential_from_model uuid m =
     and_then (agent_from_model uuid m) (\<lambda>a.
       Ok \<lparr>acr_agent = a, acr_credential_hash = ar_credential_hash m,
           acr_credential_rotated_at = ar_credential_rotated_at m,
           acr_credential_revoked_at = ar_credential_revoked_at m\<rparr>)"

definition locked_agent :: "hub_db \<Rightarrow> agent_id \<Rightarrow> agent_row option" where
  "locked_agent db i = find_by_id ar_id i (db_agents db)"

text \<open>\<open>ActiveModel::update\<close> writes the set columns of the row with the model's primary key.\<close>

definition update_agent_row :: "agent_row \<Rightarrow> hub_db \<Rightarrow> hub_db" where
  "update_agent_row a db =
     db\<lparr>db_agents := fst (update_many (\<lambda>r. ar_id r = ar_id a) (\<lambda>_. a) (db_agents db))\<rparr>"

section \<open>Fences\<close>

definition begin_current_agent_transaction ::
  "hub_db \<Rightarrow> tenant_id \<Rightarrow> agent_id \<Rightarrow> session_id \<Rightarrow> agent_row repository_result" where
  "begin_current_agent_transaction db tenant i session =
     and_then (ok_or (locked_agent db i) MissingAgent) (\<lambda>a.
       if ar_tenant_id a \<noteq> tenant \<or> ar_current_session_id a \<noteq> Some session
       then Err AgentSessionNotCurrent else Ok a)"

definition begin_closing_agent_transaction ::
  "hub_db \<Rightarrow> tenant_id \<Rightarrow> agent_id \<Rightarrow> session_id \<Rightarrow> agent_row repository_result" where
  "begin_closing_agent_transaction db tenant i closing =
     and_then (ok_or (locked_agent db i) MissingAgent) (\<lambda>a.
       if ar_tenant_id a \<noteq> tenant \<or>
          (case ar_current_session_id a of Some s \<Rightarrow> s \<noteq> closing | None \<Rightarrow> False)
       then Err AgentSessionNotCurrent else Ok a)"

text \<open>\<open>Ok True\<close> is the open transaction, \<open>Ok False\<close> the early commit with \<open>None\<close>.\<close>

definition begin_stale_firmware_cleanup_transaction ::
  "(string \<Rightarrow> int option) \<Rightarrow> hub_db \<Rightarrow> tenant_id \<Rightarrow> agent_id \<Rightarrow> session_id \<Rightarrow> string \<Rightarrow> string \<Rightarrow> int \<Rightarrow>
     bool repository_result" where
  "begin_stale_firmware_cleanup_transaction parse_time db tenant i owner_session owner_instance sweeper_instance cutoff =
     and_then
       (case locked_agent db i of
          None \<Rightarrow> Ok False
        | Some a \<Rightarrow>
            if ar_tenant_id a = tenant \<and> ar_current_session_id a = Some owner_session then
              (case ar_last_seen_at a of
                 None \<Rightarrow> Ok False
               | Some seen \<Rightarrow>
                   (case parse_time seen of
                      None \<Rightarrow> Err (Database (Message ''failed to parse agent heartbeat during firmware cleanup''))
                    | Some t \<Rightarrow> Ok (t > cutoff)))
            else Ok False)
       (\<lambda>has_fresh_owner. Ok (\<not> (has_fresh_owner \<and> owner_instance \<noteq> sweeper_instance)))"

section \<open>Session operations\<close>

definition claim_online_session ::
  "uuid_parser \<Rightarrow> tenant_id \<Rightarrow> agent_id \<Rightarrow> session_id \<Rightarrow> string \<Rightarrow> timestamp \<Rightarrow> hub_db \<Rightarrow>
     (agent \<times> hub_db) repository_result" where
  "claim_online_session uuid tenant i session version seen db =
     and_then (ok_or (locked_agent db i) MissingAgent) (\<lambda>a.
       if ar_tenant_id a \<noteq> tenant then Err MissingAgent
       else
         let a' = a\<lparr>ar_status := AgentStatus_as_str Online, ar_version := Some version,
                    ar_last_seen_at := Some seen, ar_current_session_id := Some session\<rparr>
         in and_then (agent_from_model uuid a') (\<lambda>agent. Ok (agent, update_agent_row a' db)))"

definition heartbeat_if_current ::
  "uuid_parser \<Rightarrow> tenant_id \<Rightarrow> agent_id \<Rightarrow> session_id \<Rightarrow> timestamp \<Rightarrow> hub_db \<Rightarrow>
     (agent \<times> hub_db) repository_result" where
  "heartbeat_if_current uuid tenant i session seen db =
     and_then (begin_current_agent_transaction db tenant i session) (\<lambda>_.
     and_then (ok_or (find_by_id ar_id i (db_agents db)) MissingAgent) (\<lambda>a.
       let a' = a\<lparr>ar_status := AgentStatus_as_str Online, ar_last_seen_at := Some seen\<rparr>
       in and_then (agent_from_model uuid a') (\<lambda>agent. Ok (agent, update_agent_row a' db))))"

definition mark_offline_if_current ::
  "uuid_parser \<Rightarrow> tenant_id \<Rightarrow> agent_id \<Rightarrow> session_id \<Rightarrow> timestamp \<Rightarrow> hub_db \<Rightarrow>
     (agent option \<times> hub_db) repository_result" where
  "mark_offline_if_current uuid tenant i session seen db =
     and_then (ok_or (locked_agent db i) MissingAgent) (\<lambda>a.
       if ar_tenant_id a \<noteq> tenant \<or> ar_current_session_id a \<noteq> Some session then Ok (None, db)
       else
         let a' = a\<lparr>ar_status := AgentStatus_as_str Offline, ar_last_seen_at := Some seen,
                    ar_current_session_id := None\<rparr>
         in and_then (agent_from_model uuid a') (\<lambda>agent. Ok (Some agent, update_agent_row a' db)))"

definition current_session_id_for_agent :: "hub_db \<Rightarrow> tenant_id \<Rightarrow> agent_id \<Rightarrow> session_id option" where
  "current_session_id_for_agent db tenant i =
     (case find_by_id ar_id i (db_agents db) of
        Some a \<Rightarrow> if ar_tenant_id a = tenant then ar_current_session_id a else None
      | None \<Rightarrow> None)"

section \<open>Creation, deletion and credentials\<close>

text \<open>
  \<open>insert_agent\<close>: the names of a tenant's agents are unique. The foreign key on the tenant
  is the parameter \<open>tenants\<close>.
\<close>

definition insert_agent :: "string list \<Rightarrow> agent \<Rightarrow> hub_db \<Rightarrow> hub_db repository_result" where
  "insert_agent tenants a db =
     (if list_ex (\<lambda>r. ar_tenant_id r = agent_tenant_id a \<and> ar_name r = agent_name a) (db_agents db)
      then Err DuplicateAgentName
      else if agent_tenant_id a \<notin> set tenants then Err MissingTenant
      else if agent_id a \<in> ar_id ` set (db_agents db)
      then Err (Database (Message ''failed to insert agent''))
      else Ok (db\<lparr>db_agents := db_agents db @
        [\<lparr>ar_id = agent_id a, ar_tenant_id = agent_tenant_id a, ar_name = agent_name a,
          ar_status = AgentStatus_as_str (agent_status a), ar_version = None,
          ar_last_seen_at = None, ar_created_at = agent_created_at a, ar_credential_hash = None,
          ar_credential_rotated_at = None, ar_credential_revoked_at = None,
          ar_current_session_id = None\<rparr>]\<rparr>))"

definition append_audit :: "audit_event \<Rightarrow> hub_db \<Rightarrow> hub_db" where
  "append_audit ev db = db\<lparr>db_audit := db_audit db @ [ev]\<rparr>"

definition delete_offline_with_audit ::
  "uuid_parser \<Rightarrow> (audit_metadata \<Rightarrow> string) \<Rightarrow> string \<Rightarrow> timestamp \<Rightarrow> tenant_id \<Rightarrow> agent_id \<Rightarrow> audit_actor \<Rightarrow>
     hub_db \<Rightarrow> (agent \<times> hub_db) repository_result" where
  "delete_offline_with_audit uuid to_text fresh_id now tenant i actor db =
     and_then (ok_or (find_by_id ar_id i (db_agents db)) MissingAgent) (\<lambda>m.
       if ar_tenant_id m \<noteq> tenant then Err MissingAgent
       else and_then (agent_from_model uuid m) (\<lambda>a.
         if agent_status a = Online then Err AgentOnline
         else
           let db' = append_audit (record_audit_event to_text fresh_id now tenant actor ''agent.delete''
                 ''agent'' (Some i)
                 (AuditObject [(''agent_name'', AuditString (agent_name a)),
                               (''previous_status'', AuditString (AgentStatus_as_str (agent_status a)))])) db
           in Ok (a, delete_agent_rows (\<lambda>r. ar_id r = i) db')))"

definition rotate_credential ::
  "uuid_parser \<Rightarrow> (audit_metadata \<Rightarrow> string) \<Rightarrow> (string \<Rightarrow> string) \<Rightarrow> string \<Rightarrow> timestamp \<Rightarrow> timestamp \<Rightarrow>
     tenant_id \<Rightarrow> agent_id \<Rightarrow> string \<Rightarrow> audit_actor \<Rightarrow> hub_db \<Rightarrow>
     (agent_credential_record \<times> hub_db) repository_result" where
  "rotate_credential uuid to_text hash_token fresh_id now now' tenant i credential actor db =
     and_then (ok_or (find_by_id ar_id i (db_agents db)) MissingAgent) (\<lambda>m.
       if ar_tenant_id m \<noteq> tenant then Err MissingAgent
       else
         let m' = m\<lparr>ar_credential_hash := Some (hash_token credential),
                    ar_credential_rotated_at := Some now, ar_credential_revoked_at := None\<rparr>
         in and_then (agent_credential_from_model uuid m') (\<lambda>c.
              Ok (c, append_audit (record_audit_event to_text fresh_id now' tenant actor
                       ''agent.credential_rotate'' ''agent'' (Some i) (AuditObject []))
                     (update_agent_row m' db))))"

definition revoke_credential ::
  "uuid_parser \<Rightarrow> (audit_metadata \<Rightarrow> string) \<Rightarrow> string \<Rightarrow> timestamp \<Rightarrow> timestamp \<Rightarrow>
     tenant_id \<Rightarrow> agent_id \<Rightarrow> audit_actor \<Rightarrow> hub_db \<Rightarrow>
     (agent_credential_record \<times> hub_db) repository_result" where
  "revoke_credential uuid to_text fresh_id now now' tenant i actor db =
     and_then (ok_or (find_by_id ar_id i (db_agents db)) MissingAgent) (\<lambda>m.
       if ar_tenant_id m \<noteq> tenant then Err MissingAgent
       else
         let m' = m\<lparr>ar_credential_revoked_at := Some now\<rparr>
         in and_then (agent_credential_from_model uuid m') (\<lambda>c.
              Ok (c, append_audit (record_audit_event to_text fresh_id now' tenant actor
                       ''agent.credential_revoke'' ''agent'' (Some i) (AuditObject []))
                     (update_agent_row m' db))))"

section \<open>Properties\<close>

lemma update_agent_row_find:
  "find_by_id ar_id i (db_agents (update_agent_row a db)) =
     (if i = ar_id a then map_option (\<lambda>_. a) (locked_agent db i) else locked_agent db i)"
proof -
  let ?g = "\<lambda>r. if ar_id r = ar_id a then a else r"
  have "find_by_id ar_id i (map ?g (db_agents db)) = map_option ?g (find_by_id ar_id i (db_agents db))"
    by (rule find_by_id_map) simp
  then show ?thesis
    by (auto simp: update_agent_row_def update_many_fst locked_agent_def map_option_case
        split: option.splits dest: find_by_id_Some)
qed

lemma begin_current_Ok:
  "begin_current_agent_transaction db tenant i session = Ok a \<longleftrightarrow>
     locked_agent db i = Some a \<and> ar_tenant_id a = tenant \<and> ar_current_session_id a = Some session"
  by (auto simp: begin_current_agent_transaction_def result_simps split: if_splits)

lemma begin_closing_Ok:
  "begin_closing_agent_transaction db tenant i session = Ok a \<longleftrightarrow>
     locked_agent db i = Some a \<and> ar_tenant_id a = tenant \<and>
     ar_current_session_id a \<in> {None, Some session}"
  by (cases "ar_current_session_id a")
    (auto simp: begin_closing_agent_transaction_def result_simps split: if_splits)

lemma locked_agent_id: "locked_agent db i = Some a \<Longrightarrow> ar_id a = i"
  unfolding locked_agent_def by (drule find_by_id_Some) simp

lemma claim_online_session_Ok:
  assumes "claim_online_session uuid tenant i session version seen db = Ok (a, db')"
  shows "\<exists>r. locked_agent db' i = Some r \<and> ar_tenant_id r = tenant \<and>
           ar_current_session_id r = Some session \<and> ar_status r = AgentStatus_as_str Online"
  using assms locked_agent_id [of db i]
  by (auto simp: claim_online_session_def result_simps Let_def locked_agent_def [of db']
      update_agent_row_find split: if_splits)

text \<open>
  A newly claimed session displaces its predecessor for good. Once a session is claimed
  for an agent, every fenced write of any other session of that agent is refused with
  \<open>AgentSessionNotCurrent\<close>, the closing fence included, and a disconnect of the other session
  leaves the row alone; the claimed session itself passes.
\<close>

lemma claim_displaces_other_sessions:
  assumes "claim_online_session uuid tenant i session version seen db = Ok (a, db')"
    and "other \<noteq> session"
  shows "begin_current_agent_transaction db' tenant i other = Err AgentSessionNotCurrent \<and>
    begin_closing_agent_transaction db' tenant i other = Err AgentSessionNotCurrent \<and>
    heartbeat_if_current uuid tenant i other seen' db' = Err AgentSessionNotCurrent \<and>
    mark_offline_if_current uuid tenant i other seen' db' = Ok (None, db') \<and>
    is_ok (begin_current_agent_transaction db' tenant i session)"
  using claim_online_session_Ok [OF assms(1)] assms(2)
  by (auto simp: begin_current_agent_transaction_def begin_closing_agent_transaction_def
      heartbeat_if_current_def mark_offline_if_current_def)

definition sample_agent_row :: agent_row where
  "sample_agent_row = \<lparr>ar_id = ''a1'', ar_tenant_id = ''t1'', ar_name = ''garage'', ar_status = ''offline'',
     ar_version = None, ar_last_seen_at = None, ar_created_at = ''2026-01-01T00:00:00Z'',
     ar_credential_hash = None, ar_credential_rotated_at = None, ar_credential_revoked_at = None,
     ar_current_session_id = Some ''s0''\<rparr>"

definition sample_agents_db :: hub_db where
  "sample_agents_db = \<lparr>db_agents = [sample_agent_row], db_commands = [], db_jobs = [], db_artifacts = [],
     db_usages = [], db_printers = [], db_sequences = [], db_audit = [], db_artifact_deletions = []\<rparr>"

definition sample_claimed :: "(agent \<times> hub_db)" where
  "sample_claimed =
     (\<lparr>agent_id = ''a1'', agent_tenant_id = ''t1'', agent_name = ''garage'', agent_status = Online,
       agent_created_at = ''2026-01-01T00:00:00Z''\<rparr>,
      update_agent_row (sample_agent_row\<lparr>ar_status := ''online'', ar_version := Some ''1.0'',
        ar_last_seen_at := Some ''2026-01-02T00:00:00Z'', ar_current_session_id := Some ''s1''\<rparr>) sample_agents_db)"

lemma sample_claim:
  "claim_online_session Some ''t1'' ''a1'' ''s1'' ''1.0'' ''2026-01-02T00:00:00Z'' sample_agents_db =
     Ok (fst sample_claimed, snd sample_claimed)"
  by code_simp

lemma claim_displaces_other_sessions_witness:
  "begin_current_agent_transaction (snd sample_claimed) ''t1'' ''a1'' ''s0'' = Err AgentSessionNotCurrent"
  using claim_displaces_other_sessions [OF sample_claim, of "''s0''"] by simp

text \<open>
  Deleting an agent needs it not to be online. Its row goes with the printers, commands and jobs that refer to it; commands and jobs of
  other agents go only with one of those printers or commands.
\<close>

lemma delete_offline_Ok:
  assumes "delete_offline_with_audit uuid to_text ev now tenant i actor db = Ok (a, db')"
  shows "agent_status a \<noteq> Online \<and> locked_agent db' i = None \<and>
     (\<forall>c \<in> set (db_commands db'). cr_agent_id c \<noteq> i) \<and> (\<forall>j \<in> set (db_jobs db'). jr_agent_id j \<noteq> i) \<and>
     (\<forall>p \<in> set (db_printers db'). prr_agent_id p \<noteq> i) \<and> length (db_audit db') = length (db_audit db) + 1"
  using assms
  by (auto simp: delete_offline_with_audit_def result_simps Let_def append_audit_def locked_agent_def delete_agent_rows_def
      find_by_id_None split: if_splits dest: find_by_id_Some)

end
