(* ===== verification/Hub_Commands.thy ===== *)
theory Hub_Commands
  imports Hub_Agents
begin

text \<open>
  The command store of the hub: \<open>repositories/commands\<close> (\<open>rows.rs\<close>, \<open>inserts.rs\<close>, \<open>transitions.rs\<close>,
  \<open>terminal.rs\<close>), \<open>repositories/session_commands.rs\<close> and \<open>repositories/jobs/transitions.rs\<close>. A
  command moves queued, sent, acknowledged, and ends succeeded, failed or cancelled; a
  print command carries its job along. Each update is a compare-and-set on the
  status column; the properties say what the comparison buys.

  Parameters: \<open>uuid\<close> parsing, the clock (\<open>now\<close>), fresh identifiers and the JSON
  readers of the print result and of the live payloads (\<open>serde_json\<close>).
\<close>

section \<open>Rows and inserts\<close>

definition command_from_model :: "uuid_parser \<Rightarrow> command_row \<Rightarrow> command_record repository_result" where
  "command_from_model uuid m =
     and_then (map_err (\<lambda>e. Database (CoreErr e)) (CommandId_parse uuid (cr_id m))) (\<lambda>i.
     and_then (map_err (\<lambda>e. Database (CoreErr e)) (TenantId_parse uuid (cr_tenant_id m))) (\<lambda>t.
     and_then (map_err (\<lambda>e. Database (CoreErr e)) (AgentId_parse uuid (cr_agent_id m))) (\<lambda>a.
     map_err (\<lambda>e. case e of
                InvalidCommandStatus _ \<Rightarrow> InvalidPersistedCommandStatus (cr_status m)
              | _ \<Rightarrow> Database (Message ''failed to rehydrate command''))
       (CommandRecord_from_parts
          \<lparr>cmdp_id = i, cmdp_tenant_id = t, cmdp_agent_id = a, cmdp_printer_id = cr_printer_id m,
           cmdp_kind = cr_kind m, cmdp_status = cr_status m, cmdp_payload_json = cr_payload_json m,
           cmdp_result_json = cr_result_json m, cmdp_error = cr_error m,
           cmdp_created_at = cr_created_at m, cmdp_updated_at = cr_updated_at m\<rparr>))))"

record insert_command_input =
  ic_id :: command_id
  ic_tenant_id :: tenant_id
  ic_agent_id :: agent_id
  ic_printer_id :: "string option"
  ic_kind :: string
  ic_payload_json :: string
  ic_created_at :: timestamp

definition insert_with_status ::
  "insert_command_input \<Rightarrow> command_status \<Rightarrow> hub_db \<Rightarrow> hub_db repository_result" where
  "insert_with_status input status db =
     (if ic_id input \<in> cr_id ` set (db_commands db)
      then Err (Database (Message ''failed to insert command''))
      else Ok (db\<lparr>db_commands := db_commands db @
        [\<lparr>cr_id = ic_id input, cr_tenant_id = ic_tenant_id input, cr_agent_id = ic_agent_id input,
          cr_printer_id = ic_printer_id input, cr_kind = ic_kind input,
          cr_status = CommandStatus_as_str status, cr_payload_json = ic_payload_json input,
          cr_result_json = None, cr_error = None, cr_created_at = ic_created_at input,
          cr_updated_at = ic_created_at input\<rparr>]\<rparr>))"

definition insert_command :: "insert_command_input \<Rightarrow> hub_db \<Rightarrow> hub_db repository_result" where
  "insert_command input db = insert_with_status input command_status.Queued db"

section \<open>Status updates\<close>

record status_transition =
  st_command_id :: command_id
  st_tenant_id :: tenant_id
  st_agent_id :: agent_id
  st_status :: command_status
  st_error :: "string option"
  st_result_json :: "string option"
  st_allowed_statuses :: "command_status list"

text \<open>The filter and the columns of the update, apart, so that its contract can be stated.\<close>

definition status_selected :: "status_transition \<Rightarrow> command_row \<Rightarrow> bool" where
  "status_selected t r \<longleftrightarrow>
     cr_id r = st_command_id t \<and> cr_tenant_id r = st_tenant_id t \<and> cr_agent_id r = st_agent_id t \<and>
     cr_status r \<in> set (map CommandStatus_as_str (st_allowed_statuses t))"

definition status_update :: "timestamp \<Rightarrow> status_transition \<Rightarrow> command_row \<Rightarrow> command_row" where
  "status_update now t r =
     r\<lparr>cr_status := CommandStatus_as_str (st_status t), cr_error := st_error t,
       cr_result_json := st_result_json t, cr_updated_at := now\<rparr>"

definition update_status_if_current_on ::
  "timestamp \<Rightarrow> status_transition \<Rightarrow> hub_db \<Rightarrow> bool \<times> hub_db" where
  "update_status_if_current_on now t db =
     (let (rows, n) = update_many (status_selected t) (status_update now t) (db_commands db)
      in (n = 1, db\<lparr>db_commands := rows\<rparr>))"

definition invalid_transition :: "command_status \<Rightarrow> string \<Rightarrow> repository_error" where
  "invalid_transition status action = InvalidCommandTransition (CommandStatus_as_str status) action"

definition load_owned_command ::
  "uuid_parser \<Rightarrow> hub_db \<Rightarrow> tenant_id \<Rightarrow> agent_id \<Rightarrow> command_id \<Rightarrow> command_record repository_result" where
  "load_owned_command uuid db tenant agent i =
     and_then (traverse_option (command_from_model uuid) (find_by_id cr_id i (db_commands db))) (\<lambda>m.
     and_then (ok_or m MissingCommand) (\<lambda>c.
       if cmd_tenant_id c \<noteq> tenant \<or> cmd_agent_id c \<noteq> agent then Err CommandOwnershipMismatch
       else Ok c))"

section \<open>Print commands and their jobs\<close>

record print_command_transition =
  pt_command_id :: command_id
  pt_tenant_id :: tenant_id
  pt_agent_id :: agent_id
  pt_command_status :: command_status
  pt_job_status :: job_status
  pt_error :: "string option"
  pt_result_json :: "string option"
  pt_allowed_statuses :: "command_status list"
  pt_action :: string

definition print_selected :: "print_command_transition \<Rightarrow> command_row \<Rightarrow> bool" where
  "print_selected t r \<longleftrightarrow>
     cr_id r = pt_command_id t \<and> cr_tenant_id r = pt_tenant_id t \<and> cr_agent_id r = pt_agent_id t \<and>
     cr_kind r = ''print_project_file'' \<and>
     cr_status r \<in> set (map CommandStatus_as_str (pt_allowed_statuses t))"

definition print_update :: "timestamp \<Rightarrow> print_command_transition \<Rightarrow> command_row \<Rightarrow> command_row" where
  "print_update now t r =
     r\<lparr>cr_status := CommandStatus_as_str (pt_command_status t), cr_error := pt_error t,
       cr_result_json := pt_result_json t, cr_updated_at := now\<rparr>"

definition update_print_command ::
  "timestamp \<Rightarrow> print_command_transition \<Rightarrow> hub_db \<Rightarrow> bool \<times> hub_db" where
  "update_print_command now t db =
     (let (rows, n) = update_many (print_selected t) (print_update now t) (db_commands db)
      in (n = 1, db\<lparr>db_commands := rows\<rparr>))"

text \<open>
  The reader of the result is \<open>serde_json::from_str\<close> into a struct whose only field is the
  optional \<open>uploaded_url\<close>; a text it rejects counts as no URL.
\<close>

type_synonym url_reader = "string \<Rightarrow> (string option, string) result"

definition uploaded_url_of :: "url_reader \<Rightarrow> print_command_transition \<Rightarrow> string option" where
  "uploaded_url_of read_url t =
     (case (pt_command_status t, pt_result_json t) of
        (command_status.Succeeded, Some text) \<Rightarrow> (case read_url text of Ok u \<Rightarrow> u | Err _ \<Rightarrow> None)
      | _ \<Rightarrow> None)"

definition job_selected :: "print_command_transition \<Rightarrow> job_row \<Rightarrow> bool" where
  "job_selected t j \<longleftrightarrow>
     jr_command_id j = pt_command_id t \<and> jr_status j \<notin> {''succeeded'', ''failed'', ''cancelled''}"

definition job_update ::
  "url_reader \<Rightarrow> timestamp \<Rightarrow> print_command_transition \<Rightarrow> job_row \<Rightarrow> job_row" where
  "job_update read_url now t j =
     (let j' = j\<lparr>jr_status := JobStatus_as_str (pt_job_status t), jr_error := pt_error t,
                 jr_updated_at := now\<rparr>
      in case uploaded_url_of read_url t of
           Some url \<Rightarrow> j'\<lparr>jr_uploaded_url := Some url\<rparr>
         | None \<Rightarrow> j')"

definition update_job_for_command ::
  "url_reader \<Rightarrow> timestamp \<Rightarrow> print_command_transition \<Rightarrow> hub_db \<Rightarrow> hub_db repository_result" where
  "update_job_for_command read_url now t db =
     (let (rows, n) = update_many (job_selected t) (job_update read_url now t) (db_jobs db)
      in if n = 0 \<and> pt_job_status t \<notin> {job_status.Succeeded, job_status.Failed, job_status.Cancelled}
         then Err MissingJob else Ok (db\<lparr>db_jobs := rows\<rparr>))"

definition verify_owned_print_command ::
  "command_record \<Rightarrow> print_command_transition \<Rightarrow> command_record repository_result" where
  "verify_owned_print_command c t =
     (if cmd_tenant_id c \<noteq> pt_tenant_id t \<or> cmd_agent_id c \<noteq> pt_agent_id t
      then Err CommandOwnershipMismatch
      else if cmd_kind c \<noteq> ''print_project_file'' then Err MissingJob
      else Ok c)"

definition load_owned_print_command ::
  "uuid_parser \<Rightarrow> hub_db \<Rightarrow> print_command_transition \<Rightarrow> command_record repository_result" where
  "load_owned_print_command uuid db t =
     and_then (traverse_option (command_from_model uuid) (find_by_id cr_id (pt_command_id t) (db_commands db))) (\<lambda>m.
     and_then (ok_or m MissingCommand) (\<lambda>c. verify_owned_print_command c t))"

definition transition_print_command ::
  "uuid_parser \<Rightarrow> url_reader \<Rightarrow> timestamp \<Rightarrow> timestamp \<Rightarrow> print_command_transition \<Rightarrow> hub_db \<Rightarrow>
     (command_record \<times> hub_db) repository_result" where
  "transition_print_command uuid read_url now now' t db =
     (let (updated, db1) = update_print_command now t db
      in and_then (load_owned_print_command uuid db1 t) (\<lambda>c.
           if updated \<or> cmd_status c = pt_command_status t
           then and_then (update_job_for_command read_url now' t db1) (\<lambda>db2. Ok (c, db2))
           else Err (invalid_transition (cmd_status c) (pt_action t))))"

section \<open>Transitions of the current session\<close>

datatype current_session_command_action =
    Send
  | Acknowledge
  | FailQueued string
  | Succeed "string option"
  | Fail string "string option"

definition print_transition_of ::
  "tenant_id \<Rightarrow> agent_id \<Rightarrow> command_id \<Rightarrow> current_session_command_action \<Rightarrow> print_command_transition" where
  "print_transition_of tenant agent i action =
     (let mk = (\<lambda>cs js err res allowed act.
            \<lparr>pt_command_id = i, pt_tenant_id = tenant, pt_agent_id = agent, pt_command_status = cs,
             pt_job_status = js, pt_error = err, pt_result_json = res, pt_allowed_statuses = allowed,
             pt_action = act\<rparr>)
      in case action of
           Send \<Rightarrow> mk command_status.Sent job_status.Sent None None [command_status.Queued] ''send''
         | Acknowledge \<Rightarrow>
             mk command_status.Acknowledged job_status.Acknowledged None None [command_status.Sent] ''acknowledge''
         | FailQueued err \<Rightarrow>
             mk command_status.Failed job_status.Failed (Some err) None [command_status.Queued] ''fail''
         | Succeed res \<Rightarrow>
             mk command_status.Succeeded job_status.Succeeded None res
               [command_status.Sent, command_status.Acknowledged] ''succeed''
         | Fail err res \<Rightarrow>
             mk command_status.Failed job_status.Failed (Some err) res
               [command_status.Sent, command_status.Acknowledged] ''fail'')"

definition generic_transition_of ::
  "command_record \<Rightarrow> current_session_command_action \<Rightarrow> status_transition \<times> string \<times> bool" where
  "generic_transition_of c action =
     (let mk = (\<lambda>cs err res allowed.
            \<lparr>st_command_id = cmd_id c, st_tenant_id = cmd_tenant_id c, st_agent_id = cmd_agent_id c,
             st_status = cs, st_error = err, st_result_json = res, st_allowed_statuses = allowed\<rparr>)
      in case action of
           Send \<Rightarrow> (mk command_status.Sent None None [command_status.Queued], ''send'', False)
         | Acknowledge \<Rightarrow>
             (mk command_status.Acknowledged None None [command_status.Sent], ''acknowledge'', False)
         | FailQueued err \<Rightarrow>
             (mk command_status.Failed (Some err) None [command_status.Queued], ''fail'', False)
         | Succeed res \<Rightarrow>
             (mk command_status.Succeeded None res [command_status.Sent, command_status.Acknowledged],
              ''succeed'', True)
         | Fail err res \<Rightarrow>
             (mk command_status.Failed (Some err) res [command_status.Sent, command_status.Acknowledged],
              ''fail'', True))"

definition is_firmware_kind :: "string \<Rightarrow> bool" where
  "is_firmware_kind k \<longleftrightarrow> k = ''firmware_refresh'' \<or> k = ''firmware_control''"

definition transition_command ::
  "uuid_parser \<Rightarrow> timestamp \<Rightarrow> command_record \<Rightarrow> current_session_command_action \<Rightarrow> hub_db \<Rightarrow>
     (command_record \<times> hub_db) repository_result" where
  "transition_command uuid now command action db =
     (let (t, act, terminal) = generic_transition_of command action
      in if terminal \<and> is_firmware_kind (cmd_kind command)
         then Err (InvalidCommandTransition (CommandStatus_as_str (cmd_status command))
                     ''finish firmware command through generic transition'')
         else
           let (updated, db1) = update_status_if_current_on now t db
           in and_then (load_owned_command uuid db1 (cmd_tenant_id command) (cmd_agent_id command) (cmd_id command)) (\<lambda>c.
                if updated \<or> (terminal \<and> cmd_status c = st_status t) then Ok (c, db1)
                else Err (invalid_transition (cmd_status c) act)))"

definition transition_command_on ::
  "uuid_parser \<Rightarrow> url_reader \<Rightarrow> timestamp \<Rightarrow> timestamp \<Rightarrow> tenant_id \<Rightarrow> agent_id \<Rightarrow> command_id \<Rightarrow>
     current_session_command_action \<Rightarrow> hub_db \<Rightarrow> (command_record \<times> hub_db) repository_result" where
  "transition_command_on uuid read_url now now' tenant agent i action db =
     and_then (load_owned_command uuid db tenant agent i) (\<lambda>c.
       if cmd_kind c = ''print_project_file''
       then transition_print_command uuid read_url now now' (print_transition_of tenant agent i action) db
       else transition_command uuid now c action db)"

definition transition_current_session_command ::
  "uuid_parser \<Rightarrow> url_reader \<Rightarrow> timestamp \<Rightarrow> timestamp \<Rightarrow> tenant_id \<Rightarrow> agent_id \<Rightarrow> session_id \<Rightarrow> command_id \<Rightarrow>
     current_session_command_action \<Rightarrow> hub_db \<Rightarrow> (command_record \<times> hub_db) repository_result" where
  "transition_current_session_command uuid read_url now now' tenant agent session i action db =
     and_then (begin_current_agent_transaction db tenant agent session) (\<lambda>_.
       transition_command_on uuid read_url now now' tenant agent i action db)"

definition fail_queued_for_closing_session ::
  "uuid_parser \<Rightarrow> url_reader \<Rightarrow> timestamp \<Rightarrow> timestamp \<Rightarrow> tenant_id \<Rightarrow> agent_id \<Rightarrow> session_id \<Rightarrow> command_id \<Rightarrow>
     string \<Rightarrow> hub_db \<Rightarrow> (command_record \<times> hub_db) repository_result" where
  "fail_queued_for_closing_session uuid read_url now now' tenant agent closing i err db =
     and_then (begin_closing_agent_transaction db tenant agent closing) (\<lambda>_.
       transition_command_on uuid read_url now now' tenant agent i (FailQueued err) db)"

section \<open>Terminal transitions without a session\<close>

record terminal_command_transition =
  tt_command_id :: command_id
  tt_tenant_id :: tenant_id
  tt_agent_id :: agent_id
  tt_terminal_status :: command_status
  tt_error :: "string option"
  tt_result_json :: "string option"
  tt_action :: string

definition terminal_status_transition :: "terminal_command_transition \<Rightarrow> status_transition" where
  "terminal_status_transition t =
     \<lparr>st_command_id = tt_command_id t, st_tenant_id = tt_tenant_id t, st_agent_id = tt_agent_id t,
      st_status = tt_terminal_status t, st_error = tt_error t, st_result_json = tt_result_json t,
      st_allowed_statuses = [command_status.Sent, command_status.Acknowledged]\<rparr>"

text \<open>
  These updates run on a plain connection: the update is committed before the row is read
  back, so the database part of the outcome is present on an error too.
\<close>

definition guard_terminal_transition ::
  "uuid_parser \<Rightarrow> timestamp \<Rightarrow> terminal_command_transition \<Rightarrow> hub_db \<Rightarrow>
     command_record repository_result \<times> hub_db" where
  "guard_terminal_transition uuid now t db =
     (let (updated, db1) = update_status_if_current_on now (terminal_status_transition t) db
      in (and_then (load_owned_command uuid db1 (tt_tenant_id t) (tt_agent_id t) (tt_command_id t)) (\<lambda>c.
            if updated \<or> cmd_status c = tt_terminal_status t then Ok c
            else Err (invalid_transition (cmd_status c) (tt_action t))), db1))"

definition guard_generic_terminal_transition ::
  "uuid_parser \<Rightarrow> timestamp \<Rightarrow> terminal_command_transition \<Rightarrow> hub_db \<Rightarrow>
     command_record repository_result \<times> hub_db" where
  "guard_generic_terminal_transition uuid now t db =
     (case load_owned_command uuid db (tt_tenant_id t) (tt_agent_id t) (tt_command_id t) of
        Err e \<Rightarrow> (Err e, db)
      | Ok c \<Rightarrow>
          if is_firmware_kind (cmd_kind c)
          then (Err (InvalidCommandTransition (CommandStatus_as_str (cmd_status c))
                       ''finish firmware command through generic transition''), db)
          else guard_terminal_transition uuid now t db)"

definition mark_failed_with_result ::
  "uuid_parser \<Rightarrow> timestamp \<Rightarrow> command_id \<Rightarrow> tenant_id \<Rightarrow> agent_id \<Rightarrow> string \<Rightarrow> string option \<Rightarrow> hub_db \<Rightarrow>
     command_record repository_result \<times> hub_db" where
  "mark_failed_with_result uuid now i tenant agent err res db =
     guard_generic_terminal_transition uuid now
       \<lparr>tt_command_id = i, tt_tenant_id = tenant, tt_agent_id = agent,
        tt_terminal_status = command_status.Failed, tt_error = Some err, tt_result_json = res,
        tt_action = ''fail''\<rparr> db"

definition mark_failed ::
  "uuid_parser \<Rightarrow> timestamp \<Rightarrow> command_id \<Rightarrow> tenant_id \<Rightarrow> agent_id \<Rightarrow> string \<Rightarrow> hub_db \<Rightarrow>
     command_record repository_result \<times> hub_db" where
  "mark_failed uuid now i tenant agent err db = mark_failed_with_result uuid now i tenant agent err None db"

section \<open>The updates keep their contract\<close>

definition open_status :: "command_status \<Rightarrow> bool" where
  "open_status s \<longleftrightarrow> s \<in> {command_status.Queued, command_status.Sent, command_status.Acknowledged}"

lemma terminal_text_command: "terminal_text (CommandStatus_as_str s) \<longleftrightarrow> \<not> open_status s"
  by (cases s) (simp_all add: terminal_text_def open_status_def)

interpretation generic_cmd: guarded_update cr_id cr_status
  "\<lambda>t. list_all open_status (st_allowed_statuses t)" status_selected "status_update now" for now
  by unfold_locales (auto simp: status_update_def status_selected_def list_all_iff terminal_text_command)

interpretation print_cmd: guarded_update cr_id cr_status
  "\<lambda>t. list_all open_status (pt_allowed_statuses t)" print_selected "print_update now" for now
  by unfold_locales (auto simp: print_update_def print_selected_def list_all_iff terminal_text_command)

interpretation print_job: guarded_update jr_id jr_status
  "\<lambda>_. True" job_selected "job_update read_url now" for read_url now
  by unfold_locales (auto simp: job_update_def job_selected_def terminal_text_def Let_def split: option.split)

abbreviation command_at :: "hub_db \<Rightarrow> command_id \<Rightarrow> command_row option" where
  "command_at db i \<equiv> find_by_id cr_id i (db_commands db)"

abbreviation job_at :: "hub_db \<Rightarrow> job_id \<Rightarrow> job_row option" where
  "job_at db i \<equiv> find_by_id jr_id i (db_jobs db)"

definition keys_ok :: "hub_db \<Rightarrow> bool" where
  "keys_ok db \<longleftrightarrow> distinct (map cr_id (db_commands db)) \<and> distinct (map jr_id (db_jobs db))"

lemma update_status_spec:
  assumes "update_status_if_current_on now t db = (u, db')" "keys_ok db"
  shows "u \<longleftrightarrow> (\<exists>r. command_at db (st_command_id t) = Some r \<and> status_selected t r)"
    and "command_at db' j = map_option (\<lambda>r. if status_selected t r then status_update now t r else r) (command_at db j)"
    and "db' = db\<lparr>db_commands := db_commands db'\<rparr>" and "keys_ok db'"
proof -
  have db': "db' = db\<lparr>db_commands := fst (update_many (status_selected t) (status_update now t) (db_commands db))\<rparr>"
    and u: "u = (snd (update_many (status_selected t) (status_update now t) (db_commands db)) = 1)"
    using assms(1) by (auto simp: update_status_if_current_on_def Let_def split: prod.splits)
  show "u \<longleftrightarrow> (\<exists>r. command_at db (st_command_id t) = Some r \<and> status_selected t r)"
    unfolding u using assms(2)
    by (intro generic_cmd.hit_iff) (auto simp: keys_ok_def status_selected_def)
  show "command_at db' j = map_option (\<lambda>r. if status_selected t r then status_update now t r else r) (command_at db j)"
    by (simp add: db' generic_cmd.find_after)
  show "db' = db\<lparr>db_commands := db_commands db'\<rparr>" by (simp add: db')
  show "keys_ok db'" using assms(2) by (simp add: db' keys_ok_def generic_cmd.keys_kept)
qed

lemma update_print_spec:
  assumes "update_print_command now t db = (u, db')" "keys_ok db"
  shows "u \<longleftrightarrow> (\<exists>r. command_at db (pt_command_id t) = Some r \<and> print_selected t r)"
    and "command_at db' j = map_option (\<lambda>r. if print_selected t r then print_update now t r else r) (command_at db j)"
    and "db' = db\<lparr>db_commands := db_commands db'\<rparr>" and "keys_ok db'"
proof -
  have db': "db' = db\<lparr>db_commands := fst (update_many (print_selected t) (print_update now t) (db_commands db))\<rparr>"
    and u: "u = (snd (update_many (print_selected t) (print_update now t) (db_commands db)) = 1)"
    using assms(1) by (auto simp: update_print_command_def Let_def split: prod.splits)
  show "u \<longleftrightarrow> (\<exists>r. command_at db (pt_command_id t) = Some r \<and> print_selected t r)"
    unfolding u using assms(2)
    by (intro print_cmd.hit_iff) (auto simp: keys_ok_def print_selected_def)
  show "command_at db' j = map_option (\<lambda>r. if print_selected t r then print_update now t r else r) (command_at db j)"
    by (simp add: db' print_cmd.find_after)
  show "db' = db\<lparr>db_commands := db_commands db'\<rparr>" by (simp add: db')
  show "keys_ok db'" using assms(2) by (simp add: db' keys_ok_def print_cmd.keys_kept)
qed

lemma update_job_spec:
  assumes "update_job_for_command read_url now t db = Ok db'"
  shows "db_jobs db' = map (\<lambda>j. if job_selected t j then job_update read_url now t j else j) (db_jobs db)"
    and "db' = db\<lparr>db_jobs := db_jobs db'\<rparr>" and "keys_ok db \<Longrightarrow> keys_ok db'"
proof -
  have db': "db' = db\<lparr>db_jobs := fst (update_many (job_selected t) (job_update read_url now t) (db_jobs db))\<rparr>"
    using assms by (auto simp: update_job_for_command_def Let_def split: prod.splits if_splits)
  show "db_jobs db' = map (\<lambda>j. if job_selected t j then job_update read_url now t j else j) (db_jobs db)"
    by (simp add: db' update_many_fst)
  show "db' = db\<lparr>db_jobs := db_jobs db'\<rparr>" by (simp add: db')
  show "keys_ok db'" if "keys_ok db" using that by (simp add: db' keys_ok_def print_job.keys_kept)
qed

section \<open>Reading commands back\<close>

lemma command_from_model_Ok:
  assumes "command_from_model uuid m = Ok c"
  shows "uuid (cr_id m) = Some (cmd_id c)" "uuid (cr_tenant_id m) = Some (cmd_tenant_id c)"
    "uuid (cr_agent_id m) = Some (cmd_agent_id c)" "cmd_kind c = cr_kind m"
    "cr_status m = CommandStatus_as_str (cmd_status c)" "cmd_error c = cr_error m"
    "cmd_result_json c = cr_result_json m"
  using assms
  by (auto simp: command_from_model_def result_simps id_parse_defs CommandRecord_from_parts_def
      command_status_text.from_str_Ok_iff split: if_splits)

lemma load_owned_command_Ok:
  assumes "load_owned_command uuid db tenant agent i = Ok c"
  shows "\<exists>m. command_at db i = Some m \<and> command_from_model uuid m = Ok c \<and>
           cmd_tenant_id c = tenant \<and> cmd_agent_id c = agent"
  using assms
  by (auto simp: load_owned_command_def result_simps split: if_splits option.splits)

lemma load_owned_print_command_Ok:
  assumes "load_owned_print_command uuid db t = Ok c"
  shows "\<exists>m. command_at db (pt_command_id t) = Some m \<and> command_from_model uuid m = Ok c \<and>
           cmd_tenant_id c = pt_tenant_id t \<and> cmd_agent_id c = pt_agent_id t \<and>
           cmd_kind c = ''print_project_file''"
  using assms
  by (auto simp: load_owned_print_command_def verify_owned_print_command_def result_simps
      split: if_splits option.splits)

section \<open>What a transition does\<close>

primrec action_target :: "current_session_command_action \<Rightarrow> command_status" where
  "action_target Send = command_status.Sent"
| "action_target Acknowledge = command_status.Acknowledged"
| "action_target (FailQueued e) = command_status.Failed"
| "action_target (Succeed r) = command_status.Succeeded"
| "action_target (Fail e r) = command_status.Failed"

primrec action_from :: "current_session_command_action \<Rightarrow> command_status list" where
  "action_from Send = [command_status.Queued]"
| "action_from Acknowledge = [command_status.Sent]"
| "action_from (FailQueued e) = [command_status.Queued]"
| "action_from (Succeed r) = [command_status.Sent, command_status.Acknowledged]"
| "action_from (Fail e r) = [command_status.Sent, command_status.Acknowledged]"

lemma print_transition_of_simps [simp]:
  "pt_command_id (print_transition_of t a i act) = i"
  "pt_tenant_id (print_transition_of t a i act) = t"
  "pt_agent_id (print_transition_of t a i act) = a"
  "pt_command_status (print_transition_of t a i act) = action_target act"
  "pt_allowed_statuses (print_transition_of t a i act) = action_from act"
  "JobStatus_as_str (pt_job_status (print_transition_of t a i act)) = CommandStatus_as_str (action_target act)"
  by (cases act; simp add: print_transition_of_def)+

lemma generic_transition_of_simps [simp]:
  "st_command_id (fst (generic_transition_of c act)) = cmd_id c"
  "st_tenant_id (fst (generic_transition_of c act)) = cmd_tenant_id c"
  "st_agent_id (fst (generic_transition_of c act)) = cmd_agent_id c"
  "st_status (fst (generic_transition_of c act)) = action_target act"
  "st_allowed_statuses (fst (generic_transition_of c act)) = action_from act"
  by (cases act; simp add: generic_transition_of_def)+

lemma action_from_open [simp]: "list_all open_status (action_from act)"
  by (cases act) (simp_all add: open_status_def)


abbreviation print_step :: "timestamp \<Rightarrow> print_command_transition \<Rightarrow> command_row \<Rightarrow> command_row" where
  "print_step now t r \<equiv> if print_selected t r then print_update now t r else r"

abbreviation status_step :: "timestamp \<Rightarrow> status_transition \<Rightarrow> command_row \<Rightarrow> command_row" where
  "status_step now t r \<equiv> if status_selected t r then status_update now t r else r"

abbreviation job_step :: "url_reader \<Rightarrow> timestamp \<Rightarrow> print_command_transition \<Rightarrow> job_row \<Rightarrow> job_row" where
  "job_step read_url now t j \<equiv> if job_selected t j then job_update read_url now t j else j"

text \<open>Every compare-and-set ends with the row re-read and its status compared with the target.\<close>

lemma compare_and_set:
  assumes "command_from_model uuid (if hit then m' else m) = Ok c"
    and "u \<or> cmd_status c = target" and "u \<Longrightarrow> hit"
    and "cr_status m' = CommandStatus_as_str target" and "hit \<Longrightarrow> cr_status m \<in> A"
  shows "cmd_status c = target \<and> cr_status m \<in> insert (CommandStatus_as_str target) A \<and>
         cr_status (if hit then m' else m) = CommandStatus_as_str target"
proof -
  have st: "cr_status (if hit then m' else m) = CommandStatus_as_str (cmd_status c)"
    using command_from_model_Ok [OF assms(1)] by blast
  have "cmd_status c = target"
    using assms(2)
  proof
    assume u
    with assms(3) have hit by blast
    with st assms(4) show ?thesis by (simp add: command_status_text.as_str_inject)
  qed
  with st assms(5) show ?thesis by (auto split: if_splits)
qed

lemma transition_print_command_Ok:
  assumes "transition_print_command uuid read_url now now' t db = Ok (c, db')" "keys_ok db"
  shows "db_commands db' = map (print_step now t) (db_commands db)"
    and "db_jobs db' = map (job_step read_url now' t) (db_jobs db)"
    and "db' = db\<lparr>db_commands := db_commands db', db_jobs := db_jobs db'\<rparr>"
    and "\<exists>m. command_at db (pt_command_id t) = Some m \<and> cr_kind m = ''print_project_file'' \<and>
           cmd_status c = pt_command_status t \<and>
           cr_status m \<in> set (map CommandStatus_as_str (pt_command_status t # pt_allowed_statuses t)) \<and>
           cr_status (print_step now t m) = CommandStatus_as_str (pt_command_status t)"
proof -
  obtain u db1 where u: "update_print_command now t db = (u, db1)" by (cases "update_print_command now t db")
  from assms(1) have l: "load_owned_print_command uuid db1 t = Ok c"
    and w: "u \<or> cmd_status c = pt_command_status t"
    and j: "update_job_for_command read_url now' t db1 = Ok db'"
    by (auto simp: transition_print_command_def u result_simps Let_def split: if_splits)
  note s = update_print_spec [OF u assms(2)] and js = update_job_spec [OF j]
  have eq1: "db1 = db\<lparr>db_commands := map (print_step now t) (db_commands db)\<rparr>"
    using u by (auto simp: update_print_command_def update_many_def Let_def)
  have eq2: "db' = db1\<lparr>db_jobs := map (job_step read_url now' t) (db_jobs db1)\<rparr>" using js(1,2) by metis
  show "db_commands db' = map (print_step now t) (db_commands db)"
    "db_jobs db' = map (job_step read_url now' t) (db_jobs db)"
    "db' = db\<lparr>db_commands := db_commands db', db_jobs := db_jobs db'\<rparr>"
    by (simp_all add: eq2 eq1)
  obtain m where m: "command_at db (pt_command_id t) = Some m"
      "command_from_model uuid (print_step now t m) = Ok c" "cmd_kind c = ''print_project_file''"
    using load_owned_print_command_Ok [OF l] s(2) [of "pt_command_id t"] by auto
  have "cr_kind m = ''print_project_file''"
    using command_from_model_Ok(4) [OF m(2)] m(3) by (simp add: print_selected_def split: if_splits)
  moreover have "cmd_status c = pt_command_status t \<and>
      cr_status m \<in> insert (CommandStatus_as_str (pt_command_status t))
        (set (map CommandStatus_as_str (pt_allowed_statuses t))) \<and>
      cr_status (print_step now t m) = CommandStatus_as_str (pt_command_status t)"
    by (rule compare_and_set [OF m(2) w])
      (use s(1) m(1) in \<open>auto simp: print_update_def print_selected_def\<close>)
  ultimately show "\<exists>m. command_at db (pt_command_id t) = Some m \<and> cr_kind m = ''print_project_file'' \<and>
           cmd_status c = pt_command_status t \<and>
           cr_status m \<in> set (map CommandStatus_as_str (pt_command_status t # pt_allowed_statuses t)) \<and>
           cr_status (print_step now t m) = CommandStatus_as_str (pt_command_status t)"
    using m(1) by auto
qed

text \<open>The two users of the generic update share its outcome.\<close>

lemma status_outcome:
  assumes "update_status_if_current_on now t db = (u, db1)" "keys_ok db"
    and "load_owned_command uuid db1 tenant agent (st_command_id t) = Ok c"
    and "u \<or> cmd_status c = st_status t"
  shows "db1 = db\<lparr>db_commands := map (status_step now t) (db_commands db)\<rparr>"
    and "\<exists>m. command_at db (st_command_id t) = Some m \<and> cmd_status c = st_status t \<and>
           cr_status m \<in> set (map CommandStatus_as_str (st_status t # st_allowed_statuses t)) \<and>
           cr_status (status_step now t m) = CommandStatus_as_str (st_status t)"
proof -
  note s = update_status_spec [OF assms(1,2)]
  show "db1 = db\<lparr>db_commands := map (status_step now t) (db_commands db)\<rparr>"
    using assms(1) by (auto simp: update_status_if_current_on_def update_many_def Let_def)
  obtain m where m: "command_at db (st_command_id t) = Some m"
      "command_from_model uuid (status_step now t m) = Ok c"
    using load_owned_command_Ok [OF assms(3)] s(2) [of "st_command_id t"] by auto
  have "cmd_status c = st_status t \<and>
      cr_status m \<in> insert (CommandStatus_as_str (st_status t))
        (set (map CommandStatus_as_str (st_allowed_statuses t))) \<and>
      cr_status (status_step now t m) = CommandStatus_as_str (st_status t)"
    by (rule compare_and_set [OF m(2) assms(4)])
      (use s(1) m(1) in \<open>auto simp: status_update_def status_selected_def\<close>)
  with m(1) show "\<exists>m. command_at db (st_command_id t) = Some m \<and> cmd_status c = st_status t \<and>
           cr_status m \<in> set (map CommandStatus_as_str (st_status t # st_allowed_statuses t)) \<and>
           cr_status (status_step now t m) = CommandStatus_as_str (st_status t)"
    by auto
qed

lemma transition_command_Ok:
  assumes "transition_command uuid now command action db = Ok (c, db')" "keys_ok db"
  defines "t \<equiv> fst (generic_transition_of command action)"
  shows "db' = db\<lparr>db_commands := map (status_step now t) (db_commands db)\<rparr>"
    and "\<exists>m. command_at db (cmd_id command) = Some m \<and> cmd_status c = action_target action \<and>
           cr_status m \<in> set (map CommandStatus_as_str (action_target action # action_from action)) \<and>
           cr_status (status_step now t m) = CommandStatus_as_str (action_target action)"
proof -
  have t: "st_command_id t = cmd_id command" "st_status t = action_target action"
      "st_allowed_statuses t = action_from action"
    by (simp_all add: t_def)
  obtain act fin where g: "generic_transition_of command action = (t, act, fin)"
    by (cases "generic_transition_of command action") (auto simp: t_def)
  obtain u db1 where u: "update_status_if_current_on now t db = (u, db1)"
    by (cases "update_status_if_current_on now t db")
  from assms(1) have "db' = db1"
    and l: "load_owned_command uuid db1 (cmd_tenant_id command) (cmd_agent_id command) (st_command_id t) = Ok c"
    and w: "u \<or> cmd_status c = st_status t"
    by (auto simp: transition_command_def g u t(1) result_simps split: if_splits)
  then show "db' = db\<lparr>db_commands := map (status_step now t) (db_commands db)\<rparr>"
    and "\<exists>m. command_at db (cmd_id command) = Some m \<and> cmd_status c = action_target action \<and>
           cr_status m \<in> set (map CommandStatus_as_str (action_target action # action_from action)) \<and>
           cr_status (status_step now t m) = CommandStatus_as_str (action_target action)"
    using status_outcome [OF u assms(2) l w] by (simp_all add: t)
qed

lemma guard_terminal_db:
  "snd (guard_terminal_transition uuid now t db) =
     db\<lparr>db_commands := map (status_step now (terminal_status_transition t)) (db_commands db)\<rparr>"
  by (simp add: guard_terminal_transition_def update_status_if_current_on_def update_many_def Let_def)

lemma guard_terminal_Ok:
  assumes "guard_terminal_transition uuid now t db = (Ok c, db')" "keys_ok db"
  shows "\<exists>m. command_at db (tt_command_id t) = Some m \<and> cmd_status c = tt_terminal_status t \<and>
           cr_status m \<in> set (map CommandStatus_as_str
             [tt_terminal_status t, command_status.Sent, command_status.Acknowledged]) \<and>
           cr_status (status_step now (terminal_status_transition t) m) = CommandStatus_as_str (tt_terminal_status t)"
proof -
  let ?t = "terminal_status_transition t"
  have t: "st_command_id ?t = tt_command_id t" "st_status ?t = tt_terminal_status t"
      "st_allowed_statuses ?t = [command_status.Sent, command_status.Acknowledged]"
    by (simp_all add: terminal_status_transition_def)
  obtain u db1 where u: "update_status_if_current_on now ?t db = (u, db1)"
    by (cases "update_status_if_current_on now ?t db")
  from assms(1) have l: "load_owned_command uuid db1 (tt_tenant_id t) (tt_agent_id t) (st_command_id ?t) = Ok c"
    and w: "u \<or> cmd_status c = st_status ?t"
    by (auto simp: guard_terminal_transition_def u t(1,2) result_simps Let_def split: if_splits)
  then show ?thesis using status_outcome(2) [OF u assms(2) l w] by (simp add: t)
qed

text \<open>The two branches of \<open>transition_command_on\<close>.\<close>

lemma transition_command_on_cases:
  assumes "transition_command_on uuid read_url now now' tenant agent i action db = Ok (c, db')"
    and "uuid i = Some i"
  obtains (print) m where "command_at db i = Some m" "cr_kind m = ''print_project_file''"
      "transition_print_command uuid read_url now now' (print_transition_of tenant agent i action) db = Ok (c, db')"
  | (generic) m command where "command_at db i = Some m" "cr_kind m \<noteq> ''print_project_file''" "cmd_id command = i"
      "transition_command uuid now command action db = Ok (c, db')"
proof -
  obtain command m where l: "load_owned_command uuid db tenant agent i = Ok command"
      and m: "command_at db i = Some m" "command_from_model uuid m = Ok command"
    using assms(1) load_owned_command_Ok unfolding transition_command_on_def and_then_eq_Ok by metis
  have k: "cmd_kind command = cr_kind m" "cmd_id command = i"
    using command_from_model_Ok [OF m(2)] find_by_id_Some [OF m(1)] assms(2) by simp_all
  show thesis
  proof (cases "cr_kind m = ''print_project_file''")
    case True
    then show ?thesis using assms(1) l k m(1) print by (simp add: transition_command_on_def)
  next
    case False
    then show ?thesis using assms(1) l k m(1) generic by (simp add: transition_command_on_def)
  qed
qed

lemma step_ids [simp]:
  "cr_id (print_step now pt r) = cr_id r" "cr_id (status_step now st r) = cr_id r"
  by (simp_all add: print_update_def status_update_def)

lemma step_kinds [simp]:
  "cr_kind (print_step now pt r) = cr_kind r" "cr_kind (status_step now st r) = cr_kind r"
  by (simp_all add: print_update_def status_update_def)

lemma step_terminal:
  "list_all open_status (pt_allowed_statuses pt) \<Longrightarrow> terminal_text (cr_status r) \<Longrightarrow> print_step now pt r = r"
  "list_all open_status (st_allowed_statuses st) \<Longrightarrow> terminal_text (cr_status r) \<Longrightarrow> status_step now st r = r"
  using print_cmd.sel_open generic_cmd.sel_open by auto

text \<open>
  The abstract machine of a single command: from which statuses an action may start and
  where it leads.
\<close>

definition action_allows :: "current_session_command_action \<Rightarrow> string \<Rightarrow> string \<Rightarrow> bool" where
  "action_allows action old new \<longleftrightarrow>
     new = CommandStatus_as_str (action_target action) \<and>
     (old = new \<or> old \<in> set (map CommandStatus_as_str (action_from action)))"

lemma transition_command_on_effect:
  assumes "transition_command_on uuid read_url now now' tenant agent i action db = Ok (c, db')"
    and "keys_ok db" "uuid i = Some i"
  shows "\<exists>m m'. command_at db i = Some m \<and> command_at db' i = Some m' \<and>
           action_allows action (cr_status m) (cr_status m') \<and> cmd_status c = action_target action \<and>
           cr_kind m' = cr_kind m \<and> (terminal_text (cr_status m) \<longrightarrow> m' = m)"
    and "j \<noteq> i \<Longrightarrow> command_at db' j = command_at db j"
proof -
  let ?pt = "print_transition_of tenant agent i action"
  have "(\<exists>m m'. command_at db i = Some m \<and> command_at db' i = Some m' \<and>
           action_allows action (cr_status m) (cr_status m') \<and> cmd_status c = action_target action \<and>
           cr_kind m' = cr_kind m \<and> (terminal_text (cr_status m) \<longrightarrow> m' = m)) \<and>
        (j \<noteq> i \<longrightarrow> command_at db' j = command_at db j)"
    using assms(1,3)
  proof (cases rule: transition_command_on_cases)
    case (print m)
    note p = transition_print_command_Ok [OF print(3) assms(2)]
    have f: "command_at db' k = map_option (print_step now ?pt) (command_at db k)" for k
      unfolding p(1) by (rule find_by_id_map) simp
    have "command_at db' j = command_at db j" if "j \<noteq> i"
      using that find_by_id_Some [of cr_id j] by (cases "command_at db j") (auto simp: f print_selected_def)
    with p(4) print(1) f [of i] step_terminal(1) [of ?pt m now] show ?thesis
      by (auto simp: action_allows_def)
  next
    case (generic m command)
    let ?t = "fst (generic_transition_of command action)"
    note p = transition_command_Ok [OF generic(4) assms(2)]
    have f: "command_at db' k = map_option (status_step now ?t) (command_at db k)" for k
      unfolding p(1) by (simp del: if_split add: find_by_id_map [where key = cr_id])
    have "command_at db' j = command_at db j" if "j \<noteq> i"
      using that find_by_id_Some [of cr_id j] generic(3)
      by (cases "command_at db j") (auto simp: f status_selected_def)
    with p(2) generic(1,3) f [of i] step_terminal(2) [of ?t m now] show ?thesis
      by (auto simp: action_allows_def)
  qed
  then show "\<exists>m m'. command_at db i = Some m \<and> command_at db' i = Some m' \<and>
           action_allows action (cr_status m) (cr_status m') \<and> cmd_status c = action_target action \<and>
           cr_kind m' = cr_kind m \<and> (terminal_text (cr_status m) \<longrightarrow> m' = m)"
    and "j \<noteq> i \<Longrightarrow> command_at db' j = command_at db j"
    by blast+
qed


text \<open>
  C4: a transition asked by an agent session is one step of the command's machine. It
  succeeds only while the session is the agent's current one; then the command existed, its
  status was the target already or one the action starts from, it now is the target, its
  kind is unchanged, a command that had ended is not rewritten, and no other command is
  touched.
\<close>

theorem session_transition_effect:
  assumes "transition_current_session_command uuid read_url now now' tenant agent session i action db = Ok (c, db')"
    and "keys_ok db" "uuid i = Some i"
  shows "(\<exists>a. locked_agent db agent = Some a \<and> ar_tenant_id a = tenant \<and>
            ar_current_session_id a = Some session) \<and>
    (\<exists>m m'. command_at db i = Some m \<and> command_at db' i = Some m' \<and>
       action_allows action (cr_status m) (cr_status m') \<and> cmd_status c = action_target action \<and>
       cr_kind m' = cr_kind m \<and> (terminal_text (cr_status m) \<longrightarrow> m' = m)) \<and>
    (\<forall>j. j \<noteq> i \<longrightarrow> command_at db' j = command_at db j)"
proof -
  from assms(1) obtain a where "begin_current_agent_transaction db tenant agent session = Ok a"
    and t: "transition_command_on uuid read_url now now' tenant agent i action db = Ok (c, db')"
    by (auto simp: transition_current_session_command_def result_simps)
  then show ?thesis
    using transition_command_on_effect [OF t assms(2,3)] by (auto simp: begin_current_Ok)
qed

definition sample_command_row :: command_row where
  "sample_command_row =
     \<lparr>cr_id = ''c1'', cr_tenant_id = ''t1'', cr_agent_id = ''a1'', cr_printer_id = None,
      cr_kind = ''printer_operation'', cr_status = ''sent'', cr_payload_json = ''{}'', cr_result_json = None,
      cr_error = None, cr_created_at = ''2026-01-01T00:00:00Z'', cr_updated_at = ''2026-01-01T00:00:00Z''\<rparr>"

definition sample_commands_db :: hub_db where
  "sample_commands_db = sample_agents_db\<lparr>db_commands := [sample_command_row]\<rparr>"

definition sample_done_row :: command_row where
  "sample_done_row = sample_command_row\<lparr>cr_status := ''succeeded'', cr_result_json := Some ''{}'',
     cr_updated_at := ''2026-01-03T00:00:00Z''\<rparr>"

definition sample_done :: command_record where
  "sample_done =
     \<lparr>cmd_id = ''c1'', cmd_tenant_id = ''t1'', cmd_agent_id = ''a1'', cmd_printer_id = None,
      cmd_kind = ''printer_operation'', cmd_status = command_status.Succeeded, cmd_payload_json = ''{}'',
      cmd_result_json = Some ''{}'', cmd_error = None, cmd_created_at = ''2026-01-01T00:00:00Z'',
      cmd_updated_at = ''2026-01-03T00:00:00Z''\<rparr>"

lemma sample_transition:
  "transition_current_session_command Some (\<lambda>_. Ok None) ''2026-01-03T00:00:00Z'' ''2026-01-03T00:00:00Z''
     ''t1'' ''a1'' ''s0'' ''c1'' (Succeed (Some ''{}'')) sample_commands_db =
   Ok (sample_done, sample_commands_db\<lparr>db_commands := [sample_done_row]\<rparr>)"
  by code_simp

theorem session_transition_effect_witness:
  "\<exists>m m'. command_at sample_commands_db ''c1'' = Some m \<and>
     command_at (sample_commands_db\<lparr>db_commands := [sample_done_row]\<rparr>) ''c1'' = Some m' \<and>
     action_allows (Succeed (Some ''{}'')) (cr_status m) (cr_status m')"
  using session_transition_effect [OF sample_transition]
  by (auto simp: keys_ok_def sample_commands_db_def sample_agents_db_def)

end
