(* ===== verification/Compatibility.thy ===== *)
theory Compatibility
  imports Statuses
begin

text \<open>
  \<open>crates/pandar-core/src/compatibility.rs\<close>: what each printer model can do. The tables
  are keyed by the normalised model name; the properties say that normalisation ignores
  case and separators and that the separate tables never contradict each other.
\<close>

section \<open>Data\<close>

datatype capability = Supported | Unsupported | Unknown

datatype nozzle_layout_kind = Single | MainAuxiliary | LeftRight | UnknownLayout

record compatibility_features =
  cf_chamber_temperature :: capability
  cf_drying :: capability
  cf_dual_nozzle :: capability
  cf_flow_calibration :: capability
  cf_vibration_calibration :: capability
  cf_nozzle_offset_calibration :: capability
  cf_live_controls :: capability

record calibration_option =
  co_modes :: "print_calibration_mode list"
  co_default_mode :: print_calibration_mode

record print_option_capabilities =
  po_timelapse :: bool
  po_bed_leveling :: "calibration_option option"
  po_flow_calibration :: "calibration_option option"
  po_nozzle_offset_calibration :: "calibration_option option"

definition PrintOptionCapabilities_unknown :: print_option_capabilities where
  "PrintOptionCapabilities_unknown =
     \<lparr>po_timelapse = False, po_bed_leveling = None, po_flow_calibration = None,
      po_nozzle_offset_calibration = None\<rparr>"

definition CompatibilityFeatures_unknown :: compatibility_features where
  "CompatibilityFeatures_unknown =
     \<lparr>cf_chamber_temperature = Unknown, cf_drying = Unknown, cf_dual_nozzle = Unknown,
      cf_flow_calibration = Unknown, cf_vibration_calibration = Unknown,
      cf_nozzle_offset_calibration = Unknown, cf_live_controls = Unknown\<rparr>"

record diagnostic_compatibility =
  dc_normalized_model :: "string option"
  dc_external_storage :: capability
  dc_ftps_tls_1_2_cap :: bool
  dc_features :: compatibility_features
  dc_print_options :: print_option_capabilities
  dc_chamber_fan :: capability
  dc_nozzle_layout :: nozzle_layout_kind

section \<open>Model names\<close>

definition remove_separators :: "string \<Rightarrow> string" where
  "remove_separators s = filter (\<lambda>c. c \<noteq> CHR '' '' \<and> c \<noteq> CHR ''-'' \<and> c \<noteq> CHR ''_'') s"

definition model_alias :: "string \<Rightarrow> string" where
  "model_alias compact =
     (if compact = ''N1'' then ''A1_MINI''
      else if compact = ''N2S'' then ''A1''
      else if compact = ''N7'' then ''P2S''
      else if compact = ''N6'' then ''X2D''
      else if compact = ''BLP001'' then ''X1C''
      else if compact = ''BLP002'' then ''X1''
      else if compact = ''C13'' then ''X1E''
      else if compact = ''C11'' then ''P1P''
      else if compact = ''C12'' then ''P1S''
      else if compact = ''N9'' then ''A2L''
      else if compact = ''O1C'' \<or> compact = ''O1C2'' then ''H2C''
      else if compact = ''O1D'' then ''H2D''
      else if compact = ''O1E'' then ''H2D_PRO''
      else if compact = ''O1S'' then ''H2S''
      else if compact = ''X1'' \<or> compact = ''3DPRINTERX1'' then ''X1''
      else if compact = ''X1E'' then ''X1E''
      else if compact = ''X1CARBON'' \<or> compact = ''3DPRINTERX1CARBON'' then ''X1C''
      else if compact = ''A1MINI'' \<or> compact = ''A1M'' \<or> compact = ''A1MIN'' then ''A1_MINI''
      else if compact = ''A1'' then ''A1''
      else if compact \<in> {''P1P'', ''P1S'', ''A2L'', ''H2C'', ''H2D'', ''H2S''} then compact
      else if compact = ''H2DPRO'' then ''H2D_PRO''
      else if compact = ''P2S'' then ''P2S''
      else if compact = ''X2D'' then ''X2D''
      else compact)"

definition normalize_model :: "string \<Rightarrow> string option" where
  "normalize_model model =
     (let compact = remove_separators (to_ascii_uppercase (trim model))
      in if compact = [] then None
         else Some (model_alias
           (case strip_prefix ''BAMBULAB'' compact of Some rest \<Rightarrow> rest | None \<Rightarrow> compact)))"

section \<open>Tables\<close>

definition on_off :: calibration_option where
  "on_off = \<lparr>co_modes = [On, Off], co_default_mode = On\<rparr>"

definition auto_on_off :: "print_calibration_mode \<Rightarrow> calibration_option" where
  "auto_on_off default_mode = \<lparr>co_modes = [Auto, On, Off], co_default_mode = default_mode\<rparr>"

definition print_options_for_model :: "string option \<Rightarrow> print_option_capabilities" where
  "print_options_for_model model =
     (case model of
        None \<Rightarrow> PrintOptionCapabilities_unknown
      | Some m \<Rightarrow>
          if m = ''X2D'' then
            \<lparr>po_timelapse = True, po_bed_leveling = Some (auto_on_off Auto),
             po_flow_calibration = Some (auto_on_off Auto),
             po_nozzle_offset_calibration = Some (auto_on_off Off)\<rparr>
          else if m \<in> {''P2S'', ''H2S'', ''A2L''} then
            \<lparr>po_timelapse = True, po_bed_leveling = Some (auto_on_off Auto),
             po_flow_calibration = Some (auto_on_off Auto), po_nozzle_offset_calibration = None\<rparr>
          else if m \<in> {''A1'', ''A1_MINI'', ''X1'', ''X1C'', ''X1E''} then
            \<lparr>po_timelapse = True, po_bed_leveling = Some on_off,
             po_flow_calibration = Some on_off, po_nozzle_offset_calibration = None\<rparr>
          else if m \<in> {''P1P'', ''P1S''} then
            \<lparr>po_timelapse = True, po_bed_leveling = Some on_off,
             po_flow_calibration = None, po_nozzle_offset_calibration = None\<rparr>
          else if m \<in> {''H2C'', ''H2D'', ''H2D_PRO''} then
            \<lparr>po_timelapse = True, po_bed_leveling = Some (auto_on_off Auto),
             po_flow_calibration = Some (auto_on_off Auto),
             po_nozzle_offset_calibration = Some (auto_on_off Auto)\<rparr>
          else PrintOptionCapabilities_unknown)"

definition dual_nozzle_capability :: "string option \<Rightarrow> capability" where
  "dual_nozzle_capability model =
     (case model of
        None \<Rightarrow> Unknown
      | Some m \<Rightarrow>
          if m \<in> {''X2D'', ''H2C'', ''H2D'', ''H2D_PRO''} then Supported
          else if m \<in> {''A1'', ''A1_MINI'', ''A2L'', ''X1'', ''X1C'', ''X1E'', ''P1P'', ''P1S'', ''P2S'', ''H2S''}
          then Unsupported else Unknown)"

definition chamber_fan_capability :: "string option \<Rightarrow> capability" where
  "chamber_fan_capability model =
     (case model of
        None \<Rightarrow> Unknown
      | Some m \<Rightarrow>
          if m \<in> {''A1'', ''A1_MINI'', ''A2L'', ''P1P''} then Unsupported
          else if m \<in> {''X1'', ''X1C'', ''X1E'', ''P1S'', ''P2S'', ''X2D'', ''H2C'', ''H2D'', ''H2D_PRO'', ''H2S''}
          then Supported else Unknown)"

definition nozzle_layout :: "string option \<Rightarrow> nozzle_layout_kind" where
  "nozzle_layout model =
     (case model of
        None \<Rightarrow> UnknownLayout
      | Some m \<Rightarrow>
          if m = ''X2D'' then MainAuxiliary
          else if m \<in> {''H2C'', ''H2D'', ''H2D_PRO''} then LeftRight
          else if m \<in> {''A1'', ''A1_MINI'', ''A2L'', ''X1'', ''X1C'', ''X1E'', ''P1P'', ''P1S'', ''P2S'', ''H2S''}
          then Single else UnknownLayout)"

definition diagnostic ::
  "string option \<Rightarrow> capability \<Rightarrow> bool \<Rightarrow> compatibility_features \<Rightarrow> diagnostic_compatibility" where
  "diagnostic normalized_model external_storage ftps_tls_1_2_cap features =
     \<lparr>dc_normalized_model = normalized_model, dc_external_storage = external_storage,
      dc_ftps_tls_1_2_cap = ftps_tls_1_2_cap,
      dc_features = features\<lparr>cf_dual_nozzle := dual_nozzle_capability normalized_model\<rparr>,
      dc_print_options = print_options_for_model normalized_model,
      dc_chamber_fan = chamber_fan_capability normalized_model,
      dc_nozzle_layout = nozzle_layout normalized_model\<rparr>"

definition compatibility_for_key :: "string \<Rightarrow> diagnostic_compatibility" where
  "compatibility_for_key key =
     (if key \<in> {''A1'', ''A1_MINI''} then
        diagnostic (Some key) Unsupported False
          \<lparr>cf_chamber_temperature = Unknown, cf_drying = Unknown, cf_dual_nozzle = Unsupported,
           cf_flow_calibration = Supported, cf_vibration_calibration = Unknown,
           cf_nozzle_offset_calibration = Unknown, cf_live_controls = Supported\<rparr>
      else if key \<in> {''X1C'', ''A2L''} then
        diagnostic (Some key) Unknown False
          (CompatibilityFeatures_unknown\<lparr>cf_flow_calibration := Supported, cf_live_controls := Supported\<rparr>)
      else if key \<in> {''X1'', ''X1E''} then
        diagnostic (Some key) Unknown False
          (CompatibilityFeatures_unknown\<lparr>cf_flow_calibration := Supported\<rparr>)
      else if key = ''P1S'' then
        diagnostic (Some key) Unknown False
          (CompatibilityFeatures_unknown\<lparr>cf_flow_calibration := Unsupported, cf_live_controls := Supported\<rparr>)
      else if key = ''P1P'' then
        diagnostic (Some key) Unknown False
          (CompatibilityFeatures_unknown\<lparr>cf_flow_calibration := Unsupported\<rparr>)
      else if key \<in> {''P2S'', ''H2S''} then
        diagnostic (Some key) Unknown (key = ''P2S'')
          (CompatibilityFeatures_unknown\<lparr>cf_flow_calibration := Supported,
             cf_nozzle_offset_calibration := Unsupported, cf_live_controls := Supported\<rparr>)
      else if key \<in> {''X2D'', ''H2C'', ''H2D'', ''H2D_PRO''} then
        diagnostic (Some key) Unknown (key = ''X2D'')
          (CompatibilityFeatures_unknown\<lparr>cf_flow_calibration := Supported,
             cf_nozzle_offset_calibration := Supported, cf_live_controls := Supported\<rparr>)
      else diagnostic (Some key) Unknown False CompatibilityFeatures_unknown)"

definition compatibility_for_model :: "string option \<Rightarrow> diagnostic_compatibility" where
  "compatibility_for_model model =
     (case Option.bind model normalize_model of
        None \<Rightarrow> diagnostic None Unknown False CompatibilityFeatures_unknown
      | Some key \<Rightarrow> compatibility_for_key key)"

definition flow_calibration_supported :: "string option \<Rightarrow> bool" where
  "flow_calibration_supported model \<longleftrightarrow>
     cf_flow_calibration (dc_features (compatibility_for_model model)) = Supported"

definition auto_flow_calibration_supported :: "string option \<Rightarrow> bool" where
  "auto_flow_calibration_supported model \<longleftrightarrow>
     (case Option.bind model normalize_model of
        None \<Rightarrow> False
      | Some m \<Rightarrow> m \<in> {''P2S'', ''X2D'', ''A2L'', ''H2C'', ''H2D'', ''H2D_PRO'', ''H2S''})"

definition auto_bed_leveling_supported :: "string option \<Rightarrow> bool" where
  "auto_bed_leveling_supported model \<longleftrightarrow>
     (case Option.bind model normalize_model of
        None \<Rightarrow> False
      | Some m \<Rightarrow> m \<in> {''P2S'', ''X2D'', ''A2L'', ''H2C'', ''H2D'', ''H2D_PRO'', ''H2S''})"

definition nozzle_offset_calibration_supported :: "string option \<Rightarrow> bool" where
  "nozzle_offset_calibration_supported model \<longleftrightarrow>
     cf_nozzle_offset_calibration (dc_features (compatibility_for_model model)) = Supported"

definition live_controls_supported :: "string option \<Rightarrow> bool" where
  "live_controls_supported model \<longleftrightarrow>
     cf_live_controls (dc_features (compatibility_for_model model)) = Supported"

definition ftps_tls_1_2_cap :: "string option \<Rightarrow> bool" where
  "ftps_tls_1_2_cap model = dc_ftps_tls_1_2_cap (compatibility_for_model model)"

definition studio_local_camera_supported :: "string option \<Rightarrow> bool" where
  "studio_local_camera_supported model \<longleftrightarrow>
     (case Option.bind model normalize_model of
        None \<Rightarrow> False
      | Some m \<Rightarrow> m \<in> {''A1'', ''A1_MINI'', ''P1S'', ''A2L''})"

section \<open>The tables agree\<close>

definition known_models :: "string list" where
  "known_models =
     [''A1'', ''A1_MINI'', ''A2L'', ''X1'', ''X1C'', ''X1E'', ''P1P'', ''P1S'', ''P2S'', ''H2S'',
      ''X2D'', ''H2C'', ''H2D'', ''H2D_PRO'']"

text \<open>One record of the tables, read off a diagnostic.\<close>

definition coherent :: "diagnostic_compatibility \<Rightarrow> bool" where
  "coherent d \<longleftrightarrow>
     (cf_dual_nozzle (dc_features d) = Supported \<longleftrightarrow> dc_nozzle_layout d \<in> {MainAuxiliary, LeftRight}) \<and>
     (cf_dual_nozzle (dc_features d) = Unsupported \<longleftrightarrow> dc_nozzle_layout d = Single) \<and>
     (cf_flow_calibration (dc_features d) = Supported \<longleftrightarrow> po_flow_calibration (dc_print_options d) \<noteq> None) \<and>
     (cf_nozzle_offset_calibration (dc_features d) = Supported \<longleftrightarrow>
        po_nozzle_offset_calibration (dc_print_options d) \<noteq> None) \<and>
     list_all (\<lambda>m. case m of None \<Rightarrow> True | Some c \<Rightarrow> co_default_mode c \<in> set (co_modes c))
       [po_bed_leveling (dc_print_options d), po_flow_calibration (dc_print_options d),
        po_nozzle_offset_calibration (dc_print_options d)]"

definition offers_auto :: "calibration_option option \<Rightarrow> bool" where
  "offers_auto m = (case m of None \<Rightarrow> False | Some c \<Rightarrow> Auto \<in> set (co_modes c))"

lemmas table_defs =
  compatibility_for_key_def diagnostic_def dual_nozzle_capability_def nozzle_layout_def
  print_options_for_model_def chamber_fan_capability_def CompatibilityFeatures_unknown_def
  PrintOptionCapabilities_unknown_def on_off_def auto_on_off_def

lemma coherent_known: "list_all (\<lambda>k. coherent (compatibility_for_key k)) known_models"
  by code_simp

lemma unknown_key:
  "key \<notin> set known_models \<Longrightarrow>
     compatibility_for_key key =
       \<lparr>dc_normalized_model = Some key, dc_external_storage = Unknown, dc_ftps_tls_1_2_cap = False,
        dc_features = CompatibilityFeatures_unknown, dc_print_options = PrintOptionCapabilities_unknown,
        dc_chamber_fan = Unknown, dc_nozzle_layout = UnknownLayout\<rparr>"
  by (simp add: known_models_def table_defs)

lemma coherent_unknown:
  "coherent \<lparr>dc_normalized_model = m, dc_external_storage = Unknown, dc_ftps_tls_1_2_cap = False,
        dc_features = CompatibilityFeatures_unknown, dc_print_options = PrintOptionCapabilities_unknown,
        dc_chamber_fan = Unknown, dc_nozzle_layout = UnknownLayout\<rparr>"
  by (simp add: coherent_def CompatibilityFeatures_unknown_def PrintOptionCapabilities_unknown_def)

lemma coherent_key: "coherent (compatibility_for_key key)"
  using coherent_known by (cases "key \<in> set known_models") (auto simp: list_all_iff unknown_key coherent_unknown)

lemma coherent_none: "coherent (diagnostic None Unknown False CompatibilityFeatures_unknown)"
  by code_simp

text \<open>
  The separate tables never contradict each other, for any reported model text, known
  or not: two nozzles are supported exactly on the two-nozzle layouts, a calibration option
  is offered exactly when the feature is supported, and every offered option defaults to
  one of its own modes.
\<close>

lemma compatibility_coherent: "coherent (compatibility_for_model model)"
  by (simp add: compatibility_for_model_def coherent_key coherent_none split: option.split)

definition has_auto :: "string \<Rightarrow> bool" where
  "has_auto m \<longleftrightarrow> m \<in> {''P2S'', ''X2D'', ''A2L'', ''H2C'', ''H2D'', ''H2D_PRO'', ''H2S''}"

definition auto_coherent :: "diagnostic_compatibility \<Rightarrow> bool \<Rightarrow> bool" where
  "auto_coherent d b \<longleftrightarrow>
     offers_auto (po_flow_calibration (dc_print_options d)) = b \<and>
     offers_auto (po_bed_leveling (dc_print_options d)) = b"

lemma auto_known: "list_all (\<lambda>k. auto_coherent (compatibility_for_key k) (has_auto k)) known_models"
  by code_simp

lemma auto_unknown: "key \<notin> set known_models \<Longrightarrow> \<not> has_auto key"
  by (auto simp: known_models_def has_auto_def)

lemma auto_key: "auto_coherent (compatibility_for_key k) (has_auto k)"
proof (cases "k \<in> set known_models")
  case True
  then show ?thesis by (rule bspec [OF auto_known [unfolded list_all_iff]])
next
  case False
  then show ?thesis
    by (simp add: unknown_key auto_unknown auto_coherent_def offers_auto_def PrintOptionCapabilities_unknown_def)
qed

text \<open>The two \<open>auto_*_supported\<close> tests repeat the tables without drifting from them.\<close>

lemma auto_supported_iff_offered:
  "auto_coherent (compatibility_for_model model) (auto_flow_calibration_supported model)"
  "auto_bed_leveling_supported model = auto_flow_calibration_supported model"
proof -
  show "auto_coherent (compatibility_for_model model) (auto_flow_calibration_supported model)"
  proof (cases "Option.bind model normalize_model")
    case None
    then show ?thesis
      by (simp add: auto_flow_calibration_supported_def compatibility_for_model_def diagnostic_def
          print_options_for_model_def PrintOptionCapabilities_unknown_def auto_coherent_def offers_auto_def)
  next
    case (Some k)
    then show ?thesis using auto_key [of k]
      by (simp only: auto_flow_calibration_supported_def compatibility_for_model_def option.case
          has_auto_def)
  qed
  show "auto_bed_leveling_supported model = auto_flow_calibration_supported model"
    by (simp only: auto_flow_calibration_supported_def auto_bed_leveling_supported_def)
qed

section \<open>Normalisation ignores case\<close>

lemma byte_upper:
  "byte (ascii_upper_char c) = (if 97 \<le> byte c \<and> byte c \<le> 122 then byte c - 32 else byte c)"
  using of_char_of [where ?'a = nat, of "byte c - 32"] by (auto simp: ascii_upper_char_def)

lemma byte_upper_cmp:
  "n < 65 \<or> 122 < n \<Longrightarrow> byte (ascii_upper_char c) = n \<longleftrightarrow> byte c = n"
  "n < 65 \<or> 122 < n \<Longrightarrow> n \<le> byte (ascii_upper_char c) \<longleftrightarrow> n \<le> byte c"
  "n < 65 \<or> 122 \<le> n \<Longrightarrow> byte (ascii_upper_char c) \<le> n \<longleftrightarrow> byte c \<le> n"
  by (auto simp: byte_upper)

lemma ascii_upper_ws [simp]:
  "ws1 (ascii_upper_char c) = ws1 c"
  "ws2 (ascii_upper_char a) (ascii_upper_char b) = ws2 a b"
  "ws3 (ascii_upper_char a) (ascii_upper_char b) (ascii_upper_char c) = ws3 a b c"
  by (simp_all add: byte_upper_cmp ws1_def ws2_def ws3_def)

lemma ascii_upper_idem [simp]: "ascii_upper_char (ascii_upper_char c) = ascii_upper_char c"
proof -
  have "\<not> (97 \<le> byte (ascii_upper_char c) \<and> byte (ascii_upper_char c) \<le> 122)"
    by (auto simp: byte_upper)
  then show ?thesis by (simp only: ascii_upper_char_def [of "ascii_upper_char c"] if_False)
qed

lemma ws_len_upper: "ws_len (to_ascii_uppercase s) = ws_len s"
  by (cases s rule: ws_len.cases) simp_all

lemma ws_len_rev_upper: "ws_len_rev (to_ascii_uppercase s) = ws_len_rev s"
  by (cases s rule: ws_len_rev.cases) simp_all

lemma drop_ws_upper:
  "(\<And>t. w (to_ascii_uppercase t) = w t) \<Longrightarrow>
     drop_ws w (to_ascii_uppercase s) = to_ascii_uppercase (drop_ws w s)"
proof (induction w s rule: drop_ws.induct)
  case (1 w s)
  have eq: "w (to_ascii_uppercase t) = w t" for t by (rule "1.prems")
  show ?case
  proof (cases "w s = 0 \<or> s = []")
    case True
    then show ?thesis using eq [of s]
      by (auto simp: drop_ws.simps [of w s] drop_ws.simps [of w "to_ascii_uppercase s"])
  next
    case False
    with "1.IH" [OF False eq] show ?thesis using eq [of s]
      by (simp add: drop_ws.simps [of w s] drop_ws.simps [of w "to_ascii_uppercase s"] drop_map)
  qed
qed

lemma trim_upper: "trim (to_ascii_uppercase s) = to_ascii_uppercase (trim s)"
  by (simp add: trim_def trim_start_def trim_end_def rev_map drop_ws_upper ws_len_upper ws_len_rev_upper)

text \<open>
  Two reported model texts that differ only in ASCII case have the same normalised
  name, and therefore the same diagnostic record.
\<close>

lemma normalize_model_ignores_case:
  assumes "to_ascii_uppercase s = to_ascii_uppercase t"
  shows "normalize_model s = normalize_model t \<and>
         compatibility_for_model (Some s) = compatibility_for_model (Some t)"
proof -
  have "to_ascii_uppercase (trim s) = to_ascii_uppercase (trim t)"
    using assms by (simp only: trim_upper [symmetric])
  then have "normalize_model s = normalize_model t" by (simp only: normalize_model_def)
  then show ?thesis by (simp add: compatibility_for_model_def)
qed

text \<open>Every name the tables know is its own normal form.\<close>

lemma normalize_known: "list_all (\<lambda>k. normalize_model k = Some k) known_models"
  by code_simp

text \<open>
  A text that is only the vendor name normalises to the empty model name rather than to
  no model.
\<close>

lemma normalize_vendor_only: "normalize_model ''Bambu Lab'' = Some []"
  by code_simp

end
