(* ===== verification/H2c.thy ===== *)
theory H2c
  imports Json Core_Entities
begin

text \<open>
  \<open>crates/pandar-core/src/h2c.rs\<close>: the automatic nozzle mapping request and response of
  the H2C printer with their validators, and the nozzle-system records a printer reports.
  The two request versions use disjoint sets of optional fields; the validators bound every
  collection and identifier.
\<close>

section \<open>Requests\<close>

abbreviation MAX_MAPPING_ENTRIES :: nat where "MAX_MAPPING_ENTRIES \<equiv> 32"
abbreviation V0_AMS_MAPPING_ENTRIES :: nat where "V0_AMS_MAPPING_ENTRIES \<equiv> 33"
abbreviation V0_FILAMENT_INFO_ENTRIES :: nat where "V0_FILAMENT_INFO_ENTRIES \<equiv> 1056"

record h2c_group_info =
  group_id :: i32
  group_ext :: u8
  group_dia :: f32
  group_vol :: string

record h2c_filament_info =
  fila_id :: i32
  fila_direction :: u8
  fila_group :: i32
  fila_nozzle_d :: string
  fila_nozzle_v :: string
  fila_cate :: string
  fila_color :: string

record h2c_nozzle_info =
  nozzle_pos :: i32
  nozzle_d :: string
  nozzle_v :: string
  nozzle_wear :: f32
  nozzle_cate :: string
  nozzle_color :: string

record h2c_request =
  req_command :: string
  req_sequence_id :: string
  req_version :: "u8 option"
  req_calibration :: "i32 option"
  req_extrude_cali_manual_mode :: "i32 option"
  req_filament_seq :: "i32 list option"
  req_ams_mapping :: "i32 list option"
  req_fila_info :: "h2c_filament_info list option"
  req_nozzle_info :: "h2c_nozzle_info list option"
  req_group_info :: "h2c_group_info list option"

record h2c_request_envelope =
  env_print :: h2c_request

definition is_some_and :: "('a \<Rightarrow> bool) \<Rightarrow> 'a option \<Rightarrow> bool" where
  "is_some_and P m = (case m of None \<Rightarrow> False | Some x \<Rightarrow> P x)"

text \<open>The closure of \<open>all\<close> threads the vector of the values seen so far.\<close>

fun all_unique_from :: "i32 list \<Rightarrow> i32 list \<Rightarrow> bool" where
  "all_unique_from seen [] = True"
| "all_unique_from seen (v # vs) =
     (if v \<in> set seen then False else all_unique_from (seen @ [v]) vs)"

definition all_unique :: "i32 list \<Rightarrow> bool" where
  "all_unique vs = all_unique_from [] vs"

definition valid_diameter :: "f32 \<Rightarrow> bool" where
  "valid_diameter v \<longleftrightarrow>
     is_finite v \<and>
     list_ex (float_eq v) [round_f32 (2 / 10), round_f32 (4 / 10), round_f32 (6 / 10), round_f32 (8 / 10)]"

definition valid_diameter_text :: "string \<Rightarrow> bool" where
  "valid_diameter_text s = is_some_and valid_diameter (parse_f32 s)"

definition valid_flow :: "string \<Rightarrow> bool" where
  "valid_flow s \<longleftrightarrow>
     s \<in> {''Standard'', ''High Flow'', ''TPU Flow'', ''TPU High Flow'', ''E3D High Flow''}"

definition valid_physical_nozzle_id :: "i32 \<Rightarrow> bool" where
  "valid_physical_nozzle_id v \<longleftrightarrow> v = 0 \<or> v = 1 \<or> (16 \<le> v \<and> v \<le> 21)"

definition valid_h2c_nozzle_mapping :: "i32 list \<Rightarrow> bool" where
  "valid_h2c_nozzle_mapping m \<longleftrightarrow>
     m \<noteq> [] \<and> length m \<le> MAX_MAPPING_ENTRIES \<and>
     list_all (\<lambda>v. v = -1 \<or> valid_physical_nozzle_id v) m"

definition group_is_valid :: "h2c_group_info \<Rightarrow> bool" where
  "group_is_valid g \<longleftrightarrow>
     (0 \<le> group_id g \<and> group_id g < int MAX_MAPPING_ENTRIES) \<and>
     (1 \<le> group_ext g \<and> group_ext g \<le> 2) \<and>
     valid_diameter (group_dia g) \<and> valid_flow (group_vol g)"

definition filament_is_valid :: "h2c_filament_info \<Rightarrow> bool" where
  "filament_is_valid f \<longleftrightarrow>
     (1 \<le> fila_id f \<and> fila_id f \<le> int V0_AMS_MAPPING_ENTRIES) \<and>
     (1 \<le> fila_direction f \<and> fila_direction f \<le> 2) \<and>
     (0 \<le> fila_group f \<and> fila_group f < int MAX_MAPPING_ENTRIES) \<and>
     valid_diameter_text (fila_nozzle_d f) \<and> valid_flow (fila_nozzle_v f) \<and>
     length (fila_cate f) \<le> 128 \<and> length (fila_color f) \<le> 16"

definition nozzle_is_valid :: "h2c_nozzle_info \<Rightarrow> bool" where
  "nozzle_is_valid n \<longleftrightarrow>
     valid_physical_nozzle_id (nozzle_pos n) \<and> valid_diameter_text (nozzle_d n) \<and>
     valid_flow (nozzle_v n) \<and> is_finite (nozzle_wear n) \<and> float_ge (nozzle_wear n) (Finite 0) \<and>
     length (nozzle_cate n) \<le> 128 \<and> length (nozzle_color n) \<le> 16"

definition valid_v1 :: "h2c_request \<Rightarrow> bool" where
  "valid_v1 r \<longleftrightarrow>
     req_calibration r = None \<and> req_extrude_cali_manual_mode r = None \<and>
     req_filament_seq r = None \<and> req_ams_mapping r = None \<and> req_fila_info r = None \<and>
     req_nozzle_info r = None \<and>
     is_some_and (\<lambda>gs. gs \<noteq> [] \<and> length gs \<le> MAX_MAPPING_ENTRIES \<and>
       list_all group_is_valid gs \<and> all_unique (map group_id gs)) (req_group_info r)"

definition valid_v0 :: "h2c_request \<Rightarrow> bool" where
  "valid_v0 r \<longleftrightarrow>
     req_group_info r = None \<and>
     is_some_and (\<lambda>v. 0 \<le> v \<and> v \<le> 2) (req_calibration r) \<and>
     is_some_and (\<lambda>v. -1 \<le> v \<and> v \<le> 1) (req_extrude_cali_manual_mode r) \<and>
     is_some_and (\<lambda>vs. vs \<noteq> [] \<and> length vs \<le> V0_AMS_MAPPING_ENTRIES \<and>
       list_all (\<lambda>v. v \<ge> -1) vs) (req_filament_seq r) \<and>
     is_some_and (\<lambda>vs. length vs = V0_AMS_MAPPING_ENTRIES \<and>
       list_all (\<lambda>v. 0 \<le> v \<and> v \<le> 65535) vs) (req_ams_mapping r) \<and>
     is_some_and (\<lambda>vs. length vs \<le> V0_FILAMENT_INFO_ENTRIES \<and>
       list_all filament_is_valid vs) (req_fila_info r) \<and>
     is_some_and (\<lambda>vs. length vs \<le> 8 \<and> list_all nozzle_is_valid vs) (req_nozzle_info r)"

definition is_ascii_digit :: "char \<Rightarrow> bool" where
  "is_ascii_digit c \<longleftrightarrow> 48 \<le> byte c \<and> byte c \<le> 57"

definition request_is_valid :: "h2c_request \<Rightarrow> bool" where
  "request_is_valid r =
     (if req_command r \<noteq> ''get_auto_nozzle_mapping'' \<or> req_sequence_id r = [] \<or>
         length (req_sequence_id r) > 20 \<or> \<not> list_all is_ascii_digit (req_sequence_id r)
      then False
      else case req_version r of
             Some v \<Rightarrow> if v = 1 then valid_v1 r else if v = 0 then valid_v0 r else False
           | None \<Rightarrow> valid_v0 r)"

section \<open>Responses\<close>

record h2c_response =
  resp_command :: string
  resp_sequence_id :: string
  resp_result :: "string option"
  resp_reason :: "string option"
  resp_errno :: "i32 option"
  resp_detail :: "json option"
  resp_kind :: "string option"
  resp_version :: "json option"
  resp_mapping :: "i32 list option"
  resp_extra :: "(string \<times> json) list"

record h2c_response_envelope =
  renv_print :: h2c_response
  renv_extra :: "(string \<times> json) list"

definition response_version :: "json option \<Rightarrow> u8 option" where
  "response_version v =
     (case v of
        None \<Rightarrow> Some 0
      | Some (JNumber n) \<Rightarrow>
          (case as_u64 (JNumber n) of
             Some k \<Rightarrow> if unat k < 256 then Some (of_nat (unat k)) else None
           | None \<Rightarrow> None)
      | Some _ \<Rightarrow> None)"

definition unwrap_or_default_u8 :: "u8 option \<Rightarrow> u8" where
  "unwrap_or_default_u8 m = (case m of Some v \<Rightarrow> v | None \<Rightarrow> 0)"

definition is_valid_for :: "h2c_response_envelope \<Rightarrow> h2c_request \<Rightarrow> bool" where
  "is_valid_for env request =
     (let response = renv_print env
      in if resp_command response \<noteq> ''get_auto_nozzle_mapping'' \<or>
            resp_sequence_id response \<noteq> req_sequence_id request then False
         else case resp_result response of
                None \<Rightarrow> False
              | Some res \<Rightarrow>
                  if res = ''fail'' \<or> res = ''failed'' then True
                  else if res = ''success'' then
                    response_version (resp_version response)
                      = Some (unwrap_or_default_u8 (req_version request)) \<and>
                    is_some_and valid_h2c_nozzle_mapping (resp_mapping response)
                  else False)"

section \<open>The nozzle system a printer reports\<close>

record bambu_nozzle_info =
  bni_id :: i32
  bni_diameter :: studio_finite_f64
  bni_nozzle_type :: string
  bni_stat :: "u32 option"
  bni_fila_id :: "string option"
  bni_wear :: "studio_finite_f64 option"
  bni_p_t :: "i32 option"
  bni_color_m :: "string option"

record bambu_nozzle_device =
  bnd_exist :: "u32 option"
  bnd_state :: "u32 option"
  bnd_src_id :: "i32 option"
  bnd_tar_id :: "i32 option"
  bnd_info :: "bambu_nozzle_info list"

record bambu_nozzle_holder =
  bnh_stat :: "i32 option"
  bnh_pos :: "i32 option"
  bnh_info :: "i32 option"

record bambu_nozzle_system =
  bns_nozzle :: bambu_nozzle_device
  bns_holder :: "bambu_nozzle_holder option"

section \<open>Properties\<close>

lemma all_unique_from_iff:
  "distinct seen \<Longrightarrow> all_unique_from seen vs \<longleftrightarrow> distinct (seen @ vs)"
  by (induction vs arbitrary: seen) auto

lemma all_unique_iff: "all_unique vs \<longleftrightarrow> distinct vs"
  by (simp add: all_unique_def all_unique_from_iff)

lemma is_some_and_iff [simp]: "is_some_and P m \<longleftrightarrow> (\<exists>x. m = Some x \<and> P x)"
  by (cases m) (auto simp: is_some_and_def)


definition sample_v1_request :: h2c_request where
  "sample_v1_request =
     \<lparr>req_command = ''get_auto_nozzle_mapping'', req_sequence_id = ''42'', req_version = Some 1,
      req_calibration = None, req_extrude_cali_manual_mode = None, req_filament_seq = None,
      req_ams_mapping = None, req_fila_info = None, req_nozzle_info = None,
      req_group_info = Some
        [\<lparr>group_id = 0, group_ext = 1, group_dia = round_f32 (4 / 10), group_vol = ''Standard''\<rparr>,
         \<lparr>group_id = 3, group_ext = 2, group_dia = round_f32 (8 / 10), group_vol = ''High Flow''\<rparr>]\<rparr>"

lemma sample_v1_request_valid: "request_is_valid sample_v1_request"
  by code_simp


end
