(* ===== verification/Hub_Jobs.thy ===== *)
theory Hub_Jobs
  imports Hub_Commands Compatibility H2c
begin

text \<open>
  The job store of the hub, \<open>crates/pandar-hub/src/repositories/jobs\<close>: reading jobs back (\<open>rows.rs\<close>,
  \<open>hydration.rs\<close>), the per-tenant sequence of Studio submission ids (\<open>studio_ids.rs\<close>) and the
  creation of a print job (\<open>create.rs\<close> with \<open>create/inserts.rs\<close>, \<open>create/payload.rs\<close>,
  \<open>create/validation.rs\<close> and \<open>create/build.rs\<close>): one transaction that allocates the submission id,
  inserts artifact, command and job.

  Parameters, collected in the record \<open>job_codec\<close>: \<open>uuid\<close> parsing and the JSON readers and writers.
\<close>

section \<open>Data\<close>

record print_project_file_payload =
  ppf_job_id :: string
  ppf_artifact_id :: string
  ppf_printer_id :: string
  ppf_serial_number :: string
  ppf_filename :: string
  ppf_storage_path :: string
  ppf_artifact_download_path :: string
  ppf_size_bytes :: u64
  ppf_plate_id :: u32
  ppf_use_ams :: bool
  ppf_auto_bed_leveling :: print_calibration_mode
  ppf_bed_leveling :: bool
  ppf_flow_cali :: bool
  ppf_auto_flow_cali :: print_calibration_mode
  ppf_auto_offset_cali :: print_calibration_mode
  ppf_timelapse :: bool
  ppf_ams_mapping_json :: "string option"
  ppf_ams_mapping2_json :: "string option"
  ppf_ams_mapping_info_json :: "string option"
  ppf_studio_submission_id :: studio_submission_id
  ppf_studio_metadata :: "studio_print_metadata option"

record print_artifact_input =
  pai_id :: string
  pai_filename :: string
  pai_content_type :: string
  pai_size_bytes :: u64
  pai_storage_path :: string
  pai_metadata_json :: "string option"

record print_execution_options =
  peo_plate_id :: u32
  peo_use_ams :: bool
  peo_auto_bed_leveling :: print_calibration_mode
  peo_bed_leveling :: bool
  peo_flow_cali :: bool
  peo_auto_flow_cali :: print_calibration_mode
  peo_auto_offset_cali :: print_calibration_mode
  peo_timelapse :: bool
  peo_ams_mapping_json :: "string option"
  peo_ams_mapping2_json :: "string option"
  peo_ams_mapping_info_json :: "string option"

record create_print_job =
  cpj_tenant_id :: tenant_id
  cpj_printer_id :: string
  cpj_agent_id :: agent_id
  cpj_artifact :: print_artifact_input
  cpj_options :: print_execution_options

record duplicate_print_job =
  dpj_printer_id :: "string option"
  dpj_plate_id :: "u32 option"
  dpj_use_ams :: "bool option"
  dpj_auto_bed_leveling :: "print_calibration_mode option"
  dpj_bed_leveling :: "bool option"
  dpj_flow_cali :: "bool option"
  dpj_auto_flow_cali :: "print_calibration_mode option"
  dpj_auto_offset_cali :: "print_calibration_mode option"
  dpj_timelapse :: "bool option"
  dpj_replace_ams_mappings :: bool
  dpj_ams_mapping_json :: "string option"
  dpj_ams_mapping2_json :: "string option"
  dpj_ams_mapping_info_json :: "string option"

record job_with_artifact =
  jwa_job :: job
  jwa_artifact :: job_artifact

record job_codec =
  jc_uuid :: uuid_parser
  jc_read_metadata :: metadata_reader
  jc_write_metadata :: "studio_print_metadata \<Rightarrow> string"
  jc_artifact_metadata_ok :: "string \<Rightarrow> bool"
  jc_read_payload :: "string \<Rightarrow> print_project_file_payload option"
  jc_write_payload :: "print_project_file_payload \<Rightarrow> string"
  jc_mapping_len :: "string \<Rightarrow> nat option"
  jc_mapping2_len :: "string \<Rightarrow> nat option"
  jc_mapping_info_len :: "string \<Rightarrow> nat option"
  jc_audit_text :: "audit_metadata \<Rightarrow> string"

section \<open>Reading rows back\<close>

definition i32_to_u8 :: "i32 \<Rightarrow> u8 repository_result" where
  "i32_to_u8 v =
     (if 0 \<le> v \<and> v < 256 then Ok (word_of_int v)
      else Err (Database (Message ''invalid persisted u8 value for job print state'')))"

definition i32_to_u32 :: "i32 \<Rightarrow> u32 repository_result" where
  "i32_to_u32 v =
     (if 0 \<le> v then Ok (word_of_int v)
      else Err (Database (Message ''invalid persisted u32 value for job print state'')))"

definition job_rehydrate_error :: "job_row \<Rightarrow> core_error \<Rightarrow> repository_error" where
  "job_rehydrate_error m e =
     (case e of
        InvalidJobStatus _ \<Rightarrow> InvalidPersistedJobStatus (jr_status m)
      | InvalidPrintStatus _ \<Rightarrow> InvalidPersistedPrintStatus (jr_print_status m)
      | InvalidStudioPrintMetadata _ \<Rightarrow>
          InvalidPersistedStudioMetadata (Message ''failed to rehydrate Studio task metadata'')
      | _ \<Rightarrow> Database (Message ''failed to rehydrate job''))"

definition job_from_model_with_usage ::
  "job_codec \<Rightarrow> job_row \<Rightarrow> job_filament_usage list \<Rightarrow> job repository_result" where
  "job_from_model_with_usage codec m usage =
     and_then (map_err (\<lambda>e. Database (CoreErr e)) (JobId_parse (jc_uuid codec) (jr_id m))) (\<lambda>i.
     and_then (map_err (\<lambda>e. Database (CoreErr e)) (TenantId_parse (jc_uuid codec) (jr_tenant_id m))) (\<lambda>t.
     and_then (map_err (\<lambda>e. Database (CoreErr e)) (AgentId_parse (jc_uuid codec) (jr_agent_id m))) (\<lambda>a.
     and_then (map_err (\<lambda>e. Database (CoreErr e)) (CommandId_parse (jc_uuid codec) (jr_command_id m))) (\<lambda>c.
     and_then (i32_to_u32 (jr_plate_index m)) (\<lambda>plate.
     and_then (traverse_option i32_to_u8 (jr_progress_percent m)) (\<lambda>progress.
     and_then (traverse_option i32_to_u32 (jr_remaining_time_minutes m)) (\<lambda>remaining.
     and_then (traverse_option i32_to_u32 (jr_current_layer m)) (\<lambda>layer.
     and_then (traverse_option i32_to_u32 (jr_total_layers m)) (\<lambda>layers.
     and_then (traverse_option i32_to_u8 (jr_last_progress_percent m)) (\<lambda>last_progress.
     and_then (traverse_option i32_to_u32 (jr_last_layer m)) (\<lambda>last_layer.
     map_err (job_rehydrate_error m) (Job_from_parts (jc_read_metadata codec)
       \<lparr>jp_id = i, jp_tenant_id = t, jp_printer_id = jr_printer_id m, jp_agent_id = a,
        jp_artifact_id = jr_artifact_id m, jp_command_id = c,
        jp_studio_submission_id = jr_studio_submission_id m, jp_plate_index = plate,
        jp_studio_metadata_json = jr_studio_metadata_json m, jp_status = jr_status m,
        jp_error = jr_error m, jp_print_status = jr_print_status m,
        jp_printer_state = jr_printer_state m, jp_progress_percent = progress,
        jp_remaining_time_minutes = remaining, jp_current_layer = layer, jp_total_layers = layers,
        jp_active_file = jr_active_file m, jp_last_progress_percent = last_progress,
        jp_last_layer = last_layer, jp_print_error = jr_print_error m,
        jp_print_started_at = jr_print_started_at m, jp_print_finished_at = jr_print_finished_at m,
        jp_print_updated_at = jr_print_updated_at m, jp_ams_mapping_json = jr_ams_mapping_json m,
        jp_ams_mapping2_json = jr_ams_mapping2_json m,
        jp_ams_mapping_info_json = jr_ams_mapping_info_json m,
        jp_uploaded_url = jr_uploaded_url m, jp_filament_usage = usage,
        jp_created_at = jr_created_at m, jp_updated_at = jr_updated_at m\<rparr>))))))))))))"

definition job_from_model :: "job_codec \<Rightarrow> job_row \<Rightarrow> job repository_result" where
  "job_from_model codec m = job_from_model_with_usage codec m []"

definition usage_from_model :: "job_codec \<Rightarrow> usage_row \<Rightarrow> job_filament_usage repository_result" where
  "usage_from_model codec m =
     and_then (map_err (\<lambda>e. Database (CoreErr e)) (TenantId_parse (jc_uuid codec) (ur_tenant_id m))) (\<lambda>t.
     and_then (map_err (\<lambda>e. Database (CoreErr e)) (JobId_parse (jc_uuid codec) (ur_job_id m))) (\<lambda>j.
     and_then (i32_to_u32 (ur_slot_index m)) (\<lambda>slot.
     and_then (traverse_option i32_to_u32 (ur_global_tray_id m)) (\<lambda>tray.
     Ok \<lparr>jfu_id = ur_id m, jfu_tenant_id = t, jfu_job_id = j, jfu_slot_index = slot,
         jfu_source = ur_source m, jfu_ams_id = ur_ams_id m, jfu_tray_id = ur_tray_id m,
         jfu_global_tray_id = tray, jfu_external_id = ur_external_id m,
         jfu_filament_id = ur_filament_id m, jfu_setting_id = ur_setting_id m,
         jfu_filament_type = ur_filament_type m, jfu_color = ur_color m, jfu_used_mm = ur_used_mm m,
         jfu_used_grams = ur_used_grams m, jfu_confidence = ur_confidence m,
         jfu_created_at = ur_created_at m\<rparr>))))"

text \<open>\<open>model.size_bytes as u64\<close> reinterprets a negative value.\<close>

definition artifact_from_model :: "job_codec \<Rightarrow> artifact_row \<Rightarrow> job_artifact repository_result" where
  "artifact_from_model codec m =
     (if (case fr_metadata_json m of Some text \<Rightarrow> \<not> jc_artifact_metadata_ok codec text | None \<Rightarrow> False)
      then Err (InvalidPersistedArtifactMetadata (Message ''invalid persisted artifact metadata''))
      else and_then (map_err (\<lambda>e. Database (CoreErr e)) (TenantId_parse (jc_uuid codec) (fr_tenant_id m))) (\<lambda>t.
        map_err (\<lambda>_. Database (Message ''failed to rehydrate job artifact''))
          (JobArtifact_from_parts
             \<lparr>artp_id = fr_id m, artp_tenant_id = t, artp_filename = fr_filename m,
              artp_content_type = fr_content_type m, artp_size_bytes = word_of_int (fr_size_bytes m),
              artp_storage_path = fr_storage_path m, artp_metadata_json = fr_metadata_json m,
              artp_created_at = fr_created_at m\<rparr>)))"

definition job_with_artifact_from_models ::
  "job_codec \<Rightarrow> job_row \<Rightarrow> artifact_row \<Rightarrow> job_with_artifact repository_result" where
  "job_with_artifact_from_models codec j a =
     and_then (job_from_model codec j) (\<lambda>job.
     and_then (artifact_from_model codec a) (\<lambda>artifact.
       Ok \<lparr>jwa_job = job, jwa_artifact = artifact\<rparr>))"

text \<open>\<open>ORDER BY\<close> as a stable insertion sort by a strict order.\<close>

fun insert_by :: "('a \<Rightarrow> 'a \<Rightarrow> bool) \<Rightarrow> 'a \<Rightarrow> 'a list \<Rightarrow> 'a list" where
  "insert_by lt x [] = [x]"
| "insert_by lt x (y # ys) = (if lt y x then y # insert_by lt x ys else x # y # ys)"

definition order_by :: "('a \<Rightarrow> 'a \<Rightarrow> bool) \<Rightarrow> 'a list \<Rightarrow> 'a list" where
  "order_by lt xs = foldr (insert_by lt) xs []"

definition usage_less :: "usage_row \<Rightarrow> usage_row \<Rightarrow> bool" where
  "usage_less a b \<longleftrightarrow>
     ur_slot_index a < ur_slot_index b \<or>
     (ur_slot_index a = ur_slot_index b \<and> text_less (ur_source a) (ur_source b))"

definition job_from_model_loading_usage :: "job_codec \<Rightarrow> hub_db \<Rightarrow> job_row \<Rightarrow> job repository_result" where
  "job_from_model_loading_usage codec db m =
     and_then (traverse_list (usage_from_model codec)
       (order_by usage_less
          (filter (\<lambda>u. ur_tenant_id u = jr_tenant_id m \<and> ur_job_id u = jr_id m) (db_usages db)))) (\<lambda>usage.
     job_from_model_with_usage codec m usage)"

definition artifact_for_job :: "hub_db \<Rightarrow> job_row \<Rightarrow> artifact_row repository_result" where
  "artifact_for_job db m =
     ok_or (find_by_id fr_id (jr_artifact_id m) (db_artifacts db))
       (Database (Message ''job references missing artifact''))"

definition job_with_artifact_by_id ::
  "job_codec \<Rightarrow> hub_db \<Rightarrow> tenant_id \<Rightarrow> job_id \<Rightarrow> job_with_artifact option repository_result" where
  "job_with_artifact_by_id codec db tenant i =
     (case find (\<lambda>j. jr_id j = i \<and> jr_tenant_id j = tenant) (db_jobs db) of
        None \<Rightarrow> Ok None
      | Some m \<Rightarrow>
          and_then (artifact_for_job db m) (\<lambda>a.
          and_then (job_with_artifact_from_models codec m a) (\<lambda>w.
          and_then (job_from_model_loading_usage codec db m) (\<lambda>j.
            Ok (Some (w\<lparr>jwa_job := j\<rparr>))))))"

text \<open>Bulk hydration works through the jobs in chunks of 500.\<close>

abbreviation HYDRATION_CHUNK_SIZE :: nat where "HYDRATION_CHUNK_SIZE \<equiv> 500"

definition hydrate_one :: "job_codec \<Rightarrow> hub_db \<Rightarrow> job_row \<Rightarrow> job_with_artifact repository_result" where
  "hydrate_one codec db m =
     and_then (artifact_for_job db m) (\<lambda>a.
     and_then (traverse_list (usage_from_model codec)
        (filter (\<lambda>u. ur_job_id u = jr_id m) (db_usages db))) (\<lambda>usage.
     and_then (job_with_artifact_from_models codec m a) (\<lambda>w.
       Ok (w\<lparr>jwa_job := (jwa_job w)\<lparr>job_filament_usage := usage\<rparr>\<rparr>))))"

definition hydrate_job_chunk ::
  "job_codec \<Rightarrow> hub_db \<Rightarrow> job_row list \<Rightarrow> job_with_artifact list \<Rightarrow> job_with_artifact list repository_result" where
  "hydrate_job_chunk codec db chunk hydrated =
     and_then (traverse_list (hydrate_one codec db) chunk) (\<lambda>ws. Ok (hydrated @ ws))"

function hydrate_from ::
  "job_codec \<Rightarrow> hub_db \<Rightarrow> job_row list \<Rightarrow> job_with_artifact list \<Rightarrow> job_with_artifact list repository_result" where
  "hydrate_from codec db models hydrated =
     (if models = [] then Ok hydrated
      else and_then (hydrate_job_chunk codec db (take HYDRATION_CHUNK_SIZE models) hydrated)
             (hydrate_from codec db (drop HYDRATION_CHUNK_SIZE models)))"
  by pat_completeness auto
termination
  by (relation "measure (\<lambda>(codec, db, models, hydrated). length models)") auto

declare hydrate_from.simps [simp del]

definition hydrate_jobs_with_artifacts ::
  "job_codec \<Rightarrow> hub_db \<Rightarrow> job_row list \<Rightarrow> job_with_artifact list repository_result" where
  "hydrate_jobs_with_artifacts codec db models = hydrate_from codec db models []"

section \<open>Studio submission ids\<close>

text \<open>
  \<open>INSERT ... ON CONFLICT DO NOTHING\<close> makes sure the tenant has a row, then \<open>UPDATE ... RETURNING\<close>
  counts it up unless the sequence is exhausted.
\<close>

definition ensure_sequence :: "tenant_id \<Rightarrow> sequence_row list \<Rightarrow> sequence_row list" where
  "ensure_sequence tenant rows =
     (if tenant \<in> sr_tenant_id ` set rows then rows
      else rows @ [\<lparr>sr_tenant_id = tenant, sr_last_id = 0\<rparr>])"

definition sequence_open :: "tenant_id \<Rightarrow> sequence_row \<Rightarrow> bool" where
  "sequence_open tenant r \<longleftrightarrow> sr_tenant_id r = tenant \<and> sr_last_id r < 2147483647"

definition allocate :: "tenant_id \<Rightarrow> hub_db \<Rightarrow> (studio_submission_id \<times> hub_db) repository_result" where
  "allocate tenant db =
     (let rows = ensure_sequence tenant (db_sequences db);
          (rows', n) = update_many (sequence_open tenant) (\<lambda>r. r\<lparr>sr_last_id := sr_last_id r + 1\<rparr>) rows
      in case find (sequence_open tenant) rows of
           None \<Rightarrow> Err StudioSubmissionIdExhausted
         | Some r \<Rightarrow>
             and_then (map_err (\<lambda>_. Database (Message ''failed to validate allocated Studio submission id''))
                         (StudioSubmissionId_try_from (sr_last_id r + 1))) (\<lambda>i.
               Ok (i, db\<lparr>db_sequences := rows'\<rparr>)))"

section \<open>Creating a print job\<close>

definition validate_mapping_len :: "nat \<Rightarrow> bool" where
  "validate_mapping_len n \<longleftrightarrow> n \<le> 32"

definition validate_mapping_json ::
  "(string \<Rightarrow> nat option) \<Rightarrow> string \<Rightarrow> string option \<Rightarrow> unit repository_result" where
  "validate_mapping_json read_len field v =
     (case v of
        None \<Rightarrow> Ok ()
      | Some text \<Rightarrow>
          (case read_len text of
             None \<Rightarrow> Err (Database (Message (''failed to validate '' @ field)))
           | Some n \<Rightarrow>
               if \<not> validate_mapping_len n
               then Err (Database (Message (field @ '' must not contain more than 32 entries'')))
               else Ok ()))"

definition validate_mappings :: "job_codec \<Rightarrow> print_execution_options \<Rightarrow> unit repository_result" where
  "validate_mappings codec opts =
     and_then (validate_mapping_json (jc_mapping_len codec) ''ams_mapping_json'' (peo_ams_mapping_json opts)) (\<lambda>_.
     and_then (validate_mapping_json (jc_mapping2_len codec) ''ams_mapping2_json'' (peo_ams_mapping2_json opts)) (\<lambda>_.
     validate_mapping_json (jc_mapping_info_len codec) ''ams_mapping_info_json'' (peo_ams_mapping_info_json opts)))"

definition printer_for_agent :: "hub_db \<Rightarrow> create_print_job \<Rightarrow> string repository_result" where
  "printer_for_agent db input =
     ok_or (map_option prr_serial_number
        (find (\<lambda>p. prr_id p = cpj_printer_id input \<and> prr_tenant_id p = cpj_tenant_id input \<and>
                   prr_agent_id p = cpj_agent_id input) (db_printers db))) MissingPrinter"

definition artifact_download_path :: "agent_id \<Rightarrow> string \<Rightarrow> string" where
  "artifact_download_path agent artifact = ''/api/v1/agents/'' @ agent @ ''/artifacts/'' @ artifact"

text \<open>\<open>size_bytes as i64\<close>.\<close>

definition insert_artifact :: "create_print_job \<Rightarrow> timestamp \<Rightarrow> hub_db \<Rightarrow> hub_db repository_result" where
  "insert_artifact input now db =
     (let a = cpj_artifact input
      in if pai_id a \<in> fr_id ` set (db_artifacts db)
         then Err (Database (Message ''failed to insert job artifact''))
         else Ok (db\<lparr>db_artifacts := db_artifacts db @
           [\<lparr>fr_id = pai_id a, fr_tenant_id = cpj_tenant_id input, fr_filename = pai_filename a,
             fr_content_type = pai_content_type a, fr_size_bytes = sint (pai_size_bytes a),
             fr_storage_path = pai_storage_path a, fr_metadata_json = pai_metadata_json a,
             fr_created_at = now\<rparr>]\<rparr>))"

definition new_job_row ::
  "create_print_job \<Rightarrow> job_id \<Rightarrow> command_id \<Rightarrow> studio_submission_id \<Rightarrow> string option \<Rightarrow> timestamp \<Rightarrow> job_row" where
  "new_job_row input i c submission metadata now =
     (let opts = cpj_options input
      in \<lparr>jr_id = i, jr_tenant_id = cpj_tenant_id input, jr_printer_id = cpj_printer_id input,
          jr_agent_id = cpj_agent_id input, jr_artifact_id = pai_id (cpj_artifact input),
          jr_command_id = c, jr_studio_submission_id = StudioSubmissionId_get submission,
          jr_plate_index = uint (peo_plate_id opts), jr_studio_metadata_json = metadata,
          jr_status = JobStatus_as_str job_status.Queued, jr_error = None, jr_created_at = now,
          jr_updated_at = now, jr_print_status = PrintStatus_as_str print_status.Pending,
          jr_printer_state = None, jr_progress_percent = None, jr_remaining_time_minutes = None,
          jr_current_layer = None, jr_total_layers = None, jr_active_file = None,
          jr_last_progress_percent = None, jr_last_layer = None, jr_print_error = None,
          jr_print_started_at = None, jr_print_finished_at = None, jr_print_updated_at = None,
          jr_ams_mapping_json = peo_ams_mapping_json opts,
          jr_ams_mapping2_json = peo_ams_mapping2_json opts,
          jr_ams_mapping_info_json = peo_ams_mapping_info_json opts, jr_uploaded_url = None\<rparr>)"

definition insert_job ::
  "create_print_job \<Rightarrow> job_id \<Rightarrow> command_id \<Rightarrow> studio_submission_id \<Rightarrow> string option \<Rightarrow> timestamp \<Rightarrow> hub_db \<Rightarrow>
     hub_db repository_result" where
  "insert_job input i c submission metadata now db =
     (if \<not> uint (peo_plate_id (cpj_options input)) < 2 ^ 31
      then Err (Database (Message ''plate index exceeds int32''))
      else if i \<in> jr_id ` set (db_jobs db) then Err (Database (Message ''failed to insert print job''))
      else Ok (db\<lparr>db_jobs := db_jobs db @ [new_job_row input i c submission metadata now]\<rparr>))"

definition payload ::
  "create_print_job \<Rightarrow> job_id \<Rightarrow> string \<Rightarrow> studio_submission_id \<Rightarrow> studio_print_metadata option \<Rightarrow>
     print_project_file_payload" where
  "payload input i serial submission metadata =
     (let a = cpj_artifact input; opts = cpj_options input
      in \<lparr>ppf_job_id = i, ppf_artifact_id = pai_id a, ppf_printer_id = cpj_printer_id input,
          ppf_serial_number = serial, ppf_filename = pai_filename a,
          ppf_storage_path = pai_storage_path a,
          ppf_artifact_download_path = artifact_download_path (cpj_agent_id input) (pai_id a),
          ppf_size_bytes = pai_size_bytes a, ppf_plate_id = peo_plate_id opts,
          ppf_use_ams = peo_use_ams opts, ppf_auto_bed_leveling = peo_auto_bed_leveling opts,
          ppf_bed_leveling = peo_bed_leveling opts, ppf_flow_cali = peo_flow_cali opts,
          ppf_auto_flow_cali = peo_auto_flow_cali opts, ppf_auto_offset_cali = peo_auto_offset_cali opts,
          ppf_timelapse = peo_timelapse opts, ppf_ams_mapping_json = peo_ams_mapping_json opts,
          ppf_ams_mapping2_json = peo_ams_mapping2_json opts,
          ppf_ams_mapping_info_json = peo_ams_mapping_info_json opts,
          ppf_studio_submission_id = submission, ppf_studio_metadata = metadata\<rparr>)"

definition build_created_job ::
  "job_codec \<Rightarrow> create_print_job \<Rightarrow> job_id \<Rightarrow> command_id \<Rightarrow> studio_submission_id \<Rightarrow> string option \<Rightarrow> timestamp \<Rightarrow>
     job_with_artifact repository_result" where
  "build_created_job codec input i c submission metadata now =
     (let a = cpj_artifact input; opts = cpj_options input
      in and_then (map_err (\<lambda>_. Database (Message ''failed to build print job artifact''))
           (JobArtifact_from_parts
              \<lparr>artp_id = pai_id a, artp_tenant_id = cpj_tenant_id input, artp_filename = pai_filename a,
               artp_content_type = pai_content_type a, artp_size_bytes = pai_size_bytes a,
               artp_storage_path = pai_storage_path a, artp_metadata_json = pai_metadata_json a,
               artp_created_at = now\<rparr>)) (\<lambda>artifact.
         and_then (map_err (\<lambda>_. Database (Message ''failed to build print job''))
           (Job_from_parts (jc_read_metadata codec)
              \<lparr>jp_id = i, jp_tenant_id = cpj_tenant_id input, jp_printer_id = cpj_printer_id input,
               jp_agent_id = cpj_agent_id input, jp_artifact_id = pai_id a, jp_command_id = c,
               jp_studio_submission_id = StudioSubmissionId_get submission,
               jp_plate_index = peo_plate_id opts, jp_studio_metadata_json = metadata,
               jp_status = JobStatus_as_str job_status.Queued, jp_error = None,
               jp_print_status = PrintStatus_as_str print_status.Pending, jp_printer_state = None,
               jp_progress_percent = None, jp_remaining_time_minutes = None, jp_current_layer = None,
               jp_total_layers = None, jp_active_file = None, jp_last_progress_percent = None,
               jp_last_layer = None, jp_print_error = None, jp_print_started_at = None,
               jp_print_finished_at = None, jp_print_updated_at = None,
               jp_ams_mapping_json = peo_ams_mapping_json opts,
               jp_ams_mapping2_json = peo_ams_mapping2_json opts,
               jp_ams_mapping_info_json = peo_ams_mapping_info_json opts, jp_uploaded_url = None,
               jp_filament_usage = [], jp_created_at = now, jp_updated_at = now\<rparr>)) (\<lambda>job.
           Ok \<lparr>jwa_job = job, jwa_artifact = artifact\<rparr>)))"

text \<open>The tail both creations share: the command row, the job row and the returned entity.\<close>

definition insert_command_and_job ::
  "job_codec \<Rightarrow> create_print_job \<Rightarrow> job_id \<Rightarrow> command_id \<Rightarrow> string \<Rightarrow> studio_submission_id \<Rightarrow>
     studio_print_metadata option \<Rightarrow> timestamp \<Rightarrow> hub_db \<Rightarrow> (job_with_artifact \<times> hub_db) repository_result" where
  "insert_command_and_job codec input i c serial submission metadata now db =
     and_then (insert_command
       \<lparr>ic_id = c, ic_tenant_id = cpj_tenant_id input, ic_agent_id = cpj_agent_id input,
        ic_printer_id = Some (cpj_printer_id input), ic_kind = ''print_project_file'',
        ic_payload_json = jc_write_payload codec (payload input i serial submission metadata),
        ic_created_at = now\<rparr> db) (\<lambda>db1.
     and_then (insert_job input i c submission (map_option (jc_write_metadata codec) metadata) now db1) (\<lambda>db2.
     and_then (build_created_job codec input i c submission (map_option (jc_write_metadata codec) metadata) now) (\<lambda>w.
       Ok (w, db2))))"

definition create_print_job_tx ::
  "job_codec \<Rightarrow> timestamp \<Rightarrow> job_id \<Rightarrow> command_id \<Rightarrow> create_print_job \<Rightarrow> studio_print_metadata option \<Rightarrow> hub_db \<Rightarrow>
     (job_with_artifact \<times> hub_db) repository_result" where
  "create_print_job_tx codec now i c input metadata db =
     and_then (validate_mappings codec (cpj_options input)) (\<lambda>_.
     and_then (printer_for_agent db input) (\<lambda>serial.
     and_then (allocate (cpj_tenant_id input) db) (\<lambda>(submission, db1).
     and_then (insert_artifact input now db1) (\<lambda>db2.
     insert_command_and_job codec input i c serial submission metadata now db2))))"

record new_print_job_from_artifact =
  npj_input :: create_print_job
  npj_studio_metadata :: "studio_print_metadata option"

definition unwrap_or :: "'a option \<Rightarrow> 'a \<Rightarrow> 'a" where
  "unwrap_or m d = (case m of Some x \<Rightarrow> x | None \<Rightarrow> d)"

definition kept_mapping :: "bool \<Rightarrow> string option \<Rightarrow> string option \<Rightarrow> string option" where
  "kept_mapping preserve override source =
     (case override of Some x \<Rightarrow> Some x | None \<Rightarrow> if preserve then source else None)"

definition DuplicatePrintJob_default :: duplicate_print_job where
  "DuplicatePrintJob_default =
     \<lparr>dpj_printer_id = None, dpj_plate_id = None, dpj_use_ams = None, dpj_auto_bed_leveling = None,
      dpj_bed_leveling = None, dpj_flow_cali = None, dpj_auto_flow_cali = None,
      dpj_auto_offset_cali = None, dpj_timelapse = None, dpj_replace_ams_mappings = False,
      dpj_ams_mapping_json = None, dpj_ams_mapping2_json = None, dpj_ams_mapping_info_json = None\<rparr>"

definition NewPrintJobFromArtifact_from_source ::
  "job_with_artifact \<Rightarrow> print_project_file_payload \<Rightarrow> duplicate_print_job option \<Rightarrow> new_print_job_from_artifact" where
  "NewPrintJobFromArtifact_from_source source p overrides =
     (let ov = unwrap_or overrides DuplicatePrintJob_default; preserve = \<not> dpj_replace_ams_mappings ov; j = jwa_job source; a = jwa_artifact source
      in \<lparr>npj_input =
           \<lparr>cpj_tenant_id = job_tenant_id j,
            cpj_printer_id = unwrap_or (dpj_printer_id ov) (job_printer_id j),
            cpj_agent_id = job_agent_id j,
            cpj_artifact =
              \<lparr>pai_id = art_id a, pai_filename = art_filename a, pai_content_type = art_content_type a,
               pai_size_bytes = art_size_bytes a, pai_storage_path = art_storage_path a,
               pai_metadata_json = art_metadata_json a\<rparr>,
            cpj_options =
              \<lparr>peo_plate_id = unwrap_or (dpj_plate_id ov) (ppf_plate_id p),
               peo_use_ams = unwrap_or (dpj_use_ams ov) (ppf_use_ams p),
               peo_auto_bed_leveling = unwrap_or (dpj_auto_bed_leveling ov) (ppf_auto_bed_leveling p),
               peo_bed_leveling = unwrap_or (dpj_bed_leveling ov) (ppf_bed_leveling p),
               peo_flow_cali = unwrap_or (dpj_flow_cali ov) (ppf_flow_cali p),
               peo_auto_flow_cali = unwrap_or (dpj_auto_flow_cali ov) (ppf_auto_flow_cali p),
               peo_auto_offset_cali = unwrap_or (dpj_auto_offset_cali ov) (ppf_auto_offset_cali p),
               peo_timelapse = unwrap_or (dpj_timelapse ov) (ppf_timelapse p),
               peo_ams_mapping_json =
                 kept_mapping preserve (dpj_ams_mapping_json ov) (job_ams_mapping_json j),
               peo_ams_mapping2_json =
                 kept_mapping preserve (dpj_ams_mapping2_json ov) (job_ams_mapping2_json j),
               peo_ams_mapping_info_json =
                 kept_mapping preserve (dpj_ams_mapping_info_json ov) (job_ams_mapping_info_json j)\<rparr>\<rparr>,
          npj_studio_metadata = ppf_studio_metadata p\<rparr>)"

definition printer_for_existing_artifact ::
  "job_codec \<Rightarrow> hub_db \<Rightarrow> create_print_job \<Rightarrow> (string \<times> agent_id \<times> string option) repository_result" where
  "printer_for_existing_artifact codec db input =
     (case find (\<lambda>p. prr_id p = cpj_printer_id input \<and> prr_tenant_id p = cpj_tenant_id input) (db_printers db) of
        None \<Rightarrow> Err MissingPrinter
      | Some p \<Rightarrow>
          and_then (map_err (\<lambda>e. Database (CoreErr e)) (AgentId_parse (jc_uuid codec) (prr_agent_id p))) (\<lambda>agent.
            Ok (prr_serial_number p, agent, prr_model p)))"

definition create_print_job_from_artifact ::
  "job_codec \<Rightarrow> timestamp \<Rightarrow> job_id \<Rightarrow> command_id \<Rightarrow> new_print_job_from_artifact \<Rightarrow> hub_db \<Rightarrow>
     (job_with_artifact \<times> hub_db) repository_result" where
  "create_print_job_from_artifact codec now i c new db =
     and_then (validate_mappings codec (cpj_options (npj_input new))) (\<lambda>_.
     and_then (printer_for_existing_artifact codec db (npj_input new)) (\<lambda>(serial, agent, model).
       if Option.bind model normalize_model = Some ''H2C'' \<and>
          \<not> is_some_and (\<lambda>m. valid_h2c_nozzle_mapping (StudioPrintMetadata_nozzle_mapping m)) (npj_studio_metadata new)
       then Err H2cNozzleMappingRequired
       else
         let input = (npj_input new)\<lparr>cpj_agent_id := agent\<rparr>
         in and_then (allocate (cpj_tenant_id input) db) (\<lambda>(submission, db1).
              insert_command_and_job codec input i c serial submission (npj_studio_metadata new) now db1)))"

section \<open>Properties\<close>

subsection \<open>Chunked hydration\<close>

lemma hydrate_from_spec:
  "hydrate_from codec db models hydrated =
     and_then (traverse_list (hydrate_one codec db) models) (\<lambda>ws. Ok (hydrated @ ws))"
proof (induction codec db models hydrated rule: hydrate_from.induct)
  case (1 codec db models hydrated)
  let ?f = "traverse_list (hydrate_one codec db)"
  show ?case
  proof (cases "models = []")
    case True
    then show ?thesis by (simp add: hydrate_from.simps)
  next
    case False
    have "?f models = ?f (take 500 models @ drop 500 models)" by simp
    also have "\<dots> = and_then (?f (take 500 models)) (\<lambda>us. and_then (?f (drop 500 models)) (\<lambda>vs. Ok (us @ vs)))"
      by (rule traverse_list_append)
    finally have split: "?f models = \<dots>" .
    show ?thesis
      using False "1.IH" [OF False]
      by (cases "?f (take 500 models)")
        (simp_all add: hydrate_from.simps [of codec db models hydrated] hydrate_job_chunk_def split and_then_assoc)
  qed
qed

text \<open>
  Loading a tenant's jobs in chunks of 500 gives what one pass over all rows would give,
  the same jobs in the same order, and the error of the first row that cannot be read.
\<close>

lemma hydrate_chunks_irrelevant:
  "hydrate_jobs_with_artifacts codec db models = traverse_list (hydrate_one codec db) models"
  unfolding hydrate_jobs_with_artifacts_def hydrate_from_spec
  by (cases "traverse_list (hydrate_one codec db) models") simp_all

subsection \<open>Submission ids\<close>

definition last_submission :: "tenant_id \<Rightarrow> hub_db \<Rightarrow> int" where
  "last_submission tenant db =
     (case find_by_id sr_tenant_id tenant (db_sequences db) of Some r \<Rightarrow> sr_last_id r | None \<Rightarrow> 0)"

definition sequences_ok :: "hub_db \<Rightarrow> bool" where
  "sequences_ok db \<longleftrightarrow>
     distinct (map sr_tenant_id (db_sequences db)) \<and>
     list_all (\<lambda>r. 0 \<le> sr_last_id r \<and> sr_last_id r < 2 ^ 31) (db_sequences db)"

lemma ensure_sequence_find:
  "find_by_id sr_tenant_id t (ensure_sequence tenant rows) =
     (case find_by_id sr_tenant_id t rows of
        Some r \<Rightarrow> Some r
      | None \<Rightarrow> if t = tenant then Some \<lparr>sr_tenant_id = tenant, sr_last_id = 0\<rparr> else None)"
proof -
  have app: "find_by_id sr_tenant_id t (rows @ [x]) =
      (case find_by_id sr_tenant_id t rows of Some r \<Rightarrow> Some r | None \<Rightarrow> if sr_tenant_id x = t then Some x else None)" for x
    by (induction rows) (auto simp: find_by_id_def)
  show ?thesis
  proof (cases "tenant \<in> sr_tenant_id ` set rows")
    case True
    then have "find_by_id sr_tenant_id tenant rows \<noteq> None" using find_by_id_None by fast
    with True show ?thesis by (auto simp: ensure_sequence_def split: option.split)
  next
    case False
    then show ?thesis by (auto simp: ensure_sequence_def app split: option.split)
  qed
qed

lemma ensure_sequence_ok:
  "distinct (map sr_tenant_id rows) \<Longrightarrow> distinct (map sr_tenant_id (ensure_sequence tenant rows))"
  "list_all (\<lambda>r. 0 \<le> sr_last_id r \<and> sr_last_id r < 2 ^ 31) rows \<Longrightarrow>
   list_all (\<lambda>r. 0 \<le> sr_last_id r \<and> sr_last_id r < 2 ^ 31) (ensure_sequence tenant rows)"
  by (auto simp: ensure_sequence_def)

lemma sequence_found:
  assumes "distinct (map sr_tenant_id rows)"
  shows "find (sequence_open tenant) rows =
     (case find_by_id sr_tenant_id tenant rows of
        Some r \<Rightarrow> if sr_last_id r < 2147483647 then Some r else None
      | None \<Rightarrow> None)"
  using assms
proof (induction rows)
  case Nil
  then show ?case by (simp add: find_by_id_def)
next
  case (Cons r rows)
  have "find (sequence_open tenant) rows = None" if "sr_tenant_id r = tenant"
    using Cons.prems that by (auto simp: find_None_iff sequence_open_def image_iff)
  with Cons show ?case
    by (cases "sr_tenant_id r = tenant") (auto simp: find_by_id_def sequence_open_def [of tenant r])
qed

lemma allocate_cases:
  assumes "sequences_ok db"
  shows "allocate tenant db =
     (if last_submission tenant db = 2147483647 then Err StudioSubmissionIdExhausted
      else Ok (StudioSubmissionId (last_submission tenant db + 1),
               db\<lparr>db_sequences := map (\<lambda>r. if sequence_open tenant r then r\<lparr>sr_last_id := sr_last_id r + 1\<rparr> else r)
                   (ensure_sequence tenant (db_sequences db))\<rparr>))"
proof -
  let ?rows = "ensure_sequence tenant (db_sequences db)"
  have d: "distinct (map sr_tenant_id ?rows)"
    and b: "list_all (\<lambda>r. 0 \<le> sr_last_id r \<and> sr_last_id r < 2 ^ 31) ?rows"
    using assms ensure_sequence_ok by (auto simp: sequences_ok_def)
  obtain r where r: "find_by_id sr_tenant_id tenant ?rows = Some r" "sr_last_id r = last_submission tenant db"
    by (cases "find_by_id sr_tenant_id tenant (db_sequences db)")
      (auto simp: ensure_sequence_find last_submission_def)
  have "r \<in> set ?rows" using find_by_id_Some [OF r(1)] by simp
  with b have "0 \<le> sr_last_id r" "sr_last_id r < 2 ^ 31" by (auto simp: list_all_iff)
  then show ?thesis
    using sequence_found [OF d, of tenant] r
    by (auto simp: allocate_def update_many_def Let_def StudioSubmissionId_try_from_def)
qed

lemma allocate_Ok:
  assumes "allocate tenant db = Ok (i, db')" "sequences_ok db"
  shows "sequences_ok db'" and "StudioSubmissionId_get i = last_submission tenant db + 1"
    and "last_submission t db' = (if t = tenant then last_submission tenant db + 1 else last_submission t db)"
    and "db' = db\<lparr>db_sequences := db_sequences db'\<rparr>"
proof -
  let ?rows = "ensure_sequence tenant (db_sequences db)"
  let ?g = "\<lambda>r. if sequence_open tenant r then r\<lparr>sr_last_id := sr_last_id r + 1\<rparr> else r"
  have ok: "last_submission tenant db \<noteq> 2147483647" "i = StudioSubmissionId (last_submission tenant db + 1)"
      "db' = db\<lparr>db_sequences := map ?g ?rows\<rparr>"
    using assms by (auto simp: allocate_cases split: if_splits)
  have d: "distinct (map sr_tenant_id ?rows)"
    and b: "list_all (\<lambda>r. 0 \<le> sr_last_id r \<and> sr_last_id r < 2 ^ 31) ?rows"
    using assms(2) ensure_sequence_ok by (auto simp: sequences_ok_def)
  show "StudioSubmissionId_get i = last_submission tenant db + 1" "db' = db\<lparr>db_sequences := db_sequences db'\<rparr>"
    using ok by simp_all
  have m: "map sr_tenant_id (map ?g ?rows) = map sr_tenant_id ?rows" by simp
  show "sequences_ok db'"
    using d b m unfolding sequences_ok_def ok(3) by (auto simp: list_all_iff sequence_open_def simp del: map_map)
  have "find_by_id sr_tenant_id t (map ?g ?rows) = map_option ?g (find_by_id sr_tenant_id t ?rows)"
    by (rule find_by_id_map) simp
  then show "last_submission t db' = (if t = tenant then last_submission tenant db + 1 else last_submission t db)"
    using ok(1) find_by_id_Some [of sr_tenant_id t "db_sequences db"] assms(2)
    by (cases "find_by_id sr_tenant_id t (db_sequences db)")
      (auto simp: ok(3) last_submission_def ensure_sequence_find sequence_open_def sequences_ok_def list_all_iff)
qed


text \<open>
  The ids handed out when a sequence of creations, each for its tenant, runs to the end; a
  refused allocation leaves the database as it was.
\<close>

fun allocations :: "tenant_id list \<Rightarrow> hub_db \<Rightarrow> (tenant_id \<times> int) list" where
  "allocations [] db = []"
| "allocations (t # ts) db =
     (case allocate t db of
        Ok (i, db') \<Rightarrow> (t, StudioSubmissionId_get i) # allocations ts db'
      | Err _ \<Rightarrow> allocations ts db)"

definition ids_of :: "tenant_id \<Rightarrow> (tenant_id \<times> int) list \<Rightarrow> int list" where
  "ids_of t xs = map snd (filter (\<lambda>(u, _). u = t) xs)"

definition available :: "tenant_id \<Rightarrow> hub_db \<Rightarrow> nat" where
  "available t db = nat (2147483647 - last_submission t db)"

lemma last_submission_le: "sequences_ok db \<Longrightarrow> last_submission t db \<le> 2147483647"
  by (auto simp: last_submission_def sequences_ok_def list_all_iff split: option.split dest!: find_by_id_Some)

lemma upt_shift: "map (\<lambda>n. a + 1 + int n) [0..<Suc k] = (a + 1) # map (\<lambda>n. a + 1 + 1 + int n) [0..<k]"
  by (simp add: upt_conv_Cons map_Suc_upt [symmetric] comp_def del: upt_Suc)

text \<open>
  Each tenant's Studio submission ids are consecutive. In any interleaving of creations
  over all tenants, the ids tenant \<open>t\<close> receives are exactly the numbers that follow its last id,
  in order and without a gap or a repetition, as many as it asks for until
  2147483647 has been used; other tenants have no influence.
\<close>

lemma submission_ids_consecutive:
  assumes "sequences_ok db"
  shows "ids_of t (allocations ts db) =
    map (\<lambda>n. last_submission t db + 1 + int n) [0..<min (count_list ts t) (available t db)]"
  using assms
proof (induction ts arbitrary: db)
  case Nil
  then show ?case by (simp add: ids_of_def)
next
  case (Cons u ts)
  show ?case
  proof (cases "allocate u db")
    case (Err e)
    then have "last_submission u db = 2147483647" using Cons.prems by (simp add: allocate_cases split: if_splits)
    then have "t = u \<Longrightarrow> available t db = 0" by (simp add: available_def)
    then show ?thesis using Cons Err by (cases "t = u") auto
  next
    case (Ok p)
    then obtain i db' where a: "allocate u db = Ok (i, db')" by (cases p) auto
    note ok = allocate_Ok [OF a Cons.prems]
    have IH: "ids_of t (allocations ts db') =
        map (\<lambda>n. last_submission t db' + 1 + int n) [0..<min (count_list ts t) (available t db')]"
      by (rule Cons.IH [OF ok(1)])
    show ?thesis
    proof (cases "t = u")
      case True
      have "last_submission t db \<noteq> 2147483647" using a Cons.prems True by (auto simp: allocate_cases)
      then have av: "available t db = Suc (available t db')"
        using last_submission_le [OF Cons.prems, of t] by (simp add: available_def ok(3) True)
      have "ids_of t (allocations (u # ts) db) = StudioSubmissionId_get i # ids_of t (allocations ts db')"
        by (simp add: a ids_of_def True)
      then show ?thesis
        unfolding IH ok(2) by (simp add: True av [unfolded True] ok(3) upt_shift del: upt_Suc)
    next
      case False
      then show ?thesis using IH by (simp add: a ids_of_def ok(3) available_def)
    qed
  qed
qed

lemma submission_ids_consecutive_witness:
  "ids_of ''t1'' (allocations [''t1'', ''t2'', ''t1''] sample_agents_db) =
    map (\<lambda>n. last_submission ''t1'' sample_agents_db + 1 + int n)
      [0..<min (count_list [''t1'', ''t2'', ''t1''] ''t1'') (available ''t1'' sample_agents_db)]"
  by (rule submission_ids_consecutive) (simp add: sequences_ok_def sample_agents_db_def)

lemma allocate_frame:
  "allocate tenant db = Ok (s, db1) \<Longrightarrow> db_commands db1 = db_commands db \<and> db_jobs db1 = db_jobs db"
  by (auto simp: allocate_def Let_def result_simps split: if_splits prod.splits option.splits)

lemma set_order_by [simp]: "set (order_by lt xs) = set xs"
proof -
  have "set (insert_by lt x ys) = insert x (set ys)" for x ys by (induction ys) auto
  then show ?thesis unfolding order_by_def by (induction xs) auto
qed

subsection \<open>Creation\<close>

text \<open>
  C10: creating a print job is all or nothing and consistent. On success exactly one command
  and one job are appended, both queued, the job pending; the job names the command; the
  command is a print command of the same tenant, agent and printer with the payload of this
  job; and the job's submission id is the next one of the tenant.
\<close>

theorem create_print_job_rows:
  assumes "create_print_job_tx codec now i c input metadata db = Ok (w, db')" "sequences_ok db"
  shows "\<exists>cmd job serial. db_commands db' = db_commands db @ [cmd] \<and> db_jobs db' = db_jobs db @ [job] \<and>
    cr_id cmd = c \<and> jr_id job = i \<and> jr_command_id job = c \<and>
    cr_status cmd = ''queued'' \<and> jr_status job = ''queued'' \<and> jr_print_status job = ''pending'' \<and>
    cr_kind cmd = ''print_project_file'' \<and> cr_tenant_id cmd = jr_tenant_id job \<and>
    cr_agent_id cmd = jr_agent_id job \<and> cr_printer_id cmd = Some (jr_printer_id job) \<and>
    cr_payload_json cmd = jc_write_payload codec (payload input i serial (job_studio_submission_id (jwa_job w)) metadata) \<and>
    jr_studio_submission_id job = last_submission (cpj_tenant_id input) db + 1 \<and>
    job_studio_submission_id (jwa_job w) = StudioSubmissionId (jr_studio_submission_id job)"
proof -
  from assms(1) obtain serial submission db1 db2 db3 where
    a: "allocate (cpj_tenant_id input) db = Ok (submission, db1)"
    and f: "insert_artifact input now db1 = Ok db2"
    and cmd: "insert_command \<lparr>ic_id = c, ic_tenant_id = cpj_tenant_id input, ic_agent_id = cpj_agent_id input,
        ic_printer_id = Some (cpj_printer_id input), ic_kind = ''print_project_file'',
        ic_payload_json = jc_write_payload codec (payload input i serial submission metadata),
        ic_created_at = now\<rparr> db2 = Ok db3"
    and j: "insert_job input i c submission (map_option (jc_write_metadata codec) metadata) now db3 = Ok db'"
    and b: "build_created_job codec input i c submission (map_option (jc_write_metadata codec) metadata) now = Ok w"
    by (auto simp: create_print_job_tx_def insert_command_and_job_def result_simps)
  note ok = allocate_Ok [OF a assms(2)]
  have c1: "db_commands db2 = db_commands db" "db_jobs db2 = db_jobs db"
    using f ok(4) by (auto simp: insert_artifact_def Let_def split: if_splits)
      (metis hub_db.ext_inject hub_db.surjective hub_db.update_convs(7))+
  have w: "job_studio_submission_id (jwa_job w) = submission"
    using b by (auto simp: build_created_job_def result_simps Let_def Job_from_parts_def)
  show ?thesis
    using cmd j c1 ok(2) w
    by (cases submission)
      (auto simp: insert_command_def insert_with_status_def insert_job_def new_job_row_def Let_def split: if_splits)
qed


definition sample_codec :: job_codec where
  "sample_codec =
     \<lparr>jc_uuid = Some, jc_read_metadata = (\<lambda>_. Err ''unsupported''), jc_write_metadata = (\<lambda>_. ''{}''),
      jc_artifact_metadata_ok = (\<lambda>_. True), jc_read_payload = (\<lambda>_. None), jc_write_payload = ppf_job_id,
      jc_mapping_len = (\<lambda>_. Some 1), jc_mapping2_len = (\<lambda>_. Some 1), jc_mapping_info_len = (\<lambda>_. Some 1),
      jc_audit_text = (\<lambda>_. ''{}'')\<rparr>"

definition sample_input :: create_print_job where
  "sample_input =
     \<lparr>cpj_tenant_id = ''t1'', cpj_printer_id = ''p1'', cpj_agent_id = ''a1'',
      cpj_artifact = \<lparr>pai_id = ''f1'', pai_filename = ''cube.3mf'', pai_content_type = ''model/3mf'',
        pai_size_bytes = 1024, pai_storage_path = ''f1.3mf'', pai_metadata_json = None\<rparr>,
      cpj_options = \<lparr>peo_plate_id = 1, peo_use_ams = True, peo_auto_bed_leveling = Auto,
        peo_bed_leveling = True, peo_flow_cali = False, peo_auto_flow_cali = Off,
        peo_auto_offset_cali = Off, peo_timelapse = False, peo_ams_mapping_json = Some ''[0]'',
        peo_ams_mapping2_json = None, peo_ams_mapping_info_json = None\<rparr>\<rparr>"

definition sample_jobs_db :: hub_db where
  "sample_jobs_db = sample_agents_db\<lparr>db_printers :=
     [\<lparr>prr_id = ''p1'', prr_tenant_id = ''t1'', prr_agent_id = ''a1'', prr_serial_number = ''01S00A000000001'',
       prr_name = ''X1'', prr_model = Some ''X1C''\<rparr>]\<rparr>"

definition sample_created :: "(job_with_artifact \<times> hub_db) repository_result" where
  "sample_created =
     create_print_job_tx sample_codec ''2026-01-01T00:00:00Z'' ''j1'' ''c1'' sample_input None sample_jobs_db"

lemma sample_created_ok: "is_ok sample_created"
  by code_simp

theorem create_print_job_rows_witness:
  "\<exists>w db' cmd job. sample_created = Ok (w, db') \<and> db_commands db' = db_commands sample_jobs_db @ [cmd] \<and>
     db_jobs db' = db_jobs sample_jobs_db @ [job] \<and> jr_command_id job = cr_id cmd"
proof -
  obtain w db' where c: "sample_created = Ok (w, db')"
    using sample_created_ok by (auto simp: is_ok_iff)
  have "sequences_ok sample_jobs_db" by (simp add: sequences_ok_def sample_jobs_db_def sample_agents_db_def)
  then obtain cmd job where "db_commands db' = db_commands sample_jobs_db @ [cmd]"
      "db_jobs db' = db_jobs sample_jobs_db @ [job]" "cr_id cmd = ''c1''" "jr_command_id job = ''c1''"
    using create_print_job_rows [OF c [unfolded sample_created_def]] by blast
  with c show ?thesis by metis
qed

end
