(* ===== verification/Hub_Materials.thy ===== *)
theory Hub_Materials
  imports Hub_Jobs Json "HOL-Library.Multiset"
begin

text \<open>
  Material snapshots, \<open>crates/pandar-hub/src/repositories/materials.rs\<close> with \<open>materials/patch.rs\<close>
  (reading and redacting a patch) and \<open>materials/merge.rs\<close> (merging it into the stored
  snapshot). A printer reports its AMS units, their trays and its external spools as patches;
  the hub keeps one snapshot row per printer. Units, trays and spools are lists snap by their
  identifiers: the loop "find the entry and merge its fields, or push a new one" is the same three
  times, so its laws are stated once, as the locale \<open>keyed_merge\<close>, and interpreted for the
  three lists.

  Parameters (the record \<open>material_codec\<close>): the readers and writers of \<open>serde_json\<close>, the
  RFC 3339 reader (an instant is an integer) and the UUID reader. A JSON object is a
  \<open>BTreeMap\<close>, here the association list in key order.
\<close>

section \<open>JSON objects\<close>

type_synonym material_json_object = "(string \<times> json) list"

definition obj_remove :: "string \<Rightarrow> material_json_object \<Rightarrow> material_json_object" where
  "obj_remove k m = filter (\<lambda>(k', _). k' \<noteq> k) m"

definition is_null :: "json \<Rightarrow> bool" where
  "is_null v \<longleftrightarrow> v = JNull"

section \<open>Patches\<close>

datatype presence = Absent | PresenceNull | PresenceValue json

record material_tray_patch =
  mtp_tray_id :: "string option"
  mtp_fields :: material_json_object

record material_unit_patch =
  mup_unit_id :: "string option"
  mup_replace_trays :: bool
  mup_trays :: "material_tray_patch list option"
  mup_fields :: material_json_object

record material_external_spool_patch =
  mep_external_id :: "string option"
  mep_tray_id :: "string option"
  mep_fields :: material_json_object

record material_patch_document =
  mpd_kind :: string
  mpd_observed_at :: string
  mpd_filament_switch_installed :: "bool option"
  mpd_cfg :: "string option"
  mpd_aux :: "string option"
  mpd_stat :: "string option"
  mpd_ams_units :: "material_unit_patch list option"
  mpd_external_spools :: "material_external_spool_patch list option"
  mpd_replace_external_spools :: bool
  mpd_active_tray :: presence

record parsed_patch =
  pp_observed_at :: string
  pp_filament_switch_installed :: "bool option"
  pp_cfg :: "string option"
  pp_aux :: "string option"
  pp_stat :: "string option"
  pp_ams_units :: "material_unit_patch list option"
  pp_external_spools :: "material_external_spool_patch list option"
  pp_replace_external_spools :: bool
  pp_active_tray :: presence

definition object_without_null_fields :: "material_json_object \<Rightarrow> material_json_object" where
  "object_without_null_fields m = filter (\<lambda>(_, v). \<not> is_null v) m"

definition fields_without_nulls_for_new_unit :: "material_unit_patch \<Rightarrow> material_json_object" where
  "fields_without_nulls_for_new_unit p =
     object_without_null_fields
       (if mup_replace_trays p then obj_insert ''replace_trays'' (JBool True) (mup_fields p) else mup_fields p)"

definition MaterialExternalSpoolPatch_key :: "material_external_spool_patch \<Rightarrow> (string \<times> string) option" where
  "MaterialExternalSpoolPatch_key p =
     Option.bind (mep_external_id p) (\<lambda>e. Option.bind (mep_tray_id p) (\<lambda>t. Some (e, t)))"

subsection \<open>Redaction\<close>

definition SENSITIVE_NEEDLES :: "string list" where
  "SENSITIVE_NEEDLES = [''access_code'', ''password'', ''passwd'', ''token'', ''auth'']"

definition is_sensitive :: "string \<Rightarrow> bool" where
  "is_sensitive v \<longleftrightarrow> list_ex (contains_str (to_ascii_lowercase v)) SENSITIVE_NEEDLES"

fun scalar_is_sensitive :: "json \<Rightarrow> bool" where
  "scalar_is_sensitive (JString s) = is_sensitive s"
| "scalar_is_sensitive _ = False"

fun redacted :: "json \<Rightarrow> json option"
  and redact_object :: "material_json_object \<Rightarrow> material_json_object"
  and redacted_values :: "json list \<Rightarrow> json list" where
  "redacted (JObject m) = Some (JObject (redact_object m))"
| "redacted (JArray vs) = Some (JArray (redacted_values vs))"
| "redacted (JString s) = (if scalar_is_sensitive (JString s) then None else Some (JString s))"
| "redacted (JNumber n) = Some (JNumber n)"
| "redacted (JBool b) = Some (JBool b)"
| "redacted JNull = Some JNull"
| "redact_object [] = []"
| "redact_object ((k, v) # m) =
     (if \<not> is_sensitive k \<and> \<not> scalar_is_sensitive v
      then (case redacted v of Some w \<Rightarrow> (k, w) # redact_object m | None \<Rightarrow> redact_object m)
      else redact_object m)"
| "redacted_values [] = []"
| "redacted_values (v # vs) = (case redacted v of Some w \<Rightarrow> w # redacted_values vs | None \<Rightarrow> redacted_values vs)"

definition redacted_trays :: "material_tray_patch list \<Rightarrow> material_tray_patch list" where
  "redacted_trays ts = map (\<lambda>t. t\<lparr>mtp_fields := redact_object (mtp_fields t)\<rparr>) ts"

definition redacted_units :: "material_unit_patch list \<Rightarrow> material_unit_patch list" where
  "redacted_units us =
     map (\<lambda>u. u\<lparr>mup_fields := redact_object (mup_fields u), mup_trays := map_option redacted_trays (mup_trays u)\<rparr>) us"

definition redacted_external_spools ::
  "material_external_spool_patch list \<Rightarrow> material_external_spool_patch list" where
  "redacted_external_spools es = map (\<lambda>e. e\<lparr>mep_fields := redact_object (mep_fields e)\<rparr>) es"

definition Presence_redacted :: "presence \<Rightarrow> presence" where
  "Presence_redacted p =
     (case p of
        PresenceValue v \<Rightarrow> (case redacted v of Some w \<Rightarrow> PresenceValue w | None \<Rightarrow> PresenceNull)
      | other \<Rightarrow> other)"

section \<open>Stored state\<close>

record material_tray_state =
  mts_tray_id :: "string option"
  mts_fields :: material_json_object

record material_unit_state =
  mus_unit_id :: "string option"
  mus_trays :: "material_tray_state list"
  mus_fields :: material_json_object

record material_external_spool_state =
  mes_external_id :: "string option"
  mes_tray_id :: "string option"
  mes_fields :: material_json_object

record merged_snapshot =
  mg_ams_units :: json
  mg_external_spools :: json
  mg_active_tray :: "json option"
  mg_filament_switch_installed :: "bool option"
  mg_cfg :: "string option"
  mg_aux :: "string option"
  mg_stat :: "string option"

record material_row =
  msr_id :: string
  msr_tenant_id :: string
  msr_printer_id :: string
  msr_agent_id :: string
  msr_serial_number :: string
  msr_ams_json :: string
  msr_external_spools_json :: string
  msr_active_tray_json :: "string option"
  msr_filament_switch_installed :: "bool option"
  msr_studio_cfg :: "string option"
  msr_studio_aux :: "string option"
  msr_studio_stat :: "string option"
  msr_observed_at :: string
  msr_updated_at :: string

record material_snapshot =
  msn_id :: string
  msn_tenant_id :: tenant_id
  msn_printer_id :: string
  msn_agent_id :: agent_id
  msn_serial_number :: string
  msn_ams_units :: json
  msn_external_spools :: json
  msn_active_tray :: "json option"
  msn_filament_switch_installed :: "bool option"
  msn_cfg :: "string option"
  msn_aux :: "string option"
  msn_stat :: "string option"
  msn_observed_at :: string
  msn_updated_at :: string

text \<open>
  The readers give the text of the error when the JSON or the timestamp is not of the shape asked for.
\<close>

record material_codec =
  mc_uuid :: uuid_parser
  mc_read_document :: "string \<Rightarrow> (material_patch_document, string) result"
  mc_parse_time :: "string \<Rightarrow> (int, string) result"
  mc_read_units :: "string \<Rightarrow> material_unit_state list option"
  mc_read_spools :: "string \<Rightarrow> material_external_spool_state list option"
  mc_read_array :: "string \<Rightarrow> json list option"
  mc_read_object :: "string \<Rightarrow> material_json_object option"
  mc_write_json :: "json \<Rightarrow> string"

subsection \<open>Reading a patch\<close>

definition parse_patch_result :: "material_codec \<Rightarrow> string \<Rightarrow> (parsed_patch, string) result" where
  "parse_patch_result codec raw =
     and_then (map_err (\<lambda>e. ''failed to parse material patch JSON: '' @ e) (mc_read_document codec raw)) (\<lambda>d.
     if mpd_kind d \<noteq> ''printer_material_patch''
     then Err ''material patch type must be printer_material_patch''
     else and_then (map_err (\<lambda>e. ''material patch observed_at must be RFC3339 UTC: failed to parse timestamp: '' @ e)
              (mc_parse_time codec (mpd_observed_at d))) (\<lambda>_.
       Ok \<lparr>pp_observed_at = mpd_observed_at d,
           pp_filament_switch_installed = mpd_filament_switch_installed d,
           pp_cfg = mpd_cfg d, pp_aux = mpd_aux d, pp_stat = mpd_stat d,
           pp_ams_units = map_option redacted_units (mpd_ams_units d),
           pp_external_spools = map_option redacted_external_spools (mpd_external_spools d),
           pp_replace_external_spools = mpd_replace_external_spools d,
           pp_active_tray = Presence_redacted (mpd_active_tray d)\<rparr>))"

definition is_older :: "material_codec \<Rightarrow> string \<Rightarrow> string \<Rightarrow> bool repository_result" where
  "is_older codec observed_at persisted_at =
     and_then (map_err (\<lambda>_. Database (Message ''failed to parse patch observed_at'')) (mc_parse_time codec observed_at)) (\<lambda>a.
     and_then (map_err (\<lambda>_. Database (Message ''failed to parse persisted observed_at'')) (mc_parse_time codec persisted_at)) (\<lambda>b.
       Ok (a < b)))"

section \<open>Merging\<close>

definition merge_fields :: "material_json_object \<Rightarrow> material_json_object \<Rightarrow> material_json_object" where
  "merge_fields current patch =
     fold (\<lambda>(k, v) m. if is_null v then obj_remove k m else obj_insert k v m) patch current"

text \<open>
  \<open>iter_mut().find(..)\<close> and push when there is none: the first match is changed in place.
\<close>

fun upsert :: "('s \<Rightarrow> bool) \<Rightarrow> ('s \<Rightarrow> 's) \<Rightarrow> 's \<Rightarrow> 's list \<Rightarrow> 's list" where
  "upsert p f new [] = [new]"
| "upsert p f new (x # xs) = (if p x then f x # xs else x # upsert p f new xs)"

text \<open>\<open>sort_by_key\<close> on an optional key: stable, \<open>None\<close> first.\<close>

fun option_less :: "('k \<Rightarrow> 'k \<Rightarrow> bool) \<Rightarrow> 'k option \<Rightarrow> 'k option \<Rightarrow> bool" where
  "option_less lt None None = False"
| "option_less lt None (Some b) = True"
| "option_less lt (Some a) None = False"
| "option_less lt (Some a) (Some b) = lt a b"

definition sort_by_key :: "('k \<Rightarrow> 'k \<Rightarrow> bool) \<Rightarrow> ('s \<Rightarrow> 'k option) \<Rightarrow> 's list \<Rightarrow> 's list" where
  "sort_by_key lt key xs = order_by (\<lambda>a b. option_less lt (key a) (key b)) xs"

fun pair_less :: "string \<times> string \<Rightarrow> string \<times> string \<Rightarrow> bool" where
  "pair_less (a, b) (c, d) \<longleftrightarrow> text_less a c \<or> (a = c \<and> text_less b d)"

text \<open>\<open>retain\<close> on the entries whose key is among the patch keys.\<close>

definition retain_keys :: "('s \<Rightarrow> 'k option) \<Rightarrow> 'k list \<Rightarrow> 's list \<Rightarrow> 's list" where
  "retain_keys key ks xs = filter (\<lambda>s. case key s of Some k \<Rightarrow> k \<in> set ks | None \<Rightarrow> False) xs"

subsection \<open>Trays\<close>

definition touch_tray :: "material_tray_patch \<Rightarrow> material_tray_state \<Rightarrow> material_tray_state" where
  "touch_tray p s = s\<lparr>mts_fields := merge_fields (mts_fields s) (mtp_fields p)\<rparr>"

definition new_tray :: "string \<Rightarrow> material_tray_patch \<Rightarrow> material_tray_state" where
  "new_tray k p = \<lparr>mts_tray_id = Some k, mts_fields = object_without_null_fields (mtp_fields p)\<rparr>"

definition merge_tray :: "material_tray_patch \<Rightarrow> material_tray_state list \<Rightarrow> material_tray_state list" where
  "merge_tray p trays =
     (case mtp_tray_id p of
        None \<Rightarrow> trays
      | Some k \<Rightarrow> upsert (\<lambda>t. mts_tray_id t = Some k) (touch_tray p) (new_tray k p) trays)"

definition merge_trays ::
  "material_tray_state list \<Rightarrow> material_tray_patch list \<Rightarrow> bool \<Rightarrow> material_tray_state list" where
  "merge_trays current patches replace =
     (let snap = fold merge_tray patches current;
          kept = (if replace then retain_keys mts_tray_id (List.map_filter mtp_tray_id patches) snap else snap)
      in sort_by_key text_less mts_tray_id kept)"

definition new_tray_states :: "material_tray_patch list \<Rightarrow> material_tray_state list" where
  "new_tray_states patches =
     sort_by_key text_less mts_tray_id
       (List.map_filter (\<lambda>p. map_option (\<lambda>k. new_tray k p) (mtp_tray_id p)) patches)"

subsection \<open>Units\<close>

definition touch_unit :: "material_unit_patch \<Rightarrow> material_unit_state \<Rightarrow> material_unit_state" where
  "touch_unit p s =
     (let s1 = s\<lparr>mus_fields := merge_fields (mus_fields s) (mup_fields p)\<rparr>
      in case mup_trays p of
           Some trays \<Rightarrow> s1\<lparr>mus_trays := merge_trays (mus_trays s1) trays (mup_replace_trays p)\<rparr>
         | None \<Rightarrow> s1)"

definition new_unit :: "string \<Rightarrow> material_unit_patch \<Rightarrow> material_unit_state" where
  "new_unit k p =
     \<lparr>mus_unit_id = Some k,
      mus_trays = (case mup_trays p of Some trays \<Rightarrow> new_tray_states trays | None \<Rightarrow> []),
      mus_fields = fields_without_nulls_for_new_unit p\<rparr>"

definition merge_unit :: "material_unit_patch \<Rightarrow> material_unit_state list \<Rightarrow> material_unit_state list" where
  "merge_unit p units =
     (case mup_unit_id p of
        None \<Rightarrow> units
      | Some k \<Rightarrow> upsert (\<lambda>u. mus_unit_id u = Some k) (touch_unit p) (new_unit k p) units)"

definition merge_units :: "material_unit_state list \<Rightarrow> material_unit_patch list \<Rightarrow> material_unit_state list" where
  "merge_units current patches = sort_by_key text_less mus_unit_id (fold merge_unit patches current)"

subsection \<open>External spools\<close>

definition MaterialExternalSpoolState_key :: "material_external_spool_state \<Rightarrow> (string \<times> string) option" where
  "MaterialExternalSpoolState_key s =
     Option.bind (mes_external_id s) (\<lambda>e. Option.bind (mes_tray_id s) (\<lambda>t. Some (e, t)))"

definition touch_spool ::
  "material_external_spool_patch \<Rightarrow> material_external_spool_state \<Rightarrow> material_external_spool_state" where
  "touch_spool p s = s\<lparr>mes_fields := merge_fields (mes_fields s) (mep_fields p)\<rparr>"

definition new_spool :: "string \<times> string \<Rightarrow> material_external_spool_patch \<Rightarrow> material_external_spool_state" where
  "new_spool k p =
     \<lparr>mes_external_id = Some (fst k), mes_tray_id = Some (snd k),
      mes_fields = object_without_null_fields (mep_fields p)\<rparr>"

definition merge_spool ::
  "material_external_spool_patch \<Rightarrow> material_external_spool_state list \<Rightarrow> material_external_spool_state list" where
  "merge_spool p spools =
     (case MaterialExternalSpoolPatch_key p of
        None \<Rightarrow> spools
      | Some k \<Rightarrow> upsert (\<lambda>s. MaterialExternalSpoolState_key s = Some k) (touch_spool p) (new_spool k p) spools)"

definition merge_external_spools ::
  "material_external_spool_state list \<Rightarrow> material_external_spool_patch list \<Rightarrow> bool \<Rightarrow>
     material_external_spool_state list" where
  "merge_external_spools current patches replace =
     (let snap = fold merge_spool patches current;
          kept = (if replace
                  then retain_keys MaterialExternalSpoolState_key
                         (List.map_filter MaterialExternalSpoolPatch_key patches) snap
                  else snap)
      in sort_by_key pair_less MaterialExternalSpoolState_key kept)"

subsection \<open>As JSON\<close>

definition MaterialTrayState_into_json :: "material_tray_state \<Rightarrow> json" where
  "MaterialTrayState_into_json s =
     JObject (case mts_tray_id s of Some t \<Rightarrow> obj_insert ''tray_id'' (JString t) (mts_fields s) | None \<Rightarrow> mts_fields s)"

definition MaterialUnitState_into_json :: "material_unit_state \<Rightarrow> json" where
  "MaterialUnitState_into_json s =
     (let m = (case mus_unit_id s of Some u \<Rightarrow> obj_insert ''unit_id'' (JString u) (mus_fields s) | None \<Rightarrow> mus_fields s)
      in JObject (obj_insert ''trays'' (JArray (map MaterialTrayState_into_json (mus_trays s))) m))"

definition MaterialExternalSpoolState_into_json :: "material_external_spool_state \<Rightarrow> json" where
  "MaterialExternalSpoolState_into_json s =
     (let m = (case mes_external_id s of Some e \<Rightarrow> obj_insert ''external_id'' (JString e) (mes_fields s) | None \<Rightarrow> mes_fields s)
      in JObject (case mes_tray_id s of Some t \<Rightarrow> obj_insert ''tray_id'' (JString t) m | None \<Rightarrow> m))"

definition material_units_json :: "material_unit_state list \<Rightarrow> json" where
  "material_units_json units = JArray (map MaterialUnitState_into_json units)"

definition material_external_spools_json :: "material_external_spool_state list \<Rightarrow> json" where
  "material_external_spools_json spools = JArray (map MaterialExternalSpoolState_into_json spools)"

section \<open>The snapshot\<close>

definition parse_array_json :: "material_codec \<Rightarrow> string \<Rightarrow> string \<Rightarrow> json repository_result" where
  "parse_array_json codec what raw =
     and_then (ok_or (mc_read_array codec raw) (Database (Message (''failed to parse '' @ what)))) (\<lambda>vs. Ok (JArray vs))"

definition parse_object_json :: "material_codec \<Rightarrow> string \<Rightarrow> string \<Rightarrow> json repository_result" where
  "parse_object_json codec what raw =
     and_then (ok_or (mc_read_object codec raw) (Database (Message (''failed to parse '' @ what)))) (\<lambda>m. Ok (JObject m))"

definition merge_snapshot ::
  "material_codec \<Rightarrow> material_row option \<Rightarrow> parsed_patch \<Rightarrow> merged_snapshot repository_result" where
  "merge_snapshot codec current patch =
     and_then (case current of
         None \<Rightarrow> Ok []
       | Some m \<Rightarrow> ok_or (mc_read_units codec (msr_ams_json m))
           (Database (Message ''failed to parse persisted AMS material state''))) (\<lambda>units.
     and_then (case current of
         None \<Rightarrow> Ok []
       | Some m \<Rightarrow> ok_or (mc_read_spools codec (msr_external_spools_json m))
           (Database (Message ''failed to parse persisted external spool material state''))) (\<lambda>spools.
     and_then (case pp_active_tray patch of
         Absent \<Rightarrow> traverse_option (parse_object_json codec ''persisted active material tray'')
           (Option.bind current msr_active_tray_json)
       | PresenceNull \<Rightarrow> Ok None
       | PresenceValue v \<Rightarrow> Ok (Some v)) (\<lambda>active_tray.
     Ok \<lparr>mg_ams_units = material_units_json
             (case pp_ams_units patch of Some ps \<Rightarrow> merge_units units ps | None \<Rightarrow> units),
         mg_external_spools = material_external_spools_json
             (case pp_external_spools patch of
                Some ps \<Rightarrow> merge_external_spools spools ps (pp_replace_external_spools patch) | None \<Rightarrow> spools),
         mg_active_tray = active_tray,
         mg_filament_switch_installed =
           or_else (pp_filament_switch_installed patch) (Option.bind current msr_filament_switch_installed),
         mg_cfg = or_else (pp_cfg patch) (Option.bind current msr_studio_cfg),
         mg_aux = or_else (pp_aux patch) (Option.bind current msr_studio_aux),
         mg_stat = or_else (pp_stat patch) (Option.bind current msr_studio_stat)\<rparr>)))"

definition snapshot_from_model :: "material_codec \<Rightarrow> material_row \<Rightarrow> material_snapshot repository_result" where
  "snapshot_from_model codec m =
     map_err (\<lambda>_. Database (Message ''failed to rehydrate material snapshot''))
    (and_then (map_err (\<lambda>e. Database (CoreErr e)) (TenantId_parse (mc_uuid codec) (msr_tenant_id m))) (\<lambda>t.
     and_then (map_err (\<lambda>e. Database (CoreErr e)) (AgentId_parse (mc_uuid codec) (msr_agent_id m))) (\<lambda>a.
     and_then (parse_array_json codec ''AMS material state'' (msr_ams_json m)) (\<lambda>units.
     and_then (parse_array_json codec ''external spool material state'' (msr_external_spools_json m)) (\<lambda>spools.
     and_then (traverse_option (parse_object_json codec ''active material tray'') (msr_active_tray_json m)) (\<lambda>tray.
     Ok \<lparr>msn_id = msr_id m, msn_tenant_id = t, msn_printer_id = msr_printer_id m, msn_agent_id = a,
         msn_serial_number = msr_serial_number m, msn_ams_units = units, msn_external_spools = spools,
         msn_active_tray = tray, msn_filament_switch_installed = msr_filament_switch_installed m,
         msn_cfg = msr_studio_cfg m, msn_aux = msr_studio_aux m, msn_stat = msr_studio_stat m,
         msn_observed_at = msr_observed_at m, msn_updated_at = msr_updated_at m\<rparr>))))))"

section \<open>Applying a patch\<close>

record material_patch_input =
  mpi_tenant_id :: tenant_id
  mpi_agent_id :: agent_id
  mpi_printer_id :: string
  mpi_serial_number :: string
  mpi_printer_materials_json :: string

datatype material_patch_outcome =
    PatchEmpty
  | PatchInvalid string
  | PatchOlder
  | PatchUnchanged material_snapshot
  | PatchChanged material_snapshot

definition material_row_of :: "material_patch_input \<Rightarrow> material_row \<Rightarrow> bool" where
  "material_row_of input m \<longleftrightarrow> msr_tenant_id m = mpi_tenant_id input \<and> msr_printer_id m = mpi_printer_id input"

definition snapshot_unchanged :: "parsed_patch \<Rightarrow> merged_snapshot \<Rightarrow> material_snapshot \<Rightarrow> bool" where
  "snapshot_unchanged patch snap s \<longleftrightarrow>
     msn_observed_at s = pp_observed_at patch \<and> msn_ams_units s = mg_ams_units snap \<and>
     msn_external_spools s = mg_external_spools snap \<and> msn_active_tray s = mg_active_tray snap \<and>
     msn_filament_switch_installed s = mg_filament_switch_installed snap \<and> msn_cfg s = mg_cfg snap \<and>
     msn_aux s = mg_aux snap \<and> msn_stat s = mg_stat snap"

definition snapshot_model ::
  "material_codec \<Rightarrow> timestamp \<Rightarrow> string \<Rightarrow> material_patch_input \<Rightarrow> printer_row \<Rightarrow> material_row option \<Rightarrow>
     parsed_patch \<Rightarrow> merged_snapshot \<Rightarrow> material_row" where
  "snapshot_model codec now fresh input printer current patch snap =
     \<lparr>msr_id = (case current of Some m \<Rightarrow> msr_id m | None \<Rightarrow> fresh),
      msr_tenant_id = mpi_tenant_id input, msr_printer_id = mpi_printer_id input,
      msr_agent_id = mpi_agent_id input,
      msr_serial_number = (if mpi_serial_number input = [] then prr_serial_number printer else mpi_serial_number input),
      msr_ams_json = mc_write_json codec (mg_ams_units snap),
      msr_external_spools_json = mc_write_json codec (mg_external_spools snap),
      msr_active_tray_json = map_option (mc_write_json codec) (mg_active_tray snap),
      msr_filament_switch_installed = mg_filament_switch_installed snap,
      msr_studio_cfg = mg_cfg snap, msr_studio_aux = mg_aux snap, msr_studio_stat = mg_stat snap,
      msr_observed_at = pp_observed_at patch, msr_updated_at = now\<rparr>"

text \<open>An update is by the primary key.\<close>

definition upsert_from_patch_outcome_in_connection ::
  "material_codec \<Rightarrow> timestamp \<Rightarrow> string \<Rightarrow> hub_db \<Rightarrow> material_patch_input \<Rightarrow> material_row list \<Rightarrow>
     (material_patch_outcome \<times> material_row list) repository_result" where
  "upsert_from_patch_outcome_in_connection codec now fresh db input rows =
     (if trim (mpi_printer_materials_json input) = [] then Ok (PatchEmpty, rows)
      else case parse_patch_result codec (mpi_printer_materials_json input) of
        Err e \<Rightarrow> Ok (PatchInvalid (''invalid material patch JSON: '' @ e), rows)
      | Ok patch \<Rightarrow>
          and_then (ok_or (find (\<lambda>p. prr_id p = mpi_printer_id input \<and> prr_tenant_id p = mpi_tenant_id input \<and>
              prr_agent_id p = mpi_agent_id input) (db_printers db)) MissingPrinter) (\<lambda>printer.
          let current = find (material_row_of input) rows in
          and_then (case current of
              Some m \<Rightarrow> is_older codec (pp_observed_at patch) (msr_observed_at m) | None \<Rightarrow> Ok False) (\<lambda>older.
          if older then Ok (PatchOlder, rows) else
          and_then (traverse_option (snapshot_from_model codec) current) (\<lambda>current_snapshot.
          and_then (merge_snapshot codec current patch) (\<lambda>snap.
          if is_some_and (snapshot_unchanged patch snap) current_snapshot
          then Ok (PatchUnchanged (the current_snapshot), rows)
          else
            let model = snapshot_model codec now fresh input printer current patch snap;
                rows' = (if current = None then rows @ [model]
                         else map (\<lambda>m. if msr_id m = msr_id model then model else m) rows)
            in and_then (snapshot_from_model codec model) (\<lambda>s. Ok (PatchChanged s, rows')))))))"

datatype current_material_patch_outcome =
    PatchMissingPrinter
  | PatchSerialMismatch string string
  | PatchApplied string material_patch_outcome

definition apply_snapshot_if_current ::
  "material_codec \<Rightarrow> timestamp \<Rightarrow> string \<Rightarrow> session_id \<Rightarrow> tenant_id \<Rightarrow> agent_id \<Rightarrow> string \<Rightarrow> string \<Rightarrow> string \<Rightarrow>
     hub_db \<Rightarrow> material_row list \<Rightarrow> (current_material_patch_outcome \<times> material_row list) repository_result" where
  "apply_snapshot_if_current codec now fresh session tenant agent requested serial body db rows =
     and_then (begin_current_agent_transaction db tenant agent session) (\<lambda>_.
       case find (\<lambda>p. (if requested = [] then prr_serial_number p = serial else prr_id p = requested) \<and>
                    prr_tenant_id p = tenant \<and> prr_agent_id p = agent) (db_printers db) of
         None \<Rightarrow> Ok (PatchMissingPrinter, rows)
       | Some p \<Rightarrow>
           if prr_serial_number p \<noteq> serial then Ok (PatchSerialMismatch (prr_id p) (prr_serial_number p), rows)
           else and_then (upsert_from_patch_outcome_in_connection codec now fresh db
                   \<lparr>mpi_tenant_id = tenant, mpi_agent_id = agent, mpi_printer_id = prr_id p,
                    mpi_serial_number = serial, mpi_printer_materials_json = body\<rparr> rows) (\<lambda>(outcome, rows').
                 Ok (PatchApplied (prr_id p) outcome, rows')))"

section \<open>Key orders\<close>

text \<open>The strict linear orders the lists are sorted by, and what sorting by an optional key gives.\<close>

definition lookup_key :: "('s \<Rightarrow> 'k option) \<Rightarrow> 'k \<Rightarrow> 's list \<Rightarrow> 's option" where
  "lookup_key key k xs = find (\<lambda>s. key s = Some k) xs"

definition all_keyed :: "('s \<Rightarrow> 'k option) \<Rightarrow> 's list \<Rightarrow> bool" where
  "all_keyed key xs \<longleftrightarrow> distinct (map key xs) \<and> None \<notin> key ` set xs"

definition sorted_keyed :: "('k \<Rightarrow> 'k \<Rightarrow> bool) \<Rightarrow> ('s \<Rightarrow> 'k option) \<Rightarrow> 's list \<Rightarrow> bool" where
  "sorted_keyed lt key xs \<longleftrightarrow> None \<notin> key ` set xs \<and> sorted_wrt (\<lambda>a b. option_less lt (key a) (key b)) xs"

lemma find_filter: "find P xs = (case filter P xs of [] \<Rightarrow> None | x # _ \<Rightarrow> Some x)"
  by (induction xs) simp_all

lemma filter_order_by:
  assumes "\<And>x y. P x \<Longrightarrow> P y \<Longrightarrow> \<not> lt y x"
  shows "filter P (order_by lt xs) = filter P xs"
proof -
  have "filter P (insert_by lt x ys) = (if P x then x # filter P ys else filter P ys)" for x ys
    using assms by (induction ys) auto
  then show ?thesis unfolding order_by_def by (induction xs) simp_all
qed

lemma mset_order_by: "mset (order_by lt xs) = mset xs"
proof -
  have "mset (insert_by lt x ys) = add_mset x (mset ys)" for x ys by (induction ys) simp_all
  then show ?thesis unfolding order_by_def by (induction xs) simp_all
qed

locale key_order =
  fixes lt :: "'k \<Rightarrow> 'k \<Rightarrow> bool"
  assumes irrefl: "\<not> lt a a"
    and trans: "lt a b \<Longrightarrow> lt b c \<Longrightarrow> lt a c"
    and linear: "lt a b \<or> a = b \<or> lt b a"
begin

lemma option_irrefl: "\<not> option_less lt a a"
  by (cases a) (simp_all add: irrefl)

lemma option_trans: "option_less lt a b \<Longrightarrow> option_less lt b c \<Longrightarrow> option_less lt a c"
  by (cases a; cases b; cases c) (auto intro: trans)

lemma option_linear: "option_less lt a b \<or> a = b \<or> option_less lt b a"
  using linear by (cases a; cases b) auto

lemma option_asym: "option_less lt a b \<Longrightarrow> \<not> option_less lt b a"
  using option_irrefl option_trans by blast

lemma option_negtrans: "\<not> option_less lt b a \<Longrightarrow> \<not> option_less lt c b \<Longrightarrow> \<not> option_less lt c a"
  using option_linear option_trans by metis

lemma lookup_sort: "lookup_key key k (sort_by_key lt key xs) = lookup_key key k xs"
  unfolding lookup_key_def find_filter sort_by_key_def
  by (subst filter_order_by) (auto simp: irrefl)

lemma sorted_order:
  "sorted_wrt (\<lambda>a b. \<not> option_less lt (key b) (key a)) (sort_by_key lt key xs)"
proof -
  let ?lt = "\<lambda>a b. option_less lt (key a) (key b)"
  have ins: "set (insert_by ?lt x ys) = insert x (set ys)" for x ys by (induction ys) auto
  have "sorted_wrt (\<lambda>a b. \<not> ?lt b a) ys \<Longrightarrow> sorted_wrt (\<lambda>a b. \<not> ?lt b a) (insert_by ?lt x ys)" for x ys
  proof (induction ys)
    case (Cons y ys)
    show ?case
    proof (cases "?lt y x")
      case True
      with Cons option_asym [OF True] show ?thesis by (simp add: ins)
    next
      case False
      have "\<not> ?lt b x" if "b \<in> set ys" for b using option_negtrans [OF False] Cons.prems that by simp
      with Cons False show ?thesis by simp
    qed
  qed simp
  then show ?thesis unfolding sort_by_key_def order_by_def by (induction xs) simp_all
qed

lemma sorted_sort:
  assumes "all_keyed key xs"
  shows "sorted_keyed lt key (sort_by_key lt key xs)"
proof -
  have m: "mset (map key (sort_by_key lt key xs)) = mset (map key xs)"
    unfolding sort_by_key_def mset_map mset_order_by ..
  then have "distinct (map key (sort_by_key lt key xs))"
    using assms mset_eq_imp_distinct_iff [OF m] by (simp add: all_keyed_def)
  then have "sorted_wrt (\<lambda>a b. key a \<noteq> key b) (sort_by_key lt key xs)"
    by (simp add: distinct_map sorted_wrt_iff_nth_less distinct_conv_nth inj_on_def)
  then have "sorted_wrt (\<lambda>a b. option_less lt (key a) (key b)) (sort_by_key lt key xs)"
    using sorted_order option_linear
    by (smt (verit, best) sorted_wrt_iff_nth_less)
  with assms show ?thesis by (auto simp: sorted_keyed_def all_keyed_def sort_by_key_def)
qed

lemma sorted_all_keyed: "sorted_keyed lt key xs \<Longrightarrow> all_keyed key xs"
  unfolding sorted_keyed_def all_keyed_def
  by (induction xs) (use option_irrefl in force)+

lemma lookup_Cons: "lookup_key key k (x # xs) = (if key x = Some k then Some x else lookup_key key k xs)"
  by (simp add: lookup_key_def)

lemma lookup_None: "lookup_key key k xs = None \<longleftrightarrow> Some k \<notin> key ` set xs"
  by (auto simp: lookup_key_def find_None_iff image_iff)

text \<open>A sorted list with distinct keys is determined by its lookups.\<close>

lemma sorted_keyed_eqI:
  assumes "sorted_keyed lt key xs" and "sorted_keyed lt key ys"
    and "\<And>k. lookup_key key k xs = lookup_key key k ys"
  shows "xs = ys"
  using assms
proof (induction xs arbitrary: ys)
  case Nil
  then have "Some k \<notin> key ` set ys" for k by (metis lookup_None empty_iff list.set(1) image_empty)
  then have "key ` set ys \<subseteq> {None}" by (metis insertI1 not_None_eq subsetI)
  with Nil.prems(2) show ?case by (cases ys) (auto simp: sorted_keyed_def)
next
  case (Cons x xs)
  obtain k where k: "key x = Some k" using Cons.prems(1) by (cases "key x") (auto simp: sorted_keyed_def)
  have "lookup_key key k ys = Some x" using Cons.prems(3) [of k] k by (simp add: lookup_Cons)
  then obtain y zs where ys: "ys = y # zs" by (cases ys) (auto simp: lookup_key_def)
  obtain l where l: "key y = Some l" using Cons.prems(2) ys by (cases "key y") (auto simp: sorted_keyed_def)
  have "k = l"
  proof (rule ccontr)
    assume "k \<noteq> l"
    have "x \<in> set zs" using \<open>lookup_key key k ys = Some x\<close> ys l \<open>k \<noteq> l\<close>
      by (auto simp: lookup_Cons lookup_key_def find_Some_iff)
    moreover have "lookup_key key l (x # xs) = Some y" using Cons.prems(3) [of l] ys l by (simp add: lookup_Cons)
    then have "y \<in> set xs" using k \<open>k \<noteq> l\<close> by (auto simp: lookup_Cons lookup_key_def find_Some_iff)
    ultimately show False using Cons.prems(1,2) ys option_trans option_irrefl by (auto simp: sorted_keyed_def) blast
  qed
  then have "x = y" using \<open>lookup_key key k ys = Some x\<close> ys l by (simp add: lookup_Cons)
  moreover have "xs = zs"
  proof (rule Cons.IH)
    show "sorted_keyed lt key xs" "sorted_keyed lt key zs"
      using Cons.prems(1,2) ys by (auto simp: sorted_keyed_def)
    have "lookup_key key k xs = None" "lookup_key key k zs = None"
      using Cons.prems(1,2) ys k \<open>x = y\<close> option_irrefl by (auto simp: sorted_keyed_def lookup_None image_iff)
    then show "lookup_key key m xs = lookup_key key m zs" for m
      using Cons.prems(3) [of m] ys \<open>x = y\<close> k by (cases "m = k") (auto simp: lookup_Cons)
  qed
  ultimately show ?case using ys by simp
qed

end

interpretation text_order: key_order text_less
  using text_less_trans text_less_linear by unfold_locales auto

interpretation pair_order: key_order pair_less
proof
  show "\<not> pair_less a a" for a by (cases a) simp
  show "pair_less a b \<Longrightarrow> pair_less b c \<Longrightarrow> pair_less a c" for a b c
    by (cases a; cases b; cases c) (auto dest: text_less_trans)
  show "pair_less a b \<or> a = b \<or> pair_less b a" for a b
    using text_less_linear by (cases a; cases b) auto
qed

section \<open>Laws of JSON objects\<close>

lemma map_of_obj_remove: "map_of (obj_remove k m) = (map_of m)(k := None)"
  by (induction m) (auto simp: obj_remove_def)

lemma obj_wf_remove: "obj_wf m \<Longrightarrow> obj_wf (obj_remove k m)"
  by (simp add: obj_remove_def obj_wf_filter)

lemma obj_eqI:
  assumes "obj_wf m" "obj_wf n" "\<And>k. map_of m k = map_of n k"
  shows "m = n"
proof -
  have lk: "lookup_key (Some \<circ> fst) k m = map_option (Pair k) (map_of m k)" for k and m :: material_json_object
    by (induction m) (auto simp: lookup_key_def)
  have "sorted_keyed text_less (Some \<circ> fst) m" if "obj_wf m" for m
    using that by (induction m) (auto simp: sorted_keyed_def obj_wf_def)
  with assms show ?thesis
    by (intro text_order.sorted_keyed_eqI [where key = "Some \<circ> fst"]) (simp_all add: lk)
qed

lemma merge_fields_simps:
  "merge_fields m [] = m"
  "merge_fields m ((k, v) # p) = merge_fields (if is_null v then obj_remove k m else obj_insert k v m) p"
  by (simp_all add: merge_fields_def)

lemma merge_fields_wf: "obj_wf m \<Longrightarrow> obj_wf (merge_fields m p)"
  by (induction p arbitrary: m) (auto simp: merge_fields_simps obj_wf_insert obj_wf_remove)

lemma merge_fields_subset: "set (merge_fields m p) \<subseteq> set m \<union> {(k, v) \<in> set p. \<not> is_null v}"
proof (induction p arbitrary: m)
  case (Cons kv p)
  obtain k v where kv: "kv = (k, v)" by fastforce
  have "set (if is_null v then obj_remove k m else obj_insert k v m) \<subseteq> set m \<union> {(k', v') \<in> {(k, v)}. \<not> is_null v'}"
    using set_obj_insert [of k v m] by (auto simp: obj_remove_def)
  with Cons.IH [of "if is_null v then obj_remove k m else obj_insert k v m"] show ?case
    unfolding kv merge_fields_simps by fastforce
qed (simp add: merge_fields_simps)

lemma merge_fields_lookup:
  "distinct (map fst p) \<Longrightarrow> map_of (merge_fields m p) k =
     (case map_of p k of None \<Rightarrow> map_of m k | Some v \<Rightarrow> if is_null v then None else Some v)"
proof (induction p arbitrary: m)
  case (Cons kv p)
  obtain j v where kv: "kv = (j, v)" by fastforce
  have "map_of p j = None" using Cons.prems kv by (simp add: map_of_eq_None_iff)
  with Cons show ?case
    by (cases "map_of p k") (auto simp: kv merge_fields_simps(2) map_of_obj_insert map_of_obj_remove)
qed (simp add: merge_fields_simps)

lemma without_nulls_lookup:
  "distinct (map fst p) \<Longrightarrow> map_of (object_without_null_fields p) k =
     (case map_of p k of None \<Rightarrow> None | Some v \<Rightarrow> if is_null v then None else Some v)"
  by (induction p) (auto simp: object_without_null_fields_def map_of_eq_None_iff image_iff split: option.split)

lemma merge_fields_twice:
  assumes "obj_wf m" "obj_wf p"
  shows "merge_fields (merge_fields m p) p = merge_fields m p"
proof (rule obj_eqI)
  note d = obj_wf_distinct [OF assms(2)]
  show "map_of (merge_fields (merge_fields m p) p) k = map_of (merge_fields m p) k" for k
    by (simp add: merge_fields_lookup [OF d] split: option.split)
qed (simp_all add: assms merge_fields_wf)

section \<open>Merging by key\<close>

text \<open>
  The contract of the merge loops: an entry keeps its key when it is merged, a new
  entry has the key it was made for, and a step changes the first entry with the patch's key
  or pushes a new one.
\<close>

locale keyed_merge = key_order lt for lt :: "'k \<Rightarrow> 'k \<Rightarrow> bool" +
  fixes key :: "'s \<Rightarrow> 'k option"
    and pkey :: "'p \<Rightarrow> 'k option"
    and touch :: "'p \<Rightarrow> 's \<Rightarrow> 's"
    and create :: "'k \<Rightarrow> 'p \<Rightarrow> 's"
    and step :: "'p \<Rightarrow> 's list \<Rightarrow> 's list"
  assumes key_touch: "key (touch p s) = key s"
    and key_create: "key (create k p) = Some k"
    and step_eq: "step p xs =
      (case pkey p of None \<Rightarrow> xs | Some k \<Rightarrow> upsert (\<lambda>s. key s = Some k) (touch p) (create k p) xs)"
begin

lemma lookup_step:
  "lookup_key key k (step p xs) =
     (if pkey p = Some k
      then Some (case lookup_key key k xs of Some s \<Rightarrow> touch p s | None \<Rightarrow> create k p)
      else lookup_key key k xs)"
proof (cases "pkey p")
  case (Some j)
  show ?thesis
    unfolding step_eq Some option.case
    by (induction xs) (auto simp: lookup_key_def key_touch key_create)
qed (simp add: step_eq)

lemma lookup_fold:
  "distinct (List.map_filter pkey ps) \<Longrightarrow> lookup_key key k (fold step ps xs) =
     (case find (\<lambda>p. pkey p = Some k) ps of
        None \<Rightarrow> lookup_key key k xs
      | Some p \<Rightarrow> Some (case lookup_key key k xs of Some s \<Rightarrow> touch p s | None \<Rightarrow> create k p))"
proof (induction ps arbitrary: xs)
  case (Cons p ps)
  have "distinct (List.map_filter pkey ps)" using Cons.prems by (cases "pkey p") (simp_all add: map_filter_simps)
  moreover have "find (\<lambda>p. pkey p = Some k) ps = None" if "pkey p = Some k"
    using Cons.prems that by (auto simp: map_filter_simps find_None_iff set_map_filter)
  ultimately show ?case
    using Cons.IH by (cases "find (\<lambda>p. pkey p = Some k) ps") (auto simp: lookup_step)
qed simp

lemma step_all:
  assumes "\<forall>s \<in> set xs. P s" and "\<And>s. P s \<Longrightarrow> P (touch p s)" and "\<And>k. pkey p = Some k \<Longrightarrow> P (create k p)"
  shows "\<forall>s \<in> set (step p xs). P s"
proof (cases "pkey p")
  case (Some k)
  have "\<forall>s \<in> set (upsert q (touch p) (create k p) xs). P s" for q
    using assms Some by (induction xs) auto
  with Some show ?thesis by (simp add: step_eq)
qed (simp add: step_eq assms(1))

lemma fold_all:
  assumes "\<forall>s \<in> set xs. P s"
    and "\<And>p s. p \<in> set ps \<Longrightarrow> P s \<Longrightarrow> P (touch p s)"
    and "\<And>p k. p \<in> set ps \<Longrightarrow> pkey p = Some k \<Longrightarrow> P (create k p)"
  shows "\<forall>s \<in> set (fold step ps xs). P s"
  using assms
proof (induction ps arbitrary: xs)
  case (Cons p ps)
  have "\<forall>s \<in> set (step p xs). P s" using Cons.prems by (intro step_all) simp_all
  from Cons.IH [OF this] Cons.prems(2,3) show ?case by simp
qed simp

lemma keys_step:
  "key ` set (step p xs) = key ` set xs \<union> (case pkey p of None \<Rightarrow> {} | Some k \<Rightarrow> {Some k})"
proof (cases "pkey p")
  case (Some k)
  have "key ` set (upsert (\<lambda>s. key s = Some k) (touch p) (create k p) xs) = insert (Some k) (key ` set xs)"
    by (induction xs) (auto simp: key_touch key_create)
  with Some show ?thesis by (simp add: step_eq)
qed (simp add: step_eq)

lemma all_keyed_step: "all_keyed key xs \<Longrightarrow> all_keyed key (step p xs)"
proof (cases "pkey p")
  case (Some k)
  assume "all_keyed key xs"
  then show ?thesis
    unfolding step_eq Some option.case
  proof (induction xs)
    case (Cons x xs)
    have "key ` set (upsert (\<lambda>s. key s = Some k) (touch p) (create k p) xs) = insert (Some k) (key ` set xs)"
      by (induction xs) (auto simp: key_touch key_create)
    with Cons show ?case by (auto simp: all_keyed_def key_touch)
  qed (simp add: all_keyed_def key_create)
qed (simp add: step_eq)

lemma all_keyed_fold: "all_keyed key xs \<Longrightarrow> all_keyed key (fold step ps xs)"
  by (induction ps arbitrary: xs) (simp_all add: all_keyed_step)

lemma keys_fold: "key ` set (fold step ps xs) = key ` set xs \<union> Some ` set (List.map_filter pkey ps)"
  by (induction ps arbitrary: xs) (auto simp: keys_step map_filter_simps split: option.splits)

lemma merge_sorted:
  "sorted_keyed lt key xs \<Longrightarrow> sorted_keyed lt key (sort_by_key lt key (fold step ps xs))"
  by (rule sorted_sort, rule all_keyed_fold, rule sorted_all_keyed)

lemma retain_all_keyed: "all_keyed key xs \<Longrightarrow> all_keyed key (retain_keys key ks xs)"
  by (auto simp: all_keyed_def retain_keys_def distinct_map inj_on_def)

lemma retain_lookup:
  "lookup_key key k (retain_keys key ks xs) = (if k \<in> set ks then lookup_key key k xs else None)"
  unfolding lookup_key_def retain_keys_def by (induction xs) auto

text \<open>Merging the same patches again changes nothing, when merging one entry twice does not.\<close>

lemma merge_again:
  assumes xs: "sorted_keyed lt key xs" "distinct (List.map_filter pkey ps)"
    and P: "\<forall>s \<in> set xs. P s"
    and twice: "\<And>p s. p \<in> set ps \<Longrightarrow> P s \<Longrightarrow> touch p (touch p s) = touch p s"
    and fresh: "\<And>p k. p \<in> set ps \<Longrightarrow> pkey p = Some k \<Longrightarrow> touch p (create k p) = create k p"
  defines "merge \<equiv> \<lambda>xs. sort_by_key lt key (fold step ps xs)"
  shows "merge (merge xs) = merge xs"
proof (rule sorted_keyed_eqI)
  show s: "sorted_keyed lt key (merge xs)" unfolding merge_def using xs(1) by (rule merge_sorted)
  show "sorted_keyed lt key (merge (merge xs))" unfolding merge_def using s [unfolded merge_def] by (rule merge_sorted)
  fix k
  have Pk: "P s" if "lookup_key key k xs = Some s" for s
    using that P by (auto simp: lookup_key_def find_Some_iff)
  show "lookup_key key k (merge (merge xs)) = lookup_key key k (merge xs)"
  proof (cases "find (\<lambda>p. pkey p = Some k) ps")
    case (Some p)
    then have "p \<in> set ps" "pkey p = Some k" by (auto dest: find_member)
    with Some Pk twice fresh show ?thesis
      by (cases "lookup_key key k xs") (simp_all add: merge_def lookup_sort lookup_fold [OF xs(2)])
  qed (simp add: merge_def lookup_sort lookup_fold [OF xs(2)])
qed

end

interpretation tray_merge: keyed_merge text_less mts_tray_id mtp_tray_id touch_tray new_tray merge_tray
  by unfold_locales (simp_all add: touch_tray_def new_tray_def merge_tray_def)

interpretation unit_merge: keyed_merge text_less mus_unit_id mup_unit_id touch_unit new_unit merge_unit
  by unfold_locales (simp_all add: touch_unit_def new_unit_def merge_unit_def Let_def split: option.split)

interpretation spool_merge: keyed_merge pair_less MaterialExternalSpoolState_key MaterialExternalSpoolPatch_key
  touch_spool new_spool merge_spool
  by unfold_locales
    (simp_all add: touch_spool_def new_spool_def merge_spool_def MaterialExternalSpoolState_key_def)

section \<open>Properties\<close>

subsection \<open>Merging\<close>

definition tray_wf :: "material_tray_state \<Rightarrow> bool" where
  "tray_wf t \<longleftrightarrow> obj_wf (mts_fields t)"

definition unit_wf :: "material_unit_state \<Rightarrow> bool" where
  "unit_wf u \<longleftrightarrow> obj_wf (mus_fields u) \<and> sorted_keyed text_less mts_tray_id (mus_trays u) \<and>
     list_all tray_wf (mus_trays u)"

definition units_wf :: "material_unit_state list \<Rightarrow> bool" where
  "units_wf us \<longleftrightarrow> sorted_keyed text_less mus_unit_id us \<and> list_all unit_wf us"

text \<open>
  What the reader guarantees of a patch: its objects are ordered maps, and the named field
  \<open>replace_trays\<close> is not among the remaining ones. Distinct identifiers are the printer's side of the protocol.
\<close>

definition tray_patches_ok :: "material_tray_patch list \<Rightarrow> bool" where
  "tray_patches_ok ps \<longleftrightarrow> distinct (List.map_filter mtp_tray_id ps) \<and> list_all (\<lambda>p. obj_wf (mtp_fields p)) ps"

definition unit_patches_ok :: "material_unit_patch list \<Rightarrow> bool" where
  "unit_patches_ok ps \<longleftrightarrow> distinct (List.map_filter mup_unit_id ps) \<and>
     list_all (\<lambda>p. obj_wf (mup_fields p) \<and> map_of (mup_fields p) ''replace_trays'' = None \<and>
       (case mup_trays p of Some ts \<Rightarrow> tray_patches_ok ts | None \<Rightarrow> True)) ps"

lemma without_nulls_wf: "obj_wf m \<Longrightarrow> obj_wf (object_without_null_fields m)"
  by (simp add: object_without_null_fields_def obj_wf_filter)

lemma touch_tray_twice: "tray_wf s \<Longrightarrow> obj_wf (mtp_fields p) \<Longrightarrow> touch_tray p (touch_tray p s) = touch_tray p s"
  by (simp add: touch_tray_def tray_wf_def merge_fields_twice)

lemma touch_new_tray: "obj_wf (mtp_fields p) \<Longrightarrow> touch_tray p (new_tray k p) = new_tray k p"
proof -
  assume p: "obj_wf (mtp_fields p)"
  note d = obj_wf_distinct [OF p]
  have "merge_fields (object_without_null_fields (mtp_fields p)) (mtp_fields p) = object_without_null_fields (mtp_fields p)"
    by (rule obj_eqI)
      (auto simp: merge_fields_wf without_nulls_wf p merge_fields_lookup [OF d] without_nulls_lookup [OF d] split: option.split)
  then show ?thesis by (simp add: touch_tray_def new_tray_def)
qed

lemma tray_wf_merge:
  assumes "list_all tray_wf ts" "list_all (\<lambda>p. obj_wf (mtp_fields p)) ps"
  shows "list_all tray_wf (fold merge_tray ps ts)"
  using assms unfolding list_all_iff
  by (intro tray_merge.fold_all) (auto simp: tray_wf_def touch_tray_def new_tray_def merge_fields_wf without_nulls_wf)

lemma merge_trays_lookup:
  "lookup_key mts_tray_id k (merge_trays ts ps replace) =
     (if replace \<and> k \<notin> set (List.map_filter mtp_tray_id ps) then None
      else lookup_key mts_tray_id k (fold merge_tray ps ts))"
  by (simp add: merge_trays_def Let_def text_order.lookup_sort tray_merge.retain_lookup)

lemma merge_trays_wf:
  assumes "sorted_keyed text_less mts_tray_id ts" "list_all tray_wf ts" "tray_patches_ok ps"
  shows "sorted_keyed text_less mts_tray_id (merge_trays ts ps replace)" "list_all tray_wf (merge_trays ts ps replace)"
proof -
  have "all_keyed mts_tray_id (fold merge_tray ps ts)"
    using assms(1) by (intro tray_merge.all_keyed_fold text_order.sorted_all_keyed)
  then show "sorted_keyed text_less mts_tray_id (merge_trays ts ps replace)"
    by (auto simp: merge_trays_def Let_def intro!: text_order.sorted_sort tray_merge.retain_all_keyed)
  show "list_all tray_wf (merge_trays ts ps replace)"
    using tray_wf_merge assms(2,3)
    by (auto simp: merge_trays_def Let_def list_all_iff sort_by_key_def retain_keys_def tray_patches_ok_def)
qed

lemma merge_trays_twice:
  assumes "sorted_keyed text_less mts_tray_id ts" "list_all tray_wf ts" "tray_patches_ok ps"
  shows "merge_trays (merge_trays ts ps replace) ps replace = merge_trays ts ps replace"
proof (rule text_order.sorted_keyed_eqI)
  note ok = assms(3) [unfolded tray_patches_ok_def]
  note w = merge_trays_wf [OF assms]
  show "sorted_keyed text_less mts_tray_id (merge_trays ts ps replace)" by (rule w)
  show "sorted_keyed text_less mts_tray_id (merge_trays (merge_trays ts ps replace) ps replace)"
    using w assms(3) by (rule merge_trays_wf)
  fix k
  show "lookup_key mts_tray_id k (merge_trays (merge_trays ts ps replace) ps replace) =
      lookup_key mts_tray_id k (merge_trays ts ps replace)"
  proof (cases "find (\<lambda>p. mtp_tray_id p = Some k) ps")
    case None
    then show ?thesis by (simp add: merge_trays_lookup tray_merge.lookup_fold [OF ok [THEN conjunct1]])
  next
    case (Some p)
    then have p: "p \<in> set ps" "mtp_tray_id p = Some k" by (auto dest: find_member)
    then have "obj_wf (mtp_fields p)" "k \<in> set (List.map_filter mtp_tray_id ps)"
      using ok by (auto simp: list_all_iff set_map_filter)
    moreover have "tray_wf s" if "lookup_key mts_tray_id k ts = Some s" for s
      using that assms(2) by (auto simp: lookup_key_def list_all_iff dest: find_member)
    ultimately show ?thesis using Some
      by (cases "lookup_key mts_tray_id k ts")
        (simp_all add: merge_trays_lookup tray_merge.lookup_fold [OF ok [THEN conjunct1]] touch_tray_twice touch_new_tray)
  qed
qed

lemma new_trays_wf:
  assumes "tray_patches_ok ps"
  shows "sorted_keyed text_less mts_tray_id (new_tray_states ps)" "list_all tray_wf (new_tray_states ps)"
proof -
  let ?new = "List.map_filter (\<lambda>p. map_option (\<lambda>k. new_tray k p) (mtp_tray_id p)) ps"
  have "map mts_tray_id ?new = map Some (List.map_filter mtp_tray_id ps)"
    by (induction ps) (auto simp: map_filter_simps new_tray_def split: option.split)
  then have "all_keyed mts_tray_id ?new"
    using assms by (simp add: all_keyed_def tray_patches_ok_def distinct_map flip: set_map) auto
  then show "sorted_keyed text_less mts_tray_id (new_tray_states ps)"
    unfolding new_tray_states_def by (rule text_order.sorted_sort)
  show "list_all tray_wf (new_tray_states ps)"
    using assms by (auto simp: new_tray_states_def sort_by_key_def list_all_iff set_map_filter tray_patches_ok_def
        tray_wf_def new_tray_def without_nulls_wf)
qed

lemma new_trays_lookup:
  assumes "distinct (List.map_filter mtp_tray_id ps)"
  shows "lookup_key mts_tray_id k (new_tray_states ps) = map_option (new_tray k) (find (\<lambda>p. mtp_tray_id p = Some k) ps)"
proof -
  have "lookup_key mts_tray_id k (List.map_filter (\<lambda>p. map_option (\<lambda>k. new_tray k p) (mtp_tray_id p)) ps) =
      map_option (new_tray k) (find (\<lambda>p. mtp_tray_id p = Some k) ps)"
    by (induction ps) (auto simp: map_filter_simps lookup_key_def new_tray_def split: option.split)
  then show ?thesis by (simp add: new_tray_states_def text_order.lookup_sort)
qed

lemma merge_new_trays:
  assumes "tray_patches_ok ps"
  shows "merge_trays (new_tray_states ps) ps replace = new_tray_states ps"
proof (rule text_order.sorted_keyed_eqI)
  note d = assms [unfolded tray_patches_ok_def, THEN conjunct1]
  note w = new_trays_wf [OF assms]
  show "sorted_keyed text_less mts_tray_id (new_tray_states ps)" by (rule w)
  show "sorted_keyed text_less mts_tray_id (merge_trays (new_tray_states ps) ps replace)"
    using w assms by (rule merge_trays_wf)
  fix k
  show "lookup_key mts_tray_id k (merge_trays (new_tray_states ps) ps replace) = lookup_key mts_tray_id k (new_tray_states ps)"
  proof (cases "find (\<lambda>p. mtp_tray_id p = Some k) ps")
    case (Some p)
    then have "p \<in> set ps" "mtp_tray_id p = Some k" by (auto dest: find_member)
    then have "obj_wf (mtp_fields p)" "k \<in> set (List.map_filter mtp_tray_id ps)"
      using assms by (auto simp: tray_patches_ok_def list_all_iff set_map_filter)
    with Some show ?thesis
      by (simp add: merge_trays_lookup tray_merge.lookup_fold [OF d] new_trays_lookup [OF d] touch_new_tray)
  qed (simp add: merge_trays_lookup tray_merge.lookup_fold [OF d] new_trays_lookup [OF d])
qed

abbreviation unit_patch_ok :: "material_unit_patch \<Rightarrow> bool" where
  "unit_patch_ok p \<equiv> obj_wf (mup_fields p) \<and> map_of (mup_fields p) ''replace_trays'' = None \<and>
     (case mup_trays p of Some ts \<Rightarrow> tray_patches_ok ts | None \<Rightarrow> True)"

lemma new_unit_fields:
  assumes "obj_wf (mup_fields p)"
  shows "obj_wf (fields_without_nulls_for_new_unit p)"
    "map_of (mup_fields p) ''replace_trays'' = None \<Longrightarrow>
       merge_fields (fields_without_nulls_for_new_unit p) (mup_fields p) = fields_without_nulls_for_new_unit p"
proof -
  let ?m = "if mup_replace_trays p then obj_insert ''replace_trays'' (JBool True) (mup_fields p) else mup_fields p"
  have m: "obj_wf ?m" using assms by (simp add: obj_wf_insert)
  then show w: "obj_wf (fields_without_nulls_for_new_unit p)"
    by (simp add: fields_without_nulls_for_new_unit_def without_nulls_wf)
  assume "map_of (mup_fields p) ''replace_trays'' = None"
  then show "merge_fields (fields_without_nulls_for_new_unit p) (mup_fields p) = fields_without_nulls_for_new_unit p"
    unfolding fields_without_nulls_for_new_unit_def
    by (intro obj_eqI)
      (auto simp: merge_fields_wf without_nulls_wf obj_wf_insert assms merge_fields_lookup [OF obj_wf_distinct [OF assms]]
        without_nulls_lookup [OF obj_wf_distinct] map_of_obj_insert is_null_def split: option.split)
qed

lemma touch_unit_wf: "unit_wf s \<Longrightarrow> unit_patch_ok p \<Longrightarrow> unit_wf (touch_unit p s)"
  by (auto simp: unit_wf_def touch_unit_def Let_def merge_fields_wf merge_trays_wf split: option.split)

lemma new_unit_wf: "unit_patch_ok p \<Longrightarrow> unit_wf (new_unit k p)"
  by (auto simp: unit_wf_def new_unit_def new_unit_fields new_trays_wf split: option.split)
    (auto simp: sorted_keyed_def)

lemma touch_unit_twice: "unit_wf s \<Longrightarrow> unit_patch_ok p \<Longrightarrow> touch_unit p (touch_unit p s) = touch_unit p s"
  by (auto simp: unit_wf_def touch_unit_def Let_def merge_fields_twice merge_trays_twice split: option.split)

lemma touch_new_unit: "unit_patch_ok p \<Longrightarrow> touch_unit p (new_unit k p) = new_unit k p"
  by (auto simp: new_unit_def touch_unit_def Let_def new_unit_fields merge_new_trays split: option.split)


text \<open>
  What a patch does to one AMS unit: a unit the patch does not name stays as it is; in a unit it names, a
  field given as null is removed, a field given otherwise has the patch's value, and every other field
  is kept; a unit not known before is made from the non-null fields.
\<close>

lemma ams_unit_after_patch:
  assumes "unit_patches_ok ps"
  shows "case find (\<lambda>p. mup_unit_id p = Some k) ps of
       None \<Rightarrow> lookup_key mus_unit_id k (merge_units us ps) = lookup_key mus_unit_id k us
     | Some p \<Rightarrow> \<exists>u. lookup_key mus_unit_id k (merge_units us ps) = Some u \<and>
         (\<forall>f. map_of (mus_fields u) f =
            (case map_of (mup_fields p) f of
               Some v \<Rightarrow> if is_null v then None else Some v
             | None \<Rightarrow> (case lookup_key mus_unit_id k us of
                 Some old \<Rightarrow> map_of (mus_fields old) f
               | None \<Rightarrow> if mup_replace_trays p \<and> f = ''replace_trays'' then Some (JBool True) else None)))"
proof -
  have ok: "\<And>p. p \<in> set ps \<Longrightarrow> unit_patch_ok p" and d: "distinct (List.map_filter mup_unit_id ps)"
    using assms by (auto simp: unit_patches_ok_def list_all_iff)
  have touched: "map_of (mus_fields (touch_unit p old)) f = (case map_of (mup_fields p) f of
      Some v \<Rightarrow> if is_null v then None else Some v | None \<Rightarrow> map_of (mus_fields old) f)"
    if "p \<in> set ps" for p old f
    using ok [OF that] by (auto simp: touch_unit_def Let_def merge_fields_lookup obj_wf_distinct split: option.split)
  have new: "map_of (mus_fields (new_unit k p)) f = (case map_of (mup_fields p) f of
      Some v \<Rightarrow> if is_null v then None else Some v
    | None \<Rightarrow> if mup_replace_trays p \<and> f = ''replace_trays'' then Some (JBool True) else None)"
    if "p \<in> set ps" for p f
    using ok [OF that]
    by (auto simp: new_unit_def fields_without_nulls_for_new_unit_def without_nulls_lookup obj_wf_distinct
        obj_wf_insert map_of_obj_insert is_null_def split: option.split)
  show ?thesis
  proof (cases "find (\<lambda>p. mup_unit_id p = Some k) ps")
    case (Some p)
    then have "p \<in> set ps" by (auto dest: find_member)
    with Some show ?thesis
      by (cases "lookup_key mus_unit_id k us")
        (auto simp: merge_units_def text_order.lookup_sort unit_merge.lookup_fold [OF d] touched new split: option.split)
  qed (simp add: merge_units_def text_order.lookup_sort unit_merge.lookup_fold [OF d])
qed

subsection \<open>Redaction\<close>

text \<open>No key and no string of the value looks like a secret.\<close>

fun clean :: "json \<Rightarrow> bool"
  and clean_object :: "material_json_object \<Rightarrow> bool"
  and clean_values :: "json list \<Rightarrow> bool" where
  "clean (JObject m) = clean_object m"
| "clean (JArray vs) = clean_values vs"
| "clean (JString s) = (\<not> is_sensitive s)"
| "clean (JNumber n) = True"
| "clean (JBool b) = True"
| "clean JNull = True"
| "clean_object [] = True"
| "clean_object ((k, v) # m) = (\<not> is_sensitive k \<and> clean v \<and> clean_object m)"
| "clean_values [] = True"
| "clean_values (v # vs) = (clean v \<and> clean_values vs)"

lemma clean_object_iff: "clean_object m \<longleftrightarrow> (\<forall>(k, v) \<in> set m. \<not> is_sensitive k \<and> clean v)"
  by (induction m) auto

lemma redaction_cleans:
  "redacted v = Some w \<Longrightarrow> clean w"
  "clean_object (redact_object m)"
  "clean_values (redacted_values vs)"
  by (induction v and m and vs arbitrary: w rule: redacted_redact_object_redacted_values.induct)
    (auto split: if_splits option.splits)

definition clean_tray :: "material_tray_state \<Rightarrow> bool" where
  "clean_tray t \<longleftrightarrow> clean_object (mts_fields t)"

definition clean_unit :: "material_unit_state \<Rightarrow> bool" where
  "clean_unit u \<longleftrightarrow> clean_object (mus_fields u) \<and> list_all clean_tray (mus_trays u)"

definition clean_spool :: "material_external_spool_state \<Rightarrow> bool" where
  "clean_spool s \<longleftrightarrow> clean_object (mes_fields s)"

lemma clean_merge_fields: "clean_object m \<Longrightarrow> clean_object p \<Longrightarrow> clean_object (merge_fields m p)"
  using merge_fields_subset [of m p] unfolding clean_object_iff by blast

lemma clean_without_nulls: "clean_object m \<Longrightarrow> clean_object (object_without_null_fields m)"
  by (auto simp: clean_object_iff object_without_null_fields_def)

lemma clean_obj_insert: "clean_object m \<Longrightarrow> \<not> is_sensitive k \<Longrightarrow> clean v \<Longrightarrow> clean_object (obj_insert k v m)"
  using set_obj_insert [of k v m] unfolding clean_object_iff by blast

lemma clean_trays_merge:
  assumes "list_all clean_tray ts"
  shows "list_all clean_tray (merge_trays ts (redacted_trays ps) replace)"
    "list_all clean_tray (new_tray_states (redacted_trays ps))"
proof -
  have "\<forall>t \<in> set (fold merge_tray (redacted_trays ps) ts). clean_tray t"
    using assms
    by (intro tray_merge.fold_all)
      (auto simp: list_all_iff redacted_trays_def clean_tray_def touch_tray_def new_tray_def
        clean_merge_fields clean_without_nulls redaction_cleans(2))
  then show "list_all clean_tray (merge_trays ts (redacted_trays ps) replace)"
    by (auto simp: merge_trays_def Let_def list_all_iff sort_by_key_def retain_keys_def)
  show "list_all clean_tray (new_tray_states (redacted_trays ps))"
    by (auto simp: new_tray_states_def list_all_iff sort_by_key_def set_map_filter redacted_trays_def clean_tray_def
        new_tray_def clean_without_nulls redaction_cleans(2))
qed

lemma clean_units_merge:
  assumes "list_all clean_unit us"
  shows "list_all clean_unit (merge_units us (redacted_units ps))"
proof -
  have r: "\<not> is_sensitive ''replace_trays''" by code_simp
  have "\<forall>u \<in> set (fold merge_unit (redacted_units ps) us). clean_unit u"
  proof (rule unit_merge.fold_all)
    fix p s assume "p \<in> set (redacted_units ps)" "clean_unit s"
    then show "clean_unit (touch_unit p s)"
      by (auto simp: redacted_units_def clean_unit_def touch_unit_def Let_def clean_merge_fields
          redaction_cleans(2) clean_trays_merge split: option.split)
  next
    fix p k assume "p \<in> set (redacted_units ps)"
    then show "clean_unit (new_unit k p)"
      by (auto simp: redacted_units_def clean_unit_def new_unit_def fields_without_nulls_for_new_unit_def
          clean_without_nulls clean_obj_insert r redaction_cleans(2) clean_trays_merge(2) [of "[]"] split: option.split)
  qed (use assms in \<open>simp add: list_all_iff\<close>)
  then show ?thesis by (simp add: merge_units_def list_all_iff sort_by_key_def)
qed

lemma clean_spools_merge:
  assumes "list_all clean_spool ss"
  shows "list_all clean_spool (merge_external_spools ss (redacted_external_spools ps) replace)"
proof -
  have "\<forall>s \<in> set (fold merge_spool (redacted_external_spools ps) ss). clean_spool s"
    using assms
    by (intro spool_merge.fold_all)
      (auto simp: list_all_iff redacted_external_spools_def clean_spool_def touch_spool_def new_spool_def
        clean_merge_fields clean_without_nulls redaction_cleans(2))
  then show ?thesis
    by (auto simp: merge_external_spools_def Let_def list_all_iff sort_by_key_def retain_keys_def)
qed


subsection \<open>The table\<close>

definition materials_wf :: "material_row list \<Rightarrow> bool" where
  "materials_wf rows \<longleftrightarrow> distinct (map msr_id rows) \<and> distinct (map (\<lambda>m. (msr_tenant_id m, msr_printer_id m)) rows)"

abbreviation replace_row :: "material_row \<Rightarrow> material_row list \<Rightarrow> material_row list" where
  "replace_row model rows \<equiv> map (\<lambda>m. if msr_id m = msr_id model then model else m) rows"

lemma upsert_changed:
  assumes "upsert_from_patch_outcome_in_connection codec now fresh db input rows = Ok (outcome, rows')"
  shows "rows' = rows \<and> (\<forall>s. outcome \<noteq> PatchChanged s) \<and>
     (trim (mpi_printer_materials_json input) = [] \<or> (\<exists>e. parse_patch_result codec (mpi_printer_materials_json input) = Err e) \<or>
      (\<exists>patch m. parse_patch_result codec (mpi_printer_materials_json input) = Ok patch \<and>
        find (material_row_of input) rows = Some m \<and>
        (is_older codec (pp_observed_at patch) (msr_observed_at m) = Ok True \<or>
         (\<exists>snap s. merge_snapshot codec (find (material_row_of input) rows) patch = Ok snap \<and>
            snapshot_from_model codec m = Ok s \<and> snapshot_unchanged patch snap s)))) \<or>
    (\<exists>patch printer snap s. outcome = PatchChanged s \<and>
      parse_patch_result codec (mpi_printer_materials_json input) = Ok patch \<and>
      merge_snapshot codec (find (material_row_of input) rows) patch = Ok snap \<and>
      (\<forall>m. find (material_row_of input) rows = Some m \<longrightarrow> is_older codec (pp_observed_at patch) (msr_observed_at m) = Ok False) \<and>
      snapshot_from_model codec (snapshot_model codec now fresh input printer (find (material_row_of input) rows) patch snap) = Ok s \<and>
      rows' = (let model = snapshot_model codec now fresh input printer (find (material_row_of input) rows) patch snap
         in if find (material_row_of input) rows = None then rows @ [model] else replace_row model rows))"
proof (cases "trim (mpi_printer_materials_json input) = [] \<or> (\<exists>e. parse_patch_result codec (mpi_printer_materials_json input) = Err e)")
  case True
  with assms show ?thesis by (auto simp: upsert_from_patch_outcome_in_connection_def split: if_splits)
next
  case False
  then obtain patch where p: "parse_patch_result codec (mpi_printer_materials_json input) = Ok patch"
    by (cases "parse_patch_result codec (mpi_printer_materials_json input)") auto
  let ?current = "find (material_row_of input) rows"
  from assms False p obtain printer older where older: "(case ?current of
      Some m \<Rightarrow> is_older codec (pp_observed_at patch) (msr_observed_at m) | None \<Rightarrow> Ok False) = Ok older"
    and printer: "ok_or (find (\<lambda>p. prr_id p = mpi_printer_id input \<and> prr_tenant_id p = mpi_tenant_id input \<and>
              prr_agent_id p = mpi_agent_id input) (db_printers db)) MissingPrinter = Ok printer"
    by (simp add: upsert_from_patch_outcome_in_connection_def and_then_eq_Ok Let_def) blast
  show ?thesis
  proof (cases older)
    case True
    with older obtain m where "?current = Some m" "is_older codec (pp_observed_at patch) (msr_observed_at m) = Ok True"
      by (cases ?current) auto
    with assms False p older printer True show ?thesis by (auto simp: upsert_from_patch_outcome_in_connection_def)
  next
    case notolder: False
    with assms False p older printer obtain cs snap where
      cs: "traverse_option (snapshot_from_model codec) ?current = Ok cs" and snap: "merge_snapshot codec ?current patch = Ok snap"
      by (simp add: upsert_from_patch_outcome_in_connection_def and_then_eq_Ok Let_def del: if_split) blast
    let ?model = "snapshot_model codec now fresh input printer ?current patch snap"
    have nold: "\<forall>m. ?current = Some m \<longrightarrow> is_older codec (pp_observed_at patch) (msr_observed_at m) = Ok False"
      using older notolder by auto
    show ?thesis
    proof (cases "is_some_and (snapshot_unchanged patch snap) cs")
      case True
      with assms False p older printer cs snap notolder have "outcome = PatchUnchanged (the cs)" "rows' = rows"
        by (simp_all add: upsert_from_patch_outcome_in_connection_def)
      moreover from True cs obtain m s where "?current = Some m" "snapshot_from_model codec m = Ok s"
        "snapshot_unchanged patch snap s"
        by (cases ?current) (auto simp: is_some_and_def result_simps)
      ultimately show ?thesis using p snap by auto
    next
      case False': False
      then have "(if is_some_and (snapshot_unchanged patch snap) cs then a else b) = b" for a b :: "(material_patch_outcome \<times> material_row list) repository_result"
        by (rule if_not_P)
      with assms False p older printer cs snap notolder have "and_then (snapshot_from_model codec ?model)
          (\<lambda>s. Ok (PatchChanged s, if ?current = None then rows @ [?model] else replace_row ?model rows)) = Ok (outcome, rows')"
        by (simp add: upsert_from_patch_outcome_in_connection_def Let_def del: is_some_and_iff if_split)
      then obtain s where "snapshot_from_model codec ?model = Ok s" "outcome = PatchChanged s"
        "rows' = (if ?current = None then rows @ [?model] else replace_row ?model rows)"
        unfolding and_then_eq_Ok by blast
      with p snap nold show ?thesis unfolding Let_def by blast
    qed
  qed
qed

lemma snapshot_model_fields [simp]:
  "material_row_of input (snapshot_model codec now fresh input printer current patch snap)"
  "msr_id (snapshot_model codec now fresh input printer current patch snap) = (case current of Some m \<Rightarrow> msr_id m | None \<Rightarrow> fresh)"
  "msr_observed_at (snapshot_model codec now fresh input printer current patch snap) = pp_observed_at patch"
  "msr_active_tray_json (snapshot_model codec now fresh input printer current patch snap) =
     map_option (mc_write_json codec) (mg_active_tray snap)"
  by (simp_all add: snapshot_model_def material_row_of_def)

lemma find_map_same:
  "(\<And>x. x \<in> set xs \<Longrightarrow> P (f x) = P x) \<Longrightarrow> find P (map f xs) = map_option f (find P xs)"
  by (induction xs) auto

lemma filter_map_same:
  "(\<And>x. x \<in> set xs \<Longrightarrow> P (f x) = P x \<and> (P x \<longrightarrow> f x = x)) \<Longrightarrow> filter P (map f xs) = filter P xs"
  by (induction xs) auto

lemma materials_unique:
  "materials_wf rows \<Longrightarrow> m \<in> set rows \<Longrightarrow> n \<in> set rows \<Longrightarrow> msr_id m = msr_id n \<Longrightarrow> m = n"
  by (auto simp: materials_wf_def distinct_map dest: inj_onD)

lemma replace_row_effect:
  assumes "materials_wf rows" and m: "find (material_row_of input) rows = Some m"
    and model: "material_row_of input model" "msr_id model = msr_id m"
  shows "materials_wf (replace_row model rows)"
    "filter (\<lambda>r. \<not> material_row_of input r) (replace_row model rows) = filter (\<lambda>r. \<not> material_row_of input r) rows"
    "find (material_row_of input) (replace_row model rows) = Some model"
proof -
  have mem: "m \<in> set rows" "material_row_of input m" using m by (auto dest: find_member)
  have eq: "r = m" if "r \<in> set rows" "msr_id r = msr_id model" for r
    using materials_unique [OF assms(1) that(1) mem(1)] that(2) model(2) by simp
  have same: "(msr_tenant_id (if msr_id r = msr_id model then model else r), msr_printer_id (if msr_id r = msr_id model then model else r)) =
      (msr_tenant_id r, msr_printer_id r)" "msr_id (if msr_id r = msr_id model then model else r) = msr_id r"
    if "r \<in> set rows" for r
    using eq [OF that] mem(2) model by (auto simp: material_row_of_def)
  have "map msr_id (replace_row model rows) = map msr_id rows"
    "map (\<lambda>m. (msr_tenant_id m, msr_printer_id m)) (replace_row model rows) = map (\<lambda>m. (msr_tenant_id m, msr_printer_id m)) rows"
    using same by (simp_all cong: map_cong)
  with assms(1) show "materials_wf (replace_row model rows)" by (simp only: materials_wf_def)
  have owner: "material_row_of input (if msr_id r = msr_id model then model else r) = material_row_of input r" if "r \<in> set rows" for r
    using eq [OF that] model mem(2) by auto
  show "filter (\<lambda>r. \<not> material_row_of input r) (replace_row model rows) = filter (\<lambda>r. \<not> material_row_of input r) rows"
    using eq mem(2) model by (intro filter_map_same) auto
  show "find (material_row_of input) (replace_row model rows) = Some model"
    using find_map_same [where P = "material_row_of input" and f = "\<lambda>r. if msr_id r = msr_id model then model else r" and xs = rows]
      owner m model(2) by simp
qed

lemma material_effect_frame:
  assumes "upsert_from_patch_outcome_in_connection codec now fresh db input rows = Ok (outcome, rows')"
    and "materials_wf rows" and "fresh \<notin> msr_id ` set rows"
  shows "materials_wf rows' \<and>
     filter (\<lambda>r. \<not> material_row_of input r) rows' = filter (\<lambda>r. \<not> material_row_of input r) rows \<and>
     (case outcome of
        PatchChanged s \<Rightarrow> \<exists>m'. find (material_row_of input) rows' = Some m' \<and> snapshot_from_model codec m' = Ok s \<and>
          (\<forall>m. find (material_row_of input) rows = Some m \<longrightarrow>
             msr_id m' = msr_id m \<and> is_older codec (msr_observed_at m') (msr_observed_at m) = Ok False)
      | _ \<Rightarrow> rows' = rows)"
proof -
  let ?current = "find (material_row_of input) rows"
  let ?model = "\<lambda>printer patch snap. snapshot_model codec now fresh input printer ?current patch snap"
  consider (kept) "rows' = rows" "\<forall>s. outcome \<noteq> PatchChanged s"
    | (changed) patch printer snap s where "outcome = PatchChanged s" "snapshot_from_model codec (?model printer patch snap) = Ok s"
      "rows' = (let model = ?model printer patch snap in if ?current = None then rows @ [model] else replace_row model rows)"
      "\<forall>m. ?current = Some m \<longrightarrow> is_older codec (pp_observed_at patch) (msr_observed_at m) = Ok False"
    using upsert_changed [OF assms(1)] by blast
  then show ?thesis
  proof cases
    case kept
    with assms(2) show ?thesis by (cases outcome) simp_all
  next
    case (changed patch printer snap s)
    note o = changed(1) and s = changed(2) and r = changed(3) and n = changed(4)
    let ?model = "snapshot_model codec now fresh input printer ?current patch snap"
    show ?thesis
    proof (cases ?current)
      case None
      then have "\<forall>x \<in> set rows. \<not> material_row_of input x" by (simp add: find_None_iff)
      moreover have "find (material_row_of input) (rows @ [?model]) = Some ?model"
        using None by (simp add: find_filter [of _ "rows @ _"]) (simp add: find_None_iff filter_False)
      ultimately show ?thesis using o s r None assms(2,3)
        by (auto simp: materials_wf_def material_row_of_def snapshot_model_def image_iff)
    next
      case (Some m)
      have "material_row_of input ?model" "msr_id ?model = msr_id m" using Some by simp_all
      note e = replace_row_effect [OF assms(2) Some this]
      have "rows' = replace_row ?model rows" using r Some by (simp add: Let_def)
      with e n o s Some show ?thesis by auto
    qed
  qed
qed

text \<open>
  A material patch touches only the row of its own printer. Every other row stays; the
  table keeps one row per printer; when the outcome is not a change nothing is written; a change is
  never older than what was stored, keeps the row's identity, and reads back as the snapshot reported.
\<close>

lemma material_patch_effect:
  assumes "upsert_from_patch_outcome_in_connection codec now fresh db input rows = Ok (outcome, rows')"
    and "materials_wf rows" and "fresh \<notin> msr_id ` set rows"
  shows "materials_wf rows' \<and>
     filter (\<lambda>r. \<not> material_row_of input r) rows' = filter (\<lambda>r. \<not> material_row_of input r) rows \<and>
     (case outcome of
        PatchChanged s \<Rightarrow> \<exists>m'. find (material_row_of input) rows' = Some m' \<and> snapshot_from_model codec m' = Ok s \<and>
          (\<forall>m. find (material_row_of input) rows = Some m \<longrightarrow>
             msr_id m' = msr_id m \<and> is_older codec (msr_observed_at m') (msr_observed_at m) = Ok False)
      | _ \<Rightarrow> rows' = rows)"
  using assms by (rule material_effect_frame)

text \<open>
  A patch whose active tray is not an object fails the whole transaction, instead of being
  reported as invalid: it passes the reader, is written, and cannot be read back.
\<close>

lemma active_tray_not_object_fails:
  assumes "trim (mpi_printer_materials_json input) \<noteq> []"
    and p: "parse_patch_result codec (mpi_printer_materials_json input) = Ok patch"
    and v: "pp_active_tray patch = PresenceValue v" "as_object v = None"
    and codec: "mc_read_object codec (mc_write_json codec v) = None"
    and n: "\<And>m. find (material_row_of input) rows = Some m \<Longrightarrow> is_older codec (pp_observed_at patch) (msr_observed_at m) = Ok False"
  shows "\<not> is_ok (upsert_from_patch_outcome_in_connection codec now fresh db input rows)"
proof
  assume "is_ok (upsert_from_patch_outcome_in_connection codec now fresh db input rows)"
  then obtain outcome rows' where "upsert_from_patch_outcome_in_connection codec now fresh db input rows = Ok (outcome, rows')"
    by (auto simp: is_ok_iff)
  moreover have tray: "mg_active_tray snap = Some v" if "merge_snapshot codec c patch = Ok snap" for c snap
    using that v(1) by (auto simp: merge_snapshot_def result_simps)
  moreover have "snapshot_from_model codec m \<noteq> Ok s" if "msr_active_tray_json m = Some (mc_write_json codec v)" for m s
    using that codec by (auto simp: snapshot_from_model_def parse_object_json_def result_simps)
  moreover have "msn_active_tray s \<noteq> Some v" if "snapshot_from_model codec m = Ok s" for m s
    using that v(2) by (cases "msr_active_tray_json m") (auto simp: snapshot_from_model_def parse_object_json_def result_simps)
  ultimately show False
    using upsert_changed [of codec now fresh db input rows outcome rows'] assms(1) p n
    by (auto simp: snapshot_unchanged_def)
qed

section \<open>A sample patch\<close>

definition sample_unit_patches :: "material_unit_patch list" where
  "sample_unit_patches =
     [\<lparr>mup_unit_id = Some ''0'', mup_replace_trays = False,
       mup_trays = Some [\<lparr>mtp_tray_id = Some ''1'', mtp_fields = [(''color'', JString ''FFFFFFFF''), (''tag'', JNull)]\<rparr>],
       mup_fields = [(''humidity'', JString ''3''), (''temp'', JNull)]\<rparr>]"

definition sample_units :: "material_unit_state list" where
  "sample_units =
     [\<lparr>mus_unit_id = Some ''0'', mus_trays = [\<lparr>mts_tray_id = Some ''0'', mts_fields = []\<rparr>],
       mus_fields = [(''model'', JString ''ams''), (''temp'', JString ''24'')]\<rparr>]"

definition sample_document :: material_patch_document where
  "sample_document =
     \<lparr>mpd_kind = ''printer_material_patch'', mpd_observed_at = ''2026-01-01T00:05:00Z'',
      mpd_filament_switch_installed = Some True, mpd_cfg = None, mpd_aux = None, mpd_stat = None,
      mpd_ams_units = Some (map (\<lambda>u. u\<lparr>mup_fields := [(''humidity'', JString ''3''), (''mqtt_Token'', JString ''abc'')]\<rparr>)
        sample_unit_patches),
      mpd_external_spools = None, mpd_replace_external_spools = False, mpd_active_tray = Absent\<rparr>"

definition sample_material_codec :: material_codec where
  "sample_material_codec =
     \<lparr>mc_uuid = Some,
      mc_read_document = (\<lambda>raw. if raw = ''tray'' then Ok (sample_document\<lparr>mpd_active_tray := PresenceValue (JString ''x'')\<rparr>)
        else Ok sample_document),
      mc_parse_time = (\<lambda>_. Ok 0), mc_read_units = (\<lambda>_. Some []), mc_read_spools = (\<lambda>_. Some []),
      mc_read_array = (\<lambda>_. Some []), mc_read_object = (\<lambda>_. None), mc_write_json = (\<lambda>_. ''[]'')\<rparr>"

definition sample_material_input :: "string \<Rightarrow> material_patch_input" where
  "sample_material_input body =
     \<lparr>mpi_tenant_id = ''t1'', mpi_agent_id = ''a1'', mpi_printer_id = ''p1'', mpi_serial_number = ''01S00A000000001'',
      mpi_printer_materials_json = body\<rparr>"

lemma sample_patches_ok: "units_wf sample_units" "unit_patches_ok sample_unit_patches"
  by code_simp+


lemma ams_unit_after_patch_witness:
  "\<exists>u. lookup_key mus_unit_id ''0'' (merge_units sample_units sample_unit_patches) = Some u \<and>
     map_of (mus_fields u) ''temp'' = None \<and> map_of (mus_fields u) ''model'' = Some (JString ''ams'')"
proof -
  let ?p = "hd sample_unit_patches"
  have "find (\<lambda>p. mup_unit_id p = Some ''0'') sample_unit_patches = Some ?p" by (simp add: sample_unit_patches_def)
  from ams_unit_after_patch [OF sample_patches_ok(2), of "''0''" sample_units, unfolded this option.case]
  obtain u where u: "lookup_key mus_unit_id ''0'' (merge_units sample_units sample_unit_patches) = Some u"
    and f: "\<And>f. map_of (mus_fields u) f = (case map_of (mup_fields ?p) f of
        Some v \<Rightarrow> if is_null v then None else Some v
      | None \<Rightarrow> (case lookup_key mus_unit_id ''0'' sample_units of
          Some old \<Rightarrow> map_of (mus_fields old) f
        | None \<Rightarrow> if mup_replace_trays ?p \<and> f = ''replace_trays'' then Some (JBool True) else None))"
    by blast
  have "map_of (mus_fields u) ''temp'' = None" "map_of (mus_fields u) ''model'' = Some (JString ''ams'')"
    unfolding f by (simp_all add: sample_unit_patches_def sample_units_def lookup_key_def is_null_def)
  with u show ?thesis by blast
qed

definition sample_parsed :: "(parsed_patch, string) result" where
  "sample_parsed = parse_patch_result sample_material_codec ''{}''"

lemma sample_parsed_ok: "is_ok sample_parsed"
  by code_simp


definition sample_upserted :: "(material_patch_outcome \<times> material_row list) repository_result" where
  "sample_upserted = upsert_from_patch_outcome_in_connection sample_material_codec ''now'' ''m1'' sample_jobs_db
     (sample_material_input ''{}'') []"

lemma sample_upserted_changed: "(case sample_upserted of Ok (PatchChanged s, _) \<Rightarrow> True | _ \<Rightarrow> False)"
  by code_simp

lemma material_patch_effect_witness:
  "\<exists>s rows m. sample_upserted = Ok (PatchChanged s, rows) \<and>
     find (material_row_of (sample_material_input ''{}'')) rows = Some m \<and> snapshot_from_model sample_material_codec m = Ok s"
proof -
  obtain s rows where u: "sample_upserted = Ok (PatchChanged s, rows)"
    using sample_upserted_changed by (auto split: result.splits prod.splits material_patch_outcome.splits)
  have "materials_wf []" by (simp add: materials_wf_def)
  from material_patch_effect [OF u [unfolded sample_upserted_def] this] u show ?thesis by auto
qed

lemma active_tray_not_object_fails_witness:
  "\<not> is_ok (upsert_from_patch_outcome_in_connection sample_material_codec ''now'' ''m1'' sample_jobs_db
     (sample_material_input ''tray'') [])"
proof (rule active_tray_not_object_fails)
  show "trim (mpi_printer_materials_json (sample_material_input ''tray'')) \<noteq> []" by code_simp
  show "parse_patch_result sample_material_codec (mpi_printer_materials_json (sample_material_input ''tray'')) =
      Ok (case parse_patch_result sample_material_codec ''tray'' of Ok p \<Rightarrow> p | Err _ \<Rightarrow> undefined)"
    by code_simp
  show "pp_active_tray (case parse_patch_result sample_material_codec ''tray'' of Ok p \<Rightarrow> p | Err _ \<Rightarrow> undefined) =
      PresenceValue (JString ''x'')"
    by code_simp
qed (simp_all add: sample_material_codec_def)

end
