(* ===== verification/Hub_Usage.thy ===== *)
theory Hub_Usage
  imports Hub_Materials Floats
begin

text \<open>
  Filament usage, \<open>crates/pandar-hub/src/repositories/jobs/print_reports/usage.rs\<close> and
  \<open>usage/mapping.rs\<close>: when a print has ended, the slots its AMS mappings name become usage rows, with
  the filament the material snapshot shows in that slot. Two encodings of a route are read, Studio's flat
  mapping (one number per slot) and the structured one (unit and tray).

  The unique key of the table is tenant, job, slot and source. The source inserts each row and goes on
  when the insert meets that key. On SQLite the transaction stays usable; PostgreSQL aborts the
  transaction at the first failed statement, and every later statement of it is refused. The model
  keeps that difference: \<open>transaction\<close> carries whether it has been aborted.

  Parameters: the JSON readers (record \<open>usage_codec\<close>) and the decimal text of an \<open>f64\<close>.
\<close>

section \<open>Scalars of the snapshot\<close>

datatype scalar_field = ScalarString string | ScalarI64 i64 | ScalarU64 u64 | ScalarF64 f64

record material_tray =
  mt_tray_id :: "scalar_field option"
  mt_global_tray_id :: "scalar_field option"
  mt_filament_id :: "scalar_field option"
  mt_setting_id :: "scalar_field option"
  mt_filament_type :: "scalar_field option"
  mt_color :: "scalar_field option"

record material_unit =
  mu_unit_id :: "scalar_field option"
  mu_trays :: "material_tray list"

record external_spool =
  es_external_id :: "scalar_field option"
  es_tray_id :: "scalar_field option"
  es_filament_id :: "scalar_field option"
  es_setting_id :: "scalar_field option"
  es_filament_type :: "scalar_field option"
  es_color :: "scalar_field option"

record usage_codec =
  uc_f64_text :: "f64 \<Rightarrow> string"
  uc_read_units :: "string \<Rightarrow> material_unit list option"
  uc_read_spools :: "string \<Rightarrow> external_spool list option"
  uc_read_mapping :: "string \<Rightarrow> i32 list option"
  uc_read_mapping2 :: "string \<Rightarrow> (i32 \<times> i32) list option"

text \<open>Signed decimals as \<open>to_string\<close> writes and \<open>str::parse\<close> reads them.\<close>

definition signed_decimal :: "int \<Rightarrow> string" where
  "signed_decimal v = (if v < 0 then CHR ''-'' # decimal (nat (- v)) else decimal (nat v))"

definition parse_i64 :: "string \<Rightarrow> i64 option" where
  "parse_i64 s =
     (case s of
        c # cs \<Rightarrow>
          if c = CHR ''-''
          then if cs = [] then None
               else Option.bind (digits_val 10 0 cs) (\<lambda>n. if n \<le> 2 ^ 63 then Some (- int n) else None)
          else map_option int (from_str_radix 10 (2 ^ 63) s)
      | [] \<Rightarrow> None)"

definition ScalarField_string :: "usage_codec \<Rightarrow> scalar_field \<Rightarrow> string option" where
  "ScalarField_string codec f =
     (case f of
        ScalarString s \<Rightarrow> Some s
      | ScalarI64 v \<Rightarrow> Some (signed_decimal v)
      | ScalarU64 v \<Rightarrow> Some (decimal (unat v))
      | ScalarF64 v \<Rightarrow> if is_finite v then Some (uc_f64_text codec v) else None)"

text \<open>\<open>i64::MAX as f64\<close> is 2^63, and the cast of that value saturates.\<close>

definition ScalarField_i64 :: "scalar_field \<Rightarrow> i64 option" where
  "ScalarField_i64 f =
     (case f of
        ScalarString s \<Rightarrow> parse_i64 s
      | ScalarI64 v \<Rightarrow> Some v
      | ScalarU64 v \<Rightarrow> if uint v < 2 ^ 63 then Some (uint v) else None
      | ScalarF64 (Finite r) \<Rightarrow>
          if r = of_int \<lfloor>r\<rfloor> \<and> - (2 ^ 63) \<le> r \<and> r \<le> 2 ^ 63 then Some (min \<lfloor>r\<rfloor> (2 ^ 63 - 1)) else None
      | ScalarF64 _ \<Rightarrow> None)"

abbreviation text_of :: "usage_codec \<Rightarrow> scalar_field option \<Rightarrow> string option" where
  "text_of codec m \<equiv> Option.bind m (ScalarField_string codec)"

abbreviation number_of :: "scalar_field option \<Rightarrow> i64 option" where
  "number_of m \<equiv> Option.bind m ScalarField_i64"

section \<open>Routes\<close>

record slot_identity =
  si_slot_index :: nat
  si_source :: string
  si_ams_id :: "string option"
  si_tray_id :: "string option"
  si_global_tray_id :: "i32 option"
  si_external_id :: "string option"

text \<open>\<open>Iterator::find_map\<close>.\<close>

fun find_map :: "('a \<Rightarrow> 'b option) \<Rightarrow> 'a list \<Rightarrow> 'b option" where
  "find_map f [] = None"
| "find_map f (x # xs) = (case f x of Some y \<Rightarrow> Some y | None \<Rightarrow> find_map f xs)"

definition identity_for_global_tray ::
  "usage_codec \<Rightarrow> nat \<Rightarrow> i32 \<Rightarrow> material_unit list \<Rightarrow> slot_identity option" where
  "identity_for_global_tray codec slot g units =
     find_map (\<lambda>u. Option.bind (text_of codec (mu_unit_id u)) (\<lambda>ams.
       find_map (\<lambda>t. if number_of (mt_global_tray_id t) = Some g
         then Some \<lparr>si_slot_index = slot, si_source = ''ams_mapping'', si_ams_id = Some ams,
                si_tray_id = text_of codec (mt_tray_id t), si_global_tray_id = Some g, si_external_id = None\<rparr>
         else None) (mu_trays u))) units"

definition identity_from_mapping ::
  "usage_codec \<Rightarrow> nat \<Rightarrow> i32 \<Rightarrow> material_unit list \<Rightarrow> slot_identity option" where
  "identity_from_mapping codec slot v units =
     (let identity = \<lparr>si_slot_index = slot, si_source = ''ams_mapping'', si_ams_id = None, si_tray_id = None,
            si_global_tray_id = None, si_external_id = None\<rparr>
      in if v = -1 \<or> v = 255 then None
         else if 0 \<le> v \<and> v \<le> 15
         then Some (identity\<lparr>si_ams_id := Some (signed_decimal (v div 4)), si_tray_id := Some (signed_decimal (v mod 4)),
                si_global_tray_id := Some v\<rparr>)
         else if 24 \<le> v \<and> v \<le> 27 then identity_for_global_tray codec slot v units
         else if 128 \<le> v \<and> v \<le> 135
         then Some (identity\<lparr>si_ams_id := Some (signed_decimal v), si_tray_id := Some ''0''\<rparr>)
         else if v = 254
         then Some (identity\<lparr>si_tray_id := Some ''0'', si_external_id := Some ''254''\<rparr>)
         else None)"

definition mixed_global_tray_from_flat_mapping :: "i32 option \<Rightarrow> i32 option" where
  "mixed_global_tray_from_flat_mapping m =
     (case m of Some v \<Rightarrow> if 24 \<le> v \<and> v \<le> 27 then Some v else None | None \<Rightarrow> None)"

definition try_i32 :: "int \<Rightarrow> i32 option" where
  "try_i32 v = (if - (2 ^ 31) \<le> v \<and> v < 2 ^ 31 then Some v else None)"

definition global_tray_for_route :: "usage_codec \<Rightarrow> material_unit list \<Rightarrow> i32 \<Rightarrow> i32 \<Rightarrow> i32 option" where
  "global_tray_for_route codec units ams tray =
     Option.bind (find (\<lambda>u. text_of codec (mu_unit_id u) = Some (signed_decimal ams)) units) (\<lambda>u.
     Option.bind (find (\<lambda>t. text_of codec (mt_tray_id t) = Some (signed_decimal tray)) (mu_trays u)) (\<lambda>t.
     Option.bind (number_of (mt_global_tray_id t)) try_i32))"

definition identity_from_mapping2 ::
  "usage_codec \<Rightarrow> nat \<Rightarrow> i32 \<times> i32 \<Rightarrow> i32 option \<Rightarrow> material_unit list \<Rightarrow> slot_identity option" where
  "identity_from_mapping2 codec slot entry flat units =
     (let (ams, tray) = entry;
          identity = \<lparr>si_slot_index = slot, si_source = ''ams_mapping2'', si_ams_id = None,
            si_tray_id = Some (signed_decimal tray), si_global_tray_id = None, si_external_id = None\<rparr>
      in if tray = 255 then None
         else if ams = 254 \<or> ams = 255 then Some (identity\<lparr>si_external_id := Some ''254''\<rparr>)
         else if \<not> (0 \<le> tray \<and> tray \<le> 3) then None
         else if 0 \<le> ams \<and> ams \<le> 63
         then Some (identity\<lparr>si_ams_id := Some (signed_decimal ams),
                si_global_tray_id := or_else (mixed_global_tray_from_flat_mapping flat)
                  (or_else (global_tray_for_route codec units ams tray)
                    (Option.bind (try_i32 (ams * 4)) (\<lambda>g. try_i32 (g + tray))))\<rparr>)
         else if 128 \<le> ams \<and> ams \<le> 135 then Some (identity\<lparr>si_ams_id := Some (signed_decimal ams)\<rparr>)
         else None)"

definition get :: "'a list \<Rightarrow> nat \<Rightarrow> 'a option" where
  "get xs i = (if i < length xs then Some (xs ! i) else None)"

definition slot_route ::
  "usage_codec \<Rightarrow> i32 list \<Rightarrow> (i32 \<times> i32) list \<Rightarrow> material_unit list \<Rightarrow> nat \<Rightarrow> slot_identity option" where
  "slot_route codec mapping mapping2 units i =
     (case get mapping2 i of
        Some entry \<Rightarrow> identity_from_mapping2 codec i entry (get mapping i) units
      | None \<Rightarrow> Option.bind (get mapping i) (\<lambda>v. identity_from_mapping codec i v units))"

definition mapping_identities ::
  "usage_codec \<Rightarrow> job_row \<Rightarrow> material_unit list \<Rightarrow> slot_identity list repository_result" where
  "mapping_identities codec job units =
     and_then (case jr_ams_mapping_json job of
         Some text \<Rightarrow> ok_or (uc_read_mapping codec text) (Database (Message ''failed to parse persisted ams_mapping_json''))
       | None \<Rightarrow> Ok []) (\<lambda>mapping.
     and_then (case jr_ams_mapping2_json job of
         Some text \<Rightarrow> ok_or (uc_read_mapping2 codec text) (Database (Message ''failed to parse persisted ams_mapping2_json''))
       | None \<Rightarrow> Ok []) (\<lambda>mapping2.
     Ok (List.map_filter (slot_route codec mapping mapping2 units)
           [0..<max (length mapping) (length mapping2)])))"

section \<open>The filament of a slot\<close>

record filament_identity =
  fi_filament_id :: "string option"
  fi_setting_id :: "string option"
  fi_filament_type :: "string option"
  fi_color :: "string option"

definition default_filament :: filament_identity where
  "default_filament = \<lparr>fi_filament_id = None, fi_setting_id = None, fi_filament_type = None, fi_color = None\<rparr>"

definition FilamentIdentity_from_tray :: "usage_codec \<Rightarrow> material_tray \<Rightarrow> filament_identity" where
  "FilamentIdentity_from_tray codec t =
     \<lparr>fi_filament_id = text_of codec (mt_filament_id t), fi_setting_id = text_of codec (mt_setting_id t),
      fi_filament_type = text_of codec (mt_filament_type t), fi_color = text_of codec (mt_color t)\<rparr>"

definition FilamentIdentity_from_spool :: "usage_codec \<Rightarrow> external_spool \<Rightarrow> filament_identity" where
  "FilamentIdentity_from_spool codec s =
     \<lparr>fi_filament_id = text_of codec (es_filament_id s), fi_setting_id = text_of codec (es_setting_id s),
      fi_filament_type = text_of codec (es_filament_type s), fi_color = text_of codec (es_color s)\<rparr>"

definition tray_is_route :: "usage_codec \<Rightarrow> slot_identity \<Rightarrow> material_tray \<Rightarrow> bool" where
  "tray_is_route codec identity t \<longleftrightarrow>
     text_of codec (mt_tray_id t) = si_tray_id identity \<or>
     (case (number_of (mt_global_tray_id t), si_global_tray_id identity) of
        (Some l, Some r) \<Rightarrow> l = r | _ \<Rightarrow> False)"

definition filament_for_identity ::
  "usage_codec \<Rightarrow> material_row \<Rightarrow> slot_identity \<Rightarrow> filament_identity option repository_result" where
  "filament_for_identity codec snapshot identity =
     and_then (ok_or (uc_read_units codec (msr_ams_json snapshot))
       (Database (Message ''failed to parse material AMS snapshot for job usage derivation''))) (\<lambda>units.
     and_then (ok_or (uc_read_spools codec (msr_external_spools_json snapshot))
       (Database (Message ''failed to parse material external spool snapshot for job usage derivation''))) (\<lambda>spools.
     Ok (if si_external_id identity \<noteq> None
         then map_option (FilamentIdentity_from_spool codec)
                (find (\<lambda>s. text_of codec (es_external_id s) = si_external_id identity \<and>
                           text_of codec (es_tray_id s) = si_tray_id identity) spools)
         else map_option (FilamentIdentity_from_tray codec)
                (Option.bind (find (\<lambda>u. text_of codec (mu_unit_id u) = si_ams_id identity) units)
                   (\<lambda>u. find (tray_is_route codec identity) (mu_trays u))))))"

section \<open>Usage rows\<close>

record usage_transaction =
  tx_aborted :: bool
  tx_usages :: "usage_row list"

definition usage_model ::
  "timestamp \<Rightarrow> string \<Rightarrow> job_row \<Rightarrow> slot_identity \<Rightarrow> filament_identity \<Rightarrow> usage_row" where
  "usage_model now fresh job identity filament =
     \<lparr>ur_id = fresh, ur_tenant_id = jr_tenant_id job, ur_job_id = jr_id job,
      ur_slot_index = int (si_slot_index identity), ur_source = si_source identity,
      ur_ams_id = si_ams_id identity, ur_tray_id = si_tray_id identity,
      ur_global_tray_id = si_global_tray_id identity, ur_external_id = si_external_id identity,
      ur_filament_id = fi_filament_id filament, ur_setting_id = fi_setting_id filament,
      ur_filament_type = fi_filament_type filament, ur_color = fi_color filament,
      ur_used_mm = None, ur_used_grams = None, ur_confidence = ''mapped_no_quantity'', ur_created_at = now\<rparr>"

definition usage_key :: "usage_row \<Rightarrow> string \<times> string \<times> i32 \<times> string" where
  "usage_key r = (ur_tenant_id r, ur_job_id r, ur_slot_index r, ur_source r)"

definition insert_usage ::
  "db_backend \<Rightarrow> usage_row \<Rightarrow> usage_transaction \<Rightarrow> usage_transaction repository_result" where
  "insert_usage backend model tx =
     (if tx_aborted tx then Err (Database (Message ''failed to insert job filament usage''))
      else if usage_key model \<in> set (map usage_key (tx_usages tx))
      then Ok (tx\<lparr>tx_aborted := (backend = Postgres)\<rparr>)
      else Ok (tx\<lparr>tx_usages := tx_usages tx @ [model]\<rparr>))"

fun insert_usages ::
  "db_backend \<Rightarrow> usage_codec \<Rightarrow> timestamp \<Rightarrow> (nat \<Rightarrow> string) \<Rightarrow> material_row option \<Rightarrow> job_row \<Rightarrow> slot_identity list \<Rightarrow>
     usage_transaction \<Rightarrow> usage_transaction repository_result" where
  "insert_usages backend codec now fresh snapshot job [] tx = Ok tx"
| "insert_usages backend codec now fresh snapshot job (identity # identities) tx =
     and_then (case snapshot of
         Some m \<Rightarrow> and_then (filament_for_identity codec m identity) (\<lambda>f. Ok (unwrap_or f default_filament))
       | None \<Rightarrow> Ok default_filament) (\<lambda>filament.
     and_then (insert_usage backend (usage_model now (fresh (si_slot_index identity)) job identity filament) tx) (\<lambda>tx1.
       insert_usages backend codec now fresh snapshot job identities tx1))"

definition derive_terminal_usage ::
  "db_backend \<Rightarrow> usage_codec \<Rightarrow> timestamp \<Rightarrow> (nat \<Rightarrow> string) \<Rightarrow> material_row list \<Rightarrow> job_row \<Rightarrow>
     usage_transaction \<Rightarrow> usage_transaction repository_result" where
  "derive_terminal_usage backend codec now fresh materials job tx =
     (let snapshot = find (\<lambda>m. msr_tenant_id m = jr_tenant_id job \<and> msr_printer_id m = jr_printer_id job) materials in
      and_then (case snapshot of
          Some m \<Rightarrow> ok_or (uc_read_units codec (msr_ams_json m))
            (Database (Message ''failed to parse material AMS snapshot for job usage routing''))
        | None \<Rightarrow> Ok []) (\<lambda>units.
      and_then (mapping_identities codec job units) (\<lambda>identities.
        insert_usages backend codec now fresh snapshot job identities tx)))"

section \<open>Properties\<close>

subsection \<open>Routes\<close>

lemma find_map_Some: "find_map f xs = Some y \<Longrightarrow> \<exists>x \<in> set xs. f x = Some y"
  by (induction xs) (auto split: option.splits)

lemma identity_from_mapping_slot: "identity_from_mapping codec i v units = Some s \<Longrightarrow> si_slot_index s = i"
  by (auto simp: identity_from_mapping_def identity_for_global_tray_def Let_def bind_eq_Some_conv
      split: if_splits dest!: find_map_Some)

lemma slot_route_slot: "slot_route codec mapping mapping2 units i = Some s \<Longrightarrow> si_slot_index s = i"
  by (auto simp: slot_route_def identity_from_mapping2_def Let_def bind_eq_Some_conv
      split: if_splits option.splits prod.splits dest: identity_from_mapping_slot)

lemma mapping_identities_distinct:
  "mapping_identities codec job units = Ok ids \<Longrightarrow> distinct (map si_slot_index ids)"
proof -
  have "map si_slot_index (List.map_filter (slot_route codec m m2 units) is) =
      filter (\<lambda>i. slot_route codec m m2 units i \<noteq> None) is" for m m2 "is"
    by (induction "is") (auto simp: map_filter_simps slot_route_slot split: option.split)
  then show "mapping_identities codec job units = Ok ids \<Longrightarrow> distinct (map si_slot_index ids)"
    by (auto simp: mapping_identities_def result_simps)
qed

text \<open>
  The two encodings of a route agree on the four standard AMS units: a slot of
  the flat mapping names the same unit, tray and global tray as the structured entry for that unit and
  tray, unless the snapshot shows another global number for the route.
\<close>

lemma mapping_encodings_agree:
  assumes "0 \<le> v" and "v \<le> 15"
    and "global_tray_for_route codec units (v div 4) (v mod 4) \<in> {None, Some v}"
  shows "identity_from_mapping2 codec slot (v div 4, v mod 4) (Some v) units =
     map_option (\<lambda>s. s\<lparr>si_source := ''ams_mapping2''\<rparr>) (identity_from_mapping codec slot v units)"
proof -
  have "0 \<le> v mod 4" "v mod 4 \<le> 3" "v mod 4 \<noteq> 255" "0 \<le> v div 4" "v div 4 \<le> 3" "v div 4 * 4 + v mod 4 = v"
    using assms(1,2) by (auto simp: div_mult_mod_eq)
  then have r: "try_i32 (v div 4 * 4) = Some (v div 4 * 4)" "try_i32 (v div 4 * 4 + v mod 4) = Some v"
    using assms(1,2) by (auto simp: try_i32_def)
  have "mixed_global_tray_from_flat_mapping (Some v) = None"
    using assms(2) by (simp add: mixed_global_tray_from_flat_mapping_def)
  then have "or_else (mixed_global_tray_from_flat_mapping (Some v))
      (or_else (global_tray_for_route codec units (v div 4) (v mod 4))
        (Option.bind (try_i32 (v div 4 * 4)) (\<lambda>g. try_i32 (g + v mod 4)))) = Some v"
    using assms(3) r by (auto simp: or_else_def)
  moreover have "v div 4 \<noteq> 254" "v div 4 \<noteq> 255" "v \<noteq> 255" "v \<noteq> -1" "v div 4 \<le> 63"
    using assms(1,2) by auto
  ultimately show ?thesis
    using assms(1,2) \<open>0 \<le> v mod 4\<close> \<open>v mod 4 \<le> 3\<close> \<open>v mod 4 \<noteq> 255\<close> \<open>0 \<le> v div 4\<close>
    by (simp add: identity_from_mapping2_def identity_from_mapping_def Let_def)
qed

subsection \<open>Usage rows\<close>

abbreviation identity_key :: "job_row \<Rightarrow> slot_identity \<Rightarrow> string \<times> string \<times> i32 \<times> string" where
  "identity_key job s \<equiv> (jr_tenant_id job, jr_id job, int (si_slot_index s), si_source s)"

lemma usage_model_key [simp]: "usage_key (usage_model now fresh job s f) = identity_key job s"
  by (simp add: usage_key_def usage_model_def)

lemma insert_usages_effect:
  assumes "insert_usages backend codec now fresh snapshot job ids tx = Ok tx'"
  shows "(\<exists>new. tx_usages tx' = tx_usages tx @ new \<and> (\<forall>r \<in> set new. ur_tenant_id r = jr_tenant_id job \<and> ur_job_id r = jr_id job)) \<and>
     (distinct (map usage_key (tx_usages tx)) \<longrightarrow> distinct (map usage_key (tx_usages tx'))) \<and>
     identity_key job ` set ids \<subseteq> usage_key ` set (tx_usages tx') \<and>
     (backend = Sqlite \<longrightarrow> \<not> tx_aborted tx \<longrightarrow> \<not> tx_aborted tx')"
  using assms
proof (induction ids arbitrary: tx)
  case (Cons s ids)
  from Cons.prems obtain f tx1 where
    1: "insert_usage backend (usage_model now (fresh (si_slot_index s)) job s f) tx = Ok tx1" and
    2: "insert_usages backend codec now fresh snapshot job ids tx1 = Ok tx'"
    by (auto simp: and_then_eq_Ok)
  from 1 have "(\<exists>new. tx_usages tx1 = tx_usages tx @ new \<and> (\<forall>r \<in> set new. ur_tenant_id r = jr_tenant_id job \<and> ur_job_id r = jr_id job))"
    "distinct (map usage_key (tx_usages tx)) \<longrightarrow> distinct (map usage_key (tx_usages tx1))"
    "identity_key job s \<in> usage_key ` set (tx_usages tx1)" "backend = Sqlite \<longrightarrow> \<not> tx_aborted tx \<longrightarrow> \<not> tx_aborted tx1"
    by (auto simp: insert_usage_def usage_model_def usage_key_def image_iff split: if_splits)
  with Cons.IH [OF 2] show ?case by auto
qed simp

lemma unaborted [simp]: "\<not> tx_aborted tx \<Longrightarrow> tx\<lparr>tx_aborted := False\<rparr> = tx"
  by simp

lemma insert_usages_known:
  assumes "insert_usages backend codec now fresh snapshot job ids tx0 = Ok tx1"
    and "identity_key job ` set ids \<subseteq> usage_key ` set (tx_usages tx)" and "\<not> tx_aborted tx"
  shows "insert_usages Sqlite codec now' fresh' snapshot job ids tx = Ok tx"
    and "ids \<noteq> [] \<Longrightarrow> insert_usages Postgres codec now' fresh' snapshot job ids tx = Ok tx' \<Longrightarrow> tx_aborted tx'"
proof -
  show "insert_usages Sqlite codec now' fresh' snapshot job ids tx = Ok tx"
    using assms
  proof (induction ids arbitrary: tx0)
    case (Cons s ids)
    then show ?case by (auto simp: and_then_eq_Ok insert_usage_def)
  qed simp
  assume "ids \<noteq> []" "insert_usages Postgres codec now' fresh' snapshot job ids tx = Ok tx'"
  then show "tx_aborted tx'"
    using assms(2,3)
    by (cases ids; cases "tl ids") (auto simp: and_then_eq_Ok insert_usage_def)
qed

lemma insert_usages_fresh:
  assumes "insert_usages backend codec now fresh snapshot job ids tx = Ok tx'" and "\<not> tx_aborted tx"
    and "distinct (map si_slot_index ids)" and "\<forall>r \<in> set (tx_usages tx). (ur_tenant_id r, ur_job_id r) = (jr_tenant_id job, jr_id job) \<longrightarrow>
       ur_slot_index r \<notin> int ` si_slot_index ` set ids"
  shows "\<not> tx_aborted tx'"
  using assms
proof (induction ids arbitrary: tx)
  case (Cons s ids)
  from Cons.prems(1) obtain f tx1 where
    1: "insert_usage backend (usage_model now (fresh (si_slot_index s)) job s f) tx = Ok tx1" and
    2: "insert_usages backend codec now fresh snapshot job ids tx1 = Ok tx'"
    by (auto simp: and_then_eq_Ok)
  have "identity_key job s \<notin> usage_key ` set (tx_usages tx)"
    using Cons.prems(4) by (force simp: usage_key_def)
  with 1 Cons.prems(2) have tx1: "tx1 = tx\<lparr>tx_usages := tx_usages tx @ [usage_model now (fresh (si_slot_index s)) job s f]\<rparr>"
    by (simp add: insert_usage_def)
  have "int (si_slot_index s) \<notin> int ` si_slot_index ` set ids" using Cons.prems(3) by auto
  then show ?case
    using Cons.IH [OF 2] Cons.prems(2,3,4) tx1 by (auto simp: usage_model_def)
qed simp

lemma derive_terminal_usage_inserts:
  assumes "derive_terminal_usage backend codec now fresh materials job tx = Ok tx'"
  shows "\<exists>ids snapshot. distinct (map si_slot_index ids) \<and>
    insert_usages backend codec now fresh snapshot job ids tx = Ok tx' \<and>
    (\<forall>backend now fresh tx. derive_terminal_usage backend codec now fresh materials job tx =
       insert_usages backend codec now fresh snapshot job ids tx)"
proof -
  let ?snapshot = "find (\<lambda>m. msr_tenant_id m = jr_tenant_id job \<and> msr_printer_id m = jr_printer_id job) materials"
  from assms obtain units ids where u: "(case ?snapshot of
          Some m \<Rightarrow> ok_or (uc_read_units codec (msr_ams_json m))
            (Database (Message ''failed to parse material AMS snapshot for job usage routing''))
        | None \<Rightarrow> Ok []) = Ok units" and m: "mapping_identities codec job units = Ok ids"
    by (auto simp: derive_terminal_usage_def Let_def and_then_eq_Ok)
  then have "derive_terminal_usage backend codec now fresh materials job tx =
      insert_usages backend codec now fresh ?snapshot job ids tx" for backend now fresh tx
    by (simp add: derive_terminal_usage_def)
  with assms mapping_identities_distinct [OF m] show ?thesis by metis
qed

text \<open>
  On SQLite a job's filament usage is recorded once. Deriving it keeps all earlier rows, adds
  only rows of this job, one per slot and source, and deriving it again, at any later time,
  changes nothing.
\<close>

lemma usage_recorded_once:
  assumes "derive_terminal_usage Sqlite codec now fresh materials job tx = Ok tx'"
    and "distinct (map usage_key (tx_usages tx))" and "\<not> tx_aborted tx"
  shows "(\<exists>new. tx_usages tx' = tx_usages tx @ new \<and>
       (\<forall>r \<in> set new. ur_tenant_id r = jr_tenant_id job \<and> ur_job_id r = jr_id job)) \<and>
     distinct (map usage_key (tx_usages tx')) \<and> \<not> tx_aborted tx' \<and>
     derive_terminal_usage Sqlite codec now' fresh' materials job tx' = Ok tx'"
proof -
  from derive_terminal_usage_inserts [OF assms(1)] obtain ids snapshot where
    i: "insert_usages Sqlite codec now fresh snapshot job ids tx = Ok tx'" and
    d: "\<And>backend now fresh tx. derive_terminal_usage backend codec now fresh materials job tx =
       insert_usages backend codec now fresh snapshot job ids tx"
    by blast
  note e = insert_usages_effect [OF i]
  with assms(3) have "\<not> tx_aborted tx'" by simp
  moreover have "derive_terminal_usage Sqlite codec now' fresh' materials job tx' = Ok tx'"
    unfolding d using insert_usages_known(1) [OF i] e \<open>\<not> tx_aborted tx'\<close> by blast
  ultimately show ?thesis using e assms(2) by blast
qed

text \<open>
  C25: on PostgreSQL the second derivation of a job that used at least one slot cannot succeed: it
  leaves the transaction aborted, or fails, because the insert meets the unique key.
\<close>

theorem repeated_usage_aborts_postgres:
  assumes "derive_terminal_usage backend codec now fresh materials job tx = Ok tx'"
    and "tx_usages tx' \<noteq> tx_usages tx"
    and "derive_terminal_usage Postgres codec now' fresh' materials job (tx'\<lparr>tx_aborted := False\<rparr>) = Ok tx''"
  shows "tx_aborted tx''"
proof -
  from derive_terminal_usage_inserts [OF assms(1)] obtain ids snapshot where
    i: "insert_usages backend codec now fresh snapshot job ids tx = Ok tx'" and
    d: "\<And>backend now fresh tx. derive_terminal_usage backend codec now fresh materials job tx =
       insert_usages backend codec now fresh snapshot job ids tx"
    by blast
  have "ids \<noteq> []" using i assms(2) by auto
  then show ?thesis
    using insert_usages_known(2) [OF i, of "tx'\<lparr>tx_aborted := False\<rparr>"] insert_usages_effect [OF i] assms(3)
    unfolding d by simp
qed

section \<open>A sample job\<close>

definition sample_usage_codec :: usage_codec where
  "sample_usage_codec =
     \<lparr>uc_f64_text = (\<lambda>_. ''0''), uc_read_units = (\<lambda>_. Some []), uc_read_spools = (\<lambda>_. Some []),
      uc_read_mapping = (\<lambda>_. Some [0, 255, 6]), uc_read_mapping2 = (\<lambda>_. None)\<rparr>"

definition sample_mapped_job :: job_row where
  "sample_mapped_job =
     \<lparr>jr_id = ''j1'', jr_tenant_id = ''t1'', jr_printer_id = ''p1'', jr_agent_id = ''a1'', jr_artifact_id = ''f1'',
      jr_command_id = ''c1'', jr_studio_submission_id = 1, jr_plate_index = 1, jr_studio_metadata_json = None,
      jr_status = ''succeeded'', jr_error = None, jr_created_at = ''t0'', jr_updated_at = ''t0'',
      jr_print_status = ''running'', jr_printer_state = None, jr_progress_percent = None,
      jr_remaining_time_minutes = None, jr_current_layer = None, jr_total_layers = None, jr_active_file = None,
      jr_last_progress_percent = None, jr_last_layer = None, jr_print_error = None, jr_print_started_at = None,
      jr_print_finished_at = None, jr_print_updated_at = None, jr_ams_mapping_json = Some ''[0,255,6]'',
      jr_ams_mapping2_json = None, jr_ams_mapping_info_json = None, jr_uploaded_url = None\<rparr>"

definition sample_derived :: "usage_transaction \<Rightarrow> usage_transaction repository_result" where
  "sample_derived = derive_terminal_usage Sqlite sample_usage_codec ''now'' (\<lambda>i. ''u'' @ decimal i) [] sample_mapped_job"

definition empty_transaction :: usage_transaction where
  "empty_transaction = \<lparr>tx_aborted = False, tx_usages = []\<rparr>"

lemma sample_derived_ok:
  "(case sample_derived empty_transaction of Ok tx \<Rightarrow> map ur_slot_index (tx_usages tx) = [0, 2] | Err _ \<Rightarrow> False)"
  by code_simp

lemma sample_derived_eq: "\<exists>tx. sample_derived empty_transaction = Ok tx \<and> map ur_slot_index (tx_usages tx) = [0, 2]"
  using sample_derived_ok by (auto split: result.splits)

lemma mapping_encodings_agree_witness:
  "identity_from_mapping2 sample_usage_codec 3 (6 div 4, 6 mod 4) (Some 6) [] =
     map_option (\<lambda>s. s\<lparr>si_source := ''ams_mapping2''\<rparr>) (identity_from_mapping sample_usage_codec 3 6 [])"
proof -
  have "global_tray_for_route sample_usage_codec [] (6 div 4) (6 mod 4) \<in> {None, Some 6}"
    by (simp add: global_tray_for_route_def)
  from mapping_encodings_agree [OF _ _ this] show ?thesis by simp
qed

lemma usage_recorded_once_witness:
  "\<exists>tx. sample_derived empty_transaction = Ok tx \<and> map ur_slot_index (tx_usages tx) = [0, 2] \<and> sample_derived tx = Ok tx"
proof -
  obtain tx where tx: "sample_derived empty_transaction = Ok tx" "map ur_slot_index (tx_usages tx) = [0, 2]"
    using sample_derived_eq by (elim exE conjE)
  have "distinct (map usage_key (tx_usages empty_transaction))" "\<not> tx_aborted empty_transaction"
    by (simp_all add: empty_transaction_def)
  from usage_recorded_once [OF tx(1) [unfolded sample_derived_def] this]
  have "sample_derived tx = Ok tx" unfolding sample_derived_def by blast
  with tx show ?thesis by (intro exI conjI)
qed

definition sample_one_slot :: "db_backend \<Rightarrow> usage_transaction \<Rightarrow> usage_transaction repository_result" where
  "sample_one_slot backend =
     derive_terminal_usage backend (sample_usage_codec\<lparr>uc_read_mapping := (\<lambda>_. Some [0])\<rparr>) ''now'' (\<lambda>i. ''u1'') [] sample_mapped_job"

definition sample_once :: usage_transaction where
  "sample_once = (case sample_one_slot Postgres empty_transaction of Ok tx \<Rightarrow> tx | Err _ \<Rightarrow> empty_transaction)"

lemma sample_once_ok:
  "is_ok (sample_one_slot Postgres empty_transaction)" "\<not> tx_aborted sample_once" "length (tx_usages sample_once) = 1"
  "is_ok (sample_one_slot Postgres sample_once)"
  by code_simp+

theorem repeated_usage_aborts_postgres_witness:
  "\<exists>tx. sample_one_slot Postgres sample_once = Ok tx \<and> tx_aborted tx"
proof -
  have first: "sample_one_slot Postgres empty_transaction = Ok sample_once"
    using sample_once_ok(1) by (auto simp: sample_once_def is_ok_iff)
  obtain tx where tx: "sample_one_slot Postgres sample_once = Ok tx" using sample_once_ok(4) by (auto simp: is_ok_iff)
  have "tx_usages sample_once \<noteq> tx_usages empty_transaction" using sample_once_ok(3) by (auto simp: empty_transaction_def)
  moreover have "sample_once\<lparr>tx_aborted := False\<rparr> = sample_once" using sample_once_ok(2) by simp
  ultimately show ?thesis
    using repeated_usage_aborts_postgres [OF first [unfolded sample_one_slot_def]] tx unfolding sample_one_slot_def by metis
qed

end
