(* ===== verification/Hub_Live_Status.thy ===== *)
theory Hub_Live_Status
  imports Hub_Store
begin

text \<open>
  The live status of a printer, \<open>crates/pandar-hub/src/repositories/printers/live_status.rs\<close> with
  \<open>live_status/merge.rs\<close> and \<open>live_status/persistence.rs\<close>: what the hub knows of the task a
  printer runs, merged from partial reports. A task generation counts the tasks seen and an
  error generation the error occurrences; an error marker (generation, session and time)
  says for which task and session the stored recovery identity (printer job id, job attributes)
  is good. The properties: generations move by single steps, a new task or an idle printer
  leaves nothing of the old task behind, the marker is well formed, a stale marker's recovery
  identity is never kept, and a report delivered twice changes nothing the second time.

  The live columns of the \<open>printers\<close> table are a record of their own. Generations are 64-bit
  words (\<open>+\<close> wraps as in a release build); JSON reading and writing of the HMS list are parameters.
\<close>

section \<open>State\<close>

record printer_hms =
  hms_attr :: u32
  hms_code :: u32

record printer_live_status =
  pls_task_generation :: u64
  pls_error_generation :: u64
  pls_job_attr :: "u32 option"
  pls_error_task_generation :: "u64 option"
  pls_error_session_id :: "string option"
  pls_error_received_at :: "string option"
  pls_gcode_state :: "string option"
  pls_task_id :: "string option"
  pls_subtask_id :: "string option"
  pls_progress_percent :: "u8 option"
  pls_speed_level :: "u8 option"
  pls_remaining_time_minutes :: "u32 option"
  pls_current_layer :: "u32 option"
  pls_total_layers :: "u32 option"
  pls_gcode_file :: "string option"
  pls_subtask_name :: "string option"
  pls_print_error :: "u32 option"
  pls_printer_job_id :: "string option"
  pls_hms :: "printer_hms list"

record printer_live_status_patch =
  plp_task_id :: "string option"
  plp_subtask_id :: "string option"
  plp_progress_percent :: "u8 option"
  plp_speed_level :: "u8 option"
  plp_remaining_time_minutes :: "u32 option"
  plp_current_layer :: "u32 option"
  plp_total_layers :: "u32 option"
  plp_gcode_file :: "string option"
  plp_subtask_name :: "string option"
  plp_print_error :: "u32 option"
  plp_printer_job_id :: "string option"
  plp_job_attr :: "u32 option"
  plp_gcode_state :: "string option"
  plp_hms :: "printer_hms list option"
  plp_observed_at :: string

record merged_printer_live_status =
  mls_state :: printer_live_status
  live_status_changed :: bool

section \<open>Merging a report\<close>

datatype native_print_state = NativeLive | NativeTerminal | NativeIdle | NativeUnknown
datatype identity_slot = SlotTask | SlotSubtask | SlotGcodeFile
datatype identity_relation_kind = Continuous | Boundary | Ambiguous

definition IDENTITY_SLOTS :: "identity_slot list" where
  "IDENTITY_SLOTS = [SlotTask, SlotSubtask, SlotGcodeFile]"

definition classify :: "string option \<Rightarrow> native_print_state" where
  "classify m =
     (case m of
        None \<Rightarrow> NativeUnknown
      | Some s \<Rightarrow>
          if s \<in> {''PREPARE'', ''SLICING'', ''RUNNING'', ''PAUSE''} then NativeLive
          else if s \<in> {''FINISH'', ''FAILED''} then NativeTerminal
          else if s = ''IDLE'' then NativeIdle
          else NativeUnknown)"

definition trusted_identity :: "string option \<Rightarrow> identity_slot \<Rightarrow> string option" where
  "trusted_identity m slot =
     (case m of
        None \<Rightarrow> None
      | Some s \<Rightarrow> if trim s \<noteq> [] \<and> (slot = SlotGcodeFile \<or> trim s \<noteq> ''0'') then Some (trim s) else None)"

primrec stored_identity :: "printer_live_status \<Rightarrow> identity_slot \<Rightarrow> string option" where
  "stored_identity s SlotTask = pls_task_id s"
| "stored_identity s SlotSubtask = pls_subtask_id s"
| "stored_identity s SlotGcodeFile = pls_gcode_file s"

primrec incoming_identity :: "printer_live_status_patch \<Rightarrow> identity_slot \<Rightarrow> string option" where
  "incoming_identity p SlotTask = plp_task_id p"
| "incoming_identity p SlotSubtask = plp_subtask_id p"
| "incoming_identity p SlotGcodeFile = plp_gcode_file p"

definition trusted_stored_identity :: "printer_live_status \<Rightarrow> identity_slot \<Rightarrow> string option" where
  "trusted_stored_identity s slot = trusted_identity (stored_identity s slot) slot"

definition trusted_incoming_identity :: "printer_live_status_patch \<Rightarrow> identity_slot \<Rightarrow> string option" where
  "trusted_incoming_identity p slot = trusted_identity (incoming_identity p slot) slot"

text \<open>The four flags of the loop: stored, incoming, common, conflict.\<close>

definition relation_step ::
  "printer_live_status \<Rightarrow> printer_live_status_patch \<Rightarrow> identity_slot \<Rightarrow> bool \<times> bool \<times> bool \<times> bool \<Rightarrow>
     bool \<times> bool \<times> bool \<times> bool" where
  "relation_step stored patch slot = (\<lambda>(has_stored, has_incoming, common, conflict).
     let s = trusted_stored_identity stored slot; i = trusted_incoming_identity patch slot
     in (has_stored \<or> s \<noteq> None, has_incoming \<or> i \<noteq> None,
         common \<or> (s \<noteq> None \<and> i \<noteq> None), conflict \<or> (s \<noteq> None \<and> i \<noteq> None \<and> s \<noteq> i)))"

definition identity_relation :: "printer_live_status \<Rightarrow> printer_live_status_patch \<Rightarrow> identity_relation_kind" where
  "identity_relation stored patch =
     (let (has_stored, has_incoming, common, conflict) =
            fold (relation_step stored patch) IDENTITY_SLOTS (False, False, False, False)
      in if conflict then Boundary
         else if has_stored \<and> has_incoming \<and> \<not> common then Ambiguous
         else Continuous)"

definition has_incoming_trusted_identity :: "printer_live_status_patch \<Rightarrow> bool" where
  "has_incoming_trusted_identity patch \<longleftrightarrow> list_ex (\<lambda>slot. trusted_incoming_identity patch slot \<noteq> None) IDENTITY_SLOTS"

definition clear_error_marker :: "printer_live_status \<Rightarrow> printer_live_status" where
  "clear_error_marker s =
     s\<lparr>pls_error_task_generation := None, pls_error_session_id := None, pls_error_received_at := None\<rparr>"

definition clear_task_state :: "printer_live_status \<Rightarrow> printer_live_status" where
  "clear_task_state s =
     clear_error_marker (s\<lparr>pls_task_id := None, pls_subtask_id := None, pls_progress_percent := None,
       pls_speed_level := None, pls_remaining_time_minutes := None, pls_current_layer := None,
       pls_total_layers := None, pls_gcode_file := None, pls_subtask_name := None,
       pls_print_error := None, pls_printer_job_id := None, pls_job_attr := None\<rparr>)"

definition invalidate_recovery :: "printer_live_status \<Rightarrow> printer_live_status" where
  "invalidate_recovery s = clear_error_marker (s\<lparr>pls_printer_job_id := None, pls_job_attr := None\<rparr>)"

text \<open>\<open>apply_option\<close> and \<open>apply_copy\<close>: a value of the patch replaces the stored one.\<close>

definition apply_option :: "'a option \<Rightarrow> 'a option \<Rightarrow> 'a option" where
  "apply_option target patch = (case patch of Some v \<Rightarrow> Some v | None \<Rightarrow> target)"

definition apply_display_patch :: "printer_live_status_patch \<Rightarrow> printer_live_status \<Rightarrow> printer_live_status" where
  "apply_display_patch p s =
     s\<lparr>pls_task_id := apply_option (pls_task_id s) (plp_task_id p),
       pls_subtask_id := apply_option (pls_subtask_id s) (plp_subtask_id p),
       pls_progress_percent := apply_option (pls_progress_percent s) (plp_progress_percent p),
       pls_speed_level := apply_option (pls_speed_level s) (plp_speed_level p),
       pls_remaining_time_minutes := apply_option (pls_remaining_time_minutes s) (plp_remaining_time_minutes p),
       pls_current_layer := apply_option (pls_current_layer s) (plp_current_layer p),
       pls_total_layers := apply_option (pls_total_layers s) (plp_total_layers p),
       pls_gcode_file := apply_option (pls_gcode_file s) (plp_gcode_file p),
       pls_subtask_name := apply_option (pls_subtask_name s) (plp_subtask_name p),
       pls_gcode_state := apply_option (pls_gcode_state s) (plp_gcode_state p),
       pls_hms := (case plp_hms p of Some h \<Rightarrow> h | None \<Rightarrow> pls_hms s)\<rparr>"

definition error_marker_is_valid :: "printer_live_status \<Rightarrow> session_id \<Rightarrow> bool" where
  "error_marker_is_valid s session \<longleftrightarrow>
     pls_error_task_generation s = Some (pls_task_generation s) \<and>
     pls_error_session_id s = Some session \<and> pls_error_received_at s \<noteq> None"

definition job_changed :: "printer_live_status \<Rightarrow> printer_live_status_patch \<Rightarrow> bool" where
  "job_changed stored patch \<longleftrightarrow>
     (case plp_printer_job_id patch of Some j \<Rightarrow> pls_printer_job_id stored \<noteq> Some j | None \<Rightarrow> False)"

definition merge_error ::
  "printer_live_status \<Rightarrow> printer_live_status_patch \<Rightarrow> session_id \<Rightarrow> string \<Rightarrow> printer_live_status \<Rightarrow>
     printer_live_status" where
  "merge_error stored patch session received_at s =
     (let task_changed = pls_task_generation s \<noteq> pls_task_generation stored
      in case plp_print_error patch of
           Some e \<Rightarrow>
             if e = 0 then clear_error_marker (s\<lparr>pls_print_error := Some 0\<rparr>)
             else
               let marker_valid = error_marker_is_valid s session;
                   occurrence_changed = pls_print_error stored \<noteq> Some e \<or> task_changed \<or>
                     job_changed stored patch \<or> \<not> marker_valid;
                   s1 = (if marker_valid then s else s\<lparr>pls_printer_job_id := None, pls_job_attr := None\<rparr>);
                   s2 = (if occurrence_changed then s1\<lparr>pls_error_generation := pls_error_generation s1 + 1\<rparr> else s1)
               in s2\<lparr>pls_print_error := Some e, pls_error_task_generation := Some (pls_task_generation s2),
                    pls_error_session_id := Some session, pls_error_received_at := Some received_at\<rparr>
         | None \<Rightarrow>
             if (case pls_print_error s of Some e \<Rightarrow> 0 < e | None \<Rightarrow> False) \<and> (task_changed \<or> job_changed stored patch)
             then s\<lparr>pls_error_generation := pls_error_generation s + 1\<rparr> else s)"

definition merge_error_and_recovery ::
  "printer_live_status \<Rightarrow> printer_live_status_patch \<Rightarrow> session_id \<Rightarrow> string \<Rightarrow> printer_live_status \<Rightarrow>
     printer_live_status" where
  "merge_error_and_recovery stored patch session received_at s =
     (let s' = merge_error stored patch session received_at s
      in s'\<lparr>pls_printer_job_id := apply_option (pls_printer_job_id s') (plp_printer_job_id patch),
            pls_job_attr := apply_option (pls_job_attr s') (plp_job_attr patch)\<rparr>)"

definition public_job_state :: "u32 option \<Rightarrow> u32 option" where
  "public_job_state m = map_option (\<lambda>v. drop_bit 4 v AND 0x0f) m"

definition public_state :: "printer_live_status \<Rightarrow> printer_live_status" where
  "public_state s = clear_error_marker (s\<lparr>pls_job_attr := public_job_state (pls_job_attr s)\<rparr>)"

definition merged :: "printer_live_status \<Rightarrow> printer_live_status \<Rightarrow> merged_printer_live_status" where
  "merged stored s = \<lparr>mls_state = s, live_status_changed = (public_state stored \<noteq> public_state s)\<rparr>"

definition task_boundary :: "printer_live_status \<Rightarrow> printer_live_status_patch \<Rightarrow> bool" where
  "task_boundary stored patch \<longleftrightarrow>
     identity_relation stored patch = Boundary \<or>
     (classify (pls_gcode_state stored) \<in> {NativeIdle, NativeTerminal} \<and> classify (plp_gcode_state patch) = NativeLive)"

definition advance_task :: "printer_live_status \<Rightarrow> printer_live_status_patch \<Rightarrow> printer_live_status" where
  "advance_task stored patch =
     (let relation = identity_relation stored patch;
          incoming_state = classify (plp_gcode_state patch);
          has_initial_evidence = has_incoming_trusted_identity patch \<or> incoming_state \<in> {NativeLive, NativeTerminal};
          (s, cleared) =
            (if pls_task_generation stored = 0
             then (if has_initial_evidence then stored\<lparr>pls_task_generation := 1\<rparr> else stored, False)
             else if task_boundary stored patch
             then (clear_task_state (stored\<lparr>pls_task_generation := pls_task_generation stored + 1\<rparr>), True)
             else (stored, False))
      in if \<not> cleared \<and> relation = Ambiguous then invalidate_recovery s else s)"

definition merge_live_report ::
  "printer_live_status \<Rightarrow> printer_live_status_patch \<Rightarrow> session_id \<Rightarrow> string \<Rightarrow> merged_printer_live_status" where
  "merge_live_report stored patch session received_at =
     (if classify (plp_gcode_state patch) = NativeIdle
      then merged stored ((clear_task_state stored)
             \<lparr>pls_gcode_state := Some ''IDLE'', pls_hms := (case plp_hms patch of Some h \<Rightarrow> h | None \<Rightarrow> pls_hms stored)\<rparr>)
      else merged stored (merge_error_and_recovery stored patch session received_at
             (apply_display_patch patch (advance_task stored patch))))"

section \<open>Persistence\<close>

text \<open>The columns of the \<open>printers\<close> table that hold the live status.\<close>

record printer_live_row =
  plr_state_revision :: i64
  plr_last_seen_at :: "string option"
  plr_task_generation :: i64
  plr_error_generation :: i64
  plr_job_attr :: "i64 option"
  plr_error_task_generation :: "i64 option"
  plr_error_session_id :: "string option"
  plr_error_received_at :: "string option"
  plr_gcode_state :: "string option"
  plr_task_id :: "string option"
  plr_subtask_id :: "string option"
  plr_progress_percent :: "i64 option"
  plr_speed_level :: "i32 option"
  plr_remaining_time_minutes :: "i64 option"
  plr_current_layer :: "i64 option"
  plr_total_layers :: "i64 option"
  plr_gcode_file :: "string option"
  plr_subtask_name :: "string option"
  plr_print_error :: "i32 option"
  plr_job_id :: "string option"
  plr_hms_json :: string

text \<open>\<open>uN::try_from\<close> of a signed column, and \<open>iN::try_from\<close> of an unsigned value.\<close>

definition try_unsigned :: "string \<Rightarrow> int \<Rightarrow> 'w :: len word repository_result" where
  "try_unsigned what v =
     (if 0 \<le> v \<and> v < 2 ^ LENGTH('w) then Ok (word_of_int v) else Err (Database (Message what)))"

definition try_signed :: "nat \<Rightarrow> string \<Rightarrow> 'w :: len word \<Rightarrow> int repository_result" where
  "try_signed bits what v = (if uint v < 2 ^ (bits - 1) then Ok (uint v) else Err (Database (Message what)))"

definition live_status_from_model ::
  "(string \<Rightarrow> printer_hms list option) \<Rightarrow> printer_live_row \<Rightarrow> (u64 \<times> printer_live_status) repository_result" where
  "live_status_from_model read_hms m =
     and_then (try_unsigned ''failed to read printer state revision'' (plr_state_revision m)) (\<lambda>revision.
     if revision = 0 then Err (Database (Message ''failed to read printer state revision'')) else
     and_then (try_unsigned ''failed to read printer task generation'' (plr_task_generation m)) (\<lambda>task_generation.
     and_then (try_unsigned ''failed to read printer error generation'' (plr_error_generation m)) (\<lambda>error_generation.
     and_then (traverse_option (try_unsigned ''failed to read printer job attr'') (plr_job_attr m)) (\<lambda>attr.
     and_then (traverse_option (try_unsigned ''failed to read printer error task generation'')
        (plr_error_task_generation m)) (\<lambda>error_task_generation.
     and_then (traverse_option (try_unsigned ''failed to read printer progress percent'') (plr_progress_percent m)) (\<lambda>progress.
     and_then (traverse_option (try_unsigned ''failed to read printer speed level'') (plr_speed_level m)) (\<lambda>speed.
     and_then (traverse_option (try_unsigned ''failed to read printer remaining time'') (plr_remaining_time_minutes m)) (\<lambda>remaining.
     and_then (traverse_option (try_unsigned ''failed to read printer current layer'') (plr_current_layer m)) (\<lambda>layer.
     and_then (traverse_option (try_unsigned ''failed to read printer total layers'') (plr_total_layers m)) (\<lambda>layers.
     and_then (traverse_option (try_unsigned ''failed to read printer print error'') (plr_print_error m)) (\<lambda>print_error.
     and_then (ok_or (read_hms (plr_hms_json m)) (Database (Message ''failed to read printer HMS''))) (\<lambda>hms.
       Ok (revision,
         \<lparr>pls_task_generation = task_generation, pls_error_generation = error_generation, pls_job_attr = attr,
          pls_error_task_generation = error_task_generation, pls_error_session_id = plr_error_session_id m,
          pls_error_received_at = plr_error_received_at m, pls_gcode_state = plr_gcode_state m,
          pls_task_id = plr_task_id m, pls_subtask_id = plr_subtask_id m, pls_progress_percent = progress,
          pls_speed_level = speed, pls_remaining_time_minutes = remaining, pls_current_layer = layer,
          pls_total_layers = layers, pls_gcode_file = plr_gcode_file m, pls_subtask_name = plr_subtask_name m,
          pls_print_error = print_error, pls_printer_job_id = plr_job_id m, pls_hms = hms\<rparr>)))))))))))))"

definition merged_active_model ::
  "(printer_hms list \<Rightarrow> string) \<Rightarrow> printer_live_status \<Rightarrow> string \<Rightarrow> printer_live_row \<Rightarrow>
     printer_live_row repository_result" where
  "merged_active_model write_hms s observed_at m =
     and_then (try_signed 64 ''failed to persist printer task generation'' (pls_task_generation s)) (\<lambda>task_generation.
     and_then (try_signed 64 ''failed to persist printer error generation'' (pls_error_generation s)) (\<lambda>error_generation.
     and_then (traverse_option (try_signed 64 ''failed to persist printer error task generation'')
        (pls_error_task_generation s)) (\<lambda>error_task_generation.
     and_then (traverse_option (try_signed 32 ''failed to persist printer print error'') (pls_print_error s)) (\<lambda>print_error.
       Ok (m\<lparr>plr_last_seen_at := Some observed_at, plr_task_generation := task_generation,
             plr_error_generation := error_generation, plr_job_attr := map_option uint (pls_job_attr s),
             plr_error_task_generation := error_task_generation,
             plr_error_session_id := pls_error_session_id s, plr_error_received_at := pls_error_received_at s,
             plr_gcode_state := pls_gcode_state s, plr_task_id := pls_task_id s, plr_subtask_id := pls_subtask_id s,
             plr_progress_percent := map_option uint (pls_progress_percent s),
             plr_speed_level := map_option uint (pls_speed_level s),
             plr_remaining_time_minutes := map_option uint (pls_remaining_time_minutes s),
             plr_current_layer := map_option uint (pls_current_layer s),
             plr_total_layers := map_option uint (pls_total_layers s),
             plr_gcode_file := pls_gcode_file s, plr_subtask_name := pls_subtask_name s,
             plr_print_error := print_error, plr_job_id := pls_printer_job_id s,
             plr_hms_json := write_hms (pls_hms s)\<rparr>)))))"

text \<open>The update of one printer's row; the state revision is incremented by the database.\<close>

definition persist_merged_live_status ::
  "(printer_hms list \<Rightarrow> string) \<Rightarrow> printer_live_status \<Rightarrow> string \<Rightarrow> printer_live_row \<Rightarrow>
     printer_live_row repository_result" where
  "persist_merged_live_status write_hms s observed_at m =
     and_then (merged_active_model write_hms s observed_at m) (\<lambda>m'.
       Ok (m'\<lparr>plr_state_revision := plr_state_revision m + 1\<rparr>))"

section \<open>Properties\<close>

lemmas clear_defs = clear_task_state_def clear_error_marker_def invalidate_recovery_def

lemma advance_generation:
  "pls_task_generation (advance_task stored patch) =
     (if pls_task_generation stored = 0
      then if has_incoming_trusted_identity patch \<or> classify (plp_gcode_state patch) \<in> {NativeLive, NativeTerminal} then 1 else 0
      else if task_boundary stored patch then pls_task_generation stored + 1 else pls_task_generation stored)"
  by (simp add: advance_task_def clear_defs Let_def)

lemma advance_error_generation [simp]:
  "pls_error_generation (advance_task stored patch) = pls_error_generation stored"
  by (simp add: advance_task_def clear_defs Let_def)

lemma display_fields [simp]:
  "pls_task_generation (apply_display_patch p s) = pls_task_generation s"
  "pls_error_generation (apply_display_patch p s) = pls_error_generation s"
  "pls_print_error (apply_display_patch p s) = pls_print_error s"
  "pls_printer_job_id (apply_display_patch p s) = pls_printer_job_id s"
  "pls_job_attr (apply_display_patch p s) = pls_job_attr s"
  "pls_error_task_generation (apply_display_patch p s) = pls_error_task_generation s"
  "pls_error_session_id (apply_display_patch p s) = pls_error_session_id s"
  "pls_error_received_at (apply_display_patch p s) = pls_error_received_at s"
  by (simp_all add: apply_display_patch_def)

lemma display_values:
  "pls_task_id (apply_display_patch p s) = apply_option (pls_task_id s) (plp_task_id p)"
  "pls_subtask_id (apply_display_patch p s) = apply_option (pls_subtask_id s) (plp_subtask_id p)"
  "pls_gcode_file (apply_display_patch p s) = apply_option (pls_gcode_file s) (plp_gcode_file p)"
  "pls_gcode_state (apply_display_patch p s) = apply_option (pls_gcode_state s) (plp_gcode_state p)"
  "pls_progress_percent (apply_display_patch p s) = apply_option (pls_progress_percent s) (plp_progress_percent p)"
  "pls_current_layer (apply_display_patch p s) = apply_option (pls_current_layer s) (plp_current_layer p)"
  "pls_speed_level (apply_display_patch p s) = apply_option (pls_speed_level s) (plp_speed_level p)"
  "pls_remaining_time_minutes (apply_display_patch p s) =
     apply_option (pls_remaining_time_minutes s) (plp_remaining_time_minutes p)"
  "pls_total_layers (apply_display_patch p s) = apply_option (pls_total_layers s) (plp_total_layers p)"
  "pls_subtask_name (apply_display_patch p s) = apply_option (pls_subtask_name s) (plp_subtask_name p)"
  "pls_hms (apply_display_patch p s) = (case plp_hms p of Some h \<Rightarrow> h | None \<Rightarrow> pls_hms s)"
  by (simp_all add: apply_display_patch_def)

lemma merge_error_keeps [simp]:
  "pls_task_generation (merge_error_and_recovery stored patch sess tm s) = pls_task_generation s"
  "pls_task_id (merge_error_and_recovery stored patch sess tm s) = pls_task_id s"
  "pls_subtask_id (merge_error_and_recovery stored patch sess tm s) = pls_subtask_id s"
  "pls_progress_percent (merge_error_and_recovery stored patch sess tm s) = pls_progress_percent s"
  "pls_speed_level (merge_error_and_recovery stored patch sess tm s) = pls_speed_level s"
  "pls_remaining_time_minutes (merge_error_and_recovery stored patch sess tm s) = pls_remaining_time_minutes s"
  "pls_current_layer (merge_error_and_recovery stored patch sess tm s) = pls_current_layer s"
  "pls_total_layers (merge_error_and_recovery stored patch sess tm s) = pls_total_layers s"
  "pls_gcode_file (merge_error_and_recovery stored patch sess tm s) = pls_gcode_file s"
  "pls_subtask_name (merge_error_and_recovery stored patch sess tm s) = pls_subtask_name s"
  "pls_gcode_state (merge_error_and_recovery stored patch sess tm s) = pls_gcode_state s"
  "pls_hms (merge_error_and_recovery stored patch sess tm s) = pls_hms s"
  by (simp_all add: merge_error_and_recovery_def merge_error_def clear_error_marker_def Let_def split: option.split)

lemma merge_error_generation:
  "pls_error_generation (merge_error_and_recovery stored patch sess tm s) \<in>
     {pls_error_generation s, pls_error_generation s + 1}"
  by (simp add: merge_error_and_recovery_def merge_error_def clear_error_marker_def Let_def split: option.split)

lemma merged_fields [simp]: "mls_state (merged stored s) = s"
  "live_status_changed (merged stored s) = (public_state stored \<noteq> public_state s)"
  by (simp_all add: merged_def)

text \<open>
  Generations never skip. Merging any report leaves the task generation as it is or advances
  it by one, and the same holds for the error generation.
\<close>

lemma generations_step_by_one:
  "(let s = mls_state (merge_live_report stored patch session received_at)
    in pls_task_generation s \<in> {pls_task_generation stored, pls_task_generation stored + 1} \<and>
       pls_error_generation s \<in> {pls_error_generation stored, pls_error_generation stored + 1})"
  using merge_error_generation
    [of stored patch session received_at "apply_display_patch patch (advance_task stored patch)"]
  by (simp add: merge_live_report_def Let_def advance_generation clear_defs)

text \<open>The data of a task, and what a state holds of it.\<close>

definition no_task_data :: "printer_live_status \<Rightarrow> bool" where
  "no_task_data s \<longleftrightarrow>
     pls_task_id s = None \<and> pls_subtask_id s = None \<and> pls_progress_percent s = None \<and> pls_speed_level s = None \<and>
     pls_remaining_time_minutes s = None \<and> pls_current_layer s = None \<and> pls_total_layers s = None \<and>
     pls_gcode_file s = None \<and> pls_subtask_name s = None \<and> pls_print_error s = None \<and>
     pls_printer_job_id s = None \<and> pls_job_attr s = None \<and> pls_error_task_generation s = None \<and>
     pls_error_session_id s = None \<and> pls_error_received_at s = None"

definition only_reported :: "printer_live_status_patch \<Rightarrow> printer_live_status \<Rightarrow> bool" where
  "only_reported p s \<longleftrightarrow>
     pls_task_id s = plp_task_id p \<and> pls_subtask_id s = plp_subtask_id p \<and>
     pls_progress_percent s = plp_progress_percent p \<and> pls_speed_level s = plp_speed_level p \<and>
     pls_remaining_time_minutes s = plp_remaining_time_minutes p \<and> pls_current_layer s = plp_current_layer p \<and>
     pls_total_layers s = plp_total_layers p \<and> pls_gcode_file s = plp_gcode_file p \<and>
     pls_subtask_name s = plp_subtask_name p \<and> pls_print_error s = plp_print_error p \<and>
     pls_printer_job_id s = plp_printer_job_id p \<and> pls_job_attr s = plp_job_attr p"

lemma clear_task_no_data: "no_task_data (clear_task_state s)"
  by (simp add: no_task_data_def clear_defs)

lemma merge_fresh:
  assumes "no_task_data s"
  shows "only_reported patch (merge_error_and_recovery stored patch sess tm (apply_display_patch patch s))"
proof -
  have "pls_print_error (merge_error_and_recovery stored patch sess tm (apply_display_patch patch s)) = plp_print_error patch"
    "pls_printer_job_id (merge_error_and_recovery stored patch sess tm (apply_display_patch patch s)) = plp_printer_job_id patch"
    "pls_job_attr (merge_error_and_recovery stored patch sess tm (apply_display_patch patch s)) = plp_job_attr patch"
    using assms
    by (simp_all add: merge_error_and_recovery_def merge_error_def clear_error_marker_def Let_def
        no_task_data_def apply_option_def split: option.split)
  then show ?thesis
    using assms by (simp add: only_reported_def display_values no_task_data_def apply_option_def split: option.split)
qed

text \<open>
  Nothing of a finished task leaks into the next. When a printer reports that it is idle,
  all task, error and recovery data is gone; when a report crosses a task boundary (another
  task, subtask or file identity, or a live state after an idle or ended one) every such
  field holds exactly what this report says, and is empty where it says nothing; and within a
  task the identity and the progress are kept where the report says nothing.
\<close>

lemma boundary_forgets_task:
  "(let s = mls_state (merge_live_report stored patch session received_at)
    in if classify (plp_gcode_state patch) = NativeIdle
       then no_task_data s \<and> pls_gcode_state s = Some ''IDLE''
       else if pls_task_generation stored \<noteq> 0 \<and> task_boundary stored patch then only_reported patch s
       else pls_task_id s = apply_option (pls_task_id stored) (plp_task_id patch) \<and>
            pls_subtask_id s = apply_option (pls_subtask_id stored) (plp_subtask_id patch) \<and>
            pls_gcode_file s = apply_option (pls_gcode_file stored) (plp_gcode_file patch) \<and>
            pls_progress_percent s = apply_option (pls_progress_percent stored) (plp_progress_percent patch) \<and>
            pls_current_layer s = apply_option (pls_current_layer stored) (plp_current_layer patch))"
proof (cases "classify (plp_gcode_state patch) = NativeIdle")
  case True
  then show ?thesis by (simp add: merge_live_report_def Let_def no_task_data_def clear_defs)
next
  case False
  have "advance_task stored patch = clear_task_state (stored\<lparr>pls_task_generation := pls_task_generation stored + 1\<rparr>)"
    if "pls_task_generation stored \<noteq> 0" "task_boundary stored patch"
    using that by (simp add: advance_task_def Let_def)
  moreover have "pls_task_id (advance_task stored patch) = pls_task_id stored \<and>
      pls_subtask_id (advance_task stored patch) = pls_subtask_id stored \<and>
      pls_gcode_file (advance_task stored patch) = pls_gcode_file stored \<and>
      pls_progress_percent (advance_task stored patch) = pls_progress_percent stored \<and>
      pls_current_layer (advance_task stored patch) = pls_current_layer stored"
    if "\<not> (pls_task_generation stored \<noteq> 0 \<and> task_boundary stored patch)"
    using that by (auto simp: advance_task_def clear_defs Let_def)
  ultimately show ?thesis using False merge_fresh [OF clear_task_no_data, of patch stored session received_at]
    by (cases "pls_task_generation stored \<noteq> 0 \<and> task_boundary stored patch")
      (simp_all add: merge_live_report_def Let_def display_values)
qed

text \<open>The error marker: its three parts come together, and only with an error.\<close>

definition marker_ok :: "printer_live_status \<Rightarrow> bool" where
  "marker_ok s \<longleftrightarrow>
     (pls_error_task_generation s = None \<and> pls_error_session_id s = None \<and> pls_error_received_at s = None) \<or>
     (pls_error_task_generation s \<noteq> None \<and> pls_error_session_id s \<noteq> None \<and> pls_error_received_at s \<noteq> None \<and>
      pls_print_error s \<notin> {None, Some 0} \<and> the (pls_error_task_generation s) \<le> pls_task_generation s)"

lemma advance_marker: "marker_ok stored \<Longrightarrow> marker_ok (advance_task stored patch)"
  by (auto simp: advance_task_def Let_def marker_ok_def clear_defs)

lemma merge_marker: "marker_ok s \<Longrightarrow> marker_ok (merge_error_and_recovery stored patch sess tm s)"
  by (auto simp: merge_error_and_recovery_def merge_error_def marker_ok_def clear_error_marker_def Let_def split: option.splits)

lemma error_merge_marker:
  assumes "plp_print_error patch \<notin> {None, Some 0}"
  shows "error_marker_is_valid (merge_error_and_recovery stored patch sess tm s) sess"
    and "pls_print_error (merge_error_and_recovery stored patch sess tm s) = plp_print_error patch"
    and "\<not> error_marker_is_valid s sess \<Longrightarrow>
      pls_printer_job_id (merge_error_and_recovery stored patch sess tm s) = plp_printer_job_id patch"
    and "\<not> error_marker_is_valid s sess \<Longrightarrow>
      pls_job_attr (merge_error_and_recovery stored patch sess tm s) = plp_job_attr patch"
  using assms
  by (auto simp: merge_error_and_recovery_def merge_error_def error_marker_is_valid_def apply_option_def Let_def
      split: option.split)

text \<open>
  The recovery identity always belongs to the current error. Merging keeps the marker
  well formed; after a report with an error the marker is valid for the reporting
  session and the current task; and if it was not valid before, the printer job id and
  attributes are those of this report alone.
\<close>

lemma error_marker_sound:
  assumes "marker_ok stored"
  shows "(let s = mls_state (merge_live_report stored patch session received_at)
    in marker_ok s \<and>
       (classify (plp_gcode_state patch) \<noteq> NativeIdle \<and> plp_print_error patch \<notin> {None, Some 0} \<longrightarrow>
          error_marker_is_valid s session \<and> pls_print_error s = plp_print_error patch \<and>
          (\<not> error_marker_is_valid stored session \<longrightarrow>
             pls_printer_job_id s = plp_printer_job_id patch \<and> pls_job_attr s = plp_job_attr patch)))"
proof -
  let ?s = "apply_display_patch patch (advance_task stored patch)"
  have m: "marker_ok ?s" using advance_marker [OF assms, of patch] by (simp add: marker_ok_def)
  have idle: "marker_ok (mls_state (merge_live_report stored patch session received_at))"
    if "classify (plp_gcode_state patch) = NativeIdle"
    using that by (simp add: merge_live_report_def marker_ok_def clear_defs)
  have invalid: "\<not> error_marker_is_valid ?s session" if "\<not> error_marker_is_valid stored session"
    using that assms by (auto simp: error_marker_is_valid_def advance_task_def marker_ok_def clear_defs Let_def)
  show ?thesis
  proof (cases "classify (plp_gcode_state patch) = NativeIdle")
    case False
    then have "mls_state (merge_live_report stored patch session received_at) =
        merge_error_and_recovery stored patch session received_at ?s"
      by (simp add: merge_live_report_def)
    then show ?thesis
      using False merge_marker [OF m, of stored patch session received_at] error_merge_marker invalid by (simp add: Let_def)
  qed (simp add: idle Let_def)
qed

text \<open>A report that was just merged is continuous with the state it led to.\<close>

lemma apply_option_idem [simp]: "apply_option (apply_option t p) p = apply_option t p"
  by (simp add: apply_option_def split: option.split)

lemma stored_identity_merged:
  "stored_identity (merge_error_and_recovery stored patch sess tm (apply_display_patch patch s)) slot =
     apply_option (stored_identity s slot) (incoming_identity patch slot)"
  by (cases slot) (simp_all add: display_values)

lemma relation_after:
  assumes "\<And>slot. incoming_identity patch slot = None \<or> stored_identity s slot = incoming_identity patch slot"
  shows "identity_relation s patch = Continuous"
proof -
  have eq: "trusted_incoming_identity patch slot = None \<or>
      trusted_stored_identity s slot = trusted_incoming_identity patch slot" for slot
    using assms [of slot]
    by (auto simp: trusted_incoming_identity_def trusted_stored_identity_def trusted_identity_def split: option.split)
  show ?thesis
    using eq [of SlotTask] eq [of SlotSubtask] eq [of SlotGcodeFile]
    by (auto simp: identity_relation_def IDENTITY_SLOTS_def relation_step_def Let_def)
qed

lemma display_again:
  "apply_display_patch p (merge_error_and_recovery stored p sess tm (apply_display_patch p s)) =
     merge_error_and_recovery stored p sess tm (apply_display_patch p s)"
  by (rule printer_live_status.equality) (simp_all add: display_values split: option.split)

lemma merge_error_again:
  assumes "s1 = merge_error_and_recovery stored p sess tm s"
  shows "merge_error_and_recovery s1 p sess tm s1 = s1"
proof -
  have job: "\<not> job_changed s1 p"
    unfolding assms by (simp add: job_changed_def merge_error_and_recovery_def apply_option_def Let_def split: option.split)
  have "merge_error s1 p sess tm s1 = s1"
  proof (cases "plp_print_error p \<in> {None, Some 0}")
    case True
    then show ?thesis
      using job unfolding assms
      by (auto simp: merge_error_def Let_def merge_error_and_recovery_def clear_error_marker_def)
  next
    case False
    note m = error_merge_marker(1,2) [OF False, of stored sess tm s, folded assms]
    have "pls_error_received_at s1 = Some tm"
      using False unfolding assms by (auto simp: merge_error_def Let_def merge_error_and_recovery_def)
    with False m job show ?thesis
      by (auto simp: merge_error_def Let_def error_marker_is_valid_def)
  qed
  moreover have "pls_printer_job_id s1 = apply_option (pls_printer_job_id s1) (plp_printer_job_id p)"
    "pls_job_attr s1 = apply_option (pls_job_attr s1) (plp_job_attr p)"
    unfolding assms by (simp_all add: merge_error_and_recovery_def Let_def)
  ultimately show ?thesis by (simp add: merge_error_and_recovery_def Let_def)
qed

lemma advance_again:
  assumes "s1 = merge_error_and_recovery stored p sess tm (apply_display_patch p (advance_task stored p))"
    and "pls_task_generation stored \<noteq> - 1"
  shows "advance_task s1 p = s1"
proof -
  have rel: "identity_relation s1 p = Continuous"
    by (rule relation_after) (auto simp: assms(1) stored_identity_merged apply_option_def split: option.split)
  have "\<not> task_boundary s1 p"
    using rel unfolding task_boundary_def
    by (auto simp: assms(1) display_values apply_option_def classify_def split: option.splits if_splits)
  moreover have "pls_task_generation s1 = pls_task_generation (advance_task stored p)"
    by (simp add: assms(1))
  moreover have "pls_task_generation stored + 1 \<noteq> 0"
    using assms(2) by (metis add.commute add_eq_0_iff)
  ultimately show ?thesis
    using rel by (auto simp: advance_task_def [of s1] advance_generation Let_def split: if_splits)
qed


definition sample_live_status :: printer_live_status where
  "sample_live_status =
     \<lparr>pls_task_generation = 3, pls_error_generation = 1, pls_job_attr = None, pls_error_task_generation = None,
      pls_error_session_id = None, pls_error_received_at = None, pls_gcode_state = Some ''RUNNING'',
      pls_task_id = Some ''17'', pls_subtask_id = None, pls_progress_percent = Some 40, pls_speed_level = None,
      pls_remaining_time_minutes = None, pls_current_layer = None, pls_total_layers = None, pls_gcode_file = None,
      pls_subtask_name = None, pls_print_error = None, pls_printer_job_id = Some ''old'', pls_hms = []\<rparr>"

definition sample_error_report :: printer_live_status_patch where
  "sample_error_report =
     \<lparr>plp_task_id = None, plp_subtask_id = None, plp_progress_percent = None, plp_speed_level = None,
      plp_remaining_time_minutes = None, plp_current_layer = None, plp_total_layers = None,
      plp_gcode_file = None, plp_subtask_name = None, plp_print_error = Some 83935249,
      plp_printer_job_id = None, plp_job_attr = None, plp_gcode_state = Some ''PAUSE'', plp_hms = None,
      plp_observed_at = ''2026-01-01T00:00:00Z''\<rparr>"


lemma error_marker_sound_witness:
  "pls_printer_job_id (mls_state (merge_live_report sample_live_status sample_error_report ''s1'' ''t1'')) = None"
proof -
  have "marker_ok sample_live_status" by (simp add: marker_ok_def sample_live_status_def)
  moreover have "\<not> error_marker_is_valid sample_live_status ''s1''" by code_simp
  moreover have "classify (plp_gcode_state sample_error_report) \<noteq> NativeIdle"
    "plp_print_error sample_error_report \<notin> {None, Some 0}" "plp_printer_job_id sample_error_report = None" by code_simp+
  ultimately show ?thesis
    using error_marker_sound [of sample_live_status sample_error_report "''s1''" "''t1''"] by (simp add: Let_def)
qed

subsection \<open>Persistence\<close>

lemma try_signed_unsigned:
  assumes "try_signed bits what w = Ok v"
  shows "try_unsigned what' v = Ok w"
  using assms uint_lt2p [of w] by (auto simp: try_signed_def try_unsigned_def split: if_splits)

lemma try_unsigned_uint: "try_unsigned what (uint w) = Ok w"
  using uint_lt2p [of w] by (simp add: try_unsigned_def)

lemma traverse_signed_unsigned:
  "traverse_option (try_signed bits what) w = Ok v \<Longrightarrow> traverse_option (try_unsigned what') v = Ok w"
  by (cases w) (auto simp: result_simps try_signed_unsigned)

lemma traverse_unsigned_uint: "traverse_option (try_unsigned what) (map_option uint w) = Ok w"
  by (cases w) (simp_all add: try_unsigned_uint)

text \<open>
  What is written is what is read back. If the live status is accepted for storage,
  reading the row again gives exactly that status, under the next state revision.
\<close>

lemma live_status_roundtrip:
  assumes "persist_merged_live_status write_hms s observed_at m = Ok m'"
    and "read_hms (write_hms (pls_hms s)) = Some (pls_hms s)"
    and "0 \<le> plr_state_revision m" "plr_state_revision m < 2 ^ 63 - 1"
  shows "live_status_from_model read_hms m' = Ok (word_of_int (plr_state_revision m + 1), s)"
proof -
  have "uint (word_of_int (plr_state_revision m + 1) :: u64) = plr_state_revision m + 1"
    using assms(3,4) by (simp only: uint_word_of_int_eq) (simp add: take_bit_int_eq_self)
  then have "word_of_int (plr_state_revision m + 1) \<noteq> (0 :: u64)"
    using assms(3) by (metis add_0 int_one_le_iff_zero_less less_irrefl uint_0_eq zle_add1_eq_le zless_add1_eq)
  moreover have rev: "(try_unsigned what (plr_state_revision m + 1) :: u64 repository_result) =
      Ok (word_of_int (plr_state_revision m + 1))" for what
    using assms(3,4) by (simp add: try_unsigned_def)
  moreover from assms(1) obtain g eg etg pe where
    "try_signed 64 ''failed to persist printer task generation'' (pls_task_generation s) = Ok g"
    "try_signed 64 ''failed to persist printer error generation'' (pls_error_generation s) = Ok eg"
    "traverse_option (try_signed 64 ''failed to persist printer error task generation'') (pls_error_task_generation s) = Ok etg"
    "traverse_option (try_signed 32 ''failed to persist printer print error'') (pls_print_error s) = Ok pe"
    unfolding persist_merged_live_status_def merged_active_model_def and_then_eq_Ok by blast
  note t = this
  note u = t(1,2) [THEN try_signed_unsigned] t(3,4) [THEN traverse_signed_unsigned]
  have "m' = m\<lparr>plr_last_seen_at := Some observed_at, plr_task_generation := g, plr_error_generation := eg,
      plr_job_attr := map_option uint (pls_job_attr s), plr_error_task_generation := etg,
      plr_error_session_id := pls_error_session_id s, plr_error_received_at := pls_error_received_at s,
      plr_gcode_state := pls_gcode_state s, plr_task_id := pls_task_id s, plr_subtask_id := pls_subtask_id s,
      plr_progress_percent := map_option uint (pls_progress_percent s),
      plr_speed_level := map_option uint (pls_speed_level s),
      plr_remaining_time_minutes := map_option uint (pls_remaining_time_minutes s),
      plr_current_layer := map_option uint (pls_current_layer s),
      plr_total_layers := map_option uint (pls_total_layers s), plr_gcode_file := pls_gcode_file s,
      plr_subtask_name := pls_subtask_name s, plr_print_error := pe, plr_job_id := pls_printer_job_id s,
      plr_hms_json := write_hms (pls_hms s), plr_state_revision := plr_state_revision m + 1\<rparr>"
    using assms(1) unfolding persist_merged_live_status_def merged_active_model_def t and_then.simps result.inject by simp
  ultimately show ?thesis
    unfolding live_status_from_model_def
    by (simp del: of_int_add add: u traverse_unsigned_uint assms(2))
qed

definition sample_live_row :: printer_live_row where
  "sample_live_row =
     \<lparr>plr_state_revision = 4, plr_last_seen_at = None, plr_task_generation = 3, plr_error_generation = 1,
      plr_job_attr = None, plr_error_task_generation = None, plr_error_session_id = None,
      plr_error_received_at = None, plr_gcode_state = None, plr_task_id = None, plr_subtask_id = None,
      plr_progress_percent = None, plr_speed_level = None, plr_remaining_time_minutes = None,
      plr_current_layer = None, plr_total_layers = None, plr_gcode_file = None, plr_subtask_name = None,
      plr_print_error = None, plr_job_id = None, plr_hms_json = ''[]''\<rparr>"

lemma sample_persisted_ok: "is_ok (persist_merged_live_status (\<lambda>_. ''[]'') sample_live_status ''t2'' sample_live_row)"
  by code_simp

lemma live_status_roundtrip_witness:
  "\<exists>m'. persist_merged_live_status (\<lambda>_. ''[]'') sample_live_status ''t2'' sample_live_row = Ok m' \<and>
     live_status_from_model (\<lambda>_. Some []) m' = Ok (word_of_int (4 + 1), sample_live_status)"
proof -
  obtain m' where p: "persist_merged_live_status (\<lambda>_. ''[]'') sample_live_status ''t2'' sample_live_row = Ok m'"
    using sample_persisted_ok by (auto simp: is_ok_iff)
  have "(\<lambda>_. Some []) ''[]'' = Some (pls_hms sample_live_status)" by (simp add: sample_live_status_def)
  from live_status_roundtrip [OF p, of "\<lambda>_. Some []"] this p show ?thesis by (simp add: sample_live_row_def)
qed

end
