(* ===== verification/Hub_Print_Reports.thy ===== *)
theory Hub_Print_Reports
  imports Hub_Jobs Hub_Live_Status
begin

text \<open>
  Print reports, \<open>crates/pandar-hub/src/repositories/jobs/print_reports.rs\<close> and its submodules
  \<open>state.rs\<close> (how a report changes the print state of a job), \<open>correlation.rs\<close> (which job a report is
  about) and \<open>events.rs\<close> (the machine events it leaves). An agent delivers reports of what
  a printer says, in any order and possibly more than once; the hub finds the job, reconciles the print
  state with one guarded update (and one retry), and records events under keys that identify
  them. The properties: a finished print never changes again, progress marks only grow, start and
  end times are set once, a report reaches only jobs of the reporting tenant, agent
  and printer, and an event is recorded once however often it is reported.

  Parameters: those of \<open>job_codec\<close>, the reader of a command's result, the RFC 3339 reader and
  writer, SHA-256 as hexadecimal text, the writer of the progress payload, and fresh identifiers.
  Finding the printer, its live status (\<open>Hub_Live_Status\<close>), materials and filament usage are
  separate stages of the same transaction and not part of this theory.
\<close>

section \<open>Reports\<close>

record print_report_diagnostic =
  prd_kind :: string
  prd_severity :: string
  prd_code :: "string option"
  prd_message :: string
  prd_payload_json :: string

record apply_print_report =
  apr_tenant_id :: tenant_id
  apr_agent_id :: agent_id
  apr_serial :: string
  apr_task_id :: "string option"
  apr_job_id :: "job_id option"
  apr_print_error :: "u32 option"
  apr_printer_job_id :: "string option"
  apr_job_attr :: "u32 option"
  apr_artifact_id :: "string option"
  apr_subtask_id :: "string option"
  apr_gcode_file :: "string option"
  apr_subtask_name :: "string option"
  apr_gcode_state :: "string option"
  apr_percent :: "u8 option"
  apr_speed_level :: "u8 option"
  apr_remaining_time_minutes :: "u32 option"
  apr_current_layer :: "u32 option"
  apr_total_layers :: "u32 option"
  apr_hms :: "printer_hms list option"
  apr_diagnostics :: "print_report_diagnostic list"
  apr_printer_materials_json :: string
  apr_observed_at :: string

section \<open>The print state of a job\<close>

record print_update =
  pu_print_status :: string
  pu_printer_state :: "string option"
  pu_progress_percent :: "u8 option"
  pu_remaining_time_minutes :: "u32 option"
  pu_current_layer :: "u32 option"
  pu_total_layers :: "u32 option"
  pu_active_file :: "string option"
  pu_last_progress_percent :: "u8 option"
  pu_last_layer :: "u32 option"
  pu_print_error :: "string option"
  pu_print_started_at :: "string option"
  pu_print_finished_at :: "string option"
  pu_print_updated_at :: "string option"

definition update_from_job :: "job_with_artifact \<Rightarrow> print_update" where
  "update_from_job w =
     (let p = job_print (jwa_job w)
      in \<lparr>pu_print_status = PrintStatus_as_str (jps_status p), pu_printer_state = jps_printer_state p,
          pu_progress_percent = jps_progress_percent p, pu_remaining_time_minutes = jps_remaining_time_minutes p,
          pu_current_layer = jps_current_layer p, pu_total_layers = jps_total_layers p,
          pu_active_file = jps_active_file p, pu_last_progress_percent = jps_last_progress_percent p,
          pu_last_layer = jps_last_layer p, pu_print_error = jps_error p,
          pu_print_started_at = jps_started_at p, pu_print_finished_at = jps_finished_at p,
          pu_print_updated_at = jps_updated_at p\<rparr>)"

definition is_terminal_status :: "print_status \<Rightarrow> bool" where
  "is_terminal_status s \<longleftrightarrow> s \<in> {print_status.Completed, print_status.Failed, print_status.Cancelled}"

definition incoming_status :: "apply_print_report \<Rightarrow> print_status option \<Rightarrow> print_status option" where
  "incoming_status input current =
     (case map_option trim (apr_gcode_state input) of
        Some s \<Rightarrow>
          if s = ''RUNNING'' then Some print_status.Running
          else if s = ''FINISH'' then Some print_status.Completed
          else if s = ''FAILED'' then Some print_status.Failed
          else if s = ''IDLE'' \<and> current = Some print_status.Running then Some print_status.Cancelled
          else None
      | None \<Rightarrow>
          if current = Some print_status.Stalled \<and>
             (0 < unwrap_or (apr_percent input) 0 \<or> 0 < unwrap_or (apr_current_layer input) 0)
          then Some print_status.Running else None)"

definition terminal_error :: "apply_print_report \<Rightarrow> string option" where
  "terminal_error input =
     (case find (\<lambda>d. prd_kind d = ''print_error'' \<and> trim (prd_message d) \<noteq> []) (apr_diagnostics input) of
        Some d \<Rightarrow> Some (trim (prd_message d))
      | None \<Rightarrow> map_option (\<lambda>d. trim (prd_message d)) (find (\<lambda>d. trim (prd_message d) \<noteq> []) (apr_diagnostics input)))"

text \<open>The status part of the reconciliation.\<close>

definition apply_status :: "apply_print_report \<Rightarrow> print_status \<Rightarrow> print_update \<Rightarrow> print_update" where
  "apply_status input status u =
     (let u1 = u\<lparr>pu_print_status := PrintStatus_as_str status\<rparr>;
          u2 = (if status = print_status.Running \<and> pu_print_started_at u1 = None
                then u1\<lparr>pu_print_started_at := Some (apr_observed_at input)\<rparr> else u1);
          u3 = (if is_terminal_status status \<and> pu_print_finished_at u2 = None
                then u2\<lparr>pu_print_finished_at := Some (apr_observed_at input)\<rparr> else u2)
      in if status = print_status.Failed
         then u3\<lparr>pu_print_error := Some (unwrap_or (terminal_error input) ''print failed'')\<rparr>
         else if status = print_status.Cancelled \<and> pu_print_error u3 = None
         then u3\<lparr>pu_print_error := Some (unwrap_or (terminal_error input) ''print cancelled'')\<rparr>
         else u3)"

definition raise_to :: "'a :: linorder option \<Rightarrow> 'a option \<Rightarrow> 'a option" where
  "raise_to old new =
     (case new of
        None \<Rightarrow> old
      | Some v \<Rightarrow> Some (case old of Some l \<Rightarrow> max l v | None \<Rightarrow> v))"

definition reported_file :: "apply_print_report \<Rightarrow> string option" where
  "reported_file input =
     (case or_else (apr_gcode_file input) (apr_subtask_name input) of
        Some v \<Rightarrow> if trim v \<noteq> [] then Some (trim v) else None
      | None \<Rightarrow> None)"

definition reconciled_update :: "print_update \<Rightarrow> apply_print_report \<Rightarrow> print_update" where
  "reconciled_update current input =
     (let current_status = result_ok (PrintStatus_from_str (pu_print_status current));
          is_terminal = is_some_and is_terminal_status current_status;
          u = (case incoming_status input current_status of
                 Some s \<Rightarrow> if is_terminal then current else apply_status input s current
               | None \<Rightarrow> current)
      in u\<lparr>pu_printer_state := or_else (apr_gcode_state input) (pu_printer_state u),
           pu_progress_percent := or_else (apr_percent input) (pu_progress_percent u),
           pu_last_progress_percent := raise_to (pu_last_progress_percent u) (apr_percent input),
           pu_remaining_time_minutes := or_else (apr_remaining_time_minutes input) (pu_remaining_time_minutes u),
           pu_current_layer := or_else (apr_current_layer input) (pu_current_layer u),
           pu_last_layer := raise_to (pu_last_layer u) (apr_current_layer input),
           pu_total_layers := or_else (apr_total_layers input) (pu_total_layers u),
           pu_active_file := or_else (reported_file input) (pu_active_file u),
           pu_print_updated_at := Some (apr_observed_at input)\<rparr>)"

text \<open>\<open>value as i32\<close> reinterprets the bits of a \<open>u32\<close>; \<open>i32::from\<close> of a \<open>u8\<close> keeps its value.\<close>

definition as_i32 :: "u32 \<Rightarrow> i32" where
  "as_i32 v = sint v"

definition print_row_update :: "timestamp \<Rightarrow> print_update \<Rightarrow> job_row \<Rightarrow> job_row" where
  "print_row_update now u r =
     r\<lparr>jr_print_status := pu_print_status u, jr_printer_state := pu_printer_state u,
       jr_progress_percent := map_option uint (pu_progress_percent u),
       jr_remaining_time_minutes := map_option as_i32 (pu_remaining_time_minutes u),
       jr_current_layer := map_option as_i32 (pu_current_layer u),
       jr_total_layers := map_option as_i32 (pu_total_layers u),
       jr_active_file := pu_active_file u,
       jr_last_progress_percent := map_option uint (pu_last_progress_percent u),
       jr_last_layer := map_option as_i32 (pu_last_layer u),
       jr_print_error := pu_print_error u, jr_print_started_at := pu_print_started_at u,
       jr_print_finished_at := pu_print_finished_at u, jr_print_updated_at := pu_print_updated_at u,
       jr_updated_at := now\<rparr>"

definition ended_print :: "string \<Rightarrow> bool" where
  "ended_print s \<longleftrightarrow> s \<in> {''completed'', ''failed'', ''cancelled''}"

definition print_row_selected :: "job_id \<times> string \<Rightarrow> job_row \<Rightarrow> bool" where
  "print_row_selected k r \<longleftrightarrow> jr_id r = fst k \<and> jr_print_status r = snd k \<and> \<not> ended_print (jr_print_status r)"

definition update_job_print ::
  "timestamp \<Rightarrow> job_id \<Rightarrow> string \<Rightarrow> print_update \<Rightarrow> hub_db \<Rightarrow> bool \<times> hub_db" where
  "update_job_print now i expected u db =
     (let (rows, n) = update_many (print_row_selected (i, expected)) (print_row_update now u) (db_jobs db)
      in (0 < n, db\<lparr>db_jobs := rows\<rparr>))"

definition hydrated_first :: "job_codec \<Rightarrow> hub_db \<Rightarrow> job_row option \<Rightarrow> job_with_artifact option repository_result" where
  "hydrated_first codec db m =
     (case m of
        None \<Rightarrow> Ok None
      | Some j \<Rightarrow> and_then (hydrate_jobs_with_artifacts codec db [j]) (\<lambda>ws. Ok (case ws of [] \<Rightarrow> None | w # _ \<Rightarrow> Some w)))"

definition job_by_id ::
  "job_codec \<Rightarrow> hub_db \<Rightarrow> tenant_id \<Rightarrow> job_id \<Rightarrow> job_with_artifact option repository_result" where
  "job_by_id codec db tenant i =
     hydrated_first codec db (find (\<lambda>j. jr_id j = i \<and> jr_tenant_id j = tenant) (db_jobs db))"

text \<open>
  The guarded update of \<open>apply_print_report_tx\<close> with its one retry: the desired state, whether
  it differs from what was read last, whether it was written, and the database.
\<close>

definition reconcile_job ::
  "job_codec \<Rightarrow> timestamp \<Rightarrow> timestamp \<Rightarrow> apply_print_report \<Rightarrow> job_with_artifact \<Rightarrow> hub_db \<Rightarrow>
     ((print_update \<times> bool \<times> bool) \<times> hub_db) repository_result" where
  "reconcile_job codec now now' input w db =
     (let original = update_from_job w; desired = reconciled_update original input; i = job_id (jwa_job w)
      in if original = desired then Ok ((desired, False, False), db)
         else
           let (wrote, db1) = update_job_print now i (pu_print_status original) desired db
           in if wrote then Ok ((desired, True, True), db1)
              else
                and_then (job_by_id codec db1 (apr_tenant_id input) i) (\<lambda>m.
                and_then (ok_or m MissingJob) (\<lambda>current.
                  let original' = update_from_job current; desired' = reconciled_update original' input
                  in if original' = desired' then Ok ((desired', False, False), db1)
                     else let (wrote', db2) = update_job_print now' i (pu_print_status original') desired' db1
                          in Ok ((desired', True, wrote'), db2))))"

section \<open>Which job a report is about\<close>

text \<open>
  The reader gives the kind, the MQTT command and the task id of a stored print result, or
  nothing when the text is not such a result.
\<close>

record report_codec =
  rc_job :: job_codec
  rc_read_result :: "string \<Rightarrow> (string \<times> string \<times> string) option"
  rc_parse_time :: "string \<Rightarrow> int option"
  rc_format_time :: "int \<Rightarrow> string option"
  rc_sha256_hex :: "string \<Rightarrow> string"
  rc_write_progress :: "apply_print_report \<Rightarrow> string"

definition of_reporter :: "apply_print_report \<Rightarrow> string \<Rightarrow> job_row \<Rightarrow> bool" where
  "of_reporter input printer j \<longleftrightarrow>
     jr_tenant_id j = apr_tenant_id input \<and> jr_agent_id j = apr_agent_id input \<and> jr_printer_id j = printer"

definition active_print :: "string \<Rightarrow> bool" where
  "active_print s \<longleftrightarrow> s \<in> {''pending'', ''stalled'', ''running''}"

definition result_matches :: "report_codec \<Rightarrow> string \<Rightarrow> command_row \<Rightarrow> bool" where
  "result_matches codec task c \<longleftrightarrow>
     (case cr_result_json c of
        None \<Rightarrow> False
      | Some body \<Rightarrow>
          (case rc_read_result codec body of
             None \<Rightarrow> False
           | Some (kind, command, task_id) \<Rightarrow>
               kind = ''print_project_file'' \<and> command = ''project_file'' \<and> task_id = task))"

definition jobs_by_submission_id ::
  "report_codec \<Rightarrow> hub_db \<Rightarrow> apply_print_report \<Rightarrow> string \<Rightarrow> job_with_artifact list repository_result" where
  "jobs_by_submission_id codec db input printer =
     (case apr_task_id input of
        None \<Rightarrow> Ok []
      | Some task \<Rightarrow>
          let job_models = filter (\<lambda>j. of_reporter input printer j \<and> active_print (jr_print_status j) \<and>
                jr_status j = JobStatus_as_str job_status.Succeeded) (db_jobs db)
          in if job_models = [] then Ok []
             else
               let command_models = filter (\<lambda>c. cr_id c \<in> set (map jr_command_id job_models) \<and>
                     cr_tenant_id c = apr_tenant_id input \<and> cr_agent_id c = apr_agent_id input \<and>
                     cr_printer_id c = Some printer \<and> cr_kind c = ''print_project_file'' \<and>
                     cr_status c = CommandStatus_as_str command_status.Succeeded \<and> cr_result_json c \<noteq> None) (db_commands db);
                   matching = map cr_id (filter (result_matches codec task) command_models)
               in hydrate_jobs_with_artifacts (rc_job codec) db
                    (filter (\<lambda>j. jr_command_id j \<in> set matching) job_models))"

definition job_by_id_for_printer ::
  "report_codec \<Rightarrow> hub_db \<Rightarrow> apply_print_report \<Rightarrow> string \<Rightarrow> job_id \<Rightarrow> job_with_artifact option repository_result" where
  "job_by_id_for_printer codec db input printer i =
     hydrated_first (rc_job codec) db (find (\<lambda>j. jr_id j = i \<and> of_reporter input printer j) (db_jobs db))"

definition job_by_artifact ::
  "report_codec \<Rightarrow> hub_db \<Rightarrow> apply_print_report \<Rightarrow> string \<Rightarrow> string option \<Rightarrow> job_with_artifact option repository_result" where
  "job_by_artifact codec db input printer m =
     (case m of
        None \<Rightarrow> Ok None
      | Some a \<Rightarrow> hydrated_first (rc_job codec) db
          (find (\<lambda>j. of_reporter input printer j \<and> jr_artifact_id j = a) (db_jobs db)))"

definition cutoff_observed_at :: "report_codec \<Rightarrow> string \<Rightarrow> string repository_result" where
  "cutoff_observed_at codec observed_at =
     and_then (ok_or (rc_parse_time codec observed_at) (Database (Message ''failed to parse print report observed_at''))) (\<lambda>t.
       ok_or (rc_format_time codec (t - 86400000000000))
         (Database (Message ''failed to format print report fallback cutoff'')))"

definition active_job_models ::
  "report_codec \<Rightarrow> hub_db \<Rightarrow> apply_print_report \<Rightarrow> string \<Rightarrow> job_row list repository_result" where
  "active_job_models codec db input printer =
     and_then (cutoff_observed_at codec (apr_observed_at input)) (\<lambda>cutoff.
       Ok (filter (\<lambda>j. of_reporter input printer j \<and> active_print (jr_print_status j) \<and>
             \<not> text_less (jr_created_at j) cutoff) (db_jobs db)))"

text \<open>The part after the last separator, and the part before the last dot.\<close>

fun after_last :: "(char \<Rightarrow> bool) \<Rightarrow> string \<Rightarrow> string" where
  "after_last p [] = []"
| "after_last p (c # s) = (if list_ex p s then after_last p s else if p c then s else c # s)"

definition basename :: "string \<Rightarrow> string option" where
  "basename v =
     (let b = after_last (\<lambda>c. c = CHR ''/'' \<or> c = CHR 0x5C) (trim v) in if b = [] then None else Some b)"

fun before_last_dot :: "string \<Rightarrow> string" where
  "before_last_dot [] = []"
| "before_last_dot (c # s) = (if CHR ''.'' \<in> set s then c # before_last_dot s else [])"

definition filename_stem :: "string \<Rightarrow> string" where
  "filename_stem f = (if CHR ''.'' \<in> set f then before_last_dot f else f)"

definition file_matches :: "apply_print_report \<Rightarrow> job_with_artifact \<Rightarrow> bool" where
  "file_matches input w \<longleftrightarrow>
     (let filename = trim (art_filename (jwa_artifact w));
          subtask = (case map_option trim (apr_subtask_name input) of Some s \<Rightarrow> if s = [] then None else Some s | None \<Rightarrow> None)
      in Option.bind (apr_gcode_file input) basename = Some filename \<or> subtask = Some (filename_stem filename))"

definition single_file_match :: "job_with_artifact list \<Rightarrow> apply_print_report \<Rightarrow> job_with_artifact option" where
  "single_file_match candidates input =
     (let matches = filter (file_matches input) candidates;
          stalled = (\<lambda>w. jps_status (job_print (jwa_job w)) = print_status.Stalled);
          active_matches = filter (\<lambda>w. \<not> stalled w) matches; stalled_matches = filter stalled matches
      in case active_matches of
           [w] \<Rightarrow> Some w
         | [] \<Rightarrow> (case stalled_matches of [w] \<Rightarrow> Some w | _ \<Rightarrow> None)
         | _ \<Rightarrow> None)"

definition job_by_active_file ::
  "report_codec \<Rightarrow> hub_db \<Rightarrow> apply_print_report \<Rightarrow> string \<Rightarrow> job_with_artifact option repository_result" where
  "job_by_active_file codec db input printer =
     and_then (active_job_models codec db input printer) (\<lambda>models.
     and_then (hydrate_jobs_with_artifacts (rc_job codec) db models) (\<lambda>candidates.
       Ok (single_file_match candidates input)))"

definition correlate_job ::
  "report_codec \<Rightarrow> hub_db \<Rightarrow> apply_print_report \<Rightarrow> string \<Rightarrow> job_with_artifact option repository_result" where
  "correlate_job codec db input printer =
     and_then (case apr_job_id input of Some i \<Rightarrow> job_by_id_for_printer codec db input printer i | None \<Rightarrow> Ok None) (\<lambda>by_id.
       if by_id \<noteq> None then Ok by_id else
     and_then (jobs_by_submission_id codec db input printer) (\<lambda>matches.
       case matches of
         [w] \<Rightarrow> Ok (Some w)
       | _ # _ # _ \<Rightarrow> Ok None
       | [] \<Rightarrow>
           and_then (job_by_artifact codec db input printer (apr_artifact_id input)) (\<lambda>by_artifact.
             if by_artifact \<noteq> None then Ok by_artifact else
           and_then (job_by_artifact codec db input printer (apr_subtask_id input)) (\<lambda>by_subtask.
             if by_subtask \<noteq> None then Ok by_subtask
             else job_by_active_file codec db input printer))))"

section \<open>Machine events\<close>

record machine_event_insert =
  mei_event_key :: string
  mei_kind :: string
  mei_severity :: string
  mei_message :: string
  mei_code :: "string option"
  mei_payload_json :: string

record machine_event_row =
  mer_id :: string
  mer_tenant_id :: string
  mer_agent_id :: string
  mer_printer_id :: string
  mer_job_id :: "string option"
  mer_event_key :: string
  mer_kind :: string
  mer_severity :: string
  mer_message :: string
  mer_code :: "string option"
  mer_payload_json :: string
  mer_observed_at :: string
  mer_created_at :: string

text \<open>Text of an optional number, and joining with colons.\<close>

definition opt_decimal :: "'w :: len word option \<Rightarrow> string" where
  "opt_decimal m = (case m of Some v \<Rightarrow> to_digits 10 (unat v) | None \<Rightarrow> [])"

fun colons :: "string list \<Rightarrow> string" where
  "colons [] = []"
| "colons [s] = s"
| "colons (s # t # ts) = s @ '':'' @ colons (t # ts)"

definition progress_event_key :: "job_with_artifact \<Rightarrow> apply_print_report \<Rightarrow> string option" where
  "progress_event_key w input =
     (if apr_gcode_state input \<noteq> None \<or> apr_percent input \<noteq> None \<or> apr_current_layer input \<noteq> None \<or>
         apr_total_layers input \<noteq> None
      then Some (colons [''print-progress'', job_id (jwa_job w), apr_observed_at input,
             unwrap_or (apr_gcode_state input) [], opt_decimal (apr_percent input),
             opt_decimal (apr_current_layer input), opt_decimal (apr_total_layers input)])
      else None)"

definition progress_message :: "apply_print_report \<Rightarrow> string" where
  "progress_message input =
     (case (apr_gcode_state input, apr_percent input) of
        (Some s, Some p) \<Rightarrow> ''print '' @ s @ '' '' @ to_digits 10 (unat p) @ ''%''
      | (Some s, None) \<Rightarrow> ''print '' @ s
      | (None, Some p) \<Rightarrow> ''print progress '' @ to_digits 10 (unat p) @ ''%''
      | (None, None) \<Rightarrow> ''print progress'')"

definition progress_event :: "report_codec \<Rightarrow> apply_print_report \<Rightarrow> string \<Rightarrow> machine_event_insert" where
  "progress_event codec input key =
     \<lparr>mei_event_key = key, mei_kind = ''print_progress'', mei_severity = ''info'',
      mei_message = progress_message input, mei_code = None, mei_payload_json = rc_write_progress codec input\<rparr>"

definition terminal_event ::
  "report_codec \<Rightarrow> apply_print_report \<Rightarrow> job_with_artifact \<Rightarrow> print_update \<Rightarrow> machine_event_insert option" where
  "terminal_event codec input w u =
     (case PrintStatus_from_str (pu_print_status u) of
        Err _ \<Rightarrow> None
      | Ok s \<Rightarrow>
          if is_terminal_status s
          then Some \<lparr>mei_event_key = colons [''print-terminal'', job_id (jwa_job w), PrintStatus_as_str s],
                 mei_kind = ''print_terminal'',
                 mei_severity = (if s = print_status.Completed then ''info'' else ''error''),
                 mei_message = unwrap_or (pu_print_error u) (''print '' @ PrintStatus_as_str s),
                 mei_code = None, mei_payload_json = rc_write_progress codec input\<rparr>
          else None)"

definition code_or_message_hash :: "report_codec \<Rightarrow> print_report_diagnostic \<Rightarrow> string" where
  "code_or_message_hash codec d =
     (let by_hash = take 16 (rc_sha256_hex codec (trim (prd_message d) @ [CHR 0x0A] @ trim (prd_payload_json d)))
      in case map_option trim (prd_code d) of
           Some c \<Rightarrow> if c = [] then by_hash else c
         | None \<Rightarrow> by_hash)"

definition diagnostic_event ::
  "report_codec \<Rightarrow> apply_print_report \<Rightarrow> string \<Rightarrow> job_with_artifact option \<Rightarrow> print_report_diagnostic \<Rightarrow>
     machine_event_insert" where
  "diagnostic_event codec input printer job d =
     (let h = code_or_message_hash codec d; at_time = apr_observed_at input
      in \<lparr>mei_event_key =
            (case job of
               Some w \<Rightarrow>
                 if prd_kind d = ''hms'' then colons [''hms'', printer, h, at_time]
                 else if prd_kind d = ''print_error'' then colons [''print-error'', job_id (jwa_job w), h, at_time]
                 else colons [''machine'', job_id (jwa_job w), prd_kind d, h, at_time]
             | None \<Rightarrow> colons [''machine'', printer, prd_kind d, h, at_time]),
          mei_kind = prd_kind d, mei_severity = prd_severity d, mei_message = prd_message d,
          mei_code = prd_code d, mei_payload_json = prd_payload_json d\<rparr>)"

definition diagnostic_events ::
  "report_codec \<Rightarrow> apply_print_report \<Rightarrow> string \<Rightarrow> job_with_artifact option \<Rightarrow> machine_event_insert list" where
  "diagnostic_events codec input printer job = map (diagnostic_event codec input printer job) (apr_diagnostics input)"

text \<open>
  An insert that does nothing when the tenant already has an event with this key. Fresh
  identifiers and the clock are functions of the key.
\<close>

definition insert_event ::
  "(string \<Rightarrow> string) \<Rightarrow> timestamp \<Rightarrow> apply_print_report \<Rightarrow> string \<Rightarrow> job_with_artifact option \<Rightarrow>
     machine_event_insert \<Rightarrow> machine_event_row list \<Rightarrow> bool \<times> machine_event_row list" where
  "insert_event fresh now input printer job e rows =
     (if list_ex (\<lambda>r. mer_tenant_id r = apr_tenant_id input \<and> mer_event_key r = mei_event_key e) rows
      then (False, rows)
      else (True, rows @
        [\<lparr>mer_id = fresh (mei_event_key e), mer_tenant_id = apr_tenant_id input, mer_agent_id = apr_agent_id input,
          mer_printer_id = printer, mer_job_id = map_option (\<lambda>w. job_id (jwa_job w)) job,
          mer_event_key = mei_event_key e, mer_kind = mei_kind e, mer_severity = mei_severity e,
          mer_message = mei_message e, mer_code = mei_code e, mer_payload_json = mei_payload_json e,
          mer_observed_at = apr_observed_at input, mer_created_at = now\<rparr>]))"

fun insert_events ::
  "(string \<Rightarrow> string) \<Rightarrow> timestamp \<Rightarrow> apply_print_report \<Rightarrow> string \<Rightarrow> job_with_artifact option \<Rightarrow>
     machine_event_insert list \<Rightarrow> machine_event_row list \<Rightarrow> bool \<times> machine_event_row list" where
  "insert_events fresh now input printer job [] rows = (False, rows)"
| "insert_events fresh now input printer job (e # es) rows =
     (let (b, rows1) = insert_event fresh now input printer job e rows;
          (c, rows2) = insert_events fresh now input printer job es rows1
      in (b \<or> c, rows2))"

definition job_events ::
  "report_codec \<Rightarrow> apply_print_report \<Rightarrow> string \<Rightarrow> job_with_artifact \<Rightarrow> print_update \<Rightarrow> machine_event_insert list" where
  "job_events codec input printer w u =
     (case progress_event_key w input of Some k \<Rightarrow> [progress_event codec input k] | None \<Rightarrow> []) @
     (case terminal_event codec input w u of Some e \<Rightarrow> [e] | None \<Rightarrow> []) @
     diagnostic_events codec input printer (Some w)"

definition insert_job_events ::
  "report_codec \<Rightarrow> (string \<Rightarrow> string) \<Rightarrow> timestamp \<Rightarrow> apply_print_report \<Rightarrow> string \<Rightarrow> job_with_artifact \<Rightarrow>
     print_update \<Rightarrow> machine_event_row list \<Rightarrow> bool \<times> machine_event_row list" where
  "insert_job_events codec fresh now input printer w u rows =
     insert_events fresh now input printer (Some w) (job_events codec input printer w u) rows"

definition insert_printer_events ::
  "report_codec \<Rightarrow> (string \<Rightarrow> string) \<Rightarrow> timestamp \<Rightarrow> apply_print_report \<Rightarrow> string \<Rightarrow>
     machine_event_row list \<Rightarrow> bool \<times> machine_event_row list" where
  "insert_printer_events codec fresh now input printer rows =
     insert_events fresh now input printer None (diagnostic_events codec input printer None) rows"

section \<open>Properties\<close>

subsection \<open>The print state\<close>

definition option_le :: "'a :: linorder option \<Rightarrow> 'a option \<Rightarrow> bool" where
  "option_le a b \<longleftrightarrow> (case a of None \<Rightarrow> True | Some x \<Rightarrow> (case b of None \<Rightarrow> False | Some y \<Rightarrow> x \<le> y))"

definition set_once :: "'a option \<Rightarrow> 'a option \<Rightarrow> bool" where
  "set_once a b \<longleftrightarrow> a = None \<or> b = a"

text \<open>How the print state may evolve.\<close>

definition print_advances :: "print_update \<Rightarrow> print_update \<Rightarrow> bool" where
  "print_advances u v \<longleftrightarrow>
     (ended_print (pu_print_status u) \<longrightarrow>
        pu_print_status v = pu_print_status u \<and> pu_print_error v = pu_print_error u \<and>
        pu_print_started_at v = pu_print_started_at u \<and> pu_print_finished_at v = pu_print_finished_at u) \<and>
     set_once (pu_print_started_at u) (pu_print_started_at v) \<and>
     set_once (pu_print_finished_at u) (pu_print_finished_at v) \<and>
     option_le (pu_last_progress_percent u) (pu_last_progress_percent v) \<and>
     option_le (pu_last_layer u) (pu_last_layer v)"

lemma ended_print_iff:
  "ended_print s \<longleftrightarrow> is_some_and is_terminal_status (result_ok (PrintStatus_from_str s))"
  by (auto simp: ended_print_def PrintStatus_from_str_def is_some_and_def is_terminal_status_def)

lemma option_le_refl [simp]: "option_le a a"
  by (simp add: option_le_def split: option.split)

lemma option_le_trans: "option_le a b \<Longrightarrow> option_le b c \<Longrightarrow> option_le a c"
  by (auto simp: option_le_def split: option.splits)

lemma option_le_raise [simp]: "option_le a (raise_to a b)"
  by (simp add: option_le_def raise_to_def split: option.split)

lemma print_advances_refl: "print_advances u u"
  by (simp add: print_advances_def set_once_def)

lemma print_advances_trans: "print_advances u v \<Longrightarrow> print_advances v w \<Longrightarrow> print_advances u w"
  unfolding print_advances_def set_once_def using option_le_trans by metis

lemma apply_status_fields:
  "pu_last_progress_percent (apply_status input s u) = pu_last_progress_percent u"
  "pu_last_layer (apply_status input s u) = pu_last_layer u"
  "set_once (pu_print_started_at u) (pu_print_started_at (apply_status input s u))"
  "set_once (pu_print_finished_at u) (pu_print_finished_at (apply_status input s u))"
  by (auto simp: apply_status_def Let_def set_once_def)

lemma set_once_refl [simp]: "set_once a a"
  by (simp add: set_once_def)

lemma reconciled_advances: "print_advances u (reconciled_update u input)"
proof -
  let ?st = "result_ok (PrintStatus_from_str (pu_print_status u))"
  let ?v = "case incoming_status input ?st of
      Some s \<Rightarrow> if is_some_and is_terminal_status ?st then u else apply_status input s u | None \<Rightarrow> u"
  have "set_once (pu_print_started_at u) (pu_print_started_at ?v)"
    "set_once (pu_print_finished_at u) (pu_print_finished_at ?v)"
    "pu_last_progress_percent ?v = pu_last_progress_percent u" "pu_last_layer ?v = pu_last_layer u"
    "is_some_and is_terminal_status ?st \<Longrightarrow> ?v = u"
    by (simp_all add: apply_status_fields split: option.split)
  then show ?thesis
    unfolding print_advances_def ended_print_iff reconciled_update_def Let_def by simp
qed

text \<open>
  C16: a print only moves forward. Over any sequence of reports, in whatever order
  they arrive: once the print has ended its outcome, error and times never change; a start or finish
  time once set stays; and the highest progress and the highest layer seen never decrease.
\<close>

theorem print_history_advances:
  "print_advances u (fold (\<lambda>input u. reconciled_update u input) reports u)"
proof (induction reports arbitrary: u)
  case (Cons input reports)
  show ?case using print_advances_trans [OF reconciled_advances Cons.IH] by simp
qed (simp add: print_advances_refl)

subsection \<open>The job row\<close>

abbreviation print_row_step :: "timestamp \<Rightarrow> job_id \<Rightarrow> string \<Rightarrow> print_update \<Rightarrow> job_row \<Rightarrow> job_row" where
  "print_row_step now i expected u r \<equiv> if print_row_selected (i, expected) r then print_row_update now u r else r"

lemma update_job_print_eq:
  "update_job_print now i expected u db =
     (let wrote = list_ex (print_row_selected (i, expected)) (db_jobs db)
      in (wrote, if wrote then db\<lparr>db_jobs := map (print_row_step now i expected u) (db_jobs db)\<rparr> else db))"
proof -
  have "0 < length (filter p xs) \<longleftrightarrow> list_ex p xs" for p and xs :: "job_row list"
    by (auto simp: list_ex_iff filter_empty_conv)
  moreover have "db\<lparr>db_jobs := map (print_row_step now i expected u) (db_jobs db)\<rparr> = db"
    if "\<not> list_ex (print_row_selected (i, expected)) (db_jobs db)"
  proof -
    have "map (print_row_step now i expected u) (db_jobs db) = db_jobs db"
      using that by (auto simp: list_ex_iff intro: map_idI)
    then show ?thesis by simp
  qed
  ultimately show ?thesis by (simp add: update_job_print_def update_many_def Let_def)
qed

lemma reconcile_job_cases:
  assumes "reconcile_job codec now now' input w db = Ok ((desired, changed, wrote), db')"
  obtains (unwritten) "\<not> wrote" "db' = db"
  | (written) t expected where "wrote" "t \<in> {now, now'}"
      "db' = db\<lparr>db_jobs := map (print_row_step t (job_id (jwa_job w)) expected desired) (db_jobs db)\<rparr>"
  using assms
  by (auto simp: reconcile_job_def update_job_print_eq Let_def result_simps simp del: if_split split: if_splits)

text \<open>
  A report changes at most its own job, and never a finished print. After the guarded update
  with its retry, every job row is as before, or it is the correlated job's row, its print
  had not ended, and exactly its print columns were set from the desired state; no other table changes.
\<close>

lemma report_row_effect:
  assumes "reconcile_job codec now now' input w db = Ok ((desired, changed, wrote), db')"
  shows "list_all2 (\<lambda>j j'. j' = j \<or>
       (wrote \<and> jr_id j = job_id (jwa_job w) \<and> \<not> ended_print (jr_print_status j) \<and>
        j' \<in> {print_row_update now desired j, print_row_update now' desired j})) (db_jobs db) (db_jobs db') \<and>
     db' = db\<lparr>db_jobs := db_jobs db'\<rparr> \<and> (wrote \<or> db' = db)"
  using assms
proof (cases rule: reconcile_job_cases)
  case unwritten
  then show ?thesis by (simp add: list_all2_same)
next
  case (written t expected)
  then show ?thesis by (auto simp: list_all2_map2 list_all2_same print_row_selected_def)
qed

definition u32_fields :: "print_update \<Rightarrow> u32 option list" where
  "u32_fields u = [pu_remaining_time_minutes u, pu_current_layer u, pu_total_layers u, pu_last_layer u]"

lemma i32_to_u8_uint [simp]: "i32_to_u8 (uint (v :: u8)) = Ok v"
  using uint_lt2p [of v] by (simp add: i32_to_u8_def)

lemma i32_to_u32_as_i32 [simp]:
  "i32_to_u32 (as_i32 v) = (if v < 0x80000000 then Ok v
     else Err (Database (Message ''invalid persisted u32 value for job print state'')))"
proof -
  have "uint v div 0x80000000 = (if uint v < 0x80000000 then 0 else 1)"
    using uint_lt2p [of v] by (simp add: div_pos_geq)
  then have "even (uint v div 0x80000000) \<longleftrightarrow> uint v < 0x80000000" by simp
  then have "0 \<le> sint v \<longleftrightarrow> v < 0x80000000"
    by (simp add: sint_uint word_less_alt signed_take_bit_nonnegative_iff bit_iff_odd)
  then show ?thesis by (simp add: i32_to_u32_def as_i32_def)
qed

lemma traverse_u8 [simp]: "traverse_option i32_to_u8 (map_option uint (m :: u8 option)) = Ok m"
  by (cases m) simp_all

lemma traverse_u32:
  "traverse_option i32_to_u32 (map_option as_i32 m) = Ok n \<longleftrightarrow> n = m \<and> (\<forall>v. m = Some v \<longrightarrow> v < 0x80000000)"
  by (cases m) (auto simp: result_simps)

lemma print_state_read:
  assumes "job_from_model_with_usage codec (print_row_update now u r) usage = Ok j"
  shows "update_from_job \<lparr>jwa_job = j, jwa_artifact = a\<rparr> = u"
    and "Some v \<in> set (u32_fields u) \<Longrightarrow> v < 0x80000000"
  using assms
  by (auto simp: job_from_model_with_usage_def print_row_update_def result_simps traverse_u32
      Job_from_parts_def update_from_job_def u32_fields_def print_status_text.from_str_Ok_iff
      simp del: traverse_option_eq_Ok)

text \<open>
  Whatever print state the hub stores, reading the job row again gives exactly that state: the status text,
  the progress, the layers, the times, the error.
\<close>

lemma print_state_roundtrip:
  assumes "job_from_model_with_usage codec (print_row_update now u r) usage = Ok j"
  shows "update_from_job \<lparr>jwa_job = j, jwa_artifact = a\<rparr> = u"
  using assms by (rule print_state_read)

text \<open>
  A layer number or a remaining time of 2^31 or more, once stored, makes the
  row unreadable: it is cast to a negative column value, which every later read refuses.
\<close>

lemma oversized_value_unreadable:
  assumes "Some v \<in> set (u32_fields u)" and "0x80000000 \<le> v"
  shows "\<not> is_ok (job_from_model_with_usage codec (print_row_update now u r) usage)"
  using print_state_read(2) [OF _ assms(1)] assms(2) by (auto simp: is_ok_iff not_less [symmetric])

subsection \<open>Correlation\<close>

lemma hydrate_member:
  assumes "hydrate_jobs_with_artifacts codec db models = Ok ws" and "w \<in> set ws"
  shows "\<exists>j \<in> set models. hydrate_one codec db j = Ok w"
  using assms unfolding hydrate_jobs_with_artifacts_def hydrate_from_spec
  by (auto simp: result_simps dest: traverse_list_member)

lemma hydrated_first_Some:
  assumes "hydrated_first codec db m = Ok (Some w)"
  shows "\<exists>j. m = Some j \<and> hydrate_one codec db j = Ok w"
proof -
  from assms obtain j ws where "m = Some j" and ws: "hydrate_jobs_with_artifacts codec db [j] = Ok ws"
    and "(case ws of [] \<Rightarrow> None | w # _ \<Rightarrow> Some w) = Some w"
    by (cases m) (auto simp: hydrated_first_def result_simps)
  with hydrate_member [OF ws] show ?thesis by (cases ws) auto
qed

definition correlates :: "report_codec \<Rightarrow> hub_db \<Rightarrow> apply_print_report \<Rightarrow> string \<Rightarrow> job_with_artifact \<Rightarrow> bool" where
  "correlates codec db input printer w \<longleftrightarrow>
     (\<exists>j \<in> set (db_jobs db). of_reporter input printer j \<and> hydrate_one (rc_job codec) db j = Ok w)"

lemma by_id_correlates:
  "job_by_id_for_printer codec db input printer i = Ok (Some w) \<Longrightarrow> correlates codec db input printer w"
  by (auto simp: job_by_id_for_printer_def correlates_def dest!: hydrated_first_Some find_member)

lemma by_artifact_correlates:
  "job_by_artifact codec db input printer m = Ok (Some w) \<Longrightarrow> correlates codec db input printer w"
  by (cases m) (auto simp: job_by_artifact_def correlates_def dest!: hydrated_first_Some find_member)

lemma by_submission_correlates:
  "jobs_by_submission_id codec db input printer = Ok ws \<Longrightarrow> w \<in> set ws \<Longrightarrow> correlates codec db input printer w"
  by (auto simp: jobs_by_submission_id_def correlates_def Let_def split: option.splits if_splits dest!: hydrate_member)

lemma single_file_match_mem:
  assumes "single_file_match ws input = Some w"
  shows "w \<in> set ws \<and> file_matches input w"
proof -
  let ?stalled = "\<lambda>w. jps_status (job_print (jwa_job w)) = print_status.Stalled"
  obtain xs where xs: "xs = filter (\<lambda>w. \<not> ?stalled w) (filter (file_matches input) ws)" by simp
  obtain ys where ys: "ys = filter ?stalled (filter (file_matches input) ws)" by simp
  have "xs = [w] \<or> ys = [w]"
    using assms unfolding single_file_match_def Let_def xs [symmetric] ys [symmetric]
    by (cases xs rule: remdups_adj.cases; cases ys rule: remdups_adj.cases) simp_all
  then have "w \<in> set xs \<union> set ys" by auto
  then show ?thesis by (auto simp: xs ys)
qed

lemma by_file_correlates:
  "job_by_active_file codec db input printer = Ok (Some w) \<Longrightarrow> correlates codec db input printer w"
  by (auto simp: job_by_active_file_def active_job_models_def correlates_def result_simps
      dest!: single_file_match_mem hydrate_member)

lemma correlate_job_correlates:
  assumes "correlate_job codec db input printer = Ok (Some w)"
  shows "correlates codec db input printer w"
proof -
  from assms obtain by_id where
    by_id: "(case apr_job_id input of Some i \<Rightarrow> job_by_id_for_printer codec db input printer i | None \<Rightarrow> Ok None) = Ok by_id"
    by (auto simp: correlate_job_def and_then_eq_Ok)
  show ?thesis
  proof (cases by_id)
    case None
    with assms by_id obtain matches where 2: "jobs_by_submission_id codec db input printer = Ok matches"
      by (auto simp: correlate_job_def and_then_eq_Ok)
    show ?thesis
      using assms by_id 2 None
      by (cases matches rule: remdups_adj.cases)
        (auto simp: correlate_job_def and_then_eq_Ok split: if_splits
          intro: by_artifact_correlates by_submission_correlates by_file_correlates)
  next
    case (Some w')
    with assms by_id show ?thesis
      by (auto simp: correlate_job_def split: option.splits intro: by_id_correlates)
  qed
qed

text \<open>
  C17: a report reaches only a job of the agent that sent it. Whichever way a report is correlated (by
  job id, submission, artifact or active file), the job found is a stored job of the
  report's tenant, agent and printer.
\<close>

theorem correlate_own_jobs:
  assumes "correlate_job codec db input printer = Ok (Some w)"
  shows "\<exists>j \<in> set (db_jobs db). of_reporter input printer j \<and> hydrate_one (rc_job codec) db j = Ok w"
  using correlate_job_correlates [OF assms] by (simp add: correlates_def)

subsection \<open>Events\<close>

definition has_event :: "apply_print_report \<Rightarrow> machine_event_insert \<Rightarrow> machine_event_row list \<Rightarrow> bool" where
  "has_event input e rows \<longleftrightarrow>
     (\<exists>r \<in> set rows. mer_tenant_id r = apr_tenant_id input \<and> mer_event_key r = mei_event_key e)"

definition event_key_of :: "machine_event_row \<Rightarrow> string \<times> string" where
  "event_key_of r = (mer_tenant_id r, mer_event_key r)"

lemma insert_event_known: "has_event input e rows \<Longrightarrow> insert_event fresh now input printer job e rows = (False, rows)"
  by (auto simp: insert_event_def has_event_def list_ex_iff)

lemma insert_event_effect:
  assumes "insert_event fresh now input printer job e rows = (b, rows')"
  shows "has_event input e rows'" "\<exists>new. rows' = rows @ new"
    "distinct (map event_key_of rows) \<Longrightarrow> distinct (map event_key_of rows')"
  using assms by (auto simp: insert_event_def has_event_def list_ex_iff event_key_of_def split: if_splits) fastforce

lemma insert_events_effect:
  assumes "insert_events fresh now input printer job es rows = (b, rows')"
  shows "\<forall>e \<in> set es. has_event input e rows'" "\<exists>new. rows' = rows @ new"
    "distinct (map event_key_of rows) \<Longrightarrow> distinct (map event_key_of rows')"
proof -
  have "(\<forall>e \<in> set es. has_event input e rows') \<and> (\<exists>new. rows' = rows @ new) \<and>
    (distinct (map event_key_of rows) \<longrightarrow> distinct (map event_key_of rows'))"
    using assms
  proof (induction es arbitrary: rows b)
    case (Cons e es)
    obtain c rows1 where 1: "insert_event fresh now input printer job e rows = (c, rows1)" by fastforce
    with Cons.prems obtain d where "insert_events fresh now input printer job es rows1 = (d, rows')"
      by (auto split: prod.splits)
    from insert_event_effect [OF 1] Cons.IH [OF this] show ?case by (auto simp: has_event_def)
  qed simp
  then show "\<forall>e \<in> set es. has_event input e rows'" "\<exists>new. rows' = rows @ new"
    "distinct (map event_key_of rows) \<Longrightarrow> distinct (map event_key_of rows')" by auto
qed

lemma insert_events_known:
  "\<forall>e \<in> set es. has_event input e rows \<Longrightarrow> insert_events fresh now input printer job es rows = (False, rows)"
  by (induction es) (simp_all add: insert_event_known)

text \<open>
  Events are recorded once. Inserting the events of a report leaves at most one event per key and tenant
  and keeps all earlier ones, and inserting them again, at any later time, with
  anything recorded between, adds nothing.
\<close>

lemma events_recorded_once:
  assumes "insert_events fresh now input printer job es rows = (b, rows')"
    and "distinct (map event_key_of rows)"
  shows "distinct (map event_key_of rows') \<and> (\<exists>new. rows' = rows @ new) \<and>
     insert_events fresh' now' input printer job es (rows' @ later) = (False, rows' @ later)"
proof -
  have "\<forall>e \<in> set es. has_event input e (rows' @ later)"
    using insert_events_effect(1) [OF assms(1)] by (fastforce simp: has_event_def)
  then show ?thesis using insert_events_effect(2,3) [OF assms(1)] assms(2) insert_events_known by blast
qed

section \<open>A sample report\<close>

definition sample_report :: apply_print_report where
  "sample_report =
     \<lparr>apr_tenant_id = ''t1'', apr_agent_id = ''a1'', apr_serial = ''01S00A000000001'', apr_task_id = None,
      apr_job_id = Some ''j1'', apr_print_error = None, apr_printer_job_id = None, apr_job_attr = None,
      apr_artifact_id = None, apr_subtask_id = None, apr_gcode_file = Some ''/cache/cube.3mf'',
      apr_subtask_name = None, apr_gcode_state = Some ''RUNNING'', apr_percent = Some 3,
      apr_speed_level = None, apr_remaining_time_minutes = Some 70, apr_current_layer = Some 2,
      apr_total_layers = Some 120, apr_hms = None,
      apr_diagnostics = [\<lparr>prd_kind = ''hms'', prd_severity = ''warning'', prd_code = Some ''0300_0100'',
        prd_message = ''bed'', prd_payload_json = ''{}''\<rparr>],
      apr_printer_materials_json = ''{}'', apr_observed_at = ''2026-01-01T00:05:00Z''\<rparr>"

definition sample_report_codec :: report_codec where
  "sample_report_codec =
     \<lparr>rc_job = sample_codec, rc_read_result = (\<lambda>_. None), rc_parse_time = (\<lambda>_. Some 0),
      rc_format_time = (\<lambda>_. Some ''2025-12-31T00:05:00Z''), rc_sha256_hex = id, rc_write_progress = (\<lambda>_. ''{}'')\<rparr>"

definition sample_print_db :: hub_db where
  "sample_print_db = (case sample_created of Ok (_, db) \<Rightarrow> db | Err _ \<Rightarrow> sample_jobs_db)"

definition sample_print_job :: job_with_artifact where
  "sample_print_job = (case sample_created of Ok (w, _) \<Rightarrow> w | Err _ \<Rightarrow> undefined)"

definition sample_correlated :: "job_with_artifact option repository_result" where
  "sample_correlated = correlate_job sample_report_codec sample_print_db sample_report ''p1''"

definition sample_reconciled :: "((print_update \<times> bool \<times> bool) \<times> hub_db) repository_result" where
  "sample_reconciled = reconcile_job sample_codec ''now'' ''now'' sample_report sample_print_job sample_print_db"

lemma sample_correlated_some:
  "(case sample_correlated of Ok m \<Rightarrow> m \<noteq> None | Err _ \<Rightarrow> False)"
  "is_ok sample_reconciled" "(case sample_reconciled of Ok ((_, _, wrote), _) \<Rightarrow> wrote | Err _ \<Rightarrow> False)"
  by code_simp+

lemma sample_correlated_eq: "\<exists>w. sample_correlated = Ok (Some w)"
  using sample_correlated_some(1) by (auto split: result.splits)

theorem correlate_own_jobs_witness:
  "\<exists>w. sample_correlated = Ok (Some w) \<and>
     (\<exists>j \<in> set (db_jobs sample_print_db). of_reporter sample_report ''p1'' j \<and> hydrate_one sample_codec sample_print_db j = Ok w)"
proof -
  obtain w where "sample_correlated = Ok (Some w)" using sample_correlated_eq by blast
  moreover from correlate_own_jobs [OF this [unfolded sample_correlated_def]]
  have "\<exists>j \<in> set (db_jobs sample_print_db). of_reporter sample_report ''p1'' j \<and> hydrate_one sample_codec sample_print_db j = Ok w"
    by (simp add: sample_report_codec_def)
  ultimately show ?thesis by blast
qed

definition sample_update :: print_update where
  "sample_update = reconciled_update (update_from_job sample_print_job) sample_report"

definition sample_row :: job_row where
  "sample_row = hd (db_jobs sample_print_db)"

lemma sample_row_readable:
  "is_ok (job_from_model_with_usage sample_codec (print_row_update ''now'' sample_update sample_row) [])"
  by code_simp

lemma print_state_roundtrip_witness:
  "\<exists>j. job_from_model_with_usage sample_codec (print_row_update ''now'' sample_update sample_row) [] = Ok j \<and>
     update_from_job \<lparr>jwa_job = j, jwa_artifact = jwa_artifact sample_print_job\<rparr> = sample_update"
  using print_state_roundtrip sample_row_readable unfolding is_ok_iff by blast

lemma oversized_value_unreadable_witness:
  "\<not> is_ok (job_from_model_with_usage sample_codec
     (print_row_update ''now'' (sample_update\<lparr>pu_current_layer := Some 0xFFFFFFFF\<rparr>) sample_row) [])"
  by (rule oversized_value_unreadable [where v = "0xFFFFFFFF"]) (simp_all add: u32_fields_def)

definition sample_events :: "bool \<times> machine_event_row list" where
  "sample_events = insert_job_events sample_report_codec id ''now'' sample_report ''p1'' sample_print_job sample_update []"

lemma sample_events_two: "length (snd sample_events) = 2"
  by code_simp

lemma events_recorded_once_witness:
  "distinct (map event_key_of (snd sample_events)) \<and>
   insert_job_events sample_report_codec id ''later'' sample_report ''p1'' sample_print_job sample_update (snd sample_events) =
     (False, snd sample_events)"
proof -
  obtain b rows where e: "sample_events = (b, rows)" by fastforce
  from events_recorded_once [OF e [unfolded sample_events_def insert_job_events_def], of id "''later''" "[]"]
  show ?thesis unfolding e insert_job_events_def by simp
qed

end
