(* ===== verification/Hub_Job_Control.thy ===== *)
theory Hub_Job_Control
  imports Hub_Jobs
begin

text \<open>
  What users and the hub do to existing jobs, \<open>crates/pandar-hub/src/repositories/jobs\<close>: cancel a
  Studio print (\<open>cancel.rs\<close>), retry a failed dispatch, reprint and duplicate (\<open>recovery.rs\<close>), mark
  jobs the printer never started as stalled (\<open>stalled.rs\<close>), and clear finished jobs with their
  commands and artifacts (\<open>clear.rs\<close>). Each is one transaction guarded by the
  statuses it read; the properties say which jobs and commands each may touch.

  Parameters: those of \<open>job_codec\<close>, the clock, fresh identifiers, and the RFC 3339 reader and
  writer (instants in nanoseconds). The lists a query returns are in table order unless the
  query orders them. Reading the result back after the commit is modelled with the
  operation; draining the artifact-deletion queue after a clear is not.
\<close>

section \<open>Cancelling a Studio print\<close>

definition load_job_reference ::
  "hub_db \<Rightarrow> tenant_id \<Rightarrow> studio_submission_id \<Rightarrow> job_row repository_result" where
  "load_job_reference db tenant submission =
     ok_or (find (\<lambda>j. jr_tenant_id j = tenant \<and>
        jr_studio_submission_id j = StudioSubmissionId_get submission) (db_jobs db)) MissingJob"

definition load_print_command :: "hub_db \<Rightarrow> tenant_id \<Rightarrow> command_id \<Rightarrow> command_row repository_result" where
  "load_print_command db tenant i =
     ok_or (find (\<lambda>c. cr_id c = i \<and> cr_tenant_id c = tenant \<and> cr_kind c = ''print_project_file'') (db_commands db))
       MissingCommand"

definition cancel_command_selected :: "tenant_id \<times> command_id \<Rightarrow> command_row \<Rightarrow> bool" where
  "cancel_command_selected k r \<longleftrightarrow>
     cr_id r = snd k \<and> cr_tenant_id r = fst k \<and> cr_kind r = ''print_project_file'' \<and>
     cr_status r = CommandStatus_as_str command_status.Queued"

definition cancel_command_update :: "timestamp \<Rightarrow> command_row \<Rightarrow> command_row" where
  "cancel_command_update now r =
     r\<lparr>cr_status := CommandStatus_as_str command_status.Cancelled, cr_error := None, cr_updated_at := now\<rparr>"

definition cancel_job_selected :: "tenant_id \<Rightarrow> job_row \<Rightarrow> job_row \<Rightarrow> bool" where
  "cancel_job_selected tenant job r \<longleftrightarrow>
     jr_id r = jr_id job \<and> jr_tenant_id r = tenant \<and> jr_command_id r = jr_command_id job \<and>
     jr_status r = JobStatus_as_str job_status.Queued \<and>
     jr_print_status r = PrintStatus_as_str print_status.Pending"

definition cancel_job_update :: "timestamp \<Rightarrow> job_row \<Rightarrow> job_row" where
  "cancel_job_update now r =
     r\<lparr>jr_status := JobStatus_as_str job_status.Cancelled,
       jr_print_status := PrintStatus_as_str print_status.Cancelled, jr_error := None, jr_updated_at := now\<rparr>"

text \<open>The transaction gives the id of the cancelled job.\<close>

definition cancel_tx ::
  "job_codec \<Rightarrow> timestamp \<Rightarrow> timestamp \<Rightarrow> string \<Rightarrow> tenant_id \<Rightarrow> studio_submission_id \<Rightarrow> audit_actor \<Rightarrow> hub_db \<Rightarrow>
     (string \<times> hub_db) repository_result" where
  "cancel_tx codec now now' fresh_id tenant submission actor db =
     and_then (load_job_reference db tenant submission) (\<lambda>ref.
     and_then (load_print_command db tenant (jr_command_id ref)) (\<lambda>command.
     and_then (load_job_reference db tenant submission) (\<lambda>job.
       if cr_status command = CommandStatus_as_str command_status.Cancelled \<and>
          jr_status job = JobStatus_as_str job_status.Cancelled \<and>
          jr_print_status job = PrintStatus_as_str print_status.Cancelled
       then Ok (jr_id job, db)
       else if cr_status command \<noteq> CommandStatus_as_str command_status.Queued
       then Err StudioCancellationTooLate
       else
         let (commands, n) = update_many (cancel_command_selected (tenant, jr_command_id job))
               (cancel_command_update now) (db_commands db)
         in if n \<noteq> 1 then Err StudioCancellationTooLate
            else
              let (jobs, m) = update_many (cancel_job_selected tenant job) (cancel_job_update now) (db_jobs db)
              in if m \<noteq> 1 then Err StudioCancellationTooLate
                 else and_then (map_err (\<lambda>_. Database (Message ''failed to parse cancelled Studio print job id''))
                        (JobId_parse (jc_uuid codec) (jr_id job))) (\<lambda>_.
                   Ok (jr_id job, append_audit
                         (record_audit_event (jc_audit_text codec) fresh_id now' tenant actor ''job.cancel'' ''job''
                            (Some (jr_id job)) (AuditObject []))
                         (db\<lparr>db_commands := commands, db_jobs := jobs\<rparr>))))))"

definition reload_job ::
  "job_codec \<Rightarrow> hub_db \<Rightarrow> tenant_id \<Rightarrow> string \<Rightarrow> job_with_artifact repository_result" where
  "reload_job codec db tenant i =
     and_then (map_err (\<lambda>e. Database (CoreErr e)) (JobId_parse (jc_uuid codec) i)) (\<lambda>i'.
     and_then (job_with_artifact_by_id codec db tenant i') (\<lambda>w. ok_or w MissingJob))"

definition cancel_studio_print_with_audit ::
  "job_codec \<Rightarrow> timestamp \<Rightarrow> timestamp \<Rightarrow> string \<Rightarrow> tenant_id \<Rightarrow> studio_submission_id \<Rightarrow> audit_actor \<Rightarrow> hub_db \<Rightarrow>
     job_with_artifact repository_result \<times> hub_db" where
  "cancel_studio_print_with_audit codec now now' fresh_id tenant submission actor db =
     (case cancel_tx codec now now' fresh_id tenant submission actor db of
        Err e \<Rightarrow> (Err e, db)
      | Ok (i, db') \<Rightarrow> (reload_job codec db' tenant i, db'))"

section \<open>Retrying, reprinting and duplicating\<close>

definition load_job_for_update ::
  "job_codec \<Rightarrow> hub_db \<Rightarrow> tenant_id \<Rightarrow> job_id \<Rightarrow> job_with_artifact repository_result" where
  "load_job_for_update codec db tenant i =
     (case find (\<lambda>j. jr_id j = i \<and> jr_tenant_id j = tenant) (db_jobs db) of
        None \<Rightarrow> Err MissingJob
      | Some m \<Rightarrow>
          and_then (artifact_for_job db m) (\<lambda>a.
          and_then (traverse_list (usage_from_model codec)
             (filter (\<lambda>u. ur_tenant_id u = tenant \<and> ur_job_id u = jr_id m) (db_usages db))) (\<lambda>usage.
          and_then (job_with_artifact_from_models codec m a) (\<lambda>w.
          and_then (job_from_model_with_usage codec m usage) (\<lambda>j.
            Ok (w\<lparr>jwa_job := j\<rparr>))))))"

definition load_source_command ::
  "job_codec \<Rightarrow> hub_db \<Rightarrow> job_with_artifact \<Rightarrow> command_record repository_result" where
  "load_source_command codec db source =
     and_then (traverse_option (command_from_model (jc_uuid codec))
        (find_by_id cr_id (job_command_id (jwa_job source)) (db_commands db))) (\<lambda>m. ok_or m MissingCommand)"

definition is_retry_safe :: "job_with_artifact \<Rightarrow> command_record \<Rightarrow> bool" where
  "is_retry_safe source command \<longleftrightarrow>
     (let j = jwa_job source; p = job_print (jwa_job source)
      in job_status j = job_status.Failed \<and> cmd_status command = command_status.Failed \<and>
         jps_status p = print_status.Pending \<and> jps_started_at p = None \<and>
         unwrap_or (jps_progress_percent p) 0 = 0 \<and> unwrap_or (jps_current_layer p) 0 = 0)"

definition retry_payload :: "job_codec \<Rightarrow> string \<Rightarrow> job_id \<Rightarrow> job_with_artifact \<Rightarrow> string repository_result" where
  "retry_payload codec text i source =
     (case jc_read_payload codec text of
        None \<Rightarrow> Err (Database (Message ''failed to parse retry source command payload''))
      | Some p \<Rightarrow>
          Ok (jc_write_payload codec
            (p\<lparr>ppf_job_id := i,
               ppf_artifact_download_path :=
                 artifact_download_path (job_agent_id (jwa_job source)) (art_id (jwa_artifact source))\<rparr>)))"

definition retry_job_selected :: "tenant_id \<Rightarrow> job_id \<Rightarrow> command_id \<Rightarrow> job_row \<Rightarrow> bool" where
  "retry_job_selected tenant i source_command r \<longleftrightarrow>
     jr_tenant_id r = tenant \<and> jr_id r = i \<and> jr_command_id r = source_command \<and>
     jr_status r = JobStatus_as_str job_status.Failed \<and>
     jr_print_status r = PrintStatus_as_str print_status.Pending \<and> jr_print_started_at r = None \<and>
     (jr_progress_percent r = None \<or> jr_progress_percent r = Some 0) \<and>
     (jr_current_layer r = None \<or> jr_current_layer r = Some 0)"

definition retry_job_update :: "command_id \<Rightarrow> timestamp \<Rightarrow> job_row \<Rightarrow> job_row" where
  "retry_job_update c now r =
     r\<lparr>jr_command_id := c, jr_status := JobStatus_as_str job_status.Queued, jr_error := None, jr_updated_at := now\<rparr>"

definition recovery_audit_metadata ::
  "string option \<Rightarrow> job_id \<Rightarrow> command_id \<Rightarrow> job_id \<Rightarrow> command_id \<Rightarrow> audit_metadata" where
  "recovery_audit_metadata reason source_job source_command target_job target_command =
     AuditObject
       [(''reason'', case reason of Some r \<Rightarrow> AuditString r | None \<Rightarrow> AuditNull),
        (''source_command_id'', AuditString source_command), (''source_job_id'', AuditString source_job),
        (''target_command_id'', AuditString target_command), (''target_job_id'', AuditString target_job)]"

text \<open>The three clock readings of the transaction, the new command's id and the event's id are arguments.\<close>

definition retry_tx ::
  "job_codec \<Rightarrow> timestamp \<Rightarrow> timestamp \<Rightarrow> timestamp \<Rightarrow> command_id \<Rightarrow> string \<Rightarrow> tenant_id \<Rightarrow> job_id \<Rightarrow>
     string option \<Rightarrow> audit_actor \<Rightarrow> hub_db \<Rightarrow> hub_db repository_result" where
  "retry_tx codec now now' now'' c fresh_id tenant i reason actor db =
     and_then (load_job_for_update codec db tenant i) (\<lambda>source.
     and_then (load_source_command codec db source) (\<lambda>command.
       if \<not> is_retry_safe source command then Err RetryNotSafe
       else and_then (retry_payload codec (cmd_payload_json command) i source) (\<lambda>text.
         and_then (insert_command
           \<lparr>ic_id = c, ic_tenant_id = tenant, ic_agent_id = job_agent_id (jwa_job source),
            ic_printer_id = Some (job_printer_id (jwa_job source)), ic_kind = ''print_project_file'',
            ic_payload_json = text, ic_created_at = now\<rparr> db) (\<lambda>db1.
         let (jobs, n) = update_many (retry_job_selected tenant i (job_command_id (jwa_job source)))
               (retry_job_update c now') (db_jobs db1)
         in if n \<noteq> 1 then Err RetryNotSafe
            else Ok (append_audit (record_audit_event (jc_audit_text codec) fresh_id now'' tenant actor
                       ''job.retry_dispatch'' ''job'' (Some i)
                       (recovery_audit_metadata reason i (job_command_id (jwa_job source)) i c))
                     (db1\<lparr>db_jobs := jobs\<rparr>))))))"

definition retry_dispatch_with_audit ::
  "job_codec \<Rightarrow> timestamp \<Rightarrow> timestamp \<Rightarrow> timestamp \<Rightarrow> command_id \<Rightarrow> string \<Rightarrow> tenant_id \<Rightarrow> job_id \<Rightarrow>
     string option \<Rightarrow> audit_actor \<Rightarrow> hub_db \<Rightarrow> job_with_artifact repository_result \<times> hub_db" where
  "retry_dispatch_with_audit codec now now' now'' c fresh_id tenant i reason actor db =
     (case retry_tx codec now now' now'' c fresh_id tenant i reason actor db of
        Err e \<Rightarrow> (Err e, db)
      | Ok db' \<Rightarrow> (and_then (job_with_artifact_by_id codec db' tenant i) (\<lambda>w. ok_or w MissingJob), db'))"

definition load_source_payload ::
  "job_codec \<Rightarrow> hub_db \<Rightarrow> job_with_artifact \<Rightarrow> print_project_file_payload repository_result" where
  "load_source_payload codec db source =
     and_then (ok_or (find_by_id cr_id (job_command_id (jwa_job source)) (db_commands db)) MissingCommand) (\<lambda>m.
       ok_or (jc_read_payload codec (cr_payload_json m))
         (Database (Message ''failed to parse recovery source command payload'')))"

definition create_copy_with_audit ::
  "job_codec \<Rightarrow> timestamp \<Rightarrow> timestamp \<Rightarrow> job_id \<Rightarrow> command_id \<Rightarrow> string \<Rightarrow> tenant_id \<Rightarrow> job_with_artifact \<Rightarrow>
     print_project_file_payload \<Rightarrow> duplicate_print_job option \<Rightarrow> audit_actor \<Rightarrow> string \<Rightarrow> string option \<Rightarrow> hub_db \<Rightarrow>
     (job_with_artifact \<times> hub_db) repository_result" where
  "create_copy_with_audit codec now now' i c fresh_id tenant source p overrides actor action reason db =
     and_then (create_print_job_from_artifact codec now i c
        (NewPrintJobFromArtifact_from_source source p overrides) db) (\<lambda>(created, db1).
       Ok (created, append_audit (record_audit_event (jc_audit_text codec) fresh_id now' tenant actor action ''job''
             (Some (job_id (jwa_job created)))
             (recovery_audit_metadata reason (job_id (jwa_job source)) (job_command_id (jwa_job source))
                (job_id (jwa_job created)) (job_command_id (jwa_job created)))) db1))"

definition reprintable :: "print_status \<Rightarrow> bool" where
  "reprintable s \<longleftrightarrow>
     s \<in> {print_status.Stalled, print_status.Completed, print_status.Failed, print_status.Cancelled}"

definition reprint_with_audit ::
  "job_codec \<Rightarrow> timestamp \<Rightarrow> timestamp \<Rightarrow> job_id \<Rightarrow> command_id \<Rightarrow> string \<Rightarrow> tenant_id \<Rightarrow> job_id \<Rightarrow>
     duplicate_print_job \<Rightarrow> string option \<Rightarrow> audit_actor \<Rightarrow> hub_db \<Rightarrow> (job_with_artifact \<times> hub_db) repository_result" where
  "reprint_with_audit codec now now' i c fresh_id tenant source_id input reason actor db =
     and_then (job_with_artifact_by_id codec db tenant source_id) (\<lambda>m.
     and_then (ok_or m MissingJob) (\<lambda>source.
     and_then (load_source_payload codec db source) (\<lambda>p.
       if \<not> reprintable (jps_status (job_print (jwa_job source))) then Err ReprintNotAllowed
       else create_copy_with_audit codec now now' i c fresh_id tenant source p (Some input) actor ''job.reprint'' reason db)))"

definition duplicate_and_print_with_audit ::
  "job_codec \<Rightarrow> timestamp \<Rightarrow> timestamp \<Rightarrow> job_id \<Rightarrow> command_id \<Rightarrow> string \<Rightarrow> tenant_id \<Rightarrow> job_id \<Rightarrow>
     duplicate_print_job \<Rightarrow> audit_actor \<Rightarrow> hub_db \<Rightarrow> (job_with_artifact \<times> hub_db) repository_result" where
  "duplicate_and_print_with_audit codec now now' i c fresh_id tenant source_id input actor db =
     and_then (job_with_artifact_by_id codec db tenant source_id) (\<lambda>m.
     and_then (ok_or m MissingJob) (\<lambda>source.
     and_then (load_source_payload codec db source) (\<lambda>p.
       create_copy_with_audit codec now now' i c fresh_id tenant source p (Some input) actor ''job.duplicate'' None db)))"

section \<open>Stalled jobs\<close>

definition STALLED_JOB_AGE :: int where "STALLED_JOB_AGE = 900000000000"
abbreviation STALL_SWEEP_BATCH_SIZE :: nat where "STALL_SWEEP_BATCH_SIZE \<equiv> 500"

definition not_started :: "job_row \<Rightarrow> bool" where
  "not_started j \<longleftrightarrow>
     jr_print_status j = PrintStatus_as_str print_status.Pending \<and> jr_print_started_at j = None \<and>
     (jr_progress_percent j = None \<or> jr_progress_percent j = Some 0) \<and>
     (jr_current_layer j = None \<or> jr_current_layer j = Some 0)"

definition stall_candidate :: "job_row \<Rightarrow> bool" where
  "stall_candidate j \<longleftrightarrow> jr_status j = ''succeeded'' \<and> not_started j"

definition dispatch_succeeded_at_is_stalled ::
  "(string \<Rightarrow> int option) \<Rightarrow> string \<Rightarrow> int \<Rightarrow> bool repository_result" where
  "dispatch_succeeded_at_is_stalled parse_time updated_at now =
     (case parse_time updated_at of
        None \<Rightarrow> Err (Database (Message ''failed to parse dispatch completion time for command''))
      | Some t \<Rightarrow> Ok (t < now - STALLED_JOB_AGE))"

definition possibly_aged_commands :: "string \<Rightarrow> hub_db \<Rightarrow> command_row list" where
  "possibly_aged_commands cutoff db =
     take STALL_SWEEP_BATCH_SIZE
       (order_by (\<lambda>a b. text_less (cr_updated_at a) (cr_updated_at b))
          [c. j \<leftarrow> db_jobs db, c \<leftarrow> db_commands db,
              cr_id c = jr_command_id j \<and> stall_candidate j \<and> cr_kind c = ''print_project_file'' \<and>
              cr_status c = ''succeeded'' \<and> text_less (cr_updated_at c) cutoff])"

fun aged_command_ids ::
  "(string \<Rightarrow> int option) \<Rightarrow> int \<Rightarrow> command_row list \<Rightarrow> string list repository_result" where
  "aged_command_ids parse_time now [] = Ok []"
| "aged_command_ids parse_time now (c # cs) =
     and_then (dispatch_succeeded_at_is_stalled parse_time (cr_updated_at c) now) (\<lambda>stalled.
     and_then (aged_command_ids parse_time now cs) (\<lambda>ids. Ok (if stalled then cr_id c # ids else ids)))"

definition stalled_update :: "job_row \<Rightarrow> job_row" where
  "stalled_update j = j\<lparr>jr_print_status := PrintStatus_as_str print_status.Stalled\<rparr>"

definition mark_stalled_pending_jobs ::
  "job_codec \<Rightarrow> (string \<Rightarrow> int option) \<Rightarrow> (int \<Rightarrow> string option) \<Rightarrow> string \<Rightarrow> hub_db \<Rightarrow>
     (job_with_artifact list \<times> hub_db) repository_result" where
  "mark_stalled_pending_jobs codec parse_time format_time now db =
     and_then (ok_or (parse_time now) (Database (Message ''failed to parse pending print stall sweep time''))) (\<lambda>now_at.
     and_then (ok_or (format_time (now_at - STALLED_JOB_AGE + 1000000000))
        (Database (Message ''failed to format pending print stall query cutoff''))) (\<lambda>cutoff.
     and_then (aged_command_ids parse_time now_at (possibly_aged_commands cutoff db)) (\<lambda>aged.
       if aged = [] then Ok ([], db)
       else
         let stalled = filter (\<lambda>j. stall_candidate j \<and> jr_command_id j \<in> set aged) (db_jobs db)
         in if stalled = [] then Ok ([], db)
            else
              let (jobs, n) = update_many (\<lambda>j. jr_id j \<in> set (map jr_id stalled) \<and>
                    jr_print_status j = PrintStatus_as_str print_status.Pending) stalled_update (db_jobs db)
              in if n \<noteq> length stalled
                 then Err (Database (Message ''pending print stall update changed a different number of jobs''))
                 else and_then (hydrate_jobs_with_artifacts codec (db\<lparr>db_jobs := jobs\<rparr>) (map stalled_update stalled)) (\<lambda>ws.
                   Ok (ws, db\<lparr>db_jobs := jobs\<rparr>)))))"

section \<open>Clearing jobs\<close>

datatype clear_scope = ClearTenant | ClearJob string

record clear_jobs_outcome =
  deleted_jobs :: nat
  retained_jobs :: nat
  deleted_commands :: nat
  deleted_artifacts :: nat
  deleted_artifact_bytes :: nat

definition clearable_job ::
  "(string \<Rightarrow> int option) \<Rightarrow> int \<Rightarrow> job_row \<Rightarrow> command_row \<Rightarrow> bool repository_result" where
  "clearable_job parse_time now job command =
     (if \<not> terminal_text (jr_status job) \<or> \<not> terminal_text (cr_status command) \<or>
         cr_kind command \<noteq> ''print_project_file'' then Ok False
      else if jr_print_status job \<in> {''stalled'', ''completed'', ''failed'', ''cancelled''} then Ok True
      else if jr_print_status job = ''pending'' \<and> jr_print_started_at job = None \<and>
              unwrap_or (jr_progress_percent job) 0 = 0 \<and> unwrap_or (jr_current_layer job) 0 = 0 then
        (if jr_status job = ''failed'' then Ok True
         else if jr_status job = ''succeeded'' \<and> cr_status command = ''succeeded''
         then dispatch_succeeded_at_is_stalled parse_time (cr_updated_at command) now
         else Ok False)
      else Ok False)"

definition clearable_id ::
  "(string \<Rightarrow> int option) \<Rightarrow> int \<Rightarrow> command_row list \<Rightarrow> job_row \<Rightarrow> string option repository_result" where
  "clearable_id parse_time now commands job =
     (case find_by_id cr_id (jr_command_id job) commands of
        None \<Rightarrow> Ok None
      | Some c \<Rightarrow>
          and_then (clearable_job parse_time now job c) (\<lambda>b. Ok (if b then Some (jr_id job) else None)))"

definition delete_unreferenced_commands ::
  "command_row list \<Rightarrow> string list \<Rightarrow> hub_db \<Rightarrow> nat \<times> hub_db" where
  "delete_unreferenced_commands commands clearable db =
     (let candidates = map cr_id (filter (\<lambda>c. cr_kind c = ''print_project_file'' \<and> terminal_text (cr_status c)) commands)
      in if candidates = [] \<or> clearable = [] then (0, db)
         else
           let referenced = map jr_command_id (filter (\<lambda>j. jr_command_id j \<in> set candidates) (db_jobs db));
               delete_ids = filter (\<lambda>i. i \<notin> set referenced) candidates
           in (length (filter (\<lambda>c. cr_id c \<in> set delete_ids) (db_commands db)),
               db\<lparr>db_commands := filter (\<lambda>c. cr_id c \<notin> set delete_ids) (db_commands db)\<rparr>))"

text \<open>
  Queueing a path that is queued already violates the key of the queue. The violation is skipped, but on PostgreSQL it has aborted
  the transaction: the next statement fails, and every caller executes one.
\<close>

definition queue_path :: "string \<Rightarrow> hub_db \<Rightarrow> hub_db" where
  "queue_path path db =
     (if path \<in> set (db_artifact_deletions db) then db
      else db\<lparr>db_artifact_deletions := db_artifact_deletions db @ [path]\<rparr>)"

definition enqueue_deletion :: "db_backend \<Rightarrow> string \<Rightarrow> hub_db \<Rightarrow> hub_db repository_result" where
  "enqueue_deletion backend path db =
     (if backend = Postgres \<and> path \<in> set (db_artifact_deletions db)
      then Err (Database (Message ''current transaction is aborted''))
      else Ok (queue_path path db))"

fun enqueue_deletions :: "db_backend \<Rightarrow> string list \<Rightarrow> hub_db \<Rightarrow> hub_db repository_result" where
  "enqueue_deletions backend [] db = Ok db"
| "enqueue_deletions backend (path # paths) db =
     and_then (enqueue_deletion backend path db) (enqueue_deletions backend paths)"

definition count_metadata :: "clear_jobs_outcome \<Rightarrow> (string \<times> audit_metadata) list" where
  "count_metadata out =
     [(''deleted_artifact_bytes'', AuditNumber (PosInt (of_nat (deleted_artifact_bytes out)))),
      (''deleted_artifacts'', AuditNumber (PosInt (of_nat (deleted_artifacts out)))),
      (''deleted_commands'', AuditNumber (PosInt (of_nat (deleted_commands out)))),
      (''deleted_jobs'', AuditNumber (PosInt (of_nat (deleted_jobs out)))),
      (''retained_jobs'', AuditNumber (PosInt (of_nat (retained_jobs out))))]"

definition delete_job_context :: "job_row \<Rightarrow> artifact_row \<Rightarrow> (string \<times> audit_metadata) list" where
  "delete_job_context job artifact =
     [(''job_id'', AuditString (jr_id job)), (''artifact_id'', AuditString (jr_artifact_id job)),
      (''artifact_filename'', AuditString (fr_filename artifact)),
      (''printer_id'', AuditString (jr_printer_id job)), (''agent_id'', AuditString (jr_agent_id job)),
      (''command_id'', AuditString (jr_command_id job)),
      (''previous_dispatch_status'', AuditString (jr_status job)),
      (''previous_print_status'', AuditString (jr_print_status job))]"

definition clear_audit ::
  "job_codec \<Rightarrow> string \<Rightarrow> timestamp \<Rightarrow> tenant_id \<Rightarrow> audit_actor \<Rightarrow> clear_scope \<Rightarrow>
     (string \<times> audit_metadata) list \<Rightarrow> clear_jobs_outcome \<Rightarrow> audit_event" where
  "clear_audit codec fresh_id now tenant actor scope context out =
     (case scope of
        ClearTenant \<Rightarrow>
          record_audit_event (jc_audit_text codec) fresh_id now tenant actor ''job.clear'' ''job_collection'' None
            (AuditObject (count_metadata out))
      | ClearJob i \<Rightarrow>
          record_audit_event (jc_audit_text codec) fresh_id now tenant actor ''job.delete'' ''job'' (Some i)
            (AuditObject (btree_extend context (count_metadata out))))"

definition locked_tenant_jobs :: "hub_db \<Rightarrow> tenant_id \<Rightarrow> job_row list" where
  "locked_tenant_jobs db tenant = filter (\<lambda>j. jr_tenant_id j = tenant) (db_jobs db)"

definition locked_commands :: "hub_db \<Rightarrow> command_id list \<Rightarrow> command_row list" where
  "locked_commands db ids = filter (\<lambda>c. cr_id c \<in> set ids) (db_commands db)"

definition locked_artifacts :: "hub_db \<Rightarrow> tenant_id \<Rightarrow> string list \<Rightarrow> artifact_row list" where
  "locked_artifacts db tenant ids = filter (\<lambda>a. fr_tenant_id a = tenant \<and> fr_id a \<in> set ids) (db_artifacts db)"

text \<open>The ids of the jobs to clear, a set in the code: a list without repetitions here.\<close>

definition clearable_ids ::
  "(string \<Rightarrow> int option) \<Rightarrow> int \<Rightarrow> job_row list \<Rightarrow> command_row list \<Rightarrow> job_id option \<Rightarrow> job_id list repository_result" where
  "clearable_ids parse_time now tenant_jobs commands target =
     (if is_some_and (\<lambda>i. i \<notin> jr_id ` set tenant_jobs) target then Err MissingJob
      else and_then (traverse_list (clearable_id parse_time now commands) tenant_jobs) (\<lambda>ids.
        let all_ids = remdups [i. Some i \<leftarrow> ids]
        in case target of
             None \<Rightarrow> Ok all_ids
           | Some i \<Rightarrow> if i \<notin> set all_ids then Err JobNotClearable else Ok (filter (\<lambda>x. x = i) all_ids)))"

text \<open>
  The two \<open>expect\<close>s (the target job and its artifact were locked just before) panic, which
  drops the transaction; they are errors here.
\<close>

definition delete_audit_context ::
  "job_row list \<Rightarrow> artifact_row list \<Rightarrow> job_id option \<Rightarrow> (string \<times> audit_metadata) list repository_result" where
  "delete_audit_context tenant_jobs candidate_artifacts target =
     (case target of
        None \<Rightarrow> Ok []
      | Some i \<Rightarrow>
          and_then (ok_or (find (\<lambda>j. jr_id j = i) tenant_jobs) (Database (Message ''locked target job exists''))) (\<lambda>j.
          and_then (ok_or (find (\<lambda>a. fr_id a = jr_artifact_id j) candidate_artifacts)
            (Database (Message ''locked target artifact exists''))) (\<lambda>a.
            Ok (delete_job_context j a))))"

text \<open>Artifacts of cleared jobs that no other job, of any tenant, refers to.\<close>

definition orphan_artifact_ids :: "hub_db \<Rightarrow> job_id list \<Rightarrow> string list \<Rightarrow> string list" where
  "orphan_artifact_ids db clearable candidates =
     (let references = filter (\<lambda>j. jr_artifact_id j \<in> set candidates) (db_jobs db)
      in filter (\<lambda>a. list_all (\<lambda>j. jr_id j \<in> set clearable) (filter (\<lambda>j. jr_artifact_id j = a) references)) candidates)"

definition delete_jobs :: "tenant_id \<Rightarrow> job_id list \<Rightarrow> hub_db \<Rightarrow> nat \<times> hub_db" where
  "delete_jobs tenant ids db =
     (let gone = (\<lambda>j. jr_tenant_id j = tenant \<and> jr_id j \<in> set ids)
      in (length (filter gone (db_jobs db)), delete_job_rows gone db))"

definition delete_artifact_rows :: "tenant_id \<Rightarrow> string list \<Rightarrow> hub_db \<Rightarrow> nat \<times> hub_db" where
  "delete_artifact_rows tenant ids db =
     (let gone = (\<lambda>a. fr_tenant_id a = tenant \<and> fr_id a \<in> set ids)
      in (length (filter gone (db_artifacts db)), db\<lparr>db_artifacts := filter (\<lambda>a. \<not> gone a) (db_artifacts db)\<rparr>))"

text \<open>No job refers to the commands and artifacts deleted here, so nothing cascades from them.\<close>

definition clear_delete ::
  "db_backend \<Rightarrow> tenant_id \<Rightarrow> job_row list \<Rightarrow> command_row list \<Rightarrow> artifact_row list \<Rightarrow> string list \<Rightarrow> job_id list \<Rightarrow> hub_db \<Rightarrow>
     (clear_jobs_outcome \<times> hub_db) repository_result" where
  "clear_delete backend tenant tenant_jobs commands candidate_artifacts orphan_ids clearable db =
     (let orphans = filter (\<lambda>a. fr_id a \<in> set orphan_ids) candidate_artifacts
      in and_then (enqueue_deletions backend (map fr_storage_path orphans) db) (\<lambda>db1.
      let (n_jobs, db2) = delete_jobs tenant clearable db1;
          (n_commands, db3) = delete_unreferenced_commands commands clearable db2;
          (n_artifacts, db4) = delete_artifact_rows tenant orphan_ids db3
      in Ok (\<lparr>deleted_jobs = n_jobs, retained_jobs = length tenant_jobs - length clearable,
           deleted_commands = n_commands, deleted_artifacts = n_artifacts,
           deleted_artifact_bytes = sum_list (map (\<lambda>a. nat (max (fr_size_bytes a) 0)) orphans)\<rparr>, db4)))"

text \<open>The transaction of \<open>clear_with_audit\<close>.\<close>

definition clear_tx ::
  "db_backend \<Rightarrow> job_codec \<Rightarrow> (string \<Rightarrow> int option) \<Rightarrow> int \<Rightarrow> timestamp \<Rightarrow> string \<Rightarrow> tenant_id \<Rightarrow> clear_scope \<Rightarrow> audit_actor \<Rightarrow>
     hub_db \<Rightarrow> (clear_jobs_outcome \<times> hub_db) repository_result" where
  "clear_tx backend codec parse_time now ev_now fresh_id tenant scope actor db =
     (let tenant_jobs = locked_tenant_jobs db tenant;
          commands = locked_commands db (map jr_command_id tenant_jobs);
          target = (case scope of ClearTenant \<Rightarrow> None | ClearJob i \<Rightarrow> Some i)
      in and_then (clearable_ids parse_time now tenant_jobs commands target) (\<lambda>clearable.
         let candidates = remdups (map jr_artifact_id (filter (\<lambda>j. jr_id j \<in> set clearable) tenant_jobs));
             candidate_artifacts = locked_artifacts db tenant candidates
         in and_then (delete_audit_context tenant_jobs candidate_artifacts target) (\<lambda>context.
         and_then (clear_delete backend tenant tenant_jobs commands candidate_artifacts
                     (orphan_artifact_ids db clearable candidates) clearable db) (\<lambda>(out, db').
            Ok (out, append_audit (clear_audit codec fresh_id ev_now tenant actor scope context out) db')))))"

section \<open>Properties\<close>

text \<open>The successful runs of each transaction, and what they did to the tables.\<close>

lemma append_audit_tables [simp]:
  "db_commands (append_audit e db) = db_commands db" "db_jobs (append_audit e db) = db_jobs db"
  by (simp_all add: append_audit_def)

abbreviation cancel_command_step :: "timestamp \<Rightarrow> tenant_id \<Rightarrow> job_row \<Rightarrow> command_row \<Rightarrow> command_row" where
  "cancel_command_step now tenant job r \<equiv>
     if cancel_command_selected (tenant, jr_command_id job) r then cancel_command_update now r else r"

abbreviation cancel_job_step :: "timestamp \<Rightarrow> tenant_id \<Rightarrow> job_row \<Rightarrow> job_row \<Rightarrow> job_row" where
  "cancel_job_step now tenant job r \<equiv> if cancel_job_selected tenant job r then cancel_job_update now r else r"

lemma cancel_tx_Ok:
  assumes "cancel_tx codec now now' ev tenant submission actor db = Ok (i, db')"
  obtains (already) job where "load_job_reference db tenant submission = Ok job" "i = jr_id job" "db' = db"
      "jr_status job = ''cancelled''" "jr_print_status job = ''cancelled''"
  | (performed) job command where "load_job_reference db tenant submission = Ok job" "i = jr_id job"
      "load_print_command db tenant (jr_command_id job) = Ok command" "cr_status command = ''queued''"
      "length (filter (cancel_command_selected (tenant, jr_command_id job)) (db_commands db)) = 1"
      "length (filter (cancel_job_selected tenant job) (db_jobs db)) = 1"
      "db_commands db' = map (cancel_command_step now tenant job) (db_commands db)"
      "db_jobs db' = map (cancel_job_step now tenant job) (db_jobs db)"
      "db_artifacts db' = db_artifacts db" "db_audit db' = db_audit db @ [record_audit_event (jc_audit_text codec) ev now' tenant actor
          ''job.cancel'' ''job'' (Some (jr_id job)) (AuditObject [])]"
proof -
  from assms obtain job command where j: "load_job_reference db tenant submission = Ok job"
    and c: "load_print_command db tenant (jr_command_id job) = Ok command"
    by (auto simp: cancel_tx_def result_simps)
  show thesis
    using assms already [OF j] performed [OF j _ c]
    by (auto simp: cancel_tx_def j c update_many_def Let_def result_simps append_audit_def split: if_splits)
qed

abbreviation retry_job_step ::
  "timestamp \<Rightarrow> tenant_id \<Rightarrow> job_id \<Rightarrow> command_id \<Rightarrow> command_id \<Rightarrow> job_row \<Rightarrow> job_row" where
  "retry_job_step now tenant i s c r \<equiv> if retry_job_selected tenant i s r then retry_job_update c now r else r"

lemma retry_tx_Ok:
  assumes "retry_tx codec now now' now'' c ev tenant i reason actor db = Ok db'"
  obtains source command body cmd where "load_job_for_update codec db tenant i = Ok source"
    "load_source_command codec db source = Ok command" "is_retry_safe source command"
    "retry_payload codec (cmd_payload_json command) i source = Ok body"
    "c \<notin> cr_id ` set (db_commands db)" "db_commands db' = db_commands db @ [cmd]"
    "cmd = \<lparr>cr_id = c, cr_tenant_id = tenant, cr_agent_id = job_agent_id (jwa_job source),
       cr_printer_id = Some (job_printer_id (jwa_job source)), cr_kind = ''print_project_file'',
       cr_status = ''queued'', cr_payload_json = body, cr_result_json = None, cr_error = None,
       cr_created_at = now, cr_updated_at = now\<rparr>"
    "db_jobs db' = map (retry_job_step now' tenant i (job_command_id (jwa_job source)) c) (db_jobs db)"
    "length (filter (retry_job_selected tenant i (job_command_id (jwa_job source))) (db_jobs db)) = 1"
proof -
  from assms obtain source command body where l: "load_job_for_update codec db tenant i = Ok source"
    "load_source_command codec db source = Ok command" "is_retry_safe source command"
    "retry_payload codec (cmd_payload_json command) i source = Ok body"
    by (auto simp: retry_tx_def result_simps split: if_splits)
  show thesis
    using assms that [OF l]
    by (auto simp: retry_tx_def l insert_command_def insert_with_status_def update_many_def Let_def result_simps
        append_audit_def split: if_splits)
qed

definition stall_selected :: "string list \<Rightarrow> hub_db \<Rightarrow> job_row \<Rightarrow> bool" where
  "stall_selected aged db j \<longleftrightarrow>
     jr_id j \<in> set (map jr_id (filter (\<lambda>j. stall_candidate j \<and> jr_command_id j \<in> set aged) (db_jobs db))) \<and>
     jr_print_status j = PrintStatus_as_str print_status.Pending"

abbreviation stall_step :: "string list \<Rightarrow> hub_db \<Rightarrow> job_row \<Rightarrow> job_row" where
  "stall_step aged db j \<equiv> if stall_selected aged db j then stalled_update j else j"

lemma mark_stalled_Ok:
  assumes "mark_stalled_pending_jobs codec pt ft now db = Ok (ws, db')"
  obtains (none) "db' = db" "ws = []"
  | (some) now_at cutoff aged where "pt now = Some now_at" "ft (now_at - STALLED_JOB_AGE + 1000000000) = Some cutoff"
      "aged_command_ids pt now_at (possibly_aged_commands cutoff db) = Ok aged"
      "db' = db\<lparr>db_jobs := map (stall_step aged db) (db_jobs db)\<rparr>"
proof -
  from assms obtain now_at cutoff aged where l: "pt now = Some now_at"
    "ft (now_at - STALLED_JOB_AGE + 1000000000) = Some cutoff"
    "aged_command_ids pt now_at (possibly_aged_commands cutoff db) = Ok aged"
    by (auto simp: mark_stalled_pending_jobs_def result_simps)
  have "(db' = db \<and> ws = []) \<or> db' = db\<lparr>db_jobs := map (stall_step aged db) (db_jobs db)\<rparr>"
    using assms unfolding mark_stalled_pending_jobs_def Let_def stall_selected_def [symmetric]
    by (auto simp: l update_many_def result_simps split: if_splits)
  then show thesis using none some [OF l] by blast
qed

lemma enqueue_deletions_Ok: "enqueue_deletions backend ps db = Ok db' \<Longrightarrow> db' = fold queue_path ps db"
  by (induction ps arbitrary: db) (auto simp: enqueue_deletion_def result_simps split: if_splits)

lemma queue_path_tables [simp]:
  "db_jobs (queue_path p db) = db_jobs db" "db_commands (queue_path p db) = db_commands db"
  "db_artifacts (queue_path p db) = db_artifacts db" "db_usages (queue_path p db) = db_usages db"
  "set (db_artifact_deletions (queue_path p db)) = insert p (set (db_artifact_deletions db))"
  by (auto simp: queue_path_def)

lemma queue_paths_tables [simp]:
  "db_jobs (fold queue_path ps db) = db_jobs db" "db_commands (fold queue_path ps db) = db_commands db"
  "db_artifacts (fold queue_path ps db) = db_artifacts db" "db_usages (fold queue_path ps db) = db_usages db"
  "set (db_artifact_deletions (fold queue_path ps db)) = set (db_artifact_deletions db) \<union> set ps"
  by (induction ps arbitrary: db) simp_all

lemma clear_tx_Ok:
  assumes "clear_tx backend codec pt now_at ev_now ev tenant scope actor db = Ok (out, db')"
  obtains clearable candidates db4 where
    "clearable_ids pt now_at (locked_tenant_jobs db tenant)
       (locked_commands db (map jr_command_id (locked_tenant_jobs db tenant)))
       (case scope of ClearTenant \<Rightarrow> None | ClearJob i \<Rightarrow> Some i) = Ok clearable"
    "candidates = remdups (map jr_artifact_id (filter (\<lambda>j. jr_id j \<in> set clearable) (locked_tenant_jobs db tenant)))"
    "clear_delete backend tenant (locked_tenant_jobs db tenant)
       (locked_commands db (map jr_command_id (locked_tenant_jobs db tenant)))
       (locked_artifacts db tenant candidates) (orphan_artifact_ids db clearable candidates) clearable db = Ok (out, db4)"
    "db_jobs db' = db_jobs db4" "db_commands db' = db_commands db4" "db_artifacts db' = db_artifacts db4"
proof -
  from assms obtain clearable where c: "clearable_ids pt now_at (locked_tenant_jobs db tenant)
       (locked_commands db (map jr_command_id (locked_tenant_jobs db tenant)))
       (case scope of ClearTenant \<Rightarrow> None | ClearJob i \<Rightarrow> Some i) = Ok clearable"
    by (auto simp: clear_tx_def Let_def result_simps)
  define candidates where
    "candidates = remdups (map jr_artifact_id (filter (\<lambda>j. jr_id j \<in> set clearable) (locked_tenant_jobs db tenant)))"
  show thesis
    using assms that [OF c candidates_def]
    by (auto simp: clear_tx_def Let_def c result_simps append_audit_def candidates_def [symmetric])
qed

lemma clear_delete_tables:
  assumes "clear_delete backend tenant jobs commands artifacts orphans clearable db = Ok (out, db')"
  shows "db_jobs db' = filter (\<lambda>j. \<not> (jr_tenant_id j = tenant \<and> jr_id j \<in> set clearable)) (db_jobs db)"
    "db_commands db' = db_commands (snd (delete_unreferenced_commands commands clearable (db\<lparr>db_jobs := db_jobs db'\<rparr>)))"
    "db_artifacts db' = filter (\<lambda>a. \<not> (fr_tenant_id a = tenant \<and> fr_id a \<in> set orphans)) (db_artifacts db)"
    "set (db_artifact_deletions db') =
       set (db_artifact_deletions db) \<union> fr_storage_path ` set (filter (\<lambda>a. fr_id a \<in> set orphans) artifacts)"
  using assms
  by (auto simp: clear_delete_def result_simps Let_def delete_jobs_def delete_artifact_rows_def delete_unreferenced_commands_def
      split: prod.splits if_splits dest!: enqueue_deletions_Ok)

lemma delete_unreferenced_tables:
  "db_jobs (snd (delete_unreferenced_commands commands clearable db)) = db_jobs db"
  "db_artifacts (snd (delete_unreferenced_commands commands clearable db)) = db_artifacts db"
  "db_commands (snd (delete_unreferenced_commands commands clearable db)) =
     filter (\<lambda>c. \<not> (clearable \<noteq> [] \<and>
       cr_id c \<in> cr_id ` {c \<in> set commands. cr_kind c = ''print_project_file'' \<and> terminal_text (cr_status c)} \<and>
       cr_id c \<notin> jr_command_id ` set (db_jobs db))) (db_commands db)"
proof -
  let ?candidates = "map cr_id (filter (\<lambda>c. cr_kind c = ''print_project_file'' \<and> terminal_text (cr_status c)) commands)"
  let ?referenced = "map jr_command_id (filter (\<lambda>j. jr_command_id j \<in> set ?candidates) (db_jobs db))"
  let ?P = "\<lambda>c. clearable \<noteq> [] \<and>
       cr_id c \<in> cr_id ` {c \<in> set commands. cr_kind c = ''print_project_file'' \<and> terminal_text (cr_status c)} \<and>
       cr_id c \<notin> jr_command_id ` set (db_jobs db)"
  have eq: "cr_id c \<in> set (filter (\<lambda>i. i \<notin> set ?referenced) ?candidates) \<longleftrightarrow> ?P c" if "clearable \<noteq> []" for c
    using that by (simp add: image_restricted)
  show "db_commands (snd (delete_unreferenced_commands commands clearable db)) = filter (\<lambda>c. \<not> ?P c) (db_commands db)"
  proof (cases "?candidates = [] \<or> clearable = []")
    case True
    then have "\<not> ?P c" for c by (auto simp: filter_empty_conv)
    then have "filter (\<lambda>c. \<not> ?P c) (db_commands db) = db_commands db" by (intro filter_True) blast
    then show ?thesis using True unfolding delete_unreferenced_commands_def Let_def by (simp only: if_True snd_conv)
  next
    case False
    then have "clearable \<noteq> []" by blast
    note eq = eq [OF this]
    show ?thesis
      using False unfolding delete_unreferenced_commands_def Let_def
      by (simp only: if_False snd_conv eq) simp
  qed
qed (simp_all add: delete_unreferenced_commands_def Let_def)

lemma clear_tables:
  assumes "clear_tx backend codec pt now_at ev_now ev tenant scope actor db = Ok (out, db')"
  shows "\<exists>keep_cmd clearable. db_jobs db' =
       filter (\<lambda>j. \<not> (jr_tenant_id j = tenant \<and> jr_id j \<in> set clearable)) (db_jobs db) \<and>
     db_commands db' = filter keep_cmd (db_commands db) \<and>
     (\<forall>c \<in> set (db_commands db). \<not> keep_cmd c \<longrightarrow>
        (\<exists>c' \<in> set (db_commands db). cr_id c' = cr_id c \<and> terminal_text (cr_status c') \<and>
            cr_kind c' = ''print_project_file'') \<and>
        (\<exists>j \<in> set (db_jobs db). jr_tenant_id j = tenant \<and> jr_command_id j = cr_id c) \<and>
        (\<forall>j \<in> set (db_jobs db'). jr_command_id j \<noteq> cr_id c))"
  using assms
proof (cases rule: clear_tx_Ok)
  case (1 clearable candidates db4)
  let ?commands = "locked_commands db (map jr_command_id (locked_tenant_jobs db tenant))"
  define keep where "keep = (\<lambda>c :: command_row. \<not> (clearable \<noteq> [] \<and>
      cr_id c \<in> cr_id ` {c \<in> set ?commands. cr_kind c = ''print_project_file'' \<and> terminal_text (cr_status c)} \<and>
      cr_id c \<notin> jr_command_id ` set (db_jobs db')))"
  have jobs: "db_jobs db' = filter (\<lambda>j. \<not> (jr_tenant_id j = tenant \<and> jr_id j \<in> set clearable)) (db_jobs db)"
    using clear_delete_tables(1) [OF 1(3)] 1(4) by simp
  have "db_commands db' = filter keep (db_commands db)"
    using clear_delete_tables(2) [OF 1(3)] 1(4,5) by (simp add: delete_unreferenced_tables keep_def)
  moreover have "(\<exists>c' \<in> set (db_commands db). cr_id c' = cr_id c \<and> terminal_text (cr_status c') \<and>
            cr_kind c' = ''print_project_file'') \<and>
        (\<exists>j \<in> set (db_jobs db). jr_tenant_id j = tenant \<and> jr_command_id j = cr_id c) \<and>
        (\<forall>j \<in> set (db_jobs db'). jr_command_id j \<noteq> cr_id c)" if "\<not> keep c" for c
  proof -
    from that obtain c' where "c' \<in> set ?commands" "cr_id c' = cr_id c" "terminal_text (cr_status c')"
      "cr_kind c' = ''print_project_file''" and n: "cr_id c \<notin> jr_command_id ` set (db_jobs db')"
      unfolding keep_def by auto
    then show ?thesis unfolding locked_commands_def locked_tenant_jobs_def by (auto intro: n [THEN notE] rev_image_eqI)
  qed
  ultimately show ?thesis using jobs by blast
qed

lemma load_job_reference_Ok:
  assumes "load_job_reference db tenant submission = Ok j"
  shows "j \<in> set (db_jobs db)" "jr_tenant_id j = tenant"
    "jr_studio_submission_id j = StudioSubmissionId_get submission"
  using assms by (auto simp: load_job_reference_def result_simps find_Some_iff)

text \<open>
  C14: cancelling stops exactly one print that was not dispatched. On success either nothing
  changes, since the print was already cancelled, or the command of the job with this submission
  id was queued and is now cancelled, the job was queued and pending and is now cancelled, and
  no other command and no other job changes.
\<close>

theorem cancel_only_queued:
  assumes "cancel_tx codec now now' ev tenant submission actor db = Ok (i, db')" "keys_ok db"
  shows "\<exists>job. job \<in> set (db_jobs db) \<and> jr_id job = i \<and> jr_tenant_id job = tenant \<and>
     jr_studio_submission_id job = StudioSubmissionId_get submission \<and>
     ((db' = db \<and> jr_status job = ''cancelled'' \<and> jr_print_status job = ''cancelled'') \<or>
      (\<exists>c. command_at db (jr_command_id job) = Some c \<and> cr_status c = ''queued'' \<and> cr_tenant_id c = tenant \<and>
         jr_status job = ''queued'' \<and> jr_print_status job = ''pending'' \<and>
         command_at db' (jr_command_id job) = Some (c\<lparr>cr_status := ''cancelled'', cr_error := None, cr_updated_at := now\<rparr>) \<and>
         job_at db' i = Some (job\<lparr>jr_status := ''cancelled'', jr_print_status := ''cancelled'', jr_error := None,
           jr_updated_at := now\<rparr>) \<and>
         (\<forall>k. k \<noteq> jr_command_id job \<longrightarrow> command_at db' k = command_at db k) \<and>
         (\<forall>k. k \<noteq> i \<longrightarrow> job_at db' k = job_at db k)))"
  using assms(1)
proof (cases rule: cancel_tx_Ok)
  case (already job)
  then show ?thesis using load_job_reference_Ok [OF already(1)] by auto
next
  case (performed job command)
  note j = load_job_reference_Ok [OF performed(1)]
  have d: "distinct (map cr_id (db_commands db))" "distinct (map jr_id (db_jobs db))"
    using assms(2) by (simp_all add: keys_ok_def)
  have c: "command \<in> set (db_commands db)" "cr_id command = jr_command_id job" "cr_tenant_id command = tenant"
      "cr_kind command = ''print_project_file''"
    using performed(3) by (auto simp: load_print_command_def result_simps find_Some_iff)
  have sel: "cancel_command_selected (tenant, jr_command_id job) command"
    using c performed(4) by (simp add: cancel_command_selected_def)
  have selj: "cancel_job_selected tenant job job"
    using filter_one_key [OF d(2) performed(6) [unfolded cancel_job_selected_def, simplified] j(1) refl]
    by (simp add: cancel_job_selected_def)
  have cs: "command_at db' k = map_option (cancel_command_step now tenant job) (command_at db k)" for k
    unfolding performed(7) by (rule find_by_id_map) (simp add: cancel_command_update_def)
  have js: "job_at db' k = map_option (cancel_job_step now tenant job) (job_at db k)" for k
    unfolding performed(8) by (rule find_by_id_map) (simp add: cancel_job_update_def)
  have at: "command_at db (jr_command_id job) = Some command" "job_at db i = Some job"
    using c(1,2) j(1) performed(2) by (simp_all add: find_by_id_eq_Some [OF d(1)] find_by_id_eq_Some [OF d(2)])
  have "command_at db' k = command_at db k" if "k \<noteq> jr_command_id job" for k
    unfolding cs using that by (cases "command_at db k") (auto simp: cancel_command_selected_def dest: find_by_id_Some)
  moreover have "job_at db' k = job_at db k" if "k \<noteq> i" for k
    unfolding js using that performed(2) by (cases "job_at db k") (auto simp: cancel_job_selected_def dest: find_by_id_Some)
  ultimately show ?thesis
    using at c(3) performed(2,4) j sel selj cs [of "jr_command_id job"] js [of i]
    by (auto simp: cancel_job_selected_def cancel_job_update_def cancel_command_update_def)
qed

definition sample_created_db :: hub_db where
  "sample_created_db = (case sample_created of Ok (_, db) \<Rightarrow> db | Err _ \<Rightarrow> sample_jobs_db)"

definition sample_cancelled :: "(string \<times> hub_db) repository_result" where
  "sample_cancelled = cancel_tx sample_codec ''2026-01-02T00:00:00Z'' ''2026-01-02T00:00:00Z'' ''e1'' ''t1''
     (StudioSubmissionId 1) (AuditActor_user ''u1'') sample_created_db"

lemma sample_cancelled_ok: "is_ok sample_cancelled" "keys_ok sample_created_db"
  by code_simp+

theorem cancel_only_queued_witness:
  "\<exists>i db' job. sample_cancelled = Ok (i, db') \<and> job \<in> set (db_jobs sample_created_db) \<and> jr_id job = i"
proof -
  obtain i db' where k: "sample_cancelled = Ok (i, db')" using sample_cancelled_ok(1) by (auto simp: is_ok_iff)
  from cancel_only_queued [OF k [unfolded sample_cancelled_def] sample_cancelled_ok(2)] k show ?thesis by auto
qed

text \<open>
  C15: retrying re-dispatches a job that failed before it started. On success the job row was
  failed and pending with no start time and no progress; its old command had failed and stays
  in the table as it was; the one new command is queued, belongs to the same tenant and printer and
  carries the old payload with the job id and download path set; the job names the new
  command and is queued; no other job changes.
\<close>

theorem retry_effect:
  assumes "retry_tx codec now now' now'' c ev tenant i reason actor db = Ok db'" "keys_ok db"
  shows "\<exists>job source command cmd p.
     job_at db i = Some job \<and> jr_tenant_id job = tenant \<and>
     jr_status job = ''failed'' \<and> jr_print_status job = ''pending'' \<and> jr_print_started_at job = None \<and>
     jr_progress_percent job \<in> {None, Some 0} \<and> jr_current_layer job \<in> {None, Some 0} \<and>
     load_job_for_update codec db tenant i = Ok source \<and> load_source_command codec db source = Ok command \<and>
     cmd_status command = command_status.Failed \<and>
     db_commands db' = db_commands db @ [cmd] \<and> cr_id cmd = c \<and> cr_status cmd = ''queued'' \<and>
     cr_tenant_id cmd = tenant \<and> cr_printer_id cmd = Some (job_printer_id (jwa_job source)) \<and>
     jc_read_payload codec (cmd_payload_json command) = Some p \<and>
     cr_payload_json cmd = jc_write_payload codec (p\<lparr>ppf_job_id := i,
        ppf_artifact_download_path :=
          artifact_download_path (job_agent_id (jwa_job source)) (art_id (jwa_artifact source))\<rparr>) \<and>
     job_at db' i = Some (job\<lparr>jr_command_id := c, jr_status := ''queued'', jr_error := None, jr_updated_at := now'\<rparr>) \<and>
     (\<forall>k. k \<noteq> i \<longrightarrow> job_at db' k = job_at db k)"
  using assms(1)
proof (cases rule: retry_tx_Ok)
  case (1 source command body cmd)
  let ?s = "job_command_id (jwa_job source)"
  have d: "distinct (map jr_id (db_jobs db))" using assms(2) by (simp add: keys_ok_def)
  obtain job where j: "job \<in> set (db_jobs db)" "retry_job_selected tenant i ?s job"
    using 1(9) by (metis (mono_tags, lifting) filter_False length_0_conv zero_neq_one)
  then have at: "job_at db i = Some job" by (simp add: find_by_id_eq_Some [OF d] retry_job_selected_def)
  have js: "job_at db' k = map_option (retry_job_step now' tenant i ?s c) (job_at db k)" for k
    unfolding 1(8) by (rule find_by_id_map) (simp add: retry_job_update_def)
  have others: "job_at db' k = job_at db k" if "k \<noteq> i" for k
    unfolding js using that by (cases "job_at db k") (auto simp: retry_job_selected_def dest: find_by_id_Some)
  obtain p where p: "jc_read_payload codec (cmd_payload_json command) = Some p"
      "body = jc_write_payload codec (p\<lparr>ppf_job_id := i, ppf_artifact_download_path :=
          artifact_download_path (job_agent_id (jwa_job source)) (art_id (jwa_artifact source))\<rparr>)"
    using 1(4) by (auto simp: retry_payload_def split: option.splits)
  have st: "cmd_status command = command_status.Failed" using 1(3) by (simp add: is_retry_safe_def Let_def)
  show ?thesis
    using j(2) at js [of i] others p st 1(1,2,6,7)
    by (intro exI [of _ job] exI [of _ source] exI [of _ command] exI [of _ cmd] exI [of _ p])
      (auto simp: retry_job_selected_def retry_job_update_def)
qed

definition sample_retry_codec :: job_codec where
  "sample_retry_codec = sample_codec\<lparr>jc_read_payload :=
     (\<lambda>_. Some (payload sample_input ''j1'' ''01S00A000000001'' (StudioSubmissionId 1) None))\<rparr>"

definition sample_failed_db :: hub_db where
  "sample_failed_db = sample_created_db
     \<lparr>db_commands := map (\<lambda>r. r\<lparr>cr_status := ''failed'', cr_error := Some ''offline''\<rparr>) (db_commands sample_created_db),
      db_jobs := map (\<lambda>r. r\<lparr>jr_status := ''failed'', jr_error := Some ''offline''\<rparr>) (db_jobs sample_created_db)\<rparr>"

definition sample_retried :: "hub_db repository_result" where
  "sample_retried = retry_tx sample_retry_codec ''2026-01-02T00:00:00Z'' ''2026-01-02T00:00:00Z'' ''2026-01-02T00:00:00Z''
     ''c2'' ''e1'' ''t1'' ''j1'' None (AuditActor_user ''u1'') sample_failed_db"

lemma sample_retried_ok: "is_ok sample_retried" "keys_ok sample_failed_db"
  by code_simp+

theorem retry_effect_witness:
  "\<exists>db' job cmd. sample_retried = Ok db' \<and> job_at sample_failed_db ''j1'' = Some job \<and> jr_status job = ''failed'' \<and>
     db_commands db' = db_commands sample_failed_db @ [cmd] \<and> cr_status cmd = ''queued''"
proof -
  obtain db' where k: "sample_retried = Ok db'" using sample_retried_ok(1) by (auto simp: is_ok_iff)
  from retry_effect [OF k [unfolded sample_retried_def] sample_retried_ok(2)] k show ?thesis by blast
qed

definition aged_command :: "(string \<Rightarrow> int option) \<Rightarrow> int \<Rightarrow> command_row \<Rightarrow> bool" where
  "aged_command pt now c \<longleftrightarrow> (case pt (cr_updated_at c) of Some t \<Rightarrow> t < now - STALLED_JOB_AGE | None \<Rightarrow> False)"

text \<open>
  A finished job: it and its print command have ended, and its print has ended, or never began although the dispatch failed or
  is more than fifteen minutes old.
\<close>

definition finished_job :: "(string \<Rightarrow> int option) \<Rightarrow> int \<Rightarrow> command_row \<Rightarrow> job_row \<Rightarrow> bool" where
  "finished_job pt now c j \<longleftrightarrow>
     terminal_text (jr_status j) \<and> terminal_text (cr_status c) \<and> cr_kind c = ''print_project_file'' \<and>
     (jr_print_status j \<in> {''stalled'', ''completed'', ''failed'', ''cancelled''} \<or>
      not_started j \<and> (jr_status j = ''failed'' \<or>
        jr_status j = ''succeeded'' \<and> cr_status c = ''succeeded'' \<and> aged_command pt now c))"

lemma clearable_job_finished: "clearable_job pt now j c = Ok True \<Longrightarrow> finished_job pt now c j"
  by (auto simp: clearable_job_def finished_job_def not_started_def unwrap_or_def aged_command_def
      dispatch_succeeded_at_is_stalled_def result_simps split: if_splits option.splits)

lemma clearable_ids_member:
  assumes "clearable_ids pt now jobs commands target = Ok ids" "i \<in> set ids"
  shows "\<exists>j c. j \<in> set jobs \<and> jr_id j = i \<and> find_by_id cr_id (jr_command_id j) commands = Some c \<and> finished_job pt now c j"
proof -
  from assms obtain ms where t: "traverse_list (clearable_id pt now commands) jobs = Ok ms" and m: "Some i \<in> set ms"
    by (auto simp: clearable_ids_def result_simps Let_def split: if_splits option.splits)
  from traverse_list_member [OF t m] obtain j where "j \<in> set jobs" "clearable_id pt now commands j = Ok (Some i)" by auto
  then show ?thesis
    using clearable_job_finished by (auto simp: clearable_id_def result_simps split: option.splits if_splits)
qed

lemma locked_commands_find:
  "i \<in> set ids \<Longrightarrow> find_by_id cr_id i (locked_commands db ids) = command_at db i"
  unfolding locked_commands_def by (rule find_by_id_filter) simp

text \<open>
  C11: clearing removes only what is finished and unused. Whatever the scope, a job that disappears belonged to the tenant, and
  it had finished: it and its print command had ended, and its print was stalled, completed, failed or cancelled, or it had not
  begun after a dispatch that failed or that had succeeded more than fifteen minutes before. Every job that stays keeps its command and its artifact.
\<close>

theorem clear_keeps_references:
  assumes "clear_tx backend codec pt now ev_now ev tenant scope actor db = Ok (out, db')" "keys_ok db"
  shows "(\<forall>j \<in> set (db_jobs db) - set (db_jobs db'). jr_tenant_id j = tenant \<and>
        (\<exists>c. command_at db (jr_command_id j) = Some c \<and> finished_job pt now c j)) \<and>
     set (db_jobs db') \<subseteq> set (db_jobs db) \<and>
     (\<forall>j \<in> set (db_jobs db'). command_at db' (jr_command_id j) = command_at db (jr_command_id j) \<and>
        find_by_id fr_id (jr_artifact_id j) (db_artifacts db') = find_by_id fr_id (jr_artifact_id j) (db_artifacts db))"
  using assms(1)
proof (cases rule: clear_tx_Ok)
  case (1 clearable candidates db4)
  note jobs = clear_delete_tables(1) [OF 1(3), folded 1(4)] and arts = clear_delete_tables(3) [OF 1(3), folded 1(6)]
  obtain keep where cmds: "db_commands db' = filter keep (db_commands db)"
    and r: "\<And>c j. c \<in> set (db_commands db) \<Longrightarrow> \<not> keep c \<Longrightarrow> j \<in> set (db_jobs db') \<Longrightarrow> jr_command_id j \<noteq> cr_id c"
    using clear_tables [OF assms(1)] by blast
  have d: "inj_on jr_id (set (db_jobs db))" using assms(2) by (simp add: keys_ok_def distinct_map)
  have clr: "jr_tenant_id j = tenant \<and> (\<exists>c. command_at db (jr_command_id j) = Some c \<and> finished_job pt now c j)"
    if j: "j \<in> set (db_jobs db)" "jr_id j \<in> set clearable" for j
  proof -
    obtain k c where k: "k \<in> set (locked_tenant_jobs db tenant)" "jr_id k = jr_id j"
      "find_by_id cr_id (jr_command_id k) (locked_commands db (map jr_command_id (locked_tenant_jobs db tenant))) = Some c"
      "finished_job pt now c k"
      using clearable_ids_member [OF 1(1) j(2)] by blast
    moreover have "k = j" using k(1,2) j(1) d by (auto simp: locked_tenant_jobs_def inj_on_def)
    ultimately show ?thesis using locked_commands_find by (auto simp: locked_tenant_jobs_def)
  qed
  have "command_at db' (jr_command_id j) = command_at db (jr_command_id j)" if "j \<in> set (db_jobs db')" for j
    unfolding cmds by (rule find_by_id_filter) (metis r that)
  moreover have "find_by_id fr_id (jr_artifact_id j) (db_artifacts db') = find_by_id fr_id (jr_artifact_id j) (db_artifacts db)"
    if j: "j \<in> set (db_jobs db')" for j
  proof -
    have "jr_artifact_id j \<notin> set (orphan_artifact_ids db clearable candidates)"
      using j clr unfolding jobs orphan_artifact_ids_def Let_def by (auto simp: list_all_iff)
    then show ?thesis unfolding arts by (intro find_by_id_filter) auto
  qed
  moreover have "jr_tenant_id j = tenant \<and> (\<exists>c. command_at db (jr_command_id j) = Some c \<and> finished_job pt now c j)"
    if "j \<in> set (db_jobs db) - set (db_jobs db')" for j
    using that clr unfolding jobs by auto
  moreover have "set (db_jobs db') \<subseteq> set (db_jobs db)" unfolding jobs by auto
  ultimately show ?thesis by blast
qed

definition sample_cancelled_db :: hub_db where
  "sample_cancelled_db = (case sample_cancelled of Ok (_, db) \<Rightarrow> db | Err _ \<Rightarrow> sample_created_db)"

definition sample_cleared :: "(clear_jobs_outcome \<times> hub_db) repository_result" where
  "sample_cleared = clear_tx Postgres sample_codec (\<lambda>_. None) 0 ''2026-01-03T00:00:00Z'' ''e2'' ''t1'' ClearTenant
     (AuditActor_user ''u1'') sample_cancelled_db"

lemma sample_cleared_ok:
  "is_ok sample_cleared" "keys_ok sample_cancelled_db" "map jr_id (db_jobs sample_cancelled_db) = [''j1'']"
  "(case sample_cleared of Ok (_, db) \<Rightarrow> db_jobs db = [] \<and> db_artifact_deletions db = [''f1.3mf''] | Err _ \<Rightarrow> False)"
  by code_simp+

theorem clear_keeps_references_witness:
  "\<exists>out db' j c. sample_cleared = Ok (out, db') \<and> db_jobs sample_cancelled_db = [j] \<and> db_jobs db' = [] \<and>
     jr_tenant_id j = ''t1'' \<and> command_at sample_cancelled_db (jr_command_id j) = Some c \<and> finished_job (\<lambda>_. None) 0 c j"
proof -
  obtain out db' where k: "sample_cleared = Ok (out, db')" using sample_cleared_ok(1) by (auto simp: is_ok_iff)
  obtain j where j: "db_jobs sample_cancelled_db = [j]" using sample_cleared_ok(3) by auto
  have e: "db_jobs db' = []" using sample_cleared_ok(4) by (simp add: k)
  from clear_keeps_references [OF k [unfolded sample_cleared_def] sample_cleared_ok(2)] k j e show ?thesis by auto
qed

lemma aged_command_ids_spec:
  "aged_command_ids pt now cs = Ok ids \<Longrightarrow> ids = map cr_id (filter (aged_command pt now) cs)"
  by (induction cs arbitrary: ids)
    (auto simp: result_simps dispatch_succeeded_at_is_stalled_def aged_command_def split: option.splits if_splits)

lemma possibly_aged_member:
  "c \<in> set (possibly_aged_commands cutoff db) \<Longrightarrow> c \<in> set (db_commands db) \<and> cr_status c = ''succeeded''"
  by (auto simp: possibly_aged_commands_def dest!: in_set_takeD)

text \<open>
  The stall sweep gives up only on prints that never began. On success every job row is
  unchanged, or was dispatched (\<open>succeeded\<close>), had not started, names a command in the batch
  whose dispatch ended more than fifteen minutes before, and now differs only in its print status.
\<close>

lemma stall_sweep_only_candidates:
  assumes "mark_stalled_pending_jobs codec pt ft now db = Ok (ws, db')" "keys_ok db"
  shows "list_all2 (\<lambda>j j'. j' = j \<or>
      (j' = j\<lparr>jr_print_status := ''stalled''\<rparr> \<and> jr_status j = ''succeeded'' \<and> not_started j \<and>
       (\<exists>c n. c \<in> set (db_commands db) \<and> cr_id c = jr_command_id j \<and> cr_status c = ''succeeded'' \<and>
          pt now = Some n \<and> aged_command pt n c)))
    (db_jobs db) (db_jobs db') \<and> db_commands db' = db_commands db"
  using assms(1)
proof (cases rule: mark_stalled_Ok)
  case none
  then show ?thesis by (simp add: list_all2_same)
next
  case (some n cutoff aged)
  have "stall_candidate j \<and> jr_command_id j \<in> set aged" if "j \<in> set (db_jobs db)" "stall_selected aged db j" for j
    using that assms(2) by (auto simp: stall_selected_def keys_ok_def distinct_map inj_on_def)
  moreover have "\<exists>c n. c \<in> set (db_commands db) \<and> cr_id c = i \<and> cr_status c = ''succeeded'' \<and>
      pt now = Some n \<and> aged_command pt n c" if "i \<in> set aged" for i
    using that aged_command_ids_spec [OF some(3)] possibly_aged_member some(1) by fastforce
  ultimately show ?thesis by (auto simp: some(4) list_all2_map2 list_all2_same stalled_update_def stall_candidate_def)
qed

definition sample_dispatched_db :: hub_db where
  "sample_dispatched_db = sample_created_db
     \<lparr>db_commands := map (\<lambda>r. r\<lparr>cr_status := ''succeeded'', cr_updated_at := ''1''\<rparr>) (db_commands sample_created_db),
      db_jobs := map (\<lambda>r. r\<lparr>jr_status := ''succeeded''\<rparr>) (db_jobs sample_created_db)\<rparr>"

definition sample_stalled :: "(job_with_artifact list \<times> hub_db) repository_result" where
  "sample_stalled = mark_stalled_pending_jobs sample_codec
     (\<lambda>s. if s = ''9'' then Some 2000000000000 else Some 0) (\<lambda>_. Some ''8'') ''9'' sample_dispatched_db"

lemma sample_stalled_ok:
  "is_ok sample_stalled" "keys_ok sample_dispatched_db"
  "result_ok sample_stalled \<noteq> None \<and>
     map jr_print_status (db_jobs (snd (the (result_ok sample_stalled)))) = [''stalled'']"
  by code_simp+

lemma stall_sweep_only_candidates_witness:
  "\<exists>ws db'. sample_stalled = Ok (ws, db') \<and> map jr_print_status (db_jobs db') = [''stalled''] \<and>
     db_commands db' = db_commands sample_dispatched_db"
proof -
  obtain ws db' where k: "sample_stalled = Ok (ws, db')" using sample_stalled_ok(1) by (auto simp: is_ok_iff)
  have p: "map jr_print_status (db_jobs db') = [''stalled'']" using sample_stalled_ok(3) by (simp add: k)
  note s = stall_sweep_only_candidates [OF k [unfolded sample_stalled_def] sample_stalled_ok(2), THEN conjunct2]
  show ?thesis by (intro exI conjI) (rule k p s)+
qed

end
