(* ===== verification/Device_Features.thy ===== *)
theory Device_Features
  imports Prelude
begin

text \<open>
  The device feature bitmap of \<open>crates/pandar-core/src/device_features.rs\<close>: a 64-bit set
  written as upper-case hexadecimal. \<open>from_hex\<close> accepts exactly the texts of one to sixteen
  hexadecimal digits (after \<open>trim_ascii\<close>), its last error branch is dead, \<open>to_hex\<close> is a right
  inverse and \<open>contains\<close> is a bit test.
\<close>

datatype bambu_device_features = BambuDeviceFeatures (bits: u64)

datatype device_features_parse_error = Empty | TooLong | InvalidHexadecimal

definition is_ascii_hexdigit :: "char \<Rightarrow> bool" where
  "is_ascii_hexdigit c \<longleftrightarrow>
     (48 \<le> byte c \<and> byte c \<le> 57) \<or> (65 \<le> byte c \<and> byte c \<le> 70) \<or> (97 \<le> byte c \<and> byte c \<le> 102)"

definition from_hex :: "string \<Rightarrow> (bambu_device_features, device_features_parse_error) result" where
  "from_hex s =
     (let v = trim_ascii s
      in if v = [] then Err Empty
         else if length v > 16 then Err TooLong
         else if \<not> list_all is_ascii_hexdigit v then Err InvalidHexadecimal
         else (case from_str_radix 16 (2 ^ 64) v of
                 Some n \<Rightarrow> Ok (BambuDeviceFeatures (of_nat n))
               | None \<Rightarrow> Err InvalidHexadecimal))"

definition to_hex :: "bambu_device_features \<Rightarrow> string" where
  "to_hex f = to_digits 16 (unat (bits f))"

datatype bambu_device_feature = MqttHoming | MqttAxisControl

primrec BambuDeviceFeature_bit :: "bambu_device_feature \<Rightarrow> nat" where
  "BambuDeviceFeature_bit MqttHoming = 32"
| "BambuDeviceFeature_bit MqttAxisControl = 38"

definition features_contains :: "bambu_device_features \<Rightarrow> bambu_device_feature \<Rightarrow> bool" where
  "features_contains f feature \<longleftrightarrow> bits f AND (push_bit (BambuDeviceFeature_bit feature) 1) \<noteq> 0"

datatype required_device_feature = BambuMqttHoming | BambuMqttAxisControl

primrec bambu_feature :: "required_device_feature \<Rightarrow> bambu_device_feature" where
  "bambu_feature BambuMqttHoming = MqttHoming"
| "bambu_feature BambuMqttAxisControl = MqttAxisControl"

primrec RequiredDeviceFeature_as_str :: "required_device_feature \<Rightarrow> string" where
  "RequiredDeviceFeature_as_str BambuMqttHoming = ''bambu_mqtt_homing''"
| "RequiredDeviceFeature_as_str BambuMqttAxisControl = ''bambu_mqtt_axis_control''"

section \<open>Hexadecimal text\<close>

lemma digit_val_hexdigit: "is_ascii_hexdigit c \<Longrightarrow> \<exists>v < 16. digit_val 16 c = Some v"
  by (auto simp: is_ascii_hexdigit_def digit_val_def Let_def)

lemma digits_val_hex:
  "list_all is_ascii_hexdigit s \<Longrightarrow>
     \<exists>n. digits_val 16 acc s = Some n \<and> n < (acc + 1) * 16 ^ length s"
proof (induction s arbitrary: acc)
  case Nil
  then show ?case by simp
next
  case (Cons c cs)
  then obtain v where v: "v < 16" "digit_val 16 c = Some v"
    using digit_val_hexdigit [of c] by auto
  with Cons obtain n where n: "digits_val 16 (acc * 16 + v) cs = Some n"
      "n < (acc * 16 + v + 1) * 16 ^ length cs"
    by fastforce
  have "acc * 16 + v + 1 \<le> (acc + 1) * 16" using v(1) by simp
  then have "(acc * 16 + v + 1) * 16 ^ length cs \<le> ((acc + 1) * 16) * 16 ^ length cs"
    by (rule mult_le_mono1)
  also have "\<dots> = (acc + 1) * 16 ^ length (c # cs)" by (simp add: algebra_simps)
  finally have "n < (acc + 1) * 16 ^ length (c # cs)" using n(2) by (rule order.strict_trans2 [rotated])
  with n(1) v(2) show ?case by simp
qed

lemma hexdigit_ne_plus: "is_ascii_hexdigit c \<Longrightarrow> c \<noteq> CHR ''+''"
  by (auto simp: is_ascii_hexdigit_def)

lemma from_str_radix_hex:
  assumes "list_all is_ascii_hexdigit s" "s \<noteq> []" "length s \<le> 16"
  obtains n where "from_str_radix 16 (2 ^ 64) s = Some n" "digits_val 16 0 s = Some n" "n < 2 ^ 64"
proof -
  obtain n where n: "digits_val 16 0 s = Some n" "n < 16 ^ length s"
    using digits_val_hex [OF assms(1), of 0] by auto
  have "(16 :: nat) ^ length s \<le> 16 ^ 16" using assms(3) by (intro power_increasing) auto
  then have "n < 2 ^ 64" using n(2) by simp
  moreover have "from_str_radix 16 (2 ^ 64) s = Some n"
  proof (cases s)
    case Nil
    with assms(2) show ?thesis by simp
  next
    case (Cons c cs)
    with assms(1) hexdigit_ne_plus n(1) \<open>n < 2 ^ 64\<close> show ?thesis
      by (auto simp: from_str_radix_def)
  qed
  ultimately show thesis using n(1) that by blast
qed

lemma digit_char_hexdigit: "v < 16 \<Longrightarrow> is_ascii_hexdigit (digit_char v)"
  by (auto simp: digit_char_def is_ascii_hexdigit_def)

lemma to_digits_16_hex: "list_all is_ascii_hexdigit (to_digits 16 n)"
  using to_digits_set [of 16 n] digit_char_hexdigit by (fastforce simp: list_all_iff)

lemma to_digits_16_length: "n < 16 ^ k \<Longrightarrow> 0 < k \<Longrightarrow> length (to_digits 16 n) \<le> k"
proof (induction k arbitrary: n)
  case 0
  then show ?case by simp
next
  case (Suc k)
  show ?case
  proof (cases "n < 16")
    case True
    then show ?thesis by (simp add: to_digits.simps [of 16 n])
  next
    case False
    with Suc.prems have "0 < k" by (cases k) auto
    moreover have "n div 16 < 16 ^ k" using Suc.prems by (simp add: div_less_iff_less_mult mult.commute)
    ultimately have "length (to_digits 16 (n div 16)) \<le> k" by (rule Suc.IH [rotated])
    with False show ?thesis by (simp add: to_digits.simps [of 16 n])
  qed
qed

lemma hexdigit_not_ws: "is_ascii_hexdigit c \<Longrightarrow> \<not> ascii_ws c"
  by (auto simp: is_ascii_hexdigit_def ascii_ws_def)

lemma dropWhile_none: "\<forall>c\<in>set s. \<not> P c \<Longrightarrow> dropWhile P s = s"
  by (cases s) auto

lemma trim_ascii_hex:
  assumes "list_all is_ascii_hexdigit s"
  shows "trim_ascii s = s"
proof -
  have "\<forall>c\<in>set s. \<not> ascii_ws c" using assms hexdigit_not_ws by (auto simp: list_all_iff)
  then show ?thesis by (simp add: trim_ascii_def dropWhile_none)
qed

section \<open>Properties\<close>

text \<open>
  Every bitmap survives the round trip through its hexadecimal text, so storing
  \<open>to_hex\<close> and reading it with \<open>from_hex\<close> loses no bit.
\<close>

lemma from_hex_to_hex: "from_hex (to_hex f) = Ok f"
proof -
  let ?s = "to_digits 16 (unat (bits f))"
  have hex: "list_all is_ascii_hexdigit ?s" by (rule to_digits_16_hex)
  have bound: "unat (bits f) < 2 ^ 64" using unsigned_less [of "bits f"] by simp
  then have len: "length ?s \<le> 16" using to_digits_16_length [of "unat (bits f)" 16] by simp
  have "from_str_radix 16 (2 ^ 64) ?s = Some (unat (bits f))"
    using bound by (intro from_str_radix_to_digits) auto
  with hex len show ?thesis
    by (simp add: from_hex_def to_hex_def trim_ascii_hex [OF hex] Let_def)
qed

text \<open>
  \<open>from_hex\<close> accepts exactly the texts that trim to one to sixteen hexadecimal digits and
  gives the number they denote; the error names the first violated condition, and the failure
  branch of \<open>from_str_radix\<close> is never taken.
\<close>

lemma from_hex_spec:
  "from_hex s =
     (let v = trim_ascii s
      in if v = [] then Err Empty
         else if 16 < length v then Err TooLong
         else if \<not> list_all is_ascii_hexdigit v then Err InvalidHexadecimal
         else Ok (BambuDeviceFeatures (of_nat (the (digits_val 16 0 v)))))"
proof -
  define v where "v = trim_ascii s"
  show ?thesis
  proof (cases "v \<noteq> [] \<and> length v \<le> 16 \<and> list_all is_ascii_hexdigit v")
    case True
    then obtain n where "from_str_radix 16 (2 ^ 64) v = Some n" "digits_val 16 0 v = Some n"
      using from_str_radix_hex by blast
    with True show ?thesis by (simp add: from_hex_def v_def [symmetric] Let_def list_all_iff)
  next
    case False
    then show ?thesis by (auto simp: from_hex_def v_def [symmetric] Let_def list_all_iff)
  qed
qed

text \<open>\<open>contains\<close> tests the feature's bit of the bitmap.\<close>

lemma features_contains_iff_bit:
  "features_contains f feature \<longleftrightarrow> bit (bits f) (BambuDeviceFeature_bit feature)"
  by (simp add: features_contains_def and_exp_eq_0_iff_not_bit push_bit_eq_mult)

end
