(* ===== verification/Core_Printer.thy ===== *)
theory Core_Printer
  imports H2c Device_Features
begin

text \<open>
  The printer entity of \<open>crates/pandar-core/src/printer.rs\<close> with the cooling records of
  \<open>cooling.rs\<close>. \<open>Printer::from_parts\<close> requires the four identifying texts and turns blank
  optional texts into absent ones.
\<close>

datatype printer_cooling_mode = Cooling | Heating | Exhaust | FullCooling

datatype printer_cooling_fan_kind =
  Hotend | PartCooling | Auxiliary | Chamber | HotendSecond | Controller | InnerLoop | AuxiliarySecond

record printer_cooling_fan =
  fan_kind :: printer_cooling_fan_kind
  fan_speed_percent :: u8

record printer_cooling_system =
  cooling_mode :: "printer_cooling_mode option"
  cooling_fans :: "printer_cooling_fan list"

record printer_nozzle_temperature =
  nt_label :: "string option"
  nt_current_celsius :: "string option"
  nt_target_celsius :: "string option"
  nt_diameter_mm :: "string option"
  nt_nozzle_type :: "string option"
  nt_snow :: "u32 option"
  nt_hnow :: "u32 option"

record printer =
  pr_id :: string
  pr_tenant_id :: tenant_id
  pr_agent_id :: agent_id
  pr_serial_number :: string
  pr_host :: "string option"
  pr_access_code :: "string option"
  pr_name :: string
  pr_model :: "string option"
  pr_status :: string
  pr_last_seen_at :: timestamp
  pr_created_at :: timestamp
  pr_nozzle_temperatures :: "printer_nozzle_temperature list"
  pr_active_nozzle :: "string option"
  pr_bed_temperature_celsius :: "string option"
  pr_bed_target_temperature_celsius :: "string option"
  pr_chamber_temperature_celsius :: "string option"
  pr_chamber_target_temperature_celsius :: "string option"
  pr_chamber_light_on :: "bool option"
  pr_cooling_system :: "printer_cooling_system option"
  pr_bambu_device_features :: "bambu_device_features option"
  pr_bambu_device_features_session_id :: "string option"
  pr_bambu_device_features2 :: "bambu_device_features option"
  pr_bambu_device_features2_session_id :: "string option"
  pr_bambu_nozzle_system :: "bambu_nozzle_system option"
  pr_bambu_nozzle_system_session_id :: "string option"
  pr_mqtt_presence_session_id :: "string option"

text \<open>\<open>PrinterParts\<close> has the fields of \<open>Printer\<close> with the same types.\<close>

type_synonym printer_parts = printer

definition filter_blank :: "string option \<Rightarrow> string option" where
  "filter_blank m = (case m of Some v \<Rightarrow> if trim v = [] then None else Some v | None \<Rightarrow> None)"

definition Printer_from_parts :: "printer_parts \<Rightarrow> (printer, core_error) result" where
  "Printer_from_parts p =
     and_then (required (pr_id p) EmptyPrinterId) (\<lambda>_.
     and_then (required (pr_serial_number p) EmptyPrinterSerialNumber) (\<lambda>_.
     and_then (required (pr_name p) EmptyPrinterName) (\<lambda>_.
     and_then (required (pr_status p) EmptyPrinterStatus) (\<lambda>_.
     Ok (p\<lparr>pr_host := filter_blank (pr_host p),
           pr_access_code := filter_blank (pr_access_code p),
           pr_model := filter_blank (pr_model p),
           pr_active_nozzle := filter_blank (pr_active_nozzle p)\<rparr>)))))"

definition not_blank :: "string option \<Rightarrow> bool" where
  "not_blank m = (case m of Some v \<Rightarrow> trim v \<noteq> [] | None \<Rightarrow> True)"

definition printer_wf :: "printer \<Rightarrow> bool" where
  "printer_wf p \<longleftrightarrow>
     trim (pr_id p) \<noteq> [] \<and> trim (pr_serial_number p) \<noteq> [] \<and> trim (pr_name p) \<noteq> [] \<and>
     trim (pr_status p) \<noteq> [] \<and> not_blank (pr_host p) \<and> not_blank (pr_access_code p) \<and>
     not_blank (pr_model p) \<and> not_blank (pr_active_nozzle p)"

lemma filter_blank_not_blank [simp]: "not_blank (filter_blank m)"
  by (simp add: not_blank_def filter_blank_def split: option.split)

lemma filter_blank_id: "not_blank m \<Longrightarrow> filter_blank m = m"
  by (cases m) (simp_all add: not_blank_def filter_blank_def)

lemma Printer_from_parts_wf: "Printer_from_parts p = Ok q \<Longrightarrow> printer_wf q"
  by (auto simp: Printer_from_parts_def printer_wf_def required_def result_simps split: if_splits)

text \<open>A well-formed printer passes through the constructor unchanged.\<close>

lemma Printer_from_parts_id: "printer_wf p \<Longrightarrow> Printer_from_parts p = Ok p"
  by (simp add: Printer_from_parts_def printer_wf_def required_def filter_blank_id)

end
