(* ===== verification/Hub_Cleanup.thy ===== *)
theory Hub_Cleanup
  imports Hub_Job_Control Core_Printer
begin

text \<open>
  Deleting rows in bulk: the deletion of a printer (\<open>crates/pandar-hub/src/repositories/printers.rs\<close>) and the retention cleanup
  (\<open>cleanup.rs\<close>, \<open>cleanup/sql.rs\<close>, \<open>cleanup/artifacts.rs\<close>). The SQL selections are predicates on rows, the deletions follow
  the foreign keys of \<open>Hub_Store\<close>. The cleanup of machine events is part of \<open>Hub_System\<close>, that of tickets and tokens of \<open>Hub_Auth_Steps\<close>.
\<close>

section \<open>Deleting a printer\<close>

text \<open>
  \<open>read_printer\<close> is \<open>live_status_from_model\<close> with the cipher of the access code, on all columns of the row.
\<close>

definition delete_printer_with_audit ::
  "(printer_row \<Rightarrow> printer repository_result) \<Rightarrow> (audit_metadata \<Rightarrow> string) \<Rightarrow> string \<Rightarrow> timestamp \<Rightarrow> tenant_id \<Rightarrow> string \<Rightarrow> audit_actor \<Rightarrow>
     hub_db \<Rightarrow> (printer \<times> hub_db) repository_result" where
  "delete_printer_with_audit read_printer to_text fresh_id now tenant printer_id actor db =
     and_then (ok_or (find (\<lambda>p. prr_id p = printer_id \<and> prr_tenant_id p = tenant) (db_printers db)) MissingPrinter) (\<lambda>m.
     and_then (read_printer m) (\<lambda>printer.
       Ok (printer, delete_printer_rows (\<lambda>p. prr_id p = printer_id)
         (append_audit (record_audit_event to_text fresh_id now tenant actor ''printer.delete'' ''printer'' (Some (pr_id printer))
            (AuditObject [(''agent_id'', AuditString (pr_agent_id printer)),
                          (''previous_status'', AuditString (pr_status printer)),
                          (''printer_name'', AuditString (pr_name printer)),
                          (''serial_number'', AuditString (pr_serial_number printer))])) db))))"

section \<open>The selections of the cleanup\<close>

record cleanup_cutoffs =
  co_jobs :: timestamp
  co_commands :: timestamp
  co_machine_events :: timestamp
  co_audit :: timestamp
  co_plugin_tickets :: timestamp
  co_tenant_tokens :: timestamp

definition ended_job :: "timestamp \<Rightarrow> command_row \<Rightarrow> job_row \<Rightarrow> bool" where
  "ended_job cutoff c j \<longleftrightarrow>
     text_less (jr_updated_at j) cutoff \<and> jr_status j \<in> {''succeeded'', ''failed''} \<and>
     jr_print_status j \<in> {''stalled'', ''completed'', ''failed'', ''cancelled'', ''pending''} \<and>
     cr_status c \<notin> {''queued'', ''sent'', ''acknowledged''}"

definition job_cleanup :: "timestamp \<Rightarrow> hub_db \<Rightarrow> job_row \<Rightarrow> bool" where
  "job_cleanup cutoff db j \<longleftrightarrow> list_ex (\<lambda>c. cr_id c = jr_command_id j \<and> ended_job cutoff c j) (db_commands db)"

definition artifact_cleanup :: "timestamp \<Rightarrow> hub_db \<Rightarrow> artifact_row \<Rightarrow> bool" where
  "artifact_cleanup cutoff db a \<longleftrightarrow>
     list_ex (\<lambda>j. jr_artifact_id j = fr_id a \<and> job_cleanup cutoff db j) (db_jobs db) \<and>
     \<not> list_ex (\<lambda>j. jr_artifact_id j = fr_id a \<and> \<not> job_cleanup cutoff db j) (db_jobs db)"

definition command_cleanup :: "timestamp \<Rightarrow> timestamp \<Rightarrow> hub_db \<Rightarrow> command_row \<Rightarrow> bool" where
  "command_cleanup cutoff job_cutoff db c \<longleftrightarrow>
     text_less (cr_updated_at c) cutoff \<and> cr_status c \<in> {''succeeded'', ''failed''} \<and>
     \<not> list_ex (\<lambda>j. jr_command_id j = cr_id c \<and> \<not> ended_job job_cutoff c j) (db_jobs db)"

definition audit_cleanup :: "cleanup_cutoffs \<Rightarrow> hub_db \<Rightarrow> audit_event \<Rightarrow> bool" where
  "audit_cleanup cutoffs db e \<longleftrightarrow>
     text_less (ev_created_at e) (co_audit cutoffs) \<and>
     \<not> (ev_target_type e = ''job'' \<and>
        list_ex (\<lambda>j. ev_target_id e = Some (jr_id j) \<and>
          list_ex (\<lambda>c. cr_id c = jr_command_id j \<and> \<not> ended_job (co_jobs cutoffs) c j) (db_commands db)) (db_jobs db)) \<and>
     \<not> (ev_target_type e = ''command'' \<and>
        list_ex (\<lambda>c. ev_target_id e = Some (cr_id c) \<and> \<not> command_cleanup (co_commands cutoffs) (co_jobs cutoffs) db c) (db_commands db))"

section \<open>The transactions of the cleanup\<close>

definition cleanup_jobs_and_artifacts :: "db_backend \<Rightarrow> timestamp \<Rightarrow> hub_db \<Rightarrow> hub_db repository_result" where
  "cleanup_jobs_and_artifacts backend cutoff db =
     (let candidates = map fr_id (filter (artifact_cleanup cutoff db) (db_artifacts db));
          db1 = delete_job_rows (job_cleanup cutoff db) db;
          gone = (\<lambda>a. fr_id a \<in> set candidates \<and> \<not> list_ex (\<lambda>j. jr_artifact_id j = fr_id a) (db_jobs db1))
      in enqueue_deletions backend (map fr_storage_path (filter gone (db_artifacts db1)))
           (db1\<lparr>db_artifacts := filter (\<lambda>a. \<not> gone a) (db_artifacts db1)\<rparr>))"

definition cleanup_commands :: "timestamp \<Rightarrow> hub_db \<Rightarrow> hub_db" where
  "cleanup_commands cutoff db = delete_command_rows (command_cleanup cutoff cutoff db) db"

definition cleanup_audit_events :: "cleanup_cutoffs \<Rightarrow> hub_db \<Rightarrow> hub_db" where
  "cleanup_audit_events cutoffs db = db\<lparr>db_audit := filter (\<lambda>e. \<not> audit_cleanup cutoffs db e) (db_audit db)\<rparr>"

text \<open>The part of \<open>execute_cleanup\<close> on these tables; each category is a transaction of its own.\<close>

definition execute_cleanup :: "db_backend \<Rightarrow> cleanup_cutoffs \<Rightarrow> hub_db \<Rightarrow> hub_db repository_result" where
  "execute_cleanup backend cutoffs db =
     and_then (cleanup_jobs_and_artifacts backend (co_jobs cutoffs) db) (\<lambda>db1.
       Ok (cleanup_audit_events cutoffs (cleanup_commands (co_commands cutoffs) db1)))"

section \<open>What the transactions do to the tables\<close>

lemma delete_printer_Ok:
  assumes "delete_printer_with_audit read_printer to_text ev now tenant i actor db = Ok (p, db')"
  shows "db_artifacts db' = db_artifacts db" "db_artifact_deletions db' = db_artifact_deletions db"
    "\<exists>ids. set ids \<subseteq> prr_id ` set (db_printers db) \<and> db_commands db' = map (forget_printers ids) (db_commands db) \<and>
       db_jobs db' = filter (\<lambda>j. jr_printer_id j \<notin> set ids) (db_jobs db) \<and>
       (\<forall>q \<in> set (db_printers db'). prr_id q \<notin> set ids)"
proof -
  let ?ids = "map prr_id (filter (\<lambda>p. prr_id p = i) (db_printers db))"
  obtain e where db': "db' = delete_printer_rows (\<lambda>p. prr_id p = i) (append_audit e db)"
    using assms by (auto simp: delete_printer_with_audit_def result_simps)
  show "db_artifacts db' = db_artifacts db" "db_artifact_deletions db' = db_artifact_deletions db"
    by (simp_all add: db' delete_printer_rows_def append_audit_def Let_def)
  have "db_commands db' = map (forget_printers ?ids) (db_commands db)"
    "db_jobs db' = filter (\<lambda>j. jr_printer_id j \<notin> set ?ids) (db_jobs db)" "\<forall>q \<in> set (db_printers db'). prr_id q \<notin> set ?ids"
    by (auto simp: db' append_audit_def)
  then show "\<exists>ids. set ids \<subseteq> prr_id ` set (db_printers db) \<and> db_commands db' = map (forget_printers ids) (db_commands db) \<and>
       db_jobs db' = filter (\<lambda>j. jr_printer_id j \<notin> set ids) (db_jobs db) \<and>
       (\<forall>q \<in> set (db_printers db'). prr_id q \<notin> set ids)"
    by (intro exI [of _ ?ids]) auto
qed

lemma cleanup_jobs_Ok:
  assumes "cleanup_jobs_and_artifacts backend cutoff db = Ok db'"
  obtains gone where "db_jobs db' = filter (\<lambda>j. \<not> job_cleanup cutoff db j) (db_jobs db)" "db_commands db' = db_commands db"
    "db_artifacts db' = filter (\<lambda>a. \<not> gone a) (db_artifacts db)"
    "set (db_artifact_deletions db') = set (db_artifact_deletions db) \<union> fr_storage_path ` set (filter gone (db_artifacts db))"
    "\<forall>a. gone a \<longrightarrow> fr_id a \<in> fr_id ` set (filter (artifact_cleanup cutoff db) (db_artifacts db))"
    "\<forall>a. gone a \<longrightarrow> fr_id a \<notin> jr_artifact_id ` set (db_jobs db')"
proof -
  define gone where "gone = (\<lambda>a :: artifact_row. fr_id a \<in> set (map fr_id (filter (artifact_cleanup cutoff db) (db_artifacts db))) \<and>
      \<not> list_ex (\<lambda>j. jr_artifact_id j = fr_id a) (filter (\<lambda>j. \<not> job_cleanup cutoff db j) (db_jobs db)))"
  have e: "db' = fold queue_path (map fr_storage_path (filter gone (db_artifacts db)))
      ((delete_job_rows (job_cleanup cutoff db) db)\<lparr>db_artifacts := filter (\<lambda>a. \<not> gone a) (db_artifacts db)\<rparr>)"
    using assms unfolding cleanup_jobs_and_artifacts_def Let_def gone_def by (auto dest!: enqueue_deletions_Ok)
  have jobs: "db_jobs db' = filter (\<lambda>j. \<not> job_cleanup cutoff db j) (db_jobs db)" by (simp add: e)
  show thesis
  proof (rule that [of gone])
    show "\<forall>a. gone a \<longrightarrow> fr_id a \<in> fr_id ` set (filter (artifact_cleanup cutoff db) (db_artifacts db))"
      unfolding gone_def by simp
    show "\<forall>a. gone a \<longrightarrow> fr_id a \<notin> jr_artifact_id ` set (db_jobs db')"
      unfolding jobs gone_def list_ex_iff by auto
  qed (simp_all add: e)
qed

lemma cleanup_commands_tables:
  "db_commands (cleanup_commands cutoff db) = filter (\<lambda>c. \<not> command_cleanup cutoff cutoff db c) (db_commands db)"
  "db_jobs (cleanup_commands cutoff db) =
     filter (\<lambda>j. jr_command_id j \<notin> cr_id ` set (filter (command_cleanup cutoff cutoff db) (db_commands db))) (db_jobs db)"
  "db_artifacts (cleanup_commands cutoff db) = db_artifacts db"
  "db_artifact_deletions (cleanup_commands cutoff db) = db_artifact_deletions db"
  by (simp_all add: cleanup_commands_def) (simp_all add: delete_command_rows_def Let_def)

section \<open>Properties\<close>

text \<open>
  C0: the retention cleanup removes only old ended jobs and what nothing refers to. A job that disappears was last changed before one of
  the two cutoffs, its dispatch had ended, its print was not running, and its command was not open; every job that stays keeps
  its command and its artifact; and the file of every artifact that disappears is in the deletion queue.
\<close>

theorem cleanup_keeps_references:
  assumes "execute_cleanup backend cutoffs db = Ok db'"
  shows "(\<forall>j \<in> set (db_jobs db) - set (db_jobs db'). \<exists>c \<in> set (db_commands db). cr_id c = jr_command_id j \<and>
        (ended_job (co_jobs cutoffs) c j \<or> ended_job (co_commands cutoffs) c j)) \<and>
     set (db_jobs db') \<subseteq> set (db_jobs db) \<and>
     (\<forall>j \<in> set (db_jobs db'). command_at db' (jr_command_id j) = command_at db (jr_command_id j) \<and>
        find_by_id fr_id (jr_artifact_id j) (db_artifacts db') = find_by_id fr_id (jr_artifact_id j) (db_artifacts db)) \<and>
     (\<forall>a \<in> set (db_artifacts db) - set (db_artifacts db'). fr_storage_path a \<in> set (db_artifact_deletions db'))"
proof -
  obtain db1 where 1: "cleanup_jobs_and_artifacts backend (co_jobs cutoffs) db = Ok db1"
    and db': "db' = cleanup_audit_events cutoffs (cleanup_commands (co_commands cutoffs) db1)"
    using assms by (auto simp: execute_cleanup_def result_simps)
  let ?P = "command_cleanup (co_commands cutoffs) (co_commands cutoffs) db1"
  obtain gone where j1: "db_jobs db1 = filter (\<lambda>j. \<not> job_cleanup (co_jobs cutoffs) db j) (db_jobs db)"
    and c1: "db_commands db1 = db_commands db"
    and a1: "db_artifacts db1 = filter (\<lambda>a. \<not> gone a) (db_artifacts db)"
      "set (db_artifact_deletions db1) = set (db_artifact_deletions db) \<union> fr_storage_path ` set (filter gone (db_artifacts db))"
    and gone: "\<forall>a. gone a \<longrightarrow> fr_id a \<in> fr_id ` set (filter (artifact_cleanup (co_jobs cutoffs) db) (db_artifacts db))"
      "\<forall>a. gone a \<longrightarrow> fr_id a \<notin> jr_artifact_id ` set (db_jobs db1)"
    using 1 by (rule cleanup_jobs_Ok)
  have t: "db_commands db' = filter (\<lambda>c. \<not> ?P c) (db_commands db)"
    "db_jobs db' = filter (\<lambda>j. jr_command_id j \<notin> cr_id ` set (filter ?P (db_commands db))) (db_jobs db1)"
    "db_artifacts db' = db_artifacts db1" "db_artifact_deletions db' = db_artifact_deletions db1"
    by (simp_all add: db' cleanup_audit_events_def cleanup_commands_tables c1)
  have sub: "set (db_jobs db') \<subseteq> set (db_jobs db1)" "set (db_jobs db1) \<subseteq> set (db_jobs db)"
    by (auto simp: t(2) j1)
  have "\<exists>c \<in> set (db_commands db). cr_id c = jr_command_id j \<and> (ended_job (co_jobs cutoffs) c j \<or> ended_job (co_commands cutoffs) c j)"
    if j: "j \<in> set (db_jobs db) - set (db_jobs db')" for j
  proof (cases "j \<in> set (db_jobs db1)")
    case True
    then obtain c where c: "c \<in> set (db_commands db)" "?P c" "cr_id c = jr_command_id j"
      using j by (auto simp: t(2))
    then have "ended_job (co_commands cutoffs) c j" using True by (auto simp: command_cleanup_def list_ex_iff)
    with c show ?thesis by blast
  next
    case False
    then have "job_cleanup (co_jobs cutoffs) db j" using j by (simp add: j1)
    then show ?thesis by (auto simp: job_cleanup_def list_ex_iff)
  qed
  moreover have "command_at db' (jr_command_id j) = command_at db (jr_command_id j)" if "j \<in> set (db_jobs db')" for j
    unfolding t(1) by (rule find_by_id_filter) (use that in \<open>auto simp: t(2) image_iff\<close>)
  moreover have "find_by_id fr_id (jr_artifact_id j) (db_artifacts db') = find_by_id fr_id (jr_artifact_id j) (db_artifacts db)"
    if "j \<in> set (db_jobs db')" for j
    unfolding t(3) a1(1) by (rule find_by_id_filter) (use that gone(2) sub(1) in force)
  moreover have "fr_storage_path a \<in> set (db_artifact_deletions db')" if "a \<in> set (db_artifacts db) - set (db_artifacts db')" for a
    using that by (auto simp: t(3,4) a1)
  ultimately show ?thesis using sub by blast
qed

text \<open>An artifact that no job refers to.\<close>

definition orphaned :: "artifact_row \<Rightarrow> hub_db \<Rightarrow> bool" where
  "orphaned a db \<longleftrightarrow> a \<in> set (db_artifacts db) \<and> fr_id a \<notin> jr_artifact_id ` set (db_jobs db)"

lemma orphaned_clear:
  assumes "clear_tx backend codec pt now ev_now ev tenant scope actor db = Ok (out, db')" "orphaned a db"
  shows "orphaned a db'"
  using assms(1)
proof (cases rule: clear_tx_Ok)
  case (1 clearable candidates db4)
  have "fr_id a \<notin> set (orphan_artifact_ids db clearable candidates)"
    using assms(2) by (auto simp: orphaned_def orphan_artifact_ids_def Let_def 1(2) locked_tenant_jobs_def)
  then show ?thesis
    using assms(2) clear_delete_tables(1,3) [OF 1(3)] by (auto simp: orphaned_def 1(4,6))
qed

lemma orphaned_cleanup:
  assumes "execute_cleanup backend cutoffs db = Ok db'" "orphaned a db"
  shows "orphaned a db'"
proof -
  obtain db1 where 1: "cleanup_jobs_and_artifacts backend (co_jobs cutoffs) db = Ok db1"
    and db': "db' = cleanup_audit_events cutoffs (cleanup_commands (co_commands cutoffs) db1)"
    using assms(1) by (auto simp: execute_cleanup_def result_simps)
  obtain gone where j1: "db_jobs db1 = filter (\<lambda>j. \<not> job_cleanup (co_jobs cutoffs) db j) (db_jobs db)"
    and c1: "db_commands db1 = db_commands db"
    and a1: "db_artifacts db1 = filter (\<lambda>a. \<not> gone a) (db_artifacts db)"
      "set (db_artifact_deletions db1) = set (db_artifact_deletions db) \<union> fr_storage_path ` set (filter gone (db_artifacts db))"
    and gone: "\<forall>a. gone a \<longrightarrow> fr_id a \<in> fr_id ` set (filter (artifact_cleanup (co_jobs cutoffs) db) (db_artifacts db))"
      "\<forall>a. gone a \<longrightarrow> fr_id a \<notin> jr_artifact_id ` set (db_jobs db1)"
    using 1 by (rule cleanup_jobs_Ok)
  have "\<not> gone a" using assms(2) gone(1) [THEN spec, of a] by (auto simp: orphaned_def artifact_cleanup_def list_ex_iff image_iff)
  then show ?thesis
    using assms(2) by (auto simp: db' cleanup_audit_events_def orphaned_def a1 j1 cleanup_commands_tables)
qed

text \<open>
  C0: deleting a printer loses the files of its jobs. The jobs of the printer go with it; an artifact that only they used stays, with its
  file and its share of the quota, and no clear and no cleanup, whatever the cutoffs, removes an artifact that no job refers to.
\<close>

theorem deleted_printer_leaks_artifacts:
  assumes "delete_printer_with_audit read_printer to_text ev now tenant i actor db = Ok (p, db1)"
    and "a \<in> set (db_artifacts db)" and "list_all (\<lambda>j. jr_artifact_id j = fr_id a \<longrightarrow> jr_printer_id j = i) (db_jobs db)"
    and "orphaned b db2"
  shows "orphaned a db1 \<and>
     (clear_tx backend codec pt now_at ev_now ev' t scope actor' db2 = Ok (out, db3) \<longrightarrow> orphaned b db3) \<and>
     (execute_cleanup backend cutoffs db2 = Ok db4 \<longrightarrow> orphaned b db4)"
proof -
  obtain e where db1: "db1 = delete_printer_rows (\<lambda>q. prr_id q = i) (append_audit e db)" and "i \<in> prr_id ` set (db_printers db)"
    using assms(1) by (auto simp: delete_printer_with_audit_def result_simps find_Some_iff)
  then have "orphaned a db1"
    using assms(2,3) delete_printer_Ok(1) [OF assms(1)]
    by (auto simp: orphaned_def list_all_iff append_audit_def)
  then show ?thesis using orphaned_clear orphaned_cleanup assms(4) by blast
qed

section \<open>Samples\<close>

definition sample_read_printer :: "printer_row \<Rightarrow> printer repository_result" where
  "sample_read_printer m = Ok \<lparr>pr_id = prr_id m, pr_tenant_id = prr_tenant_id m, pr_agent_id = prr_agent_id m,
     pr_serial_number = prr_serial_number m, pr_host = None, pr_access_code = None, pr_name = prr_name m, pr_model = prr_model m,
     pr_status = ''idle'', pr_last_seen_at = '''', pr_created_at = '''', pr_nozzle_temperatures = [], pr_active_nozzle = None,
     pr_bed_temperature_celsius = None, pr_bed_target_temperature_celsius = None, pr_chamber_temperature_celsius = None,
     pr_chamber_target_temperature_celsius = None, pr_chamber_light_on = None, pr_cooling_system = None,
     pr_bambu_device_features = None, pr_bambu_device_features_session_id = None, pr_bambu_device_features2 = None,
     pr_bambu_device_features2_session_id = None, pr_bambu_nozzle_system = None, pr_bambu_nozzle_system_session_id = None,
     pr_mqtt_presence_session_id = None\<rparr>"

definition sample_deleted :: "(printer \<times> hub_db) repository_result" where
  "sample_deleted = delete_printer_with_audit sample_read_printer (\<lambda>_. ''{}'') ''e9'' ''2026-01-03T00:00:00Z'' ''t1'' ''p1''
     (AuditActor_user ''u1'') sample_created_db"

definition sample_cutoffs :: cleanup_cutoffs where
  "sample_cutoffs = \<lparr>co_jobs = ''2026-06-01T00:00:00Z'', co_commands = ''2026-06-01T00:00:00Z'', co_machine_events = '''',
     co_audit = '''', co_plugin_tickets = '''', co_tenant_tokens = ''''\<rparr>"

definition sample_ended_db :: hub_db where
  "sample_ended_db = sample_created_db
     \<lparr>db_commands := map (\<lambda>c. c\<lparr>cr_status := ''succeeded''\<rparr>) (db_commands sample_created_db),
      db_jobs := map (\<lambda>j. j\<lparr>jr_status := ''succeeded'', jr_print_status := ''completed''\<rparr>) (db_jobs sample_created_db)\<rparr>"

lemma sample_deleted_ok:
  "(case sample_deleted of Ok (_, db) \<Rightarrow> db_jobs db = [] \<and> map fr_id (db_artifacts db) = [''f1''] | Err _ \<Rightarrow> False)"
  "map fr_id (db_artifacts sample_created_db) = [''f1'']" "map jr_printer_id (db_jobs sample_created_db) = [''p1'']"
  by code_simp+

lemma sample_cleanup_ok:
  "(case execute_cleanup Sqlite sample_cutoffs sample_ended_db of Ok db \<Rightarrow> db_jobs db = [] \<and> db_commands db = [] | Err _ \<Rightarrow> False)"
  "map jr_id (db_jobs sample_ended_db) = [''j1'']"
  by code_simp+

theorem cleanup_keeps_references_witness:
  "\<exists>db' j c. execute_cleanup Sqlite sample_cutoffs sample_ended_db = Ok db' \<and> db_jobs sample_ended_db = [j] \<and> db_jobs db' = [] \<and>
     c \<in> set (db_commands sample_ended_db) \<and> cr_id c = jr_command_id j \<and> ended_job ''2026-06-01T00:00:00Z'' c j"
proof -
  obtain db' where k: "execute_cleanup Sqlite sample_cutoffs sample_ended_db = Ok db'" "db_jobs db' = []"
    using sample_cleanup_ok(1) by (auto split: result.splits)
  obtain j where j: "db_jobs sample_ended_db = [j]" using sample_cleanup_ok(2) by auto
  have c: "co_jobs sample_cutoffs = ''2026-06-01T00:00:00Z''" "co_commands sample_cutoffs = ''2026-06-01T00:00:00Z''"
    by (simp_all add: sample_cutoffs_def)
  from cleanup_keeps_references [OF k(1)] k j c show ?thesis by auto
qed

theorem deleted_printer_leaks_artifacts_witness:
  "\<exists>p db a. sample_deleted = Ok (p, db) \<and> db_artifacts sample_created_db = [a] \<and> orphaned a db"
proof -
  obtain p db where k: "sample_deleted = Ok (p, db)" using sample_deleted_ok(1) by (auto split: result.splits)
  obtain a where a: "db_artifacts sample_created_db = [a]" using sample_deleted_ok(2) by auto
  obtain j where j: "db_jobs sample_created_db = [j]" "jr_printer_id j = ''p1''" using sample_deleted_ok(3) by auto
  have b: "orphaned a (sample_created_db\<lparr>db_jobs := []\<rparr>)" by (simp add: orphaned_def a)
  have "orphaned a db"
    by (rule deleted_printer_leaks_artifacts [OF k [unfolded sample_deleted_def] _ _ b, THEN conjunct1])
      (simp_all add: a j)
  with k a show ?thesis by blast
qed

end
