(* ===== verification/Print_Error.thy ===== *)
theory Print_Error
  imports Prelude
begin

text \<open>
  \<open>crates/pandar-core/src/print_error.rs\<close>: the catalog of build-plate errors with the
  recovery actions the six supported serial families accept.
\<close>

datatype print_error_action = Resume | Ignore | Stop

abbreviation BUILD_PLATE_MISMATCH :: u32 where "BUILD_PLATE_MISMATCH \<equiv> 83918929"
abbreviation BUILD_PLATE_NOT_DETECTED :: u32 where "BUILD_PLATE_NOT_DETECTED \<equiv> 83918945"
abbreviation BUILD_PLATE_MARKER_NOT_DETECTED :: u32 where "BUILD_PLATE_MARKER_NOT_DETECTED \<equiv> 83918946"
abbreviation BUILD_PLATE_OFFSET :: u32 where "BUILD_PLATE_OFFSET \<equiv> 83918988"
abbreviation BUILD_PLATE_COLLISION_RISK :: u32 where "BUILD_PLATE_COLLISION_RISK \<equiv> 83919003"
abbreviation VISUAL_ENCODER_BOARD_NOT_DETECTED :: u32 where
  "VISUAL_ENCODER_BOARD_NOT_DETECTED \<equiv> 83919008"

definition SUPPORTED_FAMILIES :: "string list" where
  "SUPPORTED_FAMILIES = [''093'', ''094'', ''20P'', ''22E'', ''239'', ''31B'']"

definition supports :: "string \<Rightarrow> u32 \<Rightarrow> print_error_action \<Rightarrow> bool" where
  "supports serial print_error action =
     (case map_option to_ascii_uppercase (get_prefix serial 3) of
        None \<Rightarrow> False
      | Some family \<Rightarrow>
          if family \<notin> set SUPPORTED_FAMILIES then False
          else if print_error = BUILD_PLATE_MISMATCH then
            action = Resume \<or> action = Ignore \<or> action = Stop
          else if print_error = BUILD_PLATE_NOT_DETECTED \<or>
                  print_error = BUILD_PLATE_MARKER_NOT_DETECTED \<or>
                  print_error = BUILD_PLATE_OFFSET \<or> print_error = BUILD_PLATE_COLLISION_RISK then
            action = Resume \<or> action = Ignore
          else if print_error = VISUAL_ENCODER_BOARD_NOT_DETECTED then
            family \<noteq> ''22E'' \<and> (action = Resume \<or> action = Ignore)
          else False)"

section \<open>Properties\<close>

definition catalog :: "u32 set" where
  "catalog = {BUILD_PLATE_MISMATCH, BUILD_PLATE_NOT_DETECTED, BUILD_PLATE_MARKER_NOT_DETECTED,
              BUILD_PLATE_OFFSET, BUILD_PLATE_COLLISION_RISK, VISUAL_ENCODER_BOARD_NOT_DETECTED}"

text \<open>
  The whole catalog in one line. An action is offered exactly when the first three
  bytes of the serial end on a character boundary and are, up to ASCII case, one of the six
  families, the error is one of the six build-plate errors, stopping is asked for a plate
  mismatch only, and the encoder-board error is not on family 22E.
\<close>

lemma supports_iff:
  "supports s e a \<longleftrightarrow>
     is_char_boundary s 3 \<and> to_ascii_uppercase (take 3 s) \<in> set SUPPORTED_FAMILIES \<and> e \<in> catalog \<and>
     (if a = Stop then e = BUILD_PLATE_MISMATCH else True) \<and>
     (if e = VISUAL_ENCODER_BOARD_NOT_DETECTED then to_ascii_uppercase (take 3 s) \<noteq> ''22E'' else True)"
  by (cases a) (auto simp: supports_def get_prefix_def catalog_def)

text \<open>Stopping is offered for a plate mismatch only, and whoever may stop may also resume.\<close>

lemma supports_stop: "supports s e Stop \<Longrightarrow> e = BUILD_PLATE_MISMATCH \<and> supports s e Resume \<and> supports s e Ignore"
  by (auto simp: supports_def split: option.splits if_splits)

lemma supports_resume_ignore: "supports s e Resume = supports s e Ignore"
  by (auto simp: supports_def split: option.splits)

end
