(* ===== verification/Printer_Operation.thy ===== *)
theory Printer_Operation
  imports H2c Print_Error Device_Features
begin

text \<open>
  \<open>crates/pandar-core/src/printer_operation.rs\<close> and its \<open>validation.rs\<close>: the operations a
  user may ask of a printer and the gate every one of them passes before it is queued. The
  properties give the safety limits of an accepted operation and a declarative reading of
  the axis-movement check.
\<close>

section \<open>Operations\<close>

datatype printer_axis = X | Y | Z

primrec PrinterAxis_as_str :: "printer_axis \<Rightarrow> string" where
  "PrinterAxis_as_str X = ''x''"
| "PrinterAxis_as_str Y = ''y''"
| "PrinterAxis_as_str Z = ''z''"

record printer_axis_movement =
  axis :: printer_axis
  delta_mm :: f64

datatype printer_operation =
    Pause
  | Resume
  | Stop
  | HandlePrintError (error_action: print_error_action) (print_error: u32) (printer_job_id: string)
      (sequence_id: u64)
  | GcodeLine (param: string)
  | ToggleLight
  | SetChamberLight (light_on: bool)
  | SetPrintSpeed (speed_mode: u8)
  | SetFanSpeed (fan_index: u8) (speed_percent: u8) (airduct: bool)
  | SelectExtruder (selected_extruder: u32)
  | Home (axes: "printer_axis list") (home_features: "required_device_feature list")
  | MoveAxes (movements: "printer_axis_movement list") (feedrate_mm_per_min: "u32 option")
      (move_features: "required_device_feature list")
  | SetHotendTemperature (hotend_celsius: u16) (hotend_wait: bool) (hotend_extruder: "u32 option")
  | SetBedTemperature (bed_celsius: u16) (bed_wait: bool)
  | SetChamberTemperature (chamber_celsius: u16) (chamber_wait: bool)
  | AmsRereadRfid (reread_ams: u32) (reread_slot: u32)
  | AmsLoadFilament (load_ams: u32) (load_slot: u32) (load_tray: "u32 option")
      (load_external: "string option") (load_extruder: "u32 option")
  | AmsUnloadFilament (unload_ams: u32) (unload_slot: u32) (unload_tray: "u32 option")
      (unload_external: "string option") (unload_extruder: "u32 option")
  | AmsStartDrying (dry_ams: u32) (dry_celsius: u16) (dry_hours: u16) (dry_filament: string)
      (dry_rotate: bool)
  | AmsStopDrying (stop_ams: u32)
  | GetAutoNozzleMapping (mapping_request: h2c_request)
  | NozzleHolderCtrl (holder_action: u32)
  | NozzleInfoConfirm (confirm_id: u32)
  | HolderNozzleRefresh (refresh_id: u32)

primrec PrinterOperation_action :: "printer_operation \<Rightarrow> string" where
  "PrinterOperation_action printer_operation.Pause = ''pause''"
| "PrinterOperation_action printer_operation.Resume = ''resume''"
| "PrinterOperation_action printer_operation.Stop = ''stop''"
| "PrinterOperation_action (HandlePrintError a e j s) = ''handle_print_error''"
| "PrinterOperation_action (GcodeLine p) = ''gcode_line''"
| "PrinterOperation_action ToggleLight = ''toggle_light''"
| "PrinterOperation_action (SetChamberLight b) = ''set_chamber_light''"
| "PrinterOperation_action (SetPrintSpeed m) = ''set_print_speed''"
| "PrinterOperation_action (SetFanSpeed i p a) = ''set_fan_speed''"
| "PrinterOperation_action (SelectExtruder e) = ''select_extruder''"
| "PrinterOperation_action (Home a r) = ''home''"
| "PrinterOperation_action (MoveAxes m f r) = ''move_axes''"
| "PrinterOperation_action (SetHotendTemperature t w e) = ''set_hotend_temperature''"
| "PrinterOperation_action (SetBedTemperature t w) = ''set_bed_temperature''"
| "PrinterOperation_action (SetChamberTemperature t w) = ''set_chamber_temperature''"
| "PrinterOperation_action (AmsRereadRfid a s) = ''ams_reread_rfid''"
| "PrinterOperation_action (AmsLoadFilament a s t x e) = ''ams_load_filament''"
| "PrinterOperation_action (AmsUnloadFilament a s t x e) = ''ams_unload_filament''"
| "PrinterOperation_action (AmsStartDrying a t d f r) = ''ams_start_drying''"
| "PrinterOperation_action (AmsStopDrying a) = ''ams_stop_drying''"
| "PrinterOperation_action (GetAutoNozzleMapping r) = ''get_auto_nozzle_mapping''"
| "PrinterOperation_action (NozzleHolderCtrl a) = ''nozzle_holder_ctrl''"
| "PrinterOperation_action (NozzleInfoConfirm i) = ''nozzle_info_confirm''"
| "PrinterOperation_action (HolderNozzleRefresh i) = ''holder_nozzle_refresh''"

definition required_device_features :: "printer_operation \<Rightarrow> required_device_feature list" where
  "required_device_features op =
     (case op of Home _ r \<Rightarrow> r | MoveAxes _ _ r \<Rightarrow> r | _ \<Rightarrow> [])"

section \<open>Validation\<close>

datatype printer_operation_validation_error = PrinterOperationValidationError (message: string)

abbreviation MAX_MOVE_DELTA_MM :: f64 where "MAX_MOVE_DELTA_MM \<equiv> Finite 50"
abbreviation MIN_MOVE_FEEDRATE_MM_PER_MIN :: u32 where "MIN_MOVE_FEEDRATE_MM_PER_MIN \<equiv> 1"
abbreviation MAX_MOVE_FEEDRATE_MM_PER_MIN :: u32 where "MAX_MOVE_FEEDRATE_MM_PER_MIN \<equiv> 12000"
abbreviation MAX_HOTEND_TEMPERATURE_CELSIUS :: u16 where "MAX_HOTEND_TEMPERATURE_CELSIUS \<equiv> 300"
abbreviation MAX_BED_TEMPERATURE_CELSIUS :: u16 where "MAX_BED_TEMPERATURE_CELSIUS \<equiv> 120"
abbreviation MAX_CHAMBER_TEMPERATURE_CELSIUS :: u16 where "MAX_CHAMBER_TEMPERATURE_CELSIUS \<equiv> 70"
abbreviation MAX_AMS_ID :: u32 where "MAX_AMS_ID \<equiv> 255"
abbreviation MAX_AMS_SLOT_ID :: u32 where "MAX_AMS_SLOT_ID \<equiv> 255"
abbreviation MAX_EXTRUDER_ID :: u32 where "MAX_EXTRUDER_ID \<equiv> 1"
abbreviation MAX_HOLDER_CTRL_ACTION :: u32 where "MAX_HOLDER_CTRL_ACTION \<equiv> 2"
abbreviation RACK_NOZZLE_ID_ALL :: u32 where "RACK_NOZZLE_ID_ALL \<equiv> 255"

definition invalid :: "string \<Rightarrow> ('a, printer_operation_validation_error) result" where
  "invalid msg = Err (PrinterOperationValidationError msg)"

definition valid_ams_slot :: "u32 \<Rightarrow> u32 \<Rightarrow> bool" where
  "valid_ams_slot ams_id slot_id \<longleftrightarrow> ams_id \<le> MAX_AMS_ID \<and> slot_id \<le> MAX_AMS_SLOT_ID"

definition valid_rack_nozzle_id :: "u32 \<Rightarrow> bool" where
  "valid_rack_nozzle_id i \<longleftrightarrow> (16 \<le> i \<and> i \<le> 21) \<or> i = RACK_NOZZLE_ID_ALL"

definition valid_home_features :: "printer_axis list \<Rightarrow> required_device_feature list \<Rightarrow> bool" where
  "valid_home_features ax feats \<longleftrightarrow> feats = [] \<or> (ax = [] \<and> feats = [BambuMqttHoming])"

text \<open>\<open>movements[0]\<close> is read only behind \<open>movements.len() == 1\<close>.\<close>

definition valid_move_features ::
  "printer_axis_movement list \<Rightarrow> u32 option \<Rightarrow> required_device_feature list \<Rightarrow> bool" where
  "valid_move_features ms feedrate feats \<longleftrightarrow>
     feats = [] \<or>
     (case ms of
        [m] \<Rightarrow> feedrate = None \<and>
               (float_eq (float_abs (delta_mm m)) (Finite 1) \<or>
                float_eq (float_abs (delta_mm m)) (Finite 10)) \<and>
               feats = [BambuMqttAxisControl]
      | _ \<Rightarrow> False)"

fun validate_movements ::
  "printer_axis list \<Rightarrow> printer_axis_movement list \<Rightarrow> (unit, printer_operation_validation_error) result" where
  "validate_movements seen_axes [] = Ok ()"
| "validate_movements seen_axes (m # ms) =
     (if \<not> is_finite (delta_mm m) \<or> float_eq (delta_mm m) (Finite 0) \<or>
         float_gt (float_abs (delta_mm m)) MAX_MOVE_DELTA_MM then
        invalid ''invalid printer operation move_axes delta_mm; expected finite nonzero value within 50mm''
      else if axis m \<in> set seen_axes then
        invalid ''printer operation move_axes contains duplicate axis''
      else validate_movements (seen_axes @ [axis m]) ms)"

definition validate_move_axes ::
  "printer_axis_movement list \<Rightarrow> u32 option \<Rightarrow> (unit, printer_operation_validation_error) result" where
  "validate_move_axes ms feedrate =
     (if ms = [] then invalid ''printer operation move_axes requires at least one axis''
      else and_then (validate_movements [] ms) (\<lambda>_.
        if is_some_and (\<lambda>f. \<not> (MIN_MOVE_FEEDRATE_MM_PER_MIN \<le> f \<and> f \<le> MAX_MOVE_FEEDRATE_MM_PER_MIN)) feedrate
        then invalid ''invalid printer operation move_axes feedrate; expected 1..=12000''
        else Ok ()))"

definition ams_filament_check ::
  "u32 \<Rightarrow> u32 \<Rightarrow> u32 option \<Rightarrow> (unit, printer_operation_validation_error) result" where
  "ams_filament_check ams_id slot_id extruder_id =
     (if \<not> valid_ams_slot ams_id slot_id \<or> is_some_and (\<lambda>v. v > MAX_EXTRUDER_ID) extruder_id
      then invalid ''invalid AMS filament operation'' else Ok ())"

primrec validate :: "printer_operation \<Rightarrow> (unit, printer_operation_validation_error) result" where
  "validate (GetAutoNozzleMapping request) =
     (if \<not> request_is_valid request then invalid ''invalid H2C auto nozzle mapping request'' else Ok ())"
| "validate (NozzleHolderCtrl action) =
     (if action > MAX_HOLDER_CTRL_ACTION
      then invalid ''invalid H2C nozzle_holder_ctrl action; expected 0..=2'' else Ok ())"
| "validate (NozzleInfoConfirm i) =
     (if \<not> valid_rack_nozzle_id i
      then invalid ''invalid H2C nozzle_info_confirm id; expected 16..=21 or 255'' else Ok ())"
| "validate (HolderNozzleRefresh i) =
     (if \<not> valid_rack_nozzle_id i
      then invalid ''invalid H2C holder_nozzle_refresh id; expected 16..=21 or 255'' else Ok ())"
| "validate (HandlePrintError action err job sequence) =
     (if \<not> (1 \<le> err \<and> err \<le> 2147483647)
      then invalid ''invalid printer operation print_error; expected positive int32'' else Ok ())"
| "validate (SetPrintSpeed mode) =
     (if \<not> (1 \<le> mode \<and> mode \<le> 4)
      then invalid ''invalid printer operation speed_mode; expected 1..=4'' else Ok ())"
| "validate (SetFanSpeed idx percent duct) =
     (if \<not> (1 \<le> idx \<and> idx \<le> 3) \<or> percent > 100
      then invalid ''invalid printer operation fan speed'' else Ok ())"
| "validate (SelectExtruder extruder_id) =
     (if extruder_id > MAX_EXTRUDER_ID
      then invalid ''invalid printer operation extruder_id; expected 0..=1'' else Ok ())"
| "validate (Home ax feats) =
     (if \<not> valid_home_features ax feats
      then invalid ''required device feature does not match home semantics'' else Ok ())"
| "validate (MoveAxes ms feedrate feats) =
     and_then (validate_move_axes ms feedrate) (\<lambda>_.
       if valid_move_features ms feedrate feats then Ok ()
       else invalid ''required device feature does not match axis movement semantics'')"
| "validate (SetHotendTemperature t w extruder_id) =
     (if t > MAX_HOTEND_TEMPERATURE_CELSIUS \<or> is_some_and (\<lambda>v. v > MAX_EXTRUDER_ID) extruder_id
      then invalid ''invalid printer operation hotend temperature or extruder id'' else Ok ())"
| "validate (SetBedTemperature t w) =
     (if t > MAX_BED_TEMPERATURE_CELSIUS then invalid ''invalid printer operation bed target'' else Ok ())"
| "validate (SetChamberTemperature t w) =
     (if t > MAX_CHAMBER_TEMPERATURE_CELSIUS
      then invalid ''invalid printer operation chamber target'' else Ok ())"
| "validate (AmsRereadRfid ams_id slot_id) =
     (if \<not> valid_ams_slot ams_id slot_id then invalid ''invalid AMS slot'' else Ok ())"
| "validate (AmsLoadFilament ams_id slot_id tray ext extruder_id) =
     ams_filament_check ams_id slot_id extruder_id"
| "validate (AmsUnloadFilament ams_id slot_id tray ext extruder_id) =
     ams_filament_check ams_id slot_id extruder_id"
| "validate (AmsStartDrying ams_id t hours filament rotate_tray) =
     (if ams_id > MAX_AMS_ID then invalid ''invalid AMS id''
      else if \<not> (45 \<le> t \<and> t \<le> 85)
      then invalid ''invalid printer operation drying temperature; expected 45..=85''
      else if \<not> (1 \<le> hours \<and> hours \<le> 24)
      then invalid ''invalid printer operation drying duration; expected 1..=24''
      else if trim filament = [] then invalid ''invalid printer operation drying filament''
      else Ok ())"
| "validate (AmsStopDrying ams_id) =
     (if ams_id > MAX_AMS_ID then invalid ''invalid AMS id'' else Ok ())"
| "validate printer_operation.Pause = Ok ()"
| "validate printer_operation.Resume = Ok ()"
| "validate printer_operation.Stop = Ok ()"
| "validate (GcodeLine p) = Ok ()"
| "validate ToggleLight = Ok ()"
| "validate (SetChamberLight b) = Ok ()"

section \<open>Properties\<close>

lemma invalid_ne_Ok [simp]: "invalid m \<noteq> Ok x" "Ok x \<noteq> invalid m"
  by (simp_all add: invalid_def)

definition delta_ok :: "f64 \<Rightarrow> bool" where
  "delta_ok d \<longleftrightarrow> (\<exists>q. d = Finite q \<and> q \<noteq> 0 \<and> \<bar>q\<bar> \<le> 50)"

lemma validate_movements_Ok:
  "distinct seen \<Longrightarrow>
     validate_movements seen ms = Ok () \<longleftrightarrow>
       list_all (\<lambda>m. delta_ok (delta_mm m)) ms \<and> distinct (seen @ map axis ms)"
proof (induction ms arbitrary: seen)
  case Nil
  then show ?case by simp
next
  case (Cons m ms)
  have "validate_movements seen (m # ms) = Ok () \<longleftrightarrow>
      delta_ok (delta_mm m) \<and> axis m \<notin> set seen \<and> validate_movements (seen @ [axis m]) ms = Ok ()"
    by (cases "delta_mm m") (auto simp: delta_ok_def)
  moreover have "validate_movements (seen @ [axis m]) ms = Ok () \<longleftrightarrow>
      list_all (\<lambda>m. delta_ok (delta_mm m)) ms \<and> distinct (seen @ [axis m] @ map axis ms)"
    if "axis m \<notin> set seen" using Cons.IH [of "seen @ [axis m]"] Cons.prems that by simp
  ultimately show ?case by auto
qed

lemma distinct_axes_length: "distinct (xs :: printer_axis list) \<Longrightarrow> length xs \<le> 3"
proof -
  assume d: "distinct xs"
  have "set xs \<subseteq> {X, Y, Z}" using printer_axis.exhaust by blast
  then have "card (set xs) \<le> card {X, Y, Z}" by (rule card_mono [rotated]) simp
  with d show ?thesis by (simp add: distinct_card)
qed

text \<open>
  The axis-movement check accepts exactly the lists of one to three movements on
  pairwise different axes, each by a finite, non-zero distance of at most 50 mm, with a
  feed rate (if given) of 1 to 12000 mm per minute.
\<close>

lemma validate_move_axes_iff:
  "validate_move_axes ms feedrate = Ok () \<longleftrightarrow>
     ms \<noteq> [] \<and> length ms \<le> 3 \<and> distinct (map axis ms) \<and>
     list_all (\<lambda>m. delta_ok (delta_mm m)) ms \<and>
     (case feedrate of None \<Rightarrow> True | Some f \<Rightarrow> 1 \<le> f \<and> f \<le> 12000)"
proof -
  have "validate_move_axes ms feedrate = Ok () \<longleftrightarrow>
      ms \<noteq> [] \<and> validate_movements [] ms = Ok () \<and>
      (case feedrate of None \<Rightarrow> True | Some f \<Rightarrow> 1 \<le> f \<and> f \<le> 12000)"
    by (auto simp: validate_move_axes_def result_simps split: option.split)
  then show ?thesis
    using validate_movements_Ok [of "[]" ms] distinct_axes_length [of "map axis ms"] by auto
qed

text \<open>
  What the printer may be told to do: the limits every accepted operation keeps, read off
  its parameters.
\<close>

primrec within_limits :: "printer_operation \<Rightarrow> bool" where
  "within_limits printer_operation.Pause = True"
| "within_limits printer_operation.Resume = True"
| "within_limits printer_operation.Stop = True"
| "within_limits (HandlePrintError a e j s) = (unat e \<in> {1..<2 ^ 31})"
| "within_limits (GcodeLine p) = True"
| "within_limits ToggleLight = True"
| "within_limits (SetChamberLight b) = True"
| "within_limits (SetPrintSpeed m) = (unat m \<in> {1..4})"
| "within_limits (SetFanSpeed i p a) = (unat i \<in> {1..3} \<and> unat p \<le> 100)"
| "within_limits (SelectExtruder e) = (unat e \<le> 1)"
| "within_limits (Home a r) = (r = [] \<or> a = [])"
| "within_limits (MoveAxes m f r) = (list_all (\<lambda>m. delta_ok (delta_mm m)) m \<and> distinct (map axis m))"
| "within_limits (SetHotendTemperature t w e) = (unat t \<le> 300)"
| "within_limits (SetBedTemperature t w) = (unat t \<le> 120)"
| "within_limits (SetChamberTemperature t w) = (unat t \<le> 70)"
| "within_limits (AmsRereadRfid a s) = (unat a < 256 \<and> unat s < 256)"
| "within_limits (AmsLoadFilament a s t x e) = (unat a < 256 \<and> unat s < 256)"
| "within_limits (AmsUnloadFilament a s t x e) = (unat a < 256 \<and> unat s < 256)"
| "within_limits (AmsStartDrying a t d f r) = (unat a < 256 \<and> unat t \<in> {45..85} \<and> unat d \<in> {1..24})"
| "within_limits (AmsStopDrying a) = (unat a < 256)"
| "within_limits (GetAutoNozzleMapping r) = (length (req_sequence_id r) \<in> {1..20})"
| "within_limits (NozzleHolderCtrl a) = (unat a \<le> 2)"
| "within_limits (NozzleInfoConfirm i) = (unat i \<in> {16..21} \<union> {255})"
| "within_limits (HolderNozzleRefresh i) = (unat i \<in> {16..21} \<union> {255})"

lemmas word_limits = word_le_nat_alt word_less_nat_alt

lemma rack_limits: "valid_rack_nozzle_id i \<longleftrightarrow> unat i \<in> {16..21} \<union> {255}"
  by (auto simp: valid_rack_nozzle_id_def word_limits word_unat_eq_iff)

text \<open>
  No operation passes validation outside the machine's limits: hot end at most 300, bed
  120, chamber 70 degrees, drying 45 to 85 degrees for 1 to 24 hours, fans at most 100
  percent, moves at most 50 mm with no axis twice, print-error codes that stay positive as
  signed 32-bit numbers (below 2 to the 31), and identifiers in range.
\<close>

lemma validate_within_limits:
  assumes "validate op = Ok ()"
  shows "within_limits op"
  using assms
proof (cases op)
  case (MoveAxes ms f r)
  with assms show ?thesis
    using validate_movements_Ok [of "[]" ms]
    by (auto simp: result_simps validate_move_axes_def split: if_splits)
next
  case (GetAutoNozzleMapping r)
  with assms show ?thesis by (auto simp: request_is_valid_def Suc_le_eq split: if_splits)
qed (auto simp: valid_home_features_def valid_ams_slot_def ams_filament_check_def
       word_limits rack_limits split: if_splits)

lemma validate_within_limits_witness:
  "within_limits (MoveAxes [\<lparr>axis = X, delta_mm = Finite 10\<rparr>] None [BambuMqttAxisControl])"
  by (rule validate_within_limits) code_simp

end
