(* ===== verification/Firmware_Types.thy ===== *)
theory Firmware_Types
  imports Prelude
begin

text \<open>
  \<open>crates/pandar-core/src/firmware.rs\<close>: the firmware state a printer reports, the firmware
  commands, and the two views of a command that leave the hub: its \<open>Debug\<close> text and the
  control metadata. The download address of a \<open>start\<close> command must appear in neither.
\<close>

section \<open>Reported state\<close>

record printer_firmware_module =
  fm_name :: string
  fm_software_version :: "string option"
  fm_software_new_version :: "string option"
  fm_new_version :: "string option"
  fm_visible :: "bool option"
  fm_product_name :: "string option"
  fm_serial_number :: "string option"
  fm_hardware_version :: "string option"
  fm_firmware_flag :: "i32 option"

record printer_firmware_version =
  fv_name :: string
  fv_current_version :: "string option"
  fv_new_version :: "string option"

record ams_firmware_descriptor =
  afd_id :: i32
  afd_name :: string
  afd_version :: string

record ams_firmware_switch_state =
  afs_firmware :: "ams_firmware_descriptor list option"
  afs_current_firmware_id :: "i32 option"
  afs_current_run_firmware_id :: "i32 option"
  afs_status :: "string option"

record printer_upgrade_state =
  us_status :: "string option"
  us_progress :: "string option"
  us_message :: "string option"
  us_module :: "string option"
  us_error_code :: "i64 option"
  us_new_version_state :: "i32 option"
  us_consistency_request :: "bool option"
  us_force_upgrade :: "bool option"
  us_display_state :: "i32 option"
  us_ota_new_version_number :: "string option"
  us_ams_new_version_number :: "string option"
  us_ahb_new_version_number :: "string option"
  us_new_versions :: "printer_firmware_version list option"
  us_ams_firmware :: "ams_firmware_switch_state option"

record printer_firmware_status =
  fs_upgrade_state :: "printer_upgrade_state option"
  fs_cfg :: "string option"

record printer_firmware_state =
  fst_session_id :: "string option"
  fst_generation :: "u64 option"
  fst_module_revision :: u64
  fst_status_revision :: u64
  fst_modules :: "printer_firmware_module list option"
  fst_upgrade_state :: "printer_upgrade_state option"
  fst_cfg :: "string option"

datatype firmware_catalog_target = TargetPrinter | TargetAms

record firmware_catalog_entry =
  fce_target :: firmware_catalog_target
  fce_version :: string
  fce_url :: string
  fce_description :: string

record firmware_acknowledgement =
  fa_command :: string
  fa_sequence_id :: string
  fa_result :: "string option"
  fa_error_code :: "i64 option"
  fa_reason :: "string option"
  fa_message :: "string option"

datatype firmware_terminal_outcome =
    FirmwareAcknowledged firmware_acknowledgement
  | PublishedWithoutAcknowledgement

section \<open>Commands and their public views\<close>

datatype firmware_command =
    UpgradeConfirm string i64
  | ConsistencyConfirm string i64
  | Start string i64 (url: string) string string
  | SwitchAmsFirmware string i64 i32

datatype firmware_control_metadata =
    UpgradeConfirm string i64
  | ConsistencyConfirm string i64
  | Start string i64 string string
  | SwitchAmsFirmware string i64 i32

primrec FirmwareControlMetadata_from :: "firmware_command \<Rightarrow> firmware_control_metadata" where
  "FirmwareControlMetadata_from (firmware_command.UpgradeConfirm sid src) =
     firmware_control_metadata.UpgradeConfirm sid src"
| "FirmwareControlMetadata_from (firmware_command.ConsistencyConfirm sid src) =
     firmware_control_metadata.ConsistencyConfirm sid src"
| "FirmwareControlMetadata_from (firmware_command.Start sid src u module version) =
     firmware_control_metadata.Start sid src module version"
| "FirmwareControlMetadata_from (firmware_command.SwitchAmsFirmware sid src i) =
     firmware_control_metadata.SwitchAmsFirmware sid src i"

text \<open>
  The calls \<open>fmt\<close> makes on its formatter: \<open>debug_struct\<close> with a name, then one \<open>field\<close> per
  entry, then \<open>finish\<close>.
\<close>

datatype debug_value = DebugStr string | DebugInt int

record debug_struct =
  ds_name :: string
  ds_fields :: "(string \<times> debug_value) list"

primrec FirmwareCommand_fmt :: "firmware_command \<Rightarrow> debug_struct" where
  "FirmwareCommand_fmt (firmware_command.UpgradeConfirm sid src) =
     \<lparr>ds_name = ''UpgradeConfirm'',
      ds_fields = [(''sequence_id'', DebugStr sid), (''src_id'', DebugInt src)]\<rparr>"
| "FirmwareCommand_fmt (firmware_command.ConsistencyConfirm sid src) =
     \<lparr>ds_name = ''ConsistencyConfirm'',
      ds_fields = [(''sequence_id'', DebugStr sid), (''src_id'', DebugInt src)]\<rparr>"
| "FirmwareCommand_fmt (firmware_command.Start sid src u module version) =
     \<lparr>ds_name = ''Start'',
      ds_fields = [(''sequence_id'', DebugStr sid), (''src_id'', DebugInt src),
        (''url'', DebugStr ''[redacted]''), (''module'', DebugStr module), (''version'', DebugStr version)]\<rparr>"
| "FirmwareCommand_fmt (firmware_command.SwitchAmsFirmware sid src i) =
     \<lparr>ds_name = ''SwitchAmsFirmware'',
      ds_fields = [(''sequence_id'', DebugStr sid), (''src_id'', DebugInt src), (''id'', DebugInt i)]\<rparr>"

section \<open>Properties\<close>

text \<open>The command with its download address replaced.\<close>

definition with_url :: "string \<Rightarrow> firmware_command \<Rightarrow> firmware_command" where
  "with_url u c =
     (case c of firmware_command.Start sid src _ m v \<Rightarrow> firmware_command.Start sid src u m v | _ \<Rightarrow> c)"

text \<open>
  The download address of a firmware command leaks neither into the debug text nor
  into the control metadata (replacing it changes neither view), and the address is the
  only thing the metadata loses: commands with the same metadata differ at most in it.
\<close>

lemma firmware_url_not_disclosed:
  "FirmwareCommand_fmt (with_url u c) = FirmwareCommand_fmt c \<and>
   FirmwareControlMetadata_from (with_url u c) = FirmwareControlMetadata_from c \<and>
   (FirmwareControlMetadata_from c = FirmwareControlMetadata_from d \<longleftrightarrow> with_url u c = with_url u d)"
  by (cases c; cases d) (auto simp: with_url_def)

end
