(* ===== verification/Hub_Live_Commands.thy ===== *)
theory Hub_Live_Commands
  imports Hub_Commands Printer_Operation Firmware_Types
begin

text \<open>
  Commands that live with a session: the phases of a firmware command
  (\<open>repositories/commands/firmware.rs\<close>) and the sweep that fails live commands nobody owns any more
  (\<open>fail_stale_unowned_live_commands\<close> of \<open>repositories/commands/transitions.rs\<close>). The sweep is a loop of
  separate transactions: an error in one command ends it and keeps what was committed.

  Parameters: the JSON readers of the payloads and the writer of the firmware result
  (\<open>serde_json\<close>), the RFC 3339 reader and writer (\<open>time\<close>; instants are integers), the clock.
\<close>

section \<open>Payloads\<close>

record firmware_refresh_payload =
  frp_action :: string
  frp_serial :: string
  frp_owner_session_id :: string
  frp_owner_instance_id :: string
  frp_sequence_id :: string

record firmware_control_payload =
  fcp_serial :: string
  fcp_owner_session_id :: string
  fcp_owner_instance_id :: string
  fcp_command :: firmware_control_metadata

datatype firmware_persisted_phase =
  PrePublishFailure | PhaseAcknowledged | Rejected | OutcomeUnknown | Refreshed

record firmware_persisted_result =
  fpr_phase :: firmware_persisted_phase
  fpr_outcome :: "firmware_terminal_outcome option"
  fpr_transient_status :: "printer_firmware_status option"

record live_codec =
  read_operation :: "string \<Rightarrow> printer_operation option"
  read_refresh :: "string \<Rightarrow> firmware_refresh_payload option"
  read_control :: "string \<Rightarrow> firmware_control_payload option"
  write_result :: "firmware_persisted_result \<Rightarrow> string"
  parse_time :: "string \<Rightarrow> int option"
  format_time :: "int \<Rightarrow> string option"

section \<open>Firmware commands\<close>

definition require_kind :: "command_record \<Rightarrow> string \<Rightarrow> command_record repository_result" where
  "require_kind c expected =
     (if cmd_kind c = expected then Ok c
      else Err (InvalidCommandTransition (CommandStatus_as_str (cmd_status c)) ''advance firmware command''))"

definition execute_transition :: "command_id \<Rightarrow> tenant_id \<Rightarrow> agent_id \<Rightarrow> status_transition" where
  "execute_transition i tenant agent =
     \<lparr>st_command_id = i, st_tenant_id = tenant, st_agent_id = agent,
      st_status = command_status.Acknowledged, st_error = None, st_result_json = None,
      st_allowed_statuses = [command_status.Sent]\<rparr>"

definition mark_firmware_execute_sent_on ::
  "uuid_parser \<Rightarrow> timestamp \<Rightarrow> command_id \<Rightarrow> tenant_id \<Rightarrow> agent_id \<Rightarrow> hub_db \<Rightarrow>
     (command_record \<times> hub_db) repository_result" where
  "mark_firmware_execute_sent_on uuid now i tenant agent db =
     and_then (load_owned_command uuid db tenant agent i) (\<lambda>c0.
     and_then (require_kind c0 ''firmware_control'') (\<lambda>c0.
       if cmd_status c0 = command_status.Acknowledged then Ok (c0, db)
       else
         let (updated, db1) = update_status_if_current_on now (execute_transition i tenant agent) db
         in and_then (load_owned_command uuid db1 tenant agent i) (\<lambda>c1.
            and_then (require_kind c1 ''firmware_control'') (\<lambda>c.
              if updated \<or> cmd_status c = command_status.Acknowledged then Ok (c, db1)
              else Err (InvalidCommandTransition (CommandStatus_as_str (cmd_status c))
                     ''advance firmware command'')))))"

definition mark_firmware_terminal ::
  "uuid_parser \<Rightarrow> live_codec \<Rightarrow> timestamp \<Rightarrow> command_id \<Rightarrow> tenant_id \<Rightarrow> agent_id \<Rightarrow> command_status \<Rightarrow>
     string option \<Rightarrow> firmware_persisted_result \<Rightarrow> hub_db \<Rightarrow> command_record repository_result \<times> hub_db" where
  "mark_firmware_terminal uuid codec now i tenant agent status err res db =
     (case load_owned_command uuid db tenant agent i of
        Err e \<Rightarrow> (Err e, db)
      | Ok c \<Rightarrow>
          if \<not> is_firmware_kind (cmd_kind c)
          then (Err (InvalidCommandTransition (CommandStatus_as_str (cmd_status c)) ''finish firmware command''), db)
          else
            let result_json = write_result codec res;
                (r, db1) = guard_terminal_transition uuid now
                  \<lparr>tt_command_id = i, tt_tenant_id = tenant, tt_agent_id = agent,
                   tt_terminal_status = status, tt_error = err, tt_result_json = Some result_json,
                   tt_action = ''finish firmware command''\<rparr> db
            in (and_then r (\<lambda>c.
                  if cmd_status c = status \<and> cmd_error c = err \<and> cmd_result_json c = Some result_json
                  then Ok c
                  else Err (InvalidCommandTransition (CommandStatus_as_str (cmd_status c))
                         ''finish firmware command with a different terminal result'')), db1))"

section \<open>The sweep of stale live commands\<close>

definition live_kind :: "string \<Rightarrow> bool" where
  "live_kind k \<longleftrightarrow> k \<in> {''link_printer'', ''printer_operation'', ''firmware_refresh'', ''firmware_control''}"

definition is_handle_print_error :: "printer_operation \<Rightarrow> bool" where
  "is_handle_print_error op = (case op of HandlePrintError _ _ _ _ \<Rightarrow> True | _ \<Rightarrow> False)"

text \<open>
  The error text and the firmware owner of a candidate. The query selects the four live
  kinds only, so the last branch, \<open>unreachable!\<close> in the source, is never taken (lemma
  \<open>sweep_verdict_not_unreachable\<close>).
\<close>

definition sweep_verdict ::
  "live_codec \<Rightarrow> command_record \<Rightarrow> (string option \<times> (string \<times> string) option) repository_result" where
  "sweep_verdict codec c =
     (if cmd_kind c = ''link_printer'' then
        Ok (Some ''printer link dispatch expired before completion'', None)
      else if cmd_kind c = ''printer_operation'' then
        (case read_operation codec (cmd_payload_json c) of
           None \<Rightarrow> Err (Database (Message ''failed to deserialize stale printer operation command payload''))
         | Some op \<Rightarrow>
             Ok (if is_handle_print_error op
                 then Some ''live printer operation owner unavailable before completion'' else None, None))
      else if cmd_kind c = ''firmware_refresh'' then
        (case read_refresh codec (cmd_payload_json c) of
           None \<Rightarrow> Err (Database (Message ''failed to deserialize stale firmware refresh command payload''))
         | Some p \<Rightarrow>
             Ok (Some ''live firmware refresh owner unavailable before completion'',
                 Some (frp_owner_session_id p, frp_owner_instance_id p)))
      else if cmd_kind c = ''firmware_control'' then
        (case read_control codec (cmd_payload_json c) of
           None \<Rightarrow> Err (Database (Message ''failed to deserialize stale firmware control command payload''))
         | Some p \<Rightarrow>
             Ok (Some ''live firmware control owner unavailable before completion'',
                 Some (fcp_owner_session_id p, fcp_owner_instance_id p)))
      else Err (Database (Message ''unreachable'')))"

definition sweep_transition :: "live_codec \<Rightarrow> command_record \<Rightarrow> string \<Rightarrow> status_transition" where
  "sweep_transition codec c err =
     \<lparr>st_command_id = cmd_id c, st_tenant_id = cmd_tenant_id c, st_agent_id = cmd_agent_id c,
      st_status = command_status.Failed, st_error = Some err,
      st_result_json =
        (if is_firmware_kind (cmd_kind c)
         then Some (write_result codec
                \<lparr>fpr_phase = (if cmd_status c = command_status.Acknowledged then OutcomeUnknown else PrePublishFailure),
                 fpr_outcome = None, fpr_transient_status = None\<rparr>)
         else None),
      st_allowed_statuses = [command_status.Sent, command_status.Acknowledged]\<rparr>"

definition sweep_one ::
  "live_codec \<Rightarrow> (command_id \<Rightarrow> timestamp) \<Rightarrow> string \<Rightarrow> int \<Rightarrow> command_record \<Rightarrow> hub_db \<Rightarrow>
     (bool \<times> hub_db) repository_result" where
  "sweep_one codec clock sweeper session_cutoff c db =
     and_then (sweep_verdict codec c) (\<lambda>(err, owner).
       case err of
         None \<Rightarrow> Ok (False, db)
       | Some e \<Rightarrow>
           (case owner of
              None \<Rightarrow> Ok (update_status_if_current_on (clock (cmd_id c)) (sweep_transition codec c e) db)
            | Some (session, instance) \<Rightarrow>
                and_then (begin_stale_firmware_cleanup_transaction (parse_time codec) db (cmd_tenant_id c)
                            (cmd_agent_id c) session instance sweeper session_cutoff) (\<lambda>opened.
                  if opened
                  then Ok (update_status_if_current_on (clock (cmd_id c)) (sweep_transition codec c e) db)
                  else Ok (False, db))))"

fun sweep_loop ::
  "live_codec \<Rightarrow> (command_id \<Rightarrow> timestamp) \<Rightarrow> string \<Rightarrow> int \<Rightarrow> command_id list \<Rightarrow> command_record list \<Rightarrow>
     nat \<Rightarrow> hub_db \<Rightarrow> nat repository_result \<times> hub_db" where
  "sweep_loop codec clock sweeper cutoff owned [] failed db = (Ok failed, db)"
| "sweep_loop codec clock sweeper cutoff owned (c # cs) failed db =
     (if cmd_id c \<in> set owned then sweep_loop codec clock sweeper cutoff owned cs failed db
      else case sweep_one codec clock sweeper cutoff c db of
             Err e \<Rightarrow> (Err e, db)
           | Ok (updated, db1) \<Rightarrow>
               sweep_loop codec clock sweeper cutoff owned cs (if updated then failed + 1 else failed) db1)"

definition sweep_candidates :: "uuid_parser \<Rightarrow> string \<Rightarrow> hub_db \<Rightarrow> command_record list repository_result" where
  "sweep_candidates uuid cutoff db =
     traverse_list (command_from_model uuid)
       (filter (\<lambda>r. live_kind (cr_kind r) \<and>
                    (cr_status r = CommandStatus_as_str command_status.Sent \<or>
                     cr_status r = CommandStatus_as_str command_status.Acknowledged) \<and>
                    text_less (cr_updated_at r) cutoff) (db_commands db))"

definition fail_stale_unowned_live_commands ::
  "uuid_parser \<Rightarrow> live_codec \<Rightarrow> (command_id \<Rightarrow> timestamp) \<Rightarrow> string \<Rightarrow> int \<Rightarrow> int \<Rightarrow> string \<Rightarrow> command_id list \<Rightarrow>
     hub_db \<Rightarrow> nat repository_result \<times> hub_db" where
  "fail_stale_unowned_live_commands uuid codec clock now command_timeout session_timeout sweeper owned db =
     (case parse_time codec now of
        None \<Rightarrow> (Err (Database (Message ''failed to parse live command cleanup timestamp'')), db)
      | Some now_at \<Rightarrow>
          (case format_time codec (now_at - command_timeout) of
             None \<Rightarrow> (Err (Database (Message ''failed to format live command cleanup cutoff'')), db)
           | Some cutoff \<Rightarrow>
               (case sweep_candidates uuid cutoff db of
                  Err e \<Rightarrow> (Err e, db)
                | Ok cs \<Rightarrow> sweep_loop codec clock sweeper (now_at - session_timeout) owned cs 0 db)))"

section \<open>Properties\<close>

lemma sweep_candidates_kind:
  assumes "sweep_candidates uuid cutoff db = Ok cs" "c \<in> set cs"
  shows "live_kind (cmd_kind c)"
  using traverse_list_member [OF assms [unfolded sweep_candidates_def]] command_from_model_Ok(4)
  by fastforce

lemma sweep_verdict_not_unreachable:
  "live_kind (cmd_kind c) \<Longrightarrow> sweep_verdict codec c \<noteq> Err (Database (Message ''unreachable''))"
  by (auto simp: sweep_verdict_def live_kind_def split: option.split)

lemma sweep_transition_open [simp]:
  "list_all open_status (st_allowed_statuses (sweep_transition codec c e))"
  by (simp add: sweep_transition_def open_status_def)

text \<open>What the sweep may do to a row, and to the database.\<close>

definition row_swept :: "command_id list \<Rightarrow> command_row \<Rightarrow> command_row \<Rightarrow> bool" where
  "row_swept owned r r' \<longleftrightarrow>
     r' = r \<or>
     (cr_id r' = cr_id r \<and> cr_kind r' = cr_kind r \<and> cr_id r \<notin> set owned \<and>
      \<not> terminal_text (cr_status r) \<and> cr_status r' = ''failed'')"

definition db_swept :: "command_id list \<Rightarrow> hub_db \<Rightarrow> hub_db \<Rightarrow> bool" where
  "db_swept owned db db' \<longleftrightarrow>
     db' = db\<lparr>db_commands := db_commands db'\<rparr> \<and>
     list_all2 (row_swept owned) (db_commands db) (db_commands db')"

lemma row_swept_trans: "row_swept owned a b \<Longrightarrow> row_swept owned b c \<Longrightarrow> row_swept owned a c"
  by (auto simp: row_swept_def terminal_text_def)

lemma db_swept_refl: "db_swept owned db db"
  by (simp add: db_swept_def row_swept_def list_all2_same)

lemma db_swept_trans:
  assumes "db_swept owned a b" "db_swept owned b c"
  shows "db_swept owned a c"
proof -
  have b: "b = a\<lparr>db_commands := db_commands b\<rparr>" and c: "c = b\<lparr>db_commands := db_commands c\<rparr>"
    and l: "list_all2 (row_swept owned) (db_commands a) (db_commands b)"
      "list_all2 (row_swept owned) (db_commands b) (db_commands c)"
    using assms unfolding db_swept_def by blast+
  have "c = a\<lparr>db_commands := db_commands c\<rparr>" by (subst c, subst b) simp
  moreover have "list_all2 (row_swept owned) (db_commands a) (db_commands c)"
    using l row_swept_trans unfolding list_all2_conv_all_nth by metis
  ultimately show ?thesis by (simp add: db_swept_def)
qed

lemma db_swept_step:
  assumes "st_command_id t \<notin> set owned" "list_all open_status (st_allowed_statuses t)"
    and "st_status t = command_status.Failed"
  shows "db_swept owned db (db\<lparr>db_commands := map (status_step now t) (db_commands db)\<rparr>)"
proof -
  have "row_swept owned r (status_step now t r)" for r
    using assms generic_cmd.sel_open [of t r]
    by (auto simp: row_swept_def status_update_def status_selected_def)
  then show ?thesis by (simp add: db_swept_def list_all2_map2 list_all2_same)
qed

lemma sweep_one_swept:
  assumes "sweep_one codec clock sweeper cutoff c db = Ok (u, db')" "cmd_id c \<notin> set owned"
  shows "db_swept owned db db'"
proof -
  have upd: "snd (update_status_if_current_on now t db) = db\<lparr>db_commands := map (status_step now t) (db_commands db)\<rparr>"
    for now t by (simp add: update_status_if_current_on_def update_many_def Let_def)
  from assms(1) have "db' = db \<or>
      (\<exists>e. update_status_if_current_on (clock (cmd_id c)) (sweep_transition codec c e) db = (u, db'))"
    by (auto simp: sweep_one_def result_simps split: option.splits if_splits)
  then consider "db' = db" | e where "db' = db\<lparr>db_commands :=
      map (status_step (clock (cmd_id c)) (sweep_transition codec c e)) (db_commands db)\<rparr>"
    using upd by (metis snd_conv)
  then show ?thesis
  proof cases
    case 2
    moreover have "db_swept owned db (db\<lparr>db_commands :=
        map (status_step (clock (cmd_id c)) (sweep_transition codec c e)) (db_commands db)\<rparr>)"
      by (rule db_swept_step) (use assms(2) in \<open>simp_all add: sweep_transition_def open_status_def\<close>)
    ultimately show ?thesis by simp
  qed (simp add: db_swept_refl)
qed

lemma sweep_loop_swept: "db_swept owned db (snd (sweep_loop codec clock sweeper cutoff owned cs failed db))"
proof (induction codec clock sweeper cutoff owned cs failed db rule: sweep_loop.induct)
  case (2 codec clock sweeper cutoff owned c cs failed db)
  show ?case
  proof (cases "cmd_id c \<in> set owned \<or> (\<exists>e. sweep_one codec clock sweeper cutoff c db = Err e)")
    case True
    then show ?thesis using "2.IH"(1) by (auto simp: db_swept_refl)
  next
    case False
    then obtain u db1 where o: "sweep_one codec clock sweeper cutoff c db = Ok (u, db1)" "cmd_id c \<notin> set owned"
      by (cases "sweep_one codec clock sweeper cutoff c db") auto
    show ?thesis
      using "2.IH"(2) [OF o(2,1) refl] db_swept_trans [OF sweep_one_swept [OF o]] by (simp add: o)
  qed
qed (simp add: db_swept_refl)

text \<open>
  Whatever the sweep of stale live commands meets, errors included, it only fails open
  commands: every command row is as before, or was not yet ended, is not owned by this hub
  instance and now is failed with the same identity and kind. No other table changes.
\<close>

lemma sweep_only_fails_open_commands:
  "db_swept owned db
     (snd (fail_stale_unowned_live_commands uuid codec clock now command_timeout session_timeout sweeper owned db))"
  by (simp add: fail_stale_unowned_live_commands_def db_swept_refl sweep_loop_swept
      split: option.split result.split)

text \<open>
  A firmware command that ended stays as it ended: asking for the same outcome again gives
  the stored command, and asking for a different one is refused, without a change.
\<close>

lemma mark_firmware_terminal_kept:
  assumes "keys_ok db" "command_at db i = Some m" "terminal_text (cr_status m)"
  shows "command_at (snd (mark_firmware_terminal uuid codec now i' tenant agent status err res db)) i = Some m"
proof -
  let ?t = "terminal_status_transition \<lparr>tt_command_id = i', tt_tenant_id = tenant, tt_agent_id = agent,
                   tt_terminal_status = status, tt_error = err, tt_result_json = Some (write_result codec res),
                   tt_action = ''finish firmware command''\<rparr>"
  have t: "list_all open_status (st_allowed_statuses ?t)"
    by (simp add: terminal_status_transition_def open_status_def)
  have "find_by_id cr_id i (map (status_step now ?t) (db_commands db)) =
        map_option (status_step now ?t) (command_at db i)"
    by (rule find_by_id_map) simp
  also have "\<dots> = Some m" using assms(2,3) step_terminal(2) [OF t, of m now] by simp
  finally show ?thesis using assms(2)
    by (auto simp: mark_firmware_terminal_def guard_terminal_db Let_def case_prod_beta split: result.split)
qed

end
