(* ===== verification/Hub_Lifecycle.thy ===== *)
theory Hub_Lifecycle
  imports Hub_Cleanup Hub_Live_Commands
begin

text \<open>
  The lifecycle of print jobs and their commands across the hub's transactions. The step relation \<open>hub_step\<close> has one rule per transaction
  of \<open>crates/pandar-hub/src/repositories\<close> and \<open>cleanup.rs\<close> that writes or deletes commands or jobs, the deletions
  of printers and agents with what their foreign keys delete included; one rule, \<open>elsewhere\<close>, stands for every transaction that
  writes only agents, printers, audit events or the deletion queue, and allows any change of these tables. A run of the hub is any interleaving of the
  rules (each transaction is serialised by the row locks it takes); print reports are added in \<open>Hub_System\<close>. The invariant
  \<open>lifecycle_inv\<close> is kept by every step, and gives the property at the end: ended commands are frozen.

  The rules' side conditions are the callers' contract: fresh command ids are in canonical form
  (\<open>uuid c = Some c\<close>), and the two entry points for other commands are not called on print commands.
\<close>


section \<open>Steps\<close>

inductive hub_step :: "job_codec \<Rightarrow> live_codec \<Rightarrow> url_reader \<Rightarrow> hub_db \<Rightarrow> hub_db \<Rightarrow> bool"
  for codec live read_url where
  create: "create_print_job_tx codec now i c input metadata db = Ok (w, db') \<Longrightarrow> jc_uuid codec c = Some c \<Longrightarrow>
     hub_step codec live read_url db db'"
| copy: "create_copy_with_audit codec now now' i c ev tenant source p overrides actor action reason db = Ok (w, db') \<Longrightarrow>
     jc_uuid codec c = Some c \<Longrightarrow> hub_step codec live read_url db db'"
| enqueue: "insert_with_status input s db = Ok db' \<Longrightarrow> ic_kind input \<noteq> ''print_project_file'' \<Longrightarrow>
     open_status s \<Longrightarrow> jc_uuid codec (ic_id input) = Some (ic_id input) \<Longrightarrow> hub_step codec live read_url db db'"
| session: "transition_current_session_command (jc_uuid codec) read_url now now' tenant agent session_id i action db = Ok (r, db') \<Longrightarrow>
     jc_uuid codec i = Some i \<Longrightarrow> hub_step codec live read_url db db'"
| closing: "fail_queued_for_closing_session (jc_uuid codec) read_url now now' tenant agent session_id i err db = Ok (r, db') \<Longrightarrow>
     jc_uuid codec i = Some i \<Longrightarrow> hub_step codec live read_url db db'"
| mark_failed: "snd (mark_failed_with_result (jc_uuid codec) now i tenant agent err res db) = db' \<Longrightarrow>
     command_at db i = Some m \<Longrightarrow> cr_kind m \<noteq> ''print_project_file'' \<Longrightarrow> hub_step codec live read_url db db'"
| firmware_execute: "mark_firmware_execute_sent_on (jc_uuid codec) now i tenant agent db = Ok (r, db') \<Longrightarrow>
     hub_step codec live read_url db db'"
| firmware_terminal: "snd (mark_firmware_terminal (jc_uuid codec) live now i tenant agent status err res db) = db' \<Longrightarrow>
     hub_step codec live read_url db db'"
| sweep: "snd (fail_stale_unowned_live_commands (jc_uuid codec) live clock now ct st sweeper owned db) = db' \<Longrightarrow>
     hub_step codec live read_url db db'"
| cancel: "cancel_tx codec now now' ev tenant submission actor db = Ok (i, db') \<Longrightarrow> hub_step codec live read_url db db'"
| retry: "retry_tx codec now now' now'' c ev tenant i reason actor db = Ok db' \<Longrightarrow> jc_uuid codec c = Some c \<Longrightarrow>
     jc_uuid codec i = Some i \<Longrightarrow> hub_step codec live read_url db db'"
| stall: "mark_stalled_pending_jobs codec pt ft now db = Ok (ws, db') \<Longrightarrow> hub_step codec live read_url db db'"
| clear: "clear_tx backend codec pt now_at ev_now ev tenant scope actor db = Ok (out, db') \<Longrightarrow> hub_step codec live read_url db db'"
| claim: "claim_online_session (jc_uuid codec) tenant agent session_id version seen db = Ok (a, db') \<Longrightarrow>
     hub_step codec live read_url db db'"
| heartbeat: "heartbeat_if_current (jc_uuid codec) tenant agent session_id seen db = Ok (a, db') \<Longrightarrow>
     hub_step codec live read_url db db'"
| offline: "mark_offline_if_current (jc_uuid codec) tenant agent session_id seen db = Ok (m_a, db') \<Longrightarrow>
     hub_step codec live read_url db db'"
| delete_agent: "delete_offline_with_audit (jc_uuid codec) to_text ev now tenant i actor db = Ok (a, db') \<Longrightarrow>
     hub_step codec live read_url db db'"
| delete_printer: "delete_printer_with_audit read_printer to_text ev now tenant i actor db = Ok (p, db') \<Longrightarrow>
     hub_step codec live read_url db db'"
| cleanup_jobs: "cleanup_jobs_and_artifacts backend cutoff db = Ok db' \<Longrightarrow> hub_step codec live read_url db db'"
| cleanup_commands: "hub_step codec live read_url db (cleanup_commands cutoff db)"
| elsewhere: "db' = db\<lparr>db_agents := agents, db_printers := printers, db_audit := audit, db_artifact_deletions := queue\<rparr> \<Longrightarrow>
     hub_step codec live read_url db db'"

section \<open>The invariant\<close>

definition in_sync :: "command_row list \<Rightarrow> job_row \<Rightarrow> bool" where
  "in_sync commands j \<longleftrightarrow>
     (\<exists>c \<in> set commands. cr_id c = jr_command_id j \<and> cr_kind c = ''print_project_file'' \<and> cr_status c = jr_status j)"

definition lifecycle_inv :: "uuid_parser \<Rightarrow> hub_db \<Rightarrow> bool" where
  "lifecycle_inv uuid db \<longleftrightarrow>
     keys_ok db \<and> distinct (map jr_command_id (db_jobs db)) \<and>
     list_all (\<lambda>i. uuid i = Some i) (map cr_id (db_commands db)) \<and>
     (\<forall>j \<in> set (db_jobs db). in_sync (db_commands db) j)"

lemma lifecycle_keys: "lifecycle_inv uuid db \<Longrightarrow> keys_ok db"
  by (simp add: lifecycle_inv_def)

text \<open>Steps that rewrite only commands that are not print commands.\<close>

lemma inv_other_commands:
  assumes "lifecycle_inv uuid db" "db_jobs db' = db_jobs db" "db_commands db' = map f (db_commands db)"
    and "\<And>r. cr_id (f r) = cr_id r"
    and "\<And>r. r \<in> set (db_commands db) \<Longrightarrow> cr_kind r = ''print_project_file'' \<Longrightarrow> f r = r"
  shows "lifecycle_inv uuid db'"
proof -
  have "in_sync (map f (db_commands db)) j" if "in_sync (db_commands db) j" for j
  proof -
    from that obtain c where c: "c \<in> set (db_commands db)" "cr_id c = jr_command_id j"
        "cr_kind c = ''print_project_file''" "cr_status c = jr_status j"
      unfolding in_sync_def by blast
    then have "c \<in> set (map f (db_commands db))" using assms(5) by (metis image_eqI list.set_map)
    with c show ?thesis unfolding in_sync_def by blast
  qed
  moreover have "map cr_id (map f (db_commands db)) = map cr_id (db_commands db)" using assms(4) by simp
  ultimately show ?thesis
    using assms(1-4) unfolding lifecycle_inv_def keys_ok_def by (auto simp del: map_map)
qed

lemma inv_append_command:
  assumes "lifecycle_inv uuid db" "db_jobs db' = db_jobs db" "db_commands db' = db_commands db @ [c]"
    and "cr_id c \<notin> cr_id ` set (db_commands db)" "uuid (cr_id c) = Some (cr_id c)"
  shows "lifecycle_inv uuid db'"
  using assms unfolding lifecycle_inv_def keys_ok_def in_sync_def by auto

lemma inv_append_command_job:
  assumes "lifecycle_inv uuid db" "db_jobs db' = db_jobs db @ [j]" "db_commands db' = db_commands db @ [c]"
    and "cr_id c \<notin> cr_id ` set (db_commands db)" "uuid (cr_id c) = Some (cr_id c)"
    and "jr_id j \<notin> jr_id ` set (db_jobs db)" "jr_command_id j = cr_id c"
    and "cr_kind c = ''print_project_file''" "cr_status c = jr_status j"
  shows "lifecycle_inv uuid db'"
proof -
  have "cr_id c \<notin> jr_command_id ` set (db_jobs db)"
    using assms(1,4) unfolding lifecycle_inv_def in_sync_def by force
  then show ?thesis using assms unfolding lifecycle_inv_def keys_ok_def in_sync_def by auto
qed

lemma inv_same:
  "lifecycle_inv uuid db \<Longrightarrow> db_jobs db' = db_jobs db \<Longrightarrow> db_commands db' = db_commands db \<Longrightarrow> lifecycle_inv uuid db'"
  by (simp add: lifecycle_inv_def keys_ok_def)

lemma synced_command:
  assumes "lifecycle_inv uuid db" "j \<in> set (db_jobs db)"
  obtains m where "command_at db (jr_command_id j) = Some m" "cr_kind m = ''print_project_file''"
    "cr_status m = jr_status j"
proof -
  obtain c where c: "c \<in> set (db_commands db)" "cr_id c = jr_command_id j"
      "cr_kind c = ''print_project_file''" "cr_status c = jr_status j"
    using assms unfolding lifecycle_inv_def in_sync_def by blast
  have "distinct (map cr_id (db_commands db))" using assms(1) by (simp add: lifecycle_inv_def keys_ok_def)
  then have "command_at db (jr_command_id j) = Some c" using c by (simp add: find_by_id_eq_Some)
  then show thesis using c(3,4) by (rule that)
qed

lemma command_at_member: "command_at db i = Some m \<Longrightarrow> m \<in> set (db_commands db) \<and> cr_id m = i"
  by (rule find_by_id_Some)

lemma command_at_unique:
  "lifecycle_inv uuid db \<Longrightarrow> r \<in> set (db_commands db) \<Longrightarrow> command_at db (cr_id r) = Some r"
  by (simp add: lifecycle_inv_def keys_ok_def find_by_id_eq_Some)

lemma job_update_simps [simp]:
  "jr_status (job_update read_url now t j) = JobStatus_as_str (pt_job_status t)"
  "jr_command_id (job_update read_url now t j) = jr_command_id j"
  "jr_id (job_update read_url now t j) = jr_id j"
  by (simp_all add: job_update_def Let_def split: option.split)

text \<open>A print transition carries the job of the command along.\<close>

lemma inv_print_transition:
  assumes inv: "lifecycle_inv uuid db"
    and cmds: "db_commands db' = map (print_step now t) (db_commands db)"
    and jobs: "db_jobs db' = map (job_step read_url now' t) (db_jobs db)"
    and hit: "command_at db (pt_command_id t) = Some m"
      "cr_status (print_step now t m) = CommandStatus_as_str (pt_command_status t)"
    and same: "JobStatus_as_str (pt_job_status t) = CommandStatus_as_str (pt_command_status t)"
    and opn: "list_all open_status (pt_allowed_statuses t)"
  shows "lifecycle_inv uuid db'"
proof -
  have jid: "jr_command_id (job_step read_url now' t j) = jr_command_id j" "jr_id (job_step read_url now' t j) = jr_id j" for j
    by simp_all
  have sync: "in_sync (db_commands db') (job_step read_url now' t j)" if j: "j \<in> set (db_jobs db)" for j
  proof -
    obtain c where c: "command_at db (jr_command_id j) = Some c" "cr_kind c = ''print_project_file''"
        "cr_status c = jr_status j"
      using inv j by (rule synced_command)
    have "cr_status (print_step now t c) = jr_status (job_step read_url now' t j)"
    proof (cases "jr_command_id j = pt_command_id t")
      case True
      with c hit have "c = m" by simp
      show ?thesis
      proof (cases "job_selected t j")
        case sel: True
        then show ?thesis using hit(2) \<open>c = m\<close> same by (simp only: if_True job_update_simps)
      next
        case False
        then have "terminal_text (jr_status j)" using True by (auto simp: job_selected_def terminal_text_def)
        then have "print_step now t c = c" using step_terminal(1) [OF opn, of c now] c(3) by simp
        with False c(3) show ?thesis by simp
      qed
    next
      case False
      then show ?thesis using c command_at_member [OF c(1)] by (auto simp: print_selected_def job_selected_def)
    qed
    moreover have "print_step now t c \<in> set (db_commands db')"
      using command_at_member [OF c(1)] unfolding cmds by (simp del: if_split)
    ultimately show ?thesis
      unfolding in_sync_def using c command_at_member [OF c(1)] by (intro bexI) (simp_all add: jid)
  qed
  have ids: "map cr_id (db_commands db') = map cr_id (db_commands db)" unfolding cmds by (simp del: if_split)
  have jids: "map jr_id (db_jobs db') = map jr_id (db_jobs db)"
    "map jr_command_id (db_jobs db') = map jr_command_id (db_jobs db)"
    unfolding jobs by (simp_all del: if_split add: jid)
  have "\<forall>j \<in> set (db_jobs db'). in_sync (db_commands db') j" using sync unfolding jobs set_map by blast
  with inv show ?thesis unfolding lifecycle_inv_def keys_ok_def ids jids by blast
qed


definition not_print :: "hub_db \<Rightarrow> command_id \<Rightarrow> bool" where
  "not_print db i \<longleftrightarrow> (\<forall>m. command_at db i = Some m \<longrightarrow> cr_kind m \<noteq> ''print_project_file'')"

lemma inv_status_step:
  assumes "lifecycle_inv uuid db" "db' = db\<lparr>db_commands := map (status_step now t) (db_commands db)\<rparr>"
    and "not_print db (st_command_id t)"
  shows "lifecycle_inv uuid db'"
proof (rule inv_other_commands [OF assms(1)])
  show "db_jobs db' = db_jobs db" "db_commands db' = map (status_step now t) (db_commands db)"
    by (simp_all add: assms(2))
  show "status_step now t r = r" if "r \<in> set (db_commands db)" "cr_kind r = ''print_project_file''" for r
    using that assms(3) command_at_unique [OF assms(1) that(1)] by (auto simp: not_print_def status_selected_def)
qed simp

lemma not_print_status_step:
  "not_print db i \<Longrightarrow> not_print (db\<lparr>db_commands := map (status_step now t) (db_commands db)\<rparr>) i"
proof -
  assume n: "not_print db i"
  have "find_by_id cr_id i (map (status_step now t) (db_commands db)) = map_option (status_step now t) (command_at db i)"
    by (rule find_by_id_map) simp
  with n show ?thesis
    by (cases "command_at db i") (simp_all del: if_split add: not_print_def)
qed

lemma inv_transition_command_on:
  assumes "transition_command_on uuid read_url now now' tenant agent i action db = Ok (c, db')"
    and "lifecycle_inv uuid db" "uuid i = Some i"
  shows "lifecycle_inv uuid db'"
  using assms(1,3)
proof (cases rule: transition_command_on_cases)
  case (print m)
  note p = transition_print_command_Ok [OF print(3) lifecycle_keys [OF assms(2)]]
  from p(4) obtain m' where "command_at db i = Some m'"
    "cr_status (print_step now (print_transition_of tenant agent i action) m') = CommandStatus_as_str (action_target action)"
    by auto
  then show ?thesis
    by (intro inv_print_transition [OF assms(2) p(1,2)]) simp_all
next
  case (generic m command)
  note p = transition_command_Ok [OF generic(4) lifecycle_keys [OF assms(2)]]
  show ?thesis
    by (rule inv_status_step [OF assms(2) p(1)]) (use generic in \<open>simp add: not_print_def\<close>)
qed

lemma loaded_row:
  assumes "load_owned_command uuid db tenant agent i = Ok c"
  shows "\<exists>m. command_at db i = Some m \<and> cr_kind m = cmd_kind c"
  using load_owned_command_Ok [OF assms] command_from_model_Ok(4) by metis

lemma inv_guard_terminal:
  assumes "lifecycle_inv uuid db" "not_print db (tt_command_id t)"
  shows "lifecycle_inv uuid (snd (guard_terminal_transition uuid now t db))"
  by (rule inv_status_step [OF assms(1) guard_terminal_db])
    (use assms(2) in \<open>simp add: terminal_status_transition_def\<close>)

lemma inv_mark_failed:
  assumes "lifecycle_inv uuid db" "not_print db i"
  shows "lifecycle_inv uuid (snd (mark_failed_with_result uuid now i tenant agent err res db))"
  using assms inv_guard_terminal [OF assms(1)]
  by (simp add: mark_failed_with_result_def guard_generic_terminal_transition_def split: result.split)

lemma inv_firmware_terminal:
  assumes "lifecycle_inv uuid db"
  shows "lifecycle_inv uuid (snd (mark_firmware_terminal uuid live now i tenant agent status err res db))"
proof (cases "load_owned_command uuid db tenant agent i")
  case (Ok c)
  then have "not_print db i" if "is_firmware_kind (cmd_kind c)"
    using loaded_row [OF Ok] that by (auto simp: not_print_def is_firmware_kind_def)
  then show ?thesis
    using Ok assms inv_guard_terminal [OF assms]
    by (simp add: mark_firmware_terminal_def Let_def case_prod_beta)
qed (simp add: mark_firmware_terminal_def assms)

lemma inv_firmware_execute:
  assumes "mark_firmware_execute_sent_on uuid now i tenant agent db = Ok (r, db')" "lifecycle_inv uuid db"
  shows "lifecycle_inv uuid db'"
proof -
  have upd: "snd (update_status_if_current_on now t db) = db\<lparr>db_commands := map (status_step now t) (db_commands db)\<rparr>"
    for now t by (simp add: update_status_if_current_on_def update_many_def Let_def)
  from assms(1) obtain c where c: "load_owned_command uuid db tenant agent i = Ok c" "cmd_kind c = ''firmware_control''"
    and d: "db' = db \<or> db' = snd (update_status_if_current_on now (execute_transition i tenant agent) db)"
    by (auto simp: mark_firmware_execute_sent_on_def require_kind_def result_simps split: if_splits prod.splits)
  have "not_print db (st_command_id (execute_transition i tenant agent))"
    using loaded_row [OF c(1)] c(2) by (auto simp: not_print_def execute_transition_def)
  with d show ?thesis using assms(2) inv_status_step [OF assms(2) upd] by auto
qed

lemma sweep_target: "st_command_id (sweep_transition live c e) = cmd_id c"
  by (simp add: sweep_transition_def)

lemma inv_sweep_loop:
  "lifecycle_inv uuid db \<Longrightarrow> list_all (\<lambda>c. not_print db (cmd_id c)) cs \<Longrightarrow>
     lifecycle_inv uuid (snd (sweep_loop live clock sweeper cutoff owned cs failed db))"
proof (induction cs arbitrary: failed db)
  case (Cons c cs)
  have upd: "snd (update_status_if_current_on now t db) = db\<lparr>db_commands := map (status_step now t) (db_commands db)\<rparr>"
    for now t by (simp add: update_status_if_current_on_def update_many_def Let_def)
  show ?case
  proof (cases "sweep_one live clock sweeper cutoff c db")
    case (Ok p)
    then obtain u db1 where o: "sweep_one live clock sweeper cutoff c db = Ok (u, db1)" by (cases p) auto
    then have "db1 = db \<or>
        (\<exists>e. update_status_if_current_on (clock (cmd_id c)) (sweep_transition live c e) db = (u, db1))"
      by (auto simp: sweep_one_def result_simps split: option.splits if_splits)
    then have d: "db1 = db \<or> (\<exists>e. db1 = db\<lparr>db_commands :=
        map (status_step (clock (cmd_id c)) (sweep_transition live c e)) (db_commands db)\<rparr>)"
      using upd by (metis snd_conv)
    have inv1: "lifecycle_inv uuid db1"
      using d Cons.prems by (elim disjE exE) (simp_all add: inv_status_step [OF Cons.prems(1)] sweep_target)
    have "list_all (\<lambda>c. not_print db1 (cmd_id c)) cs"
      using d Cons.prems(2) by (elim disjE exE) (simp_all add: list_all_iff not_print_status_step)
    with inv1 show ?thesis using Cons by (simp add: o)
  qed (use Cons in simp)
qed simp

lemma inv_sweep:
  assumes "lifecycle_inv uuid db"
  shows "lifecycle_inv uuid (snd (fail_stale_unowned_live_commands uuid live clock now ct st sweeper owned db))"
proof -
  have "not_print db (cmd_id c)" if cand: "sweep_candidates uuid cutoff db = Ok cs" "c \<in> set cs" for cutoff cs c
  proof -
    obtain r where r: "r \<in> set (db_commands db)" "live_kind (cr_kind r)" "command_from_model uuid r = Ok c"
      using traverse_list_member [OF cand [unfolded sweep_candidates_def]] by auto
    have "cmd_id c = cr_id r"
      using command_from_model_Ok(1) [OF r(3)] assms r(1) by (auto simp: lifecycle_inv_def list_all_iff)
    then show ?thesis using command_at_unique [OF assms r(1)] r(2) by (auto simp: not_print_def live_kind_def)
  qed
  then show ?thesis
    using assms inv_sweep_loop [OF assms]
    by (simp add: fail_stale_unowned_live_commands_def list_all_iff split: option.split result.split)
qed


text \<open>Rows rewritten in place: the identities stay, and each job follows its command.\<close>

lemma inv_map:
  assumes inv: "lifecycle_inv uuid db"
    and maps: "db_commands db' = map f (db_commands db)" "db_jobs db' = map g (db_jobs db)"
    and ids: "\<And>c. cr_id (f c) = cr_id c" "\<And>c. cr_kind (f c) = cr_kind c"
      "\<And>j. jr_id (g j) = jr_id j" "\<And>j. jr_command_id (g j) = jr_command_id j"
    and follow: "\<And>c j. c \<in> set (db_commands db) \<Longrightarrow> j \<in> set (db_jobs db) \<Longrightarrow> cr_id c = jr_command_id j \<Longrightarrow>
        cr_kind c = ''print_project_file'' \<Longrightarrow> cr_status c = jr_status j \<Longrightarrow> cr_status (f c) = jr_status (g j)"
  shows "lifecycle_inv uuid db'"
proof -
  have "in_sync (map f (db_commands db)) (g j)" if j: "j \<in> set (db_jobs db)" for j
  proof -
    obtain c where c: "c \<in> set (db_commands db)" "cr_id c = jr_command_id j"
        "cr_kind c = ''print_project_file''" "cr_status c = jr_status j"
      using inv j unfolding lifecycle_inv_def in_sync_def by blast
    then show ?thesis using follow [OF c(1) j c(2-4)] ids unfolding in_sync_def by auto
  qed
  moreover have "map cr_id (map f (db_commands db)) = map cr_id (db_commands db)"
    "map jr_id (map g (db_jobs db)) = map jr_id (db_jobs db)"
    "map jr_command_id (map g (db_jobs db)) = map jr_command_id (db_jobs db)"
    using ids by simp_all
  ultimately show ?thesis
    using inv unfolding lifecycle_inv_def keys_ok_def maps by (auto simp del: map_map)
qed

lemma inv_insert_pair:
  assumes "insert_command_and_job codec input i c serial submission metadata now db = Ok (w, db')"
    and "lifecycle_inv uuid db" "uuid c = Some c"
  shows "lifecycle_inv uuid db'"
proof -
  obtain cmd job where "db_commands db' = db_commands db @ [cmd]" "db_jobs db' = db_jobs db @ [job]"
    "c \<notin> cr_id ` set (db_commands db)" "i \<notin> jr_id ` set (db_jobs db)"
    "cr_id cmd = c" "jr_id job = i" "jr_command_id job = c" "cr_kind cmd = ''print_project_file''"
    "cr_status cmd = jr_status job"
    using assms(1)
    by (cases submission) (auto simp: insert_command_and_job_def result_simps insert_command_def insert_with_status_def
        insert_job_def new_job_row_def Let_def split: if_splits)
  then show ?thesis by (intro inv_append_command_job [OF assms(2)]) (simp_all add: assms(3))
qed

lemma inv_create:
  assumes "create_print_job_tx codec now i c input metadata db = Ok (w, db')"
    and "lifecycle_inv uuid db" "uuid c = Some c"
  shows "lifecycle_inv uuid db'"
proof -
  obtain serial submission db1 db2 where
    a: "allocate (cpj_tenant_id input) db = Ok (submission, db1)" and f: "insert_artifact input now db1 = Ok db2"
    and p: "insert_command_and_job codec input i c serial submission metadata now db2 = Ok (w, db')"
    using assms(1) by (auto simp: create_print_job_tx_def result_simps)
  have "db_commands db2 = db_commands db1" "db_jobs db2 = db_jobs db1"
    using f by (auto simp: insert_artifact_def Let_def split: if_splits)
  then have "lifecycle_inv uuid db2" using inv_same [OF assms(2)] allocate_frame [OF a] by simp
  with p show ?thesis using assms(3) by (rule inv_insert_pair)
qed

lemma inv_append_audit [simp]: "lifecycle_inv uuid (append_audit e db) = lifecycle_inv uuid db"
  by (simp add: lifecycle_inv_def keys_ok_def)

lemma inv_copy:
  assumes "create_copy_with_audit codec now now' i c ev tenant source p overrides actor action reason db = Ok (w, db')"
    and "lifecycle_inv uuid db" "uuid c = Some c"
  shows "lifecycle_inv uuid db'"
proof -
  obtain db1 where d: "create_print_job_from_artifact codec now i c
        (NewPrintJobFromArtifact_from_source source p overrides) db = Ok (w, db1)"
    and e: "\<exists>e. db' = append_audit e db1"
    using assms(1) by (auto simp: create_copy_with_audit_def result_simps)
  then obtain serial submission db0 input md t where
    a: "allocate t db = Ok (submission, db0)"
    and p: "insert_command_and_job codec input i c serial submission md now db0 = Ok (w, db1)"
    unfolding create_print_job_from_artifact_def by (auto simp: result_simps Let_def split: if_splits)
  have "lifecycle_inv uuid db0" using inv_same [OF assms(2)] allocate_frame [OF a] by simp
  from inv_insert_pair [OF p this assms(3)] e show ?thesis by auto
qed

lemma inv_enqueue:
  "insert_with_status input s db = Ok db' \<Longrightarrow> uuid (ic_id input) = Some (ic_id input) \<Longrightarrow>
     lifecycle_inv uuid db \<Longrightarrow> lifecycle_inv uuid db'"
  by (auto simp: insert_with_status_def split: if_splits elim!: inv_append_command)

lemma inv_cancel:
  assumes "cancel_tx codec now now' ev tenant submission actor db = Ok (i, db')" "lifecycle_inv uuid db"
  shows "lifecycle_inv uuid db'"
  using assms(1)
proof (cases rule: cancel_tx_Ok)
  case (performed job command)
  have j: "job \<in> set (db_jobs db)"
    using performed(1) by (auto simp: load_job_reference_def result_simps find_Some_iff)
  have d: "distinct (map cr_id (db_commands db))" "distinct (map jr_id (db_jobs db))"
      "distinct (map jr_command_id (db_jobs db))"
    using assms(2) by (simp_all add: lifecycle_inv_def keys_ok_def)
  have sc: "cancel_command_selected (tenant, jr_command_id job) c"
    if "c \<in> set (db_commands db)" "cr_id c = jr_command_id job" for c
    using filter_one_key [OF d(1) performed(5) [unfolded cancel_command_selected_def, simplified] that] that
    by (simp add: cancel_command_selected_def)
  have sj: "cancel_job_selected tenant job x" if "x \<in> set (db_jobs db)" "jr_id x = jr_id job" for x
    using filter_one_key [OF d(2) performed(6) [unfolded cancel_job_selected_def, simplified] that] that
    by (simp add: cancel_job_selected_def)
  show ?thesis
  proof (rule inv_map [OF assms(2) performed(7,8)])
    fix c x assume h: "c \<in> set (db_commands db)" "x \<in> set (db_jobs db)" "cr_id c = jr_command_id x"
      "cr_kind c = ''print_project_file''" "cr_status c = jr_status x"
    show "cr_status (cancel_command_step now tenant job c) = jr_status (cancel_job_step now tenant job x)"
    proof (cases "jr_id x = jr_id job")
      case True
      then have "x = job" using d(2) h(2) j by (metis distinct_map inj_onD)
      then show ?thesis using sc [OF h(1)] sj [OF h(2) True] h(3)
        by (simp add: cancel_command_update_def cancel_job_update_def)
    next
      case False
      then have "jr_command_id x \<noteq> jr_command_id job" using d(3) h(2) j by (metis distinct_map inj_onD)
      then show ?thesis using False h by (simp add: cancel_command_selected_def cancel_job_selected_def)
    qed
  qed (simp_all add: cancel_command_update_def cancel_job_update_def)
qed (simp add: assms(2))

lemma inv_retry:
  assumes "retry_tx codec now now' now'' c ev tenant i reason actor db = Ok db'"
    and "lifecycle_inv uuid db" "uuid c = Some c"
  shows "lifecycle_inv uuid db'"
  using assms(1)
proof (cases rule: retry_tx_Ok)
  case (1 source command body cmd)
  note new = 1(5,6) and jobs = 1(8)
  have cmd: "cr_id cmd = c" "cr_kind cmd = ''print_project_file''" "cr_status cmd = ''queued''"
    by (simp_all add: 1(7))
  let ?g = "\<lambda>r. retry_job_step now' tenant i (job_command_id (jwa_job source)) c r"
  have d: "distinct (map cr_id (db_commands db))" "distinct (map jr_id (db_jobs db))"
      "distinct (map jr_command_id (db_jobs db))"
    using assms(2) by (simp_all add: lifecycle_inv_def keys_ok_def)
  have old: "jr_command_id j \<noteq> c" if "j \<in> set (db_jobs db)" for j
    using assms(2) that new(1) unfolding lifecycle_inv_def in_sync_def by force
  have sel: "x = y" if "retry_job_selected tenant i s x" "retry_job_selected tenant i s y"
      "x \<in> set (db_jobs db)" "y \<in> set (db_jobs db)" for s x y
    using that d(2) by (auto simp: retry_job_selected_def distinct_map inj_on_def)
  have sync: "in_sync (db_commands db @ [cmd]) (?g j)" if j: "j \<in> set (db_jobs db)" for j
    using assms(2) j cmd unfolding lifecycle_inv_def in_sync_def
    by (auto simp: retry_job_update_def)
  have g_id: "jr_id (?g j) = jr_id j" for j by (simp add: retry_job_update_def)
  have "inj_on (\<lambda>j. jr_command_id (?g j)) (set (db_jobs db))"
  proof (rule inj_onI)
    fix x y assume h: "x \<in> set (db_jobs db)" "y \<in> set (db_jobs db)" "jr_command_id (?g x) = jr_command_id (?g y)"
    show "x = y"
      using h old sel [OF _ _ h(1,2)] d(3)
      by (auto simp: retry_job_update_def distinct_map inj_on_def split: if_splits)
  qed
  moreover have "distinct (db_jobs db)" using d(2) by (simp add: distinct_map)
  ultimately have "distinct (map jr_command_id (map ?g (db_jobs db)))" by (simp add: distinct_map comp_def del: if_split)
  moreover have "map jr_id (map ?g (db_jobs db)) = map jr_id (db_jobs db)" using g_id by (simp del: if_split)
  moreover have "\<forall>j \<in> set (map ?g (db_jobs db)). in_sync (db_commands db @ [cmd]) j"
    unfolding set_map using sync by blast
  ultimately show ?thesis
    using assms(2,3) new(1) cmd(1) d unfolding lifecycle_inv_def keys_ok_def jobs new(2)
    by (simp del: map_map)
qed

lemma inv_stall:
  assumes "mark_stalled_pending_jobs codec pt ft now db = Ok (ws, db')" "lifecycle_inv uuid db"
  shows "lifecycle_inv uuid db'"
  using assms(1)
proof (cases rule: mark_stalled_Ok)
  case (some now_at cutoff aged)
  show ?thesis
    by (rule inv_map [OF assms(2), where f = id and g = "stall_step aged db"])
      (simp_all add: some(4) stalled_update_def)
qed (simp add: assms(2))

text \<open>Rows that are deleted: no job keeps a reference to a command that goes.\<close>

lemma inv_shrink:
  assumes inv: "lifecycle_inv uuid db"
    and tables: "db_commands db' = map f (filter K (db_commands db))" "db_jobs db' = filter J (db_jobs db)"
    and same: "\<And>c. cr_id (f c) = cr_id c" "\<And>c. cr_kind (f c) = cr_kind c" "\<And>c. cr_status (f c) = cr_status c"
    and refs: "\<And>c j. c \<in> set (db_commands db) \<Longrightarrow> \<not> K c \<Longrightarrow> j \<in> set (db_jobs db') \<Longrightarrow> jr_command_id j \<noteq> cr_id c"
  shows "lifecycle_inv uuid db'"
proof -
  have "in_sync (db_commands db') j" if j: "j \<in> set (db_jobs db')" for j
  proof -
    have "j \<in> set (db_jobs db)" using j by (simp add: tables)
    then obtain c where c: "c \<in> set (db_commands db)" "cr_id c = jr_command_id j"
        "cr_kind c = ''print_project_file''" "cr_status c = jr_status j"
      using inv unfolding lifecycle_inv_def in_sync_def by blast
    moreover from this have "K c" using refs [OF _ _ j] by metis
    ultimately show ?thesis unfolding in_sync_def tables(1) by (auto simp: same)
  qed
  moreover have "map cr_id (db_commands db') = map cr_id (filter K (db_commands db))" by (simp add: tables(1) same)
  ultimately show ?thesis
    using inv unfolding lifecycle_inv_def keys_ok_def tables(2)
    by (auto simp: list_all_iff distinct_map_filter)
qed

lemma inv_clear:
  assumes "clear_tx backend codec pt now_at ev_now ev tenant scope actor db = Ok (out, db')" "lifecycle_inv uuid db"
  shows "lifecycle_inv uuid db'"
proof -
  obtain keep_job keep_cmd where
    t: "db_jobs db' = filter keep_job (db_jobs db)" "db_commands db' = filter keep_cmd (db_commands db)"
    and r: "\<And>c j. c \<in> set (db_commands db) \<Longrightarrow> \<not> keep_cmd c \<Longrightarrow> j \<in> set (db_jobs db') \<Longrightarrow> jr_command_id j \<noteq> cr_id c"
    using clear_tables [OF assms(1)] by blast
  show ?thesis by (rule inv_shrink [OF assms(2), where f = id and K = keep_cmd and J = keep_job]) (simp_all add: t(2), rule t(1), rule r)
qed

text \<open>What deleting an agent, a printer or old rows leaves of the commands and jobs.\<close>

lemma forget_printers_Nil [simp]: "forget_printers [] = id"
  by (auto simp: fun_eq_iff forget_printers_def)

definition shrinks :: "hub_db \<Rightarrow> hub_db \<Rightarrow> bool" where
  "shrinks db db' \<longleftrightarrow> (\<exists>ids K J.
     prr_id ` (set (db_printers db) - set (db_printers db')) \<supseteq> set ids \<and>
     db_commands db' = map (forget_printers ids) (filter K (db_commands db)) \<and> db_jobs db' = filter J (db_jobs db) \<and>
     (\<forall>c j. c \<in> set (db_commands db) \<longrightarrow> \<not> K c \<longrightarrow> j \<in> set (db_jobs db') \<longrightarrow> jr_command_id j \<noteq> cr_id c))"

lemma inv_shrinks: "shrinks db db' \<Longrightarrow> lifecycle_inv uuid db \<Longrightarrow> lifecycle_inv uuid db'"
proof -
  assume s: "shrinks db db'" and i: "lifecycle_inv uuid db"
  obtain ids K J where "db_commands db' = map (forget_printers ids) (filter K (db_commands db))" "db_jobs db' = filter J (db_jobs db)"
    "\<forall>c j. c \<in> set (db_commands db) \<longrightarrow> \<not> K c \<longrightarrow> j \<in> set (db_jobs db') \<longrightarrow> jr_command_id j \<noteq> cr_id c"
    using s unfolding shrinks_def by blast
  then show ?thesis by (intro inv_shrink [OF i, of db' "forget_printers ids" K J]) (assumption | rule forget_printers_columns | blast)+
qed

lemma shrinks_deletions:
  "delete_offline_with_audit uuid to_text ev now tenant i actor db = Ok (a, db') \<Longrightarrow> shrinks db db'"
  "delete_printer_with_audit read_printer to_text ev now tenant i actor db = Ok (p, db') \<Longrightarrow> shrinks db db'"
  "cleanup_jobs_and_artifacts backend cutoff db = Ok db' \<Longrightarrow> shrinks db db'"
  "shrinks db (cleanup_commands cutoff db)"
proof -
  assume "delete_offline_with_audit uuid to_text ev now tenant i actor db = Ok (a, db')"
  then obtain e where db': "db' = delete_agent_rows (\<lambda>r. ar_id r = i) (append_audit e db)"
    by (auto simp: delete_offline_with_audit_def result_simps Let_def split: if_splits)
  let ?agents = "ar_id ` set (filter (\<lambda>r. ar_id r = i) (db_agents db))"
  let ?ids = "map prr_id (filter (\<lambda>p. prr_agent_id p \<in> ?agents) (db_printers db))"
  have "db_commands db' = map (forget_printers ?ids) (filter (\<lambda>c. cr_agent_id c \<notin> ?agents) (db_commands db))"
    by (simp add: db' delete_agent_rows_def append_audit_def filter_map comp_def Let_def)
  moreover have "set ?ids \<subseteq> prr_id ` (set (db_printers db) - set (db_printers db'))"
    by (auto simp: db' delete_agent_rows_def append_audit_def Let_def)
  moreover have "\<exists>J. db_jobs db' = filter J (db_jobs db)"
    by (auto simp: db' delete_agent_rows_def append_audit_def Let_def)
  moreover have "jr_command_id j \<noteq> cr_id c" if "c \<in> set (db_commands db)" "cr_agent_id c \<in> ?agents" "j \<in> set (db_jobs db')" for c j
    using that by (auto simp: db' delete_agent_rows_def append_audit_def Let_def image_iff) (metis forget_printers_columns(1,4))
  ultimately show "shrinks db db'" unfolding shrinks_def
    by (intro exI [of _ ?ids] exI [of _ "\<lambda>c. cr_agent_id c \<notin> ?agents"]) blast
next
  assume "delete_printer_with_audit read_printer to_text ev now tenant i actor db = Ok (p, db')"
  note d = delete_printer_Ok(3) [OF this]
  then obtain ids where "set ids \<subseteq> prr_id ` set (db_printers db)" "\<forall>q \<in> set (db_printers db'). prr_id q \<notin> set ids"
    "db_commands db' = map (forget_printers ids) (db_commands db)" "db_jobs db' = filter (\<lambda>j. jr_printer_id j \<notin> set ids) (db_jobs db)"
    by blast
  moreover from this(1,2) have "set ids \<subseteq> prr_id ` (set (db_printers db) - set (db_printers db'))" by blast
  ultimately show "shrinks db db'" unfolding shrinks_def
    by (intro exI [of _ ids] exI [of _ "\<lambda>_ :: command_row. True"] exI [of _ "\<lambda>j. jr_printer_id j \<notin> set ids"]) auto
next
  assume "cleanup_jobs_and_artifacts backend cutoff db = Ok db'"
  then show "shrinks db db'"
    by (rule cleanup_jobs_Ok) (auto simp: shrinks_def intro!: exI [of _ "[]"] exI [of _ "\<lambda>_ :: command_row. True"])
next
  show "shrinks db (cleanup_commands cutoff db)" unfolding shrinks_def
    by (intro exI [of _ "[]"] exI [of _ "\<lambda>c. \<not> command_cleanup cutoff cutoff db c"])
      (auto simp: cleanup_commands_tables forget_printers_def)
qed

lemma inv_agents:
  "claim_online_session uuid tenant agent session_id version seen db = Ok (a, db') \<Longrightarrow>
     lifecycle_inv u db \<Longrightarrow> lifecycle_inv u db'"
  "heartbeat_if_current uuid tenant agent session_id seen db = Ok (a, db') \<Longrightarrow>
     lifecycle_inv u db \<Longrightarrow> lifecycle_inv u db'"
  "mark_offline_if_current uuid tenant agent session_id seen db = Ok (m_a, db') \<Longrightarrow>
     lifecycle_inv u db \<Longrightarrow> lifecycle_inv u db'"
  by (auto simp: update_agent_row_def claim_online_session_def heartbeat_if_current_def mark_offline_if_current_def
      result_simps update_many_def Let_def split: if_splits elim!: inv_same)

section \<open>The properties of the lifecycle\<close>

lemma inv_session:
  assumes "transition_current_session_command uuid read_url now now' tenant agent session_id i action db = Ok (r, db')"
    and "lifecycle_inv uuid db" "uuid i = Some i"
  shows "lifecycle_inv uuid db'"
  using assms inv_transition_command_on
  by (auto simp: transition_current_session_command_def result_simps)

lemma inv_closing:
  assumes "fail_queued_for_closing_session uuid read_url now now' tenant agent session_id i err db = Ok (r, db')"
    and "lifecycle_inv uuid db" "uuid i = Some i"
  shows "lifecycle_inv uuid db'"
  using assms inv_transition_command_on
  by (auto simp: fail_queued_for_closing_session_def result_simps split: if_splits)

lemma hub_step_inv:
  assumes "hub_step codec live read_url db db'" "lifecycle_inv (jc_uuid codec) db"
  shows "lifecycle_inv (jc_uuid codec) db'"
  using assms
proof (induction rule: hub_step.induct)
  case (mark_failed now i tenant agent err res db db' m)
  then have "not_print db i" by (simp add: not_print_def)
  with mark_failed show ?case using inv_mark_failed by blast
next
  case (firmware_terminal now i tenant agent status err res db db')
  then show ?case using inv_firmware_terminal by blast
next
  case (sweep clock now ct st sweeper owned db db')
  then show ?case using inv_sweep by blast
next
  case (elsewhere db' db agents printers audit queue)
  then show ?case using inv_same by simp
qed (fact inv_create inv_copy inv_session inv_closing inv_firmware_execute inv_cancel inv_retry inv_stall inv_clear inv_agents
  | rule inv_create inv_copy inv_enqueue inv_session inv_closing inv_firmware_execute inv_cancel inv_retry inv_stall
      inv_clear inv_agents; assumption
  | rule inv_shrinks, rule shrinks_deletions; assumption)+


text \<open>
  What a step may do to a command that has ended: nothing, or forget the printer the step deletes, or delete it with the job it belonged to.
\<close>

definition ended_kept :: "hub_db \<Rightarrow> hub_db \<Rightarrow> bool" where
  "ended_kept db db' \<longleftrightarrow>
     list_all (\<lambda>m. terminal_text (cr_status m) \<longrightarrow>
        command_at db' (cr_id m) = Some m \<or>
        (command_at db' (cr_id m) = Some (m\<lparr>cr_printer_id := None\<rparr>) \<and>
           cr_printer_id m \<in> Some ` prr_id ` (set (db_printers db) - set (db_printers db'))) \<or>
        (command_at db' (cr_id m) = None \<and> cr_id m \<notin> jr_command_id ` set (db_jobs db'))) (db_commands db)"

lemma ended_keptI:
  assumes "lifecycle_inv uuid db"
    and "\<And>i m. command_at db i = Some m \<Longrightarrow> terminal_text (cr_status m) \<Longrightarrow> command_at db' i = Some m"
  shows "ended_kept db db'"
  unfolding ended_kept_def list_all_iff using assms(2) command_at_unique [OF assms(1)] by blast

lemma ended_kept_map:
  assumes "lifecycle_inv uuid db" "db_commands db' = map f (db_commands db)" "\<And>c. cr_id (f c) = cr_id c"
    and "\<And>c. terminal_text (cr_status c) \<Longrightarrow> f c = c"
  shows "ended_kept db db'"
proof (rule ended_keptI [OF assms(1)])
  fix i m assume m: "command_at db i = Some m" "terminal_text (cr_status m)"
  have "command_at db' i = map_option f (command_at db i)"
    unfolding assms(2) by (rule find_by_id_map) (rule assms(3))
  then show "command_at db' i = Some m" using m assms(4) by simp
qed

lemma ended_kept_same: "lifecycle_inv uuid db \<Longrightarrow> db_commands db' = db_commands db \<Longrightarrow> ended_kept db db'"
  by (rule ended_keptI) simp_all

lemma ended_kept_append:
  assumes "lifecycle_inv uuid db" "db_commands db' = db_commands db @ cs"
  shows "ended_kept db db'"
proof (rule ended_keptI [OF assms(1)])
  fix i m assume "command_at db i = Some m"
  then show "command_at db' i = Some m" unfolding assms(2) by (rule find_by_id_append)
qed

lemma ended_kept_status:
  "lifecycle_inv uuid db \<Longrightarrow> db' = db\<lparr>db_commands := map (status_step now t) (db_commands db)\<rparr> \<Longrightarrow>
     list_all open_status (st_allowed_statuses t) \<Longrightarrow> ended_kept db db'"
  by (rule ended_kept_map [where f = "status_step now t"]) (simp_all add: step_terminal del: if_split)

lemma insert_pair_commands:
  "insert_command_and_job codec input i c serial submission metadata now db = Ok (w, db') \<Longrightarrow>
     \<exists>cmd. db_commands db' = db_commands db @ [cmd]"
  by (auto simp: insert_command_and_job_def result_simps insert_command_def insert_with_status_def
        insert_job_def Let_def split: if_splits)

lemma create_commands:
  assumes "create_print_job_tx codec now i c input metadata db = Ok (w, db')"
  shows "\<exists>cs. db_commands db' = db_commands db @ cs"
proof -
  obtain serial submission db1 db2 where
    "allocate (cpj_tenant_id input) db = Ok (submission, db1)" "insert_artifact input now db1 = Ok db2"
    "insert_command_and_job codec input i c serial submission metadata now db2 = Ok (w, db')"
    using assms by (auto simp: create_print_job_tx_def result_simps)
  from insert_pair_commands [OF this(3)] allocate_frame [OF this(1)] this(2) show ?thesis
    by (auto simp: insert_artifact_def Let_def split: if_splits)
qed

lemma copy_commands:
  assumes "create_copy_with_audit codec now now' i c ev tenant source p overrides actor action reason db = Ok (w, db')"
  shows "\<exists>cs. db_commands db' = db_commands db @ cs"
proof -
  obtain serial submission db0 input md t db1 where
    a: "allocate t db = Ok (submission, db0)"
    and p: "insert_command_and_job codec input i c serial submission md now db0 = Ok (w, db1)"
    and e: "db_commands db' = db_commands db1"
    using assms unfolding create_copy_with_audit_def create_print_job_from_artifact_def
    by (auto simp: result_simps Let_def split: if_splits)
  from insert_pair_commands [OF p] allocate_frame [OF a] e show ?thesis by auto
qed

lemma ended_kept_transition:
  assumes "transition_command_on uuid read_url now now' tenant agent i action db = Ok (c, db')"
    and "lifecycle_inv uuid db" "uuid i = Some i"
  shows "ended_kept db db'"
proof (rule ended_keptI [OF assms(2)])
  fix k m assume m: "command_at db k = Some m" "terminal_text (cr_status m)"
  note eff = transition_command_on_effect [OF assms(1) lifecycle_keys [OF assms(2)] assms(3)]
  show "command_at db' k = Some m"
    using eff m by (cases "k = i") auto
qed

lemma ended_kept_swept:
  assumes "lifecycle_inv uuid db" "db_swept owned db db'"
  shows "ended_kept db db'"
proof (rule ended_keptI [OF assms(1)])
  fix i m assume m: "command_at db i = Some m" "terminal_text (cr_status m)"
  have l: "list_all2 (row_swept owned) (db_commands db) (db_commands db')"
    using assms(2) unfolding db_swept_def by blast
  from l m(1) have "\<exists>m'. command_at db' i = Some m' \<and> row_swept owned m m'"
    by (induction rule: list_all2_induct) (auto simp: find_by_id_def row_swept_def split: if_splits)
  then show "command_at db' i = Some m" using m(2) by (auto simp: row_swept_def)
qed

lemma ended_kept_shrinks:
  assumes "shrinks db db'" "lifecycle_inv uuid db"
  shows "ended_kept db db'"
proof -
  obtain ids K where ids: "set ids \<subseteq> prr_id ` (set (db_printers db) - set (db_printers db'))"
    and c: "db_commands db' = map (forget_printers ids) (filter K (db_commands db))"
    and r: "\<And>c j. c \<in> set (db_commands db) \<Longrightarrow> \<not> K c \<Longrightarrow> j \<in> set (db_jobs db') \<Longrightarrow> jr_command_id j \<noteq> cr_id c"
    using assms(1) unfolding shrinks_def by blast
  have d: "distinct (map cr_id (db_commands db))" using assms(2) by (simp add: lifecycle_inv_def keys_ok_def)
  have at: "command_at db' i = map_option (forget_printers ids) (find_by_id cr_id i (filter K (db_commands db)))" for i
    unfolding c by (rule find_by_id_map) simp
  have "command_at db' (cr_id m) = Some m \<or>
        (command_at db' (cr_id m) = Some (m\<lparr>cr_printer_id := None\<rparr>) \<and>
           cr_printer_id m \<in> Some ` prr_id ` (set (db_printers db) - set (db_printers db'))) \<or>
        (command_at db' (cr_id m) = None \<and> cr_id m \<notin> jr_command_id ` set (db_jobs db'))"
    if m: "m \<in> set (db_commands db)" for m
  proof (cases "K m")
    case True
    have "find_by_id cr_id (cr_id m) (filter K (db_commands db)) = Some m"
      using find_by_id_eq_Some [OF distinct_map_filter [OF d], of "cr_id m" K m] m True by simp
    then show ?thesis using ids by (auto simp: at forget_printers_def)
  next
    case False
    have "find_by_id cr_id (cr_id m) (filter K (db_commands db)) = None"
      using m False d by (auto simp: find_by_id_None distinct_map inj_on_def)
    moreover have "cr_id m \<notin> jr_command_id ` set (db_jobs db')" using r [OF m False] by force
    ultimately show ?thesis by (simp add: at)
  qed
  then show ?thesis unfolding ended_kept_def list_all_iff by blast
qed

lemma shrinks_clear: "clear_tx backend codec pt now_at ev_now ev tenant scope actor db = Ok (out, db') \<Longrightarrow> shrinks db db'"
proof -
  assume a: "clear_tx backend codec pt now_at ev_now ev tenant scope actor db = Ok (out, db')"
  obtain keep_job keep_cmd where "db_jobs db' = filter keep_job (db_jobs db)" "db_commands db' = filter keep_cmd (db_commands db)"
    "\<And>c j. c \<in> set (db_commands db) \<Longrightarrow> \<not> keep_cmd c \<Longrightarrow> j \<in> set (db_jobs db') \<Longrightarrow> jr_command_id j \<noteq> cr_id c"
    using clear_tables [OF a] by blast
  then show ?thesis unfolding shrinks_def
    by (intro exI [of _ "[]"] exI [of _ keep_cmd] exI [of _ keep_job]) (auto simp: forget_printers_def)
qed

lemma ended_kept_guard:
  "lifecycle_inv uuid db \<Longrightarrow> ended_kept db (snd (guard_terminal_transition uuid' now t db))"
  by (rule ended_kept_status [OF _ guard_terminal_db]) (simp_all add: terminal_status_transition_def open_status_def)

lemma ended_kept_execute:
  assumes "mark_firmware_execute_sent_on uuid now i tenant agent db = Ok (r, db')" "lifecycle_inv uuid db"
  shows "ended_kept db db'"
proof -
  have upd: "snd (update_status_if_current_on now t db) = db\<lparr>db_commands := map (status_step now t) (db_commands db)\<rparr>"
    for now t by (simp add: update_status_if_current_on_def update_many_def Let_def)
  from assms(1) consider "db' = db" | "db' = snd (update_status_if_current_on now (execute_transition i tenant agent) db)"
    by (auto simp: mark_firmware_execute_sent_on_def require_kind_def result_simps split: if_splits prod.splits)
  then show ?thesis
  proof cases
    case 2
    show ?thesis
      by (rule ended_kept_status [OF assms(2) 2 [unfolded upd]]) (simp add: execute_transition_def open_status_def)
  qed (use ended_kept_same [OF assms(2)] in simp)
qed

lemma hub_step_ended:
  assumes "hub_step codec live read_url db db'" "lifecycle_inv (jc_uuid codec) db"
  shows "ended_kept db db'"
  using assms
proof (induction rule: hub_step.induct)
  case (create now i c input metadata db w db')
  then show ?case using create_commands ended_kept_append by blast
next
  case (copy now now' i c ev tenant source p overrides actor action reason db w db')
  then show ?case using copy_commands ended_kept_append by blast
next
  case (enqueue input s db db')
  then show ?case by (auto simp: insert_with_status_def split: if_splits elim!: ended_kept_append)
next
  case (session now now' tenant agent session_id i action db r db')
  then show ?case using ended_kept_transition by (auto simp: transition_current_session_command_def result_simps)
next
  case (closing now now' tenant agent session_id i err db r db')
  then show ?case using ended_kept_transition by (auto simp: fail_queued_for_closing_session_def result_simps)
next
  case (mark_failed now i tenant agent err res db db' m)
  from mark_failed(1) [symmetric] show ?case
    using ended_kept_guard [OF mark_failed.prems] ended_kept_same [OF mark_failed.prems refl]
    by (simp add: mark_failed_with_result_def guard_generic_terminal_transition_def split: result.split)
next
  case (firmware_execute now i tenant agent db r db')
  then show ?case by (rule ended_kept_execute)
next
  case (firmware_terminal now i tenant agent status err res db db')
  from firmware_terminal(1) [symmetric] show ?case
    by (simp add: ended_keptI [OF firmware_terminal.prems] mark_firmware_terminal_kept lifecycle_keys [OF firmware_terminal.prems])
next
  case (sweep clock now ct st sweeper owned db db')
  from sweep(1) have "db_swept owned db db'"
    by (auto simp: fail_stale_unowned_live_commands_def db_swept_refl sweep_loop_swept
        split: option.splits result.splits)
  with sweep.prems show ?case by (rule ended_kept_swept)
next
  case (cancel now now' ev tenant submission actor db i db')
  from cancel(1) show ?case
  proof (cases rule: cancel_tx_Ok)
    case (performed job command)
    show ?thesis
      by (rule ended_kept_map [OF cancel.prems performed(7)])
        (auto simp: cancel_command_update_def cancel_command_selected_def terminal_text_def)
  qed (use ended_kept_same [OF cancel.prems] in simp)
next
  case (retry now now' now'' c ev tenant i reason actor db db')
  from retry(1) show ?case
    by (rule retry_tx_Ok) (rule ended_kept_append [OF retry.prems])
next
  case (stall pt ft now db ws db')
  then show ?case by (auto intro: ended_kept_same elim!: mark_stalled_Ok)
next
  case (clear backend pt now_at ev_now ev tenant scope actor db out db')
  then show ?case using ended_kept_shrinks shrinks_clear by blast
next
  case (elsewhere db' db agents printers audit queue)
  then show ?case using ended_kept_same by simp
next
  case (delete_agent to_text ev now tenant i actor db a db')
  then show ?case using ended_kept_shrinks shrinks_deletions(1) by blast
next
  case (delete_printer read_printer to_text ev now tenant i actor db p db')
  then show ?case using ended_kept_shrinks shrinks_deletions(2) by blast
next
  case (cleanup_jobs backend cutoff db db')
  then show ?case using ended_kept_shrinks shrinks_deletions(3) by blast
next
  case (cleanup_commands db cutoff)
  then show ?case using ended_kept_shrinks shrinks_deletions(4) by blast
qed (auto simp: update_agent_row_def claim_online_session_def heartbeat_if_current_def mark_offline_if_current_def
      result_simps Let_def split: if_splits intro: ended_kept_same)

lemma hub_reachable_inv:
  assumes "(hub_step codec live read_url)\<^sup>*\<^sup>* db0 db" "db_commands db0 = []" "db_jobs db0 = []"
  shows "lifecycle_inv (jc_uuid codec) db"
  using assms(1)
proof (induction rule: rtranclp_induct)
  case base
  then show ?case by (simp add: lifecycle_inv_def keys_ok_def assms(2,3))
next
  case (step db db')
  then show ?case using hub_step_inv by blast
qed

definition sample_live :: live_codec where
  "sample_live = \<lparr>read_operation = (\<lambda>_. None), read_refresh = (\<lambda>_. None), read_control = (\<lambda>_. None),
     write_result = (\<lambda>_. ''{}''), parse_time = (\<lambda>_. None), format_time = (\<lambda>_. None)\<rparr>"

lemma sample_steps_ok: "is_ok sample_created" "is_ok sample_cancelled" "is_ok sample_cleared"
  by code_simp+

lemma sample_steps:
  "hub_step sample_codec sample_live read_url sample_jobs_db sample_created_db"
  "hub_step sample_codec sample_live read_url sample_created_db sample_cancelled_db"
proof -
  obtain w db where c: "sample_created = Ok (w, db)" using sample_steps_ok(1) by (auto simp: is_ok_iff)
  show "hub_step sample_codec sample_live read_url sample_jobs_db sample_created_db"
    by (rule hub_step.create) (use c in \<open>simp add: sample_created_def sample_created_db_def\<close>,
        simp add: sample_codec_def)
  obtain i db' where k: "sample_cancelled = Ok (i, db')" using sample_steps_ok(2) by (auto simp: is_ok_iff)
  show "hub_step sample_codec sample_live read_url sample_created_db sample_cancelled_db"
    by (rule hub_step.cancel) (use k in \<open>simp add: sample_cancelled_def sample_cancelled_db_def\<close>)
qed

lemma sample_start: "db_commands sample_jobs_db = []" "db_jobs sample_jobs_db = []"
  by code_simp+

lemma sample_cancelled_rows:
  "map jr_id (db_jobs sample_cancelled_db) = [''j1'']" "map cr_status (db_commands sample_cancelled_db) = [''cancelled'']"
  "map cr_id (db_commands sample_cancelled_db) = [''c1'']"
  by code_simp+



end
