(* ===== verification/Hub_System.thy ===== *)
theory Hub_System
  imports Hub_Usage Hub_Print_Reports Hub_Lifecycle
begin

text \<open>
  The hub as a whole: the print-report transaction \<open>apply_print_report_tx\<close> of
  \<open>repositories/jobs/print_reports.rs\<close>, composed from its stages (live status, materials, correlation,
  reconciliation, filament usage, events) in the order of the source, and a step relation in which reports,
  material snapshots and the job and command transactions of \<open>Hub_Lifecycle\<close> interleave.

  The columns of a printer's row that hold its live status are kept per printer id. Whether the row's other
  columns can be read (access code, firmware, nozzles) is the parameter \<open>rx_read_printer\<close>. The printer
  that \<open>apply_current_print_report\<close> reads again after its commit is not part of the result here.
\<close>

section \<open>State and parameters\<close>

record report_db =
  rd_hub :: hub_db
  rd_live :: "string \<Rightarrow> printer_live_row"
  rd_materials :: "material_row list"
  rd_events :: "machine_event_row list"

record report_context =
  rx_report :: report_codec
  rx_material :: material_codec
  rx_usage :: usage_codec
  rx_backend :: db_backend
  rx_read_hms :: "string \<Rightarrow> printer_hms list option"
  rx_write_hms :: "printer_hms list \<Rightarrow> string"
  rx_read_printer :: "string \<Rightarrow> unit repository_result"

text \<open>The clock readings and fresh identifiers one report uses.\<close>

record report_inputs =
  rn_received_at :: string
  rn_now :: timestamp
  rn_retry_now :: timestamp
  rn_material_now :: timestamp
  rn_usage_now :: timestamp
  rn_event_now :: timestamp
  rn_material_id :: string
  rn_usage_id :: "nat \<Rightarrow> string"
  rn_event_id :: "string \<Rightarrow> string"

record applied_print_report =
  ap_printer_id :: "string option"
  ap_live_status_changed :: bool
  ap_job :: "job_with_artifact option"
  ap_material_outcome :: material_patch_outcome
  ap_changed :: bool
  ap_inserted_job_events :: bool
  ap_inserted_printer_events :: bool

section \<open>The transaction\<close>

definition reporting_printer :: "apply_print_report \<Rightarrow> printer_row \<Rightarrow> bool" where
  "reporting_printer input p \<longleftrightarrow>
     prr_tenant_id p = apr_tenant_id input \<and> prr_agent_id p = apr_agent_id input \<and> prr_serial_number p = apr_serial input"

definition printer_for_serial ::
  "report_context \<Rightarrow> report_db \<Rightarrow> apply_print_report \<Rightarrow> (string \<times> printer_live_status) option repository_result" where
  "printer_for_serial ctx s input =
     (case find (reporting_printer input) (db_printers (rd_hub s)) of
        None \<Rightarrow> Ok None
      | Some p \<Rightarrow>
          and_then (live_status_from_model (rx_read_hms ctx) (rd_live s (prr_id p))) (\<lambda>(_, live).
          and_then (rx_read_printer ctx (prr_id p)) (\<lambda>_. Ok (Some (prr_id p, live)))))"

definition live_patch :: "apply_print_report \<Rightarrow> printer_live_status_patch" where
  "live_patch input =
     \<lparr>plp_task_id = apr_task_id input, plp_subtask_id = apr_subtask_id input,
      plp_progress_percent = apr_percent input, plp_speed_level = apr_speed_level input,
      plp_remaining_time_minutes = apr_remaining_time_minutes input,
      plp_current_layer = apr_current_layer input, plp_total_layers = apr_total_layers input,
      plp_gcode_file = apr_gcode_file input, plp_subtask_name = apr_subtask_name input,
      plp_print_error = apr_print_error input, plp_printer_job_id = apr_printer_job_id input,
      plp_job_attr = apr_job_attr input, plp_gcode_state = apr_gcode_state input, plp_hms = apr_hms input,
      plp_observed_at = apr_observed_at input\<rparr>"

definition material_input :: "apply_print_report \<Rightarrow> string \<Rightarrow> material_patch_input" where
  "material_input input printer =
     \<lparr>mpi_tenant_id = apr_tenant_id input, mpi_agent_id = apr_agent_id input, mpi_printer_id = printer,
      mpi_serial_number = apr_serial input, mpi_printer_materials_json = apr_printer_materials_json input\<rparr>"

text \<open>Filament usage of a print that has ended; the transaction is checked after it.\<close>

definition terminal_usage ::
  "report_context \<Rightarrow> report_inputs \<Rightarrow> apply_print_report \<Rightarrow> material_row list \<Rightarrow> job_with_artifact option \<Rightarrow> print_update \<Rightarrow>
     hub_db \<Rightarrow> (bool \<times> hub_db) repository_result" where
  "terminal_usage ctx n input materials job desired db =
     (case job of
        None \<Rightarrow> Ok (False, db)
      | Some w \<Rightarrow>
          if ended_print (pu_print_status desired)
          then and_then (ok_or (find (\<lambda>j. jr_id j = job_id (jwa_job w) \<and> jr_tenant_id j = apr_tenant_id input) (db_jobs db)) MissingJob) (\<lambda>persisted.
               and_then (derive_terminal_usage (rx_backend ctx) (rx_usage ctx) (rn_usage_now n) (rn_usage_id n) materials persisted
                   \<lparr>tx_aborted = False, tx_usages = db_usages db\<rparr>) (\<lambda>tx.
                 Ok (tx_aborted tx, db\<lparr>db_usages := tx_usages tx\<rparr>)))
          else Ok (False, db))"

definition report_job_stage ::
  "report_context \<Rightarrow> report_inputs \<Rightarrow> apply_print_report \<Rightarrow> string \<Rightarrow> job_with_artifact \<Rightarrow> report_db \<Rightarrow>
     ((job_with_artifact option \<times> bool \<times> bool) \<times> report_db) repository_result" where
  "report_job_stage ctx n input printer w s =
     (let codec = rc_job (rx_report ctx); i = job_id (jwa_job w); tenant = apr_tenant_id input in
      and_then (reconcile_job codec (rn_now n) (rn_retry_now n) input w (rd_hub s)) (\<lambda>((desired, changed, wrote), db1).
      and_then (job_by_id codec db1 tenant i) (\<lambda>job1.
      and_then (terminal_usage ctx n input (rd_materials s) job1 desired db1) (\<lambda>(aborted, db2).
      and_then (if aborted then Err (Database (Message ''failed to get print report job'')) else job_by_id codec db2 tenant i) (\<lambda>job2.
        let (inserted, events) =
              (if \<not> changed \<or> wrote
               then (case job2 of
                       Some w2 \<Rightarrow> insert_job_events (rx_report ctx) (rn_event_id n) (rn_event_now n) input printer w2
                         (update_from_job w2) (rd_events s)
                     | None \<Rightarrow> (False, rd_events s))
               else (False, rd_events s))
        in Ok ((job2, changed \<and> wrote, inserted), s\<lparr>rd_hub := db2, rd_events := events\<rparr>))))))"

definition apply_print_report_tx ::
  "report_context \<Rightarrow> report_inputs \<Rightarrow> session_id \<Rightarrow> apply_print_report \<Rightarrow> report_db \<Rightarrow>
     (applied_print_report \<times> report_db) repository_result" where
  "apply_print_report_tx ctx n session input s =
     and_then (printer_for_serial ctx s input) (\<lambda>found.
       case found of
         None \<Rightarrow> Ok (\<lparr>ap_printer_id = None, ap_live_status_changed = False, ap_job = None, ap_material_outcome = PatchEmpty,
             ap_changed = False, ap_inserted_job_events = False, ap_inserted_printer_events = False\<rparr>, s)
       | Some (printer, live) \<Rightarrow>
           let live' = merge_live_report live (live_patch input) session (rn_received_at n) in
           and_then (persist_merged_live_status (rx_write_hms ctx) (mls_state live') (apr_observed_at input) (rd_live s printer)) (\<lambda>row.
           and_then (upsert_from_patch_outcome_in_connection (rx_material ctx) (rn_material_now n) (rn_material_id n) (rd_hub s)
               (material_input input printer) (rd_materials s)) (\<lambda>(outcome, materials).
           let s1 = s\<lparr>rd_live := (rd_live s)(printer := row), rd_materials := materials\<rparr> in
           and_then (correlate_job (rx_report ctx) (rd_hub s1) input printer) (\<lambda>job.
             case job of
               None \<Rightarrow>
                 let (inserted, events) = insert_printer_events (rx_report ctx) (rn_event_id n) (rn_event_now n) input printer (rd_events s1)
                 in Ok (\<lparr>ap_printer_id = Some printer, ap_live_status_changed = live_status_changed live', ap_job = None,
                     ap_material_outcome = outcome, ap_changed = False, ap_inserted_job_events = False,
                     ap_inserted_printer_events = inserted\<rparr>, s1\<lparr>rd_events := events\<rparr>)
             | Some w \<Rightarrow>
                 and_then (report_job_stage ctx n input printer w s1) (\<lambda>((job2, changed, inserted), s2).
                   Ok (\<lparr>ap_printer_id = Some printer, ap_live_status_changed = live_status_changed live', ap_job = job2,
                     ap_material_outcome = outcome, ap_changed = changed, ap_inserted_job_events = inserted,
                     ap_inserted_printer_events = False\<rparr>, s2))))))"

definition apply_current_print_report ::
  "report_context \<Rightarrow> report_inputs \<Rightarrow> session_id \<Rightarrow> apply_print_report \<Rightarrow> report_db \<Rightarrow>
     (applied_print_report \<times> report_db) repository_result" where
  "apply_current_print_report ctx n session input s =
     and_then (begin_current_agent_transaction (rd_hub s) (apr_tenant_id input) (apr_agent_id input) session) (\<lambda>_.
       apply_print_report_tx ctx n session input s)"

section \<open>What a report may change\<close>

definition reported_row :: "job_id \<Rightarrow> job_row \<Rightarrow> job_row \<Rightarrow> bool" where
  "reported_row i j j' \<longleftrightarrow>
     j' = j \<or> (jr_id j = i \<and> \<not> ended_print (jr_print_status j) \<and> (\<exists>t u. j' = print_row_update t u j))"

lemma hydrated_id:
  assumes "hydrate_one codec db j = Ok w" and "jc_uuid codec (jr_id j) = Some (jr_id j)"
  shows "job_id (jwa_job w) = jr_id j"
  using assms
  by (auto simp: hydrate_one_def job_with_artifact_from_models_def job_from_model_def job_from_model_with_usage_def
      Job_from_parts_def JobId_parse_def parse_id_def result_simps)

definition canonical_jobs :: "uuid_parser \<Rightarrow> hub_db \<Rightarrow> bool" where
  "canonical_jobs uuid db \<longleftrightarrow> list_all (\<lambda>j. uuid (jr_id j) = Some (jr_id j)) (db_jobs db)"

text \<open>The effect of a report on the hub's tables: print columns of one job, and added usage rows of that job.\<close>

definition reported_hub :: "uuid_parser \<Rightarrow> job_id \<Rightarrow> hub_db \<Rightarrow> hub_db \<Rightarrow> bool" where
  "reported_hub uuid i db db' \<longleftrightarrow>
     (\<exists>g new. db' = db\<lparr>db_jobs := map g (db_jobs db), db_usages := db_usages db @ new\<rparr> \<and>
        (\<forall>j. reported_row i j (g j)) \<and>
        (canonical_jobs uuid db \<longrightarrow>
           (\<forall>u \<in> set new. ur_job_id u = i \<and> (\<exists>j \<in> set (db_jobs db). jr_id j = i \<and> jr_tenant_id j = ur_tenant_id u))))"

lemma reported_row_columns: "reported_row i j j' \<Longrightarrow> jr_id j' = jr_id j \<and> jr_tenant_id j' = jr_tenant_id j"
  by (auto simp: reported_row_def print_row_update_def)

definition appended_events :: "apply_print_report \<Rightarrow> string \<Rightarrow> machine_event_row list \<Rightarrow> machine_event_row list \<Rightarrow> bool" where
  "appended_events input printer rows rows' \<longleftrightarrow>
     (\<exists>new. rows' = rows @ new \<and>
        (\<forall>e \<in> set new. mer_tenant_id e = apr_tenant_id input \<and> mer_agent_id e = apr_agent_id input \<and> mer_printer_id e = printer)) \<and>
     (distinct (map event_key_of rows) \<longrightarrow> distinct (map event_key_of rows'))"

lemma appended_refl: "appended_events input printer rows rows"
  by (simp add: appended_events_def)

lemma insert_event_appends:
  "insert_event fresh now input printer job e rows = (b, rows') \<Longrightarrow> appended_events input printer rows rows'"
  using insert_event_effect [of fresh now input printer job e rows b rows']
  by (auto simp: insert_event_def appended_events_def split: if_splits)

lemma appended_trans:
  "appended_events input printer xs ys \<Longrightarrow> appended_events input printer ys zs \<Longrightarrow> appended_events input printer xs zs"
  by (auto simp: appended_events_def)

lemma insert_events_appends:
  "insert_events fresh now input printer job es rows = (b, rows') \<Longrightarrow> appended_events input printer rows rows'"
proof (induction es arbitrary: rows b)
  case (Cons e es)
  obtain c rows1 where 1: "insert_event fresh now input printer job e rows = (c, rows1)" by fastforce
  with Cons.prems obtain d where "insert_events fresh now input printer job es rows1 = (d, rows')"
    by (auto split: prod.splits)
  with Cons.IH insert_event_appends [OF 1] show ?case by (blast intro: appended_trans)
qed (simp add: appended_refl)

lemma reconcile_reported:
  assumes "reconcile_job codec now now' input w db = Ok ((desired, changed, wrote), db')"
  shows "\<exists>g. db' = db\<lparr>db_jobs := map g (db_jobs db)\<rparr> \<and> (\<forall>j. reported_row (job_id (jwa_job w)) j (g j))"
  using assms
proof (cases rule: reconcile_job_cases)
  case unwritten
  then show ?thesis unfolding reported_row_def by (intro exI [where x = id]) simp
next
  case (written t expected)
  then show ?thesis unfolding reported_row_def
    by (intro exI [where x = "print_row_step t (job_id (jwa_job w)) expected desired"])
      (auto simp: print_row_selected_def)
qed

lemma terminal_usage_rows:
  assumes "terminal_usage ctx n input materials job desired db1 = Ok (aborted, db2)"
  shows "\<exists>new. db2 = db1\<lparr>db_usages := db_usages db1 @ new\<rparr> \<and>
    (\<forall>u \<in> set new. \<exists>w j. job = Some w \<and> j \<in> set (db_jobs db1) \<and> jr_id j = job_id (jwa_job w) \<and>
       ur_job_id u = jr_id j \<and> ur_tenant_id u = jr_tenant_id j)"
proof (cases "job = None \<or> \<not> ended_print (pu_print_status desired)")
  case True
  then have "db2 = db1" using assms by (auto simp: terminal_usage_def split: option.splits)
  then show ?thesis by (intro exI [where x = "[]"]) simp
next
  case False
  then obtain w persisted tx where w: "job = Some w" "persisted \<in> set (db_jobs db1)" "jr_id persisted = job_id (jwa_job w)" and
    tx: "derive_terminal_usage (rx_backend ctx) (rx_usage ctx) (rn_usage_now n) (rn_usage_id n) materials persisted
       \<lparr>tx_aborted = False, tx_usages = db_usages db1\<rparr> = Ok tx" and db2: "db2 = db1\<lparr>db_usages := tx_usages tx\<rparr>"
    using assms by (auto simp: terminal_usage_def and_then_eq_Ok ok_or_eq_Ok dest!: find_member)
  from derive_terminal_usage_inserts [OF tx] obtain ids snapshot where
    i: "insert_usages (rx_backend ctx) (rx_usage ctx) (rn_usage_now n) (rn_usage_id n) snapshot persisted ids
       \<lparr>tx_aborted = False, tx_usages = db_usages db1\<rparr> = Ok tx" by blast
  obtain new where "tx_usages tx = db_usages db1 @ new"
      "\<forall>r \<in> set new. ur_tenant_id r = jr_tenant_id persisted \<and> ur_job_id r = jr_id persisted"
    using insert_usages_effect [OF i] by auto
  then show ?thesis using w db2 by (intro exI [where x = new]) auto
qed

lemma job_by_id_canonical:
  assumes "job_by_id codec db tenant i = Ok (Some w)" "canonical_jobs (jc_uuid codec) db"
  shows "job_id (jwa_job w) = i"
proof -
  obtain j where "j \<in> set (db_jobs db)" "jr_id j = i" "hydrate_one codec db j = Ok w"
    using assms(1) hydrated_first_Some by (fastforce simp: job_by_id_def dest!: find_member)
  then show ?thesis using hydrated_id assms(2) by (auto simp: canonical_jobs_def list_all_iff)
qed

lemma reported_canonical:
  "(\<And>j. reported_row i j (g j)) \<Longrightarrow> canonical_jobs uuid db \<Longrightarrow> canonical_jobs uuid (db\<lparr>db_jobs := map g (db_jobs db)\<rparr>)"
  by (simp add: canonical_jobs_def list_all_iff) (metis reported_row_columns)

lemma job_stage_effect:
  assumes "report_job_stage ctx n input printer w s = Ok (r, s')"
  shows "reported_hub (jc_uuid (rc_job (rx_report ctx))) (job_id (jwa_job w)) (rd_hub s) (rd_hub s')" "rd_live s' = rd_live s" "rd_materials s' = rd_materials s"
    "appended_events input printer (rd_events s) (rd_events s')"
proof -
  let ?codec = "rc_job (rx_report ctx)" and ?i = "job_id (jwa_job w)"
  from assms obtain desired changed wrote db1 job1 aborted db2 job2 where
    1: "reconcile_job ?codec (rn_now n) (rn_retry_now n) input w (rd_hub s) = Ok ((desired, changed, wrote), db1)" and
    j1: "job_by_id ?codec db1 (apr_tenant_id input) ?i = Ok job1" and
    2: "terminal_usage ctx n input (rd_materials s) job1 desired db1 = Ok (aborted, db2)" and
    3: "(let (inserted, events) =
              (if \<not> changed \<or> wrote
               then (case job2 of
                       Some w2 \<Rightarrow> insert_job_events (rx_report ctx) (rn_event_id n) (rn_event_now n) input printer w2
                         (update_from_job w2) (rd_events s)
                     | None \<Rightarrow> (False, rd_events s))
               else (False, rd_events s))
        in Ok ((job2, changed \<and> wrote, inserted), s\<lparr>rd_hub := db2, rd_events := events\<rparr>)) = (Ok (r, s') :: _ repository_result)"
    unfolding report_job_stage_def Let_def [of "rc_job _"] Let_def [of "job_id _"] Let_def [of "apr_tenant_id _"]
    by (auto simp: and_then_eq_Ok simp del: Let_def)
  obtain inserted events where e: "(if \<not> changed \<or> wrote
               then (case job2 of
                       Some w2 \<Rightarrow> insert_job_events (rx_report ctx) (rn_event_id n) (rn_event_now n) input printer w2
                         (update_from_job w2) (rd_events s)
                     | None \<Rightarrow> (False, rd_events s))
               else (False, rd_events s)) = (inserted, events)" by fastforce
  with 3 have s': "s' = s\<lparr>rd_hub := db2, rd_events := events\<rparr>" by simp
  obtain g where g: "db1 = (rd_hub s)\<lparr>db_jobs := map g (db_jobs (rd_hub s))\<rparr>" "\<And>j. reported_row ?i j (g j)"
    using reconcile_reported [OF 1] by blast
  obtain new where new: "db2 = db1\<lparr>db_usages := db_usages db1 @ new\<rparr>"
    "\<And>u. u \<in> set new \<Longrightarrow> \<exists>w j. job1 = Some w \<and> j \<in> set (db_jobs db1) \<and> jr_id j = job_id (jwa_job w) \<and>
       ur_job_id u = jr_id j \<and> ur_tenant_id u = jr_tenant_id j"
    using terminal_usage_rows [OF 2] by blast
  have "ur_job_id u = ?i \<and> (\<exists>j \<in> set (db_jobs (rd_hub s)). jr_id j = ?i \<and> jr_tenant_id j = ur_tenant_id u)"
    if u: "u \<in> set new" and c: "canonical_jobs (jc_uuid ?codec) (rd_hub s)" for u
  proof -
    obtain w1 j where j: "job1 = Some w1" "j \<in> set (db_jobs db1)" "jr_id j = job_id (jwa_job w1)" "ur_job_id u = jr_id j"
        "ur_tenant_id u = jr_tenant_id j"
      using new(2) [OF u] by blast
    have "jr_id j = ?i" using job_by_id_canonical [OF j1 [unfolded j(1)]] reported_canonical [OF g(2) c] j(3) g(1) by simp
    moreover obtain k where "k \<in> set (db_jobs (rd_hub s))" "j = g k" using j(2) by (auto simp: g(1))
    ultimately show ?thesis using j reported_row_columns [OF g(2)] by auto
  qed
  then show "reported_hub (jc_uuid ?codec) ?i (rd_hub s) (rd_hub s')"
    unfolding reported_hub_def s' new(1) g(1) using g(2) by (intro exI [of _ g] exI [of _ new]) simp
  show "rd_live s' = rd_live s" "rd_materials s' = rd_materials s" by (simp_all add: s')
  have "appended_events input printer (rd_events s) events"
    using e by (auto simp: insert_job_events_def appended_refl split: if_splits option.splits intro: insert_events_appends)
  then show "appended_events input printer (rd_events s) (rd_events s')" by (simp add: s')
qed

text \<open>The parts of a successful report.\<close>

lemma report_tx_parts:
  assumes "apply_print_report_tx ctx n session input s = Ok (applied, s')"
  obtains (no_printer) "s' = s"
  | (printer) printer outcome row materials job where
      "printer \<in> prr_id ` {p \<in> set (db_printers (rd_hub s)). reporting_printer input p}"
      "upsert_from_patch_outcome_in_connection (rx_material ctx) (rn_material_now n) (rn_material_id n) (rd_hub s)
         (material_input input printer) (rd_materials s) = Ok (outcome, materials)"
      "rd_materials s' = materials" "rd_live s' = (rd_live s)(printer := row)"
      "appended_events input printer (rd_events s) (rd_events s')"
      "correlate_job (rx_report ctx) (rd_hub s) input printer = Ok job"
      "case job of None \<Rightarrow> rd_hub s' = rd_hub s | Some w \<Rightarrow> reported_hub (jc_uuid (rc_job (rx_report ctx))) (job_id (jwa_job w)) (rd_hub s) (rd_hub s')"
proof -
  from assms obtain found where f: "printer_for_serial ctx s input = Ok found"
    by (auto simp: apply_print_report_tx_def and_then_eq_Ok)
  show thesis
  proof (cases found)
    case None
    with f assms show thesis by (intro no_printer) (simp add: apply_print_report_tx_def)
  next
    case (Some pl)
    obtain pid live where pl: "pl = (pid, live)" by fastforce
    have own: "pid \<in> prr_id ` {p \<in> set (db_printers (rd_hub s)). reporting_printer input p}"
      using f Some pl by (auto simp: printer_for_serial_def and_then_eq_Ok split: option.splits dest!: find_member)
    define live' where "live' = merge_live_report live (live_patch input) session (rn_received_at n)"
    from assms f Some pl obtain row outcome materials job where
      u: "upsert_from_patch_outcome_in_connection (rx_material ctx) (rn_material_now n) (rn_material_id n) (rd_hub s)
         (material_input input pid) (rd_materials s) = Ok (outcome, materials)" and
      c: "correlate_job (rx_report ctx) (rd_hub s) input pid = Ok job" and
      p: "persist_merged_live_status (rx_write_hms ctx) (mls_state live') (apr_observed_at input) (rd_live s pid) = Ok row"
      unfolding apply_print_report_tx_def live'_def by (auto simp: and_then_eq_Ok Let_def)
    let ?s1 = "s\<lparr>rd_live := (rd_live s)(pid := row), rd_materials := materials\<rparr>"
    show thesis
    proof (cases job)
      case none: None
      obtain inserted events where e: "insert_printer_events (rx_report ctx) (rn_event_id n) (rn_event_now n) input pid (rd_events s) = (inserted, events)"
        by fastforce
      with assms f Some pl u c p none have "s' = ?s1\<lparr>rd_events := events\<rparr>"
        by (simp add: apply_print_report_tx_def live'_def Let_def)
      moreover have "appended_events input pid (rd_events s) events"
        using e by (auto simp: insert_printer_events_def intro: insert_events_appends)
      ultimately show thesis using none by (intro printer [OF own u _ _ _ c]) simp_all
    next
      case some: (Some w)
      with assms f Some pl u c p obtain r where "report_job_stage ctx n input pid w ?s1 = Ok (r, s')"
        by (auto simp: apply_print_report_tx_def live'_def Let_def and_then_eq_Ok)
      from job_stage_effect [OF this] show thesis using some by (intro printer [OF own u _ _ _ c]) simp_all
    qed
  qed
qed

lemma filter_refine:
  assumes "filter P xs = filter P ys" and "\<And>x. Q x \<Longrightarrow> P x"
  shows "filter Q xs = filter Q ys"
proof -
  have "filter Q zs = filter Q (filter P zs)" for zs using assms(2) by (induction zs) auto
  then show ?thesis using assms(1) by metis
qed

text \<open>The columns of a job row that a report must leave alone.\<close>

definition other_columns :: "job_row \<Rightarrow> job_row" where
  "other_columns j = j\<lparr>jr_print_status := [], jr_printer_state := None, jr_progress_percent := None,
     jr_remaining_time_minutes := None, jr_current_layer := None, jr_total_layers := None, jr_active_file := None,
     jr_last_progress_percent := None, jr_last_layer := None, jr_print_error := None, jr_print_started_at := None,
     jr_print_finished_at := None, jr_print_updated_at := None, jr_updated_at := []\<rparr>"

lemma other_columns_print [simp]: "other_columns (print_row_update t u j) = other_columns j"
  by (simp add: other_columns_def print_row_update_def)

definition own_printers :: "apply_print_report \<Rightarrow> hub_db \<Rightarrow> string set" where
  "own_printers input db = prr_id ` {p \<in> set (db_printers db). reporting_printer input p}"

lemma correlated_row:
  assumes "correlates codec db input printer w" "keys_ok db" "canonical_jobs (jc_uuid (rc_job codec)) db"
    and "j \<in> set (db_jobs db)" "jr_id j = job_id (jwa_job w)"
  shows "of_reporter input printer j"
proof -
  obtain k where k: "k \<in> set (db_jobs db)" "of_reporter input printer k" "hydrate_one (rc_job codec) db k = Ok w"
    using assms(1) unfolding correlates_def by blast
  then have "jr_id j = jr_id k"
    using hydrated_id assms(3,5) by (auto simp: canonical_jobs_def list_all_iff)
  with k assms(2,4) have "j = k" by (auto simp: keys_ok_def distinct_map dest: inj_onD)
  with k show ?thesis by simp
qed

text \<open>
  C2: a print report is isolated. Accepted only from the agent's current session, it changes no
  command, agent or artifact; of the jobs only print columns of jobs of the reporting tenant, agent and a
  printer it owns whose print has not ended; live status and material rows only of such a printer; filament usage rows
  are only added, each for a job of the reporting tenant, agent and such a printer; and it adds events only under its own tenant, agent and printer.
\<close>

theorem report_isolated:
  assumes tx: "apply_current_print_report ctx n session input s = Ok (applied, s')"
    and inv: "keys_ok (rd_hub s)" "canonical_jobs (jc_uuid (rc_job (rx_report ctx))) (rd_hub s)"
      "materials_wf (rd_materials s)" "rn_material_id n \<notin> msr_id ` set (rd_materials s)"
  shows "(\<exists>a. locked_agent (rd_hub s) (apr_agent_id input) = Some a \<and> ar_current_session_id a = Some session) \<and>
     rd_hub s' = (rd_hub s)\<lparr>db_jobs := db_jobs (rd_hub s'), db_usages := db_usages (rd_hub s')\<rparr> \<and>
     list_all2 (\<lambda>j j'. j' = j \<or>
        (\<exists>printer \<in> own_printers input (rd_hub s). of_reporter input printer j) \<and>
        \<not> ended_print (jr_print_status j) \<and> other_columns j' = other_columns j)
       (db_jobs (rd_hub s)) (db_jobs (rd_hub s')) \<and>
     (\<exists>new. db_usages (rd_hub s') = db_usages (rd_hub s) @ new \<and>
        (\<forall>u \<in> set new. \<exists>j \<in> set (db_jobs (rd_hub s)). jr_id j = ur_job_id u \<and> jr_tenant_id j = ur_tenant_id u \<and>
           (\<exists>printer \<in> own_printers input (rd_hub s). of_reporter input printer j))) \<and>
     (\<forall>p. p \<notin> own_printers input (rd_hub s) \<longrightarrow> rd_live s' p = rd_live s p) \<and>
     (let other = (\<lambda>m. \<not> (msr_tenant_id m = apr_tenant_id input \<and> msr_printer_id m \<in> own_printers input (rd_hub s)))
      in filter other (rd_materials s') = filter other (rd_materials s)) \<and>
     (\<exists>new. rd_events s' = rd_events s @ new \<and>
        (\<forall>e \<in> set new. mer_tenant_id e = apr_tenant_id input \<and> mer_agent_id e = apr_agent_id input \<and>
           mer_printer_id e \<in> own_printers input (rd_hub s)))"
proof -
  from tx obtain a where "begin_current_agent_transaction (rd_hub s) (apr_tenant_id input) (apr_agent_id input) session = Ok a"
    and t: "apply_print_report_tx ctx n session input s = Ok (applied, s')"
    by (auto simp: apply_current_print_report_def and_then_eq_Ok)
  then have a: "locked_agent (rd_hub s) (apr_agent_id input) = Some a" "ar_current_session_id a = Some session"
    by (auto simp: begin_current_agent_transaction_def result_simps split: if_splits)
  show ?thesis using t
  proof (cases rule: report_tx_parts)
    case no_printer
    with a show ?thesis by (simp add: list_all2_same)
  next
    case (printer pid outcome row materials job)
    have own: "pid \<in> own_printers input (rd_hub s)" using printer(1) by (simp add: own_printers_def)
    have hub: "rd_hub s' = (rd_hub s)\<lparr>db_jobs := db_jobs (rd_hub s'), db_usages := db_usages (rd_hub s')\<rparr>"
      using printer(7) by (cases job) (auto simp: reported_hub_def)
    have jobs: "list_all2 (\<lambda>j j'. j' = j \<or>
        (\<exists>printer \<in> own_printers input (rd_hub s). of_reporter input printer j) \<and>
        \<not> ended_print (jr_print_status j) \<and> other_columns j' = other_columns j)
       (db_jobs (rd_hub s)) (db_jobs (rd_hub s'))"
    proof (cases job)
      case None
      with printer(7) show ?thesis by (simp add: list_all2_same)
    next
      case (Some w)
      then have "reported_hub (jc_uuid (rc_job (rx_report ctx))) (job_id (jwa_job w)) (rd_hub s) (rd_hub s')" using printer(7) by simp
      then obtain g new where r: "rd_hub s' = (rd_hub s)\<lparr>db_jobs := map g (db_jobs (rd_hub s)), db_usages := db_usages (rd_hub s) @ new\<rparr>"
        and gr: "\<And>j. reported_row (job_id (jwa_job w)) j (g j)"
        unfolding reported_hub_def by blast
      have g: "db_jobs (rd_hub s') = map g (db_jobs (rd_hub s))" unfolding r by simp
      have "correlates (rx_report ctx) (rd_hub s) input pid w"
        using printer(6) Some by (intro correlate_job_correlates) simp
      moreover have "other_columns (g j) = other_columns j" for j using gr [of j] by (auto simp: reported_row_def)
      moreover note correlated_row [OF calculation(1) inv(1,2)] gr own
      ultimately show ?thesis
        unfolding g list_all2_map2 by (auto simp: list_all2_same reported_row_def)
    qed
    have usages: "\<exists>new. db_usages (rd_hub s') = db_usages (rd_hub s) @ new \<and>
        (\<forall>u \<in> set new. \<exists>j \<in> set (db_jobs (rd_hub s)). jr_id j = ur_job_id u \<and> jr_tenant_id j = ur_tenant_id u \<and>
           (\<exists>printer \<in> own_printers input (rd_hub s). of_reporter input printer j))"
    proof (cases job)
      case None
      with printer(7) show ?thesis by simp
    next
      case (Some w)
      then have "reported_hub (jc_uuid (rc_job (rx_report ctx))) (job_id (jwa_job w)) (rd_hub s) (rd_hub s')" using printer(7) by simp
      then obtain new where n: "db_usages (rd_hub s') = db_usages (rd_hub s) @ new"
        "\<And>u. u \<in> set new \<Longrightarrow> ur_job_id u = job_id (jwa_job w) \<and>
           (\<exists>j \<in> set (db_jobs (rd_hub s)). jr_id j = job_id (jwa_job w) \<and> jr_tenant_id j = ur_tenant_id u)"
        using inv(2) unfolding reported_hub_def by auto
      have "correlates (rx_report ctx) (rd_hub s) input pid w"
        using printer(6) Some by (intro correlate_job_correlates) simp
      note row = correlated_row [OF this inv(1,2)]
      show ?thesis
        by (intro exI [of _ new] conjI n(1) ballI) (metis n(2) own row)
    qed
    have frame: "filter (\<lambda>m. \<not> material_row_of (material_input input pid) m) materials =
        filter (\<lambda>m. \<not> material_row_of (material_input input pid) m) (rd_materials s)"
      using material_effect_frame [OF printer(2) inv(3,4)] by blast
    have mat: "filter (\<lambda>m. \<not> (msr_tenant_id m = apr_tenant_id input \<and> msr_printer_id m \<in> own_printers input (rd_hub s))) (rd_materials s') =
        filter (\<lambda>m. \<not> (msr_tenant_id m = apr_tenant_id input \<and> msr_printer_id m \<in> own_printers input (rd_hub s))) (rd_materials s)"
      unfolding printer(3) by (rule filter_refine [OF frame]) (use own in \<open>auto simp: material_row_of_def material_input_def\<close>)
    have live: "\<forall>p. p \<notin> own_printers input (rd_hub s) \<longrightarrow> rd_live s' p = rd_live s p"
      using printer(4) own by auto
    have events: "\<exists>new. rd_events s' = rd_events s @ new \<and>
        (\<forall>e \<in> set new. mer_tenant_id e = apr_tenant_id input \<and> mer_agent_id e = apr_agent_id input \<and>
           mer_printer_id e \<in> own_printers input (rd_hub s))"
      using printer(5) own by (auto simp: appended_events_def)
    have session: "\<exists>a. locked_agent (rd_hub s) (apr_agent_id input) = Some a \<and> ar_current_session_id a = Some session"
      using a by blast
    show ?thesis unfolding Let_def by (intro conjI) (fact session hub jobs usages live mat events)+
  qed
qed

section \<open>The hub\<close>

text \<open>
  The rows of material snapshots and machine events that refer to a deleted printer or agent go with it, and an event loses the reference to a
  deleted job (\<open>migrations/shared\<close>).
\<close>

definition deleted_ids :: "('r \<Rightarrow> string) \<Rightarrow> 'r list \<Rightarrow> 'r list \<Rightarrow> string list" where
  "deleted_ids key rows rows' = filter (\<lambda>i. i \<notin> set (map key rows')) (map key rows)"

definition follow_deletions :: "hub_db \<Rightarrow> report_db \<Rightarrow> report_db" where
  "follow_deletions db' s =
     (let printers = deleted_ids prr_id (db_printers (rd_hub s)) (db_printers db');
          agents = deleted_ids ar_id (db_agents (rd_hub s)) (db_agents db');
          jobs = deleted_ids jr_id (db_jobs (rd_hub s)) (db_jobs db')
      in s\<lparr>rd_hub := db',
           rd_materials := filter (\<lambda>m. msr_printer_id m \<notin> set printers \<and> msr_agent_id m \<notin> set agents) (rd_materials s),
           rd_events := map (\<lambda>e. if mer_job_id e \<in> Some ` set jobs then e\<lparr>mer_job_id := None\<rparr> else e)
             (filter (\<lambda>e. mer_printer_id e \<notin> set printers \<and> mer_agent_id e \<notin> set agents) (rd_events s))\<rparr>)"

definition cleanup_machine_events :: "timestamp \<Rightarrow> report_db \<Rightarrow> report_db" where
  "cleanup_machine_events cutoff s = s\<lparr>rd_events := filter (\<lambda>e. \<not> text_less (mer_created_at e) cutoff) (rd_events s)\<rparr>"

text \<open>
  One step of the hub: a transaction on jobs, commands, printers or sessions with what it deletes by foreign keys, a print report, a material
  snapshot, or the cleanup of machine events. A fresh identifier is one the table does not hold.
\<close>

inductive system_step :: "report_context \<Rightarrow> live_codec \<Rightarrow> url_reader \<Rightarrow> report_db \<Rightarrow> report_db \<Rightarrow> bool"
  for ctx live read_url where
  hub: "hub_step (rc_job (rx_report ctx)) live read_url (rd_hub s) db' \<Longrightarrow> system_step ctx live read_url s (follow_deletions db' s)"
| report: "apply_current_print_report ctx n session input s = Ok (applied, s') \<Longrightarrow>
     rn_material_id n \<notin> msr_id ` set (rd_materials s) \<Longrightarrow> system_step ctx live read_url s s'"
| material: "apply_snapshot_if_current (rx_material ctx) now fresh session tenant agent requested serial body (rd_hub s) (rd_materials s) =
       Ok (outcome, rows) \<Longrightarrow> fresh \<notin> msr_id ` set (rd_materials s) \<Longrightarrow>
     system_step ctx live read_url s (s\<lparr>rd_materials := rows\<rparr>)"
| cleanup_events: "system_step ctx live read_url s (cleanup_machine_events cutoff s)"

definition system_inv :: "report_context \<Rightarrow> report_db \<Rightarrow> bool" where
  "system_inv ctx s \<longleftrightarrow>
     lifecycle_inv (jc_uuid (rc_job (rx_report ctx))) (rd_hub s) \<and> materials_wf (rd_materials s) \<and>
     distinct (map event_key_of (rd_events s))"

lemma reported_lifecycle:
  assumes "reported_hub u i db db'" "lifecycle_inv uuid db"
  shows "lifecycle_inv uuid db'"
proof -
  obtain g new where d: "db' = db\<lparr>db_jobs := map g (db_jobs db), db_usages := db_usages db @ new\<rparr>"
    and g: "\<And>j. reported_row i j (g j)"
    using assms(1) unfolding reported_hub_def by blast
  have "jr_id (g j) = jr_id j" "jr_command_id (g j) = jr_command_id j" "jr_status (g j) = jr_status j" for j
    using g [of j] by (auto simp: reported_row_def print_row_update_def)
  then show ?thesis by (intro inv_map [OF assms(2), where f = id and g = g]) (simp_all add: d)
qed

lemma report_inv:
  assumes "apply_current_print_report ctx n session input s = Ok (applied, s')" "system_inv ctx s"
    and "rn_material_id n \<notin> msr_id ` set (rd_materials s)"
  shows "system_inv ctx s'"
proof -
  from assms(1) have t: "apply_print_report_tx ctx n session input s = Ok (applied, s')"
    by (auto simp: apply_current_print_report_def and_then_eq_Ok)
  note inv = assms(2) [unfolded system_inv_def]
  show ?thesis using t
  proof (cases rule: report_tx_parts)
    case no_printer
    with assms(2) show ?thesis by simp
  next
    case (printer pid outcome row materials job)
    have "lifecycle_inv (jc_uuid (rc_job (rx_report ctx))) (rd_hub s')"
      using printer(7) inv reported_lifecycle by (cases job) auto
    moreover have "materials_wf materials" using material_effect_frame [OF printer(2)] inv assms(3) by blast
    moreover have "distinct (map event_key_of (rd_events s'))"
      using printer(5) inv by (simp add: appended_events_def)
    ultimately show ?thesis by (simp add: system_inv_def printer(3))
  qed
qed

lemma snapshot_if_current_wf:
  assumes "apply_snapshot_if_current codec now fresh session tenant agent requested serial body db rows = Ok (outcome, rows')"
    and "materials_wf rows" "fresh \<notin> msr_id ` set rows"
  shows "materials_wf rows'"
proof -
  let ?p = "find (\<lambda>p. (if requested = [] then prr_serial_number p = serial else prr_id p = requested) \<and>
      prr_tenant_id p = tenant \<and> prr_agent_id p = agent) (db_printers db)"
  show ?thesis
  proof (cases "\<exists>p. ?p = Some p \<and> prr_serial_number p = serial")
    case True
    then obtain p where p: "?p = Some p" "prr_serial_number p = serial" by blast
    have "\<exists>o2. upsert_from_patch_outcome_in_connection codec now fresh db
        \<lparr>mpi_tenant_id = tenant, mpi_agent_id = agent, mpi_printer_id = prr_id p,
         mpi_serial_number = serial, mpi_printer_materials_json = body\<rparr> rows = Ok (o2, rows')"
      using assms(1) p by (auto simp: apply_snapshot_if_current_def and_then_eq_Ok simp del: if_split)
    then show ?thesis using material_effect_frame [OF _ assms(2,3)] by blast
  next
    case False
    have "rows' = rows"
    proof (cases ?p)
      case None
      with assms(1) show ?thesis by (auto simp: apply_snapshot_if_current_def and_then_eq_Ok simp del: if_split)
    next
      case (Some p)
      with False have "prr_serial_number p \<noteq> serial" by blast
      with assms(1) Some show ?thesis by (simp add: apply_snapshot_if_current_def and_then_eq_Ok)
    qed
    with assms(2) show ?thesis by simp
  qed
qed

lemma follow_deletions_wf:
  "rd_hub (follow_deletions db' s) = db'"
  "materials_wf (rd_materials s) \<Longrightarrow> materials_wf (rd_materials (follow_deletions db' s))"
  "distinct (map event_key_of (rd_events s)) \<Longrightarrow> distinct (map event_key_of (rd_events (follow_deletions db' s)))"
proof -
  have "event_key_of (if mer_job_id e \<in> J then e\<lparr>mer_job_id := None\<rparr> else e) = event_key_of e" for e J
    by (simp add: event_key_of_def)
  then show "distinct (map event_key_of (rd_events s)) \<Longrightarrow> distinct (map event_key_of (rd_events (follow_deletions db' s)))"
    by (simp add: follow_deletions_def Let_def comp_def distinct_map_filter del: if_split)
qed (simp_all add: follow_deletions_def Let_def materials_wf_def distinct_map_filter)

lemma system_step_inv:
  assumes "system_step ctx live read_url s s'" "system_inv ctx s"
  shows "system_inv ctx s'"
  using assms
proof (induction rule: system_step.induct)
  case (hub s db')
  then show ?case using hub_step_inv [OF hub(1)] follow_deletions_wf by (simp add: system_inv_def)
next
  case (cleanup_events s cutoff)
  then show ?case by (simp add: system_inv_def cleanup_machine_events_def distinct_map_filter)
next
  case (report n session input s applied s')
  then show ?case using report_inv by blast
next
  case (material now fresh session tenant agent requested serial body s outcome rows)
  then show ?case using snapshot_if_current_wf [OF material(1)] by (simp add: system_inv_def)
qed

text \<open>
  C1: the hub stays consistent. From an empty hub, after any sequence of job and command transactions, deletions of printers and agents, print
  reports, material snapshots and cleanups, in any interleaving: every print job names exactly one print command, of
  its own, with the job's status; there is one material row per printer; and no event key is recorded twice.
\<close>

theorem system_consistent:
  assumes "(system_step ctx live read_url)\<^sup>*\<^sup>* s0 s"
    and "db_commands (rd_hub s0) = []" "db_jobs (rd_hub s0) = []" "rd_materials s0 = []" "rd_events s0 = []"
  shows "(\<forall>j \<in> set (db_jobs (rd_hub s)).
       (\<exists>c. command_at (rd_hub s) (jr_command_id j) = Some c \<and> cr_kind c = ''print_project_file'' \<and> cr_status c = jr_status j) \<and>
       (\<forall>j' \<in> set (db_jobs (rd_hub s)). jr_command_id j' = jr_command_id j \<longrightarrow> j' = j)) \<and>
     distinct (map (\<lambda>m. (msr_tenant_id m, msr_printer_id m)) (rd_materials s)) \<and>
     distinct (map (\<lambda>e. (mer_tenant_id e, mer_event_key e)) (rd_events s))"
proof -
  have "system_inv ctx s0"
    using assms(2-5) by (simp add: system_inv_def lifecycle_inv_def keys_ok_def materials_wf_def)
  with assms(1) have inv: "system_inv ctx s"
    by (induction rule: rtranclp_induct) (auto intro: system_step_inv)
  then have l: "lifecycle_inv (jc_uuid (rc_job (rx_report ctx))) (rd_hub s)" by (simp add: system_inv_def)
  have "distinct (map jr_command_id (db_jobs (rd_hub s)))" using l by (simp add: lifecycle_inv_def)
  then have "\<forall>j \<in> set (db_jobs (rd_hub s)). \<forall>j' \<in> set (db_jobs (rd_hub s)). jr_command_id j' = jr_command_id j \<longrightarrow> j' = j"
    by (auto simp: distinct_map inj_on_def)
  moreover have "event_key_of = (\<lambda>e. (mer_tenant_id e, mer_event_key e))" by (simp add: event_key_of_def fun_eq_iff)
  moreover have "\<exists>c. command_at (rd_hub s) (jr_command_id j) = Some c \<and> cr_kind c = ''print_project_file'' \<and> cr_status c = jr_status j"
    if "j \<in> set (db_jobs (rd_hub s))" for j
    using synced_command [OF l that] by metis
  ultimately show ?thesis using inv unfolding system_inv_def materials_wf_def by simp
qed

section \<open>A sample report through the hub\<close>

definition sample_context :: report_context where
  "sample_context =
     \<lparr>rx_report = sample_report_codec, rx_material = sample_material_codec, rx_usage = sample_usage_codec,
      rx_backend = Sqlite, rx_read_hms = (\<lambda>_. Some []), rx_write_hms = (\<lambda>_. ''[]''), rx_read_printer = (\<lambda>_. Ok ())\<rparr>"

definition sample_inputs :: report_inputs where
  "sample_inputs =
     \<lparr>rn_received_at = ''2026-01-01T00:05:01Z'', rn_now = ''now'', rn_retry_now = ''now'', rn_material_now = ''now'',
      rn_usage_now = ''now'', rn_event_now = ''now'', rn_material_id = ''m1'', rn_usage_id = (\<lambda>_. ''u1''), rn_event_id = id\<rparr>"

definition sample_hub :: hub_db where
  "sample_hub =
     \<lparr>db_agents = [sample_agent_row\<lparr>ar_current_session_id := Some ''s1''\<rparr>], db_commands = [],
      db_jobs = [sample_mapped_job\<lparr>jr_ams_mapping_json := None\<rparr>],
      db_artifacts = [\<lparr>fr_id = ''f1'', fr_tenant_id = ''t1'', fr_filename = ''a'', fr_content_type = ''c'', fr_size_bytes = 1,
          fr_storage_path = ''f'', fr_metadata_json = None, fr_created_at = ''t0''\<rparr>],
      db_usages = [],
      db_printers = [\<lparr>prr_id = ''p1'', prr_tenant_id = ''t1'', prr_agent_id = ''a1'', prr_serial_number = ''01'', prr_name = ''X1'',
          prr_model = None\<rparr>],
      db_sequences = [], db_audit = [], db_artifact_deletions = []\<rparr>"

definition sample_report_db :: report_db where
  "sample_report_db = \<lparr>rd_hub = sample_hub, rd_live = (\<lambda>_. sample_live_row), rd_materials = [], rd_events = []\<rparr>"

definition sample_hub_report :: apply_print_report where
  "sample_hub_report = sample_report\<lparr>apr_serial := ''01'', apr_gcode_file := None, apr_gcode_state := Some ''FINISH'',
     apr_diagnostics := [], apr_printer_materials_json := []\<rparr>"

definition sample_applied :: "(applied_print_report \<times> report_db) repository_result" where
  "sample_applied = apply_current_print_report sample_context sample_inputs ''s1'' sample_hub_report sample_report_db"

lemma sample_applied_ok:
  "(case sample_applied of Ok (a, s) \<Rightarrow> ap_changed a \<and> ap_inserted_job_events a | Err _ \<Rightarrow> False)"
  by code_simp

lemma sample_report_db_ok:
  "keys_ok (rd_hub sample_report_db)" "canonical_jobs Some (rd_hub sample_report_db)" "materials_wf (rd_materials sample_report_db)"
  by code_simp+

theorem report_isolated_witness:
  "\<exists>a s. sample_applied = Ok (a, s) \<and> ap_changed a \<and>
     list_all2 (\<lambda>j j'. j' = j \<or> of_reporter sample_hub_report ''p1'' j \<and> \<not> ended_print (jr_print_status j) \<and>
       other_columns j' = other_columns j) (db_jobs sample_hub) (db_jobs (rd_hub s))"
proof -
  obtain a s where k: "sample_applied = Ok (a, s)" "ap_changed a" using sample_applied_ok by (auto split: result.splits prod.splits)
  have u: "jc_uuid (rc_job (rx_report sample_context)) = Some" by (simp add: sample_context_def sample_report_codec_def sample_codec_def)
  have o: "own_printers sample_hub_report sample_hub \<subseteq> {''p1''}" by (auto simp: own_printers_def sample_hub_def)
  have h: "rd_hub sample_report_db = sample_hub" "rd_materials sample_report_db = []" by (simp_all add: sample_report_db_def)
  note r = report_isolated [OF k(1) [unfolded sample_applied_def], unfolded u h, OF sample_report_db_ok [unfolded h]]
  show ?thesis
    by (intro exI conjI, rule k(1), rule k(2), rule list_all2_mono [OF r [simplified, THEN conjunct2, THEN conjunct2, THEN conjunct1]])
      (use o in blast)
qed

definition sample_system :: "hub_db \<Rightarrow> report_db" where
  "sample_system db = \<lparr>rd_hub = db, rd_live = (\<lambda>_. sample_live_row), rd_materials = [], rd_events = []\<rparr>"

theorem system_consistent_witness:
  "\<exists>j c. db_jobs sample_cancelled_db = [j] \<and> command_at sample_cancelled_db (jr_command_id j) = Some c \<and> cr_status c = jr_status j"
proof -
  obtain j where j: "db_jobs sample_cancelled_db = [j]" using sample_cancelled_rows(1) by auto
  have c: "rc_job (rx_report sample_context) = sample_codec" by (simp add: sample_context_def sample_report_codec_def)
  have step: "system_step sample_context sample_live (\<lambda>_. Ok None) (sample_system db) (sample_system db')"
    if "hub_step sample_codec sample_live (\<lambda>_. Ok None) db db'" for db db'
    using system_step.hub [of sample_context sample_live "\<lambda>_. Ok None" "sample_system db" db'] that c
    by (simp add: sample_system_def follow_deletions_def)
  have "(system_step sample_context sample_live (\<lambda>_. Ok None))\<^sup>*\<^sup>* (sample_system sample_jobs_db) (sample_system sample_cancelled_db)"
    by (rule rtranclp.rtrancl_into_rtrancl [OF r_into_rtranclp]) (rule step, rule sample_steps)+
  from system_consistent [OF this] sample_start
  have "\<forall>j \<in> set (db_jobs sample_cancelled_db). \<exists>c. command_at sample_cancelled_db (jr_command_id j) = Some c \<and> cr_status c = jr_status j"
    by (simp add: sample_system_def) blast
  with j show ?thesis by simp
qed

end
