(* ===== verification/Ams_Units.thy ===== *)
theory Ams_Units
  imports Prelude
begin

text \<open>
  AMS unit kinds (\<open>crates/pandar-core/src/ams.rs\<close>): the kind encoded in the low nibble of
  Studio's hexadecimal info text, the kind guessed from a unit id, and the numbering of
  trays across units (\<open>global_tray_id\<close>) with the bit a unit occupies in the existence
  mask. The lemmas give the range of the numbering, its injectivity on the four-slot
  kinds and where the range reserved for a mixed AMS lite meets it.
\<close>

datatype ams_unit_kind = Ams | AmsLite | Ams2Pro | AmsHt | AmsLiteMixed | Unknown

text \<open>\<open>str::trim_start_matches\<close> removes the pattern as often as it occurs at the front.\<close>

function trim_start_matches :: "string \<Rightarrow> string \<Rightarrow> string" where
  "trim_start_matches p s =
     (case strip_prefix p s of
        None \<Rightarrow> s
      | Some t \<Rightarrow> if p = [] then s else trim_start_matches p t)"
  by pat_completeness auto
termination
  by (relation "measure (\<lambda>(p, s). length s)") (auto simp: str_simps)

declare trim_start_matches.simps [simp del]

definition from_studio_info :: "string \<Rightarrow> ams_unit_kind option" where
  "from_studio_info info =
     (let s = trim_start_matches ''0X'' (trim_start_matches ''0x'' (trim info))
      in case from_str_radix 16 (2 ^ 64) s of
           None \<Rightarrow> None
         | Some n \<Rightarrow>
             (let type_id = n mod 16
              in if type_id = 1 then Some Ams
                 else if type_id = 2 then Some AmsLite
                 else if type_id = 3 then Some Ams2Pro
                 else if type_id = 4 then Some AmsHt
                 else if type_id = 5 then Some AmsLiteMixed
                 else None))"

definition from_unit_id :: "string \<Rightarrow> ams_unit_kind" where
  "from_unit_id unit_id =
     (case from_str_radix 10 (2 ^ 32) unit_id of
        Some n \<Rightarrow> if n \<le> 63 then Ams else if 128 \<le> n \<and> n \<le> 135 then AmsHt else Unknown
      | None \<Rightarrow> Unknown)"

primrec studio_type_id :: "ams_unit_kind \<Rightarrow> u8 option" where
  "studio_type_id Ams = Some 1"
| "studio_type_id AmsLite = Some 2"
| "studio_type_id Ams2Pro = Some 3"
| "studio_type_id AmsHt = Some 4"
| "studio_type_id AmsLiteMixed = Some 5"
| "studio_type_id Unknown = None"

definition uses_four_slot_exist_bits :: "ams_unit_kind \<Rightarrow> bool" where
  "uses_four_slot_exist_bits k \<longleftrightarrow> k \<in> {Ams, AmsLite, Ams2Pro, AmsLiteMixed}"

primrec global_tray_id :: "ams_unit_kind \<Rightarrow> u64 \<Rightarrow> u64 \<Rightarrow> u64 option" where
  "global_tray_id AmsLiteMixed unit_id tray_id = (if tray_id < 4 then Some (24 + tray_id) else None)"
| "global_tray_id Ams unit_id tray_id =
     (if unit_id < 64 \<and> tray_id < 4 then Some (unit_id * 4 + tray_id) else None)"
| "global_tray_id AmsLite unit_id tray_id =
     (if unit_id < 64 \<and> tray_id < 4 then Some (unit_id * 4 + tray_id) else None)"
| "global_tray_id Ams2Pro unit_id tray_id =
     (if unit_id < 64 \<and> tray_id < 4 then Some (unit_id * 4 + tray_id) else None)"
| "global_tray_id AmsHt unit_id tray_id = None"
| "global_tray_id Unknown unit_id tray_id = None"

definition studio_global_tray_id :: "ams_unit_kind \<Rightarrow> u64 \<Rightarrow> u64 \<Rightarrow> u64 option" where
  "studio_global_tray_id k unit_id tray_id = global_tray_id k unit_id tray_id"

primrec studio_exist_bit :: "ams_unit_kind \<Rightarrow> u64 \<Rightarrow> u64 option" where
  "studio_exist_bit AmsLiteMixed unit_id = Some 12"
| "studio_exist_bit Ams unit_id = (if unit_id < 64 then Some unit_id else None)"
| "studio_exist_bit AmsLite unit_id = (if unit_id < 64 then Some unit_id else None)"
| "studio_exist_bit Ams2Pro unit_id = (if unit_id < 64 then Some unit_id else None)"
| "studio_exist_bit AmsHt unit_id = None"
| "studio_exist_bit Unknown unit_id = None"

section \<open>Numbering of trays\<close>

definition standard_kind :: "ams_unit_kind \<Rightarrow> bool" where
  "standard_kind k \<longleftrightarrow> k \<in> {Ams, AmsLite, Ams2Pro}"

lemma unat_tray_number:
  assumes "(u :: u64) < 64" "(t :: u64) < 4"
  shows "unat (u * 4 + t) = unat u * 4 + unat t" and "unat u < 64" and "unat t < 4"
proof -
  have u: "unat u < 64" and t: "unat t < 4" using assms by (simp_all add: word_less_nat_alt)
  have "unat (u * 4) = unat u * 4"
    using u by (simp add: unat_word_ariths)
  then show "unat (u * 4 + t) = unat u * 4 + unat t"
    using u t by (simp add: unat_word_ariths)
  show "unat u < 64" "unat t < 4" by (rule u, rule t)
qed

lemma standard_global_tray_id:
  "standard_kind k \<Longrightarrow> global_tray_id k u t = (if u < 64 \<and> t < 4 then Some (u * 4 + t) else None)"
  by (cases k) (auto simp: standard_kind_def)

text \<open>
  On the kinds numbered by unit (AMS, AMS lite, AMS 2 Pro) two slots with the same
  global tray id are the same slot of the same unit, and the id stays below 256: the
  numbering never merges two trays of a printer.
\<close>

lemma global_tray_id_injective:
  assumes "standard_kind k" "standard_kind k'"
    and "global_tray_id k u t = Some g" "global_tray_id k' u' t' = Some g"
  shows "u = u' \<and> t = t' \<and> g < 256"
proof -
  from assms have r: "u < 64" "t < 4" "u' < 64" "t' < 4" "g = u * 4 + t" "g = u' * 4 + t'"
    by (auto simp: standard_global_tray_id split: if_splits)
  from r(5,6) have "unat u * 4 + unat t = unat u' * 4 + unat t'"
    using unat_tray_number [OF r(1,2)] unat_tray_number [OF r(3,4)] by simp
  moreover have "unat t < 4" "unat t' < 4"
    using unat_tray_number [OF r(1,2)] unat_tray_number [OF r(3,4)] by auto
  ultimately have "unat u = unat u'" "unat t = unat t'" by presburger+
  moreover have "unat g < 256" using unat_tray_number [OF r(1,2)] r(5) by simp
  ultimately show ?thesis by (simp add: word_unat_eq_iff word_less_nat_alt)
qed

lemma global_tray_id_injective_witness:
  "\<exists>g. global_tray_id Ams 3 2 = Some g \<and> global_tray_id Ams2Pro 3 2 = Some g \<and> g < 256"
  using global_tray_id_injective [of Ams Ams2Pro 3 2 14 3 2] by (simp add: standard_kind_def)

text \<open>
  The range 24 to 27 reserved for a mixed AMS lite is the range of unit 6 of the standard
  kinds: the two meet there and nowhere else.
\<close>

lemma mixed_range_is_unit_6:
  assumes "standard_kind k" "global_tray_id AmsLiteMixed v s = Some g" "global_tray_id k u t = Some g"
  shows "u = 6 \<and> t = s"
proof -
  from assms have r: "u < 64" "t < 4" "s < 4" "g = u * 4 + t" "g = 6 * 4 + s"
    by (auto simp: standard_global_tray_id split: if_splits)
  from r(4,5) have "unat u * 4 + unat t = 24 + unat s"
    using unat_tray_number [OF r(1,2)] unat_tray_number [of 6 s] r(3) by simp
  moreover have "unat s < 4" using r(3) by (simp add: word_less_nat_alt)
  ultimately have "unat u = 6" "unat t = unat s" using unat_tray_number(3) [OF r(1,2)] by arith+
  then show ?thesis by (simp add: word_unat_eq_iff)
qed

section \<open>The kind in Studio's info text\<close>

lemma digit_char_plain: "v < 16 \<Longrightarrow> plain_char (digit_char v)"
  by (auto simp: digit_char_def plain_char_def)

lemma digit_char_not_x: "v < 16 \<Longrightarrow> digit_char v \<noteq> CHR ''x'' \<and> digit_char v \<noteq> CHR ''X''"
proof -
  assume v: "v < 16"
  then have "byte (digit_char v) < 71" by (auto simp: digit_char_def)
  then show ?thesis by auto
qed

lemma hex_text_chars: "c \<in> set (to_digits 16 n) \<Longrightarrow> plain_char c \<and> c \<noteq> CHR ''x'' \<and> c \<noteq> CHR ''X''"
  using to_digits_set [of 16 n] digit_char_plain digit_char_not_x by fastforce

lemma trim_start_matches_none: "q \<notin> set s \<Longrightarrow> q \<in> set p \<Longrightarrow> trim_start_matches p s = s"
proof -
  assume "q \<notin> set s" "q \<in> set p"
  then have "strip_prefix p s = None" by (auto simp: strip_prefix_None)
  then show ?thesis by (simp add: trim_start_matches.simps)
qed

text \<open>
  Studio's info word carries the kind in its low nibble. Writing any 64-bit word whose
  low nibble is the type id of a kind, in hexadecimal, and reading it back gives the kind.
\<close>

lemma from_studio_info_type_id:
  assumes "studio_type_id k = Some t" and "n < 2 ^ 64" and "n mod 16 = unat t"
  shows "from_studio_info (to_digits 16 n) = Some k"
proof -
  let ?s = "to_digits 16 n"
  have "trim ?s = ?s" using hex_text_chars by (intro trim_plain) (auto simp: list_all_iff)
  moreover have "trim_start_matches ''0x'' ?s = ?s"
    by (rule trim_start_matches_none [where q = "CHR ''x''"]) (use hex_text_chars in auto)
  moreover have "trim_start_matches ''0X'' ?s = ?s"
    by (rule trim_start_matches_none [where q = "CHR ''X''"]) (use hex_text_chars in auto)
  moreover have "from_str_radix 16 (2 ^ 64) ?s = Some n"
    using assms(2) by (intro from_str_radix_to_digits) auto
  ultimately have "from_studio_info ?s =
      (let type_id = n mod 16
       in if type_id = 1 then Some Ams else if type_id = 2 then Some AmsLite
          else if type_id = 3 then Some Ams2Pro else if type_id = 4 then Some AmsHt
          else if type_id = 5 then Some AmsLiteMixed else None)"
    by (simp only: from_studio_info_def Let_def option.case)
  with assms(1,3) show ?thesis by (cases k) auto
qed

end
