(* ===== verification/Rust_Text.thy ===== *)
theory Rust_Text
  imports Prelude
begin

text \<open>
  More of Rust's string library, on UTF-8 bytes: \<open>str::lines\<close>, \<open>split_whitespace\<close>,
  \<open>split_once\<close>, \<open>find\<close>, \<open>replace\<close> and \<open>strip_suffix\<close>, with the laws that let a printed text be
  read back.
\<close>

section \<open>Characters and case\<close>

definition eq_ignore_ascii_case :: "string \<Rightarrow> string \<Rightarrow> bool" where
  "eq_ignore_ascii_case a b \<longleftrightarrow> to_ascii_lowercase a = to_ascii_lowercase b"

definition is_ascii_alphanumeric :: "char \<Rightarrow> bool" where
  "is_ascii_alphanumeric c \<longleftrightarrow>
     (48 \<le> byte c \<and> byte c \<le> 57) \<or> (65 \<le> byte c \<and> byte c \<le> 90) \<or> (97 \<le> byte c \<and> byte c \<le> 122)"

section \<open>Lines\<close>

abbreviation newline :: char where "newline \<equiv> CHR 0x0A"
abbreviation carriage_return :: char where "carriage_return \<equiv> CHR 0x0D"

definition strip_cr :: "string \<Rightarrow> string" where
  "strip_cr l = (if l \<noteq> [] \<and> last l = carriage_return then butlast l else l)"

text \<open>A final line without line feed is a line; nothing follows a final line feed.\<close>

function str_lines :: "string \<Rightarrow> string list" where
  "str_lines s =
     (if s = [] then []
      else (case dropWhile (\<lambda>c. c \<noteq> newline) s of
              [] \<Rightarrow> [s]
            | _ # rest \<Rightarrow> strip_cr (takeWhile (\<lambda>c. c \<noteq> newline) s) # str_lines rest))"
  by pat_completeness auto
termination
proof (relation "measure length")
  fix s x rest
  assume "dropWhile (\<lambda>c. c \<noteq> newline) s = x # rest"
  then have "length (x # rest) \<le> length s" by (metis length_dropWhile_le)
  then show "(rest, s) \<in> measure length" by simp
qed simp

declare str_lines.simps [simp del]

lemma str_lines_Nil [simp]: "str_lines [] = []"
  by (simp add: str_lines.simps)

lemma str_lines_single: "l \<noteq> [] \<Longrightarrow> newline \<notin> set l \<Longrightarrow> str_lines l = [l]"
proof -
  assume "l \<noteq> []" "newline \<notin> set l"
  then have "dropWhile (\<lambda>c. c \<noteq> newline) l = []" by (auto simp: dropWhile_eq_Nil_conv)
  with \<open>l \<noteq> []\<close> show ?thesis by (simp add: str_lines.simps [of l] del: dropWhile_eq_Nil_conv)
qed

lemma str_lines_append:
  assumes "newline \<notin> set l" "carriage_return \<notin> set l"
  shows "str_lines (l @ newline # s) = l # str_lines s"
proof -
  have a: "\<And>c. c \<in> set l \<Longrightarrow> c \<noteq> newline" using assms(1) by auto
  have "dropWhile (\<lambda>c. c \<noteq> newline) (l @ newline # s) = newline # s"
    using a by (simp add: dropWhile_append2)
  moreover have "takeWhile (\<lambda>c. c \<noteq> newline) (l @ newline # s) = l"
    using a by (simp add: takeWhile_append2)
  moreover have "strip_cr l = l" using assms(2) by (auto simp: strip_cr_def dest: last_in_set)
  ultimately show ?thesis by (simp add: str_lines.simps [of "l @ newline # s"])
qed

section \<open>Words\<close>

fun take_word :: "string \<Rightarrow> string" where
  "take_word [] = []"
| "take_word (c # cs) = (if 0 < ws_len (c # cs) then [] else c # take_word cs)"

lemma take_word_le: "length (take_word s) \<le> length s"
  by (induction s rule: take_word.induct) auto

function split_whitespace :: "string \<Rightarrow> string list" where
  "split_whitespace s =
     (let t = trim_start s
      in if t = [] then []
         else take_word t # split_whitespace (drop (length (take_word t)) t))"
  by pat_completeness auto
termination
proof (relation "measure length")
  fix s t :: string
  assume t: "t = trim_start s" "t \<noteq> []"
  then have "ws_len t = 0" using drop_ws_fixed [of ws_len s] by (auto simp: trim_start_def)
  then have "0 < length (take_word t)" using t(2) by (cases t) auto
  moreover have "length t \<le> length s"
    using drop_ws_suffix [of s ws_len] t(1) unfolding trim_start_def by (metis le_add2 length_append)
  ultimately show "(drop (length (take_word t)) t, s) \<in> measure length"
    using t(2) by (cases t) auto
qed simp

declare split_whitespace.simps [simp del]

lemma ws_len_plain: "list_all plain_char w \<Longrightarrow> w \<noteq> [] \<Longrightarrow> ws_len (w @ s) = 0"
proof -
  assume "list_all plain_char w" "w \<noteq> []"
  then obtain c cs where "w = c # cs" "plain_char c" by (cases w) auto
  then show ?thesis by (cases "w @ s" rule: ws_len.cases) (auto simp: plain_not_ws)
qed

lemma take_word_plain: "list_all plain_char w \<Longrightarrow> take_word (w @ s) = w @ take_word s"
proof (induction w)
  case (Cons c w)
  have "ws_len ((c # w) @ s) = 0" using Cons.prems by (intro ws_len_plain) auto
  with Cons show ?case by simp
qed simp

lemma ws_len_space [simp]: "ws_len (CHR '' '' # s) = Suc 0"
  by (cases "CHR '' '' # s" rule: ws_len.cases) (auto simp: ws1_def)

lemma trim_start_space: "trim_start (CHR '' '' # s) = trim_start s"
  by (simp add: trim_start_def drop_ws.simps [of ws_len "CHR '' '' # s"])

lemma trim_start_plain: "list_all plain_char w \<Longrightarrow> w \<noteq> [] \<Longrightarrow> trim_start (w @ s) = w @ s"
  by (simp add: trim_start_def str_simps ws_len_plain)

lemma split_whitespace_space [simp]: "split_whitespace (CHR '' '' # s) = split_whitespace s"
  by (simp add: split_whitespace.simps [of "CHR '' '' # s"] split_whitespace.simps [of s] trim_start_space)

lemma split_whitespace_Nil [simp]: "split_whitespace [] = []"
  by (simp add: split_whitespace.simps trim_start_def str_simps)

lemma split_whitespace_word:
  assumes "list_all plain_char w" "w \<noteq> []"
  shows "split_whitespace (w @ CHR '' '' # s) = w # split_whitespace s"
  using assms
  by (simp add: split_whitespace.simps [of "w @ CHR '' '' # s"] trim_start_plain take_word_plain)

lemma split_whitespace_last:
  assumes "list_all plain_char w" "w \<noteq> []"
  shows "split_whitespace w = [w]"
  using assms trim_start_plain [of w "[]"] take_word_plain [of w "[]"]
  by (simp add: split_whitespace.simps [of w])

text \<open>Words printed each behind a blank are read back.\<close>

lemma split_whitespace_words:
  assumes "\<forall>w \<in> set ws. list_all plain_char w \<and> w \<noteq> []" "list_all plain_char v" "v \<noteq> []"
  shows "split_whitespace (v @ concat (map (\<lambda>w. CHR '' '' # w) ws)) = v # ws"
  using assms
proof (induction ws arbitrary: v)
  case Nil
  then show ?case by (simp add: split_whitespace_last)
next
  case (Cons w ws)
  then show ?case using split_whitespace_word [of v] by simp
qed

section \<open>Splitting and searching\<close>

text \<open>The pieces around the first occurrence of a pattern.\<close>

fun split_once_str :: "string \<Rightarrow> string \<Rightarrow> (string \<times> string) option" where
  "split_once_str [] pat = (if pat = [] then Some ([], []) else None)"
| "split_once_str (c # cs) pat =
     (case strip_prefix pat (c # cs) of
        Some rest \<Rightarrow> Some ([], rest)
      | None \<Rightarrow> map_option (\<lambda>(a, b). (c # a, b)) (split_once_str cs pat))"

text \<open>\<open>str::find\<close>: the index of the first occurrence.\<close>

definition find_str :: "string \<Rightarrow> string \<Rightarrow> nat option" where
  "find_str s pat = map_option (\<lambda>(a, _). length a) (split_once_str s pat)"

lemma split_once_str_Some:
  "split_once_str s pat = Some (a, b) \<Longrightarrow> s = a @ pat @ b"
proof (induction s pat arbitrary: a rule: split_once_str.induct)
  case (2 c cs pat)
  then show ?case by (auto simp: str_simps split: option.splits)
qed (auto split: if_splits)

lemma split_once_str_None: "split_once_str s pat = None \<longleftrightarrow> \<not> contains_str s pat"
proof (induction s pat rule: split_once_str.induct)
  case (2 c cs pat)
  then show ?case
    by (auto simp: strip_prefix_None starts_with_iff split: option.splits) (simp add: str_simps)
qed (auto split: if_splits)

definition split_once_char :: "char \<Rightarrow> string \<Rightarrow> (string \<times> string) option" where
  "split_once_char c s = split_once_str s [c]"

lemma split_once_char_None: "c \<notin> set s \<Longrightarrow> split_once_char c s = None"
  by (auto simp: split_once_char_def split_once_str_None contains_str_iff)

text \<open>\<open>str::replace\<close> with a non-empty pattern: leftmost occurrences, not overlapping.\<close>

function replace_str :: "string \<Rightarrow> string \<Rightarrow> string \<Rightarrow> string" where
  "replace_str s pat new =
     (case split_once_str s pat of
        None \<Rightarrow> s
      | Some (a, b) \<Rightarrow> if pat = [] then s else a @ new @ replace_str b pat new)"
  by pat_completeness auto
termination
proof (relation "measure (\<lambda>(s, _). length s)")
  fix s pat new :: string and x a b
  assume "split_once_str s pat = Some x" "(a, b) = x" "pat \<noteq> []"
  then have "s = a @ pat @ b" by (metis split_once_str_Some)
  with \<open>pat \<noteq> []\<close> show "((b, pat, new), (s, pat, new)) \<in> measure (\<lambda>(s, _). length s)"
    by (cases pat) auto
qed simp

declare replace_str.simps [simp del]

definition strip_suffix :: "string \<Rightarrow> string \<Rightarrow> string option" where
  "strip_suffix suf s = map_option rev (strip_prefix (rev suf) (rev s))"

lemma strip_suffix_Some: "strip_suffix suf s = Some t \<longleftrightarrow> s = t @ suf"
proof -
  have "strip_suffix suf s = Some t \<longleftrightarrow> rev s = rev suf @ rev t"
    by (auto simp: strip_suffix_def str_simps)
  also have "\<dots> \<longleftrightarrow> s = t @ suf" by (metis rev_append rev_rev_ident)
  finally show ?thesis .
qed

text \<open>\<open>[a, b].join("\n")\<close>.\<close>

fun join_lines :: "string list \<Rightarrow> string" where
  "join_lines [] = []"
| "join_lines [l] = l"
| "join_lines (l # ls) = l @ newline # join_lines ls"

definition line_text :: "string \<Rightarrow> bool" where
  "line_text l \<longleftrightarrow> l \<noteq> [] \<and> newline \<notin> set l \<and> carriage_return \<notin> set l"

lemma str_lines_join: "list_all line_text ls \<Longrightarrow> str_lines (join_lines ls) = ls"
  by (induction ls rule: join_lines.induct) (auto simp: line_text_def str_lines_single str_lines_append)

end
