(* ===== verification/Float_Display.thy ===== *)
theory Float_Display
  imports Floats
begin

text \<open>
  \<open>f64::to_string\<close> (\<open>Display\<close>): the shortest decimal digits that read back as the same value,
  the closest such number when there are several, written without an exponent. \<open>parse_f64\<close>
  undoes it on every value of the format.
\<close>

section \<open>Decimal digits of a number\<close>

text \<open>The decimal digits of a non-negative integer.\<close>

function int_decimal :: "int \<Rightarrow> string" where
  "int_decimal n =
     (if n < 10 then [char_of (48 + n)] else int_decimal (n div 10) @ [char_of (48 + n mod 10)])"
  by pat_completeness auto
termination
  by (relation "measure nat") auto

declare int_decimal.simps [simp del]

text \<open>\<open>m * 10 ^ k\<close> for an integer exponent.\<close>

definition scale10 :: "int \<Rightarrow> int \<Rightarrow> rat" where
  "scale10 m k = (if 0 \<le> k then of_int m * 10 ^ nat k else of_int m / 10 ^ nat (- k))"

text \<open>The exponent of the leading decimal digit of a positive rational.\<close>

definition floor_log10 :: "rat \<Rightarrow> int" where
  "floor_log10 q =
     (let (a, b) = quotient_of q;
          k = int (length (int_decimal a)) - int (length (int_decimal b))
      in if scale10 1 k \<le> q then k else k - 1)"

text \<open>
  Of the two numbers with \<open>n\<close> digits around \<open>q\<close> (whose leading digit has the exponent
  \<open>e\<close>), the closest that is read as \<open>q\<close>.
\<close>

definition digits_attempt :: "rat \<Rightarrow> int \<Rightarrow> int \<Rightarrow> (int \<times> int) option" where
  "digits_attempt q e n =
     (let k = e + 1 - n;
          lo = \<lfloor>q / scale10 1 k\<rfloor>;
          near = (if q - scale10 lo k \<le> scale10 (lo + 1) k - q then [lo, lo + 1] else [lo + 1, lo])
      in map_option (\<lambda>m. (m, k)) (find (\<lambda>m. round_f64 (scale10 m k) = Finite q) near))"

text \<open>
  Seventeen digits always suffice for an \<open>f64\<close>; the exact expansion after them makes the
  search total.
\<close>

definition exact_digits :: "rat \<Rightarrow> int \<times> int" where
  "exact_digits q =
     (let (a, b) = quotient_of q; j = nat (nbits b)
      in (a * 10 ^ j div b, - int j))"

fun search_digits :: "rat \<Rightarrow> int \<Rightarrow> int list \<Rightarrow> int \<times> int" where
  "search_digits q e [] = exact_digits q"
| "search_digits q e (n # ns) =
     (case digits_attempt q e n of Some mk \<Rightarrow> mk | None \<Rightarrow> search_digits q e ns)"

definition shortest_digits :: "rat \<Rightarrow> int \<times> int" where
  "shortest_digits q =
     search_digits q (floor_log10 q) [1, 2, 3, 4, 5, 6, 7, 8, 9, 10, 11, 12, 13, 14, 15, 16, 17]"

section \<open>Writing\<close>

text \<open>A trailing zero behind the point is not written (only the digits 10 can end in one).\<close>

definition strip_ten :: "int \<times> int \<Rightarrow> int \<times> int" where
  "strip_ten mk = (case mk of (m, k) \<Rightarrow> if m = 10 \<and> k < 0 then (1, k + 1) else (m, k))"

definition write_decimal :: "int \<times> int \<Rightarrow> string" where
  "write_decimal mk =
     (case mk of (m, k) \<Rightarrow>
        let ds = int_decimal m; n = nat (- k)
        in if 0 \<le> k then ds @ replicate (nat k) (CHR ''0'')
           else if n < length ds
           then take (length ds - n) ds @ ''.'' @ drop (length ds - n) ds
           else ''0.'' @ replicate (n - length ds) (CHR ''0'') @ ds)"

definition write_positive :: "rat \<Rightarrow> string" where
  "write_positive q = write_decimal (strip_ten (shortest_digits q))"

fun f64_to_string :: "f64 \<Rightarrow> string" where
  "f64_to_string NaN = ''NaN''"
| "f64_to_string PosInf = ''inf''"
| "f64_to_string NegInf = ''-inf''"
| "f64_to_string (Finite q) =
     (if q = 0 then ''0'' else if q < 0 then CHR ''-'' # write_positive (- q) else write_positive q)"

section \<open>Reading back\<close>

lemma of_char_digit: "0 \<le> v \<Longrightarrow> v < 10 \<Longrightarrow> (of_char (char_of (48 + v :: int)) :: int) = 48 + v"
  by simp

lemma of_char_digit_nat: "0 \<le> v \<Longrightarrow> v < 10 \<Longrightarrow> byte (char_of (48 + v :: int)) = 48 + nat v"
proof -
  assume "0 \<le> v" "v < 10"
  then have "int (byte (char_of (48 + v))) = 48 + v" by (simp add: of_nat_of_char)
  then show ?thesis using \<open>0 \<le> v\<close> by linarith
qed

lemma digit_dec: "0 \<le> v \<Longrightarrow> v < 10 \<Longrightarrow> is_dec_digit (char_of (48 + v :: int))"
  by (simp add: is_dec_digit_def of_char_digit_nat)

lemma decimal_dec: "0 \<le> n \<Longrightarrow> list_all is_dec_digit (int_decimal n)"
proof (induction n rule: int_decimal.induct)
  case (1 n)
  then show ?case
    by (cases "n < 10") (simp_all add: int_decimal.simps [of n] digit_dec)
qed

lemma int_decimal_nonempty [simp]: "int_decimal n \<noteq> []"
  by (simp add: int_decimal.simps)

lemma dec_value_append:
  "dec_value (s @ [c]) = dec_value s * 10 + (of_char c - 48)"
  by (simp add: dec_value_def)

lemma dec_value_decimal: "0 \<le> n \<Longrightarrow> dec_value (int_decimal n) = n"
proof (induction n rule: int_decimal.induct)
  case (1 n)
  then show ?case
    by (cases "n < 10") (simp_all add: int_decimal.simps [of n] dec_value_append dec_value_def)
qed

lemma dec_value_leading: "dec_value (replicate k (CHR ''0'') @ s) = dec_value s"
proof -
  have "fold (\<lambda>c acc. acc * 10 + (of_char c - 48)) (replicate k (CHR ''0'')) (0 :: int) = 0"
    by (induction k) auto
  then show ?thesis by (simp add: dec_value_def)
qed

lemma dec_value_trailing: "dec_value (s @ replicate k (CHR ''0'')) = dec_value s * 10 ^ k"
proof (induction k)
  case (Suc k)
  have "s @ replicate (Suc k) (CHR ''0'') = (s @ replicate k (CHR ''0'')) @ [CHR ''0'']"
    by (simp add: replicate_append_same)
  then show ?case using Suc dec_value_append [of "s @ replicate k (CHR ''0'')" "CHR ''0''"]
    by (simp del: replicate_Suc)
qed simp

lemma dec_digits_replicate: "list_all is_dec_digit (replicate k (CHR ''0''))"
  by (auto simp: list_all_iff is_dec_digit_def)

lemma dropWhile_all: "list_all P s \<Longrightarrow> dropWhile P s = []"
  by (auto simp: list_all_iff)

lemma takeWhile_all: "list_all P s \<Longrightarrow> takeWhile P s = s"
  by (auto simp: list_all_iff takeWhile_eq_all_conv)

lemma parse_number_integer:
  "list_all is_dec_digit ds \<Longrightarrow> ds \<noteq> [] \<Longrightarrow> parse_number ds = Some (of_int (dec_value ds))"
  by (simp add: parse_number_def dropWhile_all takeWhile_all parse_exponent_def)

lemma point_not_digit: "\<not> is_dec_digit (CHR ''.'')"
  by (simp add: is_dec_digit_def)

lemma parse_number_fraction:
  assumes "list_all is_dec_digit a" "list_all is_dec_digit b" "a \<noteq> []"
  shows "parse_number (a @ ''.'' @ b) = Some (of_int (dec_value (a @ b)) / 10 ^ length b)"
proof -
  have a: "\<And>c. c \<in> set a \<Longrightarrow> is_dec_digit c" using assms(1) by (simp add: list_all_iff)
  have "takeWhile is_dec_digit (a @ ''.'' @ b) = a" "dropWhile is_dec_digit (a @ ''.'' @ b) = ''.'' @ b"
    using a point_not_digit by (simp_all add: takeWhile_append2 dropWhile_append2)
  with assms show ?thesis
    by (auto simp: parse_number_def dropWhile_all takeWhile_all parse_exponent_def Let_def)
qed

lemma parse_write_decimal:
  assumes "0 \<le> m"
  shows "parse_number (write_decimal (m, k)) = Some (scale10 m k)"
proof -
  let ?ds = "int_decimal m" and ?n = "nat (- k)"
  have dec: "list_all is_dec_digit ?ds" and val: "dec_value ?ds = m"
    using assms by (simp_all add: decimal_dec dec_value_decimal)
  consider "0 \<le> k" | "k < 0" "?n < length ?ds" | "k < 0" "\<not> ?n < length ?ds" by linarith
  then show ?thesis
  proof cases
    case 1
    have "parse_number (?ds @ replicate (nat k) (CHR ''0'')) =
        Some (of_int (dec_value (?ds @ replicate (nat k) (CHR ''0''))))"
      by (rule parse_number_integer) (auto simp: dec dec_digits_replicate)
    with 1 show ?thesis
      by (simp add: write_decimal_def dec_value_trailing val scale10_def)
  next
    case 2
    let ?a = "take (length ?ds - ?n) ?ds" and ?b = "drop (length ?ds - ?n) ?ds"
    have "parse_number (?a @ ''.'' @ ?b) = Some (of_int (dec_value (?a @ ?b)) / 10 ^ length ?b)"
      using dec 2
      by (intro parse_number_fraction) (auto simp: list_all_iff dest: in_set_takeD in_set_dropD)
    with 2 show ?thesis
      by (simp add: write_decimal_def Let_def val scale10_def)
  next
    case 3
    let ?b = "replicate (?n - length ?ds) (CHR ''0'') @ ?ds"
    have "dec_value (''0'' @ ?b) = m"
      using dec_value_leading [of 1] by (simp add: dec_value_leading val)
    moreover have "parse_number (''0'' @ ''.'' @ ?b) = Some (of_int (dec_value (''0'' @ ?b)) / 10 ^ length ?b)"
      by (rule parse_number_fraction) (auto simp: dec dec_digits_replicate is_dec_digit_def)
    ultimately show ?thesis
      using 3 by (simp add: write_decimal_def Let_def scale10_def)
  qed
qed

lemma scale10_strip_ten: "strip_ten (m, k) = (m', k') \<Longrightarrow> scale10 m' k' = scale10 m k"
proof -
  assume s: "strip_ten (m, k) = (m', k')"
  show ?thesis
  proof (cases "m = 10 \<and> k < 0")
    case True
    then have "nat (- k) = Suc (nat (- (k + 1)))" by linarith
    with s True show ?thesis by (auto simp: strip_ten_def scale10_def)
  next
    case False
    with s show ?thesis by (auto simp: strip_ten_def)
  qed
qed

definition f64_value :: "rat \<Rightarrow> bool" where
  "f64_value q \<longleftrightarrow> q = 0 \<or> round_f64 \<bar>q\<bar> = Finite \<bar>q\<bar>"

text \<open>A value of the format is an integer over a power of two.\<close>

lemma nbits_le_pow: "n < 2 ^ nat (nbits n)"
proof (induction n rule: nbits.induct)
  case (1 n)
  show ?case
  proof (cases "n \<le> 0")
    case True
    then show ?thesis by (simp add: nbits.simps)
  next
    case False
    with 1 have IH: "n div 2 < 2 ^ nat (nbits (n div 2))" by simp
    have "0 \<le> nbits m" for m by (induction m rule: nbits.induct) (simp add: nbits.simps)
    then have "nat (nbits n) = Suc (nat (nbits (n div 2)))"
      using False by (simp add: nbits.simps [of n] nat_add_distrib)
    with IH show ?thesis by simp
  qed
qed

lemma dvd_power_two: "0 < b \<Longrightarrow> b dvd 2 ^ n \<Longrightarrow> \<exists>i. b = (2 :: int) ^ i"
proof (induction n arbitrary: b)
  case 0
  then show ?case by (auto intro: exI [of _ 0] simp: zdvd1_eq)
next
  case (Suc n)
  show ?case
  proof (cases "even b")
    case True
    then obtain c where c: "b = 2 * c" by (auto elim: evenE)
    with Suc.prems have "0 < c" "c dvd 2 ^ n" by simp_all
    with Suc.IH obtain i where "c = 2 ^ i" by blast
    with c show ?thesis by (auto intro: exI [of _ "Suc i"])
  next
    case False
    then have "coprime b 2" by simp
    then have "b dvd 2 ^ n" using Suc.prems(2) by (simp add: coprime_dvd_mult_right_iff)
    with Suc show ?thesis by blast
  qed
qed

lemma quotient_dyadic:
  assumes "(of_int c :: rat) * pow2 e = q" "quotient_of q = (a, b)"
  shows "\<exists>i. b = 2 ^ i"
proof -
  have b: "0 < b" and q: "q = of_int a / of_int b" and cop: "coprime a b"
    using assms(2) by (auto simp: quotient_of_denom_pos quotient_of_div quotient_of_coprime)
  have "of_int c * pow2 e * 2 ^ nat (- e) = (of_int c * 2 ^ nat e :: rat)"
    by (auto simp: pow2_def)
  moreover have "of_int c * pow2 e * of_int b = of_int a" using assms(1) q b by simp
  ultimately have "(of_int (c * 2 ^ nat e) :: rat) * of_int b = of_int a * of_int (2 ^ nat (- e))"
    by (metis mult.assoc mult.commute of_int_mult of_int_numeral of_int_power)
  then have "(of_int (c * 2 ^ nat e * b) :: rat) = of_int (a * 2 ^ nat (- e))"
    by (simp only: of_int_mult)
  then have "c * 2 ^ nat e * b = a * 2 ^ nat (- e)" by (simp only: of_int_eq_iff)
  then have "b dvd a * 2 ^ nat (- e)" by (metis dvd_triv_right)
  then have "b dvd 2 ^ nat (- e)" using cop by (simp add: coprime_commute coprime_dvd_mult_right_iff)
  with b show ?thesis by (rule dvd_power_two)
qed

lemma round_positive_dyadic:
  "round_positive p l u q = Finite v \<Longrightarrow> \<exists>c e. v = of_int c * pow2 e"
  by (auto simp: round_positive_def Let_def split: if_splits)

lemma exact_digits_value:
  assumes "round_f64 q = Finite q" "0 < q" "exact_digits q = (m, k)"
  shows "scale10 m k = q" "0 \<le> m"
proof -
  obtain a b where ab: "quotient_of q = (a, b)" by fastforce
  have b: "0 < b" and q: "q = of_int a / of_int b"
    using ab by (auto simp: quotient_of_denom_pos quotient_of_div)
  with assms(2) have "0 < a" by (auto simp: zero_less_divide_iff)
  obtain c e where "of_int c * pow2 e = q"
    using assms(1,2) round_positive_dyadic by (fastforce simp: round_f64_def)
  with ab obtain i where i: "b = 2 ^ i" using quotient_dyadic by blast
  let ?j = "nat (nbits b)"
  have "(2 :: int) ^ i < 2 ^ ?j" using nbits_le_pow [of b] i by simp
  then have "i \<le> ?j" by (simp add: power_strict_increasing_iff)
  then have "b dvd 10 ^ ?j" using i
    by (metis dvd_power_same dvd_trans le_imp_power_dvd numeral_Bit0_eq_double dvd_triv_left
        mult_numeral_1_right one_add_one mult.commute dvd_def even_numeral)
  then obtain d where d: "(10 :: int) ^ ?j = b * d" by (auto elim: dvdE)
  with b have "0 < d" by (metis zero_less_mult_pos zero_less_numeral zero_less_power)
  have "a * 10 ^ ?j div b = a * d" using d b by (simp add: mult.left_commute)
  with assms(3) ab have mk: "m = a * d" "k = - int ?j"
    by (auto simp: exact_digits_def Let_def)
  then have "scale10 m k = of_int (a * d) / 10 ^ ?j" by (simp add: scale10_def)
  also have "(10 :: rat) ^ ?j = of_int (b * d)" by (simp flip: d)
  finally show "scale10 m k = q" using q \<open>0 < d\<close> by simp
  show "0 \<le> m" using mk \<open>0 < a\<close> \<open>0 < d\<close> by simp
qed

lemma scale10_one_pos: "0 < scale10 1 k"
  by (simp add: scale10_def)

lemma digits_attempt_reads:
  assumes "0 < q" "digits_attempt q e n = Some (m, k)"
  shows "round_f64 (scale10 m k) = Finite q" "0 \<le> m"
proof -
  show "round_f64 (scale10 m k) = Finite q"
    using assms(2) by (auto simp: digits_attempt_def Let_def dest: find_member split: if_splits)
  have "0 \<le> \<lfloor>q / scale10 1 k\<rfloor>"
    using assms(1) scale10_one_pos [of k] by (simp add: divide_nonneg_pos less_imp_le)
  with assms(2) show "0 \<le> m"
    by (auto simp: digits_attempt_def Let_def dest!: find_member split: if_splits)
qed

lemma shortest_digits_reads:
  assumes "round_f64 q = Finite q" "0 < q" "shortest_digits q = (m, k)"
  shows "round_f64 (scale10 m k) = Finite q \<and> 0 \<le> m"
proof -
  have "search_digits q e ns = (m, k) \<Longrightarrow> round_f64 (scale10 m k) = Finite q \<and> 0 \<le> m" for e ns
  proof (induction ns)
    case Nil
    then show ?case using exact_digits_value [OF assms(1,2)] assms(1) by simp
  next
    case (Cons n ns)
    then show ?case using digits_attempt_reads [OF assms(2)] by (auto split: option.splits)
  qed
  then show ?thesis using assms(3) unfolding shortest_digits_def by blast
qed

lemma strip_ten_nonneg: "strip_ten (m, k) = (m', k') \<Longrightarrow> 0 \<le> m \<Longrightarrow> 0 \<le> m'"
  by (auto simp: strip_ten_def split: if_splits)

lemma write_decimal_head:
  assumes "0 \<le> m"
  obtains c cs where "write_decimal (m, k) = c # cs" "is_dec_digit c"
proof -
  obtain c cs where c: "int_decimal m = c # cs" "is_dec_digit c"
    using decimal_dec [OF assms] int_decimal_nonempty [of m] by (cases "int_decimal m") auto
  have "\<exists>c cs. write_decimal (m, k) = c # cs \<and> is_dec_digit c"
  proof (cases "0 \<le> k \<or> \<not> nat (- k) < length (int_decimal m)")
    case True
    then show ?thesis using c by (auto simp: write_decimal_def Let_def is_dec_digit_def)
  next
    case False
    then show ?thesis using c
      by (cases "length (int_decimal m) - nat (- k)") (auto simp: write_decimal_def Let_def)
  qed
  then show thesis using that by auto
qed

text \<open>What is written for a value: digits and at most one point, a digit first, and it is read back.\<close>

lemma parse_write_positive:
  assumes "round_f64 q = Finite q" "0 < q"
  obtains c cs where "write_positive q = c # cs" "is_dec_digit c"
    "map_option round_f64 (parse_number (c # cs)) = Some (Finite q)"
proof -
  obtain m k where mk: "shortest_digits q = (m, k)" by fastforce
  obtain m' k' where mk': "strip_ten (m, k) = (m', k')" by fastforce
  have r: "round_f64 (scale10 m' k') = Finite q" "0 \<le> m'"
    using shortest_digits_reads [OF assms mk] scale10_strip_ten [OF mk'] strip_ten_nonneg [OF mk'] by auto
  have w: "write_positive q = write_decimal (m', k')" using mk mk' by (simp add: write_positive_def)
  obtain c cs where "write_decimal (m', k') = c # cs" "is_dec_digit c"
    using r(2) by (rule write_decimal_head)
  then show thesis using that w r parse_write_decimal [OF r(2), of k'] by simp
qed

lemma parse_float_digit:
  assumes "is_dec_digit c"
  shows "parse_float rnd (c # cs) = map_option rnd (parse_number (c # cs))"
    "parse_float rnd (CHR ''-'' # c # cs) = map_option (\<lambda>x. float_neg (rnd x)) (parse_number (c # cs))"
proof -
  have d: "c \<noteq> CHR ''-''" "c \<noteq> CHR ''+''" and lower: "ascii_lower_char c = c" and
    l: "c \<noteq> CHR ''i''" "c \<noteq> CHR ''n''"
    using assms by (auto simp: is_dec_digit_def ascii_lower_char_def)
  show "parse_float rnd (c # cs) = map_option rnd (parse_number (c # cs))"
    using d lower l by (simp add: parse_float_def split_sign_def option.map_ident)
  show "parse_float rnd (CHR ''-'' # c # cs) = map_option (\<lambda>x. float_neg (rnd x)) (parse_number (c # cs))"
    using lower l by (simp add: parse_float_def split_sign_def option.map_comp comp_def)
qed

theorem f64_display_roundtrip:
  assumes "f64_value q"
  shows "parse_f64 (f64_to_string (Finite q)) = Some (Finite q)"
proof -
  consider "q = 0" | "0 < q" | "q < 0" by linarith
  then show ?thesis
  proof cases
    case 1
    have "is_dec_digit (CHR ''0'')" by (simp add: is_dec_digit_def)
    then show ?thesis using 1 parse_number_integer [of "''0''"]
      by (simp add: parse_f64_def parse_float_digit round_f64_def dec_value_def)
  next
    case 2
    with assms have r: "round_f64 q = Finite q" by (simp add: f64_value_def)
    with 2 obtain c cs where "write_positive q = c # cs" "is_dec_digit c"
        "map_option round_f64 (parse_number (c # cs)) = Some (Finite q)"
      by (auto elim: parse_write_positive)
    with 2 show ?thesis by (simp add: parse_f64_def parse_float_digit)
  next
    case 3
    with assms have r: "round_f64 (- q) = Finite (- q)" "0 < - q" by (simp_all add: f64_value_def)
    then obtain c cs where "write_positive (- q) = c # cs" "is_dec_digit c"
        "map_option round_f64 (parse_number (c # cs)) = Some (Finite (- q))"
      by (auto elim: parse_write_positive)
    with 3 show ?thesis by (auto simp: parse_f64_def parse_float_digit)
  qed
qed

text \<open>What is written is one word of digits, a point and a sign.\<close>

lemma digit_plain: "is_dec_digit c \<Longrightarrow> plain_char c"
  by (simp add: is_dec_digit_def plain_char_def)

lemma digits_plain: "list_all is_dec_digit s \<Longrightarrow> list_all plain_char s"
  by (auto simp: list_all_iff digit_plain)

definition number_char :: "char \<Rightarrow> bool" where
  "number_char c \<longleftrightarrow> is_dec_digit c \<or> c = CHR ''.'' \<or> c = CHR ''-''"

lemma number_char_plain: "number_char c \<Longrightarrow> plain_char c"
  by (auto simp: number_char_def is_dec_digit_def plain_char_def)

lemma write_decimal_chars: "0 \<le> m \<Longrightarrow> list_all number_char (write_decimal (m, k))"
  using decimal_dec [of m]
  by (auto simp: write_decimal_def Let_def list_all_iff number_char_def is_dec_digit_def
      dest: in_set_takeD in_set_dropD)

lemma f64_to_string_chars:
  assumes "f64_value q"
  shows "list_all number_char (f64_to_string (Finite q))" "f64_to_string (Finite q) \<noteq> []"
proof -
  have pos: "list_all number_char (write_positive r)" "write_positive r \<noteq> []"
    if "round_f64 r = Finite r" "0 < r" for r
  proof -
    obtain m k where mk: "shortest_digits r = (m, k)" by fastforce
    obtain m' k' where mk': "strip_ten (m, k) = (m', k')" by fastforce
    have m': "0 \<le> m'"
      using shortest_digits_reads [OF that mk] strip_ten_nonneg [OF mk'] by auto
    then obtain c cs where "write_decimal (m', k') = c # cs" by (rule write_decimal_head)
    with m' mk mk' write_decimal_chars [OF m', of k']
    show "list_all number_char (write_positive r)" "write_positive r \<noteq> []"
      by (simp_all add: write_positive_def)
  qed
  show "list_all number_char (f64_to_string (Finite q))"
    using assms pos [of q] pos [of "- q"] by (auto simp: f64_value_def number_char_def is_dec_digit_def)
  show "f64_to_string (Finite q) \<noteq> []"
    using assms pos [of q] by (auto simp: f64_value_def)
qed

end
