(* ===== verification/Agent_Commands.thy ===== *)
theory Agent_Commands
  imports Printer_Operation Rust_Text Float_Display
begin

text \<open>
  The agent's commands to a printer: \<open>crates/pandar-agent/src/machine/operations/mqtt_command.rs\<close>
  and \<open>axis.rs\<close> choose the MQTT command of an operation, \<open>machine/mqtt/commands.rs\<close> with its
  submodules writes its JSON payload under a sequence number, \<open>machine/mqtt/signing.rs\<close> signs
  project files. A payload is the \<open>serde_json\<close> value of the struct the source serialises: an
  object with the struct's field names in key order. The sequence counter (an atomic shared by
  every command) is passed explicitly; its compare-and-swap loop is modelled with its
  interleavings at the end.

  Parameters (the record \<open>agent_codec\<close>): the serialisation of H2C requests and of the project-file
  payload, and the slicer key (reading it, signing with it and encoding the signature).
\<close>

section \<open>Errors\<close>

text \<open>\<open>anyhow\<close> errors by the place that raises them; \<open>Panic\<close> is \<open>unreachable!\<close>.\<close>

datatype agent_error =
    InvalidOperation printer_operation_validation_error
  | InvalidPrintSpeed u8
  | InvalidModernHome bambu_device_feature
  | InvalidModernMove
  | InvalidMoveFeature bambu_device_feature
  | MissingFeature bambu_device_features bambu_device_feature
  | FeatureUnknown bambu_device_feature
  | Panic

section \<open>Commands\<close>

datatype print_speed = PrintSpeed (as_u8: u8)

definition PrintSpeed_new :: "u8 \<Rightarrow> (print_speed, agent_error) result" where
  "PrintSpeed_new mode =
     (if \<not> (1 \<le> mode \<and> mode \<le> 4) then Err (InvalidPrintSpeed mode) else Ok (PrintSpeed mode))"

record set_nozzle_temperature_command =
  sn_extruder_id :: u32
  sn_target_temp :: u16

record set_fan_speed_command =
  sf_fan_index :: u8
  sf_speed_percent :: u8

record chamber_light_command =
  cl_node :: string
  cl_on :: bool

record ams_slot_command =
  as_ams_id :: u32
  as_slot_id :: u32

record ams_filament_command =
  af_ams_id :: u32
  af_slot_id :: u32
  af_target :: u32
  af_extruder_id :: "u32 option"

record ams_drying_command =
  ad_ams_id :: u32
  ad_temperature_celsius :: u16
  ad_duration_hours :: u16
  ad_filament :: string
  ad_rotate_tray :: bool

record handle_print_error_command =
  he_error_action :: print_error_action
  he_print_error :: u32
  he_printer_job_id :: string
  he_sequence_id :: u64

datatype print_submission_source = Unspecified | Web | Studio

record project_file_ams_mapping2 =
  pm_ams_id :: i32
  pm_slot_id :: i32

record project_file_ams_mapping_info =
  pi_ams :: i32
  pi_target_color :: string
  pi_filament_id :: string
  pi_filament_type :: string
  pi_nozzle_id :: "i32 option"
  pi_source_color :: "string option"

record project_file_command =
  pf_printer_model :: "string option"
  pf_filename :: string
  pf_url :: "string option"
  pf_md5 :: "string option"
  pf_plate_id :: u32
  pf_studio_submission_id :: u32
  pf_submission_source :: print_submission_source
  pf_task_name :: "string option"
  pf_origin_profile_id :: i64
  pf_use_ams :: bool
  pf_bed_leveling :: bool
  pf_auto_bed_leveling :: print_calibration_mode
  pf_flow_cali :: bool
  pf_vibration_cali :: bool
  pf_layer_inspect :: bool
  pf_auto_flow_cali :: print_calibration_mode
  pf_auto_offset_cali :: print_calibration_mode
  pf_timelapse :: bool
  pf_timelapse_use_internal :: bool
  pf_bed_type :: string
  pf_extruder_cali_manual_mode :: "i32 option"
  pf_nozzle_mapping :: "i32 list"
  pf_ams_mapping :: "i32 list"
  pf_ams_mapping2 :: "project_file_ams_mapping2 list"
  pf_ams_mapping_info :: "project_file_ams_mapping_info list"

datatype bambu_mqtt_command =
    GetVersion
  | RequestPushAll
  | PausePrint
  | ResumePrint
  | StopPrint
  | MqttSetChamberLight bool
  | SetChamberLightNode chamber_light_command
  | MqttSetPrintSpeed print_speed
  | MqttSetFanSpeed set_fan_speed_command
  | MqttSelectExtruder u32
  | SetNozzleTemperature set_nozzle_temperature_command
  | BackToCenter
  | XyzControl printer_axis i8 u8
  | MqttGcodeLine string
  | MqttAmsRereadRfid ams_slot_command
  | MqttAmsLoadFilament ams_filament_command
  | MqttAmsUnloadFilament ams_filament_command
  | MqttAmsStartDrying ams_drying_command
  | MqttAmsStopDrying u32
  | MqttHandlePrintError handle_print_error_command
  | MqttGetAutoNozzleMapping h2c_request
  | MqttNozzleHolderCtrl u32
  | MqttNozzleInfoConfirm u32
  | MqttHolderNozzleRefresh u32
  | RawJson json
  | ProjectFile project_file_command

section \<open>From an operation to its command\<close>

subsection \<open>Axes\<close>

primrec axis_name :: "printer_axis \<Rightarrow> string" where
  "axis_name X = ''X''"
| "axis_name Y = ''Y''"
| "axis_name Z = ''Z''"

definition format_gcode_number :: "f64 \<Rightarrow> string" where
  "format_gcode_number v = f64_to_string v"

definition home_gcode_line :: "printer_axis list \<Rightarrow> string" where
  "home_gcode_line ax = ''G28'' @ concat (map (\<lambda>a. '' '' @ axis_name a) ax)"

definition move_word :: "string \<Rightarrow> f64 option \<Rightarrow> string" where
  "move_word letter v = (case v of None \<Rightarrow> [] | Some x \<Rightarrow> '' '' @ letter @ format_gcode_number x)"

definition move_gcode_line :: "f64 option \<Rightarrow> f64 option \<Rightarrow> f64 option \<Rightarrow> f64 option \<Rightarrow> string" where
  "move_gcode_line x_mm y_mm z_mm feedrate =
     ''G1'' @ move_word ''X'' x_mm @ move_word ''Y'' y_mm @ move_word ''Z'' z_mm @ move_word ''F'' feedrate"

definition legacy_move_lines ::
  "f64 option \<Rightarrow> f64 option \<Rightarrow> f64 option \<Rightarrow> f64 option \<Rightarrow> string list" where
  "legacy_move_lines x_mm y_mm z_mm feedrate =
     [''M211 S'', ''M211 X1 Y1 Z1'', ''M1002 push_ref_mode'', ''G91'',
      move_gcode_line x_mm y_mm z_mm feedrate,
      ''M1002 pop_ref_mode'', ''M211 R'']"

definition require_observed_feature ::
  "bambu_device_features option \<Rightarrow> bambu_device_feature \<Rightarrow> (unit, agent_error) result" where
  "require_observed_feature observed feature =
     (case observed of
        Some features \<Rightarrow>
          if features_contains features feature then Ok () else Err (MissingFeature features feature)
      | None \<Rightarrow> Err (FeatureUnknown feature))"

definition home_command ::
  "printer_axis list \<Rightarrow> bambu_device_feature option \<Rightarrow> bambu_device_features option \<Rightarrow>
   (bambu_mqtt_command, agent_error) result" where
  "home_command ax required_feature observed =
     (case required_feature of
        None \<Rightarrow> Ok (MqttGcodeLine (home_gcode_line ax))
      | Some feature \<Rightarrow>
          if feature = MqttHoming \<and> ax = []
          then and_then (require_observed_feature observed MqttHoming) (\<lambda>_. Ok BackToCenter)
          else Err (InvalidModernHome feature))"

definition modern_axis_move ::
  "f64 option \<Rightarrow> f64 option \<Rightarrow> f64 option \<Rightarrow> f64 option \<Rightarrow> (printer_axis \<times> f64, agent_error) result" where
  "modern_axis_move x_mm y_mm z_mm feedrate =
     (let moves = List.map_filter (\<lambda>(a, d). map_option (Pair a) d) [(X, x_mm), (Y, y_mm), (Z, z_mm)]
      in case moves of
           [(a, d)] \<Rightarrow>
             if feedrate \<noteq> None \<or>
                \<not> (float_eq (float_abs d) (Finite 1) \<or> float_eq (float_abs d) (Finite 10))
             then Err InvalidModernMove else Ok (a, d)
         | _ \<Rightarrow> Err InvalidModernMove)"

text \<open>The sign bit; of NaN only the first alternative can be observed here.\<close>

fun is_sign_positive :: "f64 \<Rightarrow> bool" where
  "is_sign_positive (Finite q) = (0 \<le> q)"
| "is_sign_positive NegInf = False"
| "is_sign_positive _ = True"

definition move_axes_command ::
  "f64 option \<Rightarrow> f64 option \<Rightarrow> f64 option \<Rightarrow> f64 option \<Rightarrow> bambu_device_feature option \<Rightarrow>
   bambu_device_features option \<Rightarrow> (bambu_mqtt_command, agent_error) result" where
  "move_axes_command x_mm y_mm z_mm feedrate required_feature observed =
     (case required_feature of
        None \<Rightarrow> Ok (MqttGcodeLine (join_lines (legacy_move_lines x_mm y_mm z_mm feedrate)))
      | Some MqttAxisControl \<Rightarrow>
          and_then (modern_axis_move x_mm y_mm z_mm feedrate) (\<lambda>(a, delta).
          and_then (require_observed_feature observed MqttAxisControl) (\<lambda>_.
          Ok (XyzControl a (if is_sign_positive delta then 1 else - 1)
                (if float_eq (float_abs delta) (Finite 1) then 0 else 1))))
      | Some feature \<Rightarrow> Err (InvalidMoveFeature feature))"

text \<open>The loop writes the movement of each axis into a triple; a later one wins.\<close>

fun movement_axes_from ::
  "f64 option \<times> f64 option \<times> f64 option \<Rightarrow> printer_axis_movement list \<Rightarrow>
   f64 option \<times> f64 option \<times> f64 option" where
  "movement_axes_from axs [] = axs"
| "movement_axes_from (x, y, z) (m # ms) =
     movement_axes_from
       (case axis m of
          X \<Rightarrow> (Some (delta_mm m), y, z)
        | Y \<Rightarrow> (x, Some (delta_mm m), z)
        | Z \<Rightarrow> (x, y, Some (delta_mm m))) ms"

definition movement_axes ::
  "printer_axis_movement list \<Rightarrow> f64 option \<times> f64 option \<times> f64 option" where
  "movement_axes ms = movement_axes_from (None, None, None) ms"

subsection \<open>Every operation\<close>

definition ams_command_ams_id :: "u32 \<Rightarrow> string option \<Rightarrow> u32" where
  "ams_command_ams_id ams_id external_id = (if external_id \<noteq> None then 255 else ams_id)"

definition ams_command_slot_id :: "u32 \<Rightarrow> string option \<Rightarrow> u32" where
  "ams_command_slot_id slot_id external_id = (if external_id = Some ''254'' then 254 else slot_id)"

definition ams_filament_command_for ::
  "u32 \<Rightarrow> u32 \<Rightarrow> u32 option \<Rightarrow> string option \<Rightarrow> u32 option \<Rightarrow> ams_filament_command" where
  "ams_filament_command_for ams_id slot_id tray ext extruder_id =
     \<lparr>af_ams_id = ams_command_ams_id ams_id ext,
      af_slot_id = ams_command_slot_id slot_id ext,
      af_target = (case tray of Some t \<Rightarrow> t | None \<Rightarrow> slot_id),
      af_extruder_id = extruder_id\<rparr>"

text \<open>\<open>f64::from\<close> of a \<open>u32\<close> is exact.\<close>

definition f64_of_u32 :: "u32 \<Rightarrow> f64" where
  "f64_of_u32 v = Finite (of_int (uint v))"

definition text_of_word :: "'a::len word \<Rightarrow> string" where
  "text_of_word v = decimal (unat v)"

definition fan_pwm :: "u8 \<Rightarrow> u16" where
  "fan_pwm percent = (ucast percent * 255 + 50) div 100"

definition mqtt_command_for_printer_operation_with_features ::
  "printer_operation \<Rightarrow> bambu_device_features option \<Rightarrow> (bambu_mqtt_command, agent_error) result" where
  "mqtt_command_for_printer_operation_with_features op observed =
     and_then (map_err InvalidOperation (validate op)) (\<lambda>_.
     case op of
       printer_operation.Pause \<Rightarrow> Ok PausePrint
     | printer_operation.Resume \<Rightarrow> Ok ResumePrint
     | printer_operation.Stop \<Rightarrow> Ok StopPrint
     | HandlePrintError action err job sequence \<Rightarrow>
         Ok (MqttHandlePrintError
               \<lparr>he_error_action = action, he_print_error = err, he_printer_job_id = job,
                he_sequence_id = sequence\<rparr>)
     | ToggleLight \<Rightarrow> Err Panic
     | SetChamberLight on \<Rightarrow> Err Panic
     | SetPrintSpeed mode \<Rightarrow> and_then (PrintSpeed_new mode) (\<lambda>speed. Ok (MqttSetPrintSpeed speed))
     | SetFanSpeed fan percent duct \<Rightarrow>
         if duct then Ok (MqttSetFanSpeed \<lparr>sf_fan_index = fan, sf_speed_percent = percent\<rparr>)
         else Ok (MqttGcodeLine (''M106 P'' @ text_of_word fan @ '' S'' @ text_of_word (fan_pwm percent)))
     | GcodeLine p \<Rightarrow> Ok (MqttGcodeLine p)
     | GetAutoNozzleMapping request \<Rightarrow> Ok (MqttGetAutoNozzleMapping request)
     | NozzleHolderCtrl action \<Rightarrow> Ok (MqttNozzleHolderCtrl action)
     | NozzleInfoConfirm i \<Rightarrow> Ok (MqttNozzleInfoConfirm i)
     | HolderNozzleRefresh i \<Rightarrow> Ok (MqttHolderNozzleRefresh i)
     | SelectExtruder extruder \<Rightarrow> Ok (MqttSelectExtruder extruder)
     | Home ax features \<Rightarrow>
         home_command ax (case features of [] \<Rightarrow> None | f # _ \<Rightarrow> Some (bambu_feature f)) observed
     | MoveAxes ms feedrate features \<Rightarrow>
         (case movement_axes ms of (x_mm, y_mm, z_mm) \<Rightarrow>
            move_axes_command x_mm y_mm z_mm (map_option f64_of_u32 feedrate)
              (case features of [] \<Rightarrow> None | f # _ \<Rightarrow> Some (bambu_feature f)) observed)
     | SetHotendTemperature t waits extruder \<Rightarrow>
         (case extruder of
            Some e \<Rightarrow> Ok (SetNozzleTemperature \<lparr>sn_extruder_id = e, sn_target_temp = t\<rparr>)
          | None \<Rightarrow> Ok (MqttGcodeLine ((if waits then ''M109'' else ''M104'') @ '' S'' @ text_of_word t)))
     | SetBedTemperature t waits \<Rightarrow>
         Ok (MqttGcodeLine ((if waits then ''M190'' else ''M140'') @ '' S'' @ text_of_word t))
     | SetChamberTemperature t waits \<Rightarrow>
         Ok (MqttGcodeLine
               (if waits then join_lines [''M106 P2 S255'', ''M191 S'' @ text_of_word t, ''M106 P2 S0'']
                else ''M141 S'' @ text_of_word t))
     | AmsRereadRfid ams slot \<Rightarrow> Ok (MqttAmsRereadRfid \<lparr>as_ams_id = ams, as_slot_id = slot\<rparr>)
     | AmsLoadFilament ams slot tray ext extruder \<Rightarrow>
         Ok (MqttAmsLoadFilament (ams_filament_command_for ams slot tray ext extruder))
     | AmsUnloadFilament ams slot tray ext extruder \<Rightarrow>
         Ok (MqttAmsUnloadFilament (ams_filament_command_for ams slot tray ext extruder))
     | AmsStartDrying ams t hours filament rotate_tray \<Rightarrow>
         Ok (MqttAmsStartDrying
               \<lparr>ad_ams_id = ams, ad_temperature_celsius = t, ad_duration_hours = hours,
                ad_filament = filament, ad_rotate_tray = rotate_tray\<rparr>)
     | AmsStopDrying ams \<Rightarrow> Ok (MqttAmsStopDrying ams))"

definition mqtt_command_for_printer_operation ::
  "printer_operation \<Rightarrow> (bambu_mqtt_command, agent_error) result" where
  "mqtt_command_for_printer_operation op = mqtt_command_for_printer_operation_with_features op None"

section \<open>Sequence numbers\<close>

abbreviation STUDIO_START_SEQUENCE_ID :: u32 where "STUDIO_START_SEQUENCE_ID \<equiv> 20000"
abbreviation STUDIO_END_SEQUENCE_ID :: u32 where "STUDIO_END_SEQUENCE_ID \<equiv> 30000"

text \<open>What one pass of the loop computes from the loaded value.\<close>

definition sequence_id_of :: "u32 \<Rightarrow> u32" where
  "sequence_id_of current =
     (if STUDIO_START_SEQUENCE_ID \<le> current \<and> current < STUDIO_END_SEQUENCE_ID
      then current else STUDIO_START_SEQUENCE_ID)"

definition sequence_next_of :: "u32 \<Rightarrow> u32" where
  "sequence_next_of current =
     (let i = sequence_id_of current
      in if STUDIO_END_SEQUENCE_ID \<le> i + 1 then STUDIO_START_SEQUENCE_ID
         else i + 1)"

text \<open>A call that is not interrupted: its first compare-and-swap succeeds.\<close>

definition next_studio_sequence_id :: "u32 \<Rightarrow> string \<times> u32" where
  "next_studio_sequence_id counter = (text_of_word (sequence_id_of counter), sequence_next_of counter)"

section \<open>Payloads\<close>

record bambu_mqtt_command_payload =
  mp_payload :: json
  mp_sequence_id :: "string option"

record project_file_payload_print =
  pp_sequence_id :: string
  pp_param :: string
  pp_project_id :: string
  pp_profile_id :: string
  pp_task_id :: string
  pp_subtask_id :: string
  pp_subtask_name :: string
  pp_url :: string
  pp_file :: string
  pp_md5 :: string
  pp_bed_type :: string
  pp_bed_leveling :: bool
  pp_flow_cali :: bool
  pp_vibration_cali :: bool
  pp_layer_inspect :: bool
  pp_timelapse :: bool
  pp_use_ams :: bool
  pp_ams_mapping :: "i64 list"
  pp_ams_mapping2 :: "project_file_ams_mapping2 list"
  pp_nozzle_mapping :: "i32 list option"
  pp_ams_mapping_info :: "project_file_ams_mapping_info list option"
  pp_auto_bed_leveling :: u8
  pp_nozzle_offset_cali :: u8
  pp_cfg :: string
  pp_extrude_cali_flag :: u8
  pp_extrude_cali_manual_mode :: "i32 option"

record agent_codec =
  ac_h2c_value :: "h2c_request \<Rightarrow> json"
  ac_project_value :: "project_file_payload_print \<Rightarrow> json"
  ac_project_len :: "project_file_payload_print \<Rightarrow> nat"
  ac_slicer_key :: "(project_file_payload_print \<Rightarrow> string option) option"
  ac_slicer_cert_id :: "string option"

definition with_sequence :: "json \<Rightarrow> string \<Rightarrow> bambu_mqtt_command_payload" where
  "with_sequence payload sid = \<lparr>mp_payload = payload, mp_sequence_id = Some sid\<rparr>"

definition without_sequence :: "json \<Rightarrow> bambu_mqtt_command_payload" where
  "without_sequence payload = \<lparr>mp_payload = payload, mp_sequence_id = None\<rparr>"

text \<open>Integers as JSON numbers: unsigned ones, and signed ones by their sign.\<close>

definition json_uint :: "'a::len word \<Rightarrow> json" where
  "json_uint v = JNumber (PosInt (ucast v))"

definition json_int :: "int \<Rightarrow> json" where
  "json_int v = JNumber (if 0 \<le> v then PosInt (word_of_int v) else NegInt v)"

definition in_section :: "string \<Rightarrow> (string \<times> json) list \<Rightarrow> json" where
  "in_section sect fs = JObject [(sect, JObject fs)]"

text \<open>A payload writer draws a sequence number and puts it in the object and beside it.\<close>

definition sequenced :: "(string \<Rightarrow> json) \<Rightarrow> u32 \<Rightarrow> bambu_mqtt_command_payload \<times> u32" where
  "sequenced build counter =
     (case next_studio_sequence_id counter of
        (sid, counter') \<Rightarrow> (with_sequence (build sid) sid, counter'))"

definition info_payload :: "string \<Rightarrow> u32 \<Rightarrow> bambu_mqtt_command_payload \<times> u32" where
  "info_payload command = sequenced (\<lambda>sid.
     in_section ''info'' [(''command'', JString command), (''sequence_id'', JString sid)])"

definition pushing_payload :: "u32 \<Rightarrow> bambu_mqtt_command_payload \<times> u32" where
  "pushing_payload = sequenced (\<lambda>sid.
     in_section ''pushing''
       [(''command'', JString ''pushall''), (''push_target'', json_uint (1 :: u8)),
        (''sequence_id'', JString sid), (''version'', json_uint (1 :: u8))])"

definition basic_print_payload :: "string \<Rightarrow> u32 \<Rightarrow> bambu_mqtt_command_payload \<times> u32" where
  "basic_print_payload command = sequenced (\<lambda>sid.
     in_section ''print''
       [(''command'', JString command), (''param'', JString []), (''sequence_id'', JString sid)])"

definition print_speed_payload :: "print_speed \<Rightarrow> u32 \<Rightarrow> bambu_mqtt_command_payload \<times> u32" where
  "print_speed_payload speed = sequenced (\<lambda>sid.
     in_section ''print''
       [(''command'', JString ''print_speed''), (''param'', JString (text_of_word (as_u8 speed))),
        (''sequence_id'', JString sid)])"

definition set_fan_speed_payload :: "set_fan_speed_command \<Rightarrow> u32 \<Rightarrow> bambu_mqtt_command_payload \<times> u32" where
  "set_fan_speed_payload command = sequenced (\<lambda>sid.
     in_section ''print''
       [(''command'', JString ''set_fan''), (''fan_index'', json_uint (sf_fan_index command)),
        (''sequence_id'', JString sid), (''speed'', json_uint (sf_speed_percent command))])"

definition select_extruder_payload :: "u32 \<Rightarrow> u32 \<Rightarrow> bambu_mqtt_command_payload \<times> u32" where
  "select_extruder_payload extruder_id = sequenced (\<lambda>sid.
     in_section ''print''
       [(''command'', JString ''select_extruder''), (''extruder_index'', json_uint extruder_id),
        (''sequence_id'', JString sid)])"

definition set_nozzle_temperature_payload ::
  "set_nozzle_temperature_command \<Rightarrow> u32 \<Rightarrow> bambu_mqtt_command_payload \<times> u32" where
  "set_nozzle_temperature_payload command = sequenced (\<lambda>sid.
     in_section ''print''
       [(''command'', JString ''set_nozzle_temp''), (''extruder_index'', json_uint (sn_extruder_id command)),
        (''sequence_id'', JString sid), (''target_temp'', json_uint (sn_target_temp command))])"

definition chamber_light_payload :: "string \<Rightarrow> bool \<Rightarrow> u32 \<Rightarrow> bambu_mqtt_command_payload \<times> u32" where
  "chamber_light_payload node on = sequenced (\<lambda>sid.
     in_section ''system''
       [(''command'', JString ''ledctrl''), (''interval_time'', json_uint (1000 :: u16)),
        (''led_mode'', JString (if on then ''on'' else ''off'')), (''led_node'', JString node),
        (''led_off_time'', json_uint (500 :: u16)), (''led_on_time'', json_uint (500 :: u16)),
        (''loop_times'', json_uint (1 :: u8)), (''sequence_id'', JString sid)])"

definition back_to_center_payload :: "u32 \<Rightarrow> bambu_mqtt_command_payload \<times> u32" where
  "back_to_center_payload = sequenced (\<lambda>sid.
     in_section ''print'' [(''command'', JString ''back_to_center''), (''sequence_id'', JString sid)])"

definition xyz_control_payload ::
  "printer_axis \<Rightarrow> i8 \<Rightarrow> u8 \<Rightarrow> u32 \<Rightarrow> bambu_mqtt_command_payload \<times> u32" where
  "xyz_control_payload ax direction mode = sequenced (\<lambda>sid.
     in_section ''print''
       [(''axis'', JString (axis_name ax)), (''command'', JString ''xyz_ctrl''),
        (''dir'', json_int direction), (''mode'', json_uint mode), (''sequence_id'', JString sid)])"

definition gcode_line_payload :: "string \<Rightarrow> u32 \<Rightarrow> bambu_mqtt_command_payload \<times> u32" where
  "gcode_line_payload p = sequenced (\<lambda>sid.
     in_section ''print''
       [(''command'', JString ''gcode_line''), (''param'', JString p), (''sequence_id'', JString sid)])"

definition ams_reread_rfid_payload :: "ams_slot_command \<Rightarrow> u32 \<Rightarrow> bambu_mqtt_command_payload \<times> u32" where
  "ams_reread_rfid_payload command = sequenced (\<lambda>sid.
     in_section ''print''
       [(''ams_id'', json_uint (as_ams_id command)), (''command'', JString ''ams_get_rfid''),
        (''sequence_id'', JString sid), (''slot_id'', json_uint (as_slot_id command))])"

definition ams_change_filament_fields ::
  "u32 \<Rightarrow> u32 \<Rightarrow> u32 \<Rightarrow> int \<Rightarrow> int \<Rightarrow> u32 option \<Rightarrow> string \<Rightarrow> (string \<times> json) list" where
  "ams_change_filament_fields ams_id slot_id tgt curr_temp tar_temp extruder_id sid =
     [(''ams_id'', json_uint ams_id), (''command'', JString ''ams_change_filament''),
      (''curr_temp'', json_int curr_temp)] @
     (case extruder_id of None \<Rightarrow> [] | Some e \<Rightarrow> [(''extruder_id'', json_uint e)]) @
     [(''sequence_id'', JString sid), (''slot_id'', json_uint slot_id),
      (''tar_temp'', json_int tar_temp), (''target'', json_uint tgt)]"

definition ams_load_filament_payload ::
  "ams_filament_command \<Rightarrow> u32 \<Rightarrow> bambu_mqtt_command_payload \<times> u32" where
  "ams_load_filament_payload command = sequenced (\<lambda>sid.
     in_section ''print''
       (ams_change_filament_fields (af_ams_id command) (af_slot_id command) (af_target command)
          (- 1) (- 1) (af_extruder_id command) sid))"

definition ams_unload_filament_payload ::
  "ams_filament_command \<Rightarrow> u32 \<Rightarrow> bambu_mqtt_command_payload \<times> u32" where
  "ams_unload_filament_payload command = sequenced (\<lambda>sid.
     in_section ''print'' (ams_change_filament_fields (af_ams_id command) 255 255 210 210 None sid))"

definition ams_drying_fields ::
  "u32 \<Rightarrow> u8 \<Rightarrow> string \<Rightarrow> u16 \<Rightarrow> u16 \<Rightarrow> bool \<Rightarrow> u16 \<Rightarrow> string \<Rightarrow> (string \<times> json) list" where
  "ams_drying_fields ams_id mode filament temp duration rotate_tray cooling_temp sid =
     [(''ams_id'', json_uint ams_id), (''close_power_conflict'', JBool False),
      (''command'', JString ''ams_filament_drying''), (''cooling_temp'', json_uint cooling_temp),
      (''duration'', json_uint duration), (''filament'', JString filament),
      (''humidity'', json_uint (0 :: u8)), (''mode'', json_uint mode),
      (''rotate_tray'', JBool rotate_tray), (''sequence_id'', JString sid), (''temp'', json_uint temp)]"

definition ams_start_drying_payload :: "ams_drying_command \<Rightarrow> u32 \<Rightarrow> bambu_mqtt_command_payload \<times> u32" where
  "ams_start_drying_payload command = sequenced (\<lambda>sid.
     in_section ''print''
       (ams_drying_fields (ad_ams_id command) 1 (ad_filament command) (ad_temperature_celsius command)
          (ad_duration_hours command) (ad_rotate_tray command) 20 sid))"

definition ams_stop_drying_payload :: "u32 \<Rightarrow> u32 \<Rightarrow> bambu_mqtt_command_payload \<times> u32" where
  "ams_stop_drying_payload ams_id = sequenced (\<lambda>sid.
     in_section ''print'' (ams_drying_fields ams_id 0 [] 0 0 False 0 sid))"

primrec print_error_command_name :: "print_error_action \<Rightarrow> string" where
  "print_error_command_name print_error_action.Resume = ''resume''"
| "print_error_command_name print_error_action.Ignore = ''ignore''"
| "print_error_command_name print_error_action.Stop = ''stop''"

text \<open>The only payload under a sequence number of the caller.\<close>

definition print_error_payload :: "handle_print_error_command \<Rightarrow> bambu_mqtt_command_payload" where
  "print_error_payload command =
     (let sid = text_of_word (he_sequence_id command)
      in with_sequence
           (in_section ''print''
              [(''command'', JString (print_error_command_name (he_error_action command))),
               (''err'', JString (text_of_word (he_print_error command))),
               (''job_id'', JString (he_printer_job_id command)), (''param'', JString ''reserve''),
               (''sequence_id'', JString sid)])
           sid)"

definition nozzle_holder_ctrl_payload :: "u32 \<Rightarrow> u32 \<Rightarrow> bambu_mqtt_command_payload \<times> u32" where
  "nozzle_holder_ctrl_payload action = sequenced (\<lambda>sid.
     in_section ''print''
       [(''action'', json_uint action), (''command'', JString ''nozzle_holder_ctrl''),
        (''sequence_id'', JString sid)])"

definition rack_nozzle_payload :: "string \<Rightarrow> u32 \<Rightarrow> u32 \<Rightarrow> bambu_mqtt_command_payload \<times> u32" where
  "rack_nozzle_payload command i = sequenced (\<lambda>sid.
     in_section ''print''
       [(''command'', JString command), (''id'', json_uint i), (''sequence_id'', JString sid)])"

subsection \<open>Project files\<close>

definition nozzle_mapping_for_printer :: "project_file_command \<Rightarrow> i32 list option" where
  "nozzle_mapping_for_printer command =
     (if pf_nozzle_mapping command \<noteq> [] then Some (pf_nozzle_mapping command) else None)"

text \<open>The part behind the last slash or backslash.\<close>

definition file_base :: "string \<Rightarrow> string" where
  "file_base filename = rev (takeWhile (\<lambda>c. c \<noteq> CHR ''/'' \<and> byte c \<noteq> 92) (rev filename))"

definition project_file_subtask_name :: "string \<Rightarrow> string" where
  "project_file_subtask_name filename =
     (let base = trim (file_base filename);
          stem = trim (case or_else (strip_suffix ''.gcode.3mf'' base) (strip_suffix ''.3mf'' base) of
                         Some t \<Rightarrow> t | None \<Rightarrow> base)
      in if stem = [] then ''print'' else stem)"

text \<open>\<open>Unspecified\<close> is unreachable in the source; its text here is never sent.\<close>

definition project_profile_id :: "project_file_command \<Rightarrow> string option" where
  "project_profile_id command =
     (case pf_submission_source command of
        Studio \<Rightarrow> Some (if 0 < pf_origin_profile_id command
                        then int_decimal (pf_origin_profile_id command)
                        else text_of_word (pf_studio_submission_id command))
      | Web \<Rightarrow> Some ''0''
      | Unspecified \<Rightarrow> None)"

definition h2d_family :: "string option \<Rightarrow> bool" where
  "h2d_family model =
     (case model of
        None \<Rightarrow> False
      | Some m \<Rightarrow> list_ex (contains_str (to_ascii_uppercase m)) [''H2D'', ''O1D'', ''C16'', ''X2D''])"

definition flip_nozzle_id :: "project_file_ams_mapping_info \<Rightarrow> project_file_ams_mapping_info" where
  "flip_nozzle_id entry =
     (if pi_nozzle_id entry = Some 0 then entry\<lparr>pi_nozzle_id := Some 1\<rparr>
      else if pi_nozzle_id entry = Some 1 then entry\<lparr>pi_nozzle_id := Some 0\<rparr>
      else entry)"

definition flip_nozzle_ids :: "project_file_payload_print \<Rightarrow> project_file_payload_print" where
  "flip_nozzle_ids project =
     project\<lparr>pp_ams_mapping_info := map_option (map flip_nozzle_id) (pp_ams_mapping_info project)\<rparr>"

definition maybe_sign_project_file_payload ::
  "agent_codec \<Rightarrow> project_file_payload_print \<Rightarrow> string option \<Rightarrow> json" where
  "maybe_sign_project_file_payload cd project printer_model =
     (case ac_slicer_key cd of
        None \<Rightarrow> JObject [(''print'', ac_project_value cd project)]
      | Some sign \<Rightarrow>
          (let signed = (if h2d_family printer_model then flip_nozzle_ids project else project)
           in case sign signed of
                None \<Rightarrow> JObject [(''print'', ac_project_value cd signed)]
              | Some signature \<Rightarrow>
                  JObject
                    [(''header'',
                        JObject
                          [(''cert_id'', JString (case ac_slicer_cert_id cd of Some c \<Rightarrow> c | None \<Rightarrow> [])),
                           (''payload_len'', JNumber (PosInt (of_nat (ac_project_len cd signed)))),
                           (''sign_alg'', JString ''RSA_SHA256''), (''sign_string'', JString signature),
                           (''sign_ver'', JString ''v1.0'')]),
                     (''print'', ac_project_value cd signed)]))"

definition project_file_print :: "project_file_command \<Rightarrow> string \<Rightarrow> string \<Rightarrow> project_file_payload_print" where
  "project_file_print command profile_id sid =
     (let submission_id = text_of_word (pf_studio_submission_id command)
      in \<lparr>pp_sequence_id = sid,
          pp_param = ''Metadata/plate_'' @ text_of_word (pf_plate_id command) @ ''.gcode'',
          pp_project_id = submission_id,
          pp_profile_id = profile_id,
          pp_task_id = submission_id,
          pp_subtask_id = submission_id,
          pp_subtask_name =
            (case pf_task_name command of
               Some name \<Rightarrow> if trim name \<noteq> [] then name
                             else project_file_subtask_name (pf_filename command)
             | None \<Rightarrow> project_file_subtask_name (pf_filename command)),
          pp_url = (case pf_url command of Some u \<Rightarrow> u | None \<Rightarrow> ''ftp://'' @ pf_filename command),
          pp_file = pf_filename command,
          pp_md5 = (case pf_md5 command of Some m \<Rightarrow> m | None \<Rightarrow> []),
          pp_bed_type = pf_bed_type command,
          pp_bed_leveling = pf_bed_leveling command,
          pp_flow_cali = pf_flow_cali command,
          pp_vibration_cali = pf_vibration_cali command,
          pp_layer_inspect = pf_layer_inspect command,
          pp_timelapse = pf_timelapse command,
          pp_use_ams = pf_use_ams command,
          pp_ams_mapping = map (\<lambda>v. if v = 254 \<or> v = 255 then - 1 else v) (pf_ams_mapping command),
          pp_ams_mapping2 = pf_ams_mapping2 command,
          pp_nozzle_mapping = nozzle_mapping_for_printer command,
          pp_ams_mapping_info =
            (if pf_ams_mapping_info command \<noteq> [] then Some (pf_ams_mapping_info command) else None),
          pp_auto_bed_leveling = PrintCalibrationMode_as_u8 (pf_auto_bed_leveling command),
          pp_nozzle_offset_cali = PrintCalibrationMode_as_u8 (pf_auto_offset_cali command),
          pp_cfg = (if pf_timelapse_use_internal command then ''4'' else ''0''),
          pp_extrude_cali_flag = PrintCalibrationMode_as_u8 (pf_auto_flow_cali command),
          pp_extrude_cali_manual_mode = pf_extruder_cali_manual_mode command\<rparr>)"

definition project_file_payload ::
  "agent_codec \<Rightarrow> project_file_command \<Rightarrow> u32 \<Rightarrow>
   (bambu_mqtt_command_payload, agent_error) result \<times> u32" where
  "project_file_payload cd command counter =
     (case next_studio_sequence_id counter of
        (sid, counter') \<Rightarrow>
          (case project_profile_id command of
             None \<Rightarrow> (Err Panic, counter')
           | Some profile_id \<Rightarrow>
               (Ok (with_sequence
                      (maybe_sign_project_file_payload cd (project_file_print command profile_id sid)
                         (pf_printer_model command)) sid), counter')))"

subsection \<open>The payload of a command\<close>

text \<open>\<open>pay\<close> marks the writers that cannot fail.\<close>

definition pay ::
  "bambu_mqtt_command_payload \<times> u32 \<Rightarrow> (bambu_mqtt_command_payload, agent_error) result \<times> u32" where
  "pay pc = (case pc of (payload, counter) \<Rightarrow> (Ok payload, counter))"

primrec command_payload ::
  "agent_codec \<Rightarrow> bambu_mqtt_command \<Rightarrow> u32 \<Rightarrow> (bambu_mqtt_command_payload, agent_error) result \<times> u32" where
  "command_payload cd GetVersion n = pay (info_payload ''get_version'' n)"
| "command_payload cd RequestPushAll n = pay (pushing_payload n)"
| "command_payload cd PausePrint n = pay (basic_print_payload ''pause'' n)"
| "command_payload cd ResumePrint n = pay (basic_print_payload ''resume'' n)"
| "command_payload cd StopPrint n = pay (basic_print_payload ''stop'' n)"
| "command_payload cd (MqttSetChamberLight on) n = pay (chamber_light_payload ''chamber_light'' on n)"
| "command_payload cd (SetChamberLightNode c) n = pay (chamber_light_payload (cl_node c) (cl_on c) n)"
| "command_payload cd (MqttSetPrintSpeed speed) n = pay (print_speed_payload speed n)"
| "command_payload cd (MqttSetFanSpeed c) n = pay (set_fan_speed_payload c n)"
| "command_payload cd (MqttSelectExtruder e) n = pay (select_extruder_payload e n)"
| "command_payload cd (SetNozzleTemperature c) n = pay (set_nozzle_temperature_payload c n)"
| "command_payload cd BackToCenter n = pay (back_to_center_payload n)"
| "command_payload cd (XyzControl ax direction mode) n = pay (xyz_control_payload ax direction mode n)"
| "command_payload cd (MqttGcodeLine p) n = pay (gcode_line_payload p n)"
| "command_payload cd (MqttAmsRereadRfid c) n = pay (ams_reread_rfid_payload c n)"
| "command_payload cd (MqttAmsLoadFilament c) n = pay (ams_load_filament_payload c n)"
| "command_payload cd (MqttAmsUnloadFilament c) n = pay (ams_unload_filament_payload c n)"
| "command_payload cd (MqttAmsStartDrying c) n = pay (ams_start_drying_payload c n)"
| "command_payload cd (MqttAmsStopDrying ams_id) n = pay (ams_stop_drying_payload ams_id n)"
| "command_payload cd (MqttHandlePrintError c) n = (Ok (print_error_payload c), n)"
| "command_payload cd (MqttGetAutoNozzleMapping request) n =
     (Ok (with_sequence (JObject [(''print'', ac_h2c_value cd request)]) (req_sequence_id request)), n)"
| "command_payload cd (MqttNozzleHolderCtrl action) n = pay (nozzle_holder_ctrl_payload action n)"
| "command_payload cd (MqttNozzleInfoConfirm i) n = pay (rack_nozzle_payload ''nozzle_info_confirm'' i n)"
| "command_payload cd (MqttHolderNozzleRefresh i) n = pay (rack_nozzle_payload ''holder_nozzle_refresh'' i n)"
| "command_payload cd (RawJson payload) n = (Ok (without_sequence payload), n)"
| "command_payload cd (ProjectFile command) n = project_file_payload cd command n"

definition chamber_light_commands_for_nodes :: "string list \<Rightarrow> bool \<Rightarrow> bambu_mqtt_command list" where
  "chamber_light_commands_for_nodes nodes on =
     map (\<lambda>node. SetChamberLightNode \<lparr>cl_node = node, cl_on = on\<rparr>) nodes"

section \<open>Sequence numbers under concurrency\<close>

text \<open>
  Commands are written by concurrent tasks that share the counter. A task's call is idle, has
  loaded the counter, or has returned a number; a step of a task is one atomic access.
  \<open>ss_issued\<close> records the returned numbers in order, \<open>ss_loaded_at\<close> how many had been returned
  when a task last loaded the counter.
\<close>

datatype seq_call = Idle | Loaded u32 | Returned u32

record seq_state =
  ss_counter :: u32
  ss_calls :: "nat \<Rightarrow> seq_call"
  ss_issued :: "u32 list"
  ss_loaded_at :: "nat \<Rightarrow> nat"

definition seq_start :: seq_state where
  "seq_start =
     \<lparr>ss_counter = STUDIO_START_SEQUENCE_ID, ss_calls = (\<lambda>_. Idle), ss_issued = [],
      ss_loaded_at = (\<lambda>_. 0)\<rparr>"

definition next_studio_sequence_id_from :: "nat \<Rightarrow> seq_state \<Rightarrow> seq_state" where
  "next_studio_sequence_id_from t s =
     (case ss_calls s t of
        Idle \<Rightarrow>
          s\<lparr>ss_calls := (ss_calls s)(t := Loaded (ss_counter s)),
            ss_loaded_at := (ss_loaded_at s)(t := length (ss_issued s))\<rparr>
      | Loaded current \<Rightarrow>
          if ss_counter s = current
          then s\<lparr>ss_counter := sequence_next_of current,
                 ss_calls := (ss_calls s)(t := Returned (sequence_id_of current)),
                 ss_issued := ss_issued s @ [sequence_id_of current]\<rparr>
          else s\<lparr>ss_calls := (ss_calls s)(t := Idle)\<rparr>
      | Returned _ \<Rightarrow> s\<lparr>ss_calls := (ss_calls s)(t := Idle)\<rparr>)"

inductive seq_reachable :: "seq_state \<Rightarrow> bool" where
  start: "seq_reachable seq_start"
| step: "seq_reachable s \<Longrightarrow> seq_reachable (next_studio_sequence_id_from t s)"

lemma seq_cycle:
  assumes "unat n = 20000 + k mod 10000"
  shows "sequence_id_of n = n" "unat (sequence_next_of n) = 20000 + Suc k mod 10000"
proof -
  have k: "k mod 10000 < 10000" by simp
  with assms show id: "sequence_id_of n = n"
    by (simp add: sequence_id_of_def word_le_nat_alt word_less_nat_alt)
  have u: "unat (n + 1) = 20001 + k mod 10000"
    using assms k by (simp add: unat_word_ariths)
  show "unat (sequence_next_of n) = 20000 + Suc k mod 10000"
    using u k id by (auto simp: sequence_next_of_def word_le_nat_alt mod_Suc)
qed

definition seq_inv :: "seq_state \<Rightarrow> bool" where
  "seq_inv s \<longleftrightarrow>
     unat (ss_counter s) = 20000 + length (ss_issued s) mod 10000 \<and>
     (\<forall>i < length (ss_issued s). unat (ss_issued s ! i) = 20000 + i mod 10000) \<and>
     (\<forall>t c. ss_calls s t = Loaded c \<longrightarrow>
        ss_loaded_at s t \<le> length (ss_issued s) \<and>
        (ss_loaded_at s t = length (ss_issued s) \<longrightarrow> ss_counter s = c))"

lemma seq_inv_reachable: "seq_reachable s \<Longrightarrow> seq_inv s"
proof (induction rule: seq_reachable.induct)
  case start
  show ?case by (simp add: seq_inv_def seq_start_def)
next
  case (step s t)
  show ?case
  proof (cases "ss_calls s t")
    case (Loaded c)
    show ?thesis
    proof (cases "ss_counter s = c")
      case True
      have n: "unat c = 20000 + length (ss_issued s) mod 10000" using step.IH True by (simp add: seq_inv_def)
      have s': "next_studio_sequence_id_from t s =
          s\<lparr>ss_counter := sequence_next_of c, ss_calls := (ss_calls s)(t := Returned c),
            ss_issued := ss_issued s @ [c]\<rparr>"
        using Loaded True seq_cycle(1) [OF n] by (simp add: next_studio_sequence_id_from_def)
      have "\<forall>i < Suc (length (ss_issued s)). unat ((ss_issued s @ [c]) ! i) = 20000 + i mod 10000"
        using step.IH n by (simp add: seq_inv_def nth_append less_Suc_eq)
      moreover have "\<forall>u d. ss_calls s u = Loaded d \<longrightarrow> ss_loaded_at s u \<le> length (ss_issued s)"
        using step.IH by (simp add: seq_inv_def)
      ultimately show ?thesis
        using seq_cycle(2) [OF n] unfolding s' seq_inv_def
        by (simp add: le_Suc_eq) (metis Suc_n_not_le_n)
    next
      case False
      with step.IH Loaded show ?thesis by (auto simp: seq_inv_def next_studio_sequence_id_from_def)
    qed
  qed (use step.IH in \<open>auto simp: seq_inv_def next_studio_sequence_id_from_def\<close>)
qed

text \<open>
  C34: whatever the interleaving of the tasks that draw sequence numbers, the \<open>i\<close>-th number
  returned is 20000 + \<open>i\<close> mod 10000: they run through 20000 to 29999 in order, so two commands
  fewer than 10000 numbers apart never share one.
\<close>

theorem sequence_numbers_cycle:
  assumes "seq_reachable s" "i < length (ss_issued s)"
  shows "unat (ss_issued s ! i) = 20000 + i mod 10000 \<and>
    (j < i \<and> i < j + 10000 \<longrightarrow> ss_issued s ! j \<noteq> ss_issued s ! i)"
proof (intro conjI impI)
  have at: "unat (ss_issued s ! k) = 20000 + k mod 10000" if "k < length (ss_issued s)" for k
    using seq_inv_reachable [OF assms(1)] that by (simp add: seq_inv_def)
  show "unat (ss_issued s ! i) = 20000 + i mod 10000" using at assms(2) .
  assume "j < i \<and> i < j + 10000"
  then have j: "j < i" "i < j + 10000" by simp_all
  have "j mod 10000 \<noteq> i mod 10000"
  proof
    assume "j mod 10000 = i mod 10000"
    then have "10000 dvd i - j" using j(1) by (metis less_imp_le mod_eq_dvd_iff_nat)
    with j show False by (auto dest: dvd_imp_le)
  qed
  then show "ss_issued s ! j \<noteq> ss_issued s ! i" using at [of i] at [of j] assms(2) j(1) by auto
qed

text \<open>
  C35: drawing a sequence number is lock free. A call that has loaded the counter either
  returns at its next step or some other call has returned since it loaded, and a call that
  is not disturbed returns within three steps.
\<close>

theorem sequence_lock_free:
  assumes "seq_reachable s"
  shows "(\<forall>c. ss_calls s t = Loaded c \<longrightarrow>
      (\<exists>i. ss_calls (next_studio_sequence_id_from t s) t = Returned i) \<or>
      ss_loaded_at s t < length (ss_issued s)) \<and>
    (\<exists>k \<le> 3. \<exists>i. ss_calls ((next_studio_sequence_id_from t ^^ k) s) t = Returned i)"
proof (intro conjI allI impI)
  fix c assume c: "ss_calls s t = Loaded c"
  then have "ss_loaded_at s t \<le> length (ss_issued s)"
      "ss_loaded_at s t = length (ss_issued s) \<longrightarrow> ss_counter s = c"
    using seq_inv_reachable [OF assms] by (simp_all add: seq_inv_def)
  with c show "(\<exists>i. ss_calls (next_studio_sequence_id_from t s) t = Returned i) \<or>
      ss_loaded_at s t < length (ss_issued s)"
    by (auto simp: next_studio_sequence_id_from_def)
next
  have idle: "\<exists>i. ss_calls ((next_studio_sequence_id_from t ^^ 2) r) t = Returned i"
    if "ss_calls r t = Idle" for r
    using that by (simp add: next_studio_sequence_id_from_def eval_nat_numeral)
  show "\<exists>k \<le> 3. \<exists>i. ss_calls ((next_studio_sequence_id_from t ^^ k) s) t = Returned i"
  proof (cases "ss_calls s t")
    case Idle
    with idle [of s] show ?thesis by (intro exI [of _ 2]) simp
  next
    case (Loaded c)
    show ?thesis
    proof (cases "ss_counter s = c")
      case True
      with Loaded show ?thesis by (intro exI [of _ 1]) (simp add: next_studio_sequence_id_from_def)
    next
      case False
      with Loaded have "ss_calls (next_studio_sequence_id_from t s) t = Idle"
        by (simp add: next_studio_sequence_id_from_def)
      from idle [OF this] show ?thesis
        by (intro exI [of _ 3]) (simp add: eval_nat_numeral funpow_swap1)
    qed
  next
    case (Returned i)
    then show ?thesis by (intro exI [of _ 0]) simp
  qed
qed

text \<open>Two tasks load the counter; the first returns, the second has to load again.\<close>

definition sample_seq_state :: seq_state where
  "sample_seq_state =
     fold next_studio_sequence_id_from [0, 1, 0, 1, 1, 1, 0, 0, 0] seq_start"

lemma sample_seq_reachable: "seq_reachable sample_seq_state"
  by (simp add: sample_seq_state_def seq_reachable.intros)

lemma sample_seq_issued: "ss_issued sample_seq_state = [20000, 20001, 20002]"
  by code_simp

theorem sequence_numbers_cycle_witness:
  "unat (ss_issued sample_seq_state ! 2) = 20002 \<and> ss_issued sample_seq_state ! 0 \<noteq> ss_issued sample_seq_state ! 2"
  using sequence_numbers_cycle [OF sample_seq_reachable, of 2 0] by (simp add: sample_seq_issued)

theorem sequence_lock_free_witness:
  "\<exists>k \<le> 3. \<exists>i. ss_calls ((next_studio_sequence_id_from 1 ^^ k) sample_seq_state) 1 = Returned i"
  using sequence_lock_free [OF sample_seq_reachable, of 1] by blast

end
