(* ===== verification/Serde.thy ===== *)
theory Serde
  imports Json
begin

text \<open>
  How \<open>serde\<close>'s derived deserialisers read the structs of the sources from JSON: a struct is an
  object, or an array with exactly its fields in order; a member that is not a field is ignored
  (unless the struct denies it, which the struct's own decoder says); a field given twice is
  an error; \<open>null\<close> or a missing member is \<open>None\<close> for an \<open>Option\<close> field. An error is \<open>None\<close>.
\<close>

definition struct_members :: "string list \<Rightarrow> json \<Rightarrow> (string \<times> json) list option" where
  "struct_members names v =
     (case v of
        JObject m \<Rightarrow> Some m
      | JArray xs \<Rightarrow> if length xs = length names then Some (zip names xs) else None
      | _ \<Rightarrow> None)"

text \<open>The member of a name, if it is given; an error (\<open>None\<close>) if it is given twice.\<close>

definition one_member :: "string \<Rightarrow> (string \<times> json) list \<Rightarrow> json option option" where
  "one_member k m =
     (case filter (\<lambda>(k', _). k' = k) m of
        [] \<Rightarrow> Some None
      | [(_, v)] \<Rightarrow> Some (Some v)
      | _ \<Rightarrow> None)"

definition optional_field ::
  "(json \<Rightarrow> 'a option) \<Rightarrow> string \<Rightarrow> (string \<times> json) list \<Rightarrow> 'a option option" where
  "optional_field dec k m =
     Option.bind (one_member k m) (\<lambda>v.
       (case v of
          None \<Rightarrow> Some None
        | Some j \<Rightarrow> if j = JNull then Some None else map_option Some (dec j)))"

definition required_field ::
  "(json \<Rightarrow> 'a option) \<Rightarrow> string \<Rightarrow> (string \<times> json) list \<Rightarrow> 'a option" where
  "required_field dec k m =
     Option.bind (one_member k m) (\<lambda>v. Option.bind v dec)"

fun i8_deserialize :: "json \<Rightarrow> i8 option" where
  "i8_deserialize (JNumber (PosInt n)) = (if unat n < 128 then Some (int (unat n)) else None)"
| "i8_deserialize (JNumber (NegInt n)) = (if - 128 \<le> n then Some n else None)"
| "i8_deserialize _ = None"

fun u8_deserialize :: "json \<Rightarrow> u8 option" where
  "u8_deserialize (JNumber (PosInt n)) = (if unat n < 256 then Some (ucast n) else None)"
| "u8_deserialize _ = None"

text \<open>\<open>Vec<T>\<close>.\<close>

definition vec_deserialize :: "(json \<Rightarrow> 'a option) \<Rightarrow> json \<Rightarrow> 'a list option" where
  "vec_deserialize dec v = (case v of JArray xs \<Rightarrow> those (map dec xs) | _ \<Rightarrow> None)"

fun bool_deserialize :: "json \<Rightarrow> bool option" where
  "bool_deserialize (JBool b) = Some b"
| "bool_deserialize _ = None"

end
