(* ===== verification/Plugin_Gcode.thy ===== *)
theory Plugin_Gcode
  imports Agent_Commands Serde
begin

text \<open>
  The messages Bambu Studio sends to the network plugin: \<open>crates/pandar-network-plugin/src/gcode.rs\<close>
  with \<open>gcode/studio_json.rs\<close>, \<open>gcode/studio_axis.rs\<close> and \<open>gcode/operation.rs\<close>. A message is a
  JSON command or G-code text; it is read as a printer operation, which the plugin sends to the
  hub as a JSON request. The structs with their \<open>serde\<close> attributes are decoded from the JSON syntax
  tree of the message: an unknown member is ignored unless the struct denies it, a known member
  given twice is an error, \<open>null\<close> is \<open>None\<close> for an optional field, and an array gives the fields in
  order.

  Parameters: the JSON reader \<open>rd\<close> (the syntax tree of a text, the members of an object as
  written) and the reader and writer of the request type (the record \<open>request_codec\<close>).
\<close>

section \<open>G-code\<close>

definition gcode_commands :: "string \<Rightarrow> string list" where
  "gcode_commands msg =
     filter (\<lambda>c. c \<noteq> [])
       (map (\<lambda>line. trim (case split_once_char (CHR '';'') line of None \<Rightarrow> line | Some (c, _) \<Rightarrow> c))
          (str_lines msg))"

definition COMMAND_CODES :: "string list" where
  "COMMAND_CODES = [''G0'', ''G1'', ''G28'', ''G90'', ''G91'', ''M104'', ''M109'', ''M140'', ''M190'',
                    ''M141'', ''M191'']"

definition command_code :: "string \<Rightarrow> string option" where
  "command_code command =
     (case split_whitespace command of
        [] \<Rightarrow> None
      | code # _ \<Rightarrow>
          (let code = trim code
           in if code = [] then None else find (\<lambda>known. eq_ignore_ascii_case code known) COMMAND_CODES))"

definition parse_gcode_number :: "string \<Rightarrow> f64 option" where
  "parse_gcode_number value =
     (if value = [] then None
      else (case parse_f64 value of
              Some v \<Rightarrow> if is_finite v then Some v else None
            | None \<Rightarrow> None))"

definition float_fract_zero :: "f64 \<Rightarrow> bool" where
  "float_fract_zero v = (case v of Finite q \<Rightarrow> of_int \<lfloor>q\<rfloor> = q | _ \<Rightarrow> False)"

definition float_floor :: "f64 \<Rightarrow> int" where
  "float_floor v = (case v of Finite q \<Rightarrow> \<lfloor>q\<rfloor> | _ \<Rightarrow> 0)"

definition parse_integer_gcode_value :: "f64 \<Rightarrow> u32 option" where
  "parse_integer_gcode_value value =
     (if float_ge value (Finite 0) \<and> float_fract_zero value \<and> float_ge (Finite 4294967295) value
      then Some (word_of_int (float_floor value)) else None)"

definition u16_try_from :: "'a::len word \<Rightarrow> u16 option" where
  "u16_try_from v = (if unat v < 65536 then Some (ucast v) else None)"

datatype temperature_operation = Hotend | Bed | Chamber

definition axis_from_text :: "string \<Rightarrow> printer_axis option" where
  "axis_from_text token =
     (let t = to_ascii_uppercase token
      in if t = ''X'' then Some X else if t = ''Y'' then Some Y else if t = ''Z'' then Some Z else None)"

fun home_axes :: "string list \<Rightarrow> printer_axis list option" where
  "home_axes [] = Some []"
| "home_axes (token # tokens) =
     (case axis_from_text token of
        None \<Rightarrow> None
      | Some a \<Rightarrow> map_option (Cons a) (home_axes tokens))"

definition parse_home_operation :: "string \<Rightarrow> printer_operation option" where
  "parse_home_operation command =
     map_option (\<lambda>ax. Home ax []) (home_axes (tl (split_whitespace command)))"

text \<open>A token is a letter and a number.\<close>

definition gcode_parameter :: "string \<Rightarrow> (char \<times> f64) option" where
  "gcode_parameter token =
     (case token of
        [] \<Rightarrow> None
      | c # rest \<Rightarrow> map_option (Pair (ascii_upper_char c)) (parse_gcode_number rest))"

fun temperature_parameters ::
  "temperature_operation \<Rightarrow> f64 option \<times> f64 option \<Rightarrow> string list \<Rightarrow> (f64 option \<times> f64 option) option" where
  "temperature_parameters operation acc [] = Some acc"
| "temperature_parameters operation (celsius, extruder) (token # tokens) =
     (case gcode_parameter token of
        None \<Rightarrow> None
      | Some (p, v) \<Rightarrow>
          if p = CHR ''S'' \<and> celsius = None
          then temperature_parameters operation (Some v, extruder) tokens
          else if p = CHR ''T'' \<and> operation = Hotend \<and> extruder = None
          then temperature_parameters operation (celsius, Some v) tokens
          else None)"

text \<open>\<open>operation.validate().is_ok().then_some(operation)\<close>.\<close>

definition validated :: "printer_operation \<Rightarrow> printer_operation option" where
  "validated op = (if is_ok (validate op) then Some op else None)"

definition parse_temperature_operation ::
  "string \<Rightarrow> temperature_operation \<Rightarrow> bool \<Rightarrow> printer_operation option" where
  "parse_temperature_operation command operation waits =
     Option.bind (temperature_parameters operation (None, None) (tl (split_whitespace command)))
       (\<lambda>(celsius, extruder).
     Option.bind celsius (\<lambda>c. Option.bind (parse_integer_gcode_value c) (\<lambda>c.
     Option.bind
       (case operation of
          Hotend \<Rightarrow>
            Option.bind (u16_try_from c) (\<lambda>t.
              (case extruder of
                 None \<Rightarrow> Some (SetHotendTemperature t waits None)
               | Some e \<Rightarrow>
                   map_option (\<lambda>e. SetHotendTemperature t waits (Some e)) (parse_integer_gcode_value e)))
        | Bed \<Rightarrow> map_option (\<lambda>t. SetBedTemperature t waits) (u16_try_from c)
        | Chamber \<Rightarrow> map_option (\<lambda>t. SetChamberTemperature t waits) (u16_try_from c))
       validated)))"

definition parse_hotend_operation :: "string \<Rightarrow> bool \<Rightarrow> printer_operation option" where
  "parse_hotend_operation command waits = parse_temperature_operation command Hotend waits"

definition axis_from_parameter :: "char \<Rightarrow> printer_axis option" where
  "axis_from_parameter p =
     (if p = CHR ''X'' then Some X else if p = CHR ''Y'' then Some Y
      else if p = CHR ''Z'' then Some Z else None)"

fun move_parameters ::
  "printer_axis_movement list \<times> f64 option \<Rightarrow> string list \<Rightarrow>
   (printer_axis_movement list \<times> f64 option) option" where
  "move_parameters acc [] = Some acc"
| "move_parameters (moves, feedrate) (token # tokens) =
     (case gcode_parameter token of
        None \<Rightarrow> None
      | Some (p, v) \<Rightarrow>
          (case axis_from_parameter p of
             Some a \<Rightarrow>
               if a \<notin> axis ` set moves
               then move_parameters (moves @ [\<lparr>axis = a, delta_mm = v\<rparr>], feedrate) tokens
               else None
           | None \<Rightarrow>
               if p = CHR ''F'' \<and> feedrate = None
               then move_parameters (moves, Some v) tokens else None))"

definition parse_move_axes_operation :: "string \<Rightarrow> printer_operation option" where
  "parse_move_axes_operation command =
     (if command_code command \<noteq> Some ''G0'' \<and> command_code command \<noteq> Some ''G1'' then None
      else Option.bind (move_parameters ([], None) (tl (split_whitespace command)))
        (\<lambda>(moves, feedrate).
           if moves = [] then None
           else (case feedrate of
                   None \<Rightarrow> validated (MoveAxes moves None [])
                 | Some f \<Rightarrow>
                     Option.bind (parse_integer_gcode_value f)
                       (\<lambda>f. validated (MoveAxes moves (Some f) [])))))"

definition parse_single_command_operation :: "string \<Rightarrow> printer_operation option" where
  "parse_single_command_operation command =
     Option.bind (command_code command) (\<lambda>code.
       if code = ''G28'' then parse_home_operation command
       else if code = ''M104'' then parse_hotend_operation command False
       else if code = ''M109'' then parse_hotend_operation command True
       else if code = ''M140'' then parse_temperature_operation command Bed False
       else if code = ''M190'' then parse_temperature_operation command Bed True
       else if code = ''M141'' then parse_temperature_operation command Chamber False
       else if code = ''M191'' then parse_temperature_operation command Chamber True
       else None)"

definition parse_gcode_operation :: "string \<Rightarrow> printer_operation option" where
  "parse_gcode_operation msg =
     (case gcode_commands msg of
        [command] \<Rightarrow> parse_single_command_operation command
      | [relative, movement] \<Rightarrow>
          if eq_ignore_ascii_case relative ''G91'' then parse_move_axes_operation movement else None
      | [soft_endstop, axis_limits, push_reference, relative, movement, pop_reference, restore] \<Rightarrow>
          if soft_endstop = ''M211 S'' \<and> axis_limits = ''M211 X1 Y1 Z1'' \<and>
             push_reference = ''M1002 push_ref_mode'' \<and> relative = ''G91'' \<and>
             (case split_whitespace movement of w # _ \<Rightarrow> w = ''G1'' | [] \<Rightarrow> False) \<and>
             pop_reference = ''M1002 pop_ref_mode'' \<and> restore = ''M211 R''
          then parse_move_axes_operation movement else None
      | _ \<Rightarrow> None)"

section \<open>Studio's JSON commands\<close>

subsection \<open>Decoding\<close>

datatype studio_field = FString string | FUnsigned u64 | FSigned i64 | FFloat f64 | FInvalid

fun StudioField_deserialize :: "json \<Rightarrow> studio_field" where
  "StudioField_deserialize (JString s) = FString s"
| "StudioField_deserialize (JNumber (PosInt n)) = FUnsigned n"
| "StudioField_deserialize (JNumber (NegInt n)) = FSigned n"
| "StudioField_deserialize (JNumber (Float x)) = FFloat x"
| "StudioField_deserialize _ = FInvalid"

datatype studio_field_presence = FieldAbsent | FieldPresent studio_field

definition presence_field :: "string \<Rightarrow> (string \<times> json) list \<Rightarrow> studio_field_presence option" where
  "presence_field k m =
     map_option (\<lambda>v. case v of None \<Rightarrow> FieldAbsent | Some j \<Rightarrow> FieldPresent (StudioField_deserialize j))
       (one_member k m)"

datatype studio_u64 = UNumber u64 | UString string

fun StudioU64_deserialize :: "json \<Rightarrow> studio_u64 option" where
  "StudioU64_deserialize (JNumber (PosInt n)) = Some (UNumber n)"
| "StudioU64_deserialize (JString s) = Some (UString s)"
| "StudioU64_deserialize _ = None"

datatype studio_axis = StudioX | StudioY | StudioZ

definition studio_axis_variant :: "string \<Rightarrow> studio_axis option" where
  "studio_axis_variant s =
     (if s = ''X'' then Some StudioX else if s = ''Y'' then Some StudioY
      else if s = ''Z'' then Some StudioZ else None)"

text \<open>A unit variant is a text, or an object with the variant as its only key and \<open>null\<close>.\<close>

fun StudioAxis_deserialize :: "json \<Rightarrow> studio_axis option" where
  "StudioAxis_deserialize (JString s) = studio_axis_variant s"
| "StudioAxis_deserialize (JObject [(s, JNull)]) = studio_axis_variant s"
| "StudioAxis_deserialize _ = None"

datatype studio_direction = Negative | Positive
datatype studio_move_mode = OneMillimeter | TenMillimeters

definition StudioDirection_try_from :: "i8 \<Rightarrow> studio_direction option" where
  "StudioDirection_try_from v = (if v = - 1 then Some Negative else if v = 1 then Some Positive else None)"

definition StudioMoveMode_try_from :: "u8 \<Rightarrow> studio_move_mode option" where
  "StudioMoveMode_try_from v =
     (if v = 0 then Some OneMillimeter else if v = 1 then Some TenMillimeters else None)"

primrec operation_axis :: "studio_axis \<Rightarrow> printer_axis" where
  "operation_axis StudioX = X"
| "operation_axis StudioY = Y"
| "operation_axis StudioZ = Z"

primrec StudioDirection_sign :: "studio_direction \<Rightarrow> rat" where
  "StudioDirection_sign Negative = - 1"
| "StudioDirection_sign Positive = 1"

primrec StudioMoveMode_distance_mm :: "studio_move_mode \<Rightarrow> rat" where
  "StudioMoveMode_distance_mm OneMillimeter = 1"
| "StudioMoveMode_distance_mm TenMillimeters = 10"

record studio_system =
  sys_command :: string
  sys_led_node :: "string option"
  sys_led_mode :: "string option"

record studio_print =
  prt_command :: string
  prt_param :: studio_field_presence
  prt_err :: studio_field_presence
  prt_job_id :: studio_field_presence
  prt_sequence_id :: studio_field_presence
  prt_extruder_index :: "studio_u64 option"
  prt_target_temp :: "studio_u64 option"
  prt_temp :: "studio_u64 option"
  prt_ctt_val :: "studio_u64 option"
  prt_ams_id :: "studio_u64 option"
  prt_slot_id :: "studio_u64 option"
  prt_target :: "studio_u64 option"
  prt_extruder_id :: "studio_u64 option"
  prt_axis :: "studio_axis option"
  prt_dir :: "studio_direction option"
  prt_mode :: "studio_move_mode option"

record studio_message =
  msg_system :: "studio_system option"
  msg_print :: "studio_print option"

definition StudioSystem_deserialize :: "json \<Rightarrow> studio_system option" where
  "StudioSystem_deserialize v =
     Option.bind (struct_members [''command'', ''led_node'', ''led_mode''] v) (\<lambda>m.
     Option.bind (required_field as_str ''command'' m) (\<lambda>command.
     Option.bind (optional_field as_str ''led_node'' m) (\<lambda>led_node.
     Option.bind (optional_field as_str ''led_mode'' m) (\<lambda>led_mode.
     Some \<lparr>sys_command = command, sys_led_node = led_node, sys_led_mode = led_mode\<rparr>))))"

definition PRINT_FIELDS :: "string list" where
  "PRINT_FIELDS =
     [''command'', ''param'', ''err'', ''job_id'', ''sequence_id'', ''extruder_index'', ''target_temp'',
      ''temp'', ''ctt_val'', ''ams_id'', ''slot_id'', ''target'', ''extruder_id'', ''axis'', ''dir'', ''mode'']"

definition StudioPrint_deserialize :: "json \<Rightarrow> studio_print option" where
  "StudioPrint_deserialize v =
     Option.bind (struct_members PRINT_FIELDS v) (\<lambda>m.
     Option.bind (required_field as_str ''command'' m) (\<lambda>command.
     Option.bind (presence_field ''param'' m) (\<lambda>p.
     Option.bind (presence_field ''err'' m) (\<lambda>err.
     Option.bind (presence_field ''job_id'' m) (\<lambda>job.
     Option.bind (presence_field ''sequence_id'' m) (\<lambda>sequence.
     Option.bind (optional_field StudioU64_deserialize ''extruder_index'' m) (\<lambda>extruder_index.
     Option.bind (optional_field StudioU64_deserialize ''target_temp'' m) (\<lambda>target_temp.
     Option.bind (optional_field StudioU64_deserialize ''temp'' m) (\<lambda>temp.
     Option.bind (optional_field StudioU64_deserialize ''ctt_val'' m) (\<lambda>ctt_val.
     Option.bind (optional_field StudioU64_deserialize ''ams_id'' m) (\<lambda>ams_id.
     Option.bind (optional_field StudioU64_deserialize ''slot_id'' m) (\<lambda>slot_id.
     Option.bind (optional_field StudioU64_deserialize ''target'' m) (\<lambda>tgt.
     Option.bind (optional_field StudioU64_deserialize ''extruder_id'' m) (\<lambda>extruder_id.
     Option.bind (optional_field StudioAxis_deserialize ''axis'' m) (\<lambda>ax.
     Option.bind (optional_field (\<lambda>j. Option.bind (i8_deserialize j) StudioDirection_try_from) ''dir'' m) (\<lambda>dir.
     Option.bind (optional_field (\<lambda>j. Option.bind (u8_deserialize j) StudioMoveMode_try_from) ''mode'' m) (\<lambda>mode.
     Some \<lparr>prt_command = command, prt_param = p, prt_err = err, prt_job_id = job,
           prt_sequence_id = sequence, prt_extruder_index = extruder_index,
           prt_target_temp = target_temp, prt_temp = temp, prt_ctt_val = ctt_val,
           prt_ams_id = ams_id, prt_slot_id = slot_id, prt_target = tgt,
           prt_extruder_id = extruder_id, prt_axis = ax, prt_dir = dir, prt_mode = mode\<rparr>)))))))))))))))))"

definition StudioMessage_deserialize :: "json \<Rightarrow> studio_message option" where
  "StudioMessage_deserialize v =
     Option.bind (struct_members [''system'', ''print''] v) (\<lambda>m.
       if \<not> list_all (\<lambda>(k, _). k = ''system'' \<or> k = ''print'') m then None
       else
         Option.bind (optional_field StudioSystem_deserialize ''system'' m) (\<lambda>sys.
         Option.bind (optional_field StudioPrint_deserialize ''print'' m) (\<lambda>prt.
         Some \<lparr>msg_system = sys, msg_print = prt\<rparr>)))"

subsection \<open>Fields\<close>

text \<open>\<open>str::parse::<u64>\<close> and \<open><u32>\<close>.\<close>

definition parse_u64 :: "string \<Rightarrow> u64 option" where
  "parse_u64 s = map_option of_nat (from_str_radix 10 (2 ^ 64) s)"

definition parse_u32 :: "string \<Rightarrow> u32 option" where
  "parse_u32 s = map_option of_nat (from_str_radix 10 (2 ^ 32) s)"

fun field_is_present :: "studio_field_presence \<Rightarrow> bool" where
  "field_is_present (FieldPresent _) = True"
| "field_is_present FieldAbsent = False"

fun is_absent_or_empty_string :: "studio_field_presence \<Rightarrow> bool" where
  "is_absent_or_empty_string FieldAbsent = True"
| "is_absent_or_empty_string (FieldPresent (FString v)) = (v = [])"
| "is_absent_or_empty_string (FieldPresent _) = False"

fun field_as_string :: "studio_field_presence \<Rightarrow> string option" where
  "field_as_string (FieldPresent (FString v)) = Some v"
| "field_as_string _ = None"

fun field_as_u64 :: "studio_field_presence \<Rightarrow> u64 option" where
  "field_as_u64 (FieldPresent (FUnsigned v)) = Some v"
| "field_as_u64 (FieldPresent (FString v)) = parse_u64 v"
| "field_as_u64 _ = None"

fun StudioU64_as_u64 :: "studio_u64 \<Rightarrow> u64 option" where
  "StudioU64_as_u64 (UNumber v) = Some v"
| "StudioU64_as_u64 (UString v) = parse_u64 v"

definition u32_try_from :: "u64 \<Rightarrow> u32 option" where
  "u32_try_from v = (if unat v < 2 ^ 32 then Some (ucast v) else None)"

definition u8_try_from :: "u64 \<Rightarrow> u8 option" where
  "u8_try_from v = (if unat v < 256 then Some (ucast v) else None)"

definition field_u32 :: "studio_u64 option \<Rightarrow> u32 option" where
  "field_u32 v = Option.bind v (\<lambda>v. Option.bind (StudioU64_as_u64 v) u32_try_from)"

definition optional_field_u32 :: "studio_u64 option \<Rightarrow> u32 option" where
  "optional_field_u32 v = Option.bind (Option.bind v StudioU64_as_u64) u32_try_from"

definition field_u16 :: "studio_u64 option \<Rightarrow> u16 option" where
  "field_u16 v = Option.bind v (\<lambda>v. Option.bind (StudioU64_as_u64 v) u16_try_from)"

subsection \<open>Operations\<close>

datatype studio_operation_parse = Operation printer_operation | Unsupported | InvalidNativeCandidate

text \<open>\<open>Option::map_or(default, Operation)\<close>.\<close>

definition operation_or :: "studio_operation_parse \<Rightarrow> printer_operation option \<Rightarrow> studio_operation_parse" where
  "operation_or other m = (case m of Some op \<Rightarrow> Operation op | None \<Rightarrow> other)"

definition StudioSystem_operation :: "studio_system \<Rightarrow> printer_operation option" where
  "StudioSystem_operation s =
     (if sys_command s \<noteq> ''ledctrl'' then None
      else if sys_led_node s \<noteq> Some ''chamber_light'' \<and> sys_led_node s \<noteq> Some ''chamber_light2'' then None
      else if sys_led_mode s = Some ''on'' then Some (SetChamberLight True)
      else if sys_led_mode s = Some ''off'' then Some (SetChamberLight False)
      else None)"

definition native_error_action :: "studio_print \<Rightarrow> print_error_action option" where
  "native_error_action p =
     (if prt_command p = ''resume'' then Some print_error_action.Resume
      else if prt_command p = ''ignore'' then Some print_error_action.Ignore
      else if prt_command p = ''stop'' then Some print_error_action.Stop
      else None)"

definition is_native_candidate :: "studio_print \<Rightarrow> print_error_action \<Rightarrow> bool" where
  "is_native_candidate p action \<longleftrightarrow>
     action = print_error_action.Ignore \<or> field_is_present (prt_err p) \<or>
     \<not> is_absent_or_empty_string (prt_param p)"

definition native_error_operation :: "studio_print \<Rightarrow> print_error_action \<Rightarrow> printer_operation option" where
  "native_error_operation p action =
     Option.bind (field_as_string (prt_param p)) (\<lambda>t.
       if t \<noteq> ''reserve'' then None
       else
         Option.bind (Option.bind (field_as_string (prt_err p)) parse_u32) (\<lambda>err.
         Option.bind (Option.bind (field_as_string (prt_sequence_id p)) parse_u64) (\<lambda>sequence.
         Option.bind (field_as_string (prt_job_id p)) (\<lambda>job.
         validated (HandlePrintError action err job sequence)))))"

definition gcode_line_operation :: "studio_print \<Rightarrow> printer_operation option" where
  "gcode_line_operation p =
     map_option (\<lambda>t. case parse_gcode_operation t of Some op \<Rightarrow> op | None \<Rightarrow> GcodeLine t)
       (field_as_string (prt_param p))"

definition xyz_ctrl_operation :: "studio_print \<Rightarrow> printer_operation option" where
  "xyz_ctrl_operation p =
     Option.bind (prt_axis p) (\<lambda>a. Option.bind (prt_dir p) (\<lambda>dir. Option.bind (prt_mode p) (\<lambda>mode.
       Some (MoveAxes
               [\<lparr>axis = operation_axis a,
                 delta_mm = Finite (StudioDirection_sign dir * StudioMoveMode_distance_mm mode)\<rparr>]
               None [BambuMqttAxisControl]))))"

definition ams_change_filament_operation :: "studio_print \<Rightarrow> printer_operation option" where
  "ams_change_filament_operation p =
     Option.bind (field_u32 (prt_ams_id p)) (\<lambda>ams_id.
     Option.bind (field_u32 (prt_slot_id p)) (\<lambda>slot_id.
     Option.bind (field_u32 (prt_target p)) (\<lambda>tgt.
       let extruder_id = optional_field_u32 (prt_extruder_id p)
       in if tgt = 255 \<and> slot_id = 255
          then Some (AmsUnloadFilament ams_id slot_id None None extruder_id)
          else Some (AmsLoadFilament ams_id slot_id (Some tgt) None extruder_id))))"

definition ordinary_operation :: "studio_print \<Rightarrow> printer_operation option" where
  "ordinary_operation p =
     (let command = prt_command p
      in if command = ''pause'' then Some printer_operation.Pause
         else if command = ''resume'' then Some printer_operation.Resume
         else if command = ''stop'' then Some printer_operation.Stop
         else if command = ''back_to_center'' then Some (Home [] [BambuMqttHoming])
         else if command = ''xyz_ctrl'' then xyz_ctrl_operation p
         else if command = ''gcode_line'' then gcode_line_operation p
         else if command = ''print_speed''
         then map_option SetPrintSpeed (Option.bind (field_as_u64 (prt_param p)) u8_try_from)
         else if command = ''select_extruder''
         then map_option SelectExtruder (field_u32 (prt_extruder_index p))
         else if command = ''set_nozzle_temp''
         then Option.bind (field_u16 (prt_target_temp p)) (\<lambda>t.
                map_option (\<lambda>e. SetHotendTemperature t False (Some e)) (field_u32 (prt_extruder_index p)))
         else if command = ''set_bed_temp''
         then map_option (\<lambda>t. SetBedTemperature t False) (field_u16 (prt_temp p))
         else if command = ''set_ctt''
         then map_option (\<lambda>t. SetChamberTemperature t False) (field_u16 (prt_ctt_val p))
         else if command = ''ams_get_rfid''
         then Option.bind (field_u32 (prt_ams_id p)) (\<lambda>a.
                map_option (\<lambda>s. AmsRereadRfid a s) (field_u32 (prt_slot_id p)))
         else if command = ''ams_change_filament'' then ams_change_filament_operation p
         else None)"

definition StudioPrint_operation :: "studio_print \<Rightarrow> studio_operation_parse" where
  "StudioPrint_operation p =
     (let ordinary = operation_or Unsupported (Option.bind (ordinary_operation p) validated)
      in case native_error_action p of
           Some action \<Rightarrow>
             if is_native_candidate p action
             then operation_or InvalidNativeCandidate (native_error_operation p action)
             else ordinary
         | None \<Rightarrow> ordinary)"

definition StudioMessage_operation :: "studio_message \<Rightarrow> studio_operation_parse" where
  "StudioMessage_operation m =
     (case (msg_system m, msg_print m) of
        (Some sys, None) \<Rightarrow> operation_or Unsupported (StudioSystem_operation sys)
      | (None, Some p) \<Rightarrow> StudioPrint_operation p
      | _ \<Rightarrow> Unsupported)"

definition parse_studio_value :: "json option \<Rightarrow> studio_operation_parse" where
  "parse_studio_value v =
     (case Option.bind v StudioMessage_deserialize of
        None \<Rightarrow> Unsupported
      | Some m \<Rightarrow> StudioMessage_operation m)"

definition parse_studio_json_operation :: "(string \<Rightarrow> json option) \<Rightarrow> string \<Rightarrow> studio_operation_parse" where
  "parse_studio_json_operation rd msg = parse_studio_value (rd msg)"

definition operation_json_from_gcode :: "(string \<Rightarrow> json option) \<Rightarrow> string \<Rightarrow> studio_operation_parse" where
  "operation_json_from_gcode rd msg =
     (case parse_studio_json_operation rd msg of
        Unsupported \<Rightarrow> operation_or Unsupported (parse_gcode_operation msg)
      | parsed \<Rightarrow> parsed)"

section \<open>Requests to the hub\<close>

datatype printer_operation_request =
    ReqPause
  | ReqResume
  | ReqStop
  | ReqGcodeLine string
  | ReqHandlePrintError print_error_action u32 string u64
  | ReqToggleLight
  | ReqSetChamberLight bool
  | ReqSetPrintSpeed u8
  | ReqSetFanSpeed u8 u8 bool
  | ReqSelectExtruder u32
  | ReqHome "printer_axis list option" "required_device_feature list"
  | ReqMoveAxes "printer_axis_movement list" "u32 option" "required_device_feature list"
  | ReqSetHotendTemperature u16 "bool option" "u32 option"
  | ReqSetBedTemperature u16 "bool option"
  | ReqSetChamberTemperature u16 "bool option"
  | ReqAmsRereadRfid u32 u32
  | ReqAmsLoadFilament u32 u32 "u32 option" "string option" "u32 option"
  | ReqAmsUnloadFilament u32 u32 "u32 option" "string option" "u32 option"
  | ReqAmsStartDrying u32 u16 u16 string bool
  | ReqAmsStopDrying u32
  | ReqNozzleHolderCtrl u32
  | ReqNozzleInfoConfirm u32
  | ReqHolderNozzleRefresh u32

definition unwrap_or :: "'a \<Rightarrow> 'a option \<Rightarrow> 'a" where
  "unwrap_or d m = (case m of Some x \<Rightarrow> x | None \<Rightarrow> d)"

primrec PrinterOperation_from_request :: "printer_operation_request \<Rightarrow> printer_operation" where
  "PrinterOperation_from_request ReqPause = printer_operation.Pause"
| "PrinterOperation_from_request ReqResume = printer_operation.Resume"
| "PrinterOperation_from_request ReqStop = printer_operation.Stop"
| "PrinterOperation_from_request (ReqGcodeLine p) = GcodeLine p"
| "PrinterOperation_from_request (ReqHandlePrintError a e j s) = HandlePrintError a e j s"
| "PrinterOperation_from_request ReqToggleLight = ToggleLight"
| "PrinterOperation_from_request (ReqSetChamberLight on) = SetChamberLight on"
| "PrinterOperation_from_request (ReqSetPrintSpeed m) = SetPrintSpeed m"
| "PrinterOperation_from_request (ReqSetFanSpeed i p a) = SetFanSpeed i p a"
| "PrinterOperation_from_request (ReqSelectExtruder e) = SelectExtruder e"
| "PrinterOperation_from_request (ReqHome a f) = Home (unwrap_or [] a) f"
| "PrinterOperation_from_request (ReqMoveAxes m f r) = MoveAxes m f r"
| "PrinterOperation_from_request (ReqSetHotendTemperature t w e) = SetHotendTemperature t (unwrap_or False w) e"
| "PrinterOperation_from_request (ReqSetBedTemperature t w) = SetBedTemperature t (unwrap_or False w)"
| "PrinterOperation_from_request (ReqSetChamberTemperature t w) = SetChamberTemperature t (unwrap_or False w)"
| "PrinterOperation_from_request (ReqAmsRereadRfid a s) = AmsRereadRfid a s"
| "PrinterOperation_from_request (ReqAmsLoadFilament a s t x e) = AmsLoadFilament a s t x e"
| "PrinterOperation_from_request (ReqAmsUnloadFilament a s t x e) = AmsUnloadFilament a s t x e"
| "PrinterOperation_from_request (ReqAmsStartDrying a t d f r) = AmsStartDrying a t d f r"
| "PrinterOperation_from_request (ReqAmsStopDrying a) = AmsStopDrying a"
| "PrinterOperation_from_request (ReqNozzleHolderCtrl a) = NozzleHolderCtrl a"
| "PrinterOperation_from_request (ReqNozzleInfoConfirm i) = NozzleInfoConfirm i"
| "PrinterOperation_from_request (ReqHolderNozzleRefresh i) = HolderNozzleRefresh i"

primrec PrinterOperationRequest_try_from :: "printer_operation \<Rightarrow> (printer_operation_request, unit) result" where
  "PrinterOperationRequest_try_from printer_operation.Pause = Ok ReqPause"
| "PrinterOperationRequest_try_from printer_operation.Resume = Ok ReqResume"
| "PrinterOperationRequest_try_from printer_operation.Stop = Ok ReqStop"
| "PrinterOperationRequest_try_from (GcodeLine p) = Ok (ReqGcodeLine p)"
| "PrinterOperationRequest_try_from (HandlePrintError a e j s) = Ok (ReqHandlePrintError a e j s)"
| "PrinterOperationRequest_try_from ToggleLight = Ok ReqToggleLight"
| "PrinterOperationRequest_try_from (SetChamberLight on) = Ok (ReqSetChamberLight on)"
| "PrinterOperationRequest_try_from (SetPrintSpeed m) = Ok (ReqSetPrintSpeed m)"
| "PrinterOperationRequest_try_from (SetFanSpeed i p a) = Ok (ReqSetFanSpeed i p a)"
| "PrinterOperationRequest_try_from (SelectExtruder e) = Ok (ReqSelectExtruder e)"
| "PrinterOperationRequest_try_from (Home a f) = Ok (ReqHome (Some a) f)"
| "PrinterOperationRequest_try_from (MoveAxes m f r) = Ok (ReqMoveAxes m f r)"
| "PrinterOperationRequest_try_from (SetHotendTemperature t w e) = Ok (ReqSetHotendTemperature t (Some w) e)"
| "PrinterOperationRequest_try_from (SetBedTemperature t w) = Ok (ReqSetBedTemperature t (Some w))"
| "PrinterOperationRequest_try_from (SetChamberTemperature t w) = Ok (ReqSetChamberTemperature t (Some w))"
| "PrinterOperationRequest_try_from (AmsRereadRfid a s) = Ok (ReqAmsRereadRfid a s)"
| "PrinterOperationRequest_try_from (AmsLoadFilament a s t x e) = Ok (ReqAmsLoadFilament a s t x e)"
| "PrinterOperationRequest_try_from (AmsUnloadFilament a s t x e) = Ok (ReqAmsUnloadFilament a s t x e)"
| "PrinterOperationRequest_try_from (AmsStartDrying a t d f r) = Ok (ReqAmsStartDrying a t d f r)"
| "PrinterOperationRequest_try_from (AmsStopDrying a) = Ok (ReqAmsStopDrying a)"
| "PrinterOperationRequest_try_from (NozzleHolderCtrl a) = Ok (ReqNozzleHolderCtrl a)"
| "PrinterOperationRequest_try_from (NozzleInfoConfirm i) = Ok (ReqNozzleInfoConfirm i)"
| "PrinterOperationRequest_try_from (HolderNozzleRefresh i) = Ok (ReqHolderNozzleRefresh i)"
| "PrinterOperationRequest_try_from (GetAutoNozzleMapping r) = Err ()"

record request_codec =
  rq_from_str :: "string \<Rightarrow> printer_operation_request option"
  rq_to_string :: "printer_operation_request \<Rightarrow> string"

definition parse_validated_request :: "request_codec \<Rightarrow> string \<Rightarrow> printer_operation_request option" where
  "parse_validated_request cd body =
     Option.bind (rq_from_str cd body) (\<lambda>request.
       if is_ok (validate (PrinterOperation_from_request request)) then Some request else None)"

definition request_json :: "request_codec \<Rightarrow> printer_operation \<Rightarrow> string option" where
  "request_json cd op = map_option (rq_to_string cd) (result_ok (PrinterOperationRequest_try_from op))"

record plugin_http_result =
  hr_status :: int
  hr_http_code :: nat
  hr_body :: string

definition PARSE_OPERATION :: int where "PARSE_OPERATION = 0"
definition PARSE_UNSUPPORTED :: int where "PARSE_UNSUPPORTED = 1"
definition PARSE_INVALID_NATIVE :: int where "PARSE_INVALID_NATIVE = 2"

definition stable_error_body :: "string \<Rightarrow> string" where
  "stable_error_body e = ''{'' @ [CHR 0x22] @ ''error'' @ [CHR 0x22, CHR 0x3A, CHR 0x22] @ e @ [CHR 0x22] @ ''}''"

text \<open>\<open>None\<close> is the panic of \<open>expect\<close>.\<close>

definition into_http_result :: "request_codec \<Rightarrow> studio_operation_parse \<Rightarrow> plugin_http_result option" where
  "into_http_result cd parsed =
     (case parsed of
        Operation op \<Rightarrow>
          map_option (\<lambda>body. \<lparr>hr_status = PARSE_OPERATION, hr_http_code = 200, hr_body = body\<rparr>)
            (request_json cd op)
      | Unsupported \<Rightarrow>
          Some \<lparr>hr_status = PARSE_UNSUPPORTED, hr_http_code = 400,
                hr_body = stable_error_body ''unsupported_printer_operation''\<rparr>
      | InvalidNativeCandidate \<Rightarrow>
          Some \<lparr>hr_status = PARSE_INVALID_NATIVE, hr_http_code = 400,
                hr_body = stable_error_body ''unsupported_printer_operation''\<rparr>)"

section \<open>What the parsers accept\<close>

lemmas decode_defs = parse_studio_value_def StudioMessage_deserialize_def StudioPrint_deserialize_def
  struct_members_def optional_field_def required_field_def presence_field_def one_member_def
  StudioMessage_operation_def StudioPrint_operation_def native_error_action_def is_native_candidate_def
  operation_or_def ordinary_operation_def

lemma validated_Some [simp]: "validated op = Some op' \<longleftrightarrow> op' = op \<and> validate op = Ok ()"
  by (auto simp: validated_def result_simps)

text \<open>An operation the hub accepts and the request type can carry.\<close>

definition sendable :: "printer_operation \<Rightarrow> bool" where
  "sendable op \<longleftrightarrow> validate op = Ok () \<and> (\<forall>r. op \<noteq> GetAutoNozzleMapping r)"

lemma try_from_sendable: "sendable op \<Longrightarrow> \<exists>r. PrinterOperationRequest_try_from op = Ok r"
  by (cases op) (auto simp: sendable_def)

lemma parse_home_sendable: "parse_home_operation c = Some op \<Longrightarrow> sendable op"
  by (auto simp: parse_home_operation_def sendable_def valid_home_features_def)

lemma parse_temperature_sendable: "parse_temperature_operation c k w = Some op \<Longrightarrow> sendable op"
  by (cases k)
    (auto simp: parse_temperature_operation_def sendable_def bind_eq_Some_conv split: option.splits)

lemma parse_move_sendable: "parse_move_axes_operation c = Some op \<Longrightarrow> sendable op"
  by (auto simp: parse_move_axes_operation_def sendable_def bind_eq_Some_conv
      split: if_splits option.splits)

lemma parse_single_sendable: "parse_single_command_operation c = Some op \<Longrightarrow> sendable op"
  by (auto simp: parse_single_command_operation_def parse_hotend_operation_def bind_eq_Some_conv
      intro: parse_home_sendable parse_temperature_sendable split: if_splits)

lemma parse_gcode_sendable: "parse_gcode_operation msg = Some op \<Longrightarrow> sendable op"
  by (auto simp: parse_gcode_operation_def intro: parse_single_sendable parse_move_sendable
      split: list.splits if_splits)

lemma operation_or_Operation [simp]:
  "operation_or d m = Operation op \<longleftrightarrow> m = Some op \<or> (m = None \<and> d = Operation op)"
  by (auto simp: operation_or_def split: option.splits)

lemma ordinary_not_mapping: "ordinary_operation p = Some op \<Longrightarrow> op \<noteq> GetAutoNozzleMapping r"
proof -
  have g: "gcode_line_operation p \<noteq> Some (GetAutoNozzleMapping r)"
    using parse_gcode_sendable by (fastforce simp: gcode_line_operation_def sendable_def split: option.splits)
  show "ordinary_operation p = Some op \<Longrightarrow> op \<noteq> GetAutoNozzleMapping r"
    by (auto simp: ordinary_operation_def Let_def bind_eq_Some_conv xyz_ctrl_operation_def
        ams_change_filament_operation_def g split: if_splits)
qed

lemma studio_print_sendable: "StudioPrint_operation p = Operation op \<Longrightarrow> sendable op"
  by (auto simp: StudioPrint_operation_def Let_def sendable_def bind_eq_Some_conv native_error_operation_def
      dest: ordinary_not_mapping split: option.splits if_splits)

lemma studio_value_sendable: "parse_studio_value v = Operation op \<Longrightarrow> sendable op"
proof -
  assume "parse_studio_value v = Operation op"
  then obtain m where m: "StudioMessage_operation m = Operation op"
    by (auto simp: parse_studio_value_def split: option.splits)
  have "StudioSystem_operation s = Some op \<Longrightarrow> sendable op" for s
    by (auto simp: StudioSystem_operation_def sendable_def split: if_splits)
  with m show ?thesis
    by (auto simp: StudioMessage_operation_def studio_print_sendable split: option.splits)
qed

lemma message_sendable: "operation_json_from_gcode rd msg = Operation op \<Longrightarrow> sendable op"
  by (auto simp: operation_json_from_gcode_def parse_studio_json_operation_def parse_gcode_sendable
      studio_value_sendable split: studio_operation_parse.splits)

text \<open>
  C27: whatever text Studio sends (and however its JSON is read), an operation the plugin reads
  from it passes the validation of printer operations, and the plugin's answer is always
  produced: the request serialisation that the code expects to succeed does succeed.
\<close>

theorem studio_message_answered:
  "(\<forall>op. operation_json_from_gcode rd msg = Operation op \<longrightarrow> validate op = Ok ()) \<and>
   into_http_result cd (operation_json_from_gcode rd msg) \<noteq> None"
proof (intro conjI allI impI)
  fix op
  assume "operation_json_from_gcode rd msg = Operation op"
  then show "validate op = Ok ()" using message_sendable by (auto simp: sendable_def)
next
  show "into_http_result cd (operation_json_from_gcode rd msg) \<noteq> None"
  proof (cases "operation_json_from_gcode rd msg")
    case (Operation op)
    then obtain r where "PrinterOperationRequest_try_from op = Ok r"
      using message_sendable try_from_sendable by blast
    with Operation show ?thesis by (simp add: into_http_result_def request_json_def)
  qed (simp_all add: into_http_result_def)
qed

text \<open>
  A valid operation survives the trip through its JSON request: if the JSON writer and reader
  of the request type agree, the text the plugin writes for the operation is read and validated as
  a request of exactly that operation.
\<close>

lemma request_roundtrip:
  assumes "\<And>r. PrinterOperationRequest_try_from op = Ok r \<Longrightarrow> rq_from_str cd (rq_to_string cd r) = Some r"
    and "validate op = Ok ()" and "request_json cd op = Some body"
  shows "\<exists>r. parse_validated_request cd body = Some r \<and> PrinterOperation_from_request r = op"
proof -
  obtain r where r: "PrinterOperationRequest_try_from op = Ok r" "body = rq_to_string cd r"
    using assms(3) by (auto simp: request_json_def result_simps)
  have "PrinterOperation_from_request r = op"
    using r(1) by (cases op) (auto simp: unwrap_or_def)
  then have "parse_validated_request cd body = Some r"
    using r(2) assms(1) [OF r(1)] assms(2) by (simp add: parse_validated_request_def)
  with \<open>PrinterOperation_from_request r = op\<close> show ?thesis by blast
qed

text \<open>A reader that knows two messages, and a codec for one request.\<close>

definition sample_reader :: "string \<Rightarrow> json option" where
  "sample_reader s =
     (if s = ''bed''
      then Some (JObject [(''print'', JObject [(''command'', JString ''set_bed_temp''), (''temp'', JNumber (PosInt 60))])])
      else None)"

definition sample_request_codec :: request_codec where
  "sample_request_codec =
     \<lparr>rq_from_str = (\<lambda>s. if s = ''bed'' then Some (ReqSetBedTemperature 60 (Some False)) else None),
      rq_to_string = (\<lambda>_. ''bed'')\<rparr>"

theorem studio_message_answered_witness:
  "operation_json_from_gcode sample_reader ''bed'' = Operation (SetBedTemperature 60 False) \<and>
   validate (SetBedTemperature 60 False) = Ok () \<and>
   into_http_result sample_request_codec (operation_json_from_gcode sample_reader ''bed'') \<noteq> None"
proof -
  have "operation_json_from_gcode sample_reader ''bed'' = Operation (SetBedTemperature 60 False)"
    by (simp add: operation_json_from_gcode_def parse_studio_json_operation_def sample_reader_def
        decode_defs field_u16_def u16_try_from_def validated_def is_ok_iff)
  then show ?thesis
    using studio_message_answered [of sample_reader "''bed''" sample_request_codec] by blast
qed

lemma request_roundtrip_witness:
  "\<exists>r. parse_validated_request sample_request_codec ''bed'' = Some r \<and>
     PrinterOperation_from_request r = SetBedTemperature 60 False"
  by (rule request_roundtrip) (auto simp: sample_request_codec_def request_json_def)

end
