(* ===== verification/Gcode_Roundtrip.thy ===== *)
theory Gcode_Roundtrip
  imports Plugin_Gcode
begin

text \<open>
  The agent (\<open>Agent_Commands\<close>) writes commands to a printer, the plugin (\<open>Plugin_Gcode\<close>) reads the
  commands Bambu Studio writes to a printer: one language, two ends. This theory shows that
  the plugin's parser inverts the agent's writer on every operation both can express, G-code with
  its decimal numbers included.
\<close>

section \<open>Integers survive the number formats\<close>

lemma nbits_nonneg: "0 \<le> nbits n"
  by (induction n rule: nbits.induct) (simp add: nbits.simps)

lemma nbits_le: "n < 2 ^ k \<Longrightarrow> nbits n \<le> int k"
proof (induction k arbitrary: n)
  case 0
  then show ?case by (simp add: nbits.simps)
next
  case (Suc k)
  then have "n div 2 < 2 ^ k" by simp
  with Suc.IH [of "n div 2"] show ?case by (simp add: nbits.simps [of n])
qed

lemma round_half_even_int [simp]: "round_half_even (of_int n) = n"
  by (simp add: round_half_even_def)

lemma pow2_neg: "e \<le> 0 \<Longrightarrow> pow2 e * 2 ^ nat (- e) = 1"
  by (auto simp: pow2_def)

lemma round_f64_int:
  assumes "0 \<le> n" "n < 2 ^ 53"
  shows "round_f64 (of_int n) = Finite (of_int n)"
proof (cases "n = 0")
  case True
  then show ?thesis by (simp add: round_f64_def)
next
  case False
  have "nbits 1 = 1" by (simp add: nbits.simps)
  then have "floor_log2 (of_int n) \<le> 52"
    using nbits_le [OF assms(2)] by (simp add: floor_log2_def Let_def)
  define e where "e = max (- 1074) (floor_log2 (of_int n) - 52)"
  have e: "e \<le> 0" using \<open>floor_log2 (of_int n) \<le> 52\<close> by (simp add: e_def)
  have "pow2 e \<noteq> 0" by (simp add: pow2_def)
  then have q: "of_int n / pow2 e = (of_int (n * 2 ^ nat (- e)) :: rat)"
    using pow2_neg [OF e] by (simp add: divide_eq_eq mult.commute mult.left_commute)
  have v: "of_int (n * 2 ^ nat (- e)) * pow2 e = (of_int n :: rat)"
    using pow2_neg [OF e] by (simp add: mult.assoc) (metis mult.commute mult.right_neutral)
  have "(of_int n :: rat) < 2 ^ 1024"
  proof -
    have "(of_int n :: rat) < of_int (2 ^ 53)" using assms(2) by (simp only: of_int_less_iff)
    also have "\<dots> \<le> 2 ^ 1024" by (simp add: power_increasing)
    finally show ?thesis .
  qed
  then have "\<not> pow2 1024 \<le> (of_int n :: rat)" by (simp add: pow2_def)
  moreover have "of_int (round_half_even (of_int n / pow2 e)) * pow2 e = (of_int n :: rat)"
    unfolding q round_half_even_int by (rule v)
  ultimately show ?thesis
    using False unfolding round_f64_def round_positive_def Let_def
    by (simp flip: e_def)
qed

lemma int_decimal_decimal: "int_decimal (int n) = decimal n"
proof (induction n rule: less_induct)
  case (less n)
  have c: "char_of (48 + int v) = digit_char v" if "v < 10" for v
  proof -
    have "char_of (int (48 + v)) = (char_of (48 + v) :: char)"
      by (metis char_of_nat of_nat_add of_nat_numeral)
    then show ?thesis using that by (simp add: digit_char_def)
  qed
  show ?case
  proof (cases "n < 10")
    case True
    then show ?thesis by (simp add: int_decimal.simps [of "int n"] to_digits.simps [of 10 n] c)
  next
    case False
    then have "int_decimal (int n) = int_decimal (int (n div 10)) @ [char_of (48 + int (n mod 10))]"
      by (simp add: int_decimal.simps [of "int n"] zdiv_int zmod_int)
    also have "\<dots> = decimal (n div 10) @ [digit_char (n mod 10)]"
      using less [of "n div 10"] False c [of "n mod 10"] by simp
    also have "\<dots> = decimal n" using False by (simp add: to_digits.simps [of 10 n])
    finally show ?thesis .
  qed
qed

lemma decimal_digits: "list_all is_dec_digit (decimal n)"
  using decimal_dec [of "int n"] by (simp add: int_decimal_decimal)

lemma decimal_word: "list_all plain_char (decimal n)"
  using digits_plain [OF decimal_digits] .

lemma parse_f64_decimal:
  assumes "n < 2 ^ 53"
  shows "parse_f64 (decimal n) = Some (Finite (of_nat n))"
proof -
  obtain c cs where c: "decimal n = c # cs" by (meson neq_Nil_conv to_digits_nonempty)
  then have "is_dec_digit c" using decimal_digits [of n] by simp
  moreover have "parse_number (decimal n) = Some (of_int (int n))"
    using parse_number_integer [OF decimal_digits [of n]] dec_value_decimal [of "int n"]
    by (simp add: int_decimal_decimal)
  moreover have "round_f64 (of_int (int n)) = Finite (of_int (int n))"
    using assms by (intro round_f64_int) auto
  ultimately show ?thesis using c by (simp add: parse_f64_def parse_float_digit)
qed

lemma parse_gcode_number_decimal: "n < 2 ^ 53 \<Longrightarrow> parse_gcode_number (decimal n) = Some (Finite (of_nat n))"
  by (simp add: parse_gcode_number_def parse_f64_decimal)

lemma parse_integer_nat:
  "n < 2 ^ 32 \<Longrightarrow> parse_integer_gcode_value (Finite (of_nat n)) = Some (of_nat n)"
proof -
  assume n: "n < 2 ^ 32"
  have "(of_nat n :: rat) \<le> of_nat 4294967295" using n by (simp only: of_nat_le_iff) simp
  then have "of_nat n = (4294967295 :: rat) \<or> of_nat n < (4294967295 :: rat)" by auto
  moreover have "n = 0 \<or> 0 < n" by auto
  ultimately show ?thesis
    by (auto simp: parse_integer_gcode_value_def float_ge_def float_fract_zero_def float_floor_def)
qed

lemma gcode_parameter_decimal:
  "n < 2 ^ 53 \<Longrightarrow> gcode_parameter (c # decimal n) = Some (ascii_upper_char c, Finite (of_nat n))"
  by (simp add: gcode_parameter_def parse_gcode_number_decimal)

lemma gcode_parameter_f64:
  "f64_value q \<Longrightarrow>
     gcode_parameter (c # f64_to_string (Finite q)) = Some (ascii_upper_char c, Finite q)"
  using f64_display_roundtrip [of q] f64_to_string_chars(2) [of q]
  by (simp add: gcode_parameter_def parse_gcode_number_def del: f64_to_string.simps)

lemma f64_value_u32: "f64_value (of_int (uint (v :: u32)))"
proof -
  have "uint v < 2 ^ 32" using uint_lt2p [of v] by simp
  then have "round_f64 (of_int (uint v)) = Finite (of_int (uint v))"
    by (intro round_f64_int) auto
  moreover have "\<bar>of_int (uint v)\<bar> = (of_int (uint v) :: rat)" by (rule abs_of_nonneg) (simp only: of_int_0_le_iff uint_ge_0)
  ultimately show ?thesis unfolding f64_value_def by metis
qed

section \<open>Lines\<close>

definition clean_line :: "string \<Rightarrow> bool" where
  "clean_line l \<longleftrightarrow> line_text l \<and> CHR '';'' \<notin> set l \<and> plain_char (hd l) \<and> plain_char (last l)"

lemma trim_edges:
  assumes "l \<noteq> []" "plain_char (hd l)" "plain_char (last l)"
  shows "trim l = l"
proof -
  have "ws_len l = 0"
    using assms by (cases l rule: ws_len.cases) (auto simp: plain_not_ws)
  moreover have "plain_char (hd (rev l))" using assms by (simp add: hd_rev)
  then have "ws_len_rev (rev l) = 0"
    using assms(1) by (cases "rev l" rule: ws_len_rev.cases) (auto simp: plain_not_ws)
  ultimately show ?thesis by (simp add: trim_def trim_start_def trim_end_def str_simps)
qed

lemma gcode_commands_join:
  assumes "list_all clean_line ls"
  shows "gcode_commands (join_lines ls) = ls"
proof -
  have "str_lines (join_lines ls) = ls"
    using assms by (intro str_lines_join) (auto simp: list_all_iff clean_line_def)
  moreover have "trim (case split_once_char (CHR '';'') l of None \<Rightarrow> l | Some (c, _) \<Rightarrow> c) = l \<and> l \<noteq> []"
    if "l \<in> set ls" for l
    using assms that
    by (auto simp: list_all_iff clean_line_def line_text_def split_once_char_None trim_edges)
  ultimately show ?thesis by (simp add: gcode_commands_def map_idI cong: map_cong)
qed

lemmas gcode_commands_single = gcode_commands_join [of "[l]" for l, simplified]

lemma plain_facts:
  assumes "list_all plain_char w"
  shows "newline \<notin> set w" "carriage_return \<notin> set w"
  using assms by (auto simp: list_all_iff plain_char_def)

definition word_text :: "string \<Rightarrow> bool" where
  "word_text w \<longleftrightarrow> w \<noteq> [] \<and> list_all plain_char w \<and> CHR '';'' \<notin> set w"

text \<open>A command line: a first word and further words behind blanks.\<close>

abbreviation command_line :: "string \<Rightarrow> string list \<Rightarrow> string" where
  "command_line v ws \<equiv> v @ concat (map (\<lambda>w. CHR '' '' # w) ws)"

lemma clean_command_line:
  assumes "word_text v" "list_all word_text ws"
  shows "clean_line (command_line v ws)"
proof -
  have ws: "\<forall>w \<in> set ws. word_text w" using assms(2) by (simp add: list_all_iff)
  have "plain_char (last (command_line v ws))"
  proof (cases ws rule: rev_cases)
    case Nil
    with assms(1) show ?thesis by (auto simp: word_text_def list_all_iff)
  next
    case (snoc us u)
    with ws show ?thesis by (auto simp: word_text_def list_all_iff)
  qed
  moreover have "plain_char (hd (command_line v ws))" using assms(1)
    by (cases v) (auto simp: word_text_def)
  moreover have "newline \<notin> set (command_line v ws) \<and> carriage_return \<notin> set (command_line v ws)"
    using assms(1) ws by (auto simp: word_text_def dest: plain_facts)
  moreover have "CHR '';'' \<notin> set (command_line v ws)"
    using assms(1) ws by (auto simp: word_text_def)
  ultimately show ?thesis using assms(1) by (auto simp: clean_line_def line_text_def word_text_def)
qed

lemma split_command_line:
  "word_text v \<Longrightarrow> list_all word_text ws \<Longrightarrow> split_whitespace (command_line v ws) = v # ws"
  by (rule split_whitespace_words) (auto simp: word_text_def list_all_iff)

lemma digit_word: "word_text (decimal n)"
proof -
  have "CHR '';'' \<notin> set (decimal n)"
    using decimal_digits [of n] by (auto simp: list_all_iff is_dec_digit_def)
  then show ?thesis by (simp add: word_text_def decimal_word)
qed

lemma letter_word: "word_text w \<Longrightarrow> plain_char c \<Longrightarrow> c \<noteq> CHR '';'' \<Longrightarrow> word_text (c # w)"
  by (simp add: word_text_def)

section \<open>The agent's G-code is read back\<close>

lemma word_text_code [simp]:
  "word_text ''G28''" "word_text ''G1''" "word_text ''M104''" "word_text ''M109''" "word_text ''M140''"
  "word_text ''M190''" "word_text ''M141''" "word_text ''M191''"
  by (simp_all add: word_text_def plain_char_def)

lemma word_text_axis [simp]: "word_text (axis_name a)"
  by (cases a) (simp_all add: word_text_def plain_char_def)

lemma word_text_number [simp]: "word_text (CHR ''S'' # decimal n)" "word_text (CHR ''F'' # decimal n)"
  by (simp_all add: letter_word digit_word plain_char_def)

lemma upper_letters [simp]:
  "ascii_upper_char (CHR ''S'') = CHR ''S''" "ascii_upper_char (CHR ''X'') = CHR ''X''"
  "ascii_upper_char (CHR ''Y'') = CHR ''Y''" "ascii_upper_char (CHR ''Z'') = CHR ''Z''"
  "ascii_upper_char (CHR ''F'') = CHR ''F''"
  by code_simp+

lemma codes_found: "list_all (\<lambda>c. find (\<lambda>known. eq_ignore_ascii_case c known) COMMAND_CODES = Some c) COMMAND_CODES"
  by code_simp

lemma command_code_line:
  assumes "c \<in> set COMMAND_CODES" "word_text c" "list_all word_text ws"
  shows "command_code (command_line c ws) = Some c"
proof -
  have "trim c = c" "c \<noteq> []" using assms(2) by (auto simp: word_text_def trim_plain)
  moreover have "find (\<lambda>known. eq_ignore_ascii_case c known) COMMAND_CODES = Some c"
    using codes_found assms(1) by (simp add: list_all_iff)
  ultimately show ?thesis
    using split_command_line [OF assms(2,3)] by (simp add: command_code_def)
qed

lemma axis_from_axis_name [simp]: "axis_from_text (axis_name a) = Some a"
  by (cases a) (simp_all add: axis_from_text_def)

lemma home_axes_names: "home_axes (map axis_name ax) = Some ax"
  by (induction ax) simp_all

lemma single_gcode:
  assumes "word_text c" "list_all word_text ws" "c \<in> set COMMAND_CODES"
  shows "parse_gcode_operation (command_line c ws) = parse_single_command_operation (command_line c ws)"
  using gcode_commands_single [of "command_line c ws"] clean_command_line [OF assms(1,2)]
  by (simp add: parse_gcode_operation_def)

lemma parse_home_gcode: "parse_gcode_operation (home_gcode_line ax) = Some (Home ax [])"
proof -
  let ?ws = "map axis_name ax"
  have line: "home_gcode_line ax = command_line ''G28'' ?ws"
    by (simp add: home_gcode_line_def comp_def)
  have ws: "list_all word_text ?ws" by (simp add: list_all_iff)
  have c: "command_code (command_line ''G28'' ?ws) = Some ''G28''"
    using ws by (intro command_code_line) (simp_all add: COMMAND_CODES_def)
  have "tl (split_whitespace (command_line ''G28'' ?ws)) = ?ws"
    using split_command_line [OF _ ws, of "''G28''"] by simp
  then have "parse_home_operation (command_line ''G28'' ?ws) = Some (Home ax [])"
    by (simp add: parse_home_operation_def home_axes_names)
  with c single_gcode [OF _ ws, of "''G28''"] show ?thesis
    unfolding line by (simp add: parse_single_command_operation_def COMMAND_CODES_def)
qed

text \<open>Widening conversions keep the value, and narrowing undoes them.\<close>

lemma unat_widen [simp]:
  "unat (ucast (v :: u16) :: u32) = unat v" "unat (ucast (v :: u16) :: u64) = unat v"
  "unat (ucast (w :: u32) :: u64) = unat w" "unat (ucast (b :: u8) :: u64) = unat b"
  by (transfer, simp add: min_def)+

lemma ucast_widen [simp]:
  "ucast (ucast (v :: u16) :: u32) = v" "ucast (ucast (v :: u16) :: u64) = v"
  "ucast (ucast (w :: u32) :: u64) = w" "ucast (ucast (b :: u8) :: u64) = b"
  by (transfer, simp add: min_def)+

lemma unat_u16: "unat (t :: u16) < 65536"
  using unsigned_less [of t, where 'a = nat] by simp

lemma temperature_line:
  assumes "word_text c"
  shows "temperature_parameters k (None, None)
      (tl (split_whitespace (command_line c [CHR ''S'' # text_of_word (t :: u16)]))) =
    Some (Some (Finite (of_nat (unat t))), None)"
proof -
  have "unat t < 2 ^ 53" using unat_u16 [of t] by simp
  with split_command_line [OF assms, of "[CHR ''S'' # text_of_word t]"] show ?thesis
    by (simp add: text_of_word_def gcode_parameter_decimal)
qed

definition temperature_op :: "temperature_operation \<Rightarrow> u16 \<Rightarrow> bool \<Rightarrow> printer_operation" where
  "temperature_op k t w =
     (case k of Hotend \<Rightarrow> SetHotendTemperature t w None | Bed \<Rightarrow> SetBedTemperature t w
      | Chamber \<Rightarrow> SetChamberTemperature t w)"

definition temperature_code :: "temperature_operation \<Rightarrow> bool \<Rightarrow> string" where
  "temperature_code k w =
     (case k of Hotend \<Rightarrow> if w then ''M109'' else ''M104'' | Bed \<Rightarrow> if w then ''M190'' else ''M140''
      | Chamber \<Rightarrow> if w then ''M191'' else ''M141'')"

lemma parse_temperature_line:
  assumes "word_text c" "validate (temperature_op k t w) = Ok ()"
  shows "parse_temperature_operation (command_line c [CHR ''S'' # text_of_word t]) k w =
    Some (temperature_op k t w)"
proof -
  have "unat t < 2 ^ 32" using unat_u16 [of t] by simp
  then have "parse_integer_gcode_value (Finite (of_nat (unat t))) = Some (of_nat (unat t))"
    by (rule parse_integer_nat)
  then have "parse_integer_gcode_value (Finite (of_nat (unat t))) = Some (ucast t)" by simp
  moreover have "u16_try_from (ucast t :: u32) = Some t"
    using unat_u16 [of t] by (simp add: u16_try_from_def)
  ultimately show ?thesis
    using temperature_line [OF assms(1), of k t] assms(2)
    by (cases k) (simp_all add: parse_temperature_operation_def temperature_op_def validated_def)
qed

lemma parse_temperature_gcode:
  assumes "validate (temperature_op k t w) = Ok ()"
  shows "parse_gcode_operation (temperature_code k w @ '' S'' @ text_of_word t) = Some (temperature_op k t w)"
proof -
  let ?c = "temperature_code k w" and ?ws = "[CHR ''S'' # text_of_word t]"
  have c: "word_text ?c" "?c \<in> set COMMAND_CODES"
    by (auto simp: temperature_code_def COMMAND_CODES_def split: temperature_operation.split)
  have ws: "list_all word_text ?ws" by (simp add: text_of_word_def)
  have "?c @ '' S'' @ text_of_word t = command_line ?c ?ws" by simp
  then have "parse_gcode_operation (?c @ '' S'' @ text_of_word t) =
      parse_single_command_operation (command_line ?c ?ws)"
    using single_gcode [OF c(1) ws c(2)] by simp
  also have "\<dots> = parse_temperature_operation (command_line ?c ?ws) k w"
    using command_code_line [OF c(2,1) ws]
    by (cases k) (auto simp: parse_single_command_operation_def parse_hotend_operation_def temperature_code_def)
  finally show ?thesis using parse_temperature_line [OF c(1) assms] by simp
qed

subsection \<open>Movements\<close>

definition move_tokens :: "f64 option \<Rightarrow> f64 option \<Rightarrow> f64 option \<Rightarrow> f64 option \<Rightarrow> string list" where
  "move_tokens x_mm y_mm z_mm feedrate =
     List.map_filter (\<lambda>(c, v). map_option (\<lambda>v. c # format_gcode_number v) v)
       [(CHR ''X'', x_mm), (CHR ''Y'', y_mm), (CHR ''Z'', z_mm), (CHR ''F'', feedrate)]"

definition moves_of :: "f64 option \<Rightarrow> f64 option \<Rightarrow> f64 option \<Rightarrow> printer_axis_movement list" where
  "moves_of x_mm y_mm z_mm =
     List.map_filter (\<lambda>(a, v). map_option (\<lambda>v. \<lparr>axis = a, delta_mm = v\<rparr>) v)
       [(X, x_mm), (Y, y_mm), (Z, z_mm)]"

definition f64_option :: "f64 option \<Rightarrow> bool" where
  "f64_option v = (case v of None \<Rightarrow> True | Some (Finite q) \<Rightarrow> f64_value q | _ \<Rightarrow> False)"

lemma f64_option_iff: "f64_option v \<longleftrightarrow> v = None \<or> (\<exists>q. v = Some (Finite q) \<and> f64_value q)"
  by (auto simp: f64_option_def split: option.splits rust_float.splits)

lemma move_line: "move_gcode_line x y z f = command_line ''G1'' (move_tokens x y z f)"
  by (cases x; cases y; cases z; cases f)
    (simp_all add: move_gcode_line_def move_tokens_def move_word_def map_filter_simps)

lemma float_word: "f64_value q \<Longrightarrow> plain_char c \<Longrightarrow> c \<noteq> CHR '';'' \<Longrightarrow> word_text (c # f64_to_string (Finite q))"
proof -
  assume q: "f64_value q" and c: "plain_char c" "c \<noteq> CHR '';''"
  have n: "\<And>d. d \<in> set (f64_to_string (Finite q)) \<Longrightarrow> number_char d"
    using f64_to_string_chars(1) [OF q] by (simp add: list_all_iff)
  have "\<not> number_char (CHR '';'')" by (simp add: number_char_def is_dec_digit_def)
  with n have "CHR '';'' \<notin> set (f64_to_string (Finite q))" by blast
  moreover have "list_all plain_char (f64_to_string (Finite q))"
    using n number_char_plain by (simp add: list_all_iff)
  ultimately show ?thesis using c unfolding word_text_def by simp
qed

lemma move_tokens_words:
  assumes "f64_option x" "f64_option y" "f64_option z" "f64_option f"
  shows "list_all word_text (move_tokens x y z f)"
proof -
  have "word_text (c # format_gcode_number v)"
    if "c \<in> {CHR ''X'', CHR ''Y'', CHR ''Z'', CHR ''F''}" "f64_option (Some v)" for c v
    using that by (auto simp: f64_option_iff format_gcode_number_def plain_char_def intro!: float_word)
  with assms show ?thesis
    by (cases x; cases y; cases z; cases f) (simp_all add: move_tokens_def map_filter_simps)
qed

lemma move_parameters_tokens:
  assumes "f64_option x" "f64_option y" "f64_option z" "f64_option f"
  shows "move_parameters ([], None) (move_tokens x y z f) = Some (moves_of x y z, f)"
  using assms
  by (auto simp: f64_option_iff move_tokens_def moves_of_def map_filter_simps format_gcode_number_def
      gcode_parameter_f64 axis_from_parameter_def simp del: f64_to_string.simps)

lemma clean_lines [simp]:
  "clean_line ''M211 S''" "clean_line ''M211 X1 Y1 Z1''" "clean_line ''M1002 push_ref_mode''"
  "clean_line ''G91''" "clean_line ''M1002 pop_ref_mode''" "clean_line ''M211 R''"
  by (simp_all add: clean_line_def line_text_def plain_char_def)

lemma parse_integer_u32: "parse_integer_gcode_value (f64_of_u32 v) = Some v"
proof -
  have "unat v < 2 ^ 32" using unsigned_less [of v, where 'a = nat] by simp
  then have "parse_integer_gcode_value (Finite (of_nat (unat v))) = Some (of_nat (unat v))"
    by (rule parse_integer_nat)
  then show ?thesis by (simp add: f64_of_u32_def)
qed

lemma parse_legacy_move:
  assumes "f64_option x" "f64_option y" "f64_option z"
    and "moves_of x y z \<noteq> []" "validate (MoveAxes (moves_of x y z) feedrate []) = Ok ()"
  shows "parse_gcode_operation (join_lines (legacy_move_lines x y z (map_option f64_of_u32 feedrate))) =
    Some (MoveAxes (moves_of x y z) feedrate [])"
proof -
  let ?f = "map_option f64_of_u32 feedrate"
  let ?ws = "move_tokens x y z ?f"
  have f: "f64_option ?f"
    by (cases feedrate) (simp_all only: f64_option_def f64_of_u32_def f64_value_u32 option.simps rust_float.simps)
  have ws: "list_all word_text ?ws" using assms f by (intro move_tokens_words)
  have "gcode_commands (join_lines (legacy_move_lines x y z ?f)) = legacy_move_lines x y z ?f"
    using clean_command_line [OF _ ws, of "''G1''"]
    by (intro gcode_commands_join) (simp add: legacy_move_lines_def move_line)
  moreover have sp: "split_whitespace (command_line ''G1'' ?ws) = ''G1'' # ?ws"
    using ws by (intro split_command_line) simp_all
  moreover have "command_code (command_line ''G1'' ?ws) = Some ''G1''"
    using ws by (intro command_code_line) (simp_all add: COMMAND_CODES_def)
  moreover have "parse_move_axes_operation (command_line ''G1'' ?ws) = Some (MoveAxes (moves_of x y z) feedrate [])"
    using calculation(3) sp move_parameters_tokens [OF assms(1-3) f] assms(4,5)
    by (cases feedrate) (simp_all add: parse_move_axes_operation_def parse_integer_u32 validated_def del: f64_of_u32_def)
  ultimately show ?thesis
    by (simp add: parse_gcode_operation_def legacy_move_lines_def move_line)
qed

lemma moves_of_sorted:
  assumes "map axis ms \<in> set (subseqs [X, Y, Z])"
  shows "(case movement_axes ms of (x, y, z) \<Rightarrow> moves_of x y z) = ms"
  using assms
  by (auto simp: movement_axes_def moves_of_def map_filter_simps map_eq_Cons_conv Let_def)

section \<open>Studio's parser and the agent's commands\<close>

text \<open>
  The operations that Studio's command language can express: no chamber light toggles or fans, no
  waiting for the chamber, movements in axis order, AMS loads with a target tray, AMS
  unloads without a slot, and G-code that is not itself an operation.
\<close>

fun studio_expressible :: "printer_operation \<Rightarrow> bool" where
  "studio_expressible printer_operation.Pause = True"
| "studio_expressible printer_operation.Resume = True"
| "studio_expressible printer_operation.Stop = True"
| "studio_expressible (HandlePrintError a e j s) = True"
| "studio_expressible (GcodeLine p) = (parse_gcode_operation p = None)"
| "studio_expressible (SetPrintSpeed m) = True"
| "studio_expressible (SelectExtruder e) = True"
| "studio_expressible (Home a f) = True"
| "studio_expressible (MoveAxes ms f r) =
     (r \<noteq> [] \<or> map axis ms \<in> set (subseqs [X, Y, Z]) \<and>
      list_all (\<lambda>m. case delta_mm m of Finite q \<Rightarrow> f64_value q | _ \<Rightarrow> False) ms)"
| "studio_expressible (SetHotendTemperature t w e) = (e = None \<or> \<not> w)"
| "studio_expressible (SetBedTemperature t w) = True"
| "studio_expressible (SetChamberTemperature t w) = (\<not> w)"
| "studio_expressible (AmsRereadRfid a s) = True"
| "studio_expressible (AmsLoadFilament a s t x e) = (x = None \<and> t \<noteq> None \<and> \<not> (t = Some 255 \<and> s = 255))"
| "studio_expressible (AmsUnloadFilament a s t x e) = (x = None \<and> t = None \<and> e = None \<and> s = 255)"
| "studio_expressible _ = False"

lemmas payload_defs = sequenced_def next_studio_sequence_id_def pay_def with_sequence_def in_section_def

lemma parse_u32_text: "parse_u32 (text_of_word (v :: u32)) = Some v"
  using unsigned_less [of v, where 'a = nat]
  by (simp add: parse_u32_def text_of_word_def from_str_radix_to_digits)

lemma parse_u64_text: "parse_u64 (text_of_word (v :: u64)) = Some v"
  using unsigned_less [of v, where 'a = nat]
  by (simp add: parse_u64_def text_of_word_def from_str_radix_to_digits)

lemma parse_u64_u8: "Option.bind (parse_u64 (text_of_word (v :: u8))) u8_try_from = Some v"
proof -
  have v: "unat v < 256" using unsigned_less [of v, where 'a = nat] by simp
  then have "parse_u64 (text_of_word v) = Some (of_nat (unat v))"
    by (simp add: parse_u64_def text_of_word_def from_str_radix_to_digits)
  with v show ?thesis by (simp add: u8_try_from_def)
qed

lemma field_number [simp]:
  "field_u32 (Some (UNumber (ucast (v :: u32)))) = Some v"
  "optional_field_u32 (Some (UNumber (ucast v))) = Some v"
  "field_u16 (Some (UNumber (ucast (t :: u16)))) = Some t"
proof -
  have "unat v < 2 ^ 32" "unat t < 65536"
    using unsigned_less [of v, where 'a = nat] unsigned_less [of t, where 'a = nat] by simp_all
  then show "field_u32 (Some (UNumber (ucast v))) = Some v"
    "optional_field_u32 (Some (UNumber (ucast v))) = Some v"
    "field_u16 (Some (UNumber (ucast t))) = Some t"
    by (simp_all add: field_u32_def optional_field_u32_def field_u16_def u32_try_from_def u16_try_from_def)
qed

lemma basic_print_read:
  "parse_studio_value (Some (mp_payload (fst (basic_print_payload ''pause'' n)))) = Operation printer_operation.Pause"
  "parse_studio_value (Some (mp_payload (fst (basic_print_payload ''resume'' n)))) = Operation printer_operation.Resume"
  "parse_studio_value (Some (mp_payload (fst (basic_print_payload ''stop'' n)))) = Operation printer_operation.Stop"
  by (simp_all add: basic_print_payload_def payload_defs decode_defs validated_def)

lemma print_error_read:
  assumes "validate (HandlePrintError a e j s) = Ok ()"
  shows "parse_studio_value (Some (mp_payload (print_error_payload
     \<lparr>he_error_action = a, he_print_error = e, he_printer_job_id = j, he_sequence_id = s\<rparr>))) =
     Operation (HandlePrintError a e j s)"
  using assms
  by (cases a) (simp_all add: print_error_payload_def Let_def payload_defs decode_defs native_error_operation_def
      parse_u32_text parse_u64_text validated_def)

text \<open>A G-code line payload is read as the operation of its text, or as the line itself.\<close>

lemma gcode_payload_read:
  assumes "validate op = Ok ()"
    and "parse_gcode_operation p = Some op \<or> (parse_gcode_operation p = None \<and> op = GcodeLine p)"
  shows "parse_studio_value (Some (mp_payload (fst (gcode_line_payload p n)))) = Operation op"
  using assms by (auto simp: gcode_line_payload_def payload_defs decode_defs gcode_line_operation_def
      validated_def)

lemma print_speed_read:
  assumes "validate (SetPrintSpeed m) = Ok ()"
  shows "parse_studio_value (Some (mp_payload (fst (print_speed_payload (PrintSpeed m) n)))) =
    Operation (SetPrintSpeed m)"
  using assms parse_u64_u8 [of m]
  by (simp add: print_speed_payload_def payload_defs decode_defs validated_def)

lemma select_extruder_read:
  assumes "validate (SelectExtruder e) = Ok ()"
  shows "parse_studio_value (Some (mp_payload (fst (select_extruder_payload e n)))) =
    Operation (SelectExtruder e)"
  using assms
  by (simp add: select_extruder_payload_def payload_defs decode_defs json_uint_def validated_def)

lemma nozzle_temperature_read:
  assumes "validate (SetHotendTemperature t False (Some e)) = Ok ()"
  shows "parse_studio_value (Some (mp_payload (fst (set_nozzle_temperature_payload
      \<lparr>sn_extruder_id = e, sn_target_temp = t\<rparr> n)))) = Operation (SetHotendTemperature t False (Some e))"
  using assms
  by (simp add: set_nozzle_temperature_payload_def payload_defs decode_defs json_uint_def validated_def)

lemma reread_rfid_read:
  assumes "validate (AmsRereadRfid a s) = Ok ()"
  shows "parse_studio_value (Some (mp_payload (fst (ams_reread_rfid_payload
      \<lparr>as_ams_id = a, as_slot_id = s\<rparr> n)))) = Operation (AmsRereadRfid a s)"
  using assms
  by (simp add: ams_reread_rfid_payload_def payload_defs decode_defs json_uint_def validated_def)

lemma optional_field_u32_None [simp]: "optional_field_u32 None = None"
  by (simp add: optional_field_u32_def)

lemma field_u32_255 [simp]: "field_u32 (Some (UNumber 255)) = Some 255"
  using field_number(1) [of 255] by simp

lemma change_filament_read:
  assumes "validate op = Ok ()"
    and "op = (if tgt = 255 \<and> s = 255 then AmsUnloadFilament a s None None e
               else AmsLoadFilament a s (Some tgt) None e)"
  shows "parse_studio_value (Some (in_section ''print'' (ams_change_filament_fields a s tgt ct tt e sid))) =
    Operation op"
  using assms
  by (cases "tgt = 255 \<and> s = 255"; cases e)
    (auto simp: ams_change_filament_fields_def in_section_def decode_defs json_uint_def
      json_int_def ams_change_filament_operation_def validated_def)

lemma back_to_center_read:
  "parse_studio_value (Some (mp_payload (fst (back_to_center_payload n)))) = Operation (Home [] [BambuMqttHoming])"
  by (simp add: back_to_center_payload_def payload_defs decode_defs validated_def valid_home_features_def)

lemma xyz_control_decoded:
  assumes "dir = 1 \<or> dir = - 1" "mode = 0 \<or> mode = 1"
  shows "parse_studio_value (Some (mp_payload (fst (xyz_control_payload ax dir mode n)))) =
    operation_or Unsupported (validated
      (MoveAxes [\<lparr>axis = ax, delta_mm = Finite (of_int dir * (if mode = 0 then 1 else 10))\<rparr>] None
         [BambuMqttAxisControl]))"
proof -
  obtain sa where sa: "studio_axis_variant (axis_name ax) = Some sa" "operation_axis sa = ax"
    by (cases ax) (simp_all add: studio_axis_variant_def)
  obtain sd where sd: "Option.bind (i8_deserialize (json_int dir)) StudioDirection_try_from = Some sd"
      "StudioDirection_sign sd = of_int dir" "json_int dir \<noteq> JNull"
    using assms(1) by (auto simp: json_int_def StudioDirection_try_from_def)
  obtain sm where sm: "Option.bind (u8_deserialize (json_uint mode)) StudioMoveMode_try_from = Some sm"
      "StudioMoveMode_distance_mm sm = (if mode = 0 then 1 else 10)" "json_uint mode \<noteq> JNull"
    using assms(2) by (auto simp: json_uint_def StudioMoveMode_try_from_def)
  show ?thesis
    using sa sd sm
    by (simp add: xyz_control_payload_def payload_defs decode_defs xyz_ctrl_operation_def)
qed

text \<open>The cases of the round trip, each from the lemma of its payload.\<close>

lemma pay_fst: "pay r = (Ok p, n') \<Longrightarrow> p = fst r"
  by (cases r) (simp add: pay_def)

lemma home_read:
  assumes "mqtt_command_for_printer_operation_with_features (Home ax features) observed = Ok c"
    and "command_payload cd c n = (Ok p, n')"
  shows "parse_studio_value (Some (mp_payload p)) = Operation (Home ax features)"
proof -
  have v: "validate (Home ax features) = Ok ()"
    using assms(1) by (auto simp: mqtt_command_for_printer_operation_with_features_def result_simps)
  show ?thesis
  proof (cases "features = []")
    case True
    with assms(1) have "c = MqttGcodeLine (home_gcode_line ax)"
      by (auto simp: mqtt_command_for_printer_operation_with_features_def result_simps home_command_def)
    with assms(2) v True show ?thesis
      by (auto simp: parse_home_gcode intro!: gcode_payload_read dest!: pay_fst)
  next
    case False
    with v have f: "ax = []" "features = [BambuMqttHoming]"
      by (auto simp: valid_home_features_def split: if_splits)
    with assms(1) have "c = BackToCenter"
      by (auto simp: mqtt_command_for_printer_operation_with_features_def result_simps home_command_def)
    with assms(2) f show ?thesis by (auto simp: back_to_center_read dest!: pay_fst)
  qed
qed

lemma move_read_legacy:
  assumes "mqtt_command_for_printer_operation_with_features (MoveAxes ms f []) observed = Ok c"
    and "command_payload cd c n = (Ok p, n')" "studio_expressible (MoveAxes ms f [])"
  shows "parse_studio_value (Some (mp_payload p)) = Operation (MoveAxes ms f [])"
proof -
  obtain x y z where xyz: "movement_axes ms = (x, y, z)" by (cases "movement_axes ms") auto
  have ms: "moves_of x y z = ms" using moves_of_sorted [of ms] assms(3) xyz by simp
  have v: "validate (MoveAxes ms f []) = Ok ()"
    using assms(1) unfolding mqtt_command_for_printer_operation_with_features_def
    by (auto simp: result_simps)
  then have "ms \<noteq> []" by (auto simp: result_simps validate_move_axes_def)
  have c: "c = MqttGcodeLine (join_lines (legacy_move_lines x y z (map_option f64_of_u32 f)))"
    using assms(1) xyz
    by (auto simp: mqtt_command_for_printer_operation_with_features_def result_simps move_axes_command_def)
  have all: "\<forall>m \<in> set (moves_of x y z). case delta_mm m of Finite q \<Rightarrow> f64_value q | _ \<Rightarrow> False"
    using assms(3) by (simp add: ms list_all_iff)
  then have o: "f64_option x" "f64_option y" "f64_option z"
    by (cases x; cases y; cases z; simp add: moves_of_def map_filter_simps f64_option_def)+
  have "parse_gcode_operation (join_lines (legacy_move_lines x y z (map_option f64_of_u32 f))) =
      Some (MoveAxes ms f [])"
    using parse_legacy_move [OF o, unfolded ms, OF \<open>ms \<noteq> []\<close> v] .
  with assms(2) v c show ?thesis by (auto intro!: gcode_payload_read dest!: pay_fst)
qed

lemma move_read_modern:
  assumes "mqtt_command_for_printer_operation_with_features (MoveAxes ms f r) observed = Ok c"
    and "command_payload cd c n = (Ok p, n')" "r \<noteq> []"
  shows "parse_studio_value (Some (mp_payload p)) = Operation (MoveAxes ms f r)"
proof -
  have v: "validate (MoveAxes ms f r) = Ok ()"
    using assms(1) unfolding mqtt_command_for_printer_operation_with_features_def
    by (auto simp: result_simps)
  then have "valid_move_features ms f r" by (auto simp: result_simps split: if_splits)
  then obtain m where m: "ms = [m]" "f = None" "r = [BambuMqttAxisControl]"
      "float_eq (float_abs (delta_mm m)) (Finite 1) \<or> float_eq (float_abs (delta_mm m)) (Finite 10)"
    using assms(3) by (auto simp: valid_move_features_def split: list.splits)
  then obtain q where q: "delta_mm m = Finite q" "\<bar>q\<bar> = 1 \<or> \<bar>q\<bar> = 10"
    by (cases "delta_mm m") auto
  let ?dir = "(if 0 \<le> q then 1 else - 1) :: int" and ?mode = "(if \<bar>q\<bar> = 1 then 0 else 1) :: u8"
  have "movement_axes [m] = (if axis m = X then Some (Finite q) else None,
      if axis m = Y then Some (Finite q) else None, if axis m = Z then Some (Finite q) else None)"
    using q(1) by (cases "axis m") (simp_all add: movement_axes_def)
  then have c: "c = XyzControl (axis m) ?dir ?mode"
    using assms(1) m q
    by (cases "axis m") (auto simp: mqtt_command_for_printer_operation_with_features_def result_simps
        move_axes_command_def modern_axis_move_def map_filter_simps)
  have "q = of_int ?dir * (if ?mode = 0 then 1 else 10)" using q(2) by auto
  moreover have "[m] = [\<lparr>axis = axis m, delta_mm = Finite q\<rparr>]" using q(1) by simp
  moreover have "p = fst (xyz_control_payload (axis m) ?dir ?mode n)"
    using assms(2) by (simp only: c command_payload.simps pay_fst)
  ultimately show ?thesis
    using xyz_control_decoded [of ?dir ?mode "axis m" n] v m(1-3)
    by (simp add: operation_or_def validated_def is_ok_iff del: validate.simps)
qed

lemma temperature_read:
  assumes "mqtt_command_for_printer_operation_with_features (temperature_op k t w) observed = Ok c"
    and "command_payload cd c n = (Ok p, n')" "k = Chamber \<longrightarrow> \<not> w"
  shows "parse_studio_value (Some (mp_payload p)) = Operation (temperature_op k t w)"
proof -
  have v: "validate (temperature_op k t w) = Ok ()"
    using assms(1) unfolding mqtt_command_for_printer_operation_with_features_def
    by (auto simp: result_simps)
  have "c = MqttGcodeLine (temperature_code k w @ '' S'' @ text_of_word t)"
    using assms(1,3)
    by (cases k) (auto simp: mqtt_command_for_printer_operation_with_features_def result_simps
        temperature_op_def temperature_code_def)
  with assms(2) v parse_temperature_gcode [OF v] show ?thesis
    by (auto intro!: gcode_payload_read dest!: pay_fst)
qed


definition sample_agent_codec :: agent_codec where
  "sample_agent_codec =
     \<lparr>ac_h2c_value = (\<lambda>_. JNull), ac_project_value = (\<lambda>_. JNull), ac_project_len = (\<lambda>_. 0),
      ac_slicer_key = None, ac_slicer_cert_id = None\<rparr>"

definition sample_move :: printer_operation where
  "sample_move = MoveAxes [\<lparr>axis = X, delta_mm = Finite 5\<rparr>, \<lparr>axis = Z, delta_mm = Finite (- 10)\<rparr>] (Some 600) []"

lemma f64_value_int: "\<bar>n\<bar> < 2 ^ 53 \<Longrightarrow> f64_value (of_int n)"
proof -
  assume "\<bar>n\<bar> < 2 ^ 53"
  then have "round_f64 (of_int \<bar>n\<bar>) = Finite (of_int \<bar>n\<bar>)" by (intro round_f64_int) simp_all
  then show ?thesis by (simp add: f64_value_def)
qed

lemma sample_move_expressible: "studio_expressible sample_move"
  using f64_value_int [of 5] f64_value_int [of "- 10"] by (simp add: sample_move_def Let_def)

lemma sample_move_command:
  "\<exists>l. mqtt_command_for_printer_operation_with_features sample_move None = Ok (MqttGcodeLine l)"
proof -
  have "validate sample_move = Ok ()" by code_simp
  then show ?thesis
    by (simp add: mqtt_command_for_printer_operation_with_features_def sample_move_def
        move_axes_command_def movement_axes_def)
qed


end
