(* ===== verification/Agent_Dispatch.thy ===== *)
theory Agent_Dispatch
  imports Agent_Commands Serde
begin

text \<open>
  Dispatching an operation to a printer: \<open>crates/pandar-agent/src/machine/operations.rs\<close> with
  \<open>operations/report.rs\<close> (reading the printer's answer), \<open>operations/light.rs\<close> (the chamber light)
  and \<open>operate_printer_with_feature_selection\<close> of \<open>operations/axis.rs\<close> (the gate on device
  features).

  The MQTT connection is an environment: whether subscribing and publishing succeed, and the
  reports that arrive before a wait times out (or the connection fails), in order. The feature
  cache is an environment too: what it holds at each of the points where the code reads it.
  Further parameters: the text of a floating-point JSON number and the reader of H2C responses.
\<close>

section \<open>Reports\<close>

datatype sequence_id = SeqString string | SeqNumber json_number

record operation_section =
  os_sequence_id :: "sequence_id option"
  os_result :: "json option"
  os_err_code :: "json option"
  os_errno :: "json option"
  os_reason :: "json option"
  os_message :: "json option"
  os_msg :: "json option"
  os_error :: "json option"
  os_extra :: json_object

record operation_envelope =
  oe_print :: "operation_section option"
  oe_info :: "operation_section option"
  oe_pushing :: "operation_section option"
  oe_system :: "operation_section option"
  oe_camera :: "operation_section option"
  oe_extra :: json_object

record report_codec =
  rc_float_text :: "f64 \<Rightarrow> string"
  rc_h2c_response :: "json \<Rightarrow> h2c_response_envelope option"

fun SequenceId_deserialize :: "json \<Rightarrow> sequence_id option" where
  "SequenceId_deserialize (JString s) = Some (SeqString s)"
| "SequenceId_deserialize (JNumber n) = Some (SeqNumber n)"
| "SequenceId_deserialize _ = None"

text \<open>The members that are not fields of the struct are collected (\<open>#[serde(flatten)]\<close>).\<close>

definition flattened :: "string list \<Rightarrow> json_object \<Rightarrow> json_object" where
  "flattened names m = filter (\<lambda>(k, _). k \<notin> set names) m"

definition SECTION_FIELDS :: "string list" where
  "SECTION_FIELDS = [''sequence_id'', ''result'', ''err_code'', ''errno'', ''reason'', ''message'', ''msg'', ''error'']"

definition OperationSection_deserialize :: "json \<Rightarrow> operation_section option" where
  "OperationSection_deserialize v =
     Option.bind (as_object v) (\<lambda>m.
     Option.bind (optional_field SequenceId_deserialize ''sequence_id'' m) (\<lambda>sid.
     Option.bind (optional_field Some ''result'' m) (\<lambda>result.
     Option.bind (optional_field Some ''err_code'' m) (\<lambda>err_code.
     Option.bind (optional_field Some ''errno'' m) (\<lambda>errno.
     Option.bind (optional_field Some ''reason'' m) (\<lambda>reason.
     Option.bind (optional_field Some ''message'' m) (\<lambda>message'.
     Option.bind (optional_field Some ''msg'' m) (\<lambda>msg.
     Option.bind (optional_field Some ''error'' m) (\<lambda>error.
     Some \<lparr>os_sequence_id = sid, os_result = result, os_err_code = err_code, os_errno = errno,
           os_reason = reason, os_message = message', os_msg = msg, os_error = error,
           os_extra = flattened SECTION_FIELDS m\<rparr>)))))))))"

definition OperationReport_from_payload :: "json \<Rightarrow> operation_envelope option" where
  "OperationReport_from_payload v =
     Option.bind (as_object v) (\<lambda>m.
     Option.bind (optional_field OperationSection_deserialize ''print'' m) (\<lambda>prt.
     Option.bind (optional_field OperationSection_deserialize ''info'' m) (\<lambda>info.
     Option.bind (optional_field OperationSection_deserialize ''pushing'' m) (\<lambda>pushing.
     Option.bind (optional_field OperationSection_deserialize ''system'' m) (\<lambda>sys.
     Option.bind (optional_field OperationSection_deserialize ''camera'' m) (\<lambda>camera.
     Some \<lparr>oe_print = prt, oe_info = info, oe_pushing = pushing, oe_system = sys, oe_camera = camera,
           oe_extra = flattened [''print'', ''info'', ''pushing'', ''system'', ''camera''] m\<rparr>))))))"

fun number_to_string :: "report_codec \<Rightarrow> json_number \<Rightarrow> string" where
  "number_to_string cd (PosInt n) = text_of_word n"
| "number_to_string cd (NegInt n) = CHR ''-'' # int_decimal (- n)"
| "number_to_string cd (Float x) = rc_float_text cd x"

fun SequenceId_as_string :: "report_codec \<Rightarrow> sequence_id \<Rightarrow> string" where
  "SequenceId_as_string cd (SeqString s) = s"
| "SequenceId_as_string cd (SeqNumber n) = number_to_string cd n"

fun SequenceId_into_payload :: "sequence_id \<Rightarrow> json" where
  "SequenceId_into_payload (SeqString s) = JString s"
| "SequenceId_into_payload (SeqNumber n) = JNumber n"

definition report_sequence_id :: "report_codec \<Rightarrow> operation_envelope \<Rightarrow> string option" where
  "report_sequence_id cd env =
     map_option (SequenceId_as_string cd)
       (List.find (\<lambda>_. True)
          (List.map_filter (\<lambda>s. Option.bind s os_sequence_id)
             [oe_print env, oe_info env, oe_pushing env, oe_system env, oe_camera env]))"

definition answer_section :: "operation_envelope \<Rightarrow> operation_section option" where
  "answer_section env = or_else (oe_print env) (oe_system env)"

definition report_command :: "operation_envelope \<Rightarrow> string option" where
  "report_command env =
     Option.bind (answer_section env) (\<lambda>s. Option.bind (map_of (os_extra s) ''command'') as_str)"

fun payload_i64 :: "json \<Rightarrow> i64 option" where
  "payload_i64 (JNumber (PosInt n)) = (if unat n < 2 ^ 63 then Some (int (unat n)) else None)"
| "payload_i64 (JNumber (NegInt n)) = Some n"
| "payload_i64 _ = None"

definition report_error_message :: "operation_section \<Rightarrow> string option" where
  "report_error_message s =
     List.find (\<lambda>t. t \<noteq> [])
       (map trim
          (List.map_filter (\<lambda>m. Option.bind m as_str) [os_reason s, os_message s, os_msg s, os_error s]))"

definition i64_text :: "i64 \<Rightarrow> string" where
  "i64_text n = (if n < 0 then CHR ''-'' # int_decimal (- n) else int_decimal n)"

definition nonzero_code :: "string \<Rightarrow> json option \<Rightarrow> string option" where
  "nonzero_code key v =
     Option.bind (Option.bind v payload_i64) (\<lambda>code.
       if code \<noteq> 0 then Some (''printer reported '' @ key @ '' '' @ i64_text code) else None)"

definition report_error :: "operation_envelope \<Rightarrow> string option" where
  "report_error env =
     Option.bind (answer_section env) (\<lambda>s.
       let described = (\<lambda>other. case report_error_message s of Some t \<Rightarrow> t | None \<Rightarrow> other);
           result = Option.bind (os_result s) as_str
       in if result = Some ''fail'' \<or> result = Some ''failed''
          then Some (described ''printer reported failure'')
          else map_option described
                 (or_else (nonzero_code ''err_code'' (os_err_code s)) (nonzero_code ''errno'' (os_errno s))))"

record mqtt_summary =
  su_result :: "json option"
  su_reason :: "json option"
  su_err_code :: "json option"
  su_errno :: "json option"

definition report_summary :: "operation_envelope \<Rightarrow> mqtt_summary option" where
  "report_summary env =
     map_option (\<lambda>s. \<lparr>su_result = os_result s, su_reason = os_reason s, su_err_code = os_err_code s,
                      su_errno = os_errno s\<rparr>) (answer_section env)"

definition insert_payload :: "string \<Rightarrow> json option \<Rightarrow> json_object \<Rightarrow> json_object" where
  "insert_payload k v m = (case v of Some p \<Rightarrow> obj_insert k p m | None \<Rightarrow> m)"

definition OperationSection_into_payload :: "operation_section \<Rightarrow> json" where
  "OperationSection_into_payload s =
     JObject
       (insert_payload ''error'' (os_error s) (insert_payload ''msg'' (os_msg s)
         (insert_payload ''message'' (os_message s) (insert_payload ''reason'' (os_reason s)
           (insert_payload ''errno'' (os_errno s) (insert_payload ''err_code'' (os_err_code s)
             (insert_payload ''result'' (os_result s)
               (insert_payload ''sequence_id'' (map_option SequenceId_into_payload (os_sequence_id s))
                  (os_extra s)))))))))"

definition insert_section :: "string \<Rightarrow> operation_section option \<Rightarrow> json_object \<Rightarrow> json_object" where
  "insert_section k s m = insert_payload k (map_option OperationSection_into_payload s) m"

definition into_payload :: "operation_envelope \<Rightarrow> json" where
  "into_payload env =
     JObject
       (insert_section ''camera'' (oe_camera env) (insert_section ''system'' (oe_system env)
         (insert_section ''pushing'' (oe_pushing env) (insert_section ''info'' (oe_info env)
           (insert_section ''print'' (oe_print env) (oe_extra env))))))"

definition auto_nozzle_mapping_response :: "report_codec \<Rightarrow> operation_envelope \<Rightarrow> h2c_response_envelope option" where
  "auto_nozzle_mapping_response cd env = rc_h2c_response cd (into_payload env)"

section \<open>Waiting for the answer\<close>

text \<open>
  The loop over the arriving reports; the end of the list is the time-out. The first report
  without error wins; failures are only returned once every command has failed.
\<close>

fun matching_sequence_report ::
  "report_codec \<Rightarrow> string list \<Rightarrow> string option \<Rightarrow> (string \<times> operation_envelope) list \<Rightarrow> json list \<Rightarrow>
   (string \<times> operation_envelope) option" where
  "matching_sequence_report cd ids expected failures [] = None"
| "matching_sequence_report cd ids expected failures (payload # reports) =
     (case Option.bind (OperationReport_from_payload payload)
             (\<lambda>report. map_option (\<lambda>sid. (sid, report)) (report_sequence_id cd report)) of
        None \<Rightarrow> matching_sequence_report cd ids expected failures reports
      | Some (sid, report) \<Rightarrow>
          if sid \<notin> set ids \<or> (expected \<noteq> None \<and> report_command report \<noteq> expected)
          then matching_sequence_report cd ids expected failures reports
          else if report_error report = None then Some (sid, report)
          else (let failures = failures @ [(sid, report)]
                in if length failures = length ids then Some (hd failures)
                   else matching_sequence_report cd ids expected failures reports))"

section \<open>The chamber light\<close>

definition BAMBU_STUDIO_CHAMBER_LIGHT_NODES :: "string list" where
  "BAMBU_STUDIO_CHAMBER_LIGHT_NODES = [''chamber_light'', ''chamber_light2'']"

record light_report =
  lr_node :: "string option"
  lr_mode :: "string option"

definition LightReport_deserialize :: "json \<Rightarrow> light_report option" where
  "LightReport_deserialize v =
     Option.bind (struct_members [''node'', ''mode''] v) (\<lambda>m.
     Option.bind (optional_field as_str ''node'' m) (\<lambda>node.
     Option.bind (optional_field as_str ''mode'' m) (\<lambda>mode.
     Some \<lparr>lr_node = node, lr_mode = mode\<rparr>)))"

text \<open>\<open>PrinterReport\<close>: the lights of the print section, if it has one.\<close>

definition parse_printer_report :: "json \<Rightarrow> light_report list option option" where
  "parse_printer_report v =
     Option.bind (struct_members [''print''] v) (\<lambda>m.
     map_option (\<lambda>section. Option.bind section id)
       (optional_field
          (\<lambda>p. Option.bind (struct_members [''lights_report''] p)
                 (optional_field (vec_deserialize LightReport_deserialize) ''lights_report''))
          ''print'' m))"

fun chamber_light_on :: "bool option \<Rightarrow> light_report list \<Rightarrow> bool option" where
  "chamber_light_on on [] = on"
| "chamber_light_on on (light # lights) =
     (if lr_node light = Some ''chamber_light'' \<or> (lr_node light = Some ''chamber_light2'' \<and> on = None)
      then chamber_light_on (Some (lr_mode light = Some ''on'')) lights
      else chamber_light_on on lights)"

definition chamber_light_report :: "light_report list option \<Rightarrow> bool option" where
  "chamber_light_report lights = Option.bind lights (chamber_light_on None)"

fun latest_chamber_light_report :: "json list \<Rightarrow> bool option" where
  "latest_chamber_light_report [] = None"
| "latest_chamber_light_report (payload # reports) =
     (case Option.bind (parse_printer_report payload) chamber_light_report of
        Some on \<Rightarrow> Some on
      | None \<Rightarrow> latest_chamber_light_report reports)"

section \<open>Dispatch\<close>

datatype dispatch_error =
    CommandError agent_error
  | SubscribeFailed
  | PublishFailed
  | LightReportUnavailable
  | MappingUnavailable
  | MappingUndecodable
  | MappingInvalid

record mqtt_session =
  ms_subscribe :: bool
  ms_publish :: "json \<Rightarrow> bool"
  ms_light_reports :: "json list"
  ms_reports :: "json list"

record dispatch_result =
  dr_sequence_id :: "string option"
  dr_mqtt_report :: "json option"
  dr_mqtt_summary :: "mqtt_summary option"
  dr_error :: "string option"

definition dispatched :: dispatch_result where
  "dispatched = \<lparr>dr_sequence_id = None, dr_mqtt_report = None, dr_mqtt_summary = None, dr_error = None\<rparr>"

text \<open>What reaches the printer: the payloads published, in order, also before a failure.\<close>

type_synonym 'a published = "json list \<times> ('a, dispatch_error) result \<times> u32"

fun publish_all :: "mqtt_session \<Rightarrow> json list \<Rightarrow> json list \<times> bool" where
  "publish_all env [] = ([], True)"
| "publish_all env (p # ps) =
     (if ms_publish env p then (case publish_all env ps of (sent, ok) \<Rightarrow> (p # sent, ok)) else ([], False))"

definition chamber_light_commands ::
  "agent_codec \<Rightarrow> mqtt_session \<Rightarrow> bool option \<Rightarrow> u32 \<Rightarrow> (bambu_mqtt_command list) published" where
  "chamber_light_commands cd env requested_on counter =
     (case command_payload cd RequestPushAll counter of
        (Err e, counter) \<Rightarrow> ([], Err (CommandError e), counter)
      | (Ok p, counter) \<Rightarrow>
          if \<not> ms_publish env (mp_payload p) then ([], Err PublishFailed, counter)
          else (case latest_chamber_light_report (ms_light_reports env) of
                  None \<Rightarrow> ([mp_payload p], Err LightReportUnavailable, counter)
                | Some on \<Rightarrow>
                    ([mp_payload p],
                     Ok (chamber_light_commands_for_nodes BAMBU_STUDIO_CHAMBER_LIGHT_NODES
                           (case requested_on of Some r \<Rightarrow> r | None \<Rightarrow> \<not> on)),
                     counter)))"

definition select_commands ::
  "agent_codec \<Rightarrow> mqtt_session \<Rightarrow> printer_operation \<Rightarrow> bambu_device_features option \<Rightarrow> u32 \<Rightarrow>
   (bambu_mqtt_command list) published" where
  "select_commands cd env op observed counter =
     (case op of
        ToggleLight \<Rightarrow> chamber_light_commands cd env None counter
      | SetChamberLight on \<Rightarrow> chamber_light_commands cd env (Some on) counter
      | _ \<Rightarrow>
          ([], map_err CommandError
                 (and_then (mqtt_command_for_printer_operation_with_features op observed) (\<lambda>c. Ok [c])),
           counter))"

fun command_payloads ::
  "agent_codec \<Rightarrow> bambu_mqtt_command list \<Rightarrow> u32 \<Rightarrow>
   (bambu_mqtt_command_payload list, agent_error) result \<times> u32" where
  "command_payloads cd [] counter = (Ok [], counter)"
| "command_payloads cd (c # cs) counter =
     (case command_payload cd c counter of
        (Err e, counter) \<Rightarrow> (Err e, counter)
      | (Ok p, counter) \<Rightarrow>
          (case command_payloads cd cs counter of
             (Err e, counter) \<Rightarrow> (Err e, counter)
           | (Ok ps, counter) \<Rightarrow> (Ok (p # ps), counter)))"

definition expected_auto_mapping :: "printer_operation \<Rightarrow> h2c_request option" where
  "expected_auto_mapping op = (case op of GetAutoNozzleMapping request \<Rightarrow> Some request | _ \<Rightarrow> None)"

text \<open>The answer to a dispatched command.\<close>

definition dispatch_answer ::
  "report_codec \<Rightarrow> json list \<Rightarrow> string list \<Rightarrow> h2c_request option \<Rightarrow> (dispatch_result, dispatch_error) result" where
  "dispatch_answer rc reports ids expected =
     (if ids = [] then Ok dispatched
      else case matching_sequence_report rc ids
                  (map_option (\<lambda>_. ''get_auto_nozzle_mapping'') expected) [] reports of
             Some (sid, report) \<Rightarrow>
               and_then
                 (case expected of
                    None \<Rightarrow> Ok ()
                  | Some request \<Rightarrow>
                      and_then (ok_or (auto_nozzle_mapping_response rc report) MappingUndecodable)
                        (\<lambda>response. if \<not> is_valid_for response request then Err MappingInvalid else Ok ()))
                 (\<lambda>_. Ok \<lparr>dr_sequence_id = Some sid, dr_mqtt_report = Some (into_payload report),
                          dr_mqtt_summary = report_summary report, dr_error = report_error report\<rparr>)
           | None \<Rightarrow>
               (case expected of
                  Some _ \<Rightarrow> Err MappingUnavailable
                | None \<Rightarrow> Ok \<lparr>dr_sequence_id = Some (last ids), dr_mqtt_report = None,
                              dr_mqtt_summary = None, dr_error = None\<rparr>))"

definition dispatch_printer_operation ::
  "agent_codec \<Rightarrow> report_codec \<Rightarrow> mqtt_session \<Rightarrow> printer_operation \<Rightarrow> bambu_device_features option \<Rightarrow>
   u32 \<Rightarrow> dispatch_result published" where
  "dispatch_printer_operation cd rc env op observed counter =
     (if \<not> ms_subscribe env then ([], Err SubscribeFailed, counter)
      else case select_commands cd env op observed counter of
             (sent, Err e, counter) \<Rightarrow> (sent, Err e, counter)
           | (sent, Ok commands, counter) \<Rightarrow>
               (case command_payloads cd commands counter of
                  (Err e, counter) \<Rightarrow> (sent, Err (CommandError e), counter)
                | (Ok payloads, counter) \<Rightarrow>
                    (case publish_all env (map mp_payload payloads) of
                       (sent', False) \<Rightarrow> (sent @ sent', Err PublishFailed, counter)
                     | (sent', True) \<Rightarrow>
                         (sent @ sent',
                          dispatch_answer rc (ms_reports env) (List.map_filter mp_sequence_id payloads)
                            (expected_auto_mapping op),
                          counter))))"

section \<open>Device features\<close>

datatype operate_error =
    Dispatch dispatch_error
  | OperationInvalid printer_operation_validation_error
  | NoEventSender
  | ProbeFailed
  | QueueFailed
  | FeatureMissing bambu_device_features bambu_device_feature
  | FeatureBitmapUnknown bambu_device_feature

text \<open>
  The cache as the code sees it: its value at first, what a probe finds (\<open>None\<close> if it fails), its
  value under the lease that is held while publishing, its value after a failed dispatch; and
  whether an event can be queued.
\<close>

record feature_env =
  fe_sender :: bool
  fe_cached :: "bambu_device_features option"
  fe_probe :: "bambu_device_features option"
  fe_lease :: "bambu_device_features option"
  fe_after :: "bambu_device_features option"
  fe_queue :: "bambu_device_features option \<Rightarrow> bool"

text \<open>
  The feature events queued, whether the cache was invalidated, the lease the operation was
  dispatched under (\<open>Some None\<close>: without one), and the outcome.
\<close>

record 'r operate_outcome =
  oo_events :: "bambu_device_features option list"
  oo_invalidated :: bool
  oo_dispatched :: "bambu_device_features option option"
  oo_result :: "('r, operate_error) result"

definition refused :: "bambu_device_features option list \<Rightarrow> bool \<Rightarrow> operate_error \<Rightarrow> 'r operate_outcome" where
  "refused events invalidated e =
     \<lparr>oo_events = events, oo_invalidated = invalidated, oo_dispatched = None, oo_result = Err e\<rparr>"

text \<open>\<open>queue_feature_convergence(...).await?\<close> followed by an error.\<close>

definition converge_then ::
  "feature_env \<Rightarrow> bambu_device_features option list \<Rightarrow> bambu_device_features option \<Rightarrow> operate_error \<Rightarrow>
   'r operate_outcome" where
  "converge_then env events value e =
     (if fe_queue env value then refused (events @ [value]) False e else refused events False QueueFailed)"

definition lacks :: "bambu_device_features option \<Rightarrow> bambu_device_feature \<Rightarrow> bool" where
  "lacks features feature = (case features of None \<Rightarrow> True | Some f \<Rightarrow> \<not> features_contains f feature)"

definition dispatch_under_lease ::
  "feature_env \<Rightarrow> (bambu_device_features option \<Rightarrow> ('r, dispatch_error) result) \<Rightarrow> bambu_device_feature \<Rightarrow>
   bambu_device_features option list \<Rightarrow> 'r operate_outcome" where
  "dispatch_under_lease env dispatch feature events =
     (case fe_lease env of
        None \<Rightarrow> converge_then env events None (FeatureBitmapUnknown feature)
      | Some current \<Rightarrow>
          if \<not> features_contains current feature
          then converge_then env events (Some current) (FeatureMissing current feature)
          else
            (case dispatch (Some current) of
               Ok r \<Rightarrow>
                 \<lparr>oo_events = events, oo_invalidated = False, oo_dispatched = Some (Some current), oo_result = Ok r\<rparr>
             | Err e \<Rightarrow>
                 \<lparr>oo_events = (if lacks (fe_after env) feature \<and> fe_queue env (fe_after env)
                               then events @ [fe_after env] else events),
                  oo_invalidated = False, oo_dispatched = Some (Some current), oo_result = Err (Dispatch e)\<rparr>))"

definition operate_printer_with_feature_selection ::
  "feature_env \<Rightarrow> (bambu_device_features option \<Rightarrow> ('r, dispatch_error) result) \<Rightarrow> printer_operation \<Rightarrow>
   'r operate_outcome" where
  "operate_printer_with_feature_selection env dispatch op =
     (case validate op of
        Err e \<Rightarrow> refused [] False (OperationInvalid e)
      | Ok _ \<Rightarrow>
          (case required_device_features op of
             [] \<Rightarrow>
               \<lparr>oo_events = [], oo_invalidated = False, oo_dispatched = Some None,
                oo_result = map_err Dispatch (dispatch None)\<rparr>
           | required_feature # _ \<Rightarrow>
               (let feature = bambu_feature required_feature
                in if \<not> fe_sender env then refused [] False NoEventSender
                   else
                     (case fe_cached env of
                        Some observed \<Rightarrow>
                          if \<not> features_contains observed feature
                          then converge_then env [] (Some observed) (FeatureMissing observed feature)
                          else dispatch_under_lease env dispatch feature []
                      | None \<Rightarrow>
                          (case fe_probe env of
                             None \<Rightarrow>
                               refused (if fe_queue env None then [None] else []) True ProbeFailed
                           | Some observed \<Rightarrow>
                               if \<not> fe_queue env (Some observed) then refused [] False QueueFailed
                               else if \<not> features_contains observed feature
                               then refused [Some observed] False (FeatureMissing observed feature)
                               else dispatch_under_lease env dispatch feature [Some observed])))))"

section \<open>Properties\<close>

text \<open>A modern command is only ever chosen when the observed features have its bit.\<close>

lemma modern_command_feature:
  assumes "mqtt_command_for_printer_operation_with_features op observed = Ok c" "required_device_features op \<noteq> []"
  shows "\<exists>f. observed = Some f \<and> features_contains f (bambu_feature (hd (required_device_features op)))"
proof -
  have v: "validate op = Ok ()"
    using assms(1) unfolding mqtt_command_for_printer_operation_with_features_def by (auto simp: result_simps)
  show ?thesis
  proof (cases op)
    case (Home ax r)
    with assms v show ?thesis
      by (auto simp: mqtt_command_for_printer_operation_with_features_def result_simps home_command_def
          required_device_features_def require_observed_feature_def valid_home_features_def
          split: list.splits if_splits option.splits)
  next
    case (MoveAxes ms f r)
    with assms obtain r0 rs where r: "r = r0 # rs" by (cases r) (auto simp: required_device_features_def)
    obtain x y z where "movement_axes ms = (x, y, z)" by (cases "movement_axes ms") auto
    with assms(1) MoveAxes r show ?thesis
      by (cases r0) (auto simp: mqtt_command_for_printer_operation_with_features_def result_simps
          move_axes_command_def required_device_features_def require_observed_feature_def
          split: option.splits if_splits)
  qed (use assms(2) in \<open>auto simp: required_device_features_def\<close>)
qed

lemma under_lease:
  "oo_dispatched (dispatch_under_lease env dispatch feature events) =
     (if lacks (fe_lease env) feature then None else Some (fe_lease env))"
  "lacks (fe_lease env) feature \<Longrightarrow> \<exists>e. oo_result (dispatch_under_lease env dispatch feature events) = Err e"
  by (cases "fe_lease env"; auto simp: dispatch_under_lease_def converge_then_def refused_def lacks_def
      split: result.splits)+

lemma refused_simps [simp]:
  "oo_dispatched (refused events i e) = None" "oo_result (refused events i e) = Err e"
  by (simp_all add: refused_def)

lemma converge_then_simps [simp]:
  "oo_dispatched (converge_then env events v e) = None"
  "\<exists>e'. oo_result (converge_then env events v e) = Err e'"
  by (simp_all add: converge_then_def)

text \<open>
  C29: an operation that needs a device feature is dispatched only if it is valid and the lease on
  the printer's feature bitmap, held while publishing, shows the bit; in every other case
  nothing is dispatched and the caller gets an error.
\<close>

theorem feature_gate:
  fixes dispatch :: "bambu_device_features option \<Rightarrow> ('r, dispatch_error) result"
  assumes "required_device_features op = r # rs"
  shows "case oo_dispatched (operate_printer_with_feature_selection env dispatch op) of
      Some lease \<Rightarrow> validate op = Ok () \<and> lease = fe_lease env \<and> \<not> lacks lease (bambu_feature r)
    | None \<Rightarrow> (\<exists>e. oo_result (operate_printer_with_feature_selection env dispatch op) = Err e)"
proof (cases "validate op")
  case (Err e)
  then show ?thesis by (simp add: operate_printer_with_feature_selection_def)
next
  case (Ok u)
  define gated where "gated out \<longleftrightarrow>
      oo_dispatched out = None \<and> (\<exists>e. oo_result out = Err e) \<or>
      oo_dispatched out = Some (fe_lease env) \<and> \<not> lacks (fe_lease env) (bambu_feature r)"
    for out :: "'r operate_outcome"
  have "gated (dispatch_under_lease env dispatch (bambu_feature r) events)" for events
    using under_lease(1) [of env dispatch "bambu_feature r" events]
      under_lease(2) [of env "bambu_feature r" dispatch events] by (auto simp: gated_def)
  moreover have "gated (refused events i e)" "gated (converge_then env events v e)" for events i v e
    by (auto simp: gated_def)
  ultimately have "gated (operate_printer_with_feature_selection env dispatch op)"
    using Ok assms
    by (simp add: operate_printer_with_feature_selection_def Let_def split: option.split)
  with Ok show ?thesis by (auto simp: gated_def)
qed

lemma matching_report_member:
  assumes "matching_sequence_report cd ids expected failures reports = Some (sid, report)"
    and "\<forall>(i, r) \<in> set failures. i \<in> set ids \<and> report_sequence_id cd r = Some i \<and>
           (\<exists>p \<in> set seen. OperationReport_from_payload p = Some r)"
  shows "sid \<in> set ids \<and> report_sequence_id cd report = Some sid \<and>
    (\<exists>p \<in> set seen \<union> set reports. OperationReport_from_payload p = Some report)"
  using assms
proof (induction reports arbitrary: failures seen)
  case (Cons payload reports)
  show ?case
  proof (cases "Option.bind (OperationReport_from_payload payload)
      (\<lambda>report. map_option (\<lambda>sid. (sid, report)) (report_sequence_id cd report))")
    case None
    with Cons show ?thesis by fastforce
  next
    case (Some sr)
    obtain i r where sr: "sr = (i, r)" by fastforce
    with Some have r: "OperationReport_from_payload payload = Some r" "report_sequence_id cd r = Some i"
      by (auto simp: bind_eq_Some_conv)
    let ?failures = "failures @ [(i, r)]"
    have fresh: "\<forall>(j, q) \<in> set ?failures. j \<in> set ids \<and> report_sequence_id cd q = Some j \<and>
        (\<exists>p \<in> set (payload # seen). OperationReport_from_payload p = Some q)" if "i \<in> set ids"
      using Cons.prems(2) r that by auto
    show ?thesis
    proof (cases "i \<notin> set ids \<or> (expected \<noteq> None \<and> report_command r \<noteq> expected)")
      case True
      with Cons.prems(1) Some sr
      have "matching_sequence_report cd ids expected failures reports = Some (sid, report)" by auto
      from Cons.IH [OF this Cons.prems(2)] show ?thesis by auto
    next
      case False
      then have i: "i \<in> set ids" by simp
      have "(if report_error r = None then Some (i, r)
          else if length ?failures = length ids then Some (hd ?failures)
          else matching_sequence_report cd ids expected ?failures reports) = Some (sid, report)"
        using Cons.prems(1)
        by (simp only: matching_sequence_report.simps Some sr option.case prod.case if_not_P [OF False] Let_def)
      then consider "(sid, report) = (i, r)" | "hd ?failures = (sid, report)"
        | "matching_sequence_report cd ids expected ?failures reports = Some (sid, report)"
        by (metis option.inject)
      then show ?thesis
      proof cases
        case 1
        with r i show ?thesis by auto
      next
        case 2
        then have "(sid, report) \<in> set ?failures"
          by (metis append_is_Nil_conv list.distinct(1) list.set_sel(1))
        with fresh [OF i] show ?thesis by auto
      next
        case 3
        from Cons.IH [OF this fresh [OF i]] show ?thesis by auto
      qed
    qed
  qed
qed simp

lemma dispatch_answer_Ok:
  assumes "dispatch_answer rc reports ids expected = Ok r"
  shows "(\<forall>sid. dr_sequence_id r = Some sid \<longrightarrow> sid \<in> set ids) \<and>
    (\<forall>rep. dr_mqtt_report r = Some rep \<longrightarrow>
       (\<exists>p \<in> set reports. \<exists>env. OperationReport_from_payload p = Some env \<and> rep = into_payload env \<and>
          report_sequence_id rc env = dr_sequence_id r \<and> dr_error r = report_error env)) \<and>
    (ids \<noteq> [] \<longrightarrow> (\<forall>request. expected = Some request \<longrightarrow>
       (\<exists>rep response. dr_mqtt_report r = Some rep \<and> rc_h2c_response rc rep = Some response \<and>
          is_valid_for response request)))"
proof (cases "ids = []")
  case True
  with assms show ?thesis by (auto simp: dispatch_answer_def dispatched_def)
next
  case False
  let ?m = "matching_sequence_report rc ids (map_option (\<lambda>_. ''get_auto_nozzle_mapping'') expected) [] reports"
  show ?thesis
  proof (cases ?m)
    case None
    with assms False show ?thesis by (auto simp: dispatch_answer_def split: option.splits)
  next
    case (Some sr)
    obtain sid report where sr: "sr = (sid, report)" by fastforce
    have "sid \<in> set ids \<and> report_sequence_id rc report = Some sid \<and>
        (\<exists>p \<in> set [] \<union> set reports. OperationReport_from_payload p = Some report)"
      using Some sr by (intro matching_report_member) auto
    then obtain p where "p \<in> set reports" "OperationReport_from_payload p = Some report"
        "sid \<in> set ids" "report_sequence_id rc report = Some sid" by auto
    with assms False Some sr show ?thesis
      by (auto simp: dispatch_answer_def result_simps auto_nozzle_mapping_response_def
          intro!: bexI [of _ p] split: option.splits if_splits)
  qed
qed

lemma publish_all_Ok: "publish_all env ps = (sent, True) \<Longrightarrow> sent = ps"
  by (induction ps arbitrary: sent) (auto split: if_splits prod.splits)


section \<open>Witnesses\<close>

definition sample_dispatch_codec :: agent_codec where
  "sample_dispatch_codec =
     \<lparr>ac_h2c_value = (\<lambda>_. JNull), ac_project_value = (\<lambda>_. JNull), ac_project_len = (\<lambda>_. 0),
      ac_slicer_key = None, ac_slicer_cert_id = None\<rparr>"

definition sample_report_codec :: report_codec where
  "sample_report_codec = \<lparr>rc_float_text = (\<lambda>_. []), rc_h2c_response = (\<lambda>_. None)\<rparr>"

definition sample_session :: mqtt_session where
  "sample_session =
     \<lparr>ms_subscribe = True, ms_publish = (\<lambda>_. True), ms_light_reports = [],
      ms_reports = [JNull, JObject [(''print'', JObject [(''result'', JString ''success''), (''sequence_id'', JString ''20000'')])]]\<rparr>"

definition homing_features :: bambu_device_features where
  "homing_features = BambuDeviceFeatures (push_bit 32 1)"

definition sample_dispatch :: "dispatch_result published" where
  "sample_dispatch =
     dispatch_printer_operation sample_dispatch_codec sample_report_codec sample_session
       printer_operation.Pause None 20000"

lemma sample_number: "text_of_word (sequence_id_of 20000) = ''20000''"
  by (simp add: sequence_id_of_def text_of_word_def to_digits.simps digit_char_def char_of_def bit_0)

definition sample_section :: operation_section where
  "sample_section =
     \<lparr>os_sequence_id = Some (SeqString ''20000''), os_result = Some (JString ''success''), os_err_code = None,
      os_errno = None, os_reason = None, os_message = None, os_msg = None, os_error = None, os_extra = []\<rparr>"

definition sample_envelope :: operation_envelope where
  "sample_envelope =
     \<lparr>oe_print = Some sample_section, oe_info = None, oe_pushing = None, oe_system = None, oe_camera = None,
      oe_extra = []\<rparr>"

lemma sample_section_read:
  "OperationSection_deserialize (JObject [(''result'', JString ''success''), (''sequence_id'', JString ''20000'')]) =
     Some sample_section"
  by (simp add: OperationSection_deserialize_def optional_field_def one_member_def flattened_def
      SECTION_FIELDS_def sample_section_def)

lemma sample_envelope_read:
  "OperationReport_from_payload
     (JObject [(''print'', JObject [(''result'', JString ''success''), (''sequence_id'', JString ''20000'')])]) =
     Some sample_envelope"
  by (simp add: OperationReport_from_payload_def optional_field_def one_member_def flattened_def
      sample_envelope_def sample_section_read)

lemma sample_envelope_answers:
  "report_sequence_id rc sample_envelope = Some ''20000''" "report_error sample_envelope = None"
  by (simp_all add: report_sequence_id_def sample_envelope_def sample_section_def map_filter_simps
      report_error_def answer_section_def or_else_def nonzero_code_def)

lemma sample_dispatch_ok: "\<exists>sent r n. sample_dispatch = (sent, Ok r, n) \<and> dr_sequence_id r = Some ''20000''"
  using sample_number
  by (simp add: sample_dispatch_def dispatch_printer_operation_def select_commands_def
      mqtt_command_for_printer_operation_with_features_def basic_print_payload_def sequenced_def
      next_studio_sequence_id_def pay_def with_sequence_def expected_auto_mapping_def map_filter_simps
      sample_session_def dispatch_answer_def sample_envelope_read sample_envelope_answers
      OperationReport_from_payload_def [of JNull])


definition sample_feature_env :: feature_env where
  "sample_feature_env =
     \<lparr>fe_sender = True, fe_cached = None, fe_probe = Some homing_features, fe_lease = Some homing_features,
      fe_after = None, fe_queue = (\<lambda>_. True)\<rparr>"

theorem feature_gate_witness:
  "oo_dispatched (operate_printer_with_feature_selection sample_feature_env (\<lambda>_. Ok ()) (Home [] [BambuMqttHoming]))
     = Some (Some homing_features) \<and> \<not> lacks (Some homing_features) MqttHoming"
proof -
  have d: "oo_dispatched (operate_printer_with_feature_selection sample_feature_env (\<lambda>_. Ok ()) (Home [] [BambuMqttHoming]))
     = Some (Some homing_features)" by code_simp
  have "required_device_features (Home [] [BambuMqttHoming]) = BambuMqttHoming # []"
    by (simp add: required_device_features_def)
  from feature_gate [OF this, of sample_feature_env "\<lambda>_. Ok ()"] show ?thesis
    unfolding d by auto
qed

end
