(* ===== verification/Hub_Auth.thy ===== *)
theory Hub_Auth
  imports Hub_Store
begin

text \<open>
  Tenants, users, external identities and tenant tokens:
  \<open>crates/pandar-hub/src/repositories/tenants.rs\<close>, \<open>auth.rs\<close>, \<open>auth/users.rs\<close>, \<open>auth/users/provisioning.rs\<close>,
  \<open>auth/identities.rs\<close>, \<open>auth/tenant_tokens.rs\<close> with its submodules, \<open>auth/secrets.rs\<close>.

  The tables are lists of rows with the constraints of the migrations: an insertion checks the
  primary key, the unique columns and the foreign keys, and deleting a user follows the
  \<open>ON DELETE\<close> clauses of the tables that refer to users. An operation that runs in a transaction
  gives a result holding the new tables; \<open>authenticate_tenant_token\<close> runs without one and gives its tables
  beside its result. One clock reading serves a whole operation.

  Parameters (\<open>auth_codec\<close>): UUID parsing, SHA-256, the PKCE challenge, RFC 3339 reading and writing,
  the JSON text of scopes and of audit metadata.
\<close>

section \<open>Roles and scopes\<close>

datatype user_role = TenantAdmin | Operator | Viewer

fun UserRole_as_str :: "user_role \<Rightarrow> string" where
  "UserRole_as_str TenantAdmin = ''tenant_admin''"
| "UserRole_as_str Operator = ''operator''"
| "UserRole_as_str Viewer = ''viewer''"

definition UserRole_parse :: "string \<Rightarrow> user_role repository_result" where
  "UserRole_parse v =
     (if v = ''tenant_admin'' then Ok TenantAdmin
      else if v = ''operator'' then Ok Operator
      else if v = ''viewer'' then Ok Viewer
      else Err (InvalidPersistedUserRole v))"

fun UserRole_rank :: "user_role \<Rightarrow> nat" where
  "UserRole_rank Viewer = 0"
| "UserRole_rank Operator = 1"
| "UserRole_rank TenantAdmin = 2"

definition allows :: "user_role \<Rightarrow> user_role \<Rightarrow> bool" where
  "allows role required_role \<longleftrightarrow> UserRole_rank role \<ge> UserRole_rank required_role"

datatype tenant_token_scope = AllScopes | AgentRegister | PluginStudio | MobileSession

fun TenantTokenScope_as_str :: "tenant_token_scope \<Rightarrow> string" where
  "TenantTokenScope_as_str AllScopes = ''*''"
| "TenantTokenScope_as_str AgentRegister = ''agent:register''"
| "TenantTokenScope_as_str PluginStudio = ''plugin:studio''"
| "TenantTokenScope_as_str MobileSession = ''mobile:session''"

definition TenantTokenScope_parse :: "string \<Rightarrow> tenant_token_scope repository_result" where
  "TenantTokenScope_parse v =
     (if v = ''*'' then Ok AllScopes
      else if v = ''agent:register'' then Ok AgentRegister
      else if v = ''plugin:studio'' then Ok PluginStudio
      else if v = ''mobile:session'' then Ok MobileSession
      else Err (InvalidTokenScope v))"

section \<open>Rows and entities\<close>

record tenant_row =
  tr_id :: string
  tr_slug :: string
  tr_display_name :: string
  tr_created_at :: timestamp

record user_row =
  usr_id :: string
  usr_tenant_id :: string
  usr_email :: string
  usr_display_name :: string
  usr_role :: string
  usr_created_at :: timestamp

record identity_row =
  idr_id :: string
  idr_tenant_id :: string
  idr_user_id :: string
  idr_provider :: string
  idr_subject :: string
  idr_created_at :: timestamp

record token_row =
  tk_id :: string
  tk_tenant_id :: string
  tk_name :: string
  tk_token_hash :: string
  tk_scopes_json :: string
  tk_created_by_user_id :: "string option"
  tk_created_at :: timestamp
  tk_last_used_at :: "timestamp option"
  tk_expires_at :: "timestamp option"
  tk_revoked_at :: "timestamp option"

record ticket_row =
  lt_id :: string
  lt_tenant_id :: string
  lt_user_id :: "string option"
  lt_ticket_hash :: string
  lt_redirect_url :: string
  lt_kind :: string
  lt_code_challenge :: "string option"
  lt_created_at :: timestamp
  lt_expires_at :: timestamp
  lt_used_at :: "timestamp option"
  lt_revoked_at :: "timestamp option"

record join_link_row =
  jl_id :: string
  jl_tenant_id :: string
  jl_token_hash :: string
  jl_role :: string
  jl_email_constraint :: "string option"
  jl_expires_at :: timestamp
  jl_max_uses :: i32
  jl_used_count :: i32
  jl_created_by_user_id :: "string option"
  jl_revoked_at :: "timestamp option"
  jl_created_at :: timestamp

record event_ticket_row =
  et_id :: string
  et_tenant_id :: string
  et_ticket_hash :: string
  et_created_at :: timestamp
  et_expires_at :: timestamp
  et_used_at :: "timestamp option"

record auth_db =
  at_tenants :: "tenant_row list"
  at_users :: "user_row list"
  at_identities :: "identity_row list"
  at_tokens :: "token_row list"
  at_tickets :: "ticket_row list"
  at_links :: "join_link_row list"
  at_event_tickets :: "event_ticket_row list"
  at_audit :: "audit_event list"

record user =
  u_id :: string
  u_tenant_id :: tenant_id
  u_email :: string
  u_display_name :: string
  u_role :: user_role
  u_created_at :: timestamp

record user_identity =
  ui_id :: string
  ui_tenant_id :: tenant_id
  ui_user_id :: string
  ui_provider :: string
  ui_subject :: string
  ui_created_at :: timestamp

record tenant_token =
  tt_id :: string
  tt_tenant_id :: tenant_id
  tt_name :: string
  tt_scopes :: "tenant_token_scope list"
  tt_created_by_user_id :: "string option"
  tt_created_at :: timestamp
  tt_last_used_at :: "timestamp option"
  tt_expires_at :: "timestamp option"
  tt_revoked_at :: "timestamp option"

definition has_scope :: "tenant_token \<Rightarrow> tenant_token_scope \<Rightarrow> bool" where
  "has_scope token scope \<longleftrightarrow> AllScopes \<in> set (tt_scopes token) \<or> scope \<in> set (tt_scopes token)"

record auth_codec =
  au_uuid :: uuid_parser
  au_sha256_hex :: "string \<Rightarrow> string"
  au_pkce_challenge :: "string \<Rightarrow> string"
  au_parse_time :: "string \<Rightarrow> int option"
  au_format_time :: "int \<Rightarrow> string option"
  au_scopes_text :: "string list \<Rightarrow> string"
  au_scopes_read :: "string \<Rightarrow> string list option"
  au_metadata_text :: "audit_metadata \<Rightarrow> string"

definition hash_token :: "auth_codec \<Rightarrow> string \<Rightarrow> string" where
  "hash_token cd token = au_sha256_hex cd token"

definition generate_secret :: "string \<Rightarrow> string \<times> string \<Rightarrow> string" where
  "generate_secret prefix uuids = prefix @ fst uuids @ ''_'' @ snd uuids"

definition database_error :: "string \<Rightarrow> repository_error" where
  "database_error context = Database (Message context)"

section \<open>Audit events\<close>

text \<open>An audit row refers to its tenant and, if it names one, to its user.\<close>

definition insert_audit_event_tx :: "audit_event \<Rightarrow> auth_db \<Rightarrow> auth_db repository_result" where
  "insert_audit_event_tx e db =
     (if ev_id e \<in> ev_id ` set (at_audit db) \<or> ev_tenant_id e \<notin> tr_id ` set (at_tenants db) \<or>
         (\<exists>u \<in> set_option (ev_user_id e). u \<notin> usr_id ` set (at_users db))
      then Err (database_error ''failed to insert audit event'')
      else Ok (db\<lparr>at_audit := at_audit db @ [e]\<rparr>))"

section \<open>Tenants\<close>

definition tenant_from_model :: "auth_codec \<Rightarrow> string \<Rightarrow> tenant_row \<Rightarrow> tenant repository_result" where
  "tenant_from_model cd context m =
     and_then (map_err (\<lambda>e. Database (CoreErr e)) (TenantId_parse (au_uuid cd) (tr_id m))) (\<lambda>i.
     map_err (\<lambda>_. database_error context) (Tenant_from_parts i (tr_slug m) (tr_display_name m) (tr_created_at m)))"

definition insert_tenant :: "string \<Rightarrow> tenant \<Rightarrow> auth_db \<Rightarrow> auth_db repository_result" where
  "insert_tenant context t db =
     (if tenant_id t \<in> tr_id ` set (at_tenants db) then Err (database_error context)
      else if tenant_slug t \<in> tr_slug ` set (at_tenants db) then Err DuplicateTenantSlug
      else Ok (db\<lparr>at_tenants := at_tenants db @
                   [\<lparr>tr_id = tenant_id t, tr_slug = tenant_slug t, tr_display_name = tenant_display_name t,
                     tr_created_at = tenant_created_at t\<rparr>]\<rparr>))"

definition TenantRepository_create ::
  "tenant_id \<Rightarrow> timestamp \<Rightarrow> string \<Rightarrow> string \<Rightarrow> auth_db \<Rightarrow> (tenant \<times> auth_db) repository_result" where
  "TenantRepository_create fresh_id now slug display_name db =
     and_then (map_err (\<lambda>e. Database (CoreErr e)) (Tenant_new fresh_id now slug display_name)) (\<lambda>t.
     and_then (insert_tenant ''failed to insert tenant'' t db) (\<lambda>db. Ok (t, db)))"

definition update_display_name ::
  "auth_codec \<Rightarrow> tenant_id \<Rightarrow> string \<Rightarrow> auth_db \<Rightarrow> ((tenant \<times> string) repository_result) \<times> auth_db" where
  "update_display_name cd tenant display_name db =
     (case find_by_id tr_id tenant (at_tenants db) of
        None \<Rightarrow> (Err MissingTenant, db)
      | Some m \<Rightarrow>
          (let m' = m\<lparr>tr_display_name := display_name\<rparr>
           in (and_then (tenant_from_model cd ''failed to rehydrate tenant'' m') (\<lambda>t. Ok (t, tr_display_name m)),
               db\<lparr>at_tenants := fst (update_many (\<lambda>r. tr_id r = tr_id m) (\<lambda>r. r\<lparr>tr_display_name := display_name\<rparr>)
                                     (at_tenants db))\<rparr>)))"

section \<open>Users\<close>

definition user_from_model :: "auth_codec \<Rightarrow> user_row \<Rightarrow> user repository_result" where
  "user_from_model cd m =
     and_then (map_err (\<lambda>e. Database (CoreErr e)) (TenantId_parse (au_uuid cd) (usr_tenant_id m))) (\<lambda>t.
     and_then (UserRole_parse (usr_role m)) (\<lambda>role.
     Ok \<lparr>u_id = usr_id m, u_tenant_id = t, u_email = usr_email m, u_display_name = usr_display_name m,
         u_role = role, u_created_at = usr_created_at m\<rparr>))"

definition user_model :: "user \<Rightarrow> user_row" where
  "user_model u =
     \<lparr>usr_id = u_id u, usr_tenant_id = u_tenant_id u, usr_email = u_email u, usr_display_name = u_display_name u,
      usr_role = UserRole_as_str (u_role u), usr_created_at = u_created_at u\<rparr>"

definition insert_user :: "string \<Rightarrow> user \<Rightarrow> auth_db \<Rightarrow> auth_db repository_result" where
  "insert_user context u db =
     (if u_id u \<in> usr_id ` set (at_users db) then Err (database_error context)
      else if (u_tenant_id u, u_email u) \<in> (\<lambda>r. (usr_tenant_id r, usr_email r)) ` set (at_users db)
      then Err DuplicateUserEmail
      else if u_tenant_id u \<notin> tr_id ` set (at_tenants db) then Err MissingTenant
      else Ok (db\<lparr>at_users := at_users db @ [user_model u]\<rparr>))"

definition create_user ::
  "string \<Rightarrow> timestamp \<Rightarrow> tenant_id \<Rightarrow> string \<Rightarrow> string \<Rightarrow> user_role \<Rightarrow> auth_db \<Rightarrow> (user \<times> auth_db) repository_result" where
  "create_user fresh_id now tenant email display_name role db =
     (let u = \<lparr>u_id = fresh_id, u_tenant_id = tenant, u_email = email, u_display_name = display_name,
               u_role = role, u_created_at = now\<rparr>
      in and_then (insert_user ''failed to insert user'' u db) (\<lambda>db. Ok (u, db)))"

definition find_user :: "tenant_id \<Rightarrow> string \<Rightarrow> auth_db \<Rightarrow> user_row option" where
  "find_user tenant i db = find (\<lambda>r. usr_id r = i \<and> usr_tenant_id r = tenant) (at_users db)"

definition user_exists :: "tenant_id \<Rightarrow> string \<Rightarrow> auth_db \<Rightarrow> bool" where
  "user_exists tenant i db \<longleftrightarrow> find_user tenant i db \<noteq> None"

definition ensure_user_exists :: "tenant_id \<Rightarrow> string \<Rightarrow> auth_db \<Rightarrow> unit repository_result" where
  "ensure_user_exists tenant i db = (if user_exists tenant i db then Ok () else Err MissingUser)"

definition select_user_locked :: "auth_codec \<Rightarrow> tenant_id \<Rightarrow> string \<Rightarrow> auth_db \<Rightarrow> user repository_result" where
  "select_user_locked cd tenant i db =
     (case find_user tenant i db of None \<Rightarrow> Err MissingUser | Some m \<Rightarrow> user_from_model cd m)"

definition tenant_admins :: "tenant_id \<Rightarrow> auth_db \<Rightarrow> user_row list" where
  "tenant_admins tenant db =
     filter (\<lambda>r. usr_tenant_id r = tenant \<and> usr_role r = UserRole_as_str TenantAdmin) (at_users db)"

definition ensure_other_admin_remains :: "tenant_id \<Rightarrow> auth_db \<Rightarrow> unit repository_result" where
  "ensure_other_admin_remains tenant db =
     (if length (tenant_admins tenant db) \<le> 1 then Err LastTenantAdmin else Ok ())"

definition update_user_role ::
  "auth_codec \<Rightarrow> tenant_id \<Rightarrow> string \<Rightarrow> user_role \<Rightarrow> auth_db \<Rightarrow> (user \<times> auth_db) repository_result" where
  "update_user_role cd tenant i role db =
     (case find_user tenant i db of
        None \<Rightarrow> Err MissingUser
      | Some m \<Rightarrow>
          and_then (user_from_model cd (m\<lparr>usr_role := UserRole_as_str role\<rparr>)) (\<lambda>u.
            Ok (u, db\<lparr>at_users := fst (update_many (\<lambda>r. usr_id r = usr_id m)
                                       (\<lambda>r. r\<lparr>usr_role := UserRole_as_str role\<rparr>) (at_users db))\<rparr>)))"

text \<open>
  Deleting a user deletes its identities and clears the references of tokens, tickets, join links
  and audit events (\<open>ON DELETE CASCADE\<close> and \<open>ON DELETE SET NULL\<close> in the migrations).
\<close>

definition forget :: "string \<Rightarrow> string option \<Rightarrow> string option" where
  "forget i v = (if v = Some i then None else v)"

definition delete_user :: "tenant_id \<Rightarrow> string \<Rightarrow> auth_db \<Rightarrow> auth_db" where
  "delete_user tenant i db =
     (if user_exists tenant i db
      then db\<lparr>at_users := filter (\<lambda>r. \<not> (usr_id r = i \<and> usr_tenant_id r = tenant)) (at_users db),
              at_identities := filter (\<lambda>r. \<not> (idr_user_id r = i \<and> idr_tenant_id r = tenant)) (at_identities db),
              at_tokens := map (\<lambda>r. r\<lparr>tk_created_by_user_id := forget i (tk_created_by_user_id r)\<rparr>) (at_tokens db),
              at_tickets := map (\<lambda>r. r\<lparr>lt_user_id := forget i (lt_user_id r)\<rparr>) (at_tickets db),
              at_links := map (\<lambda>r. r\<lparr>jl_created_by_user_id := forget i (jl_created_by_user_id r)\<rparr>) (at_links db),
              at_audit := map (\<lambda>r. r\<lparr>ev_user_id := forget i (ev_user_id r)\<rparr>) (at_audit db)\<rparr>
      else db)"

text \<open>The identifier and the time of an audit event are drawn when it is written.\<close>

type_synonym event_draw = "string \<times> timestamp"

definition auth_event ::
  "auth_codec \<Rightarrow> event_draw \<Rightarrow> tenant_id \<Rightarrow> audit_actor \<Rightarrow> string \<Rightarrow> string \<Rightarrow> string option \<Rightarrow> audit_metadata \<Rightarrow>
   audit_event" where
  "auth_event cd draw tenant actor action target_type target metadata =
     record_audit_event (au_metadata_text cd) (fst draw) (snd draw) tenant actor action target_type target metadata"

definition user_role_audit_event ::
  "auth_codec \<Rightarrow> event_draw \<Rightarrow> user \<Rightarrow> user_role \<Rightarrow> audit_actor \<Rightarrow> audit_event" where
  "user_role_audit_event cd draw u previous actor =
     auth_event cd draw (u_tenant_id u) actor ''user.role_update'' ''user'' (Some (u_id u))
       (AuditObject [(''new_role'', AuditString (UserRole_as_str (u_role u))),
                     (''previous_role'', AuditString (UserRole_as_str previous))])"

definition user_remove_audit_event :: "auth_codec \<Rightarrow> event_draw \<Rightarrow> user \<Rightarrow> audit_actor \<Rightarrow> audit_event" where
  "user_remove_audit_event cd draw u actor =
     auth_event cd draw (u_tenant_id u) actor ''user.remove'' ''user'' (Some (u_id u))
       (AuditObject [(''email'', AuditString (u_email u)), (''role'', AuditString (UserRole_as_str (u_role u)))])"

definition update_user_role_with_audit ::
  "auth_codec \<Rightarrow> event_draw \<Rightarrow> tenant_id \<Rightarrow> string \<Rightarrow> user_role \<Rightarrow> audit_actor \<Rightarrow> auth_db \<Rightarrow>
   (user \<times> auth_db) repository_result" where
  "update_user_role_with_audit cd draw tenant i role actor db =
     and_then (select_user_locked cd tenant i db) (\<lambda>previous.
     and_then (if u_role previous = TenantAdmin \<and> role \<noteq> TenantAdmin
               then ensure_other_admin_remains tenant db else Ok ()) (\<lambda>_.
     and_then (update_user_role cd tenant i role db) (\<lambda>(u, db).
     and_then (insert_audit_event_tx (user_role_audit_event cd draw u (u_role previous) actor) db) (\<lambda>db.
     Ok (u, db)))))"

definition remove_user_with_audit ::
  "auth_codec \<Rightarrow> event_draw \<Rightarrow> tenant_id \<Rightarrow> string \<Rightarrow> audit_actor \<Rightarrow> auth_db \<Rightarrow> (user \<times> auth_db) repository_result" where
  "remove_user_with_audit cd draw tenant i actor db =
     and_then (select_user_locked cd tenant i db) (\<lambda>u.
     and_then (if u_role u = TenantAdmin then ensure_other_admin_remains tenant db else Ok ()) (\<lambda>_.
     and_then (insert_audit_event_tx (user_remove_audit_event cd draw u actor) (delete_user tenant i db)) (\<lambda>db.
     Ok (u, db))))"

section \<open>External identities\<close>

definition identity_model :: "user_identity \<Rightarrow> identity_row" where
  "identity_model v =
     \<lparr>idr_id = ui_id v, idr_tenant_id = ui_tenant_id v, idr_user_id = ui_user_id v, idr_provider = ui_provider v,
      idr_subject = ui_subject v, idr_created_at = ui_created_at v\<rparr>"

definition find_identity :: "tenant_id \<Rightarrow> string \<Rightarrow> string \<Rightarrow> auth_db \<Rightarrow> identity_row option" where
  "find_identity tenant provider subject db =
     find (\<lambda>r. idr_tenant_id r = tenant \<and> idr_provider r = provider \<and> idr_subject r = subject) (at_identities db)"

definition insert_identity :: "string \<Rightarrow> user_identity \<Rightarrow> auth_db \<Rightarrow> auth_db repository_result" where
  "insert_identity context v db =
     and_then (ensure_user_exists (ui_tenant_id v) (ui_user_id v) db) (\<lambda>_.
       if ui_id v \<in> idr_id ` set (at_identities db) then Err (database_error context)
       else if find_identity (ui_tenant_id v) (ui_provider v) (ui_subject v) db \<noteq> None
       then Err DuplicateExternalIdentity
       else if \<exists>r \<in> set (at_identities db). idr_tenant_id r = ui_tenant_id v \<and> idr_user_id r = ui_user_id v \<and>
                 idr_provider r = ui_provider v
       then Err DuplicateUserExternalIdentity
       else Ok (db\<lparr>at_identities := at_identities db @ [identity_model v]\<rparr>))"

definition link_external_identity ::
  "string \<Rightarrow> timestamp \<Rightarrow> tenant_id \<Rightarrow> string \<Rightarrow> string \<Rightarrow> string \<Rightarrow> auth_db \<Rightarrow>
   (user_identity \<times> auth_db) repository_result" where
  "link_external_identity fresh_id now tenant user_id provider subject db =
     (let v = \<lparr>ui_id = fresh_id, ui_tenant_id = tenant, ui_user_id = user_id, ui_provider = provider,
               ui_subject = subject, ui_created_at = now\<rparr>
      in and_then (insert_identity ''failed to insert external identity'' v db) (\<lambda>db. Ok (v, db)))"

definition authenticate_external_identity ::
  "auth_codec \<Rightarrow> tenant_id \<Rightarrow> string \<Rightarrow> string \<Rightarrow> auth_db \<Rightarrow> user option repository_result" where
  "authenticate_external_identity cd tenant provider subject db =
     (case find_identity tenant provider subject db of
        None \<Rightarrow> Ok None
      | Some identity \<Rightarrow>
          (case find_user (idr_tenant_id identity) (idr_user_id identity) db of
             None \<Rightarrow> Ok None
           | Some m \<Rightarrow> and_then (user_from_model cd m) (\<lambda>u. Ok (Some u))))"

section \<open>Tenant tokens\<close>

definition TENANT_TOKEN_PREFIX :: string where "TENANT_TOKEN_PREFIX = ''pandar_tenant_''"

definition PLUGIN_TOKEN_PREFIX :: string where "PLUGIN_TOKEN_PREFIX = ''pandar_plugin_''"

definition MOBILE_TOKEN_PREFIX :: string where "MOBILE_TOKEN_PREFIX = ''pandar_mobile_''"

definition tenant_token_from_model :: "auth_codec \<Rightarrow> token_row \<Rightarrow> tenant_token repository_result" where
  "tenant_token_from_model cd m =
     and_then (ok_or (au_scopes_read cd (tk_scopes_json m)) (database_error ''failed to parse tenant token scopes'')) (\<lambda>values.
     and_then (traverse_list TenantTokenScope_parse values) (\<lambda>scopes.
     and_then (map_err (\<lambda>e. Database (CoreErr e)) (TenantId_parse (au_uuid cd) (tk_tenant_id m))) (\<lambda>t.
     Ok \<lparr>tt_id = tk_id m, tt_tenant_id = t, tt_name = tk_name m, tt_scopes = scopes,
         tt_created_by_user_id = tk_created_by_user_id m, tt_created_at = tk_created_at m,
         tt_last_used_at = tk_last_used_at m, tt_expires_at = tk_expires_at m, tt_revoked_at = tk_revoked_at m\<rparr>)))"

definition tenant_token_model :: "auth_codec \<Rightarrow> tenant_token \<Rightarrow> string \<Rightarrow> token_row" where
  "tenant_token_model cd token token_hash =
     \<lparr>tk_id = tt_id token, tk_tenant_id = tt_tenant_id token, tk_name = tt_name token, tk_token_hash = token_hash,
      tk_scopes_json = au_scopes_text cd (map TenantTokenScope_as_str (tt_scopes token)),
      tk_created_by_user_id = tt_created_by_user_id token, tk_created_at = tt_created_at token,
      tk_last_used_at = tt_last_used_at token, tk_expires_at = tt_expires_at token,
      tk_revoked_at = tt_revoked_at token\<rparr>"

definition is_expired :: "auth_codec \<Rightarrow> int \<Rightarrow> tenant_token \<Rightarrow> bool repository_result" where
  "is_expired cd now token =
     (case tt_expires_at token of
        None \<Rightarrow> Ok False
      | Some e \<Rightarrow>
          and_then (ok_or (au_parse_time cd e) (database_error ''failed to parse tenant token expiry''))
            (\<lambda>t. Ok (t \<le> now)))"

definition insert_tenant_token ::
  "auth_codec \<Rightarrow> string \<Rightarrow> tenant_token \<Rightarrow> string \<Rightarrow> auth_db \<Rightarrow> auth_db repository_result" where
  "insert_tenant_token cd context token token_hash db =
     and_then (case tt_created_by_user_id token of
                 None \<Rightarrow> Ok ()
               | Some u \<Rightarrow> ensure_user_exists (tt_tenant_id token) u db) (\<lambda>_.
       if tt_id token \<in> tk_id ` set (at_tokens db) then Err (database_error context)
       else if token_hash \<in> tk_token_hash ` set (at_tokens db) then Err DuplicateTenantTokenHash
       else if tt_tenant_id token \<notin> tr_id ` set (at_tenants db) then Err MissingTenant
       else Ok (db\<lparr>at_tokens := at_tokens db @ [tenant_token_model cd token token_hash]\<rparr>))"

definition tenant_token_audit_event ::
  "auth_codec \<Rightarrow> event_draw \<Rightarrow> tenant_token \<Rightarrow> string \<Rightarrow> audit_actor \<Rightarrow> audit_event" where
  "tenant_token_audit_event cd draw token action actor =
     auth_event cd draw (tt_tenant_id token) actor action ''tenant_token'' (Some (tt_id token))
       (AuditObject [(''name'', AuditString (tt_name token))])"

text \<open>What an operation that issues a token draws: its identifier, its secret, the time, the event.\<close>

record token_draw =
  td_id :: string
  td_uuids :: "string \<times> string"
  td_now :: timestamp
  td_event :: event_draw

definition new_tenant_token ::
  "token_draw \<Rightarrow> tenant_id \<Rightarrow> string \<Rightarrow> tenant_token_scope list \<Rightarrow> string option \<Rightarrow> timestamp option \<Rightarrow> tenant_token" where
  "new_tenant_token draw tenant name scopes creator expires_at =
     \<lparr>tt_id = td_id draw, tt_tenant_id = tenant, tt_name = name, tt_scopes = scopes,
      tt_created_by_user_id = creator, tt_created_at = td_now draw, tt_last_used_at = None,
      tt_expires_at = expires_at, tt_revoked_at = None\<rparr>"

definition create_tenant_token_with_audit ::
  "auth_codec \<Rightarrow> token_draw \<Rightarrow> tenant_id \<Rightarrow> string \<Rightarrow> tenant_token_scope list \<Rightarrow> timestamp option \<Rightarrow> audit_actor \<Rightarrow>
   auth_db \<Rightarrow> ((tenant_token \<times> string) \<times> auth_db) repository_result" where
  "create_tenant_token_with_audit cd draw tenant name scopes expires_at actor db =
     (let plaintext = generate_secret TENANT_TOKEN_PREFIX (td_uuids draw);
          token = new_tenant_token draw tenant name scopes (actor_user_id actor) expires_at
      in and_then (insert_tenant_token cd ''failed to insert tenant token'' token (hash_token cd plaintext) db) (\<lambda>db.
         and_then (insert_audit_event_tx
                     (tenant_token_audit_event cd (td_event draw) token ''tenant_token.create'' actor) db) (\<lambda>db.
         Ok ((token, plaintext), db))))"

text \<open>The user whose session a token stands for, if it does.\<close>

definition session_user ::
  "auth_codec \<Rightarrow> tenant_token \<Rightarrow> auth_db \<Rightarrow> user option option repository_result" where
  "session_user cd token db =
     (if MobileSession \<in> set (tt_scopes token) \<or>
         (tt_created_by_user_id token \<noteq> None \<and> PluginStudio \<in> set (tt_scopes token))
      then (case tt_created_by_user_id token of
              None \<Rightarrow> Ok None
            | Some i \<Rightarrow>
                (case find_user (tt_tenant_id token) i db of
                   None \<Rightarrow> Ok None
                 | Some m \<Rightarrow> and_then (user_from_model cd m) (\<lambda>u. Ok (Some (Some u)))))
      else Ok (Some None))"

definition authenticate_tenant_token ::
  "auth_codec \<Rightarrow> int \<Rightarrow> timestamp \<Rightarrow> string \<Rightarrow> auth_db \<Rightarrow>
   ((tenant_token \<times> user option) option repository_result) \<times> auth_db" where
  "authenticate_tenant_token cd clock now plaintext db =
     (case find (\<lambda>r. tk_token_hash r = hash_token cd plaintext \<and> tk_revoked_at r = None) (at_tokens db) of
        None \<Rightarrow> (Ok None, db)
      | Some m \<Rightarrow>
          (case tenant_token_from_model cd m of
             Err e \<Rightarrow> (Err e, db)
           | Ok token \<Rightarrow>
               (case is_expired cd clock token of
                  Err e \<Rightarrow> (Err e, db)
                | Ok True \<Rightarrow> (Ok None, db)
                | Ok False \<Rightarrow>
                    (let db = db\<lparr>at_tokens := fst (update_many (\<lambda>r. tk_id r = tk_id m)
                                                   (\<lambda>r. r\<lparr>tk_last_used_at := Some now\<rparr>) (at_tokens db))\<rparr>
                     in (and_then (session_user cd token db) (\<lambda>s. Ok (map_option (\<lambda>u. (token, u)) s)), db)))))"

definition revoke_tenant_token ::
  "auth_codec \<Rightarrow> timestamp \<Rightarrow> tenant_id \<Rightarrow> string \<Rightarrow> auth_db \<Rightarrow> (tenant_token \<times> auth_db) repository_result" where
  "revoke_tenant_token cd now tenant i db =
     (case find (\<lambda>r. tk_id r = i \<and> tk_tenant_id r = tenant) (at_tokens db) of
        None \<Rightarrow> Err MissingTenantToken
      | Some m \<Rightarrow>
          if tk_revoked_at m \<noteq> None
          then and_then (tenant_token_from_model cd m) (\<lambda>t. Ok (t, db))
          else and_then (tenant_token_from_model cd (m\<lparr>tk_revoked_at := Some now\<rparr>)) (\<lambda>t.
                 Ok (t, db\<lparr>at_tokens := fst (update_many (\<lambda>r. tk_id r = tk_id m)
                                             (\<lambda>r. r\<lparr>tk_revoked_at := Some now\<rparr>) (at_tokens db))\<rparr>)))"

definition revoke_tenant_token_with_audit ::
  "auth_codec \<Rightarrow> timestamp \<Rightarrow> event_draw \<Rightarrow> tenant_id \<Rightarrow> string \<Rightarrow> audit_actor \<Rightarrow> auth_db \<Rightarrow>
   (tenant_token \<times> auth_db) repository_result" where
  "revoke_tenant_token_with_audit cd now draw tenant i actor db =
     and_then (revoke_tenant_token cd now tenant i db) (\<lambda>(token, db).
     and_then (insert_audit_event_tx (tenant_token_audit_event cd draw token ''tenant_token.revoke'' actor) db) (\<lambda>db.
     Ok (token, db)))"

definition rotate_tenant_token_with_audit ::
  "auth_codec \<Rightarrow> token_draw \<Rightarrow> tenant_id \<Rightarrow> string \<Rightarrow> timestamp option \<Rightarrow> audit_actor \<Rightarrow> auth_db \<Rightarrow>
   ((tenant_token \<times> string) \<times> auth_db) repository_result" where
  "rotate_tenant_token_with_audit cd draw tenant i expires_at actor db =
     (let plaintext = generate_secret TENANT_TOKEN_PREFIX (td_uuids draw)
      in and_then (revoke_tenant_token cd (td_now draw) tenant i db) (\<lambda>(old, db).
           let token = new_tenant_token draw tenant (tt_name old) (tt_scopes old) (tt_created_by_user_id old) expires_at
           in and_then (insert_tenant_token cd ''failed to insert rotated tenant token'' token (hash_token cd plaintext) db) (\<lambda>db.
              and_then (insert_audit_event_tx
                          (tenant_token_audit_event cd (td_event draw) token ''tenant_token.rotate'' actor) db) (\<lambda>db.
              Ok ((token, plaintext), db)))))"

definition create_plugin_token_from_ticket_tx ::
  "auth_codec \<Rightarrow> token_draw \<Rightarrow> tenant_id \<Rightarrow> string \<Rightarrow> string option \<Rightarrow> timestamp \<Rightarrow> auth_db \<Rightarrow>
   ((tenant_token \<times> string) \<times> auth_db) repository_result" where
  "create_plugin_token_from_ticket_tx cd draw tenant name creator expires_at db =
     (let plaintext = generate_secret PLUGIN_TOKEN_PREFIX (td_uuids draw);
          token = new_tenant_token draw tenant name [PluginStudio] creator (Some expires_at)
      in and_then (insert_tenant_token cd ''failed to insert plugin tenant token'' token (hash_token cd plaintext) db)
           (\<lambda>db. Ok ((token, plaintext), db)))"

definition create_mobile_token_from_ticket_tx ::
  "auth_codec \<Rightarrow> token_draw \<Rightarrow> tenant_id \<Rightarrow> string \<Rightarrow> string option \<Rightarrow> timestamp \<Rightarrow> auth_db \<Rightarrow>
   ((tenant_token \<times> string) \<times> auth_db) repository_result" where
  "create_mobile_token_from_ticket_tx cd draw tenant name creator expires_at db =
     (let plaintext = generate_secret MOBILE_TOKEN_PREFIX (td_uuids draw);
          token = new_tenant_token draw tenant name [MobileSession] creator (Some expires_at)
      in and_then (insert_tenant_token cd ''failed to insert mobile tenant token'' token (hash_token cd plaintext) db)
           (\<lambda>db. Ok ((token, plaintext), db)))"

definition revoke_plugin_studio_token_with_audit ::
  "auth_codec \<Rightarrow> timestamp \<Rightarrow> event_draw \<Rightarrow> string \<Rightarrow> auth_db \<Rightarrow> (tenant_token option \<times> auth_db) repository_result" where
  "revoke_plugin_studio_token_with_audit cd now draw plaintext db =
     (let token_hash = hash_token cd plaintext
      in case find (\<lambda>r. tk_token_hash r = token_hash) (at_tokens db) of
           None \<Rightarrow> Ok (None, db)
         | Some m \<Rightarrow>
             and_then (tenant_token_from_model cd m) (\<lambda>token.
               if tt_scopes token \<noteq> [PluginStudio] then Ok (None, db)
               else
                 case update_many (\<lambda>r. tk_id r = tt_id token \<and> tk_tenant_id r = tt_tenant_id token \<and>
                                       tk_token_hash r = token_hash \<and> tk_revoked_at r = None)
                        (\<lambda>r. r\<lparr>tk_revoked_at := Some now\<rparr>) (at_tokens db) of
                   (rows, affected) \<Rightarrow>
                     if affected = 1
                     then (let revoked = token\<lparr>tt_revoked_at := Some now\<rparr>;
                               actor = AuditActor_plugin_token (tt_created_by_user_id revoked) (tt_id revoked)
                                         [TenantTokenScope_as_str PluginStudio]
                           in and_then (insert_audit_event_tx
                                (tenant_token_audit_event cd draw revoked ''tenant_token.revoke'' actor)
                                (db\<lparr>at_tokens := rows\<rparr>)) (\<lambda>db. Ok (Some revoked, db)))
                     else
                       (let db = db\<lparr>at_tokens := rows\<rparr>
                        in case find (\<lambda>r. tk_id r = tt_id token \<and> tk_tenant_id r = tt_tenant_id token \<and>
                                       tk_token_hash r = token_hash) (at_tokens db) of
                             None \<Rightarrow> Ok (None, db)
                           | Some m \<Rightarrow>
                               and_then (tenant_token_from_model cd m) (\<lambda>t.
                                 Ok (if tt_scopes t = [PluginStudio] \<and> tt_revoked_at t \<noteq> None then Some t else None, db)))))"

text \<open>The tenants of the no-auth mode: it works only while there is exactly one.\<close>

datatype no_auth_outcome = NoAuthCreated tenant tenant_token string | NoAuthMissingTenant | NoAuthAmbiguousTenant

definition create_no_auth_plugin_session_with_audit ::
  "auth_codec \<Rightarrow> token_draw \<Rightarrow> string \<Rightarrow> timestamp \<Rightarrow> auth_db \<Rightarrow> (no_auth_outcome \<times> auth_db) repository_result" where
  "create_no_auth_plugin_session_with_audit cd draw name expires_at db =
     (case at_tenants db of
        [] \<Rightarrow> Ok (NoAuthMissingTenant, db)
      | [m] \<Rightarrow>
          and_then (tenant_from_model cd ''failed to rehydrate no-auth plugin session tenant'' m) (\<lambda>t.
            let plaintext = generate_secret TENANT_TOKEN_PREFIX (td_uuids draw);
                actor = AuditActor_no_auth;
                token = new_tenant_token draw (tenant_id t) name [PluginStudio] (actor_user_id actor) (Some expires_at)
            in and_then (insert_tenant_token cd ''failed to insert no-auth plugin session token'' token
                           (hash_token cd plaintext) db) (\<lambda>db.
               and_then (insert_audit_event_tx
                           (tenant_token_audit_event cd (td_event draw) token ''tenant_token.create'' actor) db) (\<lambda>db.
               Ok (NoAuthCreated t token plaintext, db))))
      | _ \<Rightarrow> Ok (NoAuthAmbiguousTenant, db))"

section \<open>Properties\<close>

lemma UserRole_parse_as_str [simp]: "UserRole_parse (UserRole_as_str r) = Ok r"
  by (cases r) (simp_all add: UserRole_parse_def)

lemma UserRole_parse_Ok: "UserRole_parse v = Ok r \<longleftrightarrow> v = UserRole_as_str r"
  by (cases r) (auto simp: UserRole_parse_def)

lemma TenantTokenScope_parse_as_str [simp]: "TenantTokenScope_parse (TenantTokenScope_as_str s) = Ok s"
  by (cases s) (simp_all add: TenantTokenScope_parse_def)

end
