(* ===== verification/Hub_Onboarding.thy ===== *)
theory Hub_Onboarding
  imports Hub_Auth Rust_Text
begin

text \<open>
  How people and clients get in: \<open>crates/pandar-hub/src/repositories/auth/bootstrap.rs\<close>,
  \<open>auth/onboarding.rs\<close> with \<open>onboarding/support.rs\<close> (self-created tenants and join links),
  \<open>auth/plugin_tickets.rs\<close> with its submodules (login tickets that are exchanged for tokens) and
  \<open>printer_event_tickets.rs\<close> (one-time tickets of the event stream).

  Parameters besides \<open>auth_codec\<close>: the URL readers of the \<open>http\<close> and \<open>url\<close> crates.
\<close>

section \<open>Tenant bootstrap\<close>

record bootstrap_draw =
  bd_tenant :: string
  bd_user :: string
  bd_token :: token_draw
  bd_events :: "event_draw \<times> event_draw \<times> event_draw"

definition bootstrap_event ::
  "auth_codec \<Rightarrow> event_draw \<Rightarrow> tenant_id \<Rightarrow> string \<Rightarrow> string \<Rightarrow> string \<Rightarrow> audit_metadata \<Rightarrow> audit_event" where
  "bootstrap_event cd draw tenant action target_type target metadata =
     \<lparr>ev_id = fst draw, ev_tenant_id = tenant, ev_actor_type = ''bootstrap'', ev_user_id = None, ev_action = action,
      ev_target_type = target_type, ev_target_id = Some target, ev_metadata_json = au_metadata_text cd metadata,
      ev_created_at = snd draw\<rparr>"

definition bootstrap_audit_events ::
  "auth_codec \<Rightarrow> event_draw \<times> event_draw \<times> event_draw \<Rightarrow> tenant \<Rightarrow> user \<Rightarrow> tenant_token \<Rightarrow> audit_event list" where
  "bootstrap_audit_events cd draws t u token =
     [bootstrap_event cd (fst draws) (tenant_id t) ''tenant.bootstrap'' ''tenant'' (tenant_id t)
        (AuditObject [(''tenant_slug'', AuditString (tenant_slug t))]),
      bootstrap_event cd (fst (snd draws)) (tenant_id t) ''user.create'' ''user'' (u_id u)
        (AuditObject [(''email'', AuditString (u_email u)), (''role'', AuditString (UserRole_as_str (u_role u)))]),
      bootstrap_event cd (snd (snd draws)) (tenant_id t) ''tenant_token.create'' ''tenant_token'' (tt_id token)
        (AuditObject [(''created_by_user_id'',
                         case tt_created_by_user_id token of Some i \<Rightarrow> AuditString i | None \<Rightarrow> AuditNull),
                      (''name'', AuditString (tt_name token))])]"

fun insert_events_tx :: "audit_event list \<Rightarrow> auth_db \<Rightarrow> auth_db repository_result" where
  "insert_events_tx [] db = Ok db"
| "insert_events_tx (e # es) db = and_then (insert_audit_event_tx e db) (insert_events_tx es)"

definition bootstrap_tenant_admin_with_plaintext_token ::
  "auth_codec \<Rightarrow> bootstrap_draw \<Rightarrow> string \<Rightarrow> string \<Rightarrow> string \<Rightarrow> string \<Rightarrow> string \<Rightarrow> auth_db \<Rightarrow>
   ((tenant \<times> user \<times> tenant_token \<times> string) \<times> auth_db) repository_result" where
  "bootstrap_tenant_admin_with_plaintext_token cd draw slug display_name email admin_name token_name db =
     and_then (map_err (\<lambda>e. Database (CoreErr e))
                 (Tenant_new (bd_tenant draw) (td_now (bd_token draw)) slug display_name)) (\<lambda>t.
       let u = \<lparr>u_id = bd_user draw, u_tenant_id = tenant_id t, u_email = email, u_display_name = admin_name,
                u_role = TenantAdmin, u_created_at = td_now (bd_token draw)\<rparr>;
           plaintext = generate_secret TENANT_TOKEN_PREFIX (td_uuids (bd_token draw));
           token = new_tenant_token (bd_token draw) (tenant_id t) token_name [AllScopes] (Some (u_id u)) None
       in and_then (insert_tenant ''failed to insert bootstrap tenant'' t db) (\<lambda>db.
          and_then (insert_user ''failed to insert bootstrap user'' u db) (\<lambda>db.
          and_then (insert_tenant_token cd ''failed to insert bootstrap tenant token'' token (hash_token cd plaintext) db) (\<lambda>db.
          and_then (insert_events_tx (bootstrap_audit_events cd (bd_events draw) t u token) db) (\<lambda>db.
          Ok ((t, u, token, plaintext), db))))))"

section \<open>Self-created tenants\<close>

record external_identity_profile =
  xp_provider :: string
  xp_subject :: string
  xp_email :: string
  xp_display_name :: string

record member_draw =
  md_user :: string
  md_identity :: string
  md_now :: timestamp
  md_events :: "event_draw \<times> event_draw"

definition member_user :: "member_draw \<Rightarrow> tenant_id \<Rightarrow> user_role \<Rightarrow> external_identity_profile \<Rightarrow> user" where
  "member_user draw tenant role profile =
     \<lparr>u_id = md_user draw, u_tenant_id = tenant, u_email = xp_email profile,
      u_display_name = xp_display_name profile, u_role = role, u_created_at = md_now draw\<rparr>"

definition member_identity :: "member_draw \<Rightarrow> tenant_id \<Rightarrow> external_identity_profile \<Rightarrow> user_identity" where
  "member_identity draw tenant profile =
     \<lparr>ui_id = md_identity draw, ui_tenant_id = tenant, ui_user_id = md_user draw,
      ui_provider = xp_provider profile, ui_subject = xp_subject profile, ui_created_at = md_now draw\<rparr>"

definition user_external_projection_audit_event ::
  "auth_codec \<Rightarrow> event_draw \<Rightarrow> user \<Rightarrow> user_identity \<Rightarrow> audit_actor \<Rightarrow> audit_event" where
  "user_external_projection_audit_event cd draw u v actor =
     auth_event cd draw (u_tenant_id u) actor ''user.external_projection_create'' ''user'' (Some (u_id u))
       (AuditObject [(''email'', AuditString (u_email u)), (''provider'', AuditString (ui_provider v)),
                     (''role'', AuditString (UserRole_as_str (u_role u)))])"

definition tenant_self_create_audit_event :: "auth_codec \<Rightarrow> event_draw \<Rightarrow> tenant \<Rightarrow> audit_actor \<Rightarrow> audit_event" where
  "tenant_self_create_audit_event cd draw t actor =
     auth_event cd draw (tenant_id t) actor ''tenant.self_create'' ''tenant'' (Some (tenant_id t))
       (AuditObject [(''tenant_slug'', AuditString (tenant_slug t))])"

definition self_create_tenant_for_external_identity ::
  "auth_codec \<Rightarrow> string \<Rightarrow> member_draw \<Rightarrow> string \<Rightarrow> string \<Rightarrow> external_identity_profile \<Rightarrow> auth_db \<Rightarrow>
   ((tenant \<times> user) \<times> auth_db) repository_result" where
  "self_create_tenant_for_external_identity cd tenant_draw draw slug display_name profile db =
     and_then (map_err (\<lambda>e. Database (CoreErr e)) (Tenant_new tenant_draw (md_now draw) slug display_name)) (\<lambda>t.
       let u = member_user draw (tenant_id t) TenantAdmin profile;
           v = member_identity draw (tenant_id t) profile;
           actor = AuditActor_user (u_id u)
       in and_then (insert_tenant ''failed to insert self-created tenant'' t db) (\<lambda>db.
          and_then (insert_user ''failed to insert external tenant admin'' u db) (\<lambda>db.
          and_then (insert_identity ''failed to link external tenant admin'' v db) (\<lambda>db.
          and_then (insert_audit_event_tx (user_external_projection_audit_event cd (fst (md_events draw)) u v actor) db) (\<lambda>db.
          and_then (insert_audit_event_tx (tenant_self_create_audit_event cd (snd (md_events draw)) t actor) db) (\<lambda>db.
          Ok ((t, u), db)))))))"

section \<open>Join links\<close>

definition JOIN_LINK_PREFIX :: string where "JOIN_LINK_PREFIX = ''pandar_join''"

record join_link =
  ln_id :: string
  ln_tenant_id :: string
  ln_role :: user_role
  ln_email_constraint :: "string option"
  ln_expires_at :: timestamp
  ln_max_uses :: i32
  ln_used_count :: i32
  ln_created_by_user_id :: "string option"
  ln_revoked_at :: "timestamp option"
  ln_created_at :: timestamp

definition join_link_from_model :: "join_link_row \<Rightarrow> join_link repository_result" where
  "join_link_from_model m =
     and_then (UserRole_parse (jl_role m)) (\<lambda>role.
       Ok \<lparr>ln_id = jl_id m, ln_tenant_id = jl_tenant_id m, ln_role = role,
           ln_email_constraint = jl_email_constraint m, ln_expires_at = jl_expires_at m,
           ln_max_uses = jl_max_uses m, ln_used_count = jl_used_count m,
           ln_created_by_user_id = jl_created_by_user_id m, ln_revoked_at = jl_revoked_at m,
           ln_created_at = jl_created_at m\<rparr>)"

definition join_link_model :: "join_link \<Rightarrow> string \<Rightarrow> join_link_row" where
  "join_link_model l token_hash =
     \<lparr>jl_id = ln_id l, jl_tenant_id = ln_tenant_id l, jl_token_hash = token_hash,
      jl_role = UserRole_as_str (ln_role l), jl_email_constraint = ln_email_constraint l,
      jl_expires_at = ln_expires_at l, jl_max_uses = ln_max_uses l, jl_used_count = ln_used_count l,
      jl_created_by_user_id = ln_created_by_user_id l, jl_revoked_at = ln_revoked_at l,
      jl_created_at = ln_created_at l\<rparr>"

definition insert_join_link :: "join_link \<Rightarrow> string \<Rightarrow> auth_db \<Rightarrow> auth_db repository_result" where
  "insert_join_link l token_hash db =
     (if ln_id l \<in> jl_id ` set (at_links db) then Err (database_error ''failed to insert join link'')
      else if token_hash \<in> jl_token_hash ` set (at_links db) then Err DuplicateJoinLinkHash
      else if ln_tenant_id l \<notin> tr_id ` set (at_tenants db) \<or>
              (\<exists>u \<in> set_option (ln_created_by_user_id l). u \<notin> usr_id ` set (at_users db))
      then Err MissingTenant
      else Ok (db\<lparr>at_links := at_links db @ [join_link_model l token_hash]\<rparr>))"

definition join_link_audit_event ::
  "auth_codec \<Rightarrow> event_draw \<Rightarrow> join_link \<Rightarrow> string \<Rightarrow> audit_actor \<Rightarrow> audit_event" where
  "join_link_audit_event cd draw l action actor =
     auth_event cd draw (ln_tenant_id l) actor action ''join_link'' (Some (ln_id l))
       (AuditObject [(''email_constraint'',
                        case ln_email_constraint l of Some e \<Rightarrow> AuditString e | None \<Rightarrow> AuditNull),
                     (''max_uses'', AuditNumber (if ln_max_uses l < 0 then NegInt (ln_max_uses l)
                                                 else PosInt (of_int (ln_max_uses l)))),
                     (''role'', AuditString (UserRole_as_str (ln_role l)))])"

text \<open>What creating a link draws; the clock is read once, in nanoseconds.\<close>

record link_draw =
  ld_id :: string
  ld_uuids :: "string \<times> string"
  ld_clock :: int
  ld_event :: event_draw

definition format_timestamp :: "auth_codec \<Rightarrow> int \<Rightarrow> timestamp repository_result" where
  "format_timestamp cd t = ok_or (au_format_time cd t) (database_error ''failed to format onboarding timestamp'')"

definition create_join_link_with_audit ::
  "auth_codec \<Rightarrow> link_draw \<Rightarrow> tenant_id \<Rightarrow> user_role \<Rightarrow> string option \<Rightarrow> int \<Rightarrow> i32 \<Rightarrow> audit_actor \<Rightarrow> auth_db \<Rightarrow>
   ((join_link \<times> string) \<times> auth_db) repository_result" where
  "create_join_link_with_audit cd draw tenant role email_constraint expires_in_seconds max_uses actor db =
     (let plaintext = generate_secret JOIN_LINK_PREFIX (ld_uuids draw)
      in and_then (format_timestamp cd (ld_clock draw + expires_in_seconds * 1000000000)) (\<lambda>expires_at.
         and_then (format_timestamp cd (ld_clock draw)) (\<lambda>created_at.
           let l = \<lparr>ln_id = ld_id draw, ln_tenant_id = tenant, ln_role = role,
                    ln_email_constraint = email_constraint, ln_expires_at = expires_at, ln_max_uses = max_uses,
                    ln_used_count = 0, ln_created_by_user_id = actor_user_id actor, ln_revoked_at = None,
                    ln_created_at = created_at\<rparr>
           in and_then (insert_join_link l (hash_token cd plaintext) db) (\<lambda>db.
              and_then (insert_audit_event_tx (join_link_audit_event cd (ld_event draw) l ''join_link.create'' actor) db) (\<lambda>db.
              Ok ((l, plaintext), db))))))"

definition revoke_join_link ::
  "timestamp \<Rightarrow> tenant_id \<Rightarrow> string \<Rightarrow> auth_db \<Rightarrow> (join_link \<times> auth_db) repository_result" where
  "revoke_join_link now tenant i db =
     (case find (\<lambda>r. jl_id r = i \<and> jl_tenant_id r = tenant) (at_links db) of
        None \<Rightarrow> Err InvalidJoinLink
      | Some m \<Rightarrow>
          if jl_revoked_at m \<noteq> None then and_then (join_link_from_model m) (\<lambda>l. Ok (l, db))
          else and_then (join_link_from_model (m\<lparr>jl_revoked_at := Some now\<rparr>)) (\<lambda>l.
                 Ok (l, db\<lparr>at_links := fst (update_many (\<lambda>r. jl_id r = jl_id m)
                                            (\<lambda>r. r\<lparr>jl_revoked_at := Some now\<rparr>) (at_links db))\<rparr>)))"

definition revoke_join_link_with_audit ::
  "auth_codec \<Rightarrow> timestamp \<Rightarrow> event_draw \<Rightarrow> tenant_id \<Rightarrow> string \<Rightarrow> audit_actor \<Rightarrow> auth_db \<Rightarrow>
   (join_link \<times> auth_db) repository_result" where
  "revoke_join_link_with_audit cd now draw tenant i actor db =
     and_then (revoke_join_link now tenant i db) (\<lambda>(l, db).
     and_then (insert_audit_event_tx (join_link_audit_event cd draw l ''join_link.revoke'' actor) db) (\<lambda>db.
     Ok (l, db)))"

definition load_valid_join_link_by_hash ::
  "string \<Rightarrow> timestamp \<Rightarrow> auth_db \<Rightarrow> join_link_row repository_result" where
  "load_valid_join_link_by_hash token_hash now db =
     (case find (\<lambda>r. jl_token_hash r = token_hash) (at_links db) of
        None \<Rightarrow> Err InvalidJoinLink
      | Some l \<Rightarrow>
          if jl_revoked_at l \<noteq> None \<or> jl_used_count l \<ge> jl_max_uses l \<or> \<not> text_less now (jl_expires_at l)
          then Err InvalidJoinLink else Ok l)"

definition consume_join_link_use_tx :: "string \<Rightarrow> timestamp \<Rightarrow> auth_db \<Rightarrow> bool \<times> auth_db" where
  "consume_join_link_use_tx i now db =
     (case update_many (\<lambda>r. jl_id r = i \<and> jl_used_count r < jl_max_uses r \<and> jl_revoked_at r = None \<and>
                            text_less now (jl_expires_at r))
             (\<lambda>r. r\<lparr>jl_used_count := jl_used_count r + 1\<rparr>) (at_links db) of
        (rows, affected) \<Rightarrow> (affected = 1, db\<lparr>at_links := rows\<rparr>))"

definition find_external_user_tx ::
  "auth_codec \<Rightarrow> tenant_id \<Rightarrow> string \<Rightarrow> string \<Rightarrow> auth_db \<Rightarrow> user option repository_result" where
  "find_external_user_tx cd tenant provider subject db =
     (case find_identity tenant provider subject db of
        None \<Rightarrow> Ok None
      | Some identity \<Rightarrow>
          (case find_user tenant (idr_user_id identity) db of
             None \<Rightarrow> Ok None
           | Some m \<Rightarrow> and_then (user_from_model cd m) (\<lambda>u. Ok (Some u))))"

definition load_tenant :: "auth_codec \<Rightarrow> tenant_id \<Rightarrow> auth_db \<Rightarrow> tenant repository_result" where
  "load_tenant cd tenant db =
     (case find_by_id tr_id tenant (at_tenants db) of
        None \<Rightarrow> Err MissingTenant
      | Some m \<Rightarrow> tenant_from_model cd ''failed to rehydrate onboarding tenant'' m)"

definition join_link_accept_event :: "auth_codec \<Rightarrow> event_draw \<Rightarrow> join_link \<Rightarrow> user \<Rightarrow> audit_event" where
  "join_link_accept_event cd draw l u =
     auth_event cd draw (u_tenant_id u) (AuditActor_user (u_id u)) ''join_link.accept'' ''join_link'' (Some (ln_id l))
       (AuditObject [(''email'', AuditString (u_email u)), (''role'', AuditString (UserRole_as_str (u_role u)))])"

record accepted_join_link =
  aj_tenant :: tenant
  aj_user :: user
  aj_created :: bool

definition accept_join_link ::
  "auth_codec \<Rightarrow> int \<Rightarrow> member_draw \<Rightarrow> string \<Rightarrow> external_identity_profile \<Rightarrow> auth_db \<Rightarrow>
   (accepted_join_link \<times> auth_db) repository_result" where
  "accept_join_link cd clock draw plaintext profile db =
     and_then (format_timestamp cd clock) (\<lambda>now.
     and_then (load_valid_join_link_by_hash (hash_token cd plaintext) now db) (\<lambda>m.
     and_then (join_link_from_model m) (\<lambda>l.
     and_then (map_err (\<lambda>e. Database (CoreErr e)) (TenantId_parse (au_uuid cd) (ln_tenant_id l))) (\<lambda>tenant.
       if \<exists>c \<in> set_option (ln_email_constraint l). \<not> eq_ignore_ascii_case c (xp_email profile)
       then Err JoinLinkEmailMismatch
       else
         and_then (find_external_user_tx cd tenant (xp_provider profile) (xp_subject profile) db) (\<lambda>existing.
           case existing of
             Some u \<Rightarrow>
               and_then (load_tenant cd tenant db) (\<lambda>t.
                 Ok (\<lparr>aj_tenant = t, aj_user = u, aj_created = False\<rparr>, db))
           | None \<Rightarrow>
               (case consume_join_link_use_tx (ln_id l) now db of
                  (consumed, db) \<Rightarrow>
                    if \<not> consumed then Err InvalidJoinLink
                    else
                      let u = member_user draw tenant (ln_role l) profile;
                          v = member_identity draw tenant profile
                      in and_then (insert_user ''failed to insert join link user'' u db) (\<lambda>db.
                         and_then (insert_identity ''failed to insert join link identity'' v db) (\<lambda>db.
                         and_then (insert_audit_event_tx (user_external_projection_audit_event cd
                                     (fst (md_events draw)) u v (AuditActor_user (u_id u))) db) (\<lambda>db.
                         and_then (insert_audit_event_tx
                                     (join_link_accept_event cd (snd (md_events draw)) l u) db) (\<lambda>db.
                         and_then (load_tenant cd tenant db) (\<lambda>t.
                         Ok (\<lparr>aj_tenant = t, aj_user = u, aj_created = True\<rparr>, db))))))))))))"

section \<open>Login tickets\<close>

definition PLUGIN_LOGIN_TICKET_PREFIX :: string where
  "PLUGIN_LOGIN_TICKET_PREFIX = ''pandar_plugin_ticket_''"

definition MOBILE_LOGIN_TICKET_PREFIX :: string where
  "MOBILE_LOGIN_TICKET_PREFIX = ''pandar_mobile_ticket_''"

definition PLUGIN_TOKEN_SCOPE :: string where "PLUGIN_TOKEN_SCOPE = ''plugin:studio''"

definition MOBILE_TOKEN_SCOPE :: string where "MOBILE_TOKEN_SCOPE = ''mobile:session''"

definition PLUGIN_TOKEN_TTL_DAYS :: int where "PLUGIN_TOKEN_TTL_DAYS = 30"

datatype login_ticket_kind = PluginTicket | MobileTicket

fun LoginTicketKind_as_str :: "login_ticket_kind \<Rightarrow> string" where
  "LoginTicketKind_as_str PluginTicket = ''plugin''"
| "LoginTicketKind_as_str MobileTicket = ''mobile''"

definition LoginTicketKind_parse :: "string \<Rightarrow> login_ticket_kind repository_result" where
  "LoginTicketKind_parse v =
     (if v = ''plugin'' then Ok PluginTicket
      else if v = ''mobile'' then Ok MobileTicket
      else Err (database_error (''invalid persisted login ticket kind '' @ v)))"

record plugin_login_ticket =
  pt_id :: string
  pt_tenant_id :: tenant_id
  pt_user_id :: "string option"
  pt_redirect_url :: string
  pt_kind :: login_ticket_kind
  pt_code_challenge :: "string option"
  pt_created_at :: timestamp
  pt_expires_at :: timestamp
  pt_used_at :: "timestamp option"
  pt_revoked_at :: "timestamp option"

record plugin_login_ticket_exchange =
  px_ticket :: plugin_login_ticket
  px_redirect_url :: string
  px_token :: tenant_token
  px_plaintext_token :: string

definition plugin_login_ticket_from_model ::
  "auth_codec \<Rightarrow> ticket_row \<Rightarrow> plugin_login_ticket repository_result" where
  "plugin_login_ticket_from_model cd m =
     and_then (map_err (\<lambda>e. Database (CoreErr e)) (TenantId_parse (au_uuid cd) (lt_tenant_id m))) (\<lambda>t.
     and_then (LoginTicketKind_parse (lt_kind m)) (\<lambda>kind.
     Ok \<lparr>pt_id = lt_id m, pt_tenant_id = t, pt_user_id = lt_user_id m, pt_redirect_url = lt_redirect_url m,
         pt_kind = kind, pt_code_challenge = lt_code_challenge m, pt_created_at = lt_created_at m,
         pt_expires_at = lt_expires_at m, pt_used_at = lt_used_at m, pt_revoked_at = lt_revoked_at m\<rparr>))"

definition plugin_login_ticket_model :: "plugin_login_ticket \<Rightarrow> string \<Rightarrow> ticket_row" where
  "plugin_login_ticket_model t ticket_hash =
     \<lparr>lt_id = pt_id t, lt_tenant_id = pt_tenant_id t, lt_user_id = pt_user_id t, lt_ticket_hash = ticket_hash,
      lt_redirect_url = pt_redirect_url t, lt_kind = LoginTicketKind_as_str (pt_kind t),
      lt_code_challenge = pt_code_challenge t, lt_created_at = pt_created_at t, lt_expires_at = pt_expires_at t,
      lt_used_at = pt_used_at t, lt_revoked_at = pt_revoked_at t\<rparr>"

definition insert_plugin_login_ticket :: "plugin_login_ticket \<Rightarrow> string \<Rightarrow> auth_db \<Rightarrow> auth_db repository_result" where
  "insert_plugin_login_ticket t ticket_hash db =
     and_then (case pt_user_id t of None \<Rightarrow> Ok () | Some u \<Rightarrow> ensure_user_exists (pt_tenant_id t) u db) (\<lambda>_.
       if pt_id t \<in> lt_id ` set (at_tickets db)
       then Err (database_error ''failed to insert plugin login ticket'')
       else if ticket_hash \<in> lt_ticket_hash ` set (at_tickets db) then Err DuplicatePluginLoginTicketHash
       else if pt_tenant_id t \<notin> tr_id ` set (at_tenants db) then Err MissingTenant
       else Ok (db\<lparr>at_tickets := at_tickets db @ [plugin_login_ticket_model t ticket_hash]\<rparr>))"

definition plugin_login_ticket_audit_event ::
  "auth_codec \<Rightarrow> event_draw \<Rightarrow> plugin_login_ticket \<Rightarrow> string \<Rightarrow> audit_actor \<Rightarrow> string option \<Rightarrow> audit_event" where
  "plugin_login_ticket_audit_event cd draw t action actor token_id =
     auth_event cd draw (pt_tenant_id t) actor action ''plugin_login_ticket'' (Some (pt_id t))
       (AuditObject [(''issued_tenant_token_id'', case token_id of Some i \<Rightarrow> AuditString i | None \<Rightarrow> AuditNull)])"

text \<open>The parts of a redirect URL that the checks look at; the readers are parameters.\<close>

record uri =
  uri_scheme :: "string option"
  uri_authority :: "string option"
  uri_host :: string
  uri_port :: "u16 option"
  uri_text :: string

definition validate_plugin_redirect_url :: "(string \<Rightarrow> uri option) \<Rightarrow> string \<Rightarrow> string repository_result" where
  "validate_plugin_redirect_url parse url =
     (case parse url of
        None \<Rightarrow> Err InvalidPluginRedirectUrl
      | Some u \<Rightarrow>
          if uri_scheme u \<noteq> Some ''http'' \<or> CHR ''#'' \<in> set url then Err InvalidPluginRedirectUrl
          else
            (case uri_authority u of
               None \<Rightarrow> Err InvalidPluginRedirectUrl
             | Some authority \<Rightarrow>
                 if CHR ''@'' \<in> set authority then Err InvalidPluginRedirectUrl
                 else if uri_host u \<notin> set [''localhost'', ''127.0.0.1'', ''::1'', ''[::1]'']
                 then Err InvalidPluginRedirectUrl
                 else
                   (case uri_port u of
                      None \<Rightarrow> Err InvalidPluginRedirectUrl
                    | Some port \<Rightarrow> if port = 0 then Err InvalidPluginRedirectUrl else Ok (uri_text u))))"

record url =
  url_scheme :: string
  url_host :: "string option"
  url_path :: string
  url_query :: "string option"

definition validate_mobile_redirect_url :: "(string \<Rightarrow> url option) \<Rightarrow> string \<Rightarrow> string repository_result" where
  "validate_mobile_redirect_url parse redirect_url =
     (case parse redirect_url of
        None \<Rightarrow> Err InvalidPluginRedirectUrl
      | Some u \<Rightarrow>
          if url_scheme u \<noteq> ''zip.iptables.pandar.android'' \<or> url_host u \<noteq> Some ''auth'' \<or>
             url_path u \<noteq> ''/callback'' \<or> url_query u \<noteq> None \<or> CHR ''#'' \<in> set redirect_url
          then Err InvalidPluginRedirectUrl
          else Ok redirect_url)"

definition create_plugin_login_ticket_with_audit ::
  "auth_codec \<Rightarrow> (string \<Rightarrow> uri option) \<Rightarrow> token_draw \<Rightarrow> tenant_id \<Rightarrow> string option \<Rightarrow> string \<Rightarrow> timestamp \<Rightarrow>
   audit_actor \<Rightarrow> auth_db \<Rightarrow> ((plugin_login_ticket \<times> string) \<times> auth_db) repository_result" where
  "create_plugin_login_ticket_with_audit cd parse draw tenant user_id redirect_url expires_at actor db =
     and_then (validate_plugin_redirect_url parse redirect_url) (\<lambda>redirect_url.
       let plaintext = generate_secret PLUGIN_LOGIN_TICKET_PREFIX (td_uuids draw);
           t = \<lparr>pt_id = td_id draw, pt_tenant_id = tenant, pt_user_id = user_id, pt_redirect_url = redirect_url,
                pt_kind = PluginTicket, pt_code_challenge = None, pt_created_at = td_now draw,
                pt_expires_at = expires_at, pt_used_at = None, pt_revoked_at = None\<rparr>
       in and_then (insert_plugin_login_ticket t (hash_token cd plaintext) db) (\<lambda>db.
          and_then (insert_audit_event_tx (plugin_login_ticket_audit_event cd (td_event draw) t
                      ''plugin_login_ticket.create'' actor None) db) (\<lambda>db.
          Ok ((t, plaintext), db))))"

definition create_mobile_login_ticket_with_audit ::
  "auth_codec \<Rightarrow> (string \<Rightarrow> url option) \<Rightarrow> token_draw \<Rightarrow> tenant_id \<Rightarrow> string option \<Rightarrow> string \<Rightarrow> string \<Rightarrow> timestamp \<Rightarrow>
   audit_actor \<Rightarrow> auth_db \<Rightarrow> ((plugin_login_ticket \<times> string) \<times> auth_db) repository_result" where
  "create_mobile_login_ticket_with_audit cd parse draw tenant user_id redirect_url challenge expires_at actor db =
     and_then (validate_mobile_redirect_url parse redirect_url) (\<lambda>redirect_url.
       let plaintext = generate_secret MOBILE_LOGIN_TICKET_PREFIX (td_uuids draw);
           t = \<lparr>pt_id = td_id draw, pt_tenant_id = tenant, pt_user_id = user_id, pt_redirect_url = redirect_url,
                pt_kind = MobileTicket, pt_code_challenge = Some challenge, pt_created_at = td_now draw,
                pt_expires_at = expires_at, pt_used_at = None, pt_revoked_at = None\<rparr>
       in and_then (insert_plugin_login_ticket t (hash_token cd plaintext) db) (\<lambda>db.
          and_then (insert_audit_event_tx (plugin_login_ticket_audit_event cd (td_event draw) t
                      ''mobile_login_ticket.create'' actor None) db) (\<lambda>db.
          Ok ((t, plaintext), db))))"

definition mobile_pkce_matches :: "auth_codec \<Rightarrow> plugin_login_ticket \<Rightarrow> string \<Rightarrow> bool" where
  "mobile_pkce_matches cd t verifier \<longleftrightarrow>
     43 \<le> length verifier \<and> length verifier \<le> 128 \<and>
     list_all (\<lambda>c. is_ascii_alphanumeric c \<or> c \<in> set ''-._~'') verifier \<and>
     pt_code_challenge t = Some (au_pkce_challenge cd verifier)"

definition plugin_login_ticket_expired :: "auth_codec \<Rightarrow> int \<Rightarrow> plugin_login_ticket \<Rightarrow> bool repository_result" where
  "plugin_login_ticket_expired cd clock t =
     and_then (ok_or (au_parse_time cd (pt_expires_at t)) (database_error ''failed to parse plugin login ticket expiry''))
       (\<lambda>e. Ok (e \<le> clock))"

definition issue_ticket_token ::
  "auth_codec \<Rightarrow> token_draw \<Rightarrow> login_ticket_kind \<Rightarrow> plugin_login_ticket \<Rightarrow> timestamp \<Rightarrow> auth_db \<Rightarrow>
   ((tenant_token \<times> string) \<times> auth_db) repository_result" where
  "issue_ticket_token cd draw kind t expires_at db =
     (case kind of
        PluginTicket \<Rightarrow>
          create_plugin_token_from_ticket_tx cd draw (pt_tenant_id t) ''Bambu Studio plugin'' (pt_user_id t) expires_at db
      | MobileTicket \<Rightarrow>
          create_mobile_token_from_ticket_tx cd draw (pt_tenant_id t) ''Android app'' (pt_user_id t) expires_at db)"

definition exchange_event ::
  "auth_codec \<Rightarrow> event_draw \<Rightarrow> login_ticket_kind \<Rightarrow> plugin_login_ticket \<Rightarrow> tenant_token \<Rightarrow> audit_event" where
  "exchange_event cd draw kind t token =
     (case kind of
        PluginTicket \<Rightarrow>
          plugin_login_ticket_audit_event cd draw t ''plugin_login_ticket.exchange''
            (AuditActor_plugin_token (pt_user_id t) (tt_id token) [PLUGIN_TOKEN_SCOPE]) (Some (tt_id token))
      | MobileTicket \<Rightarrow>
          plugin_login_ticket_audit_event cd draw t ''mobile_login_ticket.exchange''
            (AuditActor_tenant_token (pt_user_id t) (tt_id token) [MOBILE_TOKEN_SCOPE]) (Some (tt_id token)))"

definition exchange_login_ticket ::
  "auth_codec \<Rightarrow> int \<Rightarrow> token_draw \<Rightarrow> string \<Rightarrow> login_ticket_kind \<Rightarrow> string option \<Rightarrow> auth_db \<Rightarrow>
   (plugin_login_ticket_exchange option \<times> auth_db) repository_result" where
  "exchange_login_ticket cd clock draw plaintext kind verifier db =
     (case find (\<lambda>r. lt_ticket_hash r = hash_token cd plaintext \<and> lt_kind r = LoginTicketKind_as_str kind \<and>
                     lt_used_at r = None \<and> lt_revoked_at r = None) (at_tickets db) of
        None \<Rightarrow> Ok (None, db)
      | Some m \<Rightarrow>
          and_then (plugin_login_ticket_from_model cd m) (\<lambda>t.
          and_then (plugin_login_ticket_expired cd clock t) (\<lambda>expired.
            if expired then Ok (None, db)
            else if kind = MobileTicket \<and> \<not> mobile_pkce_matches cd t (case verifier of Some v \<Rightarrow> v | None \<Rightarrow> [])
            then Ok (None, db)
            else
              case update_many (\<lambda>r. lt_id r = pt_id t \<and> lt_used_at r = None \<and> lt_revoked_at r = None)
                     (\<lambda>r. r\<lparr>lt_used_at := Some (td_now draw)\<rparr>) (at_tickets db) of
                (rows, affected) \<Rightarrow>
                  if affected \<noteq> 1 then Ok (None, db)
                  else
                    let used = t\<lparr>pt_used_at := Some (td_now draw)\<rparr>
                    in and_then (ok_or (au_format_time cd (clock + PLUGIN_TOKEN_TTL_DAYS * 86400 * 1000000000))
                                   (database_error ''failed to format plugin tenant token expiry'')) (\<lambda>expires_at.
                       and_then (issue_ticket_token cd draw kind used expires_at (db\<lparr>at_tickets := rows\<rparr>))
                         (\<lambda>((token, plaintext_token), db).
                       and_then (insert_audit_event_tx (exchange_event cd (td_event draw) kind used token) db) (\<lambda>db.
                       Ok (Some \<lparr>px_ticket = used, px_redirect_url = pt_redirect_url used, px_token = token,
                                 px_plaintext_token = plaintext_token\<rparr>, db)))))))"

definition exchange_plugin_login_ticket ::
  "auth_codec \<Rightarrow> int \<Rightarrow> token_draw \<Rightarrow> string \<Rightarrow> auth_db \<Rightarrow>
   (plugin_login_ticket_exchange option \<times> auth_db) repository_result" where
  "exchange_plugin_login_ticket cd clock draw plaintext db =
     exchange_login_ticket cd clock draw plaintext PluginTicket None db"

definition exchange_mobile_login_ticket ::
  "auth_codec \<Rightarrow> int \<Rightarrow> token_draw \<Rightarrow> string \<Rightarrow> string \<Rightarrow> auth_db \<Rightarrow>
   (plugin_login_ticket_exchange option \<times> auth_db) repository_result" where
  "exchange_mobile_login_ticket cd clock draw plaintext verifier db =
     exchange_login_ticket cd clock draw plaintext MobileTicket (Some verifier) db"

section \<open>Tickets of the event stream\<close>

datatype consume_result = Consumed event_ticket_row | Expired | Invalid

definition PRINTER_EVENT_TICKET_TTL :: int where "PRINTER_EVENT_TICKET_TTL = 60 * 1000000000"

definition format_ticket_timestamp :: "auth_codec \<Rightarrow> int \<Rightarrow> timestamp repository_result" where
  "format_ticket_timestamp cd t =
     ok_or (au_format_time cd t) (database_error ''failed to format printer event ticket timestamp'')"

definition issue_event_ticket ::
  "auth_codec \<Rightarrow> string \<Rightarrow> int \<Rightarrow> tenant_id \<Rightarrow> string \<Rightarrow> auth_db \<Rightarrow> (event_ticket_row \<times> auth_db) repository_result" where
  "issue_event_ticket cd fresh_id clock tenant ticket_hash db =
     and_then (format_ticket_timestamp cd clock) (\<lambda>created_at.
     and_then (format_ticket_timestamp cd (clock + PRINTER_EVENT_TICKET_TTL)) (\<lambda>expires_at.
       let t = \<lparr>et_id = fresh_id, et_tenant_id = tenant, et_ticket_hash = ticket_hash, et_created_at = created_at,
                et_expires_at = expires_at, et_used_at = None\<rparr>
       in if fresh_id \<in> et_id ` set (at_event_tickets db) \<or>
             ticket_hash \<in> et_ticket_hash ` set (at_event_tickets db) \<or> tenant \<notin> tr_id ` set (at_tenants db)
          then Err (database_error ''failed to insert printer event ticket'')
          else Ok (t, db\<lparr>at_event_tickets := at_event_tickets db @ [t]\<rparr>)))"

definition event_ticket_matches :: "tenant_id \<Rightarrow> string \<Rightarrow> event_ticket_row \<Rightarrow> bool" where
  "event_ticket_matches tenant ticket_hash r \<longleftrightarrow> et_tenant_id r = tenant \<and> et_ticket_hash r = ticket_hash"

definition ticket_from_model :: "auth_codec \<Rightarrow> event_ticket_row \<Rightarrow> event_ticket_row repository_result" where
  "ticket_from_model cd m =
     and_then (map_err (\<lambda>e. Database (CoreErr e)) (TenantId_parse (au_uuid cd) (et_tenant_id m)))
       (\<lambda>t. Ok (m\<lparr>et_tenant_id := t\<rparr>))"

text \<open>The update, the reload and the check for an expired ticket are three statements without a transaction.\<close>

definition consume_event_ticket ::
  "auth_codec \<Rightarrow> int \<Rightarrow> tenant_id \<Rightarrow> string \<Rightarrow> auth_db \<Rightarrow> consume_result repository_result \<times> auth_db" where
  "consume_event_ticket cd clock tenant ticket_hash db =
     (case format_ticket_timestamp cd clock of
        Err e \<Rightarrow> (Err e, db)
      | Ok now \<Rightarrow>
          (case update_many (\<lambda>r. event_ticket_matches tenant ticket_hash r \<and> et_used_at r = None \<and>
                                 text_less now (et_expires_at r))
                  (\<lambda>r. r\<lparr>et_used_at := Some now\<rparr>) (at_event_tickets db) of
             (rows, updated) \<Rightarrow>
               if updated = 1
               then (case find (event_ticket_matches tenant ticket_hash) rows of
                       None \<Rightarrow> (Err (database_error ''consumed printer event ticket disappeared''), db\<lparr>at_event_tickets := rows\<rparr>)
                     | Some m \<Rightarrow>
                         (and_then (ticket_from_model cd m) (\<lambda>t. Ok (Consumed t)), db\<lparr>at_event_tickets := rows\<rparr>))
               else (Ok (if \<exists>r \<in> set rows. event_ticket_matches tenant ticket_hash r \<and> et_used_at r = None \<and>
                              \<not> text_less now (et_expires_at r)
                         then Expired else Invalid),
                     db\<lparr>at_event_tickets := rows\<rparr>)))"

end
