(* ===== verification/Hub_Auth_Steps.thy ===== *)
theory Hub_Auth_Steps
  imports Hub_Onboarding
begin

text \<open>
  The step relation of the authentication tables: every operation of \<open>Hub_Auth\<close> and
  \<open>Hub_Onboarding\<close> as a step of a concurrent client, in any order (\<open>AuthRepository::update_user_role\<close> is called by
  tests only and is not a step). These operations never delete a row of a token or a ticket, they only
  append and update in place: the locale \<open>row_history\<close> collects what follows from that, and is interpreted for each of these tables.
  The retention cleanup (\<open>cleanup.rs\<close>), which an administrator runs, does delete rows of used or expired tickets and of revoked or
  expired tokens. It is not a step; the last section models it and shows that it lets nobody in.
\<close>

section \<open>Steps\<close>

inductive auth_step :: "auth_codec \<Rightarrow> auth_db \<Rightarrow> auth_db \<Rightarrow> bool" for cd where
  create_tenant: "TenantRepository_create i now slug name db = Ok (t, db') \<Longrightarrow> auth_step cd db db'"
| rename_tenant: "snd (update_display_name cd tenant name db) = db' \<Longrightarrow> auth_step cd db db'"
| create_user: "create_user i now tenant email name role db = Ok (u, db') \<Longrightarrow> auth_step cd db db'"
| update_role: "update_user_role_with_audit cd ed tenant i role actor db = Ok (u, db') \<Longrightarrow> auth_step cd db db'"
| remove_user: "remove_user_with_audit cd ed tenant i actor db = Ok (u, db') \<Longrightarrow> auth_step cd db db'"
| link_identity: "link_external_identity i now tenant user_id provider subject db = Ok (v, db') \<Longrightarrow> auth_step cd db db'"
| create_token: "create_tenant_token_with_audit cd d tenant name scopes expires actor db = Ok (r, db') \<Longrightarrow> auth_step cd db db'"
| authenticate: "snd (authenticate_tenant_token cd clock now plaintext db) = db' \<Longrightarrow> auth_step cd db db'"
| revoke_token: "revoke_tenant_token_with_audit cd now ed tenant i actor db = Ok (token, db') \<Longrightarrow> auth_step cd db db'"
| rotate_token: "rotate_tenant_token_with_audit cd d tenant i expires actor db = Ok (r, db') \<Longrightarrow> auth_step cd db db'"
| self_revoke: "revoke_plugin_studio_token_with_audit cd now ed plaintext db = Ok (token', db') \<Longrightarrow> auth_step cd db db'"
| no_auth_session: "create_no_auth_plugin_session_with_audit cd d name expires_at db = Ok (out, db') \<Longrightarrow> auth_step cd db db'"
| bootstrap: "bootstrap_tenant_admin_with_plaintext_token cd bd slug name email admin token_name db = Ok (b, db')
    \<Longrightarrow> auth_step cd db db'"
| self_create: "self_create_tenant_for_external_identity cd i md slug name profile db = Ok (m, db') \<Longrightarrow> auth_step cd db db'"
| create_link: "create_join_link_with_audit cd ld tenant role constraint secs uses actor db = Ok (l, db') \<Longrightarrow> auth_step cd db db'"
| revoke_link: "revoke_join_link_with_audit cd now ed tenant i actor db = Ok (l', db') \<Longrightarrow> auth_step cd db db'"
| accept_link: "accept_join_link cd clock md plaintext profile db = Ok (a, db') \<Longrightarrow> auth_step cd db db'"
| plugin_ticket: "create_plugin_login_ticket_with_audit cd parse d tenant user_id' redirect expires_at actor db = Ok (p, db')
    \<Longrightarrow> auth_step cd db db'"
| mobile_ticket: "create_mobile_login_ticket_with_audit cd parse' d tenant user_id' redirect challenge expires_at actor db = Ok (p, db')
    \<Longrightarrow> auth_step cd db db'"
| exchange: "exchange_login_ticket cd clock d plaintext kind verifier db = Ok (x, db') \<Longrightarrow> auth_step cd db db'"
| issue_event_ticket: "issue_event_ticket cd i clock tenant h db = Ok (e, db') \<Longrightarrow> auth_step cd db db'"
| consume_event_ticket: "snd (consume_event_ticket cd clock tenant h db) = db' \<Longrightarrow> auth_step cd db db'"

definition auth_empty :: auth_db where
  "auth_empty =
     \<lparr>at_tenants = [], at_users = [], at_identities = [], at_tokens = [], at_tickets = [], at_links = [],
      at_event_tickets = [], at_audit = []\<rparr>"

abbreviation auth_run :: "auth_codec \<Rightarrow> auth_db \<Rightarrow> auth_db \<Rightarrow> bool" where
  "auth_run cd \<equiv> rtranclp (auth_step cd)"

section \<open>Tables that only grow\<close>

definition evolves :: "('r \<Rightarrow> 'r \<Rightarrow> bool) \<Rightarrow> 'r list \<Rightarrow> 'r list \<Rightarrow> bool" where
  "evolves R xs ys \<longleftrightarrow> (\<exists>zs ws. ys = zs @ ws \<and> list_all2 R xs zs)"

locale row_history =
  fixes row_step :: "'r \<Rightarrow> 'r \<Rightarrow> bool"
  assumes step_refl: "row_step r r"
    and step_trans: "row_step r s \<Longrightarrow> row_step s t \<Longrightarrow> row_step r t"
begin

lemma evolves_refl: "evolves row_step xs xs"
  unfolding evolves_def by (intro exI [of _ xs] exI [of _ "[]"]) (simp add: list_all2_refl step_refl)

lemma evolves_append: "evolves row_step xs (xs @ ys)"
  unfolding evolves_def by (intro exI [of _ xs] exI [of _ ys]) (simp add: list_all2_refl step_refl)

lemma evolves_map: "(\<And>r. r \<in> set xs \<Longrightarrow> row_step r (f r)) \<Longrightarrow> evolves row_step xs (map f xs)"
  unfolding evolves_def
  by (intro exI [of _ "map f xs"] exI [of _ "[]"]) (simp add: list_all2_conv_all_nth)

lemma evolves_update: "(\<And>r. p r \<Longrightarrow> row_step r (f r)) \<Longrightarrow> evolves row_step xs (fst (update_many p f xs))"
  unfolding update_many_fst by (rule evolves_map) (simp add: step_refl)

lemma evolves_trans:
  assumes "evolves row_step xs ys" "evolves row_step ys zs"
  shows "evolves row_step xs zs"
proof -
  obtain as bs where a: "ys = as @ bs" "list_all2 row_step xs as" using assms(1) by (auto simp: evolves_def)
  obtain cs ds where c: "zs = cs @ ds" "list_all2 row_step ys cs" using assms(2) by (auto simp: evolves_def)
  obtain es fs where e: "cs = es @ fs" "list_all2 row_step as es"
    using c(2) unfolding a(1) by (auto simp: list_all2_append1)
  have "list_all2 row_step xs es" using step_trans a(2) e(2) by (rule list_all2_trans)
  with c(1) e(1) show ?thesis unfolding evolves_def by (metis append.assoc)
qed

lemma evolves_member:
  assumes "evolves row_step xs ys" "r \<in> set xs"
  shows "\<exists>s \<in> set ys. row_step r s"
proof -
  obtain zs ws where z: "ys = zs @ ws" "list_all2 row_step xs zs" using assms(1) by (auto simp: evolves_def)
  obtain i where i: "i < length xs" "r = xs ! i" using assms(2) by (auto simp: in_set_conv_nth)
  then have "row_step r (zs ! i)" "zs ! i \<in> set zs"
    using z(2) by (auto simp: list_all2_conv_all_nth)
  with z(1) show ?thesis by auto
qed

end

text \<open>A token keeps its identity; once revoked it stays revoked, and its owner can only be forgotten.\<close>

definition token_step :: "token_row \<Rightarrow> token_row \<Rightarrow> bool" where
  "token_step r s \<longleftrightarrow>
     tk_id s = tk_id r \<and> tk_token_hash s = tk_token_hash r \<and> tk_tenant_id s = tk_tenant_id r \<and>
     tk_scopes_json s = tk_scopes_json r \<and> (tk_revoked_at r \<noteq> None \<longrightarrow> tk_revoked_at s = tk_revoked_at r) \<and>
     (tk_created_by_user_id s = tk_created_by_user_id r \<or> tk_created_by_user_id s = None)"

definition ticket_step :: "ticket_row \<Rightarrow> ticket_row \<Rightarrow> bool" where
  "ticket_step r s \<longleftrightarrow>
     lt_id s = lt_id r \<and> lt_ticket_hash s = lt_ticket_hash r \<and> lt_kind s = lt_kind r \<and>
     (lt_used_at r \<noteq> None \<longrightarrow> lt_used_at s = lt_used_at r)"

definition event_ticket_step :: "event_ticket_row \<Rightarrow> event_ticket_row \<Rightarrow> bool" where
  "event_ticket_step r s \<longleftrightarrow>
     et_id s = et_id r \<and> et_ticket_hash s = et_ticket_hash r \<and> et_tenant_id s = et_tenant_id r \<and>
     (et_used_at r \<noteq> None \<longrightarrow> et_used_at s = et_used_at r)"

interpretation tokens: row_history token_step
  by unfold_locales (auto simp: token_step_def)

interpretation tickets: row_history ticket_step
  by unfold_locales (auto simp: ticket_step_def)

interpretation event_tickets: row_history event_ticket_step
  by unfold_locales (auto simp: event_ticket_step_def)

definition auth_keys :: "auth_db \<Rightarrow> bool" where
  "auth_keys db \<longleftrightarrow>
     distinct (map usr_id (at_users db)) \<and> distinct (map tk_id (at_tokens db)) \<and>
     distinct (map tk_token_hash (at_tokens db)) \<and> distinct (map lt_id (at_tickets db)) \<and>
     distinct (map lt_ticket_hash (at_tickets db)) \<and> distinct (map jl_id (at_links db)) \<and>
     distinct (map et_ticket_hash (at_event_tickets db))"

definition has_admin :: "tenant_id \<Rightarrow> auth_db \<Rightarrow> bool" where
  "has_admin tenant db \<longleftrightarrow> tenant_admins tenant db \<noteq> []"

text \<open>What every step keeps: the keys, the rows of the growing tables and the presence of an administrator.\<close>

definition advances :: "auth_db \<Rightarrow> auth_db \<Rightarrow> bool" where
  "advances db db' \<longleftrightarrow>
     (auth_keys db \<longrightarrow> auth_keys db') \<and> evolves token_step (at_tokens db) (at_tokens db') \<and>
     evolves ticket_step (at_tickets db) (at_tickets db') \<and>
     evolves event_ticket_step (at_event_tickets db) (at_event_tickets db') \<and>
     (auth_keys db \<longrightarrow> (\<forall>t. has_admin t db \<longrightarrow> has_admin t db'))"

lemma advances_refl [simp]: "advances db db"
  by (simp add: advances_def tokens.evolves_refl tickets.evolves_refl event_tickets.evolves_refl)

lemma advances_trans: "advances a b \<Longrightarrow> advances b c \<Longrightarrow> advances a c"
  unfolding advances_def
  by (metis tokens.evolves_trans tickets.evolves_trans event_tickets.evolves_trans)

named_theorems advance_rules

lemma insert_audit_advances [advance_rules]: "insert_audit_event_tx e db = Ok db' \<Longrightarrow> advances db db'"
  by (auto simp: insert_audit_event_tx_def advances_def auth_keys_def has_admin_def tenant_admins_def
      tokens.evolves_refl tickets.evolves_refl event_tickets.evolves_refl split: if_splits)

lemma insert_tenant_advances [advance_rules]: "insert_tenant context t db = Ok db' \<Longrightarrow> advances db db'"
  by (auto simp: insert_tenant_def advances_def auth_keys_def has_admin_def tenant_admins_def
      tokens.evolves_refl tickets.evolves_refl event_tickets.evolves_refl split: if_splits)

lemma insert_user_advances [advance_rules]: "insert_user context u db = Ok db' \<Longrightarrow> advances db db'"
  by (auto simp: insert_user_def advances_def auth_keys_def has_admin_def tenant_admins_def user_model_def
      tokens.evolves_refl tickets.evolves_refl event_tickets.evolves_refl split: if_splits)

lemma insert_identity_advances [advance_rules]: "insert_identity context v db = Ok db' \<Longrightarrow> advances db db'"
  by (auto simp: insert_identity_def result_simps advances_def auth_keys_def has_admin_def tenant_admins_def
      tokens.evolves_refl tickets.evolves_refl event_tickets.evolves_refl split: if_splits)

lemma insert_token_advances [advance_rules]: "insert_tenant_token cd context t h db = Ok db' \<Longrightarrow> advances db db'"
  by (auto simp: insert_tenant_token_def result_simps advances_def auth_keys_def has_admin_def tenant_admins_def
      tokens.evolves_append tickets.evolves_refl event_tickets.evolves_refl tenant_token_model_def split: if_splits)

lemma insert_ticket_advances [advance_rules]: "insert_plugin_login_ticket t h db = Ok db' \<Longrightarrow> advances db db'"
  by (auto simp: insert_plugin_login_ticket_def result_simps advances_def auth_keys_def has_admin_def tenant_admins_def
      tokens.evolves_refl tickets.evolves_append event_tickets.evolves_refl plugin_login_ticket_model_def split: if_splits)

lemma insert_link_advances [advance_rules]: "insert_join_link l h db = Ok db' \<Longrightarrow> advances db db'"
  by (auto simp: insert_join_link_def advances_def auth_keys_def has_admin_def tenant_admins_def
      tokens.evolves_refl tickets.evolves_refl event_tickets.evolves_refl join_link_model_def split: if_splits)

lemma update_tokens_advances [advance_rules]:
  assumes "\<And>r. p r \<Longrightarrow> token_step r (f r)"
  shows "advances db (db\<lparr>at_tokens := fst (update_many p f (at_tokens db))\<rparr>)"
proof -
  have "map tk_id (fst (update_many p f (at_tokens db))) = map tk_id (at_tokens db)"
      "map tk_token_hash (fst (update_many p f (at_tokens db))) = map tk_token_hash (at_tokens db)"
    using assms by (auto simp: update_many_fst token_step_def)
  then show ?thesis
    using assms by (simp add: advances_def auth_keys_def has_admin_def tenant_admins_def tokens.evolves_update
        tickets.evolves_refl event_tickets.evolves_refl)
qed

lemma update_tickets_advances [advance_rules]:
  assumes "\<And>r. p r \<Longrightarrow> ticket_step r (f r)"
  shows "advances db (db\<lparr>at_tickets := fst (update_many p f (at_tickets db))\<rparr>)"
proof -
  have "map lt_id (fst (update_many p f (at_tickets db))) = map lt_id (at_tickets db)"
      "map lt_ticket_hash (fst (update_many p f (at_tickets db))) = map lt_ticket_hash (at_tickets db)"
    using assms by (auto simp: update_many_fst ticket_step_def)
  then show ?thesis
    using assms by (simp add: advances_def auth_keys_def has_admin_def tenant_admins_def tickets.evolves_update
        tokens.evolves_refl event_tickets.evolves_refl)
qed

lemma update_event_tickets_advances [advance_rules]:
  assumes "\<And>r. p r \<Longrightarrow> event_ticket_step r (f r)"
  shows "advances db (db\<lparr>at_event_tickets := fst (update_many p f (at_event_tickets db))\<rparr>)"
proof -
  have "map et_ticket_hash (fst (update_many p f (at_event_tickets db))) = map et_ticket_hash (at_event_tickets db)"
    using assms by (auto simp: update_many_fst event_ticket_step_def)
  then show ?thesis
    using assms by (simp add: advances_def auth_keys_def has_admin_def tenant_admins_def event_tickets.evolves_update
        tokens.evolves_refl tickets.evolves_refl)
qed

lemma update_links_advances [advance_rules]:
  assumes "\<And>r. jl_id (f r) = jl_id r"
  shows "advances db (db\<lparr>at_links := fst (update_many p f (at_links db))\<rparr>)"
  using update_many_keys [of jl_id f p "at_links db", OF assms]
  by (simp add: advances_def auth_keys_def has_admin_def tenant_admins_def event_tickets.evolves_refl
      tokens.evolves_refl tickets.evolves_refl)

lemma update_tenants_advances [advance_rules]: "advances db (db\<lparr>at_tenants := ts\<rparr>)"
  by (simp add: advances_def auth_keys_def has_admin_def tenant_admins_def event_tickets.evolves_refl
      tokens.evolves_refl tickets.evolves_refl)

section \<open>Administrators\<close>

lemma find_user_Some: "find_user tenant i db = Some m \<Longrightarrow> m \<in> set (at_users db) \<and> usr_id m = i \<and> usr_tenant_id m = tenant"
  by (auto simp: find_user_def find_Some_iff)

text \<open>With two administrators of a tenant, one is left whatever happens to the row of one user.\<close>

lemma second_admin:
  assumes "distinct (map usr_id (at_users db))" "2 \<le> length (tenant_admins tenant db)"
  shows "\<exists>a \<in> set (tenant_admins tenant db). usr_id a \<noteq> i"
proof (rule ccontr)
  assume "\<not> ?thesis"
  then have "\<forall>a \<in> set (tenant_admins tenant db). usr_id a = i" by simp
  then have "filter (\<lambda>r. usr_id r = i) (tenant_admins tenant db) = tenant_admins tenant db"
    by (simp add: filter_True)
  moreover have "distinct (map usr_id (tenant_admins tenant db))"
    unfolding tenant_admins_def by (rule distinct_map_filter [OF assms(1)])
  then have "length (filter (\<lambda>r. usr_id r = i) (tenant_admins tenant db)) \<le> 1" by (rule filter_key_length) simp
  ultimately show False using assms(2) by simp
qed

lemma has_admin_iff:
  "has_admin tenant db \<longleftrightarrow>
     (\<exists>a \<in> set (at_users db). usr_tenant_id a = tenant \<and> usr_role a = UserRole_as_str TenantAdmin)"
  by (auto simp: has_admin_def tenant_admins_def filter_empty_conv)

lemma admin_elsewhere:
  assumes "distinct (map usr_id (at_users db))" and "find_user tenant i db = Some m"
    and "usr_role m = UserRole_as_str TenantAdmin \<Longrightarrow> 2 \<le> length (tenant_admins tenant db)"
    and "has_admin t db"
  shows "\<exists>a \<in> set (at_users db). usr_id a \<noteq> i \<and> usr_tenant_id a = t \<and> usr_role a = UserRole_as_str TenantAdmin"
proof -
  obtain a where a: "a \<in> set (at_users db)" "usr_tenant_id a = t" "usr_role a = UserRole_as_str TenantAdmin"
    using assms(4) by (auto simp: has_admin_iff)
  show ?thesis
  proof (cases "usr_id a = i")
    case True
    have m: "m \<in> set (at_users db)" "usr_id m = i" "usr_tenant_id m = tenant"
      using find_user_Some [OF assms(2)] by auto
    with a(1) True assms(1) have "a = m" by (auto simp: distinct_map inj_on_def)
    with a(2,3) m(3) have "t = tenant" "2 \<le> length (tenant_admins tenant db)" using assms(3) by auto
    with second_admin [OF assms(1), of tenant i] show ?thesis by (auto simp: tenant_admins_def)
  qed (use a in blast)
qed

lemma update_user_role_advances:
  assumes "update_user_role cd tenant i role db = Ok (u, db')" and "find_user tenant i db = Some m"
    and "usr_role m = UserRole_as_str TenantAdmin \<Longrightarrow> role = TenantAdmin \<or> 2 \<le> length (tenant_admins tenant db)"
  shows "advances db db'"
proof -
  let ?f = "\<lambda>r. r\<lparr>usr_role := UserRole_as_str role\<rparr>"
  let ?users = "fst (update_many (\<lambda>r. usr_id r = usr_id m) ?f (at_users db))"
  have db': "db' = db\<lparr>at_users := ?users\<rparr>"
    using assms(1,2) by (auto simp: update_user_role_def result_simps)
  have keys: "map usr_id ?users = map usr_id (at_users db)" by (rule update_many_keys) simp
  have "has_admin t db'" if d: "auth_keys db" and t: "has_admin t db" for t
  proof (cases "role = TenantAdmin")
    case True
    obtain a where "a \<in> set (at_users db)" "usr_tenant_id a = t" "usr_role a = UserRole_as_str TenantAdmin"
      using t by (auto simp: has_admin_iff)
    then have "(if usr_id a = usr_id m then ?f a else a) \<in> set (at_users db')"
        "usr_tenant_id (if usr_id a = usr_id m then ?f a else a) = t"
        "usr_role (if usr_id a = usr_id m then ?f a else a) = UserRole_as_str TenantAdmin"
      by (auto simp: db' update_many_fst True)
    then show ?thesis unfolding has_admin_iff by blast
  next
    case False
    have "distinct (map usr_id (at_users db))" using d by (simp add: auth_keys_def)
    from admin_elsewhere [OF this assms(2) _ t] assms(3) False
    obtain a where "a \<in> set (at_users db)" "usr_id a \<noteq> i" "usr_tenant_id a = t"
        "usr_role a = UserRole_as_str TenantAdmin" by blast
    then show ?thesis
      using find_user_Some [OF assms(2)] by (auto simp: has_admin_iff db' update_many_fst image_iff)
  qed
  with keys show ?thesis
    by (auto simp: advances_def auth_keys_def db' tokens.evolves_refl tickets.evolves_refl event_tickets.evolves_refl)
qed

lemma delete_user_advances:
  assumes "find_user tenant i db = Some m"
    and "usr_role m = UserRole_as_str TenantAdmin \<Longrightarrow> 2 \<le> length (tenant_admins tenant db)"
  shows "advances db (delete_user tenant i db)"
proof -
  have db': "at_users (delete_user tenant i db) = filter (\<lambda>r. \<not> (usr_id r = i \<and> usr_tenant_id r = tenant)) (at_users db)"
    using assms(1) by (simp add: delete_user_def user_exists_def)
  have "has_admin t (delete_user tenant i db)" if d: "auth_keys db" and t: "has_admin t db" for t
  proof -
    have "distinct (map usr_id (at_users db))" using d by (simp add: auth_keys_def)
    from admin_elsewhere [OF this assms(1) assms(2) t]
    show ?thesis by (auto simp: has_admin_iff db')
  qed
  moreover have "auth_keys (delete_user tenant i db)" if "auth_keys db"
    using that by (auto simp: auth_keys_def delete_user_def distinct_map_filter comp_def)
  moreover have "evolves token_step (at_tokens db) (at_tokens (delete_user tenant i db))"
    by (auto simp: delete_user_def token_step_def forget_def tokens.evolves_refl intro!: tokens.evolves_map)
  moreover have "evolves ticket_step (at_tickets db) (at_tickets (delete_user tenant i db))"
    by (auto simp: delete_user_def ticket_step_def tickets.evolves_refl intro!: tickets.evolves_map)
  moreover have "evolves event_ticket_step (at_event_tickets db) (at_event_tickets (delete_user tenant i db))"
    by (simp add: delete_user_def event_tickets.evolves_refl)
  ultimately show ?thesis by (simp add: advances_def)
qed

lemma select_user_locked_Ok:
  "select_user_locked cd tenant i db = Ok u \<longleftrightarrow> (\<exists>m. find_user tenant i db = Some m \<and> user_from_model cd m = Ok u)"
  by (simp add: select_user_locked_def split: option.split)

lemma user_from_model_role: "user_from_model cd m = Ok u \<Longrightarrow> usr_role m = UserRole_as_str (u_role u)"
  by (auto simp: user_from_model_def result_simps UserRole_parse_Ok)

text \<open>The stages of accepting a join link.\<close>

lemma accept_join_link_parts:
  assumes "accept_join_link cd clock md plaintext profile db = Ok (a, db')"
  obtains (existing) "db' = db" "\<not> aj_created a"
  | (joined) now m l tenant db1 db2 db3 db4 where "load_valid_join_link_by_hash (hash_token cd plaintext) now db = Ok m"
      "join_link_from_model m = Ok l"
      "\<forall>c \<in> set_option (ln_email_constraint l). eq_ignore_ascii_case c (xp_email profile)"
      "consume_join_link_use_tx (ln_id l) now db = (True, db1)"
      "insert_user ''failed to insert join link user'' (aj_user a) db1 = Ok db2"
      "insert_identity ''failed to insert join link identity'' (member_identity md tenant profile) db2 = Ok db3"
      "insert_audit_event_tx (user_external_projection_audit_event cd (fst (md_events md)) (aj_user a)
         (member_identity md tenant profile) (AuditActor_user (u_id (aj_user a)))) db3 = Ok db4"
      "insert_audit_event_tx (join_link_accept_event cd (snd (md_events md)) l (aj_user a)) db4 = Ok db'"
      "aj_user a = member_user md tenant (ln_role l) profile" "aj_created a"
  using assms
  by (auto simp: accept_join_link_def Let_def result_simps split: if_splits option.splits prod.splits)

text \<open>The stages of exchanging a ticket.\<close>

lemma exchange_parts:
  assumes "exchange_login_ticket cd clock d plaintext kind verifier db = Ok (Some x, db')"
  obtains m t expires_at db1 where
    "find (\<lambda>r. lt_ticket_hash r = hash_token cd plaintext \<and> lt_kind r = LoginTicketKind_as_str kind \<and>
             lt_used_at r = None \<and> lt_revoked_at r = None) (at_tickets db) = Some m"
    "plugin_login_ticket_from_model cd m = Ok t" "plugin_login_ticket_expired cd clock t = Ok False"
    "kind = MobileTicket \<longrightarrow> mobile_pkce_matches cd t (case verifier of Some v \<Rightarrow> v | None \<Rightarrow> [])"
    "au_format_time cd (clock + PLUGIN_TOKEN_TTL_DAYS * 86400 * 1000000000) = Some expires_at"
    "px_ticket x = t\<lparr>pt_used_at := Some (td_now d)\<rparr>"
    "issue_ticket_token cd d kind (px_ticket x) expires_at
       (db\<lparr>at_tickets := fst (update_many (\<lambda>r. lt_id r = pt_id t \<and> lt_used_at r = None \<and> lt_revoked_at r = None)
             (\<lambda>r. r\<lparr>lt_used_at := Some (td_now d)\<rparr>) (at_tickets db))\<rparr>) = Ok ((px_token x, px_plaintext_token x), db1)"
    "insert_audit_event_tx (exchange_event cd (td_event d) kind (px_ticket x) (px_token x)) db1 = Ok db'"
  using assms
  by (auto simp: exchange_login_ticket_def Let_def result_simps case_prod_unfold split: option.splits if_splits)

lemma exchange_nothing:
  "exchange_login_ticket cd clock d plaintext kind verifier db = Ok (None, db') \<Longrightarrow> db' = db"
  by (auto simp: exchange_login_ticket_def Let_def result_simps case_prod_unfold split: option.splits if_splits)

lemma issue_ticket_token_Ok:
  assumes "issue_ticket_token cd d kind t expires_at db = Ok ((token, plaintext), db')"
  shows "\<exists>h context. insert_tenant_token cd context token h db = Ok db'"
    and "tt_tenant_id token = pt_tenant_id t \<and> tt_created_by_user_id token = pt_user_id t \<and>
      tt_scopes token = [case kind of PluginTicket \<Rightarrow> PluginStudio | MobileTicket \<Rightarrow> MobileSession] \<and>
      tt_expires_at token = Some expires_at \<and> tt_revoked_at token = None"
  using assms
  by (auto simp: issue_ticket_token_def create_plugin_token_from_ticket_tx_def create_mobile_token_from_ticket_tx_def
      Let_def result_simps new_tenant_token_def split: login_ticket_kind.splits)

lemma consume_event_ticket_tables:
  "snd (consume_event_ticket cd clock tenant h db) = db \<or>
   (\<exists>now. snd (consume_event_ticket cd clock tenant h db) =
      db\<lparr>at_event_tickets := fst (update_many (\<lambda>r. event_ticket_matches tenant h r \<and> et_used_at r = None \<and>
            text_less now (et_expires_at r)) (\<lambda>r. r\<lparr>et_used_at := Some now\<rparr>) (at_event_tickets db))\<rparr>)"
  by (simp add: consume_event_ticket_def case_prod_unfold split: result.split option.split) blast

section \<open>What every operation keeps\<close>

text \<open>
  A relation between the tables before and after that holds for every single statement an operation
  issues holds for every operation. Accepting a join link is the only one that records its event.
\<close>

definition quiet_event :: "audit_event \<Rightarrow> bool" where
  "quiet_event e \<longleftrightarrow> ev_action e \<noteq> ''join_link.accept''"

definition link_step :: "join_link_row \<Rightarrow> join_link_row \<Rightarrow> bool" where
  "link_step r s \<longleftrightarrow> jl_id s = jl_id r \<and> jl_used_count s = jl_used_count r \<and> jl_max_uses s = jl_max_uses r"

definition other_admin :: "tenant_id \<Rightarrow> user_row \<Rightarrow> auth_db \<Rightarrow> bool" where
  "other_admin tenant m db \<longleftrightarrow>
     (usr_role m = UserRole_as_str TenantAdmin \<longrightarrow> 2 \<le> length (tenant_admins tenant db))"

lemma quiet_auth_event [simp]:
  "quiet_event (auth_event cd ed tenant actor action target_type target metadata) \<longleftrightarrow> action \<noteq> ''join_link.accept''"
  by (simp add: quiet_event_def auth_event_def record_audit_event_def)

lemma quiet_events [simp]:
  "quiet_event (user_role_audit_event cd ed u role actor)" "quiet_event (user_remove_audit_event cd ed u actor)"
  "quiet_event (user_external_projection_audit_event cd ed u v actor)"
  "quiet_event (tenant_self_create_audit_event cd ed t actor)"
  "quiet_event (exchange_event cd ed kind ticket token)"
  "\<forall>e \<in> set (bootstrap_audit_events cd draws t u token). quiet_event e"
  by (simp_all add: user_role_audit_event_def user_remove_audit_event_def user_external_projection_audit_event_def
      tenant_self_create_audit_event_def exchange_event_def plugin_login_ticket_audit_event_def
      bootstrap_audit_events_def bootstrap_event_def quiet_event_def auth_event_def record_audit_event_def
      split: login_ticket_kind.split)

lemma quiet_named_events [simp]:
  "quiet_event (tenant_token_audit_event cd ed token action actor) \<longleftrightarrow> action \<noteq> ''join_link.accept''"
  "quiet_event (join_link_audit_event cd ed l action actor) \<longleftrightarrow> action \<noteq> ''join_link.accept''"
  "quiet_event (plugin_login_ticket_audit_event cd ed ticket action actor tid) \<longleftrightarrow> action \<noteq> ''join_link.accept''"
  by (simp_all add: tenant_token_audit_event_def join_link_audit_event_def plugin_login_ticket_audit_event_def)

locale auth_relation =
  fixes R :: "auth_db \<Rightarrow> auth_db \<Rightarrow> bool"
  assumes R_refl: "R db db"
    and R_trans: "R a b \<Longrightarrow> R b c \<Longrightarrow> R a c"
    and R_audit: "insert_audit_event_tx e db = Ok db' \<Longrightarrow> quiet_event e \<Longrightarrow> R db db'"
    and R_tenant: "insert_tenant context t db = Ok db' \<Longrightarrow> R db db'"
    and R_user: "insert_user context u db = Ok db' \<Longrightarrow> R db db'"
    and R_identity: "insert_identity context v db = Ok db' \<Longrightarrow> R db db'"
    and R_token: "insert_tenant_token cd context token h db = Ok db' \<Longrightarrow> R db db'"
    and R_ticket: "insert_plugin_login_ticket ticket h db = Ok db' \<Longrightarrow> R db db'"
    and R_link: "insert_join_link l h db = Ok db' \<Longrightarrow> ln_used_count l = 0 \<Longrightarrow> R db db'"
    and R_event_ticket: "et_ticket_hash e' \<notin> et_ticket_hash ` set (at_event_tickets db) \<Longrightarrow>
      R db (db\<lparr>at_event_tickets := at_event_tickets db @ [e']\<rparr>)"
    and R_tokens: "(\<And>r. p r \<Longrightarrow> token_step r (f r)) \<Longrightarrow>
      R db (db\<lparr>at_tokens := fst (update_many p f (at_tokens db))\<rparr>)"
    and R_tickets: "(\<And>r. p' r \<Longrightarrow> ticket_step r (f' r)) \<Longrightarrow>
      R db (db\<lparr>at_tickets := fst (update_many p' f' (at_tickets db))\<rparr>)"
    and R_event_tickets: "(\<And>r. q r \<Longrightarrow> event_ticket_step r (g r)) \<Longrightarrow>
      R db (db\<lparr>at_event_tickets := fst (update_many q g (at_event_tickets db))\<rparr>)"
    and R_links: "(\<And>r. link_step r (g' r)) \<Longrightarrow>
      R db (db\<lparr>at_links := fst (update_many q' g' (at_links db))\<rparr>)"
    and R_tenants: "R db (db\<lparr>at_tenants := rows\<rparr>)"
    and R_role: "update_user_role cd tenant i role db = Ok (u, db') \<Longrightarrow> find_user tenant i db = Some m \<Longrightarrow>
      role = TenantAdmin \<or> other_admin tenant m db \<Longrightarrow> R db db'"
    and R_delete: "find_user tenant i db = Some m \<Longrightarrow> other_admin tenant m db \<Longrightarrow> R db (delete_user tenant i db)"
begin

lemmas R_rules = R_audit R_tenant R_user R_identity R_token R_ticket R_link

lemma update_role_related:
  assumes "update_user_role_with_audit cd ed tenant i role actor db = Ok (u, db')"
  shows "R db db'"
proof -
  obtain previous db1 u1 m where s: "find_user tenant i db = Some m" "user_from_model cd m = Ok previous"
      "(if u_role previous = TenantAdmin \<and> role \<noteq> TenantAdmin then ensure_other_admin_remains tenant db else Ok ()) = Ok ()"
      "update_user_role cd tenant i role db = Ok (u1, db1)"
      "insert_audit_event_tx (user_role_audit_event cd ed u1 (u_role previous) actor) db1 = Ok db'"
    using assms by (auto simp: update_user_role_with_audit_def result_simps select_user_locked_Ok)
  have "role = TenantAdmin \<or> other_admin tenant m db"
    using s(3) user_from_model_role [OF s(2)]
    by (cases "u_role previous") (auto simp: ensure_other_admin_remains_def other_admin_def split: if_splits)
  from R_role [OF s(4,1) this] R_audit [OF s(5)]
  show ?thesis by (rule R_trans) simp
qed

lemma remove_user_related:
  assumes "remove_user_with_audit cd ed tenant i actor db = Ok (u, db')"
  shows "R db db'"
proof -
  obtain m where s: "find_user tenant i db = Some m" "user_from_model cd m = Ok u"
      "(if u_role u = TenantAdmin then ensure_other_admin_remains tenant db else Ok ()) = Ok ()"
      "insert_audit_event_tx (user_remove_audit_event cd ed u actor) (delete_user tenant i db) = Ok db'"
    using assms by (auto simp: remove_user_with_audit_def result_simps select_user_locked_Ok)
  have "other_admin tenant m db"
    using s(3) user_from_model_role [OF s(2)]
    by (cases "u_role u") (auto simp: ensure_other_admin_remains_def other_admin_def split: if_splits)
  from R_delete [OF s(1) this] R_audit [OF s(4)]
  show ?thesis by (rule R_trans) simp
qed

lemma create_tenant_related: "TenantRepository_create i now slug name db = Ok (t, db') \<Longrightarrow> R db db'"
  by (auto simp: TenantRepository_create_def result_simps dest!: R_rules)

lemma rename_tenant_related: "R db (snd (update_display_name cd tenant name db))"
  by (simp add: update_display_name_def Let_def R_tenants R_refl split: option.split)

lemma create_user_related: "create_user i now tenant email name role db = Ok (u, db') \<Longrightarrow> R db db'"
  by (auto simp: create_user_def Let_def result_simps dest!: R_rules)

lemma link_identity_related:
  "link_external_identity i now tenant user_id provider subject db = Ok (v, db') \<Longrightarrow> R db db'"
  by (auto simp: link_external_identity_def Let_def result_simps dest!: R_rules)

lemma create_token_related:
  "create_tenant_token_with_audit cd d tenant name scopes expires actor db = Ok (r, db') \<Longrightarrow> R db db'"
  by (auto simp: create_tenant_token_with_audit_def Let_def result_simps dest!: R_rules intro: R_trans)

lemma authenticate_related: "R db (snd (authenticate_tenant_token cd clock now plaintext db))"
  by (auto simp: authenticate_tenant_token_def Let_def token_step_def intro!: R_tokens R_refl
      split: option.split result.split bool.split)

lemma revoke_tenant_token_related:
  assumes "revoke_tenant_token cd now tenant i db = Ok (token, db')" and "auth_keys db"
  shows "R db db'"
proof -
  obtain m where m: "find (\<lambda>r. tk_id r = i \<and> tk_tenant_id r = tenant) (at_tokens db) = Some m"
    using assms(1) by (auto simp: revoke_tenant_token_def split: option.splits)
  show ?thesis
  proof (cases "tk_revoked_at m")
    case None
    have "m \<in> set (at_tokens db)" using m by (auto simp: find_Some_iff)
    then have one: "r = m" if "r \<in> set (at_tokens db)" "tk_id r = tk_id m" for r
      using that assms(2) by (auto simp: auth_keys_def distinct_map inj_on_def)
    have "fst (update_many (\<lambda>r. tk_id r = tk_id m) (\<lambda>r. r\<lparr>tk_revoked_at := Some now\<rparr>) (at_tokens db)) =
        fst (update_many (\<lambda>r. tk_id r = tk_id m \<and> tk_revoked_at r = None)
          (\<lambda>r. r\<lparr>tk_revoked_at := Some now\<rparr>) (at_tokens db))"
      unfolding update_many_fst by (intro map_cong [OF refl] if_cong refl) (metis None one)
    then have "db' = db\<lparr>at_tokens := fst (update_many (\<lambda>r. tk_id r = tk_id m \<and> tk_revoked_at r = None)
        (\<lambda>r. r\<lparr>tk_revoked_at := Some now\<rparr>) (at_tokens db))\<rparr>"
      using assms(1) m None by (auto simp: revoke_tenant_token_def result_simps)
    moreover have "R db (db\<lparr>at_tokens := fst (update_many (\<lambda>r. tk_id r = tk_id m \<and> tk_revoked_at r = None)
        (\<lambda>r. r\<lparr>tk_revoked_at := Some now\<rparr>) (at_tokens db))\<rparr>)"
      by (rule R_tokens) (simp add: token_step_def)
    ultimately show ?thesis by simp
  next
    case (Some a)
    with assms(1) m show ?thesis by (auto simp: revoke_tenant_token_def result_simps R_refl)
  qed
qed

lemma revoke_token_related:
  "revoke_tenant_token_with_audit cd now ed tenant i actor db = Ok (token, db') \<Longrightarrow> auth_keys db \<Longrightarrow> R db db'"
  by (auto simp: revoke_tenant_token_with_audit_def result_simps
      dest!: R_audit intro: R_trans revoke_tenant_token_related)

lemma rotate_token_related:
  assumes "rotate_tenant_token_with_audit cd d tenant i expires actor db = Ok (r, db')" "auth_keys db"
  shows "R db db'"
proof -
  obtain old db1 db2 token h e where s: "revoke_tenant_token cd (td_now d) tenant i db = Ok (old, db1)"
      "insert_tenant_token cd ''failed to insert rotated tenant token'' token h db1 = Ok db2"
      "insert_audit_event_tx e db2 = Ok db'" "quiet_event e"
    using assms(1) by (fastforce simp: rotate_tenant_token_with_audit_def Let_def result_simps)
  show ?thesis
    by (rule R_trans [OF revoke_tenant_token_related [OF s(1) assms(2)]
          R_trans [OF R_token [OF s(2)] R_audit [OF s(3,4)]]])
qed

lemma self_revoke_related:
  assumes "revoke_plugin_studio_token_with_audit cd now ed plaintext db = Ok (out, db')"
  shows "R db db'"
proof -
  define sel where "sel token r \<longleftrightarrow> tk_id r = tt_id token \<and> tk_tenant_id r = tt_tenant_id token \<and>
      tk_token_hash r = hash_token cd plaintext \<and> tk_revoked_at r = None" for token :: tenant_token and r :: token_row
  let ?revoke = "\<lambda>r. r\<lparr>tk_revoked_at := Some now\<rparr>"
  have upd: "R db (db\<lparr>at_tokens := fst (update_many (sel token) ?revoke (at_tokens db))\<rparr>)" for token
    by (rule R_tokens) (simp add: token_step_def sel_def)
  have "db' = db \<or> (\<exists>token. db' = db\<lparr>at_tokens := fst (update_many (sel token) ?revoke (at_tokens db))\<rparr> \<or>
      (\<exists>e. quiet_event e \<and> insert_audit_event_tx e (db\<lparr>at_tokens := fst (update_many (sel token) ?revoke (at_tokens db))\<rparr>) = Ok db'))"
    using assms unfolding sel_def
    by (fastforce simp: revoke_plugin_studio_token_with_audit_def Let_def result_simps case_prod_unfold
        split: option.splits if_splits)
  with upd show ?thesis by (auto intro: R_refl R_trans R_audit)
qed

lemma no_auth_related:
  "create_no_auth_plugin_session_with_audit cd d name expires_at db = Ok (out, db') \<Longrightarrow> R db db'"
  by (auto simp: create_no_auth_plugin_session_with_audit_def Let_def result_simps
      dest!: R_rules intro: R_refl R_trans split: list.splits)

lemma insert_events_related: "\<forall>e \<in> set es. quiet_event e \<Longrightarrow> insert_events_tx es db = Ok db' \<Longrightarrow> R db db'"
  by (induction es arbitrary: db) (auto simp: result_simps intro: R_refl R_trans R_audit)

lemma bootstrap_related:
  assumes "bootstrap_tenant_admin_with_plaintext_token cd bd slug name email admin token_name db = Ok (b, db')"
  shows "R db db'"
proof -
  obtain t u token h db1 db2 db3 es where "insert_tenant ''failed to insert bootstrap tenant'' t db = Ok db1"
      "insert_user ''failed to insert bootstrap user'' u db1 = Ok db2"
      "insert_tenant_token cd ''failed to insert bootstrap tenant token'' token h db2 = Ok db3"
      "insert_events_tx es db3 = Ok db'" "\<forall>e \<in> set es. quiet_event e"
    using assms by (fastforce simp: bootstrap_tenant_admin_with_plaintext_token_def Let_def result_simps)
  then show ?thesis
    by (meson R_trans R_tenant R_user R_token insert_events_related)
qed

lemma self_create_related:
  assumes "self_create_tenant_for_external_identity cd i md slug name profile db = Ok (m, db')"
  shows "R db db'"
proof -
  obtain t u v e e' db1 db2 db3 db4 where "insert_tenant ''failed to insert self-created tenant'' t db = Ok db1"
      "insert_user ''failed to insert external tenant admin'' u db1 = Ok db2"
      "insert_identity ''failed to link external tenant admin'' v db2 = Ok db3"
      "insert_audit_event_tx e db3 = Ok db4" "insert_audit_event_tx e' db4 = Ok db'" "quiet_event e" "quiet_event e'"
    using assms by (fastforce simp: self_create_tenant_for_external_identity_def Let_def result_simps)
  then show ?thesis
    by (meson R_trans R_tenant R_user R_identity R_audit)
qed

lemma create_link_related:
  "create_join_link_with_audit cd ld tenant role constraint secs uses actor db = Ok (l, db') \<Longrightarrow> R db db'"
  by (auto simp: create_join_link_with_audit_def Let_def result_simps dest!: R_rules intro: R_trans)

lemma revoke_link_related:
  assumes "revoke_join_link_with_audit cd now ed tenant i actor db = Ok (l, db')"
  shows "R db db'"
proof -
  obtain db1 e where s: "revoke_join_link now tenant i db = Ok (l, db1)" "insert_audit_event_tx e db1 = Ok db'" "quiet_event e"
    using assms by (fastforce simp: revoke_join_link_with_audit_def result_simps)
  have "R db db1"
    using s(1) by (auto simp: revoke_join_link_def result_simps link_step_def R_refl intro!: R_links
        split: option.splits if_splits)
  with R_audit [OF s(2,3)] show ?thesis by (rule R_trans [rotated])
qed

lemma plugin_ticket_related:
  "create_plugin_login_ticket_with_audit cd parse d tenant user_id redirect expires_at actor db = Ok (p, db') \<Longrightarrow> R db db'"
  by (auto simp: create_plugin_login_ticket_with_audit_def Let_def result_simps dest!: R_rules intro: R_trans)

lemma mobile_ticket_related:
  "create_mobile_login_ticket_with_audit cd parse d tenant user_id redirect challenge expires_at actor db = Ok (p, db')
    \<Longrightarrow> R db db'"
  by (auto simp: create_mobile_login_ticket_with_audit_def Let_def result_simps dest!: R_rules intro: R_trans)

lemma issue_event_ticket_related: "issue_event_ticket cd i clock tenant h db = Ok (e, db') \<Longrightarrow> R db db'"
  by (auto simp: issue_event_ticket_def Let_def result_simps intro!: R_event_ticket split: if_splits)

lemma consume_event_ticket_related: "R db (snd (consume_event_ticket cd clock tenant h db))"
  using consume_event_ticket_tables [of cd clock tenant h db]
proof (elim disjE exE)
  fix now
  assume "snd (consume_event_ticket cd clock tenant h db) =
      db\<lparr>at_event_tickets := fst (update_many (\<lambda>r. event_ticket_matches tenant h r \<and> et_used_at r = None \<and>
            text_less now (et_expires_at r)) (\<lambda>r. r\<lparr>et_used_at := Some now\<rparr>) (at_event_tickets db))\<rparr>"
  then show ?thesis by (simp only:) (rule R_event_tickets, simp add: event_ticket_step_def)
qed (simp add: R_refl)

lemma exchange_related:
  assumes "exchange_login_ticket cd clock d plaintext kind verifier db = Ok (x, db')"
  shows "R db db'"
proof (cases x)
  case (Some y)
  from assms [unfolded Some] show ?thesis
  proof (rule exchange_parts)
    fix m expires_at db1 and t :: plugin_login_ticket
    let ?db = "db\<lparr>at_tickets := fst (update_many (\<lambda>r. lt_id r = pt_id t \<and> lt_used_at r = None \<and> lt_revoked_at r = None)
             (\<lambda>r. r\<lparr>lt_used_at := Some (td_now d)\<rparr>) (at_tickets db))\<rparr>"
    assume issue: "issue_ticket_token cd d kind (px_ticket y) expires_at ?db = Ok ((px_token y, px_plaintext_token y), db1)"
      and audit: "insert_audit_event_tx (exchange_event cd (td_event d) kind (px_ticket y) (px_token y)) db1 = Ok db'"
    have "R db ?db" by (rule R_tickets) (simp add: ticket_step_def)
    with issue_ticket_token_Ok(1) [OF issue] R_audit [OF audit quiet_events(5)]
    show ?thesis by (meson R_trans R_token)
  qed
qed (use exchange_nothing [of cd clock d plaintext kind verifier db db'] assms R_refl in simp)

lemma step_related:
  assumes "auth_step cd db db'" and "auth_keys db"
    and "\<And>clock md plaintext profile a. accept_join_link cd clock md plaintext profile db = Ok (a, db') \<Longrightarrow> R db db'"
  shows "R db db'"
  using assms
  by (induction rule: auth_step.induct)
    (auto intro: create_tenant_related create_user_related update_role_related remove_user_related
      link_identity_related create_token_related revoke_token_related rotate_token_related
      self_revoke_related no_auth_related bootstrap_related self_create_related create_link_related
      revoke_link_related plugin_ticket_related mobile_ticket_related exchange_related
      issue_event_ticket_related consume_event_ticket_related authenticate_related rename_tenant_related)

end

interpretation advancing: auth_relation advances
proof unfold_locales
  fix tenant i role db u db' and m :: user_row and cd
  assume "update_user_role cd tenant i role db = Ok (u, db')" "find_user tenant i db = Some m"
    "role = TenantAdmin \<or> other_admin tenant m db"
  then show "advances db db'" by (auto simp: other_admin_def intro: update_user_role_advances)
next
  fix e' :: event_ticket_row and db :: auth_db
  assume "et_ticket_hash e' \<notin> et_ticket_hash ` set (at_event_tickets db)"
  then show "advances db (db\<lparr>at_event_tickets := at_event_tickets db @ [e']\<rparr>)"
    by (auto simp: advances_def auth_keys_def has_admin_def tenant_admins_def tokens.evolves_refl
        tickets.evolves_refl event_tickets.evolves_append)
qed (auto simp: link_step_def other_admin_def intro: advances_trans advance_rules delete_user_advances)

lemma accept_link_advances:
  assumes "accept_join_link cd clock md plaintext profile db = Ok (a, db')"
  shows "advances db db'"
  using assms
proof (cases rule: accept_join_link_parts)
  case (joined now m l tenant db1 db2 db3 db4)
  have "advances db db1"
    using joined(4) by (auto simp: consume_join_link_use_tx_def update_links_advances prod_eq_iff split: prod.splits
        dest!: arg_cong [of _ _ fst])
  with joined(5-8) show ?thesis
    by (meson advances_trans insert_user_advances insert_identity_advances insert_audit_advances)
qed simp

lemma step_advances: "auth_step cd db db' \<Longrightarrow> auth_keys db \<Longrightarrow> advances db db'"
  by (rule advancing.step_related) (auto intro: accept_link_advances)

lemma run_advances: "auth_run cd db db' \<Longrightarrow> auth_keys db \<Longrightarrow> advances db db' \<and> auth_keys db'"
proof (induction rule: rtranclp_induct)
  case (step b c)
  then show ?case using step_advances [OF step.hyps(2)] by (meson advances_def advances_trans)
qed simp

lemma reachable_keys: "auth_run cd auth_empty db \<Longrightarrow> auth_keys db"
  using run_advances [of cd auth_empty db] by (simp add: auth_keys_def auth_empty_def)

section \<open>Uses of join links\<close>

definition accept_count :: "string \<Rightarrow> auth_db \<Rightarrow> nat" where
  "accept_count i db = length (filter (\<lambda>e. \<not> quiet_event e \<and> ev_target_id e = Some i) (at_audit db))"

definition link_view :: "auth_db \<Rightarrow> (string \<times> i32 \<times> i32) list" where
  "link_view db = map (\<lambda>l. (jl_id l, jl_used_count l, jl_max_uses l)) (at_links db)"

text \<open>Nothing but unused new links is added, and no use is recorded.\<close>

definition quiet :: "auth_db \<Rightarrow> auth_db \<Rightarrow> bool" where
  "quiet db db' \<longleftrightarrow>
     (\<forall>i. accept_count i db' = accept_count i db) \<and>
     (\<exists>new. link_view db' = link_view db @ new \<and>
        (\<forall>(i, u, m) \<in> set new. u = 0 \<and> i \<notin> fst ` set (link_view db)))"

lemma quiet_same:
  "at_audit db' = at_audit db \<Longrightarrow> at_links db' = at_links db \<Longrightarrow> quiet db db'"
  by (simp add: quiet_def accept_count_def link_view_def)

lemma quiet_trans:
  assumes "quiet a b" "quiet b c"
  shows "quiet a c"
proof -
  obtain new new' where n: "link_view b = link_view a @ new" "\<forall>(i, u, m) \<in> set new. u = 0 \<and> i \<notin> fst ` set (link_view a)"
      "link_view c = link_view b @ new'" "\<forall>(i, u, m) \<in> set new'. u = 0 \<and> i \<notin> fst ` set (link_view b)"
    using assms unfolding quiet_def by auto
  then have "link_view c = link_view a @ (new @ new')"
      "\<forall>(i, u, m) \<in> set (new @ new'). u = 0 \<and> i \<notin> fst ` set (link_view a)" by auto
  moreover have "\<forall>i. accept_count i c = accept_count i a" using assms unfolding quiet_def by simp
  ultimately show ?thesis unfolding quiet_def by blast
qed

lemma update_role_tables:
  "update_user_role cd tenant i role db = Ok (u, db') \<Longrightarrow> at_audit db' = at_audit db \<and> at_links db' = at_links db"
  by (auto simp: update_user_role_def result_simps split: option.splits)

lemma delete_user_quiet: "quiet db (delete_user tenant i db)"
  by (auto simp: quiet_def delete_user_def accept_count_def link_view_def filter_map comp_def quiet_event_def)

interpretation quieting: auth_relation quiet
proof unfold_locales
  fix a b c
  assume "quiet a b" "quiet b c"
  then show "quiet a c" by (rule quiet_trans)
next
  fix e db db'
  assume "insert_audit_event_tx e db = Ok db'" "quiet_event e"
  then show "quiet db db'"
    by (auto simp: insert_audit_event_tx_def quiet_def accept_count_def link_view_def split: if_splits)
next
  fix l h db db'
  assume "insert_join_link l h db = Ok db'" "ln_used_count l = 0"
  then show "quiet db db'"
    by (auto simp: insert_join_link_def quiet_def accept_count_def link_view_def join_link_model_def split: if_splits)
next
  fix g' q' and db :: auth_db
  assume "\<And>r. link_step r (g' r)"
  then have "link_view (db\<lparr>at_links := fst (update_many q' g' (at_links db))\<rparr>) = link_view db"
    by (simp add: link_view_def update_many_fst link_step_def)
  then show "quiet db (db\<lparr>at_links := fst (update_many q' g' (at_links db))\<rparr>)"
    by (simp add: quiet_def accept_count_def)
qed (auto simp: insert_tenant_def insert_user_def insert_identity_def insert_tenant_token_def
      insert_plugin_login_ticket_def result_simps delete_user_quiet dest!: update_role_tables intro!: quiet_same split: if_splits)

definition link_counts :: "auth_db \<Rightarrow> bool" where
  "link_counts db \<longleftrightarrow>
     (\<forall>(i, u, m) \<in> set (link_view db). int (accept_count i db) = u \<and> (u = 0 \<or> u \<le> m)) \<and>
     (\<forall>i. i \<notin> fst ` set (link_view db) \<longrightarrow> accept_count i db = 0)"

lemma quiet_link_counts: "quiet db db' \<Longrightarrow> link_counts db \<Longrightarrow> link_counts db'"
proof -
  assume q: "quiet db db'" and counts: "link_counts db"
  obtain new where new: "link_view db' = link_view db @ new" "\<forall>(i, u, m) \<in> set new. u = 0 \<and> i \<notin> fst ` set (link_view db)"
    using q unfolding quiet_def by auto
  have same: "accept_count i db' = accept_count i db" for i using q unfolding quiet_def by simp
  have old: "int (accept_count i db') = u \<and> (u = 0 \<or> u \<le> m)" if "(i, u, m) \<in> set (link_view db)" for i u m
    using that counts by (auto simp: link_counts_def same dest!: bspec)
  have fresh: "accept_count i db' = 0 \<and> u = 0" if "(i, u, m) \<in> set new" for i u m
    using that counts new(2) by (auto simp: link_counts_def same dest!: bspec)
  have out: "accept_count i db' = 0" if "i \<notin> fst ` set (link_view db)" for i
    using that counts by (simp add: link_counts_def same)
  show ?thesis
    unfolding link_counts_def
  proof (intro conjI)
    show "\<forall>(i, u, m) \<in> set (link_view db'). int (accept_count i db') = u \<and> (u = 0 \<or> u \<le> m)"
      by (auto simp: new(1) dest: old fresh)
    show "\<forall>i. i \<notin> fst ` set (link_view db') \<longrightarrow> accept_count i db' = 0"
      using out by (simp add: new(1) image_Un)
  qed
qed

text \<open>A step is quiet unless it accepts a join link.\<close>

lemma auth_step_cases:
  assumes "auth_step cd db db'" "auth_keys db"
    and "\<And>clock md plaintext profile a. accept_join_link cd clock md plaintext profile db = Ok (a, db') \<Longrightarrow> P"
    and "quiet db db' \<Longrightarrow> P"
  shows P
  using quieting.step_related [OF assms(1,2)] assms(3,4) by blast

lemma link_counts_iff:
  "link_counts db \<longleftrightarrow>
     (\<forall>l \<in> set (at_links db). int (accept_count (jl_id l) db) = jl_used_count l \<and>
        (jl_used_count l = 0 \<or> jl_used_count l \<le> jl_max_uses l)) \<and>
     (\<forall>i. i \<notin> jl_id ` set (at_links db) \<longrightarrow> accept_count i db = 0)"
  by (simp add: link_counts_def link_view_def image_image)

lemma accept_link_counts:
  assumes "accept_join_link cd clock md plaintext profile db = Ok (a, db')" "auth_keys db" "link_counts db"
  shows "link_counts db'"
  using assms(1)
proof (cases rule: accept_join_link_parts)
  case (joined now m l tenant db1 db2 db3 db4)
  let ?sel = "\<lambda>r. jl_id r = ln_id l \<and> jl_used_count r < jl_max_uses r \<and> jl_revoked_at r = None \<and>
      text_less now (jl_expires_at r)"
  let ?upd = "\<lambda>r. r\<lparr>jl_used_count := jl_used_count r + 1\<rparr>"
  have db1: "at_links db1 = map (\<lambda>r. if ?sel r then ?upd r else r) (at_links db)" "at_audit db1 = at_audit db"
      and one: "length (filter ?sel (at_links db)) = 1"
    using joined(4) by (auto simp: consume_join_link_use_tx_def update_many_def)
  have "filter ?sel (at_links db) \<noteq> []" using one by auto
  then obtain r where "r \<in> set (filter ?sel (at_links db))" by (meson last_in_set)
  then have r: "r \<in> set (at_links db)" "?sel r" by auto
  have sel: "?sel s" if "s \<in> set (at_links db)" "jl_id s = ln_id l" for s
    using that r assms(2) by (auto simp: auth_keys_def distinct_map inj_on_def)
  have links: "at_links db' = at_links db1"
    using joined(5-8) by (auto simp: insert_user_def insert_identity_def insert_audit_event_tx_def result_simps
        split: if_splits)
  have quiets: "quiet db1 db4"
    using quieting.R_user [OF joined(5)] quieting.R_identity [OF joined(6)] quieting.R_audit [OF joined(7)]
    by (meson quiet_trans quiet_events(3))
  have "accept_count i db' = accept_count i db4 + (if i = ln_id l then 1 else 0)" for i
    using joined(8) by (auto simp: insert_audit_event_tx_def accept_count_def join_link_accept_event_def auth_event_def
        record_audit_event_def quiet_event_def split: if_splits)
  then have count: "accept_count i db' = accept_count i db + (if i = ln_id l then 1 else 0)" for i
    using quiets by (simp add: quiet_def accept_count_def db1(2))
  have "int (accept_count (jl_id s) db') = jl_used_count s \<and> (jl_used_count s = 0 \<or> jl_used_count s \<le> jl_max_uses s)"
    if s: "s \<in> set (at_links db')" for s
  proof -
    obtain s0 where s0: "s0 \<in> set (at_links db)" "s = (if ?sel s0 then ?upd s0 else s0)"
      using s by (auto simp: links db1(1))
    have "int (accept_count (jl_id s0) db) = jl_used_count s0 \<and> (jl_used_count s0 = 0 \<or> jl_used_count s0 \<le> jl_max_uses s0)"
      using assms(3) s0(1) by (simp add: link_counts_iff)
    then show ?thesis
      using sel [OF s0(1)] s0(2) by (cases "jl_id s0 = ln_id l") (auto simp: count)
  qed
  moreover have "accept_count i db' = 0" if "i \<notin> jl_id ` set (at_links db')" for i
  proof -
    have "map jl_id (at_links db') = map jl_id (at_links db)" by (simp add: links db1(1))
    then have "jl_id ` set (at_links db') = jl_id ` set (at_links db)" by (metis set_map)
    moreover have "ln_id l \<in> jl_id ` set (at_links db)" using r by (metis imageI)
    ultimately have "i \<noteq> ln_id l" "accept_count i db = 0" using that assms(3) by (auto simp: link_counts_iff)
    then show ?thesis by (simp add: count)
  qed
  ultimately show ?thesis by (simp add: link_counts_iff)
qed (use assms(3) in simp)

lemma reachable_link_counts: "auth_run cd auth_empty db \<Longrightarrow> link_counts db"
proof (induction rule: rtranclp_induct)
  case base
  show ?case by (simp add: link_counts_def link_view_def accept_count_def auth_empty_def)
next
  case (step b c)
  have "auth_keys b" using step.hyps(1) by (rule reachable_keys)
  with step.hyps(2) have "link_counts b \<longrightarrow> link_counts c"
  proof (rule auth_step_cases)
    fix clock md plaintext profile a
    assume "accept_join_link cd clock md plaintext profile b = Ok (a, c)"
    then show ?thesis using accept_link_counts \<open>auth_keys b\<close> by blast
  qed (use quiet_link_counts in blast)
  with step.IH show ?case by simp
qed

section \<open>Revocation\<close>

lemma revoke_tenant_token_revokes:
  assumes "revoke_tenant_token cd now tenant i db = Ok (token, db')" "auth_keys db" "r \<in> set (at_tokens db)" "tk_id r = i"
  shows "\<exists>s \<in> set (at_tokens db'). tk_token_hash s = tk_token_hash r \<and> tk_revoked_at s \<noteq> None"
proof -
  obtain m where m: "find (\<lambda>r. tk_id r = i \<and> tk_tenant_id r = tenant) (at_tokens db) = Some m"
    using assms(1) by (auto simp: revoke_tenant_token_def split: option.splits)
  then have "m \<in> set (at_tokens db)" "tk_id m = i" by (auto simp: find_Some_iff)
  with assms(2-4) have [simp]: "m = r" by (auto simp: auth_keys_def distinct_map inj_on_def)
  show ?thesis
  proof (cases "tk_revoked_at r")
    case None
    then have "at_tokens db' = fst (update_many (\<lambda>s. tk_id s = tk_id r) (\<lambda>s. s\<lparr>tk_revoked_at := Some now\<rparr>) (at_tokens db))"
      using assms(1) m by (auto simp: revoke_tenant_token_def result_simps)
    then have "r\<lparr>tk_revoked_at := Some now\<rparr> \<in> set (at_tokens db')"
      using assms(3) by (auto simp: update_many_fst)
    then show ?thesis by (rule bexI [rotated]) simp
  next
    case (Some a)
    with assms(1,3) m show ?thesis by (auto simp: revoke_tenant_token_def result_simps intro!: bexI [of _ r])
  qed
qed

text \<open>Revoking and rotating a token both start with its revocation.\<close>

lemma revoke_tenant_token_kept:
  "revoke_tenant_token_with_audit cd now ed tenant i actor db = Ok (token, db') \<Longrightarrow>
     \<exists>stamp token db0. revoke_tenant_token cd stamp tenant i db = Ok (token, db0) \<and> advances db0 db'"
  "rotate_tenant_token_with_audit cd d tenant i expires actor db = Ok (issued, db') \<Longrightarrow>
     \<exists>stamp token db0. revoke_tenant_token cd stamp tenant i db = Ok (token, db0) \<and> advances db0 db'"
  by (auto simp: revoke_tenant_token_with_audit_def rotate_tenant_token_with_audit_def Let_def result_simps
      dest!: insert_audit_advances insert_token_advances intro: advances_trans)

section \<open>Theorems\<close>

text \<open>
  C5: a tenant never loses its last administrator. Whatever the interleaving of user creation, role changes,
  removals, onboarding and all other operations, a tenant that has an administrator keeps one.
\<close>

theorem administrators_remain:
  assumes "auth_run cd auth_empty db" and "auth_run cd db db'" and "has_admin tenant db"
  shows "has_admin tenant db'"
  using run_advances [OF assms(2) reachable_keys [OF assms(1)]] assms(3) reachable_keys [OF assms(1)]
  by (simp add: advances_def)

text \<open>
  C8: a login ticket is good for one token. A successful exchange issues a token for the ticket's tenant and user with the single
  scope of the ticket's kind, for a ticket that has not expired, and for a mobile ticket only to the holder of the PKCE
  verifier; from then on, whatever happens, every exchange of that ticket gives nothing and changes nothing.
\<close>

theorem ticket_exchanged_once:
  assumes "auth_run cd auth_empty db" and "exchange_login_ticket cd clock d plaintext kind verifier db = Ok (Some x, db1)"
    and "auth_run cd db1 db2"
  shows "tt_tenant_id (px_token x) = pt_tenant_id (px_ticket x) \<and>
    tt_created_by_user_id (px_token x) = pt_user_id (px_ticket x) \<and>
    tt_scopes (px_token x) = [case kind of PluginTicket \<Rightarrow> PluginStudio | MobileTicket \<Rightarrow> MobileSession] \<and>
    (\<exists>e. au_parse_time cd (pt_expires_at (px_ticket x)) = Some e \<and> clock < e) \<and>
    (kind = MobileTicket \<longrightarrow> (\<exists>v. verifier = Some v \<and> pt_code_challenge (px_ticket x) = Some (au_pkce_challenge cd v))) \<and>
    exchange_login_ticket cd clock' d' plaintext kind' verifier' db2 = Ok (None, db2)"
  using assms(2)
proof (rule exchange_parts)
  fix m expires_at db0 and t :: plugin_login_ticket
  let ?db = "db\<lparr>at_tickets := fst (update_many (\<lambda>r. lt_id r = pt_id t \<and> lt_used_at r = None \<and> lt_revoked_at r = None)
             (\<lambda>r. r\<lparr>lt_used_at := Some (td_now d)\<rparr>) (at_tickets db))\<rparr>"
  assume s: "find (\<lambda>r. lt_ticket_hash r = hash_token cd plaintext \<and> lt_kind r = LoginTicketKind_as_str kind \<and>
             lt_used_at r = None \<and> lt_revoked_at r = None) (at_tickets db) = Some m"
    "plugin_login_ticket_from_model cd m = Ok t" "plugin_login_ticket_expired cd clock t = Ok False"
    "kind = MobileTicket \<longrightarrow> mobile_pkce_matches cd t (case verifier of Some v \<Rightarrow> v | None \<Rightarrow> [])"
    "px_ticket x = t\<lparr>pt_used_at := Some (td_now d)\<rparr>"
    and issue: "issue_ticket_token cd d kind (px_ticket x) expires_at ?db = Ok ((px_token x, px_plaintext_token x), db0)"
    and audit: "insert_audit_event_tx (exchange_event cd (td_event d) kind (px_ticket x) (px_token x)) db0 = Ok db1"
  have m: "m \<in> set (at_tickets db)" "lt_ticket_hash m = hash_token cd plaintext" "lt_used_at m = None" "lt_revoked_at m = None"
    using s(1) by (auto simp: find_Some_iff)
  have "lt_id m = pt_id t" using s(2) by (auto simp: plugin_login_ticket_from_model_def result_simps)
  then have used: "m\<lparr>lt_used_at := Some (td_now d)\<rparr> \<in> set (at_tickets ?db)"
    using m by (auto simp: update_many_fst image_iff intro!: bexI [of _ m])
  have keys: "auth_keys db1" and "advances db db1"
    using advancing.exchange_related [OF assms(2)] reachable_keys [OF assms(1)] by (simp_all add: advances_def)
  have "advances ?db db1"
    using issue_ticket_token_Ok(1) [OF issue] insert_audit_advances [OF audit] by (meson advances_trans insert_token_advances)
  with run_advances [OF assms(3) keys]
  have "evolves ticket_step (at_tickets ?db) (at_tickets db2)" and keys2: "auth_keys db2"
    unfolding advances_def by (auto intro: tickets.evolves_trans)
  from tickets.evolves_member [OF this(1) used]
  obtain r where r: "r \<in> set (at_tickets db2)" "lt_ticket_hash r = hash_token cd plaintext" "lt_used_at r \<noteq> None"
    using m(2) by (auto simp: ticket_step_def)
  have "find (\<lambda>r. lt_ticket_hash r = hash_token cd plaintext \<and> lt_kind r = LoginTicketKind_as_str kind' \<and>
             lt_used_at r = None \<and> lt_revoked_at r = None) (at_tickets db2) = None"
    using r keys2 unfolding find_None_iff auth_keys_def distinct_map inj_on_def by (metis (no_types, lifting))
  then have "exchange_login_ticket cd clock' d' plaintext kind' verifier' db2 = Ok (None, db2)"
    by (simp add: exchange_login_ticket_def)
  moreover have "kind = MobileTicket \<longrightarrow> (\<exists>v. verifier = Some v \<and> pt_code_challenge t = Some (au_pkce_challenge cd v))"
    using s(4) by (auto simp: mobile_pkce_matches_def split: option.splits)
  moreover have "\<exists>e. au_parse_time cd (pt_expires_at t) = Some e \<and> clock < e"
    using s(3) by (auto simp: plugin_login_ticket_expired_def result_simps)
  ultimately show ?thesis using issue_ticket_token_Ok(2) [OF issue] s(5) by simp
qed

text \<open>
  A join link admits at most as many people as it allows. In every reachable state the use count of a link equals the number
  of recorded acceptances and never exceeds its limit; and accepting a link admits only someone whose verified email meets
  the link's constraint, with the role the link grants.
\<close>

lemma join_link_uses_bounded:
  assumes "auth_run cd auth_empty db"
  shows "(\<forall>l \<in> set (at_links db). jl_used_count l = int (accept_count (jl_id l) db) \<and>
      (0 < jl_used_count l \<longrightarrow> jl_used_count l \<le> jl_max_uses l)) \<and>
    (\<forall>clock md plaintext profile a db'. accept_join_link cd clock md plaintext profile db = Ok (a, db') \<and> aj_created a \<longrightarrow>
      (\<exists>l \<in> set (at_links db). jl_token_hash l = hash_token cd plaintext \<and> jl_used_count l < jl_max_uses l \<and>
        jl_revoked_at l = None \<and> jl_role l = UserRole_as_str (u_role (aj_user a)) \<and>
        (\<forall>c. jl_email_constraint l = Some c \<longrightarrow> eq_ignore_ascii_case c (u_email (aj_user a)))))"
proof (intro conjI allI impI)
  show "\<forall>l \<in> set (at_links db). jl_used_count l = int (accept_count (jl_id l) db) \<and>
      (0 < jl_used_count l \<longrightarrow> jl_used_count l \<le> jl_max_uses l)"
    using reachable_link_counts [OF assms] by (auto simp: link_counts_iff)
  fix clock md plaintext profile a db'
  assume a: "accept_join_link cd clock md plaintext profile db = Ok (a, db') \<and> aj_created a"
  from a [THEN conjunct1] show "\<exists>l \<in> set (at_links db). jl_token_hash l = hash_token cd plaintext \<and>
        jl_used_count l < jl_max_uses l \<and> jl_revoked_at l = None \<and> jl_role l = UserRole_as_str (u_role (aj_user a)) \<and>
        (\<forall>c. jl_email_constraint l = Some c \<longrightarrow> eq_ignore_ascii_case c (u_email (aj_user a)))"
  proof (cases rule: accept_join_link_parts)
    case (joined now m l tenant db1 db2 db3 db4)
    have "m \<in> set (at_links db)" "jl_token_hash m = hash_token cd plaintext" "jl_used_count m < jl_max_uses m"
        "jl_revoked_at m = None"
      using joined(1) by (auto simp: load_valid_join_link_by_hash_def find_Some_iff split: option.splits if_splits)
    moreover have "jl_role m = UserRole_as_str (ln_role l)" "jl_email_constraint m = ln_email_constraint l"
      using joined(2) by (auto simp: join_link_from_model_def result_simps UserRole_parse_Ok)
    ultimately show ?thesis using joined(3,9) by (intro bexI [of _ m]) (auto simp: member_user_def)
  qed (use a in simp)
qed

text \<open>
  C9: revocation is final. Once a token has been revoked or rotated, the bearer of its old secret is not authenticated in any
  later state, whatever happens in between, and the attempt leaves no trace.
\<close>

theorem revoked_token_refused:
  assumes "auth_run cd auth_empty db"
    and "(\<exists>token. revoke_tenant_token_with_audit cd now ed tenant i actor db = Ok (token, db1)) \<or>
      (\<exists>issued. rotate_tenant_token_with_audit cd d tenant i expires actor db = Ok (issued, db1))"
    and "r \<in> set (at_tokens db)" "tk_id r = i" "tk_token_hash r = hash_token cd plaintext"
    and "auth_run cd db1 db2"
  shows "authenticate_tenant_token cd clock now' plaintext db2 = (Ok None, db2)"
proof -
  have keys: "auth_keys db" using assms(1) by (rule reachable_keys)
  obtain stamp token db0 where s: "revoke_tenant_token cd stamp tenant i db = Ok (token, db0)" "advances db0 db1"
    using assms(2) revoke_tenant_token_kept by metis
  have adv: "advances db db0" using s(1) keys by (rule advancing.revoke_tenant_token_related)
  have "\<exists>s \<in> set (at_tokens db0). tk_token_hash s = tk_token_hash r \<and> tk_revoked_at s \<noteq> None"
    using revoke_tenant_token_revokes [OF s(1) keys assms(3,4)] .
  then obtain s0 where s0: "s0 \<in> set (at_tokens db0)" "tk_token_hash s0 = tk_token_hash r" "tk_revoked_at s0 \<noteq> None" by blast
  have "auth_keys db0" using adv keys by (simp add: advances_def)
  with s(2) have "auth_keys db1" by (simp add: advances_def)
  from run_advances [OF assms(6) this] s(2)
  have "evolves token_step (at_tokens db0) (at_tokens db2)" and keys2: "auth_keys db2"
    unfolding advances_def by (auto intro: tokens.evolves_trans)
  from tokens.evolves_member [OF this(1) s0(1)] s0(2,3)
  obtain s2 where s2: "s2 \<in> set (at_tokens db2)" "tk_token_hash s2 = hash_token cd plaintext" "tk_revoked_at s2 \<noteq> None"
    using assms(5) by (auto simp: token_step_def)
  have "find (\<lambda>r. tk_token_hash r = hash_token cd plaintext \<and> tk_revoked_at r = None) (at_tokens db2) = None"
    using s2 keys2 unfolding find_None_iff auth_keys_def distinct_map inj_on_def by (metis (no_types, lifting))
  then show ?thesis by (simp add: authenticate_tenant_token_def)
qed

text \<open>
  A user cannot be removed by a token of its own: the audit event of the removal would have to refer to the user
  that is gone, so the whole transaction fails with a database error and the user stays.
\<close>

lemma own_token_cannot_remove:
  assumes "auth_run cd auth_empty db" and "actor_user_id actor = Some i"
  shows "\<exists>e. remove_user_with_audit cd ed tenant i actor db = Err e"
proof (rule ccontr)
  assume "\<not> ?thesis"
  then obtain u db' where "remove_user_with_audit cd ed tenant i actor db = Ok (u, db')"
    by (metis old.prod.exhaust result.exhaust)
  then obtain m where s: "find_user tenant i db = Some m"
      "insert_audit_event_tx (user_remove_audit_event cd ed u actor) (delete_user tenant i db) = Ok db'"
    by (auto simp: remove_user_with_audit_def result_simps select_user_locked_Ok)
  have m: "m \<in> set (at_users db)" "usr_id m = i" "usr_tenant_id m = tenant" using find_user_Some [OF s(1)] by auto
  then have "i \<notin> usr_id ` set (at_users (delete_user tenant i db))"
    using reachable_keys [OF assms(1)] s(1)
    by (auto simp: delete_user_def user_exists_def auth_keys_def distinct_map inj_on_def)
  with s(2) assms(2) show False
    by (auto simp: insert_audit_event_tx_def user_remove_audit_event_def auth_event_def record_audit_event_def split: if_splits)
qed

section \<open>Retention cleanup\<close>

text \<open>
  \<open>execute_cleanup\<close> also deletes login tickets that were used, revoked or ran out before a cutoff, and tokens that were revoked or ran out
  before it (\<open>cleanup/sql.rs\<close>). A secret that authenticates afterwards did so before, with the same outcome, and a ticket that
  can be exchanged afterwards could be exchanged before: cleaning up lets nobody in. It does make the hash of a deleted secret
  free again, so that a later draw of the same two random identifiers could issue the secret anew: for this
  the cleanup is not a step of \<open>auth_step\<close>.
\<close>

definition old_text :: "timestamp \<Rightarrow> timestamp option \<Rightarrow> bool" where
  "old_text cutoff t \<longleftrightarrow> (case t of None \<Rightarrow> False | Some t \<Rightarrow> text_less t cutoff)"

definition cleanup_login_tickets :: "timestamp \<Rightarrow> auth_db \<Rightarrow> auth_db" where
  "cleanup_login_tickets cutoff db =
     db\<lparr>at_tickets := filter (\<lambda>r. \<not> (old_text cutoff (lt_used_at r) \<or> old_text cutoff (lt_revoked_at r) \<or> text_less (lt_expires_at r) cutoff))
                     (at_tickets db)\<rparr>"

definition cleanup_tenant_tokens :: "timestamp \<Rightarrow> auth_db \<Rightarrow> auth_db" where
  "cleanup_tenant_tokens cutoff db =
     db\<lparr>at_tokens := filter (\<lambda>r. \<not> (old_text cutoff (tk_revoked_at r) \<or> old_text cutoff (tk_expires_at r))) (at_tokens db)\<rparr>"

lemma find_of_filtered:
  assumes "find p (filter q xs) = Some r" "distinct (map k xs)" "\<And>s. p s \<Longrightarrow> k s = h"
  shows "find p xs = Some r"
proof -
  have r: "r \<in> set xs" "p r" using assms(1) by (auto simp: find_Some_iff in_set_conv_nth dest!: nth_mem)
  then obtain s where s: "find p xs = Some s" by (cases "find p xs") (auto simp: find_None_iff)
  then have "s \<in> set xs" "p s" by (auto simp: find_Some_iff)
  with r assms(2,3) have "s = r" by (metis distinct_map inj_on_def)
  with s show ?thesis by simp
qed

lemma session_user_tokens: "session_user cd token (db\<lparr>at_tokens := rows\<rparr>) = session_user cd token db"
proof -
  have "find_user t i (db\<lparr>at_tokens := rows\<rparr>) = find_user t i db" for t i by (simp add: find_user_def)
  then show ?thesis by (simp add: session_user_def cong: option.case_cong)
qed

lemma cleaned_users: "session_user cd token (cleanup_tenant_tokens cutoff db) = session_user cd token db"
  by (simp add: cleanup_tenant_tokens_def session_user_tokens)

lemma cleaned_token_authenticates:
  assumes "auth_run cd auth_empty db"
    and "fst (authenticate_tenant_token cd clock now secret (cleanup_tenant_tokens cutoff db)) = Ok (Some x)"
  shows "fst (authenticate_tenant_token cd clock now secret db) = Ok (Some x)"
proof -
  let ?p = "\<lambda>r. tk_token_hash r = hash_token cd secret \<and> tk_revoked_at r = None"
  have keys: "distinct (map tk_token_hash (at_tokens db))" using reachable_keys [OF assms(1)] by (simp add: auth_keys_def)
  show ?thesis
  proof (cases "find ?p (at_tokens (cleanup_tenant_tokens cutoff db))")
    case None
    with assms(2) show ?thesis by (simp add: authenticate_tenant_token_def)
  next
    case (Some m)
    have f: "find ?p (at_tokens db) = Some m"
      by (rule find_of_filtered [OF Some [unfolded cleanup_tenant_tokens_def, simplified] keys]) simp
    show ?thesis
      using assms(2)
      by (auto simp: authenticate_tenant_token_def Some f Let_def session_user_tokens cleaned_users
          split: result.splits bool.splits)
  qed
qed

lemma cleaned_ticket_exchanges:
  assumes "auth_run cd auth_empty db"
    and "find (\<lambda>r. lt_ticket_hash r = h \<and> p r) (at_tickets (cleanup_login_tickets cutoff db)) = Some m"
  shows "find (\<lambda>r. lt_ticket_hash r = h \<and> p r) (at_tickets db) = Some m"
proof -
  have keys: "distinct (map lt_ticket_hash (at_tickets db))" using reachable_keys [OF assms(1)] by (simp add: auth_keys_def)
  show ?thesis
    by (rule find_of_filtered [OF assms(2) [unfolded cleanup_login_tickets_def, simplified] keys]) simp
qed

section \<open>Witnesses\<close>

text \<open>A codec on small texts, and a short history: a bootstrapped tenant, a second administrator, a ticket, a link.\<close>

definition sample_auth_codec :: auth_codec where
  "sample_auth_codec =
     \<lparr>au_uuid = Some, au_sha256_hex = (\<lambda>s. s), au_pkce_challenge = (\<lambda>s. s), au_parse_time = (\<lambda>_. Some 10),
      au_format_time = (\<lambda>t. Some (if t < 5 then ''0'' else ''9'')), au_scopes_text = (\<lambda>xs. concat xs),
      au_scopes_read = (\<lambda>s. Some [s]), au_metadata_text = (\<lambda>_. [])\<rparr>"

definition sample_token_draw :: "string \<Rightarrow> token_draw" where
  "sample_token_draw k = \<lparr>td_id = k, td_uuids = (k, k), td_now = ''0'', td_event = (k, ''0'')\<rparr>"

definition tx_db :: "('a \<times> auth_db) repository_result \<Rightarrow> auth_db" where
  "tx_db r = (case r of Ok (_, db) \<Rightarrow> db | Err _ \<Rightarrow> auth_empty)"

lemma tx_Ok: "is_ok r \<Longrightarrow> \<exists>x. r = Ok (x, tx_db r)"
  by (cases r) (auto simp: tx_db_def is_ok_iff)

definition sample_bootstrap :: "((tenant \<times> user \<times> tenant_token \<times> string) \<times> auth_db) repository_result" where
  "sample_bootstrap =
     bootstrap_tenant_admin_with_plaintext_token sample_auth_codec
       \<lparr>bd_tenant = ''t'', bd_user = ''u'', bd_token = sample_token_draw ''k'',
        bd_events = ((''a'', ''0''), (''b'', ''0''), (''c'', ''0''))\<rparr> ''s'' ''d'' ''m'' ''n'' ''k'' auth_empty"

definition sample_second :: "(user \<times> auth_db) repository_result" where
  "sample_second = create_user ''v'' ''0'' ''t'' ''w'' ''w'' TenantAdmin (tx_db sample_bootstrap)"

definition sample_removal :: "(user \<times> auth_db) repository_result" where
  "sample_removal =
     remove_user_with_audit sample_auth_codec (''d'', ''0'') ''t'' ''u'' (AuditActor_user ''v'') (tx_db sample_second)"

definition sample_ticket :: "((plugin_login_ticket \<times> string) \<times> auth_db) repository_result" where
  "sample_ticket =
     create_plugin_login_ticket_with_audit sample_auth_codec
       (\<lambda>u. Some \<lparr>uri_scheme = Some ''http'', uri_authority = Some ''localhost:1'', uri_host = ''localhost'',
                 uri_port = Some 1, uri_text = u\<rparr>)
       (sample_token_draw ''x'') ''t'' (Some ''u'') ''http://localhost:1'' ''9'' (AuditActor_user ''u'')
       (tx_db sample_bootstrap)"

abbreviation sample_secret :: string where
  "sample_secret \<equiv> generate_secret PLUGIN_LOGIN_TICKET_PREFIX (''x'', ''x'')"

definition sample_exchange :: "(plugin_login_ticket_exchange option \<times> auth_db) repository_result" where
  "sample_exchange =
     exchange_login_ticket sample_auth_codec 0 (sample_token_draw ''y'') sample_secret PluginTicket None
       (tx_db sample_ticket)"

definition sample_link :: "((join_link \<times> string) \<times> auth_db) repository_result" where
  "sample_link =
     create_join_link_with_audit sample_auth_codec
       \<lparr>ld_id = ''l'', ld_uuids = (''l'', ''l''), ld_clock = 0, ld_event = (''l'', ''0'')\<rparr> ''t'' Operator None 60 1
       (AuditActor_user ''u'') (tx_db sample_bootstrap)"

definition sample_accept :: "(accepted_join_link \<times> auth_db) repository_result" where
  "sample_accept =
     accept_join_link sample_auth_codec 0
       \<lparr>md_user = ''p'', md_identity = ''q'', md_now = ''0'', md_events = ((''f'', ''0''), (''g'', ''0''))\<rparr>
       (generate_secret JOIN_LINK_PREFIX (''l'', ''l''))
       \<lparr>xp_provider = ''o'', xp_subject = ''p'', xp_email = ''e'', xp_display_name = ''e''\<rparr> (tx_db sample_link)"

definition sample_revocation :: "(tenant_token \<times> auth_db) repository_result" where
  "sample_revocation =
     revoke_tenant_token_with_audit sample_auth_codec ''0'' (''r'', ''0'') ''t'' ''k'' (AuditActor_user ''u'')
       (tx_db sample_bootstrap)"

lemma sample_auth_ok:
  "is_ok sample_bootstrap" "is_ok sample_second" "is_ok sample_removal" "is_ok sample_ticket" "is_ok sample_link"
  "is_ok sample_accept" "is_ok sample_revocation"
  by code_simp+

lemma sample_auth_rows:
  "tenant_admins ''t'' (tx_db sample_second) \<noteq> []" "map jl_used_count (at_links (tx_db sample_accept)) = [1]"
  "case sample_exchange of Ok (Some x, db) \<Rightarrow> True | _ \<Rightarrow> False"
  "map tk_id (at_tokens (tx_db sample_bootstrap)) = [''k'']"
  "map tk_token_hash (at_tokens (tx_db sample_bootstrap)) = [hash_token sample_auth_codec ''pandar_tenant_k_k'']"
  by code_simp+

lemma sample_boot_run: "auth_run sample_auth_codec auth_empty (tx_db sample_bootstrap)"
  using tx_Ok [OF sample_auth_ok(1)] unfolding sample_bootstrap_def by (metis auth_step.bootstrap r_into_rtranclp)

lemma sample_boot_step: "auth_step sample_auth_codec (tx_db sample_bootstrap) db \<Longrightarrow> auth_run sample_auth_codec auth_empty db"
  using sample_boot_run by (rule rtranclp.rtrancl_into_rtrancl)

lemma sample_second_run: "auth_run sample_auth_codec auth_empty (tx_db sample_second)"
  using tx_Ok [OF sample_auth_ok(2)] unfolding sample_second_def by (metis auth_step.create_user sample_boot_step)

lemma sample_ticket_run: "auth_run sample_auth_codec auth_empty (tx_db sample_ticket)"
  using tx_Ok [OF sample_auth_ok(4)] unfolding sample_ticket_def by (metis auth_step.plugin_ticket sample_boot_step)

lemma sample_link_run: "auth_run sample_auth_codec auth_empty (tx_db sample_link)"
  using tx_Ok [OF sample_auth_ok(5)] unfolding sample_link_def by (metis auth_step.create_link sample_boot_step)

theorem administrators_remain_witness: "has_admin ''t'' (tx_db sample_removal)"
proof -
  have "auth_step sample_auth_codec (tx_db sample_second) (tx_db sample_removal)"
    using tx_Ok [OF sample_auth_ok(3)] unfolding sample_removal_def by (metis auth_step.remove_user)
  then show ?thesis
    using administrators_remain [OF sample_second_run r_into_rtranclp] sample_auth_rows(1) by (simp add: has_admin_def)
qed

theorem ticket_exchanged_once_witness:
  "\<exists>x db. sample_exchange = Ok (Some x, db) \<and> tt_scopes (px_token x) = [PluginStudio] \<and>
     exchange_login_ticket sample_auth_codec 0 (sample_token_draw ''z'') sample_secret PluginTicket None db = Ok (None, db)"
proof -
  obtain x db where x: "sample_exchange = Ok (Some x, db)"
    using sample_auth_rows(3) by (auto split: result.splits option.splits prod.splits)
  with ticket_exchanged_once [OF sample_ticket_run x [unfolded sample_exchange_def] rtranclp.rtrancl_refl,
      of 0 "sample_token_draw ''z''" PluginTicket None]
  show ?thesis by auto
qed

lemma join_link_uses_bounded_witness:
  "map jl_used_count (at_links (tx_db sample_accept)) = [1] \<and>
   list_all (\<lambda>l. jl_used_count l = int (accept_count (jl_id l) (tx_db sample_accept)) \<and> jl_used_count l \<le> jl_max_uses l)
     (at_links (tx_db sample_accept))"
proof -
  have "auth_step sample_auth_codec (tx_db sample_link) (tx_db sample_accept)"
    using tx_Ok [OF sample_auth_ok(6)] unfolding sample_accept_def by (metis auth_step.accept_link)
  with sample_link_run have "auth_run sample_auth_codec auth_empty (tx_db sample_accept)"
    by (rule rtranclp.rtrancl_into_rtrancl)
  from join_link_uses_bounded [OF this]
  have u: "\<forall>l \<in> set (at_links (tx_db sample_accept)). jl_used_count l = int (accept_count (jl_id l) (tx_db sample_accept)) \<and>
      (0 < jl_used_count l \<longrightarrow> jl_used_count l \<le> jl_max_uses l)" by (rule conjunct1)
  have "jl_used_count l = 1" if "l \<in> set (at_links (tx_db sample_accept))" for l
    using that sample_auth_rows(2) by (metis image_eqI list.set_map set_map singletonD list.set(1) list.simps(15))
  with u sample_auth_rows(2) show ?thesis by (auto simp: list_all_iff)
qed

theorem revoked_token_refused_witness:
  "authenticate_tenant_token sample_auth_codec 0 ''0'' ''pandar_tenant_k_k'' (tx_db sample_revocation) =
     (Ok None, tx_db sample_revocation)"
proof -
  obtain r where r: "r \<in> set (at_tokens (tx_db sample_bootstrap))" "tk_id r = ''k''"
      "tk_token_hash r = hash_token sample_auth_codec ''pandar_tenant_k_k''"
    using sample_auth_rows(4,5) by (cases "at_tokens (tx_db sample_bootstrap)") auto
  obtain token where "sample_revocation = Ok (token, tx_db sample_revocation)" using tx_Ok [OF sample_auth_ok(7)] by blast
  then have "\<exists>token. revoke_tenant_token_with_audit sample_auth_codec ''0'' (''r'', ''0'') ''t'' ''k'' (AuditActor_user ''u'')
      (tx_db sample_bootstrap) = Ok (token, tx_db sample_revocation)" unfolding sample_revocation_def by blast
  from revoked_token_refused [OF sample_boot_run disjI1 [OF this] r rtranclp.rtrancl_refl] show ?thesis .
qed

lemma own_token_cannot_remove_witness:
  "\<exists>e. remove_user_with_audit sample_auth_codec (''h'', ''0'') ''t'' ''u''
         (AuditActor_tenant_token (Some ''u'') ''k'' [''*'']) (tx_db sample_second) = Err e"
  by (rule own_token_cannot_remove [OF sample_second_run]) (simp add: AuditActor_tenant_token_def)

end
