(* ===== verification/Hub_Authorize.thy ===== *)
theory Hub_Authorize
  imports Hub_Auth_Steps
begin

text \<open>
  Who may do what: \<open>crates/pandar-hub/src/routes/auth.rs\<close>, with the identity that
  \<open>identity/verifier/claims.rs\<close> gives to it. A request carries a bearer text, which is a tenant token or a token of
  the external identity provider. The verifier of external tokens is a parameter. Authenticating a
  tenant token records its use, so every check gives the tables beside its verdict.
\<close>

section \<open>Requests and principals\<close>

record verified_external_identity =
  vi_provider :: string
  vi_subject :: string
  vi_email :: "string option"
  vi_email_verified :: "bool option"
  vi_name :: "string option"
  vi_preferred_username :: "string option"

definition verified_email :: "verified_external_identity \<Rightarrow> string option" where
  "verified_email v =
     (case (vi_email v, vi_email_verified v) of
        (Some email, Some True) \<Rightarrow> if trim email \<noteq> [] then Some (trim email) else None
      | _ \<Rightarrow> None)"

definition nonblank :: "string option \<Rightarrow> string option" where
  "nonblank v = (case v of Some s \<Rightarrow> if trim s \<noteq> [] then Some (trim s) else None | None \<Rightarrow> None)"

definition display_name :: "verified_external_identity \<Rightarrow> string" where
  "display_name v =
     (case nonblank (vi_name v) of
        Some s \<Rightarrow> s
      | None \<Rightarrow>
          (case nonblank (vi_preferred_username v) of
             Some s \<Rightarrow> s
           | None \<Rightarrow> (case verified_email v of Some s \<Rightarrow> s | None \<Rightarrow> [])))"

datatype api_error = ApiError nat string | RepositoryFailure repository_error

abbreviation UNAUTHORIZED :: "string \<Rightarrow> api_error" where "UNAUTHORIZED \<equiv> ApiError 401"
abbreviation FORBIDDEN :: "string \<Rightarrow> api_error" where "FORBIDDEN \<equiv> ApiError 403"
abbreviation BAD_REQUEST :: "string \<Rightarrow> api_error" where "BAD_REQUEST \<equiv> ApiError 400"

text \<open>The configuration, and the clock of the request.\<close>

record auth_env =
  ae_codec :: auth_codec
  ae_no_auth :: bool
  ae_verifier :: "(string \<Rightarrow> verified_external_identity option) option"
  ae_clock :: int
  ae_now :: timestamp

text \<open>The \<open>Authorization\<close> header: absent, not a text, or its text.\<close>

type_synonym auth_header = "string option option"

datatype authenticated_principal =
    UserPrincipal user
  | TokenPrincipal tenant_token "user option"
  | NoAuthPrincipal tenant_id

fun principal_tenant_id :: "authenticated_principal \<Rightarrow> tenant_id" where
  "principal_tenant_id (UserPrincipal u) = u_tenant_id u"
| "principal_tenant_id (TokenPrincipal token _) = tt_tenant_id token"
| "principal_tenant_id (NoAuthPrincipal t) = t"

fun audit_actor_of :: "authenticated_principal \<Rightarrow> audit_actor" where
  "audit_actor_of (UserPrincipal u) = AuditActor_user (u_id u)"
| "audit_actor_of (TokenPrincipal token _) =
     AuditActor_tenant_token (tt_created_by_user_id token) (tt_id token) (map TenantTokenScope_as_str (tt_scopes token))"
| "audit_actor_of (NoAuthPrincipal _) = AuditActor_no_auth"

definition plugin_audit_actor :: "tenant_token \<Rightarrow> audit_actor" where
  "plugin_audit_actor token =
     AuditActor_plugin_token (tt_created_by_user_id token) (tt_id token) (map TenantTokenScope_as_str (tt_scopes token))"

definition bearer_token :: "auth_header \<Rightarrow> (string, api_error) result" where
  "bearer_token header =
     (case header of
        None \<Rightarrow> Err (UNAUTHORIZED ''missing_auth_token'')
      | Some None \<Rightarrow> Err (UNAUTHORIZED ''invalid_auth_token'')
      | Some (Some s) \<Rightarrow> ok_or (strip_prefix ''Bearer '' s) (UNAUTHORIZED ''invalid_auth_token''))"

definition verify_external_identity :: "auth_env \<Rightarrow> auth_header \<Rightarrow> (verified_external_identity, api_error) result" where
  "verify_external_identity env header =
     and_then (bearer_token header) (\<lambda>token.
     and_then (ok_or (ae_verifier env) (UNAUTHORIZED ''invalid_auth_token'')) (\<lambda>verify.
     ok_or (verify token) (UNAUTHORIZED ''invalid_auth_token'')))"

definition external_profile :: "verified_external_identity \<Rightarrow> (external_identity_profile, api_error) result" where
  "external_profile v =
     and_then (ok_or (verified_email v) (BAD_REQUEST ''external_email_unverified'')) (\<lambda>email.
       Ok \<lparr>xp_provider = vi_provider v, xp_subject = vi_subject v, xp_email = email, xp_display_name = display_name v\<rparr>)"

definition tenant_token_allows_role :: "tenant_token \<Rightarrow> user option \<Rightarrow> user_role \<Rightarrow> bool" where
  "tenant_token_allows_role token session required_role \<longleftrightarrow>
     has_scope token AllScopes \<or>
     (tt_scopes token = [MobileSession] \<and> (\<exists>u \<in> set_option session. allows (u_role u) required_role))"

section \<open>Checks\<close>

text \<open>\<open>?\<close> on a check that has already touched the tables.\<close>

definition and_also ::
  "('a, api_error) result \<times> auth_db \<Rightarrow> ('a \<Rightarrow> ('b, api_error) result) \<Rightarrow> ('b, api_error) result \<times> auth_db" where
  "and_also r f = (and_then (fst r) f, snd r)"

definition external_principal ::
  "auth_env \<Rightarrow> string \<Rightarrow> tenant_id \<Rightarrow> auth_db \<Rightarrow> (authenticated_principal, api_error) result" where
  "external_principal env token tenant db =
     (case ae_verifier env of
        None \<Rightarrow> Err (UNAUTHORIZED ''invalid_auth_token'')
      | Some verify \<Rightarrow>
          and_then (ok_or (verify token) (UNAUTHORIZED ''invalid_auth_token'')) (\<lambda>v.
          and_then (map_err RepositoryFailure
                      (authenticate_external_identity (ae_codec env) tenant (vi_provider v) (vi_subject v) db)) (\<lambda>found.
          and_then (ok_or found (FORBIDDEN ''tenant_forbidden'')) (\<lambda>u. Ok (UserPrincipal u)))))"

definition authorize_principal ::
  "auth_env \<Rightarrow> auth_header \<Rightarrow> tenant_id \<Rightarrow> auth_db \<Rightarrow> (authenticated_principal, api_error) result \<times> auth_db" where
  "authorize_principal env header tenant db =
     (if ae_no_auth env then (Ok (NoAuthPrincipal tenant), db)
      else
        case bearer_token header of
          Err e \<Rightarrow> (Err e, db)
        | Ok token \<Rightarrow>
            (case authenticate_tenant_token (ae_codec env) (ae_clock env) (ae_now env) token db of
               (verdict, db) \<Rightarrow>
                 (and_then
                    (case verdict of
                       Err e \<Rightarrow> Err (RepositoryFailure e)
                     | Ok (Some (token', session)) \<Rightarrow> Ok (TokenPrincipal token' session)
                     | Ok None \<Rightarrow> external_principal env token tenant db)
                    (\<lambda>p. if principal_tenant_id p \<noteq> tenant then Err (FORBIDDEN ''tenant_forbidden'') else Ok p),
                  db)))"

definition require_tenant_role ::
  "user_role \<Rightarrow> authenticated_principal \<Rightarrow> (authenticated_principal, api_error) result" where
  "require_tenant_role required_role p =
     (case p of
        UserPrincipal u \<Rightarrow> if \<not> allows (u_role u) required_role then Err (FORBIDDEN ''role_forbidden'') else Ok p
      | TokenPrincipal token session \<Rightarrow>
          if \<not> (tenant_token_allows_role token session required_role \<or>
                required_role = Viewer \<and> tt_scopes token = [])
          then Err (FORBIDDEN ''role_forbidden'') else Ok p
      | NoAuthPrincipal _ \<Rightarrow> Ok p)"

definition authorize_tenant ::
  "auth_env \<Rightarrow> auth_header \<Rightarrow> tenant_id \<Rightarrow> user_role \<Rightarrow> auth_db \<Rightarrow> (authenticated_principal, api_error) result \<times> auth_db" where
  "authorize_tenant env header tenant required_role db =
     and_also (authorize_principal env header tenant db) (require_tenant_role required_role)"

definition authorize_principal_for_role ::
  "auth_env \<Rightarrow> auth_header \<Rightarrow> tenant_id \<Rightarrow> user_role \<Rightarrow> auth_db \<Rightarrow> (authenticated_principal, api_error) result \<times> auth_db" where
  "authorize_principal_for_role env header tenant required_role db =
     and_also (authorize_principal env header tenant db) (\<lambda>p.
       case p of
         UserPrincipal u \<Rightarrow> if \<not> allows (u_role u) required_role then Err (FORBIDDEN ''role_forbidden'') else Ok p
       | TokenPrincipal token session \<Rightarrow>
           if \<not> tenant_token_allows_role token session required_role then Err (FORBIDDEN ''role_forbidden'') else Ok p
       | NoAuthPrincipal _ \<Rightarrow> Ok p)"

definition authorize_tenant_admin_principal ::
  "auth_env \<Rightarrow> auth_header \<Rightarrow> tenant_id \<Rightarrow> auth_db \<Rightarrow> (authenticated_principal, api_error) result \<times> auth_db" where
  "authorize_tenant_admin_principal env header tenant db =
     authorize_principal_for_role env header tenant TenantAdmin db"

definition authorize_tenant_principal ::
  "auth_env \<Rightarrow> auth_header \<Rightarrow> tenant_id \<Rightarrow> user_role \<Rightarrow> auth_db \<Rightarrow> (authenticated_principal, api_error) result \<times> auth_db" where
  "authorize_tenant_principal env header tenant required_role db =
     authorize_principal_for_role env header tenant required_role db"

definition authorize_user_login_ticket_creation ::
  "auth_env \<Rightarrow> auth_header \<Rightarrow> tenant_id \<Rightarrow> user_role \<Rightarrow> auth_db \<Rightarrow> (authenticated_principal, api_error) result \<times> auth_db" where
  "authorize_user_login_ticket_creation env header tenant required_role db =
     and_also (authorize_principal env header tenant db) (\<lambda>p.
       case p of
         UserPrincipal u \<Rightarrow> if \<not> allows (u_role u) required_role then Err (FORBIDDEN ''role_forbidden'') else Ok p
       | TokenPrincipal _ _ \<Rightarrow> Err (FORBIDDEN ''role_forbidden'')
       | NoAuthPrincipal _ \<Rightarrow> Ok p)"

definition authorize_plugin_login_ticket_creation ::
  "auth_env \<Rightarrow> auth_header \<Rightarrow> tenant_id \<Rightarrow> auth_db \<Rightarrow> (authenticated_principal, api_error) result \<times> auth_db" where
  "authorize_plugin_login_ticket_creation env header tenant db =
     authorize_user_login_ticket_creation env header tenant Operator db"

definition authorize_mobile_login_ticket_creation ::
  "auth_env \<Rightarrow> auth_header \<Rightarrow> tenant_id \<Rightarrow> auth_db \<Rightarrow> (authenticated_principal, api_error) result \<times> auth_db" where
  "authorize_mobile_login_ticket_creation env header tenant db =
     authorize_user_login_ticket_creation env header tenant Operator db"

definition authorize_tenant_admin_user_or_no_auth ::
  "auth_env \<Rightarrow> auth_header \<Rightarrow> tenant_id \<Rightarrow> auth_db \<Rightarrow> (authenticated_principal, api_error) result \<times> auth_db" where
  "authorize_tenant_admin_user_or_no_auth env header tenant db =
     and_also (authorize_principal env header tenant db) (\<lambda>p.
       case p of
         UserPrincipal u \<Rightarrow> if \<not> allows (u_role u) TenantAdmin then Err (FORBIDDEN ''role_forbidden'') else Ok p
       | TokenPrincipal _ _ \<Rightarrow> Err (FORBIDDEN ''role_forbidden'')
       | NoAuthPrincipal _ \<Rightarrow> Ok p)"

definition authorize_agent_registration ::
  "auth_env \<Rightarrow> auth_header \<Rightarrow> tenant_id \<Rightarrow> auth_db \<Rightarrow> (authenticated_principal, api_error) result \<times> auth_db" where
  "authorize_agent_registration env header tenant db =
     and_also (authorize_principal env header tenant db) (\<lambda>p.
       case p of
         UserPrincipal u \<Rightarrow> if \<not> allows (u_role u) TenantAdmin then Err (FORBIDDEN ''role_forbidden'') else Ok p
       | TokenPrincipal token _ \<Rightarrow>
           if \<not> has_scope token AgentRegister then Err (FORBIDDEN ''role_forbidden'') else Ok p
       | NoAuthPrincipal _ \<Rightarrow> Ok p)"

definition authorize_plugin_studio ::
  "auth_env \<Rightarrow> auth_header \<Rightarrow> auth_db \<Rightarrow> (tenant_token \<times> user option, api_error) result \<times> auth_db" where
  "authorize_plugin_studio env header db =
     (case bearer_token header of
        Err e \<Rightarrow> (Err e, db)
      | Ok token \<Rightarrow>
          (case authenticate_tenant_token (ae_codec env) (ae_clock env) (ae_now env) token db of
             (verdict, db) \<Rightarrow>
               (and_then (map_err RepositoryFailure verdict) (\<lambda>found.
                and_then (ok_or found (UNAUTHORIZED ''invalid_auth_token'')) (\<lambda>(token, session).
                  if tt_scopes token \<noteq> [PluginStudio] \<or>
                     \<not> ae_no_auth env \<and> \<not> (\<exists>u \<in> set_option session. allows (u_role u) Operator)
                  then Err (FORBIDDEN ''role_forbidden'') else Ok (token, session))),
                db)))"

definition authorize_plugin_studio_user ::
  "auth_env \<Rightarrow> auth_header \<Rightarrow> auth_db \<Rightarrow> (tenant_token \<times> user option, api_error) result \<times> auth_db" where
  "authorize_plugin_studio_user env header db =
     and_also (authorize_plugin_studio env header db) (\<lambda>(token, session).
       case session of
         None \<Rightarrow> Err (FORBIDDEN ''personal_presets_require_user'')
       | Some u \<Rightarrow> if \<not> allows (u_role u) Operator then Err (FORBIDDEN ''role_forbidden'') else Ok (token, session))"

definition authorize_plugin_studio_for_tenant ::
  "auth_env \<Rightarrow> auth_header \<Rightarrow> tenant_id \<Rightarrow> auth_db \<Rightarrow> (tenant_token \<times> user option, api_error) result \<times> auth_db" where
  "authorize_plugin_studio_for_tenant env header tenant db =
     and_also (authorize_plugin_studio env header db) (\<lambda>(token, session).
       if tt_tenant_id token \<noteq> tenant then Err (FORBIDDEN ''role_forbidden'') else Ok (token, session))"

section \<open>What a verdict rests on\<close>

text \<open>A token that authenticates is stored, is not revoked and has not expired; its session user is stored.\<close>

lemma authenticate_Some:
  assumes "authenticate_tenant_token cd clock now plaintext db = (Ok (Some (token, session)), db')"
  shows "(\<exists>r \<in> set (at_tokens db). tk_token_hash r = hash_token cd plaintext \<and> tk_revoked_at r = None \<and>
      tenant_token_from_model cd r = Ok token \<and> is_expired cd clock token = Ok False) \<and>
    (\<forall>u. session = Some u \<longrightarrow>
       (\<exists>m \<in> set (at_users db). user_from_model cd m = Ok u \<and> usr_tenant_id m = tt_tenant_id token \<and>
          tt_created_by_user_id token = Some (usr_id m)))"
proof -
  obtain r where r: "find (\<lambda>r. tk_token_hash r = hash_token cd plaintext \<and> tk_revoked_at r = None) (at_tokens db) = Some r"
      "tenant_token_from_model cd r = Ok token" "is_expired cd clock token = Ok False"
    and s: "session_user cd token (db\<lparr>at_tokens := fst (update_many (\<lambda>s. tk_id s = tk_id r)
        (\<lambda>s. s\<lparr>tk_last_used_at := Some now\<rparr>) (at_tokens db))\<rparr>) = Ok (Some session)"
    using assms by (auto simp: authenticate_tenant_token_def Let_def result_simps
        split: option.splits result.splits bool.splits)
  have "\<exists>r \<in> set (at_tokens db). tk_token_hash r = hash_token cd plaintext \<and> tk_revoked_at r = None \<and>
      tenant_token_from_model cd r = Ok token \<and> is_expired cd clock token = Ok False"
    using r by (auto simp: find_Some_iff)
  moreover have "\<exists>m \<in> set (at_users db). user_from_model cd m = Ok u \<and> usr_tenant_id m = tt_tenant_id token \<and>
          tt_created_by_user_id token = Some (usr_id m)" if "session = Some u" for u
  proof -
    from s that obtain i m where "tt_created_by_user_id token = Some i" "find_user (tt_tenant_id token) i db = Some m"
        "user_from_model cd m = Ok u"
      by (auto simp: session_user_def find_user_def result_simps split: if_splits option.splits)
    then show ?thesis using find_user_Some [of "tt_tenant_id token" i db m] by auto
  qed
  ultimately show ?thesis by blast
qed

lemma external_identity_Some:
  assumes "authenticate_external_identity cd tenant provider subject db = Ok (Some u)"
  shows "\<exists>v \<in> set (at_identities db). \<exists>m \<in> set (at_users db). idr_tenant_id v = tenant \<and> idr_provider v = provider \<and>
    idr_subject v = subject \<and> usr_id m = idr_user_id v \<and> usr_tenant_id m = tenant \<and> user_from_model cd m = Ok u"
proof -
  obtain v m where "find_identity tenant provider subject db = Some v"
      "find_user (idr_tenant_id v) (idr_user_id v) db = Some m" "user_from_model cd m = Ok u"
    using assms by (auto simp: authenticate_external_identity_def result_simps split: option.splits)
  moreover from this(1) have "v \<in> set (at_identities db)" "idr_tenant_id v = tenant" "idr_provider v = provider" "idr_subject v = subject"
    by (auto simp: find_identity_def find_Some_iff)
  ultimately show ?thesis using find_user_Some by fastforce
qed

lemma authenticate_tables:
  "at_users (snd (authenticate_tenant_token cd clock now plaintext db)) = at_users db"
  "at_identities (snd (authenticate_tenant_token cd clock now plaintext db)) = at_identities db"
  by (simp_all add: authenticate_tenant_token_def Let_def split: option.split result.split bool.split)

lemma bearer_token_Ok: "bearer_token header = Ok secret \<longleftrightarrow> header = Some (Some (''Bearer '' @ secret))"
  by (auto simp: bearer_token_def result_simps strip_prefix_Some split: option.splits)

lemma authorize_principal_Ok:
  assumes "authorize_principal env header tenant db = (Ok p, db')" "\<not> ae_no_auth env"
  obtains secret where "bearer_token header = Ok secret" "principal_tenant_id p = tenant"
    "(\<exists>token session. p = TokenPrincipal token session \<and>
       authenticate_tenant_token (ae_codec env) (ae_clock env) (ae_now env) secret db = (Ok (Some (token, session)), db')) \<or>
     authenticate_tenant_token (ae_codec env) (ae_clock env) (ae_now env) secret db = (Ok None, db') \<and>
       external_principal env secret tenant db' = Ok p"
proof -
  obtain secret where secret: "bearer_token header = Ok secret"
    using assms by (auto simp: authorize_principal_def split: result.splits)
  obtain verdict db0 where v: "authenticate_tenant_token (ae_codec env) (ae_clock env) (ae_now env) secret db = (verdict, db0)"
    by fastforce
  have "db0 = db'" "principal_tenant_id p = tenant" and p: "(case verdict of
      Err e \<Rightarrow> Err (RepositoryFailure e)
    | Ok (Some (token', session)) \<Rightarrow> Ok (TokenPrincipal token' session)
    | Ok None \<Rightarrow> external_principal env secret tenant db0) = Ok p"
    using assms secret v by (auto simp: authorize_principal_def result_simps split: if_splits)
  note finish = that [OF secret \<open>principal_tenant_id p = tenant\<close>]
  show thesis
  proof (cases verdict)
    case (Ok found)
    show thesis
    proof (cases found)
      case None
      with Ok p v \<open>db0 = db'\<close> show thesis by (intro finish disjI2) simp
    next
      case (Some ts)
      with Ok p v \<open>db0 = db'\<close> show thesis by (intro finish disjI1) (cases ts, simp)
    qed
  qed (use p in simp)
qed

lemma authorize_tenant_Ok:
  assumes "authorize_tenant env header tenant role db = (Ok p, db')"
  shows "authorize_principal env header tenant db = (Ok p, db')"
    and "case p of
        UserPrincipal u \<Rightarrow> allows (u_role u) role
      | TokenPrincipal token session \<Rightarrow>
          tenant_token_allows_role token session role \<or> role = Viewer \<and> tt_scopes token = []
      | NoAuthPrincipal _ \<Rightarrow> True"
proof -
  obtain r where r: "authorize_principal env header tenant db = (r, db')" "and_then r (require_tenant_role role) = Ok p"
    using assms by (cases "authorize_principal env header tenant db") (simp add: authorize_tenant_def and_also_def)
  then obtain q where q: "r = Ok q" "require_tenant_role role q = Ok p" by (auto simp: result_simps)
  then have "q = p" by (cases q) (simp_all add: require_tenant_role_def split: if_splits)
  with r(1) q show "authorize_principal env header tenant db = (Ok p, db')"
    "case p of
        UserPrincipal u \<Rightarrow> allows (u_role u) role
      | TokenPrincipal token session \<Rightarrow>
          tenant_token_allows_role token session role \<or> role = Viewer \<and> tt_scopes token = []
      | NoAuthPrincipal _ \<Rightarrow> True"
    by (simp_all add: require_tenant_role_def split: authenticated_principal.splits if_splits)
qed

lemma authorize_plugin_studio_Ok:
  assumes "fst (authorize_plugin_studio env header db) = Ok x" "bearer_token header = Ok secret"
  obtains token session db' where
    "authenticate_tenant_token (ae_codec env) (ae_clock env) (ae_now env) secret db = (Ok (Some (token, session)), db')"
    "tt_scopes token = [PluginStudio]" "ae_no_auth env \<or> (\<exists>u \<in> set_option session. allows (u_role u) Operator)"
proof -
  obtain verdict db' where "authenticate_tenant_token (ae_codec env) (ae_clock env) (ae_now env) secret db = (verdict, db')"
    by fastforce
  moreover from this assms obtain token session where "verdict = Ok (Some (token, session))" "tt_scopes token = [PluginStudio]"
      "ae_no_auth env \<or> (\<exists>u \<in> set_option session. allows (u_role u) Operator)"
    by (auto simp: authorize_plugin_studio_def result_simps split: if_splits)
  ultimately show thesis using that by blast
qed

lemma external_principal_Ok:
  assumes "external_principal env secret tenant db = Ok p"
  obtains verify v u where "ae_verifier env = Some verify" "verify secret = Some v" "p = UserPrincipal u"
    "authenticate_external_identity (ae_codec env) tenant (vi_provider v) (vi_subject v) db = Ok (Some u)"
  using assms by (auto simp: external_principal_def result_simps split: option.splits)

definition backed :: "auth_env \<Rightarrow> string \<Rightarrow> tenant_id \<Rightarrow> user_role \<Rightarrow> auth_db \<Rightarrow> authenticated_principal \<Rightarrow> bool" where
  "backed env secret tenant role db p \<longleftrightarrow>
     (case p of
        TokenPrincipal token session \<Rightarrow>
          (\<exists>r \<in> set (at_tokens db). tk_token_hash r = hash_token (ae_codec env) secret \<and> tk_revoked_at r = None \<and>
             tenant_token_from_model (ae_codec env) r = Ok token \<and> is_expired (ae_codec env) (ae_clock env) token = Ok False) \<and>
          (AllScopes \<in> set (tt_scopes token) \<or> role = Viewer \<and> tt_scopes token = [] \<or>
           tt_scopes token = [MobileSession] \<and>
             (\<exists>m \<in> set (at_users db). \<exists>u. user_from_model (ae_codec env) m = Ok u \<and> usr_tenant_id m = tenant \<and>
                tt_created_by_user_id token = Some (usr_id m) \<and> allows (u_role u) role))
      | UserPrincipal u \<Rightarrow>
          (\<exists>verify v. ae_verifier env = Some verify \<and> verify secret = Some v \<and>
             (\<exists>i \<in> set (at_identities db). \<exists>m \<in> set (at_users db). idr_tenant_id i = tenant \<and>
                idr_provider i = vi_provider v \<and> idr_subject i = vi_subject v \<and> usr_id m = idr_user_id i \<and>
                usr_tenant_id m = tenant \<and> user_from_model (ae_codec env) m = Ok u)) \<and> allows (u_role u) role
      | NoAuthPrincipal _ \<Rightarrow> False)"

text \<open>
  C6: access to a tenant rests on stored rights. When authentication is on, a request is let in to a tenant for a role only if
  its bearer secret is that of a stored, unrevoked, unexpired token of that tenant which either has all scopes, or is
  a mobile session whose owner is still a user of the tenant with at least that role (a token without
  scopes may view), or if the identity provider vouches for it and the identity is linked to a user of that tenant
  with at least that role.
\<close>

theorem tenant_access_sound:
  assumes "\<not> ae_no_auth env" and "authorize_tenant env header tenant role db = (Ok p, db')"
  shows "\<exists>secret. header = Some (Some (''Bearer '' @ secret)) \<and> principal_tenant_id p = tenant \<and>
    backed env secret tenant role db p"
proof -
  note allowed = authorize_tenant_Ok(2) [OF assms(2)]
  from authorize_tenant_Ok(1) [OF assms(2)] assms(1)
  obtain secret where s: "bearer_token header = Ok secret" "principal_tenant_id p = tenant"
    "(\<exists>token session. p = TokenPrincipal token session \<and>
       authenticate_tenant_token (ae_codec env) (ae_clock env) (ae_now env) secret db = (Ok (Some (token, session)), db')) \<or>
     authenticate_tenant_token (ae_codec env) (ae_clock env) (ae_now env) secret db = (Ok None, db') \<and>
       external_principal env secret tenant db' = Ok p"
    by (rule authorize_principal_Ok)
  from s(3) have "backed env secret tenant role db p"
  proof (elim disjE exE conjE)
    fix token session
    assume p: "p = TokenPrincipal token session"
      and a: "authenticate_tenant_token (ae_codec env) (ae_clock env) (ae_now env) secret db = (Ok (Some (token, session)), db')"
    from authenticate_Some [OF a] allowed s(2) show ?thesis
      by (auto simp: backed_def p tenant_token_allows_role_def has_scope_def)
  next
    assume a: "authenticate_tenant_token (ae_codec env) (ae_clock env) (ae_now env) secret db = (Ok None, db')"
      and e: "external_principal env secret tenant db' = Ok p"
    have same: "at_users db' = at_users db" "at_identities db' = at_identities db"
      using authenticate_tables [of "ae_codec env" "ae_clock env" "ae_now env" secret db] a by simp_all
    from e show ?thesis
    proof (rule external_principal_Ok)
      fix verify v u
      assume "ae_verifier env = Some verify" "verify secret = Some v" "p = UserPrincipal u"
        "authenticate_external_identity (ae_codec env) tenant (vi_provider v) (vi_subject v) db' = Ok (Some u)"
      then show ?thesis
        using external_identity_Some [of "ae_codec env" tenant "vi_provider v" "vi_subject v" db' u] allowed
        by (auto simp: backed_def same)
    qed
  qed
  with s(1,2) show ?thesis by (auto simp: bearer_token_Ok)
qed

section \<open>Removed users\<close>

text \<open>A token whose owner was forgotten authenticates nobody, or a plugin without a user.\<close>

lemma orphan_token_session:
  assumes "authenticate_tenant_token cd clock now secret db = (Ok (Some (token, session)), db')"
    and "auth_keys db" "r \<in> set (at_tokens db)" "tk_token_hash r = hash_token cd secret" "tk_created_by_user_id r = None"
    and "\<And>token'. tenant_token_from_model cd r = Ok token' \<Longrightarrow> tt_scopes token' \<in> {[PluginStudio], [MobileSession]}"
  shows "tt_scopes token = [PluginStudio] \<and> session = None"
proof -
  obtain s where s: "s \<in> set (at_tokens db)" "tk_token_hash s = hash_token cd secret" "tenant_token_from_model cd s = Ok token"
    using authenticate_Some [OF assms(1)] by blast
  then have "s = r" using assms(2-4) by (auto simp: auth_keys_def distinct_map inj_on_def)
  then have none: "tt_created_by_user_id token = None"
    using s(3) assms(5) by (auto simp: tenant_token_from_model_def result_simps)
  then have "session = None" using authenticate_Some [OF assms(1)] by (cases session) auto
  moreover have "MobileSession \<notin> set (tt_scopes token)"
    using assms(1) none by (auto simp: authenticate_tenant_token_def Let_def result_simps session_user_def
        split: option.splits result.splits bool.splits)
  ultimately show ?thesis using assms(6) s(3) \<open>s = r\<close> by auto
qed

lemma removal_forgets:
  assumes "remove_user_with_audit cd ed tenant i actor db = Ok (u, db')"
    and "r \<in> set (at_tokens db)" "tk_created_by_user_id r = Some i"
  shows "\<exists>s \<in> set (at_tokens db'). tk_token_hash s = tk_token_hash r \<and> tk_scopes_json s = tk_scopes_json r \<and>
    tk_created_by_user_id s = None"
proof -
  obtain m where s: "find_user tenant i db = Some m"
      "insert_audit_event_tx (user_remove_audit_event cd ed u actor) (delete_user tenant i db) = Ok db'"
    using assms(1) by (auto simp: remove_user_with_audit_def result_simps select_user_locked_Ok)
  then have "at_tokens db' = map (\<lambda>r. r\<lparr>tk_created_by_user_id := forget i (tk_created_by_user_id r)\<rparr>) (at_tokens db)"
    by (auto simp: insert_audit_event_tx_def delete_user_def user_exists_def split: if_splits)
  then have "r\<lparr>tk_created_by_user_id := None\<rparr> \<in> set (at_tokens db')"
    using assms(2,3) by (force simp: forget_def)
  then show ?thesis by (rule bexI [rotated]) simp
qed

text \<open>Refused by every check of \<open>routes/auth.rs\<close>, whatever the tenant and the role.\<close>

definition refused :: "('a, api_error) result \<times> auth_db \<Rightarrow> bool" where
  "refused r \<longleftrightarrow> (\<exists>e. fst r = Err e)"

definition refused_by_every_check :: "auth_env \<Rightarrow> auth_header \<Rightarrow> auth_db \<Rightarrow> bool" where
  "refused_by_every_check env header db \<longleftrightarrow>
     refused (authorize_plugin_studio env header db) \<and> refused (authorize_plugin_studio_user env header db) \<and>
     (\<forall>tenant role. refused (authorize_plugin_studio_for_tenant env header tenant db) \<and>
        refused (authorize_tenant env header tenant role db) \<and>
        refused (authorize_tenant_principal env header tenant role db) \<and>
        refused (authorize_tenant_admin_principal env header tenant db) \<and>
        refused (authorize_plugin_login_ticket_creation env header tenant db) \<and>
        refused (authorize_mobile_login_ticket_creation env header tenant db) \<and>
        refused (authorize_tenant_admin_user_or_no_auth env header tenant db) \<and>
        refused (authorize_agent_registration env header tenant db))"

lemma refused_and_also:
  assumes "\<And>p. fst r = Ok p \<Longrightarrow> \<exists>e. f p = Err e"
  shows "refused (and_also r f)"
  using assms by (cases "fst r") (auto simp: refused_def and_also_def)

lemma refused_checks:
  assumes "refused (authorize_plugin_studio env header db)"
    and "\<And>tenant p. fst (authorize_principal env header tenant db) = Ok p \<Longrightarrow> \<exists>token. p = TokenPrincipal token None \<and> tt_scopes token = [PluginStudio]"
  shows "refused_by_every_check env header db"
proof -
  have "refused (and_also (authorize_plugin_studio env header db) f)" for f :: "tenant_token \<times> user option \<Rightarrow> (tenant_token \<times> user option, api_error) result"
    by (rule refused_and_also) (use assms(1) in \<open>simp add: refused_def\<close>)
  moreover have "refused (and_also (authorize_principal env header tenant db) f)"
    if "\<And>token. tt_scopes token = [PluginStudio] \<Longrightarrow> \<exists>e. f (TokenPrincipal token None) = Err e"
    for tenant and f :: "authenticated_principal \<Rightarrow> (authenticated_principal, api_error) result"
    by (rule refused_and_also) (use that assms(2) in blast)
  ultimately show ?thesis
    using assms(1)
    unfolding refused_by_every_check_def authorize_plugin_studio_user_def authorize_plugin_studio_for_tenant_def
      authorize_tenant_def authorize_tenant_principal_def authorize_tenant_admin_principal_def authorize_principal_for_role_def
      authorize_plugin_login_ticket_creation_def authorize_mobile_login_ticket_creation_def authorize_user_login_ticket_creation_def
      authorize_tenant_admin_user_or_no_auth_def authorize_agent_registration_def
    by (simp add: require_tenant_role_def tenant_token_allows_role_def has_scope_def)
qed


section \<open>Witnesses\<close>

definition sample_auth_env :: auth_env where
  "sample_auth_env =
     \<lparr>ae_codec = sample_auth_codec, ae_no_auth = False, ae_verifier = None, ae_clock = 0, ae_now = ''0''\<rparr>"

abbreviation bearer :: "string \<Rightarrow> auth_header" where
  "bearer secret \<equiv> Some (Some (''Bearer '' @ secret))"

lemma sample_access:
  "case authorize_tenant sample_auth_env (bearer ''pandar_tenant_k_k'') ''t'' TenantAdmin (tx_db sample_bootstrap) of
     (Ok p, _) \<Rightarrow> True | _ \<Rightarrow> False"
  by code_simp

theorem tenant_access_sound_witness:
  "\<exists>p secret. fst (authorize_tenant sample_auth_env (bearer ''pandar_tenant_k_k'') ''t'' TenantAdmin (tx_db sample_bootstrap)) = Ok p \<and>
     backed sample_auth_env secret ''t'' TenantAdmin (tx_db sample_bootstrap) p"
proof -
  obtain p db where p: "authorize_tenant sample_auth_env (bearer ''pandar_tenant_k_k'') ''t'' TenantAdmin (tx_db sample_bootstrap) = (Ok p, db)"
    using sample_access by (auto split: prod.splits result.splits)
  moreover have "\<not> ae_no_auth sample_auth_env" by (simp add: sample_auth_env_def)
  ultimately show ?thesis using tenant_access_sound [OF _ p] by auto
qed

text \<open>The first administrator opens a plugin session; the second one removes the first.\<close>

definition sample_session_db :: auth_db where
  "sample_session_db = tx_db sample_exchange"

definition sample_colleague :: "(user \<times> auth_db) repository_result" where
  "sample_colleague = create_user ''v'' ''0'' ''t'' ''w'' ''w'' TenantAdmin sample_session_db"

definition sample_lockout :: "(user \<times> auth_db) repository_result" where
  "sample_lockout =
     remove_user_with_audit sample_auth_codec (''d'', ''0'') ''t'' ''u'' (AuditActor_user ''v'') (tx_db sample_colleague)"

lemma sample_lockout_ok: "is_ok sample_exchange" "is_ok sample_colleague" "is_ok sample_lockout"
  by code_simp+

lemma sample_plugin_token:
  "map (\<lambda>r. (tk_id r, tk_created_by_user_id r, tk_token_hash r, tk_scopes_json r)) (at_tokens (tx_db sample_colleague)) ! 1 =
     (''y'', Some ''u'', hash_token sample_auth_codec ''pandar_plugin_y_y'', ''plugin:studio'')"
  "length (at_tokens (tx_db sample_colleague)) = 2"
  by code_simp+

lemma sample_colleague_run: "auth_run sample_auth_codec auth_empty (tx_db sample_colleague)"
proof -
  have "auth_step sample_auth_codec (tx_db sample_ticket) sample_session_db"
    using tx_Ok [OF sample_lockout_ok(1)] unfolding sample_session_db_def sample_exchange_def by (metis auth_step.exchange)
  moreover have "auth_step sample_auth_codec sample_session_db (tx_db sample_colleague)"
    using tx_Ok [OF sample_lockout_ok(2)] unfolding sample_colleague_def by (metis auth_step.create_user)
  ultimately show ?thesis using sample_ticket_run by (meson rtranclp.rtrancl_into_rtrancl)
qed


end
