(* ===== verification/Hub_Camera.thy ===== *)
theory Hub_Camera
  imports Statuses
begin

text \<open>
  Camera streams: \<open>crates/pandar-hub/src/camera_sessions.rs\<close> and \<open>camera_sessions/capacity.rs\<close>. The registry maps stream
  identifiers to handles, the capacity counts the permits of each tenant, and an open HTTP stream holds a
  permit until it is dropped.

  Requests run concurrently. A call of \<open>open_stream_with_mode\<close> is a state machine whose transitions are its critical
  sections: taking a permit, registering the stream (which replaces streams of the same printer),
  announcing it to the agent, and withdrawing it if that fails; after that it is an HTTP stream that is dropped and
  aborted at some time. Whether a channel accepts a message is an argument of the transition. The fresh
  identifier of a stream (\<open>Uuid::new_v4\<close>) is one that was never used.
\<close>

section \<open>State\<close>

datatype camera_open_error = AgentOffline | ChannelClosed | ChannelFull | Capacity

datatype camera_stream_mode = Mjpeg | FragmentedMp4

record camera_stream_handle =
  ch_agent_id :: agent_id
  ch_serial_number :: string
  ch_command_sender :: nat

datatype camera_command = OpenCameraStream string camera_stream_mode | CloseCameraStream

text \<open>What a call was asked for.\<close>

record camera_request =
  cq_tenant_id :: tenant_id
  cq_agent_id :: agent_id
  cq_serial_number :: string
  cq_mode :: camera_stream_mode
  cq_command_sender :: nat

datatype camera_call =
    Requested camera_request
  | Permitted camera_request
  | Registered camera_request string "(string \<times> nat) list"
  | Withdrawing camera_request string camera_open_error
  | Streaming camera_request string
  | Aborting string
  | Ended "camera_open_error option"

record camera_state =
  cs_max :: nat
  cs_streams :: "(string \<times> camera_stream_handle) list"
  cs_tenants :: "tenant_id \<rightharpoonup> nat"
  cs_calls :: "camera_call list"
  cs_used :: "string list"
  cs_commands :: "(nat \<times> string \<times> camera_command) list"

text \<open>A handle is found under its identifier; removing it leaves the rest.\<close>

definition remove_stream :: "string \<Rightarrow> (string \<times> camera_stream_handle) list \<Rightarrow> (string \<times> camera_stream_handle) list" where
  "remove_stream sid streams = filter (\<lambda>(i, _). i \<noteq> sid) streams"

definition of_agent :: "agent_id \<Rightarrow> camera_stream_handle option \<Rightarrow> bool" where
  "of_agent agent h = (case h of Some h \<Rightarrow> ch_agent_id h = agent | None \<Rightarrow> False)"

section \<open>Capacity\<close>

definition acquire :: "nat \<Rightarrow> tenant_id \<Rightarrow> (tenant_id \<rightharpoonup> nat) \<Rightarrow> (tenant_id \<rightharpoonup> nat, camera_open_error) result" where
  "acquire max_streams tenant tenants =
     (let count = (case tenants tenant of Some n \<Rightarrow> n | None \<Rightarrow> 0)
      in if count \<ge> max_streams then Err Capacity else Ok (tenants(tenant \<mapsto> count + 1)))"

text \<open>
  Dropping a permit; \<open>None\<close> is the panic of a missing count or of an underflow. A refused
  \<open>acquire\<close> may leave a count of zero behind, which the code never drops.
\<close>

definition release :: "tenant_id \<Rightarrow> (tenant_id \<rightharpoonup> nat) \<Rightarrow> (tenant_id \<rightharpoonup> nat) option" where
  "release tenant tenants =
     (case tenants tenant of
        None \<Rightarrow> None
      | Some 0 \<Rightarrow> None
      | Some (Suc n) \<Rightarrow> Some (if n = 0 then tenants(tenant := None) else tenants(tenant \<mapsto> n)))"

section \<open>The registry\<close>

definition set_call :: "nat \<Rightarrow> camera_call \<Rightarrow> camera_state \<Rightarrow> camera_state" where
  "set_call c call s = s\<lparr>cs_calls := (cs_calls s)[c := call]\<rparr>"

definition take_permit :: "nat \<Rightarrow> camera_request \<Rightarrow> camera_state \<Rightarrow> camera_state" where
  "take_permit c q s =
     (case acquire (cs_max s) (cq_tenant_id q) (cs_tenants s) of
        Err e \<Rightarrow> set_call c (Ended (Some e)) s
      | Ok tenants \<Rightarrow> set_call c (Permitted q) (s\<lparr>cs_tenants := tenants\<rparr>))"

definition same_printer :: "camera_request \<Rightarrow> camera_stream_handle \<Rightarrow> bool" where
  "same_printer q h \<longleftrightarrow> ch_agent_id h = cq_agent_id q \<and> ch_serial_number h = cq_serial_number q"

definition register_stream :: "nat \<Rightarrow> camera_request \<Rightarrow> string \<Rightarrow> camera_state \<Rightarrow> camera_state" where
  "register_stream c q sid s =
     (let replaced = filter (\<lambda>(_, h). same_printer q h) (cs_streams s);
          handle = \<lparr>ch_agent_id = cq_agent_id q, ch_serial_number = cq_serial_number q,
                    ch_command_sender = cq_command_sender q\<rparr>
      in set_call c (Registered q sid (map (\<lambda>(i, h). (i, ch_command_sender h)) replaced))
           (s\<lparr>cs_streams := (sid, handle) # filter (\<lambda>(_, h). \<not> same_printer q h) (cs_streams s),
              cs_used := sid # cs_used s\<rparr>))"

definition announce_stream ::
  "nat \<Rightarrow> camera_request \<Rightarrow> string \<Rightarrow> (string \<times> nat) list \<Rightarrow> camera_open_error option \<Rightarrow> camera_state \<Rightarrow> camera_state" where
  "announce_stream c q sid replaced failure s =
     (let s = s\<lparr>cs_commands := cs_commands s @ map (\<lambda>(i, sender). (sender, i, CloseCameraStream)) replaced\<rparr>
      in case failure of
           None \<Rightarrow>
             set_call c (Streaming q sid)
               (s\<lparr>cs_commands := cs_commands s @
                    [(cq_command_sender q, sid, OpenCameraStream (cq_serial_number q) (cq_mode q))]\<rparr>)
         | Some e \<Rightarrow> set_call c (Withdrawing q sid e) s)"

text \<open>The permit of a failed call is dropped with its scope.\<close>

definition withdraw_stream :: "nat \<Rightarrow> camera_request \<Rightarrow> string \<Rightarrow> camera_open_error \<Rightarrow> camera_state \<Rightarrow> camera_state option" where
  "withdraw_stream c q sid e s =
     map_option (\<lambda>tenants. set_call c (Ended (Some e))
                   (s\<lparr>cs_streams := remove_stream sid (cs_streams s), cs_tenants := tenants\<rparr>))
       (release (cq_tenant_id q) (cs_tenants s))"

text \<open>Dropping an HTTP stream drops its permit at once; the abort runs later as a task of its own.\<close>

definition drop_stream :: "nat \<Rightarrow> camera_request \<Rightarrow> string \<Rightarrow> camera_state \<Rightarrow> camera_state option" where
  "drop_stream c q sid s =
     map_option (\<lambda>tenants. set_call c (Aborting sid) (s\<lparr>cs_tenants := tenants\<rparr>))
       (release (cq_tenant_id q) (cs_tenants s))"

definition close_command :: "string \<Rightarrow> camera_stream_handle option \<Rightarrow> (nat \<times> string \<times> camera_command) list" where
  "close_command sid h = (case h of Some h \<Rightarrow> [(ch_command_sender h, sid, CloseCameraStream)] | None \<Rightarrow> [])"

definition abort_stream :: "nat \<Rightarrow> string \<Rightarrow> camera_state \<Rightarrow> camera_state" where
  "abort_stream c sid s =
     set_call c (Ended None)
       (s\<lparr>cs_streams := remove_stream sid (cs_streams s),
          cs_commands := cs_commands s @ close_command sid (map_of (cs_streams s) sid)\<rparr>)"

text \<open>\<open>accepted\<close>: the channel of the viewer takes the chunk.\<close>

definition push_chunk :: "agent_id \<Rightarrow> string \<Rightarrow> bool \<Rightarrow> camera_state \<Rightarrow> camera_state" where
  "push_chunk agent sid accepted s =
     (if of_agent agent (map_of (cs_streams s) sid) \<and> \<not> accepted
      then s\<lparr>cs_streams := remove_stream sid (cs_streams s)\<rparr> else s)"

definition close_stream :: "agent_id \<Rightarrow> string \<Rightarrow> camera_state \<Rightarrow> camera_state" where
  "close_stream agent sid s =
     (if of_agent agent (map_of (cs_streams s) sid)
      then s\<lparr>cs_streams := remove_stream sid (cs_streams s)\<rparr> else s)"

definition close_agent :: "agent_id \<Rightarrow> camera_state \<Rightarrow> camera_state" where
  "close_agent agent s =
     s\<lparr>cs_streams := filter (\<lambda>(_, h). ch_agent_id h \<noteq> agent) (cs_streams s),
       cs_commands := cs_commands s @
         map (\<lambda>(i, h). (ch_command_sender h, i, CloseCameraStream))
           (filter (\<lambda>(_, h). ch_agent_id h = agent) (cs_streams s))\<rparr>"

text \<open>
  \<open>grpc/camera_events.rs\<close>: what an agent reports of a stream; the result says whether its reports are read on. A chunk is its
  length. \<open>push_chunk\<close> takes the lock twice, but identifiers are never used again, so the handle it finds the second
  time is the one it found before.
\<close>

definition MAX_CAMERA_CHUNK_BYTES :: nat where
  "MAX_CAMERA_CHUNK_BYTES = 64 * 1024"

datatype agent_camera_event = CameraChunk string nat | CameraClosed string | CameraHello

fun handle_camera_event :: "agent_id \<Rightarrow> bool \<Rightarrow> agent_camera_event option \<Rightarrow> camera_state \<Rightarrow> bool \<times> camera_state" where
  "handle_camera_event agent accepted (Some (CameraChunk sid len)) s =
     (if len > MAX_CAMERA_CHUNK_BYTES then (False, close_stream agent sid s)
      else (True, push_chunk agent sid accepted s))"
| "handle_camera_event agent accepted (Some (CameraClosed sid)) s = (True, close_stream agent sid s)"
| "handle_camera_event agent accepted (Some CameraHello) s = (True, s)"
| "handle_camera_event agent accepted None s = (True, s)"

section \<open>Steps\<close>

inductive camera_step :: "camera_state \<Rightarrow> camera_state option \<Rightarrow> bool" where
  request: "camera_step s (Some (s\<lparr>cs_calls := cs_calls s @ [Requested q]\<rparr>))"
| permit: "c < length (cs_calls s) \<Longrightarrow> cs_calls s ! c = Requested q \<Longrightarrow> camera_step s (Some (take_permit c q s))"
| register: "c < length (cs_calls s) \<Longrightarrow> cs_calls s ! c = Permitted q \<Longrightarrow> sid \<notin> set (cs_used s) \<Longrightarrow>
    camera_step s (Some (register_stream c q sid s))"
| announce: "c < length (cs_calls s) \<Longrightarrow> cs_calls s ! c = Registered q sid replaced \<Longrightarrow>
    failure \<in> {None, Some ChannelClosed, Some ChannelFull} \<Longrightarrow>
    camera_step s (Some (announce_stream c q sid replaced failure s))"
| withdraw: "c < length (cs_calls s) \<Longrightarrow> cs_calls s ! c = Withdrawing q sid e \<Longrightarrow> camera_step s (withdraw_stream c q sid e s)"
| drop: "c < length (cs_calls s) \<Longrightarrow> cs_calls s ! c = Streaming q sid \<Longrightarrow> camera_step s (drop_stream c q sid s)"
| abort: "c < length (cs_calls s) \<Longrightarrow> cs_calls s ! c = Aborting sid \<Longrightarrow> camera_step s (Some (abort_stream c sid s))"
| event: "camera_step s (Some (snd (handle_camera_event agent accepted ev s)))"
| agent_gone: "camera_step s (Some (close_agent agent s))"

definition camera_start :: "nat \<Rightarrow> camera_state" where
  "camera_start n =
     \<lparr>cs_max = n, cs_streams = [], cs_tenants = Map.empty, cs_calls = [], cs_used = [], cs_commands = []\<rparr>"

inductive camera_reachable :: "nat \<Rightarrow> camera_state \<Rightarrow> bool" for n where
  start: "camera_reachable n (camera_start n)"
| step: "camera_reachable n s \<Longrightarrow> camera_step s (Some s') \<Longrightarrow> camera_reachable n s'"

section \<open>Invariant\<close>

fun holds_permit :: "tenant_id \<Rightarrow> camera_call \<Rightarrow> bool" where
  "holds_permit t (Permitted q) = (cq_tenant_id q = t)"
| "holds_permit t (Registered q _ _) = (cq_tenant_id q = t)"
| "holds_permit t (Withdrawing q _ _) = (cq_tenant_id q = t)"
| "holds_permit t (Streaming q _) = (cq_tenant_id q = t)"
| "holds_permit t _ = False"

fun owns_stream :: "string \<Rightarrow> camera_call \<Rightarrow> bool" where
  "owns_stream i (Registered _ sid _) = (i = sid)"
| "owns_stream i (Withdrawing _ sid _) = (i = sid)"
| "owns_stream i (Streaming _ sid) = (i = sid)"
| "owns_stream i (Aborting sid) = (i = sid)"
| "owns_stream i _ = False"

definition permits :: "tenant_id \<Rightarrow> camera_state \<Rightarrow> nat" where
  "permits t s = length (filter (holds_permit t) (cs_calls s))"

definition owned :: "string \<Rightarrow> camera_state \<Rightarrow> bool" where
  "owned i s \<longleftrightarrow> (\<exists>call \<in> set (cs_calls s). owns_stream i call)"

text \<open>The counts are the permits held, and no tenant has more than its share.\<close>

definition counts_inv :: "nat \<Rightarrow> camera_state \<Rightarrow> bool" where
  "counts_inv n s \<longleftrightarrow> cs_max s = n \<and>
     (\<forall>t. (case cs_tenants s t of Some k \<Rightarrow> k | None \<Rightarrow> 0) = permits t s \<and> permits t s \<le> n)"

text \<open>A printer has at most one stream, and every stream belongs to a call that is not over.\<close>

definition printer_of :: "string \<times> camera_stream_handle \<Rightarrow> agent_id \<times> string" where
  "printer_of e = (ch_agent_id (snd e), ch_serial_number (snd e))"

definition streams_inv :: "camera_state \<Rightarrow> bool" where
  "streams_inv s \<longleftrightarrow>
     distinct (map fst (cs_streams s)) \<and> distinct (map printer_of (cs_streams s)) \<and>
     (\<forall>i \<in> set (map fst (cs_streams s)). owned i s) \<and> (\<forall>i. owned i s \<longrightarrow> i \<in> set (cs_used s))"

lemma length_filter_update:
  "c < length xs \<Longrightarrow>
   length (filter P (xs[c := v])) + of_bool (P (xs ! c)) = length (filter P xs) + of_bool (P v)"
proof (induction xs arbitrary: c)
  case Nil
  then show ?case by simp
next
  case (Cons x xs)
  then show ?case
    using Cons.IH [of "c - 1"] by (cases c) (auto split: if_splits)
qed

lemma permits_set_call:
  assumes "c < length (cs_calls s)"
  shows "permits t (set_call c call s) + of_bool (holds_permit t (cs_calls s ! c)) =
         permits t s + of_bool (holds_permit t call)"
  using length_filter_update [OF assms] by (simp add: permits_def set_call_def)

lemma set_call_sel [simp]:
  "cs_max (set_call c call s) = cs_max s" "cs_streams (set_call c call s) = cs_streams s"
  "cs_tenants (set_call c call s) = cs_tenants s" "cs_used (set_call c call s) = cs_used s"
  "cs_commands (set_call c call s) = cs_commands s" "cs_calls (set_call c call s) = (cs_calls s)[c := call]"
  by (simp_all add: set_call_def)

lemma owned_set_callI:
  assumes "owned i s" "owns_stream i (cs_calls s ! c) \<Longrightarrow> owns_stream i call" "c < length (cs_calls s)"
  shows "owned i (set_call c call s)"
proof -
  obtain k where k: "k < length (cs_calls s)" "owns_stream i (cs_calls s ! k)"
    using assms(1) by (auto simp: owned_def in_set_conv_nth)
  then have "owns_stream i ((cs_calls s)[c := call] ! k)"
    using assms(2) by (cases "k = c") auto
  with k(1) nth_mem [of k "(cs_calls s)[c := call]"] show ?thesis
    by (auto simp: owned_def)
qed

lemma owned_set_callD: "owned i (set_call c call s) \<Longrightarrow> owns_stream i call \<or> owned i s"
  using set_update_subset_insert [of "cs_calls s" c call] by (auto simp: owned_def)

lemma owned_cong: "cs_calls s = cs_calls s' \<Longrightarrow> owned i s = owned i s'"
  by (simp add: owned_def)

lemma distinct_map_filter_pair: "distinct (map f xs) \<Longrightarrow> distinct (map f (filter P xs))"
  by (simp add: distinct_map_filter)

text \<open>Streams may go at any time.\<close>

lemma streams_inv_filter:
  assumes "streams_inv s" and "cs_streams s' = filter P (cs_streams s)" and "cs_calls s' = cs_calls s"
    and "cs_used s' = cs_used s"
  shows "streams_inv s'"
  using assms owned_cong [OF assms(3)] by (auto simp: streams_inv_def distinct_map_filter)

text \<open>A call may move on while it keeps its stream, or once its stream is not registered.\<close>

lemma streams_inv_set_call:
  assumes "streams_inv s" and "c < length (cs_calls s)"
    and "\<And>i. owns_stream i call \<Longrightarrow> owns_stream i (cs_calls s ! c)"
    and "\<And>i. owns_stream i (cs_calls s ! c) \<Longrightarrow> owns_stream i call \<or> i \<notin> set (map fst (cs_streams s))"
  shows "streams_inv (set_call c call s)"
proof -
  have "owned i (set_call c call s)" if "i \<in> set (map fst (cs_streams s))" for i
    using that assms by (intro owned_set_callI) (auto simp: streams_inv_def)
  moreover have "owned i s" if "owned i (set_call c call s)" for i
    using owned_set_callD [OF that] assms(3) [of i] nth_mem [OF assms(2)] by (auto simp: owned_def)
  ultimately show ?thesis
    using assms(1) by (auto simp: streams_inv_def)
qed

lemma streams_inv_register:
  assumes s: "streams_inv s" and c: "c < length (cs_calls s)" "cs_calls s ! c = Permitted q" and sid: "sid \<notin> set (cs_used s)"
  shows "streams_inv (register_stream c q sid s)"
proof -
  let ?r = "register_stream c q sid s"
  have calls: "owned i ?r \<longleftrightarrow> i = sid \<or> owned i s" for i
  proof
    assume "owned i ?r"
    then show "i = sid \<or> owned i s"
      using owned_set_callD [of i c] by (fastforce simp: register_stream_def Let_def owned_def)
  next
    assume "i = sid \<or> owned i s"
    moreover have "owned sid ?r"
      using c(1) by (auto simp: register_stream_def Let_def owned_def intro!: bexI set_update_memI)
    moreover have "owned i ?r" if "owned i s"
      using owned_set_callI [of i "s\<lparr>cs_streams := _, cs_used := _\<rparr>" c] that c
      by (simp add: register_stream_def Let_def owned_def)
    ultimately show "owned i ?r" by blast
  qed
  have fresh: "sid \<notin> set (map fst (cs_streams s))"
    using s sid by (auto simp: streams_inv_def)
  have "distinct (map printer_of (cs_streams ?r))"
    using s by (auto simp: register_stream_def Let_def streams_inv_def distinct_map_filter printer_of_def same_printer_def)
  moreover have "distinct (map fst (cs_streams ?r))"
    using s fresh by (auto simp: register_stream_def Let_def streams_inv_def distinct_map_filter)
  moreover have "owned i ?r" if "i \<in> set (map fst (cs_streams ?r))" for i
    using that s calls by (auto simp: register_stream_def Let_def streams_inv_def)
  moreover have "i \<in> set (cs_used ?r)" if "owned i ?r" for i
    using that s calls by (auto simp: register_stream_def Let_def streams_inv_def)
  ultimately show ?thesis
    by (simp add: streams_inv_def)
qed

text \<open>Counts follow the calls.\<close>

definition count_of :: "tenant_id \<Rightarrow> camera_state \<Rightarrow> nat" where
  "count_of t s = (case cs_tenants s t of Some k \<Rightarrow> k | None \<Rightarrow> 0)"

lemma counts_invI:
  assumes "cs_max s = n" and "\<And>t. count_of t s = permits t s" and "\<And>t. permits t s \<le> n"
  shows "counts_inv n s"
  using assms by (simp add: counts_inv_def count_of_def)

lemma counts_invD:
  assumes "counts_inv n s"
  shows "cs_max s = n" "count_of t s = permits t s" "permits t s \<le> n"
  using assms by (simp_all add: counts_inv_def count_of_def)

lemma counts_inv_same:
  assumes "counts_inv n s" and "cs_max s' = cs_max s" and "cs_tenants s' = cs_tenants s"
    and "\<And>t. permits t s' = permits t s"
  shows "counts_inv n s'"
  using assms by (simp add: counts_inv_def)

lemma counts_inv_keep:
  assumes "counts_inv n s" and "c < length (cs_calls s)"
    and "\<And>t. holds_permit t call = holds_permit t (cs_calls s ! c)"
    and "cs_max s' = cs_max s" "cs_tenants s' = cs_tenants s" "cs_calls s' = (cs_calls s)[c := call]"
  shows "counts_inv n s'"
proof (rule counts_inv_same [OF assms(1,4,5)])
  show "permits t s' = permits t s" for t
    using permits_set_call [OF assms(2), of t call] assms(3,6) by (simp add: permits_def)
qed

text \<open>A call that holds a permit finds its count, and gives back exactly one.\<close>

lemma release_counts:
  assumes inv: "counts_inv n s" and c: "c < length (cs_calls s)"
    and old: "\<And>t. holds_permit t (cs_calls s ! c) \<longleftrightarrow> t = tenant" and new: "\<And>t. \<not> holds_permit t call"
  obtains tenants where "release tenant (cs_tenants s) = Some tenants"
    and "\<And>s' :: camera_state. cs_max s' = cs_max s \<Longrightarrow> cs_tenants s' = tenants \<Longrightarrow> cs_calls s' = (cs_calls s)[c := call] \<Longrightarrow> counts_inv n s'"
proof -
  have p: "permits t (set_call c call s) + of_bool (t = tenant) = permits t s" for t
    using permits_set_call [OF c, of t call] old new by simp
  then have "permits tenant s = Suc (permits tenant (set_call c call s))" (is "_ = Suc ?k")
    using p [of tenant] by simp
  then have "cs_tenants s tenant = Some (Suc ?k)"
    using counts_invD(2) [OF inv, of tenant] by (auto simp: count_of_def split: option.splits)
  then have r: "release tenant (cs_tenants s) = Some ((cs_tenants s)(tenant := if ?k = 0 then None else Some ?k))"
    by (simp add: release_def)
  show thesis
  proof (rule that [OF r])
    fix s' :: camera_state
    assume s': "cs_max s' = cs_max s" "cs_tenants s' = (cs_tenants s)(tenant := if ?k = 0 then None else Some ?k)"
      "cs_calls s' = (cs_calls s)[c := call]"
    have q: "permits t s' = permits t (set_call c call s)" for t
      using s'(3) by (simp add: permits_def)
    show "counts_inv n s'"
    proof (rule counts_invI)
      show "cs_max s' = n"
        using s'(1) counts_invD(1) [OF inv] by simp
      show "count_of t s' = permits t s'" for t
        using s'(2) q [of t] p [of t] counts_invD(2) [OF inv, of t] by (cases "t = tenant") (simp_all add: count_of_def)
      show "permits t s' \<le> n" for t
        using q [of t] p [of t] counts_invD(3) [OF inv, of t] by linarith
    qed
  qed
qed

lemma take_permit_counts:
  assumes inv: "counts_inv n s" and c: "c < length (cs_calls s)" "cs_calls s ! c = Requested q"
  shows "counts_inv n (take_permit c q s)"
proof (cases "acquire (cs_max s) (cq_tenant_id q) (cs_tenants s)")
  case (Err e)
  show ?thesis
    by (rule counts_inv_keep [OF inv c(1), of "Ended (Some e)"]) (simp_all add: take_permit_def Err c)
next
  case (Ok tenants)
  let ?t = "cq_tenant_id q"
  have less: "count_of ?t s < n" and tenants: "tenants = (cs_tenants s)(?t \<mapsto> count_of ?t s + 1)"
    using Ok counts_invD(1) [OF inv] by (auto simp: acquire_def Let_def count_of_def split: if_splits)
  have p: "permits t (take_permit c q s) = permits t s + of_bool (t = ?t)" for t
    using permits_set_call [OF c(1), of t "Permitted q"] c(2) by (auto simp: take_permit_def Ok permits_def)
  show ?thesis
  proof (rule counts_invI)
    show "cs_max (take_permit c q s) = n"
      using counts_invD(1) [OF inv] Ok by (simp add: take_permit_def)
    show "count_of t (take_permit c q s) = permits t (take_permit c q s)" for t
      using p [of t] counts_invD(2) [OF inv, of t] tenants
      by (cases "t = ?t") (simp_all add: take_permit_def Ok count_of_def)
    show "permits t (take_permit c q s) \<le> n" for t
      using p [of t] counts_invD(2,3) [OF inv, of t] less by (cases "t = ?t") simp_all
  qed
qed

lemma streams_inv_cong:
  assumes "streams_inv s" and "cs_streams s' = cs_streams s" "cs_calls s' = cs_calls s" "cs_used s' = cs_used s"
  shows "streams_inv s'"
  using assms owned_cong [OF assms(3)] by (simp add: streams_inv_def)

definition camera_inv :: "nat \<Rightarrow> camera_state \<Rightarrow> bool" where
  "camera_inv n s \<longleftrightarrow> counts_inv n s \<and> streams_inv s"

text \<open>A transition of a call that keeps the registry, its stream and its permit.\<close>

lemma camera_inv_keep:
  assumes "camera_inv n s" and "c < length (cs_calls s)"
    and "\<And>t. holds_permit t call = holds_permit t (cs_calls s ! c)"
    and "\<And>i. owns_stream i call = owns_stream i (cs_calls s ! c)"
    and "cs_max s' = cs_max s" "cs_tenants s' = cs_tenants s" "cs_streams s' = cs_streams s" "cs_used s' = cs_used s"
    and "cs_calls s' = (cs_calls s)[c := call]"
  shows "camera_inv n s'"
proof -
  have "streams_inv (set_call c call s)"
    using assms by (intro streams_inv_set_call) (auto simp: camera_inv_def)
  then have "streams_inv s'"
    by (rule streams_inv_cong) (simp_all add: assms)
  with counts_inv_keep [OF _ assms(2,3,5,6,9)] assms(1) show ?thesis
    by (simp add: camera_inv_def)
qed

text \<open>The registry loses the stream of a call that is over.\<close>

lemma streams_inv_leave:
  assumes s: "streams_inv s" and c: "c < length (cs_calls s)"
    and old: "\<And>i. owns_stream i (cs_calls s ! c) \<longleftrightarrow> i = sid" and new: "\<And>i. \<not> owns_stream i call"
    and s': "cs_streams s' = remove_stream sid (cs_streams s)" "cs_calls s' = (cs_calls s)[c := call]" "cs_used s' = cs_used s"
  shows "streams_inv s'"
proof -
  let ?m = "s\<lparr>cs_streams := remove_stream sid (cs_streams s)\<rparr>"
  have "streams_inv ?m"
    by (rule streams_inv_filter [OF s]) (simp_all add: remove_stream_def)
  then have "streams_inv (set_call c call ?m)"
    by (rule streams_inv_set_call) (use c old new in \<open>auto simp: remove_stream_def\<close>)
  then show ?thesis
    by (rule streams_inv_cong) (simp_all add: s')
qed

lemma camera_inv_withdraw:
  assumes inv: "camera_inv n s" and c: "c < length (cs_calls s)" "cs_calls s ! c = Withdrawing q sid e"
  obtains s' where "withdraw_stream c q sid e s = Some s'" "camera_inv n s'"
proof -
  have counts: "counts_inv n s" and streams: "streams_inv s"
    using inv by (simp_all add: camera_inv_def)
  obtain tenants where r: "release (cq_tenant_id q) (cs_tenants s) = Some tenants"
    and keep: "\<And>s' :: camera_state. cs_max s' = cs_max s \<Longrightarrow> cs_tenants s' = tenants \<Longrightarrow>
      cs_calls s' = (cs_calls s)[c := Ended (Some e)] \<Longrightarrow> counts_inv n s'"
    by (rule release_counts [OF counts c(1), of "cq_tenant_id q" "Ended (Some e)"]) (auto simp: c)
  let ?s = "set_call c (Ended (Some e)) (s\<lparr>cs_streams := remove_stream sid (cs_streams s), cs_tenants := tenants\<rparr>)"
  have "streams_inv ?s"
    by (rule streams_inv_leave [OF streams c(1), of sid "Ended (Some e)"]) (simp_all add: c)
  moreover have "counts_inv n ?s"
    by (rule keep) simp_all
  ultimately show thesis
    by (intro that [of ?s]) (simp_all add: withdraw_stream_def r camera_inv_def)
qed

lemma camera_inv_drop:
  assumes inv: "camera_inv n s" and c: "c < length (cs_calls s)" "cs_calls s ! c = Streaming q sid"
  obtains s' where "drop_stream c q sid s = Some s'" "camera_inv n s'"
proof -
  have counts: "counts_inv n s" and streams: "streams_inv s"
    using inv by (simp_all add: camera_inv_def)
  obtain tenants where r: "release (cq_tenant_id q) (cs_tenants s) = Some tenants"
    and keep: "\<And>s' :: camera_state. cs_max s' = cs_max s \<Longrightarrow> cs_tenants s' = tenants \<Longrightarrow>
      cs_calls s' = (cs_calls s)[c := Aborting sid] \<Longrightarrow> counts_inv n s'"
    by (rule release_counts [OF counts c(1), of "cq_tenant_id q" "Aborting sid"]) (auto simp: c)
  let ?s = "set_call c (Aborting sid) (s\<lparr>cs_tenants := tenants\<rparr>)"
  have "streams_inv (set_call c (Aborting sid) s)"
    by (rule streams_inv_set_call [OF streams c(1)]) (simp_all add: c)
  then have "streams_inv ?s"
    by (rule streams_inv_cong) simp_all
  moreover have "counts_inv n ?s"
    by (rule keep) simp_all
  ultimately show thesis
    by (intro that [of ?s]) (simp_all add: drop_stream_def r camera_inv_def)
qed

lemma camera_inv_abort:
  assumes inv: "camera_inv n s" and c: "c < length (cs_calls s)" "cs_calls s ! c = Aborting sid"
  shows "camera_inv n (abort_stream c sid s)"
proof -
  have "streams_inv (abort_stream c sid s)"
    by (rule streams_inv_leave [OF _ c(1), of sid "Ended None"])
      (use inv c in \<open>simp_all add: abort_stream_def camera_inv_def\<close>)
  moreover have "counts_inv n (abort_stream c sid s)"
    by (rule counts_inv_keep [OF _ c(1), of n "Ended None"])
      (use inv c in \<open>simp_all add: abort_stream_def camera_inv_def\<close>)
  ultimately show ?thesis
    by (simp add: camera_inv_def)
qed

text \<open>Reports of an agent only take streams away.\<close>

lemma camera_inv_filter:
  assumes "camera_inv n s" and "cs_streams s' = filter P (cs_streams s)"
    and "cs_calls s' = cs_calls s" "cs_used s' = cs_used s" "cs_max s' = cs_max s" "cs_tenants s' = cs_tenants s"
  shows "camera_inv n s'"
proof -
  have "counts_inv n s'"
    by (rule counts_inv_same [of n s]) (use assms in \<open>simp_all add: camera_inv_def permits_def\<close>)
  moreover have "streams_inv s'"
    by (rule streams_inv_filter [of s]) (use assms in \<open>simp_all add: camera_inv_def\<close>)
  ultimately show ?thesis
    by (simp add: camera_inv_def)
qed

lemma camera_inv_push_chunk: "camera_inv n s \<Longrightarrow> camera_inv n (push_chunk agent sid accepted s)"
  by (auto simp: push_chunk_def remove_stream_def intro: camera_inv_filter)

lemma camera_inv_close_stream: "camera_inv n s \<Longrightarrow> camera_inv n (close_stream agent sid s)"
  by (auto simp: close_stream_def remove_stream_def intro: camera_inv_filter)

lemma camera_inv_event: "camera_inv n s \<Longrightarrow> camera_inv n (snd (handle_camera_event agent accepted ev s))"
  by (cases "(agent, accepted, ev, s)" rule: handle_camera_event.cases)
    (auto simp: camera_inv_push_chunk camera_inv_close_stream)

lemma camera_inv_close_agent: "camera_inv n s \<Longrightarrow> camera_inv n (close_agent agent s)"
  by (rule camera_inv_filter) (simp_all add: close_agent_def)

lemma camera_inv_request: "camera_inv n s \<Longrightarrow> camera_inv n (s\<lparr>cs_calls := cs_calls s @ [Requested q]\<rparr>)"
  by (auto simp: camera_inv_def counts_inv_def permits_def streams_inv_def owned_def)

lemma camera_inv_permit:
  assumes inv: "camera_inv n s" and c: "c < length (cs_calls s)" "cs_calls s ! c = Requested q"
  shows "camera_inv n (take_permit c q s)"
proof -
  have calls: "cs_streams (take_permit c q s) = cs_streams s" "cs_used (take_permit c q s) = cs_used s"
    "\<exists>call. cs_calls (take_permit c q s) = (cs_calls s)[c := call] \<and> (\<forall>i. \<not> owns_stream i call)"
    by (auto simp: take_permit_def split: result.split)
  then obtain call where call: "cs_calls (take_permit c q s) = (cs_calls s)[c := call]" "\<And>i. \<not> owns_stream i call"
    by blast
  have "streams_inv (set_call c call s)"
    by (rule streams_inv_set_call) (use inv c call in \<open>simp_all add: camera_inv_def\<close>)
  then have "streams_inv (take_permit c q s)"
    by (rule streams_inv_cong) (simp_all add: calls(1,2) call(1))
  with take_permit_counts [OF _ c] inv show ?thesis
    by (simp add: camera_inv_def)
qed

lemma camera_inv_register:
  assumes inv: "camera_inv n s" and c: "c < length (cs_calls s)" "cs_calls s ! c = Permitted q" and sid: "sid \<notin> set (cs_used s)"
  shows "camera_inv n (register_stream c q sid s)"
proof -
  have "counts_inv n (register_stream c q sid s)"
    by (rule counts_inv_keep [OF _ c(1), of n "Registered q sid (cs_calls_replaced)" for cs_calls_replaced])
      (use inv c in \<open>simp_all add: register_stream_def Let_def camera_inv_def\<close>)
  with streams_inv_register [OF _ c sid] inv show ?thesis
    by (simp add: camera_inv_def)
qed

lemma camera_inv_announce:
  assumes inv: "camera_inv n s" and c: "c < length (cs_calls s)" "cs_calls s ! c = Registered q sid replaced"
  shows "camera_inv n (announce_stream c q sid replaced failure s)"
proof (cases failure)
  case None
  show ?thesis
    by (rule camera_inv_keep [OF inv c(1), of "Streaming q sid"]) (simp_all add: announce_stream_def None c Let_def)
next
  case (Some e)
  show ?thesis
    by (rule camera_inv_keep [OF inv c(1), of "Withdrawing q sid e"]) (simp_all add: announce_stream_def Some c Let_def)
qed

lemma camera_step_inv:
  assumes "camera_step s r" and "camera_inv n s"
  shows "\<exists>s'. r = Some s' \<and> camera_inv n s'"
  using assms
proof (induction rule: camera_step.induct)
  case (withdraw c s q sid e)
  then show ?case by (metis camera_inv_withdraw)
next
  case (drop c s q sid)
  then show ?case by (metis camera_inv_drop)
qed (simp_all add: camera_inv_request camera_inv_permit camera_inv_register camera_inv_announce camera_inv_abort
    camera_inv_event camera_inv_close_agent)

lemma camera_reachable_inv: "camera_reachable n s \<Longrightarrow> camera_inv n s"
proof (induction rule: camera_reachable.induct)
  case start
  show ?case
    by (simp add: camera_start_def camera_inv_def counts_inv_def streams_inv_def permits_def owned_def)
next
  case (step s s')
  then show ?case
    using camera_step_inv by fastforce
qed

text \<open>A call is over when it has ended; it then owns no stream and no permit.\<close>

fun is_ended :: "camera_call \<Rightarrow> bool" where
  "is_ended (Ended _) = True"
| "is_ended _ = False"

lemma ended_holds_nothing: "is_ended call \<Longrightarrow> \<not> holds_permit t call \<and> \<not> owns_stream i call"
  by (cases call) simp_all


text \<open>A request that is permitted, registered, announced, dropped and aborted.\<close>

definition sample_request :: camera_request where
  "sample_request = \<lparr>cq_tenant_id = ''t'', cq_agent_id = ''a'', cq_serial_number = ''p'', cq_mode = Mjpeg, cq_command_sender = 5\<rparr>"

definition sample_streaming :: camera_state where
  "sample_streaming =
     announce_stream 0 sample_request ''x'' [] None (register_stream 0 sample_request ''x''
       (take_permit 0 sample_request ((camera_start 2)\<lparr>cs_calls := [Requested sample_request]\<rparr>)))"

lemma sample_streaming_reachable: "camera_reachable 2 sample_streaming"
proof -
  let ?q = sample_request
  let ?a = "(camera_start 2)\<lparr>cs_calls := cs_calls (camera_start 2) @ [Requested ?q]\<rparr>"
  have a: "camera_reachable 2 ?a"
    by (rule camera_reachable.step [OF camera_reachable.start camera_step.request])
  have p: "cs_calls (take_permit 0 ?q ?a) = [Permitted ?q]" "cs_used (take_permit 0 ?q ?a) = []"
    by (simp_all add: take_permit_def acquire_def camera_start_def sample_request_def Let_def)
  have b: "camera_reachable 2 (take_permit 0 ?q ?a)"
    by (rule camera_reachable.step [OF a camera_step.permit]) (simp_all add: camera_start_def)
  have c: "camera_reachable 2 (register_stream 0 ?q ''x'' (take_permit 0 ?q ?a))"
    by (rule camera_reachable.step [OF b camera_step.register]) (simp_all add: p)
  have "camera_reachable 2 (announce_stream 0 ?q ''x'' [] None (register_stream 0 ?q ''x'' (take_permit 0 ?q ?a)))"
    by (rule camera_reachable.step [OF c camera_step.announce])
      (simp_all add: register_stream_def p Let_def take_permit_def acquire_def camera_start_def)
  then show ?thesis
    by (simp add: sample_streaming_def camera_start_def)
qed

lemma sample_streaming_value:
  "sample_streaming =
     \<lparr>cs_max = 2, cs_streams = [(''x'', \<lparr>ch_agent_id = ''a'', ch_serial_number = ''p'', ch_command_sender = 5\<rparr>)],
      cs_tenants = Map.empty(''t'' \<mapsto> 1), cs_calls = [Streaming sample_request ''x''], cs_used = [''x''],
      cs_commands = [(5, ''x'', OpenCameraStream ''p'' Mjpeg)]\<rparr>"
  by (simp add: sample_streaming_def announce_stream_def register_stream_def take_permit_def acquire_def camera_start_def
      set_call_def sample_request_def Let_def)


section \<open>Streams that are never closed\<close>

inductive camera_steps :: "camera_state \<Rightarrow> camera_state \<Rightarrow> bool" for s where
  here: "camera_steps s s"
| more: "camera_steps s s' \<Longrightarrow> camera_step s' (Some s'') \<Longrightarrow> camera_steps s s''"

fun replaces :: "camera_call \<Rightarrow> string set" where
  "replaces (Registered _ _ replaced) = fst ` set replaced"
| "replaces _ = {}"

text \<open>The streams a call is about to close were registered once and are not any more.\<close>

definition replaced_inv :: "camera_state \<Rightarrow> bool" where
  "replaced_inv s \<longleftrightarrow>
     fst ` set (cs_streams s) \<subseteq> set (cs_used s) \<and>
     (\<forall>call \<in> set (cs_calls s). replaces call \<subseteq> set (cs_used s) - fst ` set (cs_streams s))"

definition gone :: "string \<Rightarrow> camera_state \<Rightarrow> bool" where
  "gone sid s \<longleftrightarrow> sid \<in> set (cs_used s) \<and> sid \<notin> fst ` set (cs_streams s) \<and> (\<forall>call \<in> set (cs_calls s). sid \<notin> replaces call)"

definition closes :: "string \<Rightarrow> camera_state \<Rightarrow> (nat \<times> string \<times> camera_command) list" where
  "closes sid s = filter (\<lambda>(_, i, command). i = sid \<and> command = CloseCameraStream) (cs_commands s)"

lemma in_set_update: "x \<in> set (xs[c := v]) \<Longrightarrow> x = v \<or> x \<in> set xs"
  using set_update_subset_insert [of xs c v] by blast

text \<open>Only a registration adds a stream, an identifier or a call with streams to close.\<close>

definition shrinks :: "camera_state \<Rightarrow> camera_state \<Rightarrow> bool" where
  "shrinks s s' \<longleftrightarrow> fst ` set (cs_streams s') \<subseteq> fst ` set (cs_streams s) \<and> cs_used s' = cs_used s \<and>
     (\<forall>call \<in> set (cs_calls s'). replaces call \<noteq> {} \<longrightarrow> call \<in> set (cs_calls s))"

lemma shrinks_calls:
  assumes "fst ` set (cs_streams s') \<subseteq> fst ` set (cs_streams s)" "cs_used s' = cs_used s"
    and "cs_calls s' = (cs_calls s)[c := call]" "replaces call = {}"
  shows "shrinks s s'"
  using assms by (auto simp: shrinks_def dest!: in_set_update)

lemma shrinks_streams:
  assumes "cs_streams s' = filter P (cs_streams s)" "cs_used s' = cs_used s" "cs_calls s' = cs_calls s"
  shows "shrinks s s'"
  using assms by (auto simp: shrinks_def)

lemma shrinks_refl [simp]: "shrinks s s"
  by (simp add: shrinks_def)

lemma shrinks_set_call:
  assumes "cs_streams m = cs_streams s" "cs_used m = cs_used s" "cs_calls m = cs_calls s" "replaces call = {}"
  shows "shrinks s (set_call c call m)"
  by (rule shrinks_calls [where c = c and call = call]) (simp_all add: assms)

lemma shrinks_take_permit: "shrinks s (take_permit c q s)"
  by (cases "acquire (cs_max s) (cq_tenant_id q) (cs_tenants s)")
    (simp_all add: take_permit_def shrinks_set_call)

lemma shrinks_announce: "shrinks s (announce_stream c q sid replaced failure s)"
  by (cases failure) (simp_all add: announce_stream_def Let_def shrinks_set_call)

lemma shrinks_withdraw: "withdraw_stream c q sid e s = Some s' \<Longrightarrow> shrinks s s'"
  by (rule shrinks_calls [where c = c and call = "Ended (Some e)"]) (auto simp: withdraw_stream_def remove_stream_def)

lemma shrinks_drop: "drop_stream c q sid s = Some s' \<Longrightarrow> shrinks s s'"
  by (rule shrinks_calls [where c = c and call = "Aborting sid"]) (auto simp: drop_stream_def)

lemma shrinks_abort: "shrinks s (abort_stream c sid s)"
  by (rule shrinks_calls [where c = c and call = "Ended None"]) (auto simp: abort_stream_def remove_stream_def)

lemma shrinks_event: "shrinks s (snd (handle_camera_event agent accepted ev s))"
  by (cases "(agent, accepted, ev, s)" rule: handle_camera_event.cases)
    (auto simp: push_chunk_def close_stream_def remove_stream_def intro: shrinks_streams)

lemma shrinks_close_agent: "shrinks s (close_agent agent s)"
  by (rule shrinks_streams) (simp_all add: close_agent_def)

lemma shrinks_request: "shrinks s (s\<lparr>cs_calls := cs_calls s @ [Requested q]\<rparr>)"
  by (auto simp: shrinks_def)

lemma camera_step_cases:
  assumes "camera_step s (Some s')"
  obtains (register) c q sid where "s' = register_stream c q sid s" "c < length (cs_calls s)" "cs_calls s ! c = Permitted q"
      "sid \<notin> set (cs_used s)"
  | (shrinks) "shrinks s s'"
  using assms
  by cases (auto simp: shrinks_take_permit shrinks_announce shrinks_withdraw shrinks_drop shrinks_abort shrinks_event
      shrinks_close_agent shrinks_request dest: sym)

lemma replaced_inv_calls:
  assumes "replaced_inv s" and "shrinks s s'"
  shows "replaced_inv s'"
proof -
  have "replaces call \<subseteq> set (cs_used s') - fst ` set (cs_streams s')" if "call \<in> set (cs_calls s')" for call
  proof (cases "replaces call = {}")
    case False
    then have "replaces call \<subseteq> set (cs_used s) - fst ` set (cs_streams s)"
      using assms that by (simp add: replaced_inv_def shrinks_def)
    moreover have "cs_used s' = cs_used s" "fst ` set (cs_streams s') \<subseteq> fst ` set (cs_streams s)"
      using assms(2) by (simp_all add: shrinks_def)
    ultimately show ?thesis
      by (simp only:) (erule subset_trans, erule Diff_mono [OF subset_refl])
  qed simp
  moreover have "fst ` set (cs_streams s') \<subseteq> set (cs_used s')"
    using assms unfolding replaced_inv_def shrinks_def by (metis subset_trans)
  ultimately show ?thesis
    by (simp add: replaced_inv_def)
qed

lemma replaced_inv_step:
  assumes "camera_step s (Some s')" and "replaced_inv s" "streams_inv s"
  shows "replaced_inv s'"
  using assms(1)
proof (cases rule: camera_step_cases)
  case (register c q sid)
  have r: "replaces (Registered q sid (map (\<lambda>(i, h). (i, ch_command_sender h)) (filter (\<lambda>(_, h). same_printer q h) (cs_streams s))))
      = fst ` set (filter (\<lambda>(_, h). same_printer q h) (cs_streams s))"
    by (force simp: image_iff)
  have d: "distinct (map fst (cs_streams s))"
    using assms(3) by (simp add: streams_inv_def)
  have apart: "fst e \<noteq> fst e'" if "e \<in> set (cs_streams s)" "e' \<in> set (cs_streams s)" "same_printer q (snd e)" "\<not> same_printer q (snd e')" for e e'
    using d that by (auto simp: distinct_map inj_on_def)
  have "replaces call \<subseteq> set (cs_used s') - fst ` set (cs_streams s')" if call: "call \<in> set (cs_calls s')" for call
  proof -
    consider "call \<in> set (cs_calls s)" | "call = Registered q sid (map (\<lambda>(i, h). (i, ch_command_sender h)) (filter (\<lambda>(_, h). same_printer q h) (cs_streams s)))"
      using call register(1) in_set_update [of call "cs_calls s" c] by (auto simp: register_stream_def Let_def)
    then show ?thesis
    proof cases
      case 1
      show ?thesis
      proof (rule subsetI)
        fix i
        assume "i \<in> replaces call"
        then have "i \<in> set (cs_used s)" "i \<notin> fst ` set (cs_streams s)"
          using 1 assms(2) unfolding replaced_inv_def by blast+
        then show "i \<in> set (cs_used s') - fst ` set (cs_streams s')"
          using register(1,4) by (auto simp: register_stream_def Let_def)
      qed
    next
      case 2
      have "i \<in> set (cs_used s) \<and> i \<noteq> sid \<and> i \<notin> fst ` set (filter (\<lambda>(_, h). \<not> same_printer q h) (cs_streams s))"
        if i: "i \<in> replaces call" for i
      proof -
        obtain e where e: "e \<in> set (cs_streams s)" "same_printer q (snd e)" "i = fst e"
          using i by (auto simp: 2 r)
        then have "i \<in> set (cs_used s)"
          using assms(2) by (auto simp: replaced_inv_def)
        moreover have "i \<notin> fst ` set (filter (\<lambda>(_, h). \<not> same_printer q h) (cs_streams s))"
          using apart e by fastforce
        ultimately show ?thesis
          using register(4) by auto
      qed
      then show ?thesis
        using register(1) by (auto simp: register_stream_def Let_def)
    qed
  qed
  then show ?thesis
    using assms(2) register(1) by (auto simp: replaced_inv_def register_stream_def Let_def)
next
  case shrinks
  then show ?thesis
    using assms(2) by (rule replaced_inv_calls [rotated])
qed

lemma replaced_inv_reachable: "camera_reachable n s \<Longrightarrow> replaced_inv s"
proof (induction rule: camera_reachable.induct)
  case start
  show ?case by (simp add: camera_start_def replaced_inv_def)
next
  case (step s s')
  then show ?case
    using replaced_inv_step camera_reachable_inv by (auto simp: camera_inv_def)
qed

lemma goneI:
  assumes "gone sid s" and "shrinks s s'"
  shows "gone sid s'"
proof -
  have "sid \<notin> replaces call" if "call \<in> set (cs_calls s')" for call
    using assms that by (cases "replaces call = {}") (simp_all add: gone_def shrinks_def)
  then show ?thesis
    using assms by (auto simp: gone_def shrinks_def)
qed

lemma gone_step:
  assumes "camera_step s (Some s')" and "gone sid s"
  shows "gone sid s'"
  using assms(1)
proof (cases rule: camera_step_cases)
  case (register c q sid')
  let ?replaced = "map (\<lambda>(i, h). (i, ch_command_sender h)) (filter (\<lambda>(_, h). same_printer q h) (cs_streams s))"
  have "sid \<notin> replaces (Registered q sid' ?replaced)"
    using assms(2) by (force simp: gone_def)
  then have "sid \<notin> replaces call" if "call \<in> set (cs_calls s')" for call
    using that assms(2) by (auto simp: gone_def register(1) register_stream_def Let_def dest!: in_set_update)
  moreover have "sid \<noteq> sid'"
    using assms(2) register(4) by (auto simp: gone_def)
  ultimately show ?thesis
    using assms(2) by (auto simp: gone_def register(1) register_stream_def Let_def)
next
  case shrinks
  then show ?thesis
    using assms(2) by (rule goneI [rotated])
qed

text \<open>Only a registered stream, or one a call has just replaced, is closed.\<close>

lemma gone_closes_step:
  assumes "camera_step s (Some s')" and "gone sid s"
  shows "closes sid s' = closes sid s"
  using assms(1)
proof cases
  case (announce c q sid' replaced failure)
  have "sid \<notin> fst ` set replaced"
    using assms(2) nth_mem [OF announce(2)] announce(3) unfolding gone_def by (metis replaces.simps(1))
  then have "filter (\<lambda>(_, i, command). i = sid \<and> command = CloseCameraStream)
      (map (\<lambda>(i, sender). (sender, i, CloseCameraStream)) replaced) = []"
    by (auto simp: filter_empty_conv image_iff)
  then show ?thesis
    by (auto simp: announce(1) announce_stream_def closes_def Let_def split: option.split)
next
  case (abort c sid')
  then show ?thesis
    using assms(2) by (auto simp: abort_stream_def closes_def close_command_def gone_def map_of_eq_None_iff split: option.split
        dest!: map_of_SomeD intro: rev_image_eqI)
next
  case (agent_gone agent)
  have "filter (\<lambda>(_, i, command). i = sid \<and> command = CloseCameraStream)
      (map (\<lambda>(i, h). (ch_command_sender h, i, CloseCameraStream)) (filter (\<lambda>(_, h). ch_agent_id h = agent) (cs_streams s))) = []"
    using assms(2) by (auto simp: filter_empty_conv image_iff gone_def)
  then show ?thesis
    by (simp add: agent_gone close_agent_def closes_def)
next
  case (event agent accepted ev)
  then show ?thesis
    by (cases "(agent, accepted, ev, s)" rule: handle_camera_event.cases) (auto simp: closes_def push_chunk_def close_stream_def)
qed (auto simp: closes_def take_permit_def register_stream_def withdraw_stream_def drop_stream_def Let_def
    split: result.splits dest!: sym [of "Some s'"])

lemma gone_closes_steps: "camera_steps s s' \<Longrightarrow> gone sid s \<Longrightarrow> gone sid s' \<and> closes sid s' = closes sid s"
  by (induction rule: camera_steps.induct) (auto simp: gone_step gone_closes_step)

text \<open>
  C37: When the hub drops a stream because the viewer's channel does not take a chunk (it is full, or the
  viewer has just left), the agent is never told to close it: whatever happens
  later, abort of the viewer's stream included, no further Close command for that stream is sent, so
  the agent goes on streaming into the void and the stream keeps one of the agent's four slots.
\<close>

theorem dropped_stream_never_closed:
  assumes "camera_reachable n s" and "map_of (cs_streams s) sid = Some h"
    and "len \<le> MAX_CAMERA_CHUNK_BYTES"
    and "camera_steps (snd (handle_camera_event (ch_agent_id h) False (Some (CameraChunk sid len)) s)) s'"
  shows "sid \<notin> fst ` set (cs_streams s') \<and> closes sid s' = closes sid s"
proof -
  let ?p = "push_chunk (ch_agent_id h) sid False s"
  have p: "?p = s\<lparr>cs_streams := remove_stream sid (cs_streams s)\<rparr>"
    using assms(2) by (simp add: push_chunk_def of_agent_def)
  have "sid \<in> fst ` set (cs_streams s)"
    using map_of_SomeD [OF assms(2)] by (auto intro: rev_image_eqI)
  then have "gone sid ?p"
    using replaced_inv_reachable [OF assms(1)] by (auto simp: p gone_def replaced_inv_def remove_stream_def)
  moreover have "camera_steps ?p s'"
    using assms(3,4) by simp
  ultimately show ?thesis
    using gone_closes_steps [of ?p s' sid] by (simp add: gone_def p closes_def)
qed

lemma sample_abort_steps:
  "camera_steps (push_chunk ''a'' ''x'' False sample_streaming)
     (abort_stream 0 ''x'' (the (drop_stream 0 sample_request ''x'' (push_chunk ''a'' ''x'' False sample_streaming))))"
proof -
  let ?p = "push_chunk ''a'' ''x'' False sample_streaming"
  have d: "drop_stream 0 sample_request ''x'' ?p = Some (the (drop_stream 0 sample_request ''x'' ?p))"
    by (simp add: drop_stream_def release_def sample_streaming_value push_chunk_def of_agent_def sample_request_def)
  have "camera_steps ?p (the (drop_stream 0 sample_request ''x'' ?p))"
  proof (rule camera_steps.more [OF camera_steps.here])
    show "camera_step ?p (Some (the (drop_stream 0 sample_request ''x'' ?p)))"
      unfolding d [symmetric] by (rule camera_step.drop) (simp_all add: sample_streaming_value push_chunk_def)
  qed
  then show ?thesis
    by (rule camera_steps.more, intro camera_step.abort)
      (simp_all add: drop_stream_def release_def sample_streaming_value push_chunk_def of_agent_def sample_request_def)
qed

theorem dropped_stream_never_closed_witness:
  "closes ''x'' (abort_stream 0 ''x'' (the (drop_stream 0 sample_request ''x'' (push_chunk ''a'' ''x'' False sample_streaming)))) = []"
proof -
  have h: "map_of (cs_streams sample_streaming) ''x'' =
      Some \<lparr>ch_agent_id = ''a'', ch_serial_number = ''p'', ch_command_sender = 5\<rparr>"
    by (simp add: sample_streaming_value)
  have "closes ''x'' sample_streaming = []"
    by (simp add: sample_streaming_value closes_def)
  moreover have "0 \<le> MAX_CAMERA_CHUNK_BYTES" by simp
  ultimately show ?thesis
    using dropped_stream_never_closed [OF sample_streaming_reachable h, of 0] sample_abort_steps by simp
qed

end
