(* ===== verification/Hub_Redaction.thy ===== *)
theory Hub_Redaction
  imports Rust_Text Json
begin

text \<open>
  Redaction of secrets in texts that are stored or logged: the hub's \<open>crates/pandar-hub/src/redaction.rs\<close>,
  \<open>redaction/json.rs\<close> and their use in \<open>grpc/commands.rs\<close>, and the agent's
  \<open>machine/diagnostics/redaction.rs\<close>.

  The scanner \<open>redact_key_value\<close> is an unbounded loop in the source, so it is a partial function: \<open>None\<close>
  means that it never returns, and that it always does is a theorem. Positions are byte indices;
  keys and separators are ASCII, so every slice starts at the boundary of a character. JSON reading, writing and the
  text of a number are parameters.
\<close>

section \<open>Texts\<close>

definition slice :: "nat \<Rightarrow> nat \<Rightarrow> string \<Rightarrow> string" where
  "slice a b s = take (b - a) (drop a s)"

definition REDACTED :: string where
  "REDACTED = ''[redacted]''"

text \<open>The offset of the first character that is neither white space nor a quote.\<close>

function value_offset :: "string \<Rightarrow> nat option" where
  "value_offset s =
     (if s = [] then None
      else if 0 < ws_len s then map_option ((+) (ws_len s)) (value_offset (drop (ws_len s) s))
      else if hd s = CHR 0x22 then map_option Suc (value_offset (tl s))
      else Some 0)"
  by pat_completeness auto
termination
  by (relation "measure length") auto

declare value_offset.simps [simp del]

definition ends_value :: "char \<Rightarrow> bool" where
  "ends_value c \<longleftrightarrow> c \<in> {CHR 0x22, CHR '','', CHR ''&'', CHR '' '', CHR 0x09, CHR 0x0A}"

definition bounds_start :: "string \<Rightarrow> nat \<Rightarrow> nat option" where
  "bounds_start line key_end =
     (case drop key_end line of
        [] \<Rightarrow> None
      | c # rest \<Rightarrow>
          if c = CHR ''='' \<or> c = CHR '':'' then Some (key_end + 1)
          else if c = CHR 0x22 then map_option (\<lambda>offset. key_end + 1 + offset + 1) (find_str rest '':'')
          else None)"

definition value_bounds :: "string \<Rightarrow> nat \<Rightarrow> nat \<times> nat" where
  "value_bounds line start =
     (let value_start = start + (case value_offset (drop start line) of Some offset \<Rightarrow> offset | None \<Rightarrow> 0);
          value_end = value_start + length (takeWhile (\<lambda>c. \<not> ends_value c) (drop value_start line))
      in (value_start, value_end))"

definition key_value_bounds :: "string \<Rightarrow> nat \<Rightarrow> (nat \<times> nat) option" where
  "key_value_bounds line key_end = map_option (value_bounds line) (bounds_start line key_end)"

partial_function (option) redact_key_value_loop :: "string \<Rightarrow> string \<Rightarrow> nat \<Rightarrow> string \<Rightarrow> string option" where
  [code]: "redact_key_value_loop line key cursor redacted =
     (case find_str (drop cursor (to_ascii_lowercase line)) key of
        None \<Rightarrow> Some (redacted @ drop cursor line)
      | Some offset \<Rightarrow>
          let key_end = cursor + offset + length key
          in case key_value_bounds line key_end of
               None \<Rightarrow> redact_key_value_loop line key key_end (redacted @ slice cursor key_end line)
             | Some (value_start, value_end) \<Rightarrow>
                 redact_key_value_loop line key value_end (redacted @ slice cursor value_start line @ REDACTED))"

definition redact_key_value :: "string \<Rightarrow> string \<Rightarrow> string option" where
  "redact_key_value line key = redact_key_value_loop line key 0 []"

fun redact_after_marker :: "string \<Rightarrow> string list \<Rightarrow> string" where
  "redact_after_marker line [] = line"
| "redact_after_marker line (marker # markers) =
     (case split_once_str line marker of
        Some (prefix, _) \<Rightarrow> prefix @ marker @ REDACTED
      | None \<Rightarrow> redact_after_marker line markers)"

definition secret_keys :: "string list" where
  "secret_keys =
     [''authorization'', ''bearer'', ''ticket'', ''websocket_ticket'', ''plugin_ticket'', ''bambu_access_code'', ''access_code'',
      ''agent_credential'', ''credential'', ''artifact_path'', ''storage_path'']"

fun redact_keys :: "string list \<Rightarrow> string \<Rightarrow> string option" where
  "redact_keys [] line = Some line"
| "redact_keys (key # keys) line = Option.bind (redact_key_value line key) (redact_keys keys)"

definition redact_markers :: "string \<Rightarrow> string" where
  "redact_markers redacted =
     (let lower = to_ascii_lowercase redacted
      in if contains_str lower ''artifact file '' \<or> contains_str lower ''artifact directory '' \<or>
            contains_str lower ''artifact spool '' \<or> contains_str lower ''artifact storage path ''
         then redact_after_marker redacted ['' file '', '' directory '', '' spool '', '' storage path '']
         else if starts_with lower ''authorization:'' then ''Authorization: [redacted]''
         else if contains_str lower ''bearer '' then redact_after_marker redacted [''Bearer '', ''bearer '']
         else if contains_str lower ''agent credential '' then redact_after_marker redacted [''agent credential '']
         else if contains_str lower ''plugin ticket '' then redact_after_marker redacted [''plugin ticket '']
         else redacted)"

definition redact_line :: "string \<Rightarrow> string option" where
  "redact_line line = map_option redact_markers (redact_keys secret_keys line)"

fun redact_lines :: "string list \<Rightarrow> string list option" where
  "redact_lines [] = Some []"
| "redact_lines (l # ls) = Option.bind (redact_line l) (\<lambda>r. map_option ((#) r) (redact_lines ls))"

definition redact_secrets :: "string \<Rightarrow> string option" where
  "redact_secrets s = map_option join_lines (redact_lines (str_lines s))"

definition redact_link_printer_secret :: "string \<Rightarrow> string \<Rightarrow> string option" where
  "redact_link_printer_secret s access_code =
     map_option (\<lambda>redacted. if access_code = [] then redacted else replace_str redacted access_code REDACTED) (redact_secrets s)"

section \<open>JSON\<close>

record redaction_codec =
  rd_from_str :: "string \<Rightarrow> json option"
  rd_to_string :: "json \<Rightarrow> string"
  rd_number_text :: "json_number \<Rightarrow> string"

definition is_credential_key :: "string \<Rightarrow> bool" where
  "is_credential_key key \<longleftrightarrow>
     list_ex (contains_str (to_ascii_lowercase (filter is_ascii_alphanumeric key)))
       [''accesscode'', ''password'', ''token'', ''auth'', ''credential'', ''ticket'', ''bearer'']"

text \<open>Each function gives the new value and whether it changed.\<close>

fun redact_json_value :: "json \<Rightarrow> json \<times> bool"
  and redact_json_members :: "json_object \<Rightarrow> json_object \<times> bool"
  and redact_json_items :: "json list \<Rightarrow> json list \<times> bool" where
  "redact_json_value (JObject m) = map_prod JObject id (redact_json_members m)"
| "redact_json_value (JArray vs) = map_prod JArray id (redact_json_items vs)"
| "redact_json_value (JString s) = (JString s, False)"
| "redact_json_value (JNumber n) = (JNumber n, False)"
| "redact_json_value (JBool b) = (JBool b, False)"
| "redact_json_value JNull = (JNull, False)"
| "redact_json_members [] = ([], False)"
| "redact_json_members ((k, v) # m) =
     (let (w, c) = (if is_credential_key k then (JString REDACTED, True) else redact_json_value v);
          (n, d) = redact_json_members m
      in ((k, w) # n, c \<or> d))"
| "redact_json_items [] = ([], False)"
| "redact_json_items (v # vs) =
     (let (w, c) = redact_json_value v; (ws, d) = redact_json_items vs in (w # ws, c \<or> d))"

text \<open>
  The members of an object are taken out in order and inserted again under their redacted keys: of two that
  get the same key the later one stays.
\<close>

fun redact_json_string :: "(json_number \<Rightarrow> string) \<Rightarrow> string \<Rightarrow> json \<Rightarrow> json \<times> bool"
  and redact_string_members :: "(json_number \<Rightarrow> string) \<Rightarrow> string \<Rightarrow> json_object \<Rightarrow> json_object \<Rightarrow> json_object \<times> bool"
  and redact_string_items :: "(json_number \<Rightarrow> string) \<Rightarrow> string \<Rightarrow> json list \<Rightarrow> json list \<times> bool" where
  "redact_json_string text_of secret (JString s) =
     (if contains_str s secret then (JString (replace_str s secret REDACTED), True) else (JString s, False))"
| "redact_json_string text_of secret (JNumber n) =
     (if text_of n = secret then (JString REDACTED, True) else (JNumber n, False))"
| "redact_json_string text_of secret (JObject m) = map_prod JObject id (redact_string_members text_of secret m [])"
| "redact_json_string text_of secret (JArray vs) = map_prod JArray id (redact_string_items text_of secret vs)"
| "redact_json_string text_of secret (JBool b) = (JBool b, False)"
| "redact_json_string text_of secret JNull = (JNull, False)"
| "redact_string_members text_of secret [] object = (object, False)"
| "redact_string_members text_of secret ((k, v) # m) object =
     (let key = (if contains_str k secret then replace_str k secret REDACTED else k);
          (w, c) = redact_json_string text_of secret v;
          (n, d) = redact_string_members text_of secret m (obj_insert key w object)
      in (n, contains_str k secret \<or> c \<or> d))"
| "redact_string_items text_of secret [] = ([], False)"
| "redact_string_items text_of secret (v # vs) =
     (let (w, c) = redact_json_string text_of secret v; (ws, d) = redact_string_items text_of secret vs
      in (w # ws, c \<or> d))"

fun redact_all_json_strings :: "json \<Rightarrow> json \<times> bool"
  and redact_all_members :: "nat \<Rightarrow> json_object \<Rightarrow> json_object \<Rightarrow> json_object \<times> bool"
  and redact_all_items :: "json list \<Rightarrow> json list \<times> bool" where
  "redact_all_json_strings (JString s) = (JString REDACTED, True)"
| "redact_all_json_strings (JNumber n) = (JString REDACTED, True)"
| "redact_all_json_strings (JObject m) = map_prod JObject id (redact_all_members 0 m [])"
| "redact_all_json_strings (JArray vs) = map_prod JArray id (redact_all_items vs)"
| "redact_all_json_strings (JBool b) = (JBool b, False)"
| "redact_all_json_strings JNull = (JNull, False)"
| "redact_all_members i [] object = (object, False)"
| "redact_all_members i ((k, v) # m) object =
     (let (w, _) = redact_all_json_strings v;
          (n, _) = redact_all_members (i + 1) m (obj_insert (''[redacted_'' @ decimal i @ '']'') w object)
      in (n, True))"
| "redact_all_items [] = ([], False)"
| "redact_all_items (v # vs) =
     (let (w, c) = redact_all_json_strings v; (ws, d) = redact_all_items vs in (w # ws, c \<or> d))"

definition redact_result_json :: "redaction_codec \<Rightarrow> string \<Rightarrow> string option" where
  "redact_result_json cd result_json =
     (case rd_from_str cd result_json of
        Some v \<Rightarrow> (let (w, changed) = redact_json_value v in Some (if changed then rd_to_string cd w else result_json))
      | None \<Rightarrow> redact_secrets result_json)"

definition redact_link_printer_result_json_without_secret :: "redaction_codec \<Rightarrow> string \<Rightarrow> string option" where
  "redact_link_printer_result_json_without_secret cd result_json =
     map_option (\<lambda>redacted. case rd_from_str cd redacted of
                     Some v \<Rightarrow> rd_to_string cd (fst (redact_all_json_strings v))
                   | None \<Rightarrow> REDACTED)
       (redact_result_json cd result_json)"

definition redact_link_printer_result_json :: "redaction_codec \<Rightarrow> string \<Rightarrow> string \<Rightarrow> string option" where
  "redact_link_printer_result_json cd result_json access_code =
     Option.bind (redact_result_json cd result_json)
       (\<lambda>redacted.
          if access_code = [] then redact_link_printer_result_json_without_secret cd redacted
          else (case rd_from_str cd redacted of
                  Some v \<Rightarrow> (let (w, changed) = redact_json_string (rd_number_text cd) access_code v
                             in Some (if changed then rd_to_string cd w else redacted))
                | None \<Rightarrow> Some (replace_str redacted access_code REDACTED)))"

section \<open>Results of commands\<close>

definition redact_command_error :: "string \<Rightarrow> string \<Rightarrow> string option \<Rightarrow> string option" where
  "redact_command_error kind error link_printer_access_code =
     (if kind = ''link_printer'' then
        (case link_printer_access_code of
           Some access_code \<Rightarrow> redact_link_printer_secret error access_code
         | None \<Rightarrow> map_option (\<lambda>redacted. if redacted = error \<and> error \<noteq> [] then REDACTED else redacted) (redact_secrets error))
      else redact_secrets error)"

text \<open>The outer \<open>None\<close> is a scan that does not return, the inner one an absent result.\<close>

definition optional_result_json :: "redaction_codec \<Rightarrow> string \<Rightarrow> string \<Rightarrow> string option \<Rightarrow> string option option" where
  "optional_result_json cd kind result_json link_printer_access_code =
     (if result_json = [] then Some None
      else map_option Some
        (if kind = ''link_printer'' then
           (case link_printer_access_code of
              Some access_code \<Rightarrow> redact_link_printer_result_json cd result_json access_code
            | None \<Rightarrow> redact_link_printer_result_json_without_secret cd result_json)
         else redact_result_json cd result_json))"

section \<open>The agent's diagnostics\<close>

record printer_endpoint_secrets =
  es_access_codes :: "string list"
  es_hosts :: "string list"

definition record_distinct :: "string list \<Rightarrow> string \<Rightarrow> string list" where
  "record_distinct values v = (if v = [] then values else filter (\<lambda>x. x \<noteq> v) values @ [v])"

text \<open>An endpoint is its access code and its host.\<close>

definition record_endpoint :: "string \<times> string \<Rightarrow> printer_endpoint_secrets \<Rightarrow> printer_endpoint_secrets" where
  "record_endpoint endpoint secrets =
     \<lparr>es_access_codes = record_distinct (es_access_codes secrets) (fst endpoint),
      es_hosts = record_distinct (es_hosts secrets) (snd endpoint)\<rparr>"

definition from_endpoints :: "(string \<times> string) list \<Rightarrow> printer_endpoint_secrets" where
  "from_endpoints endpoints = fold record_endpoint endpoints \<lparr>es_access_codes = [], es_hosts = []\<rparr>"

definition redact_access_code :: "string \<Rightarrow> string \<Rightarrow> string" where
  "redact_access_code s access_code =
     (if access_code = [] then s else replace_str s access_code ''[REDACTED_ACCESS_CODE]'')"

definition redact_known_access_codes :: "string \<Rightarrow> string list \<Rightarrow> string" where
  "redact_known_access_codes s access_codes = foldl redact_access_code s access_codes"

definition redact :: "printer_endpoint_secrets \<Rightarrow> string \<Rightarrow> string" where
  "redact secrets s =
     redact_known_access_codes
       (foldl (\<lambda>s host. replace_str s host ''[REDACTED_PRINTER_HOST]'') s (es_hosts secrets)) (es_access_codes secrets)"

section \<open>The scanner returns\<close>

lemma find_str_bounds:
  assumes "find_str s pat = Some k"
  shows "k + length pat \<le> length s"
  using assms by (auto simp: find_str_def dest: split_once_str_Some)

lemma value_offset_le: "value_offset s = Some k \<Longrightarrow> k \<le> length s"
proof (induction s arbitrary: k rule: value_offset.induct)
  case (1 s)
  show ?case
    using 1(3) 1(1) [of "k - ws_len s"] 1(2) [of "k - 1"] ws_len_le [of s]
    by (subst (asm) value_offset.simps) (cases s, auto split: if_splits)
qed

lemma bounds_start_range:
  assumes "bounds_start line key_end = Some s"
  shows "key_end < s \<and> s \<le> length line"
proof (cases "drop key_end line")
  case Nil
  then show ?thesis using assms by (simp add: bounds_start_def)
next
  case (Cons c rest)
  have "key_end + 1 + length rest = length line"
    using arg_cong [OF Cons, of length] by simp
  then show ?thesis
    using assms Cons find_str_bounds [of rest "'':''"] by (auto simp: bounds_start_def split: if_splits)
qed

text \<open>The value lies behind the key and inside the line, so no slice is out of range.\<close>

lemma key_value_bounds_range:
  assumes "key_value_bounds line key_end = Some (a, b)"
  shows "key_end < a" "a \<le> b" "b \<le> length line"
proof -
  obtain s where start: "bounds_start line key_end = Some s" and ab: "value_bounds line s = (a, b)"
    using assms by (auto simp: key_value_bounds_def)
  have s: "key_end < s" "s \<le> length line"
    using bounds_start_range [OF start] by simp_all
  have a: "a = s + (case value_offset (drop s line) of Some offset \<Rightarrow> offset | None \<Rightarrow> 0)"
    and b: "b = a + length (takeWhile (\<lambda>c. \<not> ends_value c) (drop a line))"
    using ab by (auto simp: value_bounds_def Let_def)
  have "s \<le> a \<and> a \<le> length line"
    using a s(2) value_offset_le [of "drop s line"] by (auto split: option.splits)
  moreover have "length (takeWhile (\<lambda>c. \<not> ends_value c) (drop a line)) \<le> length (drop a line)"
    by (rule length_takeWhile_le)
  ultimately show "key_end < a" "a \<le> b" "b \<le> length line"
    using s(1) b by auto
qed

lemma redact_key_value_loop_returns:
  assumes "key \<noteq> []" and "cursor \<le> length line"
  shows "\<exists>r. redact_key_value_loop line key cursor redacted = Some r"
  using assms(2)
proof (induction "length line - cursor" arbitrary: cursor redacted rule: less_induct)
  case less
  show ?case
  proof (cases "find_str (drop cursor (to_ascii_lowercase line)) key")
    case None
    then show ?thesis
      by (simp add: redact_key_value_loop.simps)
  next
    case (Some offset)
    let ?e = "cursor + offset + length key"
    have e: "cursor < ?e" "?e \<le> length line"
      using find_str_bounds [OF Some] less.prems assms(1) by (auto simp: Suc_le_eq)
    show ?thesis
    proof (cases "key_value_bounds line ?e")
      case None
      then show ?thesis
        using less.hyps [of ?e "redacted @ slice cursor ?e line"] e diff_less_mono2 [of cursor ?e "length line"]
        by (subst redact_key_value_loop.simps) (simp add: Some Let_def)
    next
      case [simp]: (Some ab)
      obtain a b where ab: "ab = (a, b)" by fastforce
      have "?e < a" "a \<le> b" "b \<le> length line"
        using key_value_bounds_range [of line ?e a b] ab by simp_all
      then show ?thesis
        using less.hyps [of b] e \<open>find_str _ key = Some offset\<close>
        by (subst redact_key_value_loop.simps) (simp add: Let_def ab)
    qed
  qed
qed

lemma redact_keys_returns: "\<forall>key \<in> set keys. key \<noteq> [] \<Longrightarrow> \<exists>r. redact_keys keys line = Some r"
proof (induction keys arbitrary: line)
  case (Cons key keys)
  obtain r where "redact_key_value line key = Some r"
    using redact_key_value_loop_returns [of key 0 line "[]"] Cons.prems by (auto simp: redact_key_value_def)
  with Cons show ?case by simp
qed simp

lemma redact_line_returns: "\<exists>r. redact_line line = Some r"
  using redact_keys_returns [of secret_keys line] by (auto simp: redact_line_def secret_keys_def)

lemma redact_lines_returns: "\<exists>rs. redact_lines ls = Some rs"
proof (induction ls)
  case (Cons l ls)
  then show ?case using redact_line_returns [of l] by auto
qed simp

lemma redact_secrets_total: "\<exists>r. redact_secrets s = Some r"
  using redact_lines_returns [of "str_lines s"] by (auto simp: redact_secrets_def)

lemma redact_result_json_total: "\<exists>r. redact_result_json cd s = Some r"
  using redact_secrets_total by (auto simp: redact_result_json_def split: option.split prod.split)

text \<open>
  C0: Redaction always returns: whatever the text of an error or of a result, of whatever command, and whatever the JSON
  library makes of it, the scan of every line ends and a redacted text is produced.
\<close>

theorem redaction_returns:
  "(\<exists>r. redact_command_error kind error code = Some r) \<and> (\<exists>r. optional_result_json cd kind result_json code = Some r)"
proof
  show "\<exists>r. redact_command_error kind error code = Some r"
    using redact_secrets_total [of error]
    by (auto simp: redact_command_error_def redact_link_printer_secret_def split: option.split)
  have w: "\<exists>r. redact_link_printer_result_json_without_secret cd s = Some r" for s
    using redact_result_json_total [of cd s] by (auto simp: redact_link_printer_result_json_without_secret_def)
  have "\<exists>r. redact_link_printer_result_json cd s c = Some r" for s c
    using redact_result_json_total [of cd s] w
    by (auto simp: redact_link_printer_result_json_def split: option.split prod.split)
  with w redact_result_json_total [of cd result_json] show "\<exists>r. optional_result_json cd kind result_json code = Some r"
    by (auto simp: optional_result_json_def split: option.split)
qed

section \<open>A replaced secret is gone\<close>

text \<open>A text that lies across a character it does not contain lies on one side of it.\<close>

lemma contains_beside:
  assumes "contains_str (u @ x # w) s" and "x \<notin> set s" and "s \<noteq> []"
  shows "contains_str u s \<or> contains_str w s"
proof -
  obtain p q where "u @ x # w = p @ s @ q"
    using assms(1) by (auto simp: contains_str_iff)
  then consider m where "u = p @ m" "m @ x # w = s @ q" | m where "p = u @ m" "x # w = m @ s @ q"
    by (auto simp: append_eq_append_conv2)
  then show ?thesis
  proof cases
    case 1
    then consider n where "m = s @ n" | n where "s = m @ n" "x # w = n @ q"
      by (auto simp: append_eq_append_conv2)
    then show ?thesis
    proof cases
      case 1
      then show ?thesis using \<open>u = p @ m\<close> by (auto simp: contains_str_iff)
    next
      case 2
      then have "n = []" using assms(2) by (cases n) auto
      then have "u = p @ s @ []" using 2 \<open>u = p @ m\<close> by simp
      then show ?thesis unfolding contains_str_iff by blast
    qed
  next
    case 2
    then obtain n where "w = n @ s @ q"
      using assms(2,3) by (cases m; cases s) auto
    then show ?thesis by (auto simp: contains_str_iff)
  qed
qed

lemma contains_append1: "contains_str a s \<Longrightarrow> contains_str (a @ b) s"
  by (auto simp: contains_str_iff) (metis append.assoc)

lemma contains_append2: "contains_str b s \<Longrightarrow> contains_str (a @ b) s"
  by (auto simp: contains_str_iff) (metis append.assoc)

lemma split_once_first:
  "split_once_str s pat = Some (a, b) \<Longrightarrow> pat \<noteq> [] \<Longrightarrow> \<not> contains_str a pat"
proof (induction s pat arbitrary: a rule: split_once_str.induct)
  case (2 c cs pat)
  show ?case
  proof (cases "strip_prefix pat (c # cs)")
    case (Some rest)
    then have "a = []" using 2(2) by simp
    then show ?thesis using 2(3) by simp
  next
    case None
    then obtain a' where a': "a = c # a'" "split_once_str cs pat = Some (a', b)"
      using 2(2) by auto
    have "\<not> starts_with (c # a') pat"
    proof
      assume "starts_with (c # a') pat"
      then obtain t where "c # a' = pat @ t" by (auto simp: starts_with_iff)
      then have "c # cs = pat @ t @ pat @ b"
        using split_once_str_Some [OF a'(2)] by (metis append.assoc append_Cons)
      then show False using None by (simp add: strip_prefix_None)
    qed
    with a' 2 None show ?thesis by simp
  qed
qed (auto split: if_splits)

definition unbracketed :: "string \<Rightarrow> bool" where
  "unbracketed s \<longleftrightarrow> s \<noteq> [] \<and> CHR ''['' \<notin> set s \<and> CHR '']'' \<notin> set s"

text \<open>What every replacement by a bracketed marker guarantees.\<close>

locale placeholder =
  fixes marker core :: string
  assumes marker: "marker = CHR ''['' # core @ [CHR '']'']"
begin

lemma contains_marker:
  assumes "contains_str (a @ marker @ b) s" and "unbracketed s" and "\<not> contains_str core s"
  shows "contains_str a s \<or> contains_str b s"
proof -
  have "contains_str a s \<or> contains_str (core @ CHR '']'' # b) s"
    using assms(1,2) contains_beside [of a "CHR ''[''" "core @ CHR '']'' # b" s] by (simp add: marker unbracketed_def)
  then show ?thesis
    using assms(2,3) contains_beside [of core "CHR '']''" b s] by (auto simp: unbracketed_def)
qed

text \<open>A secret that is in no piece of the text is not in the result; nor is the replaced text itself.\<close>

lemma replace_absent:
  assumes "unbracketed s" and "\<not> contains_str core s" and "pat = s \<or> \<not> contains_str t s"
  shows "\<not> contains_str (replace_str t pat marker) s"
  using assms(3)
proof (induction "length t" arbitrary: t rule: less_induct)
  case less
  show ?case
  proof (cases "split_once_str t pat")
    case None
    then have "\<not> contains_str t s"
      using less.prems by (auto simp: split_once_str_None)
    with None show ?thesis by (subst replace_str.simps) simp
  next
    case (Some ab)
    obtain a b where ab: "ab = (a, b)" by fastforce
    have t: "t = a @ pat @ b"
      using Some ab by (auto dest: split_once_str_Some)
    show ?thesis
    proof (cases "pat = []")
      case True
      then show ?thesis
        using less.prems assms(1) Some ab by (subst replace_str.simps) (auto simp: unbracketed_def)
    next
      case False
      have a: "\<not> contains_str a s"
        using less.prems split_once_first [of t pat a b] Some ab False contains_append1 [of a s "pat @ b"] t by auto
      have "pat = s \<or> \<not> contains_str b s"
        using less.prems contains_append2 [of b s "a @ pat"] t by auto
      then have "\<not> contains_str (replace_str b pat marker) s"
        using less.hyps [of b] False t by simp
      then show ?thesis
        using Some ab False a contains_marker [OF _ assms(1,2)] by (subst replace_str.simps) auto
    qed
  qed
qed

end

interpretation hub_marker: placeholder REDACTED "''redacted''"
  by unfold_locales (simp add: REDACTED_def)

interpretation code_marker: placeholder "''[REDACTED_ACCESS_CODE]''" "''REDACTED_ACCESS_CODE''"
  by unfold_locales simp

interpretation host_marker: placeholder "''[REDACTED_PRINTER_HOST]''" "''REDACTED_PRINTER_HOST''"
  by unfold_locales simp

section \<open>Secrets of JSON values\<close>

text \<open>A value is free of a secret when no text, no key contains it and no number is written as it.\<close>

fun free_of :: "(json_number \<Rightarrow> string) \<Rightarrow> string \<Rightarrow> json \<Rightarrow> bool"
  and free_members :: "(json_number \<Rightarrow> string) \<Rightarrow> string \<Rightarrow> json_object \<Rightarrow> bool"
  and free_items :: "(json_number \<Rightarrow> string) \<Rightarrow> string \<Rightarrow> json list \<Rightarrow> bool" where
  "free_of text_of secret (JString s) = (\<not> contains_str s secret)"
| "free_of text_of secret (JNumber n) = (text_of n \<noteq> secret)"
| "free_of text_of secret (JObject m) = free_members text_of secret m"
| "free_of text_of secret (JArray vs) = free_items text_of secret vs"
| "free_of text_of secret (JBool b) = True"
| "free_of text_of secret JNull = True"
| "free_members text_of secret [] = True"
| "free_members text_of secret ((k, v) # m) = (\<not> contains_str k secret \<and> free_of text_of secret v \<and> free_members text_of secret m)"
| "free_items text_of secret [] = True"
| "free_items text_of secret (v # vs) = (free_of text_of secret v \<and> free_items text_of secret vs)"

lemma free_members_iff:
  "free_members text_of secret m \<longleftrightarrow> (\<forall>(k, v) \<in> set m. \<not> contains_str k secret \<and> free_of text_of secret v)"
  by (induction m) auto

lemma free_members_insert:
  "free_members text_of secret m \<Longrightarrow> \<not> contains_str k secret \<Longrightarrow> free_of text_of secret v \<Longrightarrow>
   free_members text_of secret (obj_insert k v m)"
  using set_obj_insert [of k v m] unfolding free_members_iff by blast

lemma redacted_hides: "unbracketed s \<Longrightarrow> \<not> contains_str ''redacted'' s \<Longrightarrow> \<not> contains_str REDACTED s"
  using hub_marker.contains_marker [of "[]" "[]" s] by (auto simp: unbracketed_def)

lemma redact_json_string_free:
  assumes "unbracketed s" and "\<not> contains_str ''redacted'' s"
  shows "free_of text_of s (fst (redact_json_string text_of s v))"
    and "free_members text_of s m' \<Longrightarrow> free_members text_of s (fst (redact_string_members text_of s m m'))"
    and "free_items text_of s (fst (redact_string_items text_of s vs))"
  using assms
  by (induction text_of s v and text_of s m m' and text_of s vs
      rule: redact_json_string_redact_string_members_redact_string_items.induct)
    (auto simp: hub_marker.replace_absent redacted_hides free_members_insert Let_def split: prod.splits)

text \<open>A value that is reported unchanged was free of the secret.\<close>

lemma redact_json_string_unchanged:
  "\<not> snd (redact_json_string text_of s v) \<Longrightarrow> free_of text_of s v"
  "\<not> snd (redact_string_members text_of s m m') \<Longrightarrow> free_members text_of s m"
  "\<not> snd (redact_string_items text_of s vs) \<Longrightarrow> free_items text_of s vs"
  by (induction text_of s v and text_of s m m' and text_of s vs
      rule: redact_json_string_redact_string_members_redact_string_items.induct)
    (auto simp: Let_def split: prod.splits if_splits)

text \<open>Every credential is hidden, and what is reported unchanged is unchanged.\<close>

fun hidden :: "json \<Rightarrow> bool"
  and hidden_members :: "json_object \<Rightarrow> bool"
  and hidden_items :: "json list \<Rightarrow> bool" where
  "hidden (JObject m) = hidden_members m"
| "hidden (JArray vs) = hidden_items vs"
| "hidden (JString s) = True"
| "hidden (JNumber n) = True"
| "hidden (JBool b) = True"
| "hidden JNull = True"
| "hidden_members [] = True"
| "hidden_members ((k, v) # m) = ((if is_credential_key k then v = JString REDACTED else hidden v) \<and> hidden_members m)"
| "hidden_items [] = True"
| "hidden_items (v # vs) = (hidden v \<and> hidden_items vs)"

lemma redact_json_value_hidden:
  "hidden (fst (redact_json_value v))"
  "hidden_members (fst (redact_json_members m))"
  "hidden_items (fst (redact_json_items vs))"
  by (induction v and m and vs rule: redact_json_value_redact_json_members_redact_json_items.induct)
    (auto simp: Let_def split: prod.splits if_splits)

lemma redact_json_value_unchanged:
  "\<not> snd (redact_json_value v) \<Longrightarrow> fst (redact_json_value v) = v"
  "\<not> snd (redact_json_members m) \<Longrightarrow> fst (redact_json_members m) = m"
  "\<not> snd (redact_json_items vs) \<Longrightarrow> fst (redact_json_items vs) = vs"
  by (induction v and m and vs rule: redact_json_value_redact_json_members_redact_json_items.induct)
    (auto simp: Let_def split: prod.splits if_splits)

section \<open>Values of keys\<close>

text \<open>The scanner looks only at what lies behind its cursor.\<close>

lemma bounds_start_drop: "bounds_start line (n + e) = map_option ((+) n) (bounds_start (drop n line) e)"
  by (auto simp: bounds_start_def add.commute [of n] option.map_comp comp_def ac_simps split: list.split)

lemma value_bounds_drop: "value_bounds line (n + b) = map_prod ((+) n) ((+) n) (value_bounds (drop n line) b)"
  by (auto simp: value_bounds_def Let_def add.commute [of n] add.assoc add.left_commute [of n])

lemma key_value_bounds_drop:
  "key_value_bounds line (n + e) = map_option (map_prod ((+) n) ((+) n)) (key_value_bounds (drop n line) e)"
  by (simp add: key_value_bounds_def bounds_start_drop option.map_comp comp_def value_bounds_drop)

lemma slice_drop: "slice (n + a) (n + b) line = slice a b (drop n line)"
  by (simp add: slice_def add.commute)

lemma loop_hit:
  assumes "find_str (drop cursor (to_ascii_lowercase line)) key = Some offset" and "cursor + offset + length key = e"
  shows "redact_key_value_loop line key cursor redacted =
     (case key_value_bounds line e of
        None \<Rightarrow> redact_key_value_loop line key e (redacted @ slice cursor e line)
      | Some (a, b) \<Rightarrow> redact_key_value_loop line key b (redacted @ slice cursor a line @ REDACTED))"
  using assms by (subst redact_key_value_loop.simps) (simp add: Let_def)

lemma loop_drop:
  assumes "key \<noteq> []" and "n + cursor \<le> length line"
  shows "redact_key_value_loop line key (n + cursor) redacted = redact_key_value_loop (drop n line) key cursor redacted"
  using assms(2)
proof (induction "length line - cursor" arbitrary: cursor redacted rule: less_induct)
  case less
  have f: "find_str (drop (n + cursor) (to_ascii_lowercase line)) key = find_str (drop cursor (to_ascii_lowercase (drop n line))) key"
    by (simp add: drop_map add.commute)
  show ?case
  proof (cases "find_str (drop (n + cursor) (to_ascii_lowercase line)) key")
    case None
    then show ?thesis
      using f by (subst (1 2) redact_key_value_loop.simps) (simp add: add.commute)
  next
    case (Some offset)
    note hit = Some
    define e where "e = cursor + offset + length key"
    have e: "cursor < e" "n + e \<le> length line"
      using find_str_bounds [OF Some] less.prems assms(1) by (auto simp: Suc_le_eq e_def)
    have fs: "find_str (drop cursor (to_ascii_lowercase (drop n line))) key = Some offset"
      using Some f by simp
    show ?thesis
    proof (cases "key_value_bounds (drop n line) e")
      case None
      have "redact_key_value_loop line key (n + e) (redacted @ slice cursor e (drop n line)) =
          redact_key_value_loop (drop n line) key e (redacted @ slice cursor e (drop n line))"
        using less.hyps [of e] e by simp
      then show ?thesis
        using None key_value_bounds_drop [of line n e] loop_hit [OF Some, of "n + e"] loop_hit [OF fs, of e]
        by (simp add: e_def slice_drop)
    next
      case (Some ab)
      obtain a b where ab: "ab = (a, b)" by fastforce
      have b: "e < a" "a \<le> b" "n + b \<le> length line"
        using key_value_bounds_range [of "drop n line" e a b] Some ab by auto
      have "redact_key_value_loop line key (n + b) (redacted @ slice cursor a (drop n line) @ REDACTED) =
          redact_key_value_loop (drop n line) key b (redacted @ slice cursor a (drop n line) @ REDACTED)"
        using less.hyps [of b] e b by simp
      then show ?thesis
        using Some ab key_value_bounds_drop [of line n e] loop_hit [OF hit, of "n + e"] loop_hit [OF fs, of e]
        by (simp add: e_def slice_drop)
    qed
  qed
qed

lemma loop_accumulates:
  assumes "key \<noteq> []" and "cursor \<le> length line"
  shows "redact_key_value_loop line key cursor (p @ redacted) = map_option ((@) p) (redact_key_value_loop line key cursor redacted)"
  using assms(2)
proof (induction "length line - cursor" arbitrary: cursor redacted rule: less_induct)
  case less
  show ?case
  proof (cases "find_str (drop cursor (to_ascii_lowercase line)) key")
    case None
    then show ?thesis
      by (subst (1 2) redact_key_value_loop.simps) simp
  next
    case (Some offset)
    define e where "e = cursor + offset + length key"
    have e: "cursor < e" "e \<le> length line"
      using find_str_bounds [OF Some] less.prems assms(1) by (auto simp: Suc_le_eq e_def)
    note hit = loop_hit [OF Some e_def [symmetric]]
    show ?thesis
    proof (cases "key_value_bounds line e")
      case None
      then show ?thesis
        using less.hyps [of e "redacted @ slice cursor e line"] e by (simp add: hit)
    next
      case (Some ab)
      obtain a b where ab: "ab = (a, b)" by fastforce
      have "e < a" "a \<le> b" "b \<le> length line"
        using key_value_bounds_range [of line e a b] Some ab by auto
      then show ?thesis
        using less.hyps [of b "redacted @ slice cursor a line @ REDACTED"] e Some ab by (simp add: hit)
    qed
  qed
qed

text \<open>An assigned value: text that does not start with a blank or a quote and reaches up to a delimiter.\<close>

definition assigned :: "string \<Rightarrow> string \<Rightarrow> bool" where
  "assigned v post \<longleftrightarrow> v \<noteq> [] \<and> list_all (\<lambda>c. \<not> ends_value c) v \<and> ws_len (v @ post) = 0 \<and> (post = [] \<or> ends_value (hd post))"

lemma value_offset_blanks:
  assumes "set gap \<subseteq> {CHR '' ''}" and "value_offset s = Some 0"
  shows "value_offset (gap @ s) = Some (length gap)"
  using assms(1)
proof (induction gap)
  case (Cons c gap)
  then have "c = CHR '' ''" "value_offset (gap @ s) = Some (length gap)" by auto
  moreover have "ws_len (CHR '' '' # gap @ s) = 1" by (simp add: ws_len.simps)
  ultimately show ?case by (subst value_offset.simps) simp
qed (simp add: assms(2))

lemma value_bounds_assigned:
  assumes "assigned v post" and "set gap \<subseteq> {CHR '' ''}" and "length u = n"
  shows "value_bounds (u @ gap @ v @ post) n = (n + length gap, n + length gap + length v)"
proof -
  have "value_offset (v @ post) = Some 0"
    using assms(1) by (subst value_offset.simps) (cases v, auto simp: assigned_def ends_value_def)
  then have "value_offset (gap @ v @ post) = Some (length gap)" by (rule value_offset_blanks [OF assms(2)])
  moreover have "takeWhile (\<lambda>c. \<not> ends_value c) (v @ post) = v"
    using assms(1) by (cases post) (auto simp: assigned_def list_all_iff takeWhile_append2)
  ultimately show ?thesis
    using assms(3) by (simp add: value_bounds_def Let_def)
qed

lemma split_once_at:
  assumes "pat \<noteq> []" and "\<not> contains_str (a @ butlast pat) pat"
  shows "split_once_str (a @ pat @ b) pat = Some (a, b)"
  using assms(2)
proof (induction a)
  case Nil
  have "strip_prefix pat (pat @ b) = Some b" by (simp add: strip_prefix_Some)
  then show ?case
    using assms(1) by (cases pat) simp_all
next
  case (Cons c a)
  have "strip_prefix pat (c # a @ pat @ b) = None"
  proof (rule ccontr)
    assume "\<not> ?thesis"
    then obtain t where t: "c # a @ pat @ b = pat @ t"
      by (auto simp: strip_prefix_Some)
    have "pat = take (length pat) (c # a @ pat @ b)"
      by (simp add: t)
    also have "\<dots> = take (length pat) ((c # a) @ butlast pat)"
      by (cases pat rule: rev_cases) (use assms(1) in \<open>auto simp: take_Cons'\<close>)
    finally have "(c # a) @ butlast pat = pat @ drop (length pat) ((c # a) @ butlast pat)"
      by (metis append_take_drop_id)
    then show False
      using Cons.prems unfolding contains_str_iff by (metis append_Nil)
  qed
  then show ?case
    using Cons by simp
qed

text \<open>
  The value assigned to a key is redacted. In a line in which a key is followed by \<open>=\<close> or \<open>:\<close>, maybe blanks, and a value, and does not
  occur earlier, the result keeps the text up to the value, has the marker instead of the value, and continues with the
  redaction of the rest of the line: nothing of the result depends on the value.
\<close>

lemma assigned_value_redacted:
  assumes "to_ascii_lowercase k = key" and "key \<noteq> []" and "\<not> contains_str (to_ascii_lowercase (pre @ butlast k)) key"
    and "sep = CHR ''='' \<or> sep = CHR '':''" and "set gap \<subseteq> {CHR '' ''}" and "assigned v post"
  shows "redact_key_value (pre @ k @ sep # gap @ v @ post) key =
     map_option (\<lambda>rest. pre @ k @ sep # gap @ REDACTED @ rest) (redact_key_value post key)"
proof -
  let ?line = "pre @ k @ sep # gap @ v @ post" and ?e = "length pre + length k"
  let ?a = "?e + 1 + length gap" and ?head = "pre @ k @ sep # gap @ REDACTED"
  have lk: "length k = length key" using assms(1) by auto
  have "find_str (drop 0 (to_ascii_lowercase ?line)) key = Some (length pre)"
    using split_once_at [of key "to_ascii_lowercase pre" "to_ascii_lowercase (sep # gap @ v @ post)"] assms(1-3)
    by (auto simp: find_str_def map_butlast)
  then have "redact_key_value ?line key =
     (case key_value_bounds ?line ?e of
        None \<Rightarrow> redact_key_value_loop ?line key ?e (slice 0 ?e ?line)
      | Some (a, b) \<Rightarrow> redact_key_value_loop ?line key b (slice 0 a ?line @ REDACTED))"
    using loop_hit [of 0 ?line key "length pre" ?e "[]"] by (simp add: redact_key_value_def lk split: option.split)
  moreover have "key_value_bounds ?line ?e = Some (?a, ?a + length v)"
    using assms(4) value_bounds_assigned [OF assms(6,5), of "pre @ k @ [sep]" "?e + 1"]
    by (auto simp: key_value_bounds_def bounds_start_def)
  moreover have "slice 0 ?a ?line = pre @ k @ sep # gap"
    by (simp add: slice_def)
  moreover have "redact_key_value_loop ?line key (?a + length v + 0) (?head @ []) =
      map_option ((@) ?head) (redact_key_value_loop post key 0 [])"
    using loop_drop [OF assms(2), of "?a + length v" 0 ?line] loop_accumulates [OF assms(2), of 0 post ?head "[]"]
    by simp
  ultimately show ?thesis
    by (cases "redact_key_value_loop post key 0 []") (simp_all add: redact_key_value_def)
qed

lemma assigned_value_redacted_witness:
  "redact_key_value ''a Ticket= xy, b'' ''ticket'' = Some ''a Ticket= [redacted], b''"
proof -
  have "\<not> contains_str (to_ascii_lowercase (''a '' @ butlast ''Ticket'')) ''ticket''" by code_simp
  moreover have "assigned ''xy'' '', b''" by code_simp
  moreover have "to_ascii_lowercase ''Ticket'' = ''ticket''" by code_simp
  ultimately have "redact_key_value (''a '' @ ''Ticket'' @ CHR ''='' # '' '' @ ''xy'' @ '', b'') ''ticket'' =
     map_option (\<lambda>rest. ''a '' @ ''Ticket'' @ CHR ''='' # '' '' @ REDACTED @ rest) (redact_key_value '', b'' ''ticket'')"
    by (intro assigned_value_redacted) simp_all
  moreover have "redact_key_value '', b'' ''ticket'' = Some '', b''" by code_simp
  ultimately show ?thesis by (simp add: REDACTED_def)
qed

section \<open>No secret of a printer gets through\<close>



lemma set_record_distinct: "set (record_distinct vs v) = (if v = [] then set vs else insert v (set vs))"
  by (auto simp: record_distinct_def)

lemma from_endpoints_sets:
  "set (es_access_codes (fold record_endpoint es s)) = set (es_access_codes s) \<union> (fst ` set es - {[]})"
  "set (es_hosts (fold record_endpoint es s)) = set (es_hosts s) \<union> (snd ` set es - {[]})"
  by (induction es arbitrary: s) (auto simp: record_endpoint_def set_record_distinct)

lemma fold_removes:
  assumes "\<And>t x. \<not> contains_str t s \<Longrightarrow> \<not> contains_str (f t x) s" and "\<And>t. \<not> contains_str (f t s) s"
    and "s \<in> set xs \<or> \<not> contains_str t s"
  shows "\<not> contains_str (foldl f t xs) s"
  using assms(3)
proof (induction xs arbitrary: t)
  case (Cons x xs)
  have "s \<in> set xs \<or> \<not> contains_str (f t x) s"
    using Cons.prems assms(1,2) by (cases "s = x") auto
  with Cons.IH show ?case by simp
qed simp

text \<open>
  The agent's diagnostics never show an access code or a host of a recorded printer. Whatever the message and the order of the endpoints,
  after redaction the text contains no access code and no host of any endpoint, provided that this secret is not empty, has no
  square bracket and is not part of one of the two markers.
\<close>

lemma endpoint_secrets_removed:
  assumes "(code, host) \<in> set endpoints" and "s = code \<or> s = host" and "unbracketed s"
    and "\<not> contains_str ''REDACTED_ACCESS_CODE'' s" "\<not> contains_str ''REDACTED_PRINTER_HOST'' s"
  shows "\<not> contains_str (redact (from_endpoints endpoints) m) s"
proof -
  let ?e = "from_endpoints endpoints"
  let ?hosts = "foldl (\<lambda>s host. replace_str s host ''[REDACTED_PRINTER_HOST]'') m (es_hosts ?e)"
  have ne: "s \<noteq> []" using assms(3) by (simp add: unbracketed_def)
  have "s \<in> set (es_access_codes ?e) \<or> s \<in> set (es_hosts ?e)"
    using assms(1,2) ne by (auto simp: from_endpoints_def from_endpoints_sets intro: rev_image_eqI)
  moreover have "\<not> contains_str ?hosts s" if "s \<in> set (es_hosts ?e)"
    by (rule fold_removes) (use that host_marker.replace_absent [OF assms(3,5)] in auto)
  ultimately have "s \<in> set (es_access_codes ?e) \<or> \<not> contains_str ?hosts s"
    by blast
  then show ?thesis
    unfolding redact_def redact_known_access_codes_def
    by (intro fold_removes) (auto simp: redact_access_code_def ne code_marker.replace_absent [OF assms(3,4)])
qed

lemma endpoint_secrets_removed_witness:
  "\<not> contains_str (redact (from_endpoints [(''77'', ''10.0.0.1''), (''7'', ''h'')]) ''10.0.0.1 refused 77'') ''77''"
proof (rule endpoint_secrets_removed)
  show "(''77'', ''10.0.0.1'') \<in> set [(''77'', ''10.0.0.1''), (''7'', ''h'')]" by simp
  show "''77'' = ''77'' \<or> ''77'' = ''10.0.0.1''" by simp
  show "unbracketed ''77''" by code_simp
  show "\<not> contains_str ''REDACTED_ACCESS_CODE'' ''77''" "\<not> contains_str ''REDACTED_PRINTER_HOST'' ''77''" by code_simp+
qed

text \<open>
  JSON results: every member whose key names a credential has the marker as its value, at any depth, and a value without such a
  member is stored as it was written.
\<close>

lemma credentials_hidden:
  assumes "rd_from_str cd s = Some v"
  shows "hidden (fst (redact_json_value v)) \<and>
     redact_result_json cd s =
       Some (if snd (redact_json_value v) then rd_to_string cd (fst (redact_json_value v)) else s) \<and>
     (\<not> snd (redact_json_value v) \<longrightarrow> hidden v)"
  using assms redact_json_value_hidden(1) [of v] redact_json_value_unchanged(1) [of v]
  by (auto simp: redact_result_json_def case_prod_unfold)


text \<open>A quoted key in prose hides an assignment of the same key up to the next colon.\<close>

lemma quoted_key_hides_assignment:
  "redact_secrets (CHR 0x22 # ''access_code'' @ CHR 0x22 # '' bad, access_code=c7: no'') =
   Some (CHR 0x22 # ''access_code'' @ CHR 0x22 # '' bad, access_code=c7: [redacted]'')"
  by code_simp

end
