(* ===== verification/Hub_Quota.thy ===== *)
theory Hub_Quota
  imports Hub_Cleanup
begin

text \<open>
  The artifact quota and the deletion queue: \<open>crates/pandar-hub/src/repositories/jobs/quota.rs\<close>, the quota check of
  \<open>repositories/jobs/audit.rs\<close>, and \<open>artifacts/lifecycle.rs\<close>. An upload first reserves its size for five minutes; the
  reservation is turned into an artifact row with its print job, or released, or reaped once it has expired, and
  the files of released and reaped reservations are queued for deletion.

  Times are RFC 3339 texts, compared as texts as the SQL does. Every reading of the clock is an argument. The advisory locks of
  PostgreSQL make these transactions exclude each other; a transaction is one step.
\<close>

section \<open>State\<close>

record reservation_row =
  rv_id :: string
  rv_tenant_id :: string
  rv_artifact_id :: string
  rv_storage_path :: string
  rv_size_bytes :: i64
  rv_expires_at :: timestamp
  rv_created_at :: timestamp

record artifact_quota_limits =
  ql_tenant_bytes :: u64
  ql_tenant_count :: u64
  ql_global_bytes :: u64
  ql_global_count :: u64

record quota_db =
  qd_hub :: hub_db
  qd_reservations :: "reservation_row list"

text \<open>The handle an upload keeps of its reservation.\<close>

record artifact_quota_reservation =
  qr_id :: string
  qr_tenant_id :: tenant_id
  qr_artifact_id :: string
  qr_storage_path :: string

section \<open>The quota check\<close>

definition live_reservations :: "timestamp \<Rightarrow> reservation_row list \<Rightarrow> reservation_row list" where
  "live_reservations now rows = filter (\<lambda>r. text_less now (rv_expires_at r)) rows"

text \<open>One query of the check: the bytes and the number of the selected artifacts and live reservations.\<close>

definition artifact_usage ::
  "timestamp \<Rightarrow> (tenant_id \<Rightarrow> bool) \<Rightarrow> quota_db \<Rightarrow> int \<times> int" where
  "artifact_usage now selected q =
     (let artifacts = filter (\<lambda>a. selected (fr_tenant_id a)) (db_artifacts (qd_hub q));
          reservations = filter (\<lambda>r. selected (rv_tenant_id r)) (live_reservations now (qd_reservations q))
      in (sum_list (map fr_size_bytes artifacts) + sum_list (map rv_size_bytes reservations),
          int (length artifacts) + int (length reservations)))"

text \<open>A sum is decoded as \<open>i64\<close> and converted to \<open>u64\<close>.\<close>

definition decode_u64 :: "int \<Rightarrow> u64 repository_result" where
  "decode_u64 n =
     (if \<not> (- (2 ^ 63) \<le> n \<and> n < 2 ^ 63) then Err (Database (Message ''failed to decode artifact usage''))
      else if n < 0 then Err (Database (Message ''artifact usage must be non-negative''))
      else Ok (word_of_int n))"

definition saturating_add :: "u64 \<Rightarrow> u64 \<Rightarrow> u64" where
  "saturating_add a b = (if unat a + unat b < 2 ^ 64 then a + b else - 1)"

definition check_usage :: "int \<times> int \<Rightarrow> u64 \<Rightarrow> u64 \<Rightarrow> u64 \<Rightarrow> unit repository_result" where
  "check_usage usage upload_bytes max_bytes max_count =
     and_then (decode_u64 (fst usage)) (\<lambda>bytes.
     and_then (decode_u64 (snd usage)) (\<lambda>count.
       if count \<ge> max_count \<or> saturating_add bytes upload_bytes > max_bytes then Err ArtifactQuotaExceeded else Ok ()))"

definition enforce_artifact_quota ::
  "timestamp \<Rightarrow> tenant_id \<Rightarrow> u64 \<Rightarrow> artifact_quota_limits \<Rightarrow> quota_db \<Rightarrow> unit repository_result" where
  "enforce_artifact_quota now tenant upload_bytes quota q =
     and_then (check_usage (artifact_usage now (\<lambda>t. t = tenant) q) upload_bytes (ql_tenant_bytes quota) (ql_tenant_count quota)) (\<lambda>_.
     check_usage (artifact_usage now (\<lambda>_. True) q) upload_bytes (ql_global_bytes quota) (ql_global_count quota))"

section \<open>Reservations\<close>

definition reap_expired_reservations_in_transaction ::
  "db_backend \<Rightarrow> timestamp \<Rightarrow> quota_db \<Rightarrow> (reservation_row list \<times> quota_db) repository_result" where
  "reap_expired_reservations_in_transaction backend cutoff q =
     (let expired = filter (\<lambda>r. \<not> text_less cutoff (rv_expires_at r)) (qd_reservations q)
      in and_then (enqueue_deletions backend (map rv_storage_path expired) (qd_hub q)) (\<lambda>db.
           Ok (expired,
               q\<lparr>qd_hub := db,
                 qd_reservations := filter (\<lambda>r. text_less cutoff (rv_expires_at r)) (qd_reservations q)\<rparr>)))"

definition reap_expired_reservations :: "db_backend \<Rightarrow> timestamp \<Rightarrow> quota_db \<Rightarrow> (nat \<times> quota_db) repository_result" where
  "reap_expired_reservations backend cutoff q =
     and_then (reap_expired_reservations_in_transaction backend cutoff q) (\<lambda>(expired, q'). Ok (length expired, q'))"

record reservation_draw =
  rw_cutoff :: timestamp
  rw_now :: timestamp
  rw_id :: string
  rw_expires_at :: timestamp
  rw_created_at :: timestamp

definition new_reservation :: "reservation_draw \<Rightarrow> tenant_id \<Rightarrow> string \<Rightarrow> string \<Rightarrow> u64 \<Rightarrow> reservation_row" where
  "new_reservation d tenant artifact_id storage_path upload_bytes =
     \<lparr>rv_id = rw_id d, rv_tenant_id = tenant, rv_artifact_id = artifact_id, rv_storage_path = storage_path,
      rv_size_bytes = uint upload_bytes, rv_expires_at = rw_expires_at d, rv_created_at = rw_created_at d\<rparr>"

definition reserve_artifact_quota ::
  "db_backend \<Rightarrow> reservation_draw \<Rightarrow> tenant_id \<Rightarrow> string \<Rightarrow> string \<Rightarrow> u64 \<Rightarrow> artifact_quota_limits \<Rightarrow> quota_db \<Rightarrow>
     (artifact_quota_reservation \<times> quota_db) repository_result" where
  "reserve_artifact_quota backend d tenant artifact_id storage_path upload_bytes quota q =
     and_then (reap_expired_reservations_in_transaction backend (rw_cutoff d) q) (\<lambda>(_, q1).
         and_then (enforce_artifact_quota (rw_now d) tenant upload_bytes quota q1) (\<lambda>_.
           if \<not> uint upload_bytes < 2 ^ 63 then Err (Database (Message ''upload size exceeds int64''))
           else if rw_id d \<in> rv_id ` set (qd_reservations q1)
                then Err (Database (Message ''failed to insert artifact quota reservation''))
           else Ok (\<lparr>qr_id = rw_id d, qr_tenant_id = tenant, qr_artifact_id = artifact_id, qr_storage_path = storage_path\<rparr>,
                    q1\<lparr>qd_reservations := qd_reservations q1 @
                      [new_reservation d tenant artifact_id storage_path upload_bytes]\<rparr>)))"

record job_draw =
  jd_now :: timestamp
  jd_job :: job_id
  jd_command :: command_id
  jd_event :: string
  jd_event_now :: timestamp

definition create_print_job_in_transaction ::
  "job_codec \<Rightarrow> job_draw \<Rightarrow> create_print_job \<Rightarrow> studio_print_metadata option \<Rightarrow> audit_actor \<Rightarrow> hub_db \<Rightarrow>
     (job_with_artifact \<times> hub_db) repository_result" where
  "create_print_job_in_transaction codec d input metadata actor db =
     and_then (create_print_job_tx codec (jd_now d) (jd_job d) (jd_command d) input metadata db) (\<lambda>(w, db1).
       Ok (w, append_audit (record_audit_event (jc_audit_text codec) (jd_event d) (jd_event_now d) (job_tenant_id (jwa_job w)) actor
                 ''job.create'' ''job'' (Some (job_id (jwa_job w))) (AuditObject [])) db1))"

definition can_finalize :: "timestamp \<Rightarrow> artifact_quota_reservation \<Rightarrow> create_print_job \<Rightarrow> reservation_row \<Rightarrow> bool" where
  "can_finalize now handle input r \<longleftrightarrow>
     text_less now (rv_expires_at r) \<and> rv_tenant_id r = qr_tenant_id handle \<and>
     rv_artifact_id r = qr_artifact_id handle \<and> rv_storage_path r = qr_storage_path handle \<and>
     pai_id (cpj_artifact input) = qr_artifact_id handle \<and> pai_storage_path (cpj_artifact input) = qr_storage_path handle"

definition complete_reservation ::
  "job_codec \<Rightarrow> timestamp \<Rightarrow> job_draw \<Rightarrow> artifact_quota_reservation \<Rightarrow> create_print_job \<Rightarrow> studio_print_metadata option \<Rightarrow>
     audit_actor \<Rightarrow> quota_db \<Rightarrow> (job_with_artifact \<times> quota_db) repository_result" where
  "complete_reservation codec now d handle input metadata actor q =
     and_then (ok_or (find_by_id rv_id (qr_id handle) (qd_reservations q))
                 (Database (Message ''artifact quota reservation is no longer active''))) (\<lambda>r.
       if \<not> can_finalize now handle input r
       then Err (Database (Message ''artifact quota reservation cannot be finalized''))
       else and_then (create_print_job_in_transaction codec d input metadata actor (qd_hub q)) (\<lambda>(w, db1).
              Ok (w, \<lparr>qd_hub = db1, qd_reservations = filter (\<lambda>r. rv_id r \<noteq> qr_id handle) (qd_reservations q)\<rparr>)))"

definition release_reservation :: "db_backend \<Rightarrow> artifact_quota_reservation \<Rightarrow> quota_db \<Rightarrow> quota_db repository_result" where
  "release_reservation backend handle q =
     (case find_by_id rv_id (qr_id handle) (qd_reservations q) of
        None \<Rightarrow> Ok q
      | Some r \<Rightarrow>
          and_then (enqueue_deletion backend (rv_storage_path r) (qd_hub q)) (\<lambda>db.
            Ok (q\<lparr>qd_hub := db, qd_reservations := filter (\<lambda>r. rv_id r \<noteq> qr_id handle) (qd_reservations q)\<rparr>)))"

section \<open>Steps\<close>

definition not_before :: "timestamp \<Rightarrow> timestamp \<Rightarrow> bool" where
  "not_before now t \<longleftrightarrow> \<not> text_less now t"

text \<open>
  The runs of the upload path under a clock that does not run backwards. The storage key of a new upload holds a fresh identifier, so no
  row has its path; the size of the stored file is the size that was measured before it was reserved, and the
  job is created for the tenant of the reservation (\<open>routes/jobs/multipart/upload.rs\<close> passes both). Every other transaction
  keeps the artifacts and the queue, or takes paths from the queue once their files are gone.
\<close>

inductive quota_step :: "job_codec \<Rightarrow> artifact_quota_limits \<Rightarrow> timestamp \<times> quota_db \<Rightarrow> timestamp \<times> quota_db \<Rightarrow> bool"
  for codec quota where
  reserve: "not_before (rw_cutoff d) t \<Longrightarrow> not_before (rw_now d) (rw_cutoff d) \<Longrightarrow>
    path \<notin> fr_storage_path ` set (db_artifacts (qd_hub q)) \<Longrightarrow> path \<notin> rv_storage_path ` set (qd_reservations q) \<Longrightarrow>
    path \<notin> set (db_artifact_deletions (qd_hub q)) \<Longrightarrow>
    reserve_artifact_quota backend d tenant artifact path upload quota q = Ok (handle, q') \<Longrightarrow>
    quota_step codec quota (t, q) (rw_now d, q')"
| complete: "not_before now t \<Longrightarrow> cpj_tenant_id input = qr_tenant_id handle \<Longrightarrow>
    find_by_id rv_id (qr_id handle) (qd_reservations q) = Some r \<Longrightarrow> uint (pai_size_bytes (cpj_artifact input)) = rv_size_bytes r \<Longrightarrow>
    complete_reservation codec now d handle input metadata actor q = Ok (w, q') \<Longrightarrow> quota_step codec quota (t, q) (now, q')"
| release: "release_reservation backend handle q = Ok q' \<Longrightarrow> quota_step codec quota (t, q) (t, q')"
| reap: "not_before cutoff t \<Longrightarrow> reap_expired_reservations backend cutoff q = Ok (n, q') \<Longrightarrow> quota_step codec quota (t, q) (cutoff, q')"
| clear: "clear_tx backend codec pt now_at ev_now ev tenant scope actor (qd_hub q) = Ok (out, db') \<Longrightarrow>
    quota_step codec quota (t, q) (t, q\<lparr>qd_hub := db'\<rparr>)"
| cleanup: "cleanup_jobs_and_artifacts backend cutoff (qd_hub q) = Ok db' \<Longrightarrow> quota_step codec quota (t, q) (t, q\<lparr>qd_hub := db'\<rparr>)"
| other: "db_artifacts db' = db_artifacts (qd_hub q) \<Longrightarrow>
    set (db_artifact_deletions db') \<subseteq> set (db_artifact_deletions (qd_hub q)) \<Longrightarrow>
    quota_step codec quota (t, q) (t, q\<lparr>qd_hub := db'\<rparr>)"

section \<open>What each operation does to the rows\<close>

definition reaped :: "timestamp \<Rightarrow> quota_db \<Rightarrow> quota_db" where
  "reaped cutoff q =
     q\<lparr>qd_hub := fold queue_path (map rv_storage_path (filter (\<lambda>r. \<not> text_less cutoff (rv_expires_at r)) (qd_reservations q))) (qd_hub q),
       qd_reservations := filter (\<lambda>r. text_less cutoff (rv_expires_at r)) (qd_reservations q)\<rparr>"

lemma reap_Ok:
  "reap_expired_reservations_in_transaction backend cutoff q = Ok (expired, q') \<Longrightarrow> q' = reaped cutoff q"
  "reap_expired_reservations backend cutoff q = Ok (n, q') \<Longrightarrow> q' = reaped cutoff q"
  by (auto simp: reap_expired_reservations_def reap_expired_reservations_in_transaction_def reaped_def result_simps Let_def
      dest!: enqueue_deletions_Ok)

lemma release_Ok:
  assumes "release_reservation backend handle q = Ok q'"
  obtains (gone) "q' = q"
  | (released) r where "r \<in> set (qd_reservations q)" "rv_id r = qr_id handle"
      "q' = q\<lparr>qd_hub := queue_path (rv_storage_path r) (qd_hub q),
             qd_reservations := filter (\<lambda>r. rv_id r \<noteq> qr_id handle) (qd_reservations q)\<rparr>"
proof (cases "find_by_id rv_id (qr_id handle) (qd_reservations q)")
  case None
  then show thesis using assms gone by (simp add: release_reservation_def)
next
  case (Some r)
  then show thesis
    using assms released [of r] find_by_id_Some [OF Some]
    by (simp add: release_reservation_def enqueue_deletion_def result_simps split: if_splits)
qed

lemma allocate_keeps:
  "allocate tenant db = Ok (s, db1) \<Longrightarrow> db_artifacts db1 = db_artifacts db \<and> db_artifact_deletions db1 = db_artifact_deletions db"
  by (auto simp: allocate_def Let_def result_simps split: if_splits prod.splits option.splits)

lemma insert_command_and_job_keeps:
  "insert_command_and_job codec input i c serial submission metadata now db = Ok (w, db') \<Longrightarrow>
   db_artifacts db' = db_artifacts db \<and> db_artifact_deletions db' = db_artifact_deletions db"
  by (auto simp: insert_command_and_job_def insert_command_def insert_with_status_def insert_job_def Let_def result_simps
      split: if_splits)

definition artifact_row_of :: "timestamp \<Rightarrow> create_print_job \<Rightarrow> artifact_row" where
  "artifact_row_of now input =
     (let a = cpj_artifact input
      in \<lparr>fr_id = pai_id a, fr_tenant_id = cpj_tenant_id input, fr_filename = pai_filename a,
          fr_content_type = pai_content_type a, fr_size_bytes = sint (pai_size_bytes a), fr_storage_path = pai_storage_path a,
          fr_metadata_json = pai_metadata_json a, fr_created_at = now\<rparr>)"

lemma create_adds_artifact:
  assumes "create_print_job_in_transaction codec d input metadata actor db = Ok (w, db')"
  shows "db_artifacts db' = db_artifacts db @ [artifact_row_of (jd_now d) input]"
    and "db_artifact_deletions db' = db_artifact_deletions db"
proof -
  from assms obtain serial submission db1 db2 db3 where
    a: "allocate (cpj_tenant_id input) db = Ok (submission, db1)"
    and f: "insert_artifact input (jd_now d) db1 = Ok db2"
    and c: "insert_command_and_job codec input (jd_job d) (jd_command d) serial submission metadata (jd_now d) db2 = Ok (w, db3)"
    and e: "db_artifacts db' = db_artifacts db3" "db_artifact_deletions db' = db_artifact_deletions db3"
    by (auto simp: create_print_job_in_transaction_def create_print_job_tx_def append_audit_def result_simps)
  have "db_artifacts db2 = db_artifacts db1 @ [artifact_row_of (jd_now d) input]"
    "db_artifact_deletions db2 = db_artifact_deletions db1"
    using f by (auto simp: insert_artifact_def artifact_row_of_def Let_def split: if_splits)
  then show "db_artifacts db' = db_artifacts db @ [artifact_row_of (jd_now d) input]"
    "db_artifact_deletions db' = db_artifact_deletions db"
    using e allocate_keeps [OF a] insert_command_and_job_keeps [OF c] by simp_all
qed

text \<open>Clearing takes rows away and queues the paths of rows it takes away.\<close>

lemma clear_queue:
  assumes "clear_tx backend codec pt now_at ev_now ev tenant scope actor db = Ok (out, db')"
  obtains P where "db_artifacts db' = filter P (db_artifacts db)"
    "set (db_artifact_deletions db') \<subseteq> set (db_artifact_deletions db) \<union> fr_storage_path ` set (filter (\<lambda>a. \<not> P a) (db_artifacts db))"
proof -
  from assms obtain jobs commands candidates orphans clearable out' db4 where
    p: "clear_delete backend tenant jobs commands (locked_artifacts db tenant candidates) orphans clearable db = Ok (out', db4)"
    and e: "db_artifacts db' = db_artifacts db4" "db_artifact_deletions db' = db_artifact_deletions db4"
    by (auto simp: clear_tx_def Let_def result_simps append_audit_def)
  note t = clear_delete_tables(3,4) [OF p]
  show thesis
    using that [of "\<lambda>a. \<not> (fr_tenant_id a = tenant \<and> fr_id a \<in> set orphans)"] t e by (auto simp: locked_artifacts_def)
qed

lemma cleanup_queue:
  assumes "cleanup_jobs_and_artifacts backend cutoff db = Ok db'"
  obtains P where "db_artifacts db' = filter P (db_artifacts db)"
    "set (db_artifact_deletions db') \<subseteq> set (db_artifact_deletions db) \<union> fr_storage_path ` set (filter (\<lambda>a. \<not> P a) (db_artifacts db))"
  using assms by (rule cleanup_jobs_Ok) (auto intro: that)

section \<open>Sums\<close>

text \<open>Bytes and counts are the same sum with different weights.\<close>

definition weight_of ::
  "(artifact_row \<Rightarrow> int) \<Rightarrow> (reservation_row \<Rightarrow> int) \<Rightarrow> (tenant_id \<Rightarrow> bool) \<Rightarrow> timestamp \<Rightarrow> artifact_row list \<Rightarrow> reservation_row list \<Rightarrow> int" where
  "weight_of f g selected now artifacts reservations =
     sum_list (map f (filter (\<lambda>a. selected (fr_tenant_id a)) artifacts)) +
     sum_list (map g (filter (\<lambda>r. selected (rv_tenant_id r)) (live_reservations now reservations)))"

lemma artifact_usage_weights:
  "artifact_usage now selected q =
     (weight_of fr_size_bytes rv_size_bytes selected now (db_artifacts (qd_hub q)) (qd_reservations q),
      weight_of (\<lambda>_. 1) (\<lambda>_. 1) selected now (db_artifacts (qd_hub q)) (qd_reservations q))"
  by (simp add: artifact_usage_def weight_of_def Let_def sum_list_triv)

lemma sum_filter_le:
  fixes f :: "'a \<Rightarrow> int"
  assumes "\<And>x. x \<in> set xs \<Longrightarrow> 0 \<le> f x"
  shows "sum_list (map f (filter P xs)) \<le> sum_list (map f xs)"
  using assms by (induction xs) (auto simp: add_increasing)

lemma sum_without:
  fixes f :: "'a \<Rightarrow> int"
  assumes "distinct (map key xs)" and "x \<in> set xs"
  shows "sum_list (map f xs) = f x + sum_list (map f (filter (\<lambda>y. key y \<noteq> key x) xs))"
  using assms
proof (induction xs)
  case (Cons y ys)
  show ?case
  proof (cases "y = x")
    case True
    then have "filter (\<lambda>y. key y \<noteq> key x) ys = ys"
      using Cons.prems True by (auto simp: filter_id_conv image_iff)
    with True show ?thesis by simp
  next
    case False
    then have "key y \<noteq> key x"
      using Cons.prems by auto
    with False Cons show ?thesis by simp
  qed
qed simp

lemma not_before_trans: "not_before b a \<Longrightarrow> text_less b c \<Longrightarrow> text_less a c"
  using text_less_trans text_less_linear unfolding not_before_def by blast

lemma live_later: "not_before now t \<Longrightarrow> live_reservations now rs = filter (\<lambda>r. text_less now (rv_expires_at r)) (live_reservations t rs)"
  by (auto simp: live_reservations_def not_before_trans intro!: filter_cong)

definition sized :: "artifact_row list \<Rightarrow> reservation_row list \<Rightarrow> bool" where
  "sized rows reservations \<longleftrightarrow> list_all (\<lambda>a. 0 \<le> fr_size_bytes a) rows \<and> list_all (\<lambda>r. 0 \<le> rv_size_bytes r) reservations"

text \<open>A measure of usage: no row of non-negative size weighs less than nothing.\<close>

locale usage_weight =
  fixes f :: "artifact_row \<Rightarrow> int" and g :: "reservation_row \<Rightarrow> int"
  assumes artifact_weight: "0 \<le> fr_size_bytes a \<Longrightarrow> 0 \<le> f a"
    and reservation_weight: "0 \<le> rv_size_bytes r \<Longrightarrow> 0 \<le> g r"
begin

text \<open>Rows that go, and time that passes, only lower the sum.\<close>

lemma weight_shrinks:
  assumes "not_before now t" and "sized rows reservations"
  shows "weight_of f g selected now (filter P rows) (filter R reservations) \<le> weight_of f g selected t rows reservations"
proof -
  have "sum_list (map f (filter (\<lambda>a. selected (fr_tenant_id a)) (filter P rows))) \<le>
      sum_list (map f (filter (\<lambda>a. selected (fr_tenant_id a)) rows))"
  proof -
    have "filter (\<lambda>a. selected (fr_tenant_id a)) (filter P rows) = filter P (filter (\<lambda>a. selected (fr_tenant_id a)) rows)"
      by (auto simp: conj_commute intro: filter_cong)
    then show ?thesis
      using sum_filter_le [of "filter (\<lambda>a. selected (fr_tenant_id a)) rows" f P] artifact_weight assms(2)
      by (simp add: sized_def list_all_iff)
  qed
  moreover have "sum_list (map g (filter (\<lambda>r. selected (rv_tenant_id r)) (live_reservations now (filter R reservations)))) \<le>
      sum_list (map g (filter (\<lambda>r. selected (rv_tenant_id r)) (live_reservations t reservations)))"
  proof -
    have "filter (\<lambda>r. selected (rv_tenant_id r)) (live_reservations now (filter R reservations)) =
        filter (\<lambda>r. R r \<and> text_less now (rv_expires_at r)) (filter (\<lambda>r. selected (rv_tenant_id r)) (live_reservations t reservations))"
      using not_before_trans [OF assms(1)] by (auto simp: live_reservations_def intro!: filter_cong)
    then show ?thesis
      using sum_filter_le [of "filter (\<lambda>r. selected (rv_tenant_id r)) (live_reservations t reservations)" g
          "\<lambda>r. R r \<and> text_less now (rv_expires_at r)"] reservation_weight assms(2)
      by (simp add: live_reservations_def sized_def list_all_iff)
  qed
  ultimately show ?thesis
    by (simp add: weight_of_def)
qed

lemma weight_adds:
  assumes "g r \<le> n" and "0 \<le> n"
  shows "weight_of f g selected now rows (reservations @ [r]) \<le>
    weight_of f g selected now rows reservations + (if selected (rv_tenant_id r) then n else 0)"
  using assms by (auto simp: weight_of_def live_reservations_def)

text \<open>Turning a live reservation into an artifact of at most its weight.\<close>

lemma weight_completes:
  assumes "distinct (map rv_id reservations)" and "r \<in> set reservations" and "text_less now (rv_expires_at r)"
    and "f a \<le> g r" and "fr_tenant_id a = rv_tenant_id r" and "not_before now t" and "sized rows reservations"
  shows "weight_of f g selected now (rows @ [a]) (filter (\<lambda>x. rv_id x \<noteq> rv_id r) reservations) \<le>
    weight_of f g selected t rows reservations"
proof -
  let ?live = "filter (\<lambda>r. selected (rv_tenant_id r)) (live_reservations now reservations)"
  have e: "filter (\<lambda>r. selected (rv_tenant_id r)) (live_reservations now (filter (\<lambda>x. rv_id x \<noteq> rv_id r) reservations)) =
      filter (\<lambda>x. rv_id x \<noteq> rv_id r) ?live"
    by (auto simp: live_reservations_def intro: filter_cong)
  have d: "distinct (map rv_id ?live)"
    using assms(1) by (simp add: live_reservations_def distinct_map_filter)
  have "weight_of f g selected now (rows @ [a]) (filter (\<lambda>x. rv_id x \<noteq> rv_id r) reservations) \<le>
      weight_of f g selected now rows reservations"
  proof (cases "selected (rv_tenant_id r)")
    case True
    then have "r \<in> set ?live"
      using assms(2,3) by (simp add: live_reservations_def)
    from sum_without [OF d this, of g] show ?thesis
      using assms(4,5) True e by (simp add: weight_of_def)
  next
    case False
    then have "filter (\<lambda>x. rv_id x \<noteq> rv_id r) ?live = ?live"
      using assms(1,2) unfolding filter_id_conv by (auto simp: live_reservations_def distinct_map inj_on_def)
    with False assms(5) e show ?thesis by (simp add: weight_of_def)
  qed
  also have "\<dots> \<le> weight_of f g selected t rows reservations"
    using weight_shrinks [OF assms(6,7), of selected "\<lambda>_. True" "\<lambda>_. True"] by simp
  finally show ?thesis .
qed

end

interpretation byte_weight: usage_weight fr_size_bytes rv_size_bytes
  by unfold_locales

interpretation row_weight: usage_weight "\<lambda>_. 1" "\<lambda>_. 1"
  by unfold_locales simp_all

section \<open>The quota holds\<close>

definition rows_ok :: "quota_db \<Rightarrow> bool" where
  "rows_ok q \<longleftrightarrow>
     (\<forall>a \<in> set (db_artifacts (qd_hub q)). 0 \<le> fr_size_bytes a) \<and> (\<forall>r \<in> set (qd_reservations q). 0 \<le> rv_size_bytes r \<and> rv_size_bytes r < 2 ^ 63) \<and>
     distinct (map rv_id (qd_reservations q))"

definition fits :: "int \<times> int \<Rightarrow> u64 \<Rightarrow> u64 \<Rightarrow> bool" where
  "fits usage max_bytes max_count \<longleftrightarrow> fst usage \<le> uint max_bytes \<and> snd usage \<le> uint max_count"

definition quota_kept :: "artifact_quota_limits \<Rightarrow> timestamp \<Rightarrow> quota_db \<Rightarrow> bool" where
  "quota_kept quota t q \<longleftrightarrow>
     (\<forall>tenant. fits (artifact_usage t (\<lambda>x. x = tenant) q) (ql_tenant_bytes quota) (ql_tenant_count quota)) \<and>
     fits (artifact_usage t (\<lambda>_. True) q) (ql_global_bytes quota) (ql_global_count quota)"

lemma rows_sized: "rows_ok q \<Longrightarrow> sized (db_artifacts (qd_hub q)) (qd_reservations q)"
  by (simp add: rows_ok_def sized_def list_all_iff)

text \<open>A step that lowers the usage of every selection of tenants keeps the quota.\<close>

definition usage_le :: "int \<times> int \<Rightarrow> int \<times> int \<Rightarrow> bool" where
  "usage_le u v \<longleftrightarrow> fst u \<le> fst v \<and> snd u \<le> snd v"

lemma fits_mono: "usage_le u v \<Longrightarrow> fits v b c \<Longrightarrow> fits u b c"
  by (auto simp: usage_le_def fits_def)

lemma quota_kept_mono:
  "quota_kept quota t q \<Longrightarrow> (\<And>selected. usage_le (artifact_usage t' selected q') (artifact_usage t selected q)) \<Longrightarrow> quota_kept quota t' q'"
  unfolding quota_kept_def using fits_mono by blast

lemma usage_shrinks:
  assumes "rows_ok q" and "not_before now t"
    and "db_artifacts (qd_hub q') = filter P (db_artifacts (qd_hub q))" "qd_reservations q' = filter R (qd_reservations q)"
  shows "usage_le (artifact_usage now selected q') (artifact_usage t selected q)"
  using byte_weight.weight_shrinks [OF assms(2) rows_sized [OF assms(1)]] row_weight.weight_shrinks [OF assms(2) rows_sized [OF assms(1)]]
  by (simp add: usage_le_def artifact_usage_weights assms(3,4))

lemma not_before_refl [simp]: "not_before t t"
  by (simp add: not_before_def)

lemma shrink_step:
  assumes "rows_ok q" "quota_kept quota t q" "not_before now t"
    and "db_artifacts (qd_hub q') = filter P (db_artifacts (qd_hub q))" "qd_reservations q' = filter R (qd_reservations q)"
  shows "rows_ok q' \<and> quota_kept quota now q'"
proof
  show "rows_ok q'"
    using assms(1,4,5) by (auto simp: rows_ok_def distinct_map_filter)
  show "quota_kept quota now q'"
    by (rule quota_kept_mono [OF assms(2)]) (rule usage_shrinks [OF assms(1,3,4,5)])
qed

lemma decode_u64_Ok: "decode_u64 n = Ok w \<Longrightarrow> uint w = n \<and> 0 \<le> n \<and> n < 2 ^ 63"
  by (auto simp: decode_u64_def uint_word_of_int split: if_splits)

lemma check_usage_Ok:
  assumes "check_usage usage upload max_bytes max_count = Ok ()" and "uint upload < 2 ^ 63"
  shows "fst usage + uint upload \<le> uint max_bytes" "snd usage + 1 \<le> uint max_count"
proof -
  from assms(1) obtain b c where b: "decode_u64 (fst usage) = Ok b" and c: "decode_u64 (snd usage) = Ok c"
    and g: "\<not> max_count \<le> c" "\<not> max_bytes < saturating_add b upload"
    by (auto simp: check_usage_def result_simps split: if_splits)
  have bu: "uint b = fst usage" "uint b < 2 ^ 63" and cu: "uint c = snd usage"
    using decode_u64_Ok [OF b] decode_u64_Ok [OF c] by auto
  have sum: "uint b + uint upload < 2 ^ 64"
    using bu(2) assms(2) by simp
  then have "int (unat b + unat upload) < int (2 ^ 64)"
    by simp
  then have "unat b + unat upload < 2 ^ 64"
    by (simp only: of_nat_less_iff)
  then have "saturating_add b upload = b + upload"
    by (simp add: saturating_add_def)
  moreover have "uint (b + upload) = (uint b + uint upload) mod 2 ^ 64"
    by (simp add: uint_word_ariths)
  then have "uint (b + upload) = uint b + uint upload"
    using sum by (simp add: mod_pos_pos_trivial)
  ultimately show "fst usage + uint upload \<le> uint max_bytes" "snd usage + 1 \<le> uint max_count"
    using g bu(1) cu by (auto simp: word_le_def word_less_def)
qed

lemma reap_filters:
  "db_artifacts (qd_hub (reaped cutoff q)) = db_artifacts (qd_hub q)"
  "qd_reservations (reaped cutoff q) = filter (\<lambda>r. text_less cutoff (rv_expires_at r)) (qd_reservations q)"
  by (simp_all add: reaped_def)

lemma reserve_Ok:
  assumes "reserve_artifact_quota backend d tenant artifact path upload quota q = Ok (handle, q')"
    and "q1 = reaped (rw_cutoff d) q"
  shows "enforce_artifact_quota (rw_now d) tenant upload quota q1 = Ok ()" and "uint upload < 2 ^ 63"
    and "rw_id d \<notin> rv_id ` set (qd_reservations q1)"
    and "q' = q1\<lparr>qd_reservations := qd_reservations q1 @ [new_reservation d tenant artifact path upload]\<rparr>"
  using assms by (auto simp: reserve_artifact_quota_def Let_def result_simps split: if_splits dest!: reap_Ok(1))

lemma new_reservation_sel [simp]:
  "rv_id (new_reservation d tenant artifact path upload) = rw_id d"
  "rv_tenant_id (new_reservation d tenant artifact path upload) = tenant"
  "rv_size_bytes (new_reservation d tenant artifact path upload) = uint upload"
  "rv_storage_path (new_reservation d tenant artifact path upload) = path"
  by (simp_all add: new_reservation_def)

lemma reserve_step:
  assumes inv: "rows_ok q" "quota_kept quota t q"
    and t: "not_before (rw_cutoff d) t" "not_before (rw_now d) (rw_cutoff d)"
    and ok: "reserve_artifact_quota backend d tenant artifact path upload quota q = Ok (handle, q')"
  shows "rows_ok q' \<and> quota_kept quota (rw_now d) q'"
proof -
  define q1 where "q1 = reaped (rw_cutoff d) q"
  let ?r = "new_reservation d tenant artifact path upload"
  note r = reserve_Ok [OF ok q1_def]
  note upload = r(2)
  have now: "not_before (rw_now d) t"
    using t not_before_trans text_less_linear unfolding not_before_def by blast
  have q1: "rows_ok q1 \<and> quota_kept quota (rw_now d) q1"
    by (rule shrink_step [OF inv now, where P = "\<lambda>_. True"]) (simp_all add: q1_def reap_filters)
  have le: "fst (artifact_usage (rw_now d) sel q') \<le> fst (artifact_usage (rw_now d) sel q1) + (if sel tenant then uint upload else 0)"
    "snd (artifact_usage (rw_now d) sel q') \<le> snd (artifact_usage (rw_now d) sel q1) + (if sel tenant then 1 else 0)" for sel
    using byte_weight.weight_adds [where r = ?r and n = "uint upload"] row_weight.weight_adds [where r = ?r and n = 1]
    by (simp_all add: artifact_usage_weights r(4))
  have e: "check_usage (artifact_usage (rw_now d) (\<lambda>x. x = tenant) q1) upload (ql_tenant_bytes quota) (ql_tenant_count quota) = Ok ()"
      "check_usage (artifact_usage (rw_now d) (\<lambda>_. True) q1) upload (ql_global_bytes quota) (ql_global_count quota) = Ok ()"
    using r(1) by (auto simp: enforce_artifact_quota_def result_simps)
  have "fst (artifact_usage (rw_now d) (\<lambda>x. x = tenant) q1) + uint upload \<le> uint (ql_tenant_bytes quota)"
    "snd (artifact_usage (rw_now d) (\<lambda>x. x = tenant) q1) + 1 \<le> uint (ql_tenant_count quota)"
    "fst (artifact_usage (rw_now d) (\<lambda>_. True) q1) + uint upload \<le> uint (ql_global_bytes quota)"
    "snd (artifact_usage (rw_now d) (\<lambda>_. True) q1) + 1 \<le> uint (ql_global_count quota)"
    using check_usage_Ok [OF e(1) upload] check_usage_Ok [OF e(2) upload] by simp_all
  then have "fits (artifact_usage (rw_now d) (\<lambda>x. x = tenant) q') (ql_tenant_bytes quota) (ql_tenant_count quota)"
    "fits (artifact_usage (rw_now d) (\<lambda>_. True) q') (ql_global_bytes quota) (ql_global_count quota)"
    using le [of "\<lambda>x. x = tenant"] le [of "\<lambda>_. True"] by (simp_all add: fits_def)
  moreover have "fits (artifact_usage (rw_now d) (\<lambda>x. x = other) q') (ql_tenant_bytes quota) (ql_tenant_count quota)" if "other \<noteq> tenant" for other
    using le [of "\<lambda>x. x = other"] that q1 by (auto simp: quota_kept_def fits_def dest!: spec [of _ other])
  ultimately have "quota_kept quota (rw_now d) q'"
    by (metis quota_kept_def)
  moreover have "rows_ok q'"
    using q1 r(2,3) by (simp add: rows_ok_def r(4))
  ultimately show ?thesis by simp
qed

lemma complete_Ok:
  assumes "complete_reservation codec now d handle input metadata actor q = Ok (w, q')"
    and "find_by_id rv_id (qr_id handle) (qd_reservations q) = Some r"
  shows "can_finalize now handle input r"
    and "db_artifacts (qd_hub q') = db_artifacts (qd_hub q) @ [artifact_row_of (jd_now d) input]"
    and "db_artifact_deletions (qd_hub q') = db_artifact_deletions (qd_hub q)"
    and "qd_reservations q' = filter (\<lambda>x. rv_id x \<noteq> rv_id r) (qd_reservations q)"
proof -
  obtain db1 where c: "can_finalize now handle input r" "create_print_job_in_transaction codec d input metadata actor (qd_hub q) = Ok (w, db1)"
    and q': "q' = \<lparr>qd_hub = db1, qd_reservations = filter (\<lambda>r. rv_id r \<noteq> qr_id handle) (qd_reservations q)\<rparr>"
    using assms by (auto simp: complete_reservation_def result_simps ok_or_def split: if_splits)
  then show "can_finalize now handle input r"
    "db_artifacts (qd_hub q') = db_artifacts (qd_hub q) @ [artifact_row_of (jd_now d) input]"
    "db_artifact_deletions (qd_hub q') = db_artifact_deletions (qd_hub q)"
    "qd_reservations q' = filter (\<lambda>x. rv_id x \<noteq> rv_id r) (qd_reservations q)"
    using create_adds_artifact [OF c(2)] find_by_id_Some [OF assms(2)] by simp_all
qed

lemma sint_of_small: "uint (x :: u64) < 2 ^ 63 \<Longrightarrow> sint x = uint x"
  by (simp add: sint_uint signed_take_bit_eq_take_bit_minus take_bit_int_eq_self not_le bit_iff_odd div_pos_pos_trivial)

lemma complete_step:
  assumes inv: "rows_ok q" "quota_kept quota t q" and t: "not_before now t"
    and input: "cpj_tenant_id input = qr_tenant_id handle" "uint (pai_size_bytes (cpj_artifact input)) = rv_size_bytes r"
    and r: "find_by_id rv_id (qr_id handle) (qd_reservations q) = Some r"
    and ok: "complete_reservation codec now d handle input metadata actor q = Ok (w, q')"
  shows "rows_ok q' \<and> quota_kept quota now q'"
proof -
  note c = complete_Ok [OF ok r]
  have rin: "r \<in> set (qd_reservations q)"
    using find_by_id_Some [OF r] by simp
  then have small: "rv_size_bytes r < 2 ^ 63"
    using inv(1) by (simp add: rows_ok_def)
  have row: "fr_size_bytes (artifact_row_of (jd_now d) input) = rv_size_bytes r"
      "fr_tenant_id (artifact_row_of (jd_now d) input) = rv_tenant_id r"
    using input c(1) small sint_of_small [of "pai_size_bytes (cpj_artifact input)"]
    by (simp_all add: artifact_row_of_def Let_def can_finalize_def)
  have live: "text_less now (rv_expires_at r)"
    using c(1) by (simp add: can_finalize_def)
  have "usage_le (artifact_usage now sel q') (artifact_usage t sel q)" for sel
    using byte_weight.weight_completes [OF _ rin live _ row(2) t rows_sized [OF inv(1)]]
      row_weight.weight_completes [OF _ rin live _ row(2) t rows_sized [OF inv(1)]] row(1) inv(1)
    by (simp add: usage_le_def artifact_usage_weights c(2,4) rows_ok_def)
  then have "quota_kept quota now q'"
    by (rule quota_kept_mono [OF inv(2)])
  moreover have "rows_ok q'"
    using inv(1) row(1) rin by (auto simp: rows_ok_def c(2,4) distinct_map_filter)
  ultimately show ?thesis by simp
qed

lemma quota_step_keeps:
  assumes "quota_step codec quota s s'" and "rows_ok (snd s) \<and> quota_kept quota (fst s) (snd s)"
  shows "rows_ok (snd s') \<and> quota_kept quota (fst s') (snd s')"
  using assms
proof (induction rule: quota_step.induct)
  case (reserve d t path q backend tenant artifact upload handle q')
  then show ?case using reserve_step [OF _ _ reserve(1,2,6)] by simp
next
  case (complete now t input handle q r d metadata actor w q')
  then show ?case using complete_step [OF _ _ complete(1,2,4,3,5), of quota] by simp
next
  case (release backend handle q q' t)
  from release(1) show ?case
  proof (cases rule: release_Ok)
    case (released r)
    then show ?thesis
      using shrink_step [of q quota t t q' "\<lambda>_. True" "\<lambda>r. rv_id r \<noteq> qr_id handle"] release(2) by simp
  qed (use release in simp)
next
  case (reap cutoff t backend q n q')
  then show ?case
    using shrink_step [of q quota t cutoff q' "\<lambda>_. True"] by (simp add: reap_filters reap_Ok(2) [OF reap(2)])
next
  case (cleanup backend cutoff q db' t)
  obtain P where "db_artifacts db' = filter P (db_artifacts (qd_hub q))"
    using cleanup(1) by (rule cleanup_queue)
  then show ?case
    using shrink_step [of q quota t t "q\<lparr>qd_hub := db'\<rparr>" P "\<lambda>_. True"] cleanup by simp
next
  case (clear backend pt now_at ev_now ev tenant scope actor q out db' t)
  obtain P where "db_artifacts db' = filter P (db_artifacts (qd_hub q))"
    using clear_queue [OF clear(1)] by blast
  then show ?case
    using shrink_step [of q quota t t "q\<lparr>qd_hub := db'\<rparr>" P "\<lambda>_. True"] clear by simp
next
  case (other db' q t)
  then show ?case
    using shrink_step [of q quota t t "q\<lparr>qd_hub := db'\<rparr>" "\<lambda>_. True" "\<lambda>_. True"] by simp
qed

abbreviation quota_run :: "job_codec \<Rightarrow> artifact_quota_limits \<Rightarrow> timestamp \<times> quota_db \<Rightarrow> timestamp \<times> quota_db \<Rightarrow> bool" where
  "quota_run codec quota \<equiv> (quota_step codec quota)\<^sup>*\<^sup>*"

text \<open>Paths: stored files, expected files and files to delete are three different sets.\<close>

definition paths_ok :: "quota_db \<Rightarrow> bool" where
  "paths_ok q \<longleftrightarrow>
     distinct (map fr_storage_path (db_artifacts (qd_hub q)) @ map rv_storage_path (qd_reservations q)) \<and>
     set (map fr_storage_path (db_artifacts (qd_hub q)) @ map rv_storage_path (qd_reservations q)) \<inter>
       set (db_artifact_deletions (qd_hub q)) = {}"

lemma distinct_map_same: "distinct (map f xs) \<Longrightarrow> x \<in> set xs \<Longrightarrow> y \<in> set xs \<Longrightarrow> f x = f y \<Longrightarrow> x = y"
  by (auto simp: distinct_map inj_on_def)

lemma kept_not_queued:
  assumes "distinct (map f xs)" and "x \<in> set xs" "P x" and "f x \<notin> D" "f x \<notin> E"
    and "D' \<subseteq> D \<union> f ` set (filter (\<lambda>y. \<not> P y) xs) \<union> E"
  shows "f x \<notin> D'"
proof
  assume "f x \<in> D'"
  then have "f x \<in> f ` set (filter (\<lambda>y. \<not> P y) xs)"
    using assms(4-6) by blast
  then obtain y where "y \<in> set xs" "\<not> P y" "f x = f y"
    by auto
  then show False
    using distinct_map_same [OF assms(1,2)] assms(3) by metis
qed

text \<open>Rows that go may take their paths to the queue.\<close>

lemma paths_shrink:
  assumes ok: "paths_ok q"
    and "db_artifacts (qd_hub q') = filter P (db_artifacts (qd_hub q))" "qd_reservations q' = filter R (qd_reservations q)"
    and queue: "set (db_artifact_deletions (qd_hub q')) \<subseteq> set (db_artifact_deletions (qd_hub q)) \<union>
      fr_storage_path ` set (filter (\<lambda>a. \<not> P a) (db_artifacts (qd_hub q))) \<union> rv_storage_path ` set (filter (\<lambda>r. \<not> R r) (qd_reservations q))"
  shows "paths_ok q'"
proof -
  let ?as = "db_artifacts (qd_hub q)" and ?rs = "qd_reservations q"
  have d: "distinct (map fr_storage_path ?as)" "distinct (map rv_storage_path ?rs)"
      "fr_storage_path ` set ?as \<inter> rv_storage_path ` set ?rs = {}"
    and n: "fr_storage_path ` set ?as \<inter> set (db_artifact_deletions (qd_hub q)) = {}"
      "rv_storage_path ` set ?rs \<inter> set (db_artifact_deletions (qd_hub q)) = {}"
    using ok by (auto simp: paths_ok_def)
  have "fr_storage_path a \<notin> set (db_artifact_deletions (qd_hub q'))" if "a \<in> set ?as" "P a" for a
  proof (rule kept_not_queued [where P = P, OF d(1) that])
    show "fr_storage_path a \<notin> set (db_artifact_deletions (qd_hub q))"
      using n(1) that(1) by blast
    show "fr_storage_path a \<notin> rv_storage_path ` set (filter (\<lambda>r. \<not> R r) ?rs)"
      using d(3) that(1) unfolding disjoint_iff by auto
  qed (rule queue)
  moreover have "rv_storage_path r \<notin> set (db_artifact_deletions (qd_hub q'))" if "r \<in> set ?rs" "R r" for r
  proof (rule kept_not_queued [where P = R, OF d(2) that])
    show "rv_storage_path r \<notin> set (db_artifact_deletions (qd_hub q))"
      using n(2) that(1) by blast
    show "rv_storage_path r \<notin> fr_storage_path ` set (filter (\<lambda>a. \<not> P a) ?as)"
      using d(3) that(1) unfolding disjoint_iff by auto
  qed (use queue in \<open>simp only: ac_simps\<close>)
  moreover have "distinct (map fr_storage_path (filter P ?as) @ map rv_storage_path (filter R ?rs))"
    using d by (auto simp: distinct_map_filter)
  ultimately show ?thesis
    unfolding paths_ok_def assms(2,3) by auto
qed

lemma paths_reserve:
  assumes "paths_ok q" and "path \<notin> fr_storage_path ` set (db_artifacts (qd_hub q))" "path \<notin> rv_storage_path ` set (qd_reservations q)"
    "path \<notin> set (db_artifact_deletions (qd_hub q))"
    and ok: "reserve_artifact_quota backend d tenant artifact path upload quota q = Ok (handle, q')"
  shows "paths_ok q'"
proof -
  define q1 where "q1 = reaped (rw_cutoff d) q"
  have rows: "db_artifacts (qd_hub q1) = filter (\<lambda>_. True) (db_artifacts (qd_hub q))"
      "qd_reservations q1 = filter (\<lambda>r. text_less (rw_cutoff d) (rv_expires_at r)) (qd_reservations q)"
      "set (db_artifact_deletions (qd_hub q1)) = set (db_artifact_deletions (qd_hub q)) \<union>
        rv_storage_path ` set (filter (\<lambda>r. \<not> text_less (rw_cutoff d) (rv_expires_at r)) (qd_reservations q))"
    by (simp_all add: q1_def reaped_def)
  have "paths_ok q1"
    by (rule paths_shrink [OF assms(1) rows(1,2)]) (simp add: rows(3))
  moreover have "path \<notin> set (db_artifact_deletions (qd_hub q1))"
    using assms(3,4) rows(3) by auto
  ultimately show ?thesis
    using assms(2,3) rows(1,2) reserve_Ok(4) [OF ok q1_def] by (auto simp: paths_ok_def)
qed

lemma paths_complete:
  assumes "paths_ok q" and r: "find_by_id rv_id (qr_id handle) (qd_reservations q) = Some r"
    and ok: "complete_reservation codec now d handle input metadata actor q = Ok (w, q')"
  shows "paths_ok q'"
proof -
  note c = complete_Ok [OF ok r]
  let ?a = "artifact_row_of (jd_now d) input"
  have path: "fr_storage_path ?a = rv_storage_path r"
    using c(1) by (simp add: artifact_row_of_def Let_def can_finalize_def)
  have rin: "r \<in> set (qd_reservations q)"
    using find_by_id_Some [OF r] by simp
  define q1 where "q1 = q\<lparr>qd_reservations := filter (\<lambda>x. rv_id x \<noteq> rv_id r) (qd_reservations q)\<rparr>"
  have q1: "paths_ok q1"
    by (rule paths_shrink [OF assms(1), where P = "\<lambda>_. True"]) (auto simp: q1_def)
  have "rv_storage_path r \<notin> rv_storage_path ` set (qd_reservations q1)"
    using assms(1) rin distinct_map_same [of rv_storage_path "qd_reservations q" r] by (auto simp: paths_ok_def q1_def)
  moreover have "rv_storage_path r \<notin> fr_storage_path ` set (db_artifacts (qd_hub q1))" "rv_storage_path r \<notin> set (db_artifact_deletions (qd_hub q1))"
    using assms(1) rin by (auto simp: paths_ok_def q1_def)
  ultimately show ?thesis
    using q1 by (auto simp: paths_ok_def q1_def c(2,3,4) path)
qed

lemma paths_release: "release_reservation backend handle q = Ok q' \<Longrightarrow> paths_ok q \<Longrightarrow> paths_ok q'"
proof (erule release_Ok)
  fix r
  assume "paths_ok q" "r \<in> set (qd_reservations q)" "rv_id r = qr_id handle"
    "q' = q\<lparr>qd_hub := queue_path (rv_storage_path r) (qd_hub q),
       qd_reservations := filter (\<lambda>r. rv_id r \<noteq> qr_id handle) (qd_reservations q)\<rparr>"
  then show ?thesis
    by (intro paths_shrink [of q q' "\<lambda>_. True" "\<lambda>r. rv_id r \<noteq> qr_id handle"]) auto
qed simp

lemma quota_step_paths:
  assumes "quota_step codec quota s s'" and "paths_ok (snd s)"
  shows "paths_ok (snd s')"
  using assms
proof (induction rule: quota_step.induct)
  case (reserve d t path q backend tenant artifact upload handle q')
  then show ?case using paths_reserve [OF _ reserve(3-6)] by simp
next
  case (complete now t input handle q r d metadata actor w q')
  then show ?case using paths_complete [OF _ complete(3,5)] by simp
next
  case (release backend handle q q' t)
  then show ?case using paths_release by simp
next
  case (reap cutoff t backend q n q')
  then show ?case
    using paths_shrink [of q q' "\<lambda>_. True" "\<lambda>r. text_less cutoff (rv_expires_at r)"]
    by (simp add: reap_filters reap_Ok(2) [OF reap(2)]) (simp add: reaped_def)
next
  case (cleanup backend cutoff q db' t)
  obtain P where "db_artifacts db' = filter P (db_artifacts (qd_hub q))"
    "set (db_artifact_deletions db') \<subseteq> set (db_artifact_deletions (qd_hub q)) \<union>
       fr_storage_path ` set (filter (\<lambda>a. \<not> P a) (db_artifacts (qd_hub q)))"
    using cleanup(1) by (rule cleanup_queue)
  then show ?case
    using paths_shrink [of q "q\<lparr>qd_hub := db'\<rparr>" P "\<lambda>_. True"] cleanup(2) by simp
next
  case (clear backend pt now_at ev_now ev tenant scope actor q out db' t)
  obtain P where "db_artifacts db' = filter P (db_artifacts (qd_hub q))"
    "set (db_artifact_deletions db') \<subseteq> set (db_artifact_deletions (qd_hub q)) \<union>
       fr_storage_path ` set (filter (\<lambda>a. \<not> P a) (db_artifacts (qd_hub q)))"
    using clear_queue [OF clear(1)] by blast
  then show ?case
    using paths_shrink [of q "q\<lparr>qd_hub := db'\<rparr>" P "\<lambda>_. True"] clear(2) by simp
next
  case (other db' q t)
  then show ?case
    using paths_shrink [of q "q\<lparr>qd_hub := db'\<rparr>" "\<lambda>_. True" "\<lambda>_. True"] by simp
qed

lemma quota_run_keeps:
  assumes "quota_run codec quota s s'"
  shows "(rows_ok (snd s) \<and> quota_kept quota (fst s) (snd s) \<longrightarrow> rows_ok (snd s') \<and> quota_kept quota (fst s') (snd s')) \<and>
    (paths_ok (snd s) \<longrightarrow> paths_ok (snd s'))"
  using assms
proof (induction rule: rtranclp_induct)
  case (step s' s'')
  then show ?case
    using quota_step_keeps [OF step(2)] quota_step_paths [OF step(2)] by blast
qed simp

text \<open>
  C12: The artifact quota is never exceeded. Whatever the interleaving of uploads that reserve, finish, fail or expire, of clears, of cleanups and of
  all other transactions, under a clock that does not run backwards, the artifacts of a tenant together with
  its live reservations stay within the tenant's limits of bytes and number, and those of all tenants within the global limits.
\<close>

theorem quota_respected:
  assumes "quota_run codec quota (t0, \<lparr>qd_hub = db0, qd_reservations = []\<rparr>) (t, q)" and "db_artifacts db0 = []"
  shows "fits (artifact_usage t (\<lambda>x. x = tenant) q) (ql_tenant_bytes quota) (ql_tenant_count quota) \<and>
    fits (artifact_usage t (\<lambda>_. True) q) (ql_global_bytes quota) (ql_global_count quota)"
proof -
  let ?q0 = "\<lparr>qd_hub = db0, qd_reservations = []\<rparr>"
  have "rows_ok ?q0 \<and> quota_kept quota t0 ?q0"
    using assms(2) by (simp add: rows_ok_def quota_kept_def fits_def artifact_usage_def live_reservations_def)
  then show ?thesis
    using quota_run_keeps [OF assms(1)] by (simp add: quota_kept_def)
qed

text \<open>
  No stored file is queued for deletion. In every reachable state the file of an artifact is not in the deletion queue, nor is the
  file of a reservation whose upload may still finish, and no two of these rows share a file.
\<close>

lemma stored_files_not_queued:
  assumes "quota_run codec quota (t0, \<lparr>qd_hub = db0, qd_reservations = []\<rparr>) (t, q)" and "db_artifacts db0 = []"
  shows "set (map fr_storage_path (db_artifacts (qd_hub q)) @ map rv_storage_path (qd_reservations q)) \<inter> set (db_artifact_deletions (qd_hub q)) = {} \<and>
    distinct (map fr_storage_path (db_artifacts (qd_hub q)) @ map rv_storage_path (qd_reservations q))"
proof -
  have "paths_ok \<lparr>qd_hub = db0, qd_reservations = []\<rparr>"
    using assms(2) by (simp add: paths_ok_def)
  then have "paths_ok q"
    using quota_run_keeps [OF assms(1)] by simp
  then show ?thesis
    by (simp add: paths_ok_def)
qed

section \<open>A sample upload\<close>

definition sample_quota :: artifact_quota_limits where
  "sample_quota = \<lparr>ql_tenant_bytes = 1500, ql_tenant_count = 2, ql_global_bytes = 4000, ql_global_count = 3\<rparr>"

definition sample_draw :: reservation_draw where
  "sample_draw = \<lparr>rw_cutoff = ''2'', rw_now = ''2'', rw_id = ''r'', rw_expires_at = ''7'', rw_created_at = ''2''\<rparr>"

definition sample_handle :: artifact_quota_reservation where
  "sample_handle = \<lparr>qr_id = ''r'', qr_tenant_id = ''t1'', qr_artifact_id = ''f1'', qr_storage_path = ''f1.3mf''\<rparr>"

definition sample_empty :: quota_db where
  "sample_empty = \<lparr>qd_hub = sample_jobs_db, qd_reservations = []\<rparr>"

definition sample_reserved :: quota_db where
  "sample_reserved = sample_empty\<lparr>qd_reservations := [new_reservation sample_draw ''t1'' ''f1'' ''f1.3mf'' 1024]\<rparr>"

lemma sample_reserve:
  "reserve_artifact_quota Postgres sample_draw ''t1'' ''f1'' ''f1.3mf'' 1024 sample_quota sample_empty = Ok (sample_handle, sample_reserved)"
  by (simp add: reserve_artifact_quota_def sample_empty_def sample_reserved_def sample_handle_def sample_draw_def sample_quota_def
      reap_expired_reservations_in_transaction_def enforce_artifact_quota_def check_usage_def artifact_usage_def decode_u64_def
      live_reservations_def saturating_add_def sample_jobs_db_def sample_agents_db_def result_simps Let_def)

lemma sample_reserve_run: "quota_run sample_codec sample_quota (''1'', sample_empty) (''2'', sample_reserved)"
proof -
  have "quota_step sample_codec sample_quota (''1'', sample_empty) (rw_now sample_draw, sample_reserved)"
    by (rule quota_step.reserve [OF _ _ _ _ _ sample_reserve])
      (simp_all add: not_before_def sample_draw_def sample_empty_def sample_jobs_db_def sample_agents_db_def)
  then show ?thesis by (simp add: sample_draw_def)
qed

theorem quota_respected_witness:
  "fits (artifact_usage ''2'' (\<lambda>x. x = ''t1'') sample_reserved) 1500 2 \<and> fst (artifact_usage ''2'' (\<lambda>x. x = ''t1'') sample_reserved) = 1024"
proof
  have "db_artifacts sample_jobs_db = []"
    by (simp add: sample_jobs_db_def sample_agents_db_def)
  from quota_respected [OF sample_reserve_run [unfolded sample_empty_def] this, of "''t1''"]
  show "fits (artifact_usage ''2'' (\<lambda>x. x = ''t1'') sample_reserved) 1500 2"
    by (simp add: sample_quota_def)
  show "fst (artifact_usage ''2'' (\<lambda>x. x = ''t1'') sample_reserved) = 1024"
    by (simp add: artifact_usage_def sample_reserved_def sample_empty_def live_reservations_def new_reservation_def sample_draw_def
        sample_jobs_db_def sample_agents_db_def Let_def)
qed

lemma stored_files_not_queued_witness:
  "set (map fr_storage_path (db_artifacts (qd_hub sample_reserved)) @ map rv_storage_path (qd_reservations sample_reserved)) \<inter>
    set (db_artifact_deletions (qd_hub sample_reserved)) = {} \<and> map rv_storage_path (qd_reservations sample_reserved) = [''f1.3mf'']"
proof -
  have "db_artifacts sample_jobs_db = []"
    by (simp add: sample_jobs_db_def sample_agents_db_def)
  from stored_files_not_queued [OF sample_reserve_run [unfolded sample_empty_def] this] show ?thesis
    by (simp add: sample_reserved_def)
qed

end
