(* ===== verification/Hub_Sessions.thy ===== *)
theory Hub_Sessions
  imports Hub_Agents
begin

text \<open>
  The agent sessions of one hub process: \<open>crates/pandar-hub/src/sessions.rs\<close>, \<open>sessions/transitions.rs\<close> (the leases that serialise what
  happens to one agent) and \<open>sessions/live_commands.rs\<close>, with the three places of \<open>grpc.rs\<close> and \<open>grpc/inbound.rs\<close> that change a session:
  connecting, heartbeat and disconnecting.

  The first part models the leases as concurrent tasks and shows that sweeping idle leases does not
  break mutual exclusion. The second part uses that: what runs under an agent's lease is one step, on the
  registry and the database together. A session token is the text it is persisted as. The map of pending commands is
  shared by the copies of a session, so it is kept by token. Messages to channels are recorded or, where the
  outcome matters, an argument.
\<close>

section \<open>Leases\<close>

text \<open>
  A task that wants the lease of an agent takes the agent's mutex out of the map, creating it if there is none, and then waits for it.
  A task that waits or holds keeps the mutex alive: these are the owners counted by \<open>strong_count\<close>, besides
  the map. A waiting task may be cancelled.
\<close>

datatype lease_task = NoLease | WaitsFor agent_id nat | Holds agent_id nat

record lease_state =
  ls_leases :: "agent_id \<rightharpoonup> nat"
  ls_tasks :: "lease_task list"
  ls_fresh :: nat

definition refers_to :: "nat \<Rightarrow> lease_task \<Rightarrow> bool" where
  "refers_to m task = (case task of NoLease \<Rightarrow> False | WaitsFor _ n \<Rightarrow> n = m | Holds _ n \<Rightarrow> n = m)"

definition strong_count :: "nat \<Rightarrow> lease_state \<Rightarrow> nat" where
  "strong_count m s = 1 + length (filter (refers_to m) (ls_tasks s))"

definition mutex_of :: "agent_id \<Rightarrow> lease_state \<Rightarrow> nat \<times> lease_state" where
  "mutex_of agent s =
     (case ls_leases s agent of
        Some m \<Rightarrow> (m, s)
      | None \<Rightarrow> (ls_fresh s, s\<lparr>ls_leases := (ls_leases s)(agent \<mapsto> ls_fresh s), ls_fresh := ls_fresh s + 1\<rparr>))"

definition set_task :: "nat \<Rightarrow> lease_task \<Rightarrow> lease_state \<Rightarrow> lease_state" where
  "set_task i task s = s\<lparr>ls_tasks := (ls_tasks s)[i := task]\<rparr>"

definition request_lease :: "nat \<Rightarrow> agent_id \<Rightarrow> lease_state \<Rightarrow> lease_state" where
  "request_lease i agent s = (let (m, s1) = mutex_of agent s in set_task i (WaitsFor agent m) s1)"

definition sweep_idle_leases :: "lease_state \<Rightarrow> lease_state" where
  "sweep_idle_leases s =
     s\<lparr>ls_leases := (\<lambda>agent. case ls_leases s agent of
                            Some m \<Rightarrow> if strong_count m s > 1 then Some m else None
                          | None \<Rightarrow> None)\<rparr>"

fun holds_mutex :: "nat \<Rightarrow> lease_task \<Rightarrow> bool" where
  "holds_mutex m (Holds _ n) = (n = m)"
| "holds_mutex m _ = False"

fun holds_lease :: "agent_id \<Rightarrow> lease_task \<Rightarrow> bool" where
  "holds_lease agent (Holds a _) = (a = agent)"
| "holds_lease agent _ = False"

inductive lease_step :: "lease_state \<Rightarrow> lease_state \<Rightarrow> bool" where
  spawn: "lease_step s (s\<lparr>ls_tasks := ls_tasks s @ [NoLease]\<rparr>)"
| request: "i < length (ls_tasks s) \<Longrightarrow> ls_tasks s ! i = NoLease \<Longrightarrow> lease_step s (request_lease i agent s)"
| acquire: "i < length (ls_tasks s) \<Longrightarrow> ls_tasks s ! i = WaitsFor agent m \<Longrightarrow> \<not> list_ex (holds_mutex m) (ls_tasks s) \<Longrightarrow>
    lease_step s (set_task i (Holds agent m) s)"
| cancel: "i < length (ls_tasks s) \<Longrightarrow> ls_tasks s ! i = WaitsFor agent m \<Longrightarrow> lease_step s (set_task i NoLease s)"
| drop: "i < length (ls_tasks s) \<Longrightarrow> ls_tasks s ! i = Holds agent m \<Longrightarrow> lease_step s (set_task i NoLease s)"
| sweep: "lease_step s (sweep_idle_leases s)"

definition no_leases :: lease_state where
  "no_leases = \<lparr>ls_leases = Map.empty, ls_tasks = [], ls_fresh = 0\<rparr>"

text \<open>Every task that refers to a mutex of an agent refers to the one in the map, and a mutex has one holder.\<close>

fun task_ok :: "(agent_id \<rightharpoonup> nat) \<Rightarrow> lease_task \<Rightarrow> bool" where
  "task_ok leases NoLease = True"
| "task_ok leases (WaitsFor agent m) = (leases agent = Some m)"
| "task_ok leases (Holds agent m) = (leases agent = Some m)"

definition one_holder :: "lease_task list \<Rightarrow> bool" where
  "one_holder tasks \<longleftrightarrow>
     (\<forall>i < length tasks. \<forall>j < length tasks. \<forall>m. holds_mutex m (tasks ! i) \<and> holds_mutex m (tasks ! j) \<longrightarrow> i = j)"

definition lease_inv :: "lease_state \<Rightarrow> bool" where
  "lease_inv s \<longleftrightarrow> list_all (task_ok (ls_leases s)) (ls_tasks s) \<and> one_holder (ls_tasks s)"

lemma list_all_update: "list_all P xs \<Longrightarrow> P v \<Longrightarrow> list_all P (xs[i := v])"
  using set_update_subset_insert [of xs i v] by (auto simp: list_all_iff)

lemma one_holder_update:
  assumes "one_holder tasks" and "\<And>m. \<not> holds_mutex m task"
  shows "one_holder (tasks[i := task])"
proof -
  have "holds_mutex m (tasks ! k)" if "k < length tasks" "holds_mutex m (tasks[i := task] ! k)" for m k
    using that assms(2) by (cases "k = i") auto
  then show ?thesis
    using assms(1) unfolding one_holder_def by (metis length_list_update)
qed

lemma one_holder_acquire:
  assumes "one_holder tasks" and "\<not> list_ex (holds_mutex m) tasks"
  shows "one_holder (tasks[i := Holds agent m])"
proof -
  have "\<not> holds_mutex m (tasks ! k)" if "k < length tasks" for k
    using assms(2) that by (auto simp: list_ex_iff)
  then have "k = i \<and> m' = m \<or> m' \<noteq> m \<and> holds_mutex m' (tasks ! k)"
    if "k < length tasks" "holds_mutex m' (tasks[i := Holds agent m] ! k)" for m' k
    using that by (cases "k = i") auto
  then show ?thesis
    using assms(1) unfolding one_holder_def by (metis length_list_update)
qed

lemma request_keeps:
  assumes "lease_inv s" and "i < length (ls_tasks s)"
  shows "lease_inv (request_lease i agent s)"
proof (cases "ls_leases s agent")
  case (Some m)
  then show ?thesis
    using assms by (auto simp: lease_inv_def request_lease_def mutex_of_def set_task_def intro!: list_all_update one_holder_update)
next
  case None
  have "task_ok ((ls_leases s)(agent \<mapsto> m)) task" if "task_ok (ls_leases s) task" for m task
    using that None by (cases task) auto
  then have "list_all (task_ok ((ls_leases s)(agent \<mapsto> ls_fresh s))) (ls_tasks s)"
    using assms(1) by (auto simp: lease_inv_def list_all_iff)
  then show ?thesis
    using None assms(1) by (auto simp: lease_inv_def request_lease_def mutex_of_def set_task_def intro!: list_all_update one_holder_update)
qed

text \<open>A mutex that a task refers to survives the sweep.\<close>

lemma sweep_keeps:
  assumes "lease_inv s"
  shows "lease_inv (sweep_idle_leases s)"
proof -
  have "task_ok (ls_leases (sweep_idle_leases s)) task" if "task \<in> set (ls_tasks s)" for task
  proof -
    have counted: "strong_count m s > 1" if "refers_to m task" for m
      using \<open>task \<in> set (ls_tasks s)\<close> that by (auto simp: strong_count_def filter_empty_conv)
    have "task_ok (ls_leases s) task"
      using assms \<open>task \<in> set (ls_tasks s)\<close> by (simp add: lease_inv_def list_all_iff)
    then show ?thesis
      using counted by (cases task) (auto simp: sweep_idle_leases_def refers_to_def)
  qed
  then show ?thesis
    using assms by (simp add: lease_inv_def list_all_iff) (simp add: sweep_idle_leases_def)
qed

lemma lease_step_keeps:
  assumes "lease_step s s'" and "lease_inv s"
  shows "lease_inv s'"
  using assms
proof (induction rule: lease_step.induct)
  case (spawn s)
  then show ?case by (auto simp: lease_inv_def one_holder_def nth_append)
next
  case (request i s agent)
  then show ?case by (simp add: request_keeps)
next
  case (acquire i s agent m)
  then have "task_ok (ls_leases s) (WaitsFor agent m)"
    by (metis lease_inv_def list_all_iff nth_mem)
  with acquire show ?case
    by (auto simp: lease_inv_def set_task_def intro!: list_all_update one_holder_acquire)
next
  case (cancel i s agent m)
  then show ?case by (auto simp: lease_inv_def set_task_def intro!: list_all_update one_holder_update)
next
  case (drop i s agent m)
  then show ?case by (auto simp: lease_inv_def set_task_def intro!: list_all_update one_holder_update)
next
  case (sweep s)
  then show ?case by (simp add: sweep_keeps)
qed

lemma lease_reachable_inv: "lease_step\<^sup>*\<^sup>* no_leases s \<Longrightarrow> lease_inv s"
proof (induction rule: rtranclp_induct)
  case base
  show ?case by (simp add: lease_inv_def no_leases_def one_holder_def)
qed (rule lease_step_keeps)

text \<open>After a sweep only agents that a task is concerned with have a mutex.\<close>

lemma sweep_frees: "ls_leases (sweep_idle_leases s) agent = Some m \<Longrightarrow> list_ex (refers_to m) (ls_tasks s)"
  by (auto simp: sweep_idle_leases_def strong_count_def list_ex_iff filter_empty_conv split: option.splits if_splits)

lemma holder_unique:
  assumes "lease_inv s" and "i < length (ls_tasks s)" "j < length (ls_tasks s)"
    and "holds_lease agent (ls_tasks s ! i)" "holds_lease agent (ls_tasks s ! j)"
  shows "i = j"
proof -
  obtain m n where mn: "ls_tasks s ! i = Holds agent m" "ls_tasks s ! j = Holds agent n"
    using assms(4,5) by (auto elim!: holds_lease.elims)
  have "task_ok (ls_leases s) (Holds agent m)" "task_ok (ls_leases s) (Holds agent n)"
    using assms(1-3) mn by (metis lease_inv_def list_all_iff nth_mem)+
  then have "m = n" by simp
  then show ?thesis
    using assms(1-3) mn unfolding lease_inv_def one_holder_def by (metis holds_mutex.simps(1))
qed

text \<open>
  C23: The lease of an agent is exclusive. Whatever the interleaving of tasks that request, wait for, cancel, hold and give back leases, and
  of sweeps that drop the mutexes no task refers to, no two tasks hold the lease of the same agent at the same time.
\<close>

theorem lease_exclusive:
  assumes "lease_step\<^sup>*\<^sup>* no_leases s"
  shows "length (filter (holds_lease agent) (ls_tasks s)) \<le> 1"
proof -
  let ?held = "{i. i < length (ls_tasks s) \<and> holds_lease agent (ls_tasks s ! i)}"
  have "lease_inv s" using lease_reachable_inv [OF assms] .
  then have "i = j" if "i \<in> ?held" "j \<in> ?held" for i j
    using that holder_unique [of s i j agent] by simp
  then have "card ?held \<le> 1" by (simp add: card_le_Suc0_iff_eq)
  then show ?thesis by (simp add: length_filter_conv_card)
qed

definition sample_leases :: lease_state where
  "sample_leases = \<lparr>ls_leases = [''a'' \<mapsto> 0], ls_tasks = [Holds ''a'' 0, WaitsFor ''a'' 0], ls_fresh = 1\<rparr>"

lemma sample_leases_reachable: "lease_step\<^sup>*\<^sup>* no_leases (sweep_idle_leases sample_leases)"
proof -
  let ?a = "no_leases\<lparr>ls_tasks := [NoLease]\<rparr>" and ?b = "no_leases\<lparr>ls_tasks := [NoLease, NoLease]\<rparr>"
  let ?c = "request_lease 0 ''a'' ?b"
  let ?d = "set_task 0 (Holds ''a'' 0) ?c"
  have 1: "lease_step no_leases ?a" using lease_step.spawn [of no_leases] by (simp add: no_leases_def)
  have 2: "lease_step ?a ?b" using lease_step.spawn [of ?a] by (simp add: no_leases_def)
  have 3: "lease_step ?b ?c" by (rule lease_step.request) (simp_all add: no_leases_def)
  have 4: "lease_step ?c ?d"
    by (rule lease_step.acquire) (simp_all add: no_leases_def request_lease_def mutex_of_def set_task_def)
  have 5: "lease_step ?d (request_lease 1 ''a'' ?d)"
    by (rule lease_step.request) (simp_all add: no_leases_def request_lease_def mutex_of_def set_task_def)
  have "request_lease 1 ''a'' ?d = sample_leases"
    by (simp add: no_leases_def request_lease_def mutex_of_def set_task_def sample_leases_def)
  with 5 have 5: "lease_step ?d sample_leases" by simp
  note step = rtranclp.rtrancl_into_rtrancl [of lease_step no_leases]
  have "lease_step\<^sup>*\<^sup>* no_leases sample_leases"
    by (rule step [OF step [OF step [OF step [OF step [OF rtranclp.rtrancl_refl 1] 2] 3] 4] 5])
  then show ?thesis
    using lease_step.sweep by (rule rtranclp.rtrancl_into_rtrancl)
qed

theorem lease_exclusive_witness:
  "ls_tasks (sweep_idle_leases sample_leases) = [Holds ''a'' 0, WaitsFor ''a'' 0] \<and>
   length (filter (holds_lease ''a'') (ls_tasks (sweep_idle_leases sample_leases))) \<le> 1"
  using lease_exclusive [OF sample_leases_reachable, of "''a''"] by (simp add: sweep_idle_leases_def sample_leases_def)

section \<open>The registry\<close>

type_synonym session_token = session_id
type_synonym agent_capability = string

record agent_session =
  as_token :: session_token
  as_tenant_id :: tenant_id
  as_agent_id :: agent_id
  as_name :: string
  as_version :: string
  as_connected_at :: timestamp
  as_last_heartbeat_at :: timestamp
  as_capabilities :: "agent_capability list"

text \<open>A pending live command is its access code, if it links a printer.\<close>

type_synonym pending_live_commands = "(command_id \<times> string option) list"

datatype session_signal = CloseSession session_token | WakeSession session_token

record session_registry =
  rg_sessions :: "agent_id \<rightharpoonup> agent_session"
  rg_pending :: "session_token \<Rightarrow> pending_live_commands"
  rg_signals :: "session_signal list"

definition current_session :: "agent_id \<Rightarrow> (agent_session \<Rightarrow> bool) \<Rightarrow> session_registry \<Rightarrow> agent_session option" where
  "current_session agent p reg =
     (case rg_sessions reg agent of Some s \<Rightarrow> if p s then Some s else None | None \<Rightarrow> None)"

definition register :: "agent_session \<Rightarrow> session_registry \<Rightarrow> agent_session option \<times> session_registry" where
  "register session reg =
     (let previous = rg_sessions reg (as_agent_id session);
          reg1 = reg\<lparr>rg_sessions := (rg_sessions reg)(as_agent_id session \<mapsto> session)\<rparr>
      in (previous,
          case previous of Some p \<Rightarrow> reg1\<lparr>rg_signals := rg_signals reg1 @ [CloseSession (as_token p)]\<rparr> | None \<Rightarrow> reg1))"

definition touch_heartbeat_if_current ::
  "agent_id \<Rightarrow> session_token \<Rightarrow> timestamp \<Rightarrow> session_registry \<Rightarrow> agent_session option \<times> session_registry" where
  "touch_heartbeat_if_current agent token observed_at reg =
     (case current_session agent (\<lambda>s. as_token s = token) reg of
        None \<Rightarrow> (None, reg)
      | Some s \<Rightarrow> (let s' = s\<lparr>as_last_heartbeat_at := observed_at\<rparr>
                   in (Some s', reg\<lparr>rg_sessions := (rg_sessions reg)(agent \<mapsto> s')\<rparr>)))"

definition remove_if_current :: "agent_id \<Rightarrow> session_token \<Rightarrow> session_registry \<Rightarrow> agent_session option \<times> session_registry" where
  "remove_if_current agent token reg =
     (case current_session agent (\<lambda>s. as_token s = token) reg of
        None \<Rightarrow> (None, reg)
      | Some s \<Rightarrow> (Some s, reg\<lparr>rg_sessions := (rg_sessions reg)(agent := None)\<rparr>))"

definition is_current :: "agent_id \<Rightarrow> session_token \<Rightarrow> session_registry \<Rightarrow> bool" where
  "is_current agent token reg \<longleftrightarrow> current_session agent (\<lambda>s. as_token s = token) reg \<noteq> None"

definition current_token :: "tenant_id \<Rightarrow> agent_id \<Rightarrow> session_registry \<Rightarrow> session_token option" where
  "current_token tenant agent reg = map_option as_token (current_session agent (\<lambda>s. as_tenant_id s = tenant) reg)"

definition current_token_for_capability ::
  "tenant_id \<Rightarrow> agent_id \<Rightarrow> agent_capability \<Rightarrow> session_registry \<Rightarrow> session_token option" where
  "current_token_for_capability tenant agent capability reg =
     map_option as_token (current_session agent (\<lambda>s. as_tenant_id s = tenant \<and> capability \<in> set (as_capabilities s)) reg)"

definition wake_local_agent :: "tenant_id \<Rightarrow> agent_id \<Rightarrow> session_registry \<Rightarrow> session_registry" where
  "wake_local_agent tenant agent reg =
     (case current_session agent (\<lambda>s. as_tenant_id s = tenant) reg of
        Some s \<Rightarrow> reg\<lparr>rg_signals := rg_signals reg @ [WakeSession (as_token s)]\<rparr> | None \<Rightarrow> reg)"

definition close_local_agent :: "tenant_id \<Rightarrow> agent_id \<Rightarrow> session_registry \<Rightarrow> agent_session option \<times> session_registry" where
  "close_local_agent tenant agent reg =
     (case current_session agent (\<lambda>s. as_tenant_id s = tenant) reg of
        None \<Rightarrow> (None, reg)
      | Some s \<Rightarrow> (Some s, reg\<lparr>rg_sessions := (rg_sessions reg)(agent := None),
                              rg_signals := rg_signals reg @ [CloseSession (as_token s)]\<rparr>))"

section \<open>Live commands\<close>

datatype live_dispatch_error = NotCurrent | LiveChannelClosed | LiveChannelFull

definition remove_pending :: "session_token \<Rightarrow> command_id \<Rightarrow> session_registry \<Rightarrow> session_registry" where
  "remove_pending token c reg =
     reg\<lparr>rg_pending := (rg_pending reg)(token := filter (\<lambda>(i, _). i \<noteq> c) (rg_pending reg token))\<rparr>"

definition insert_pending :: "session_token \<Rightarrow> command_id \<Rightarrow> string option \<Rightarrow> session_registry \<Rightarrow> session_registry" where
  "insert_pending token c access_code reg =
     reg\<lparr>rg_pending := (rg_pending reg)(token := (c, access_code) # filter (\<lambda>(i, _). i \<noteq> c) (rg_pending reg token))\<rparr>"

text \<open>\<open>refused\<close>: how the channel of the session answers; \<open>None\<close> if it takes the command.\<close>

definition try_dispatch_live_command_inner ::
  "tenant_id \<Rightarrow> agent_id \<Rightarrow> session_token \<Rightarrow> agent_capability option \<Rightarrow> command_id \<Rightarrow> string option \<Rightarrow> live_dispatch_error option \<Rightarrow>
     session_registry \<Rightarrow> (unit, live_dispatch_error) result \<times> session_registry" where
  "try_dispatch_live_command_inner tenant agent token capability c access_code refused reg =
     (case current_session agent (\<lambda>s. as_tenant_id s = tenant \<and> as_token s = token \<and>
                (case capability of None \<Rightarrow> True | Some k \<Rightarrow> k \<in> set (as_capabilities s))) reg of
        None \<Rightarrow> (Err NotCurrent, reg)
      | Some s \<Rightarrow>
          (let reg1 = insert_pending (as_token s) c access_code reg
           in case refused of None \<Rightarrow> (Ok (), reg1) | Some e \<Rightarrow> (Err e, remove_pending (as_token s) c reg1)))"

datatype live_command_claim_outcome = Claim "string option" | ClaimNotCurrent | ClaimNotPending

text \<open>The sessions are locked until the claim is made, so the answer is that of the moment in which the session's transition lock is taken.\<close>

definition claim_current_live_command ::
  "tenant_id \<Rightarrow> agent_id \<Rightarrow> session_token \<Rightarrow> command_id \<Rightarrow> session_registry \<Rightarrow> live_command_claim_outcome" where
  "claim_current_live_command tenant agent token c reg =
     (case current_session agent (\<lambda>s. as_tenant_id s = tenant \<and> as_token s = token) reg of
        None \<Rightarrow> ClaimNotCurrent
      | Some s \<Rightarrow> (case map_of (rg_pending reg (as_token s)) c of
                     Some access_code \<Rightarrow> Claim access_code | None \<Rightarrow> ClaimNotPending))"

text \<open>\<open>fail_pending_live_commands\<close> drains the commands of a session that is gone.\<close>

definition drain_pending :: "session_token \<Rightarrow> session_registry \<Rightarrow> command_id list \<times> session_registry" where
  "drain_pending token reg = (map fst (rg_pending reg token), reg\<lparr>rg_pending := (rg_pending reg)(token := [])\<rparr>)"

section \<open>What happens under a lease\<close>

definition connect_session ::
  "uuid_parser \<Rightarrow> agent_session \<Rightarrow> timestamp \<Rightarrow> session_registry \<times> hub_db \<Rightarrow> (agent_session option \<times> session_registry \<times> hub_db) repository_result" where
  "connect_session uuid session now x =
     and_then (claim_online_session uuid (as_tenant_id session) (as_agent_id session) (as_token session) (as_version session) now (snd x)) (\<lambda>(_, db').
       let (replaced, reg') = register session (fst x) in Ok (replaced, reg', db'))"

text \<open>A heartbeat: nothing happens unless the session is current, here and in the database.\<close>

definition heartbeat_event ::
  "uuid_parser \<Rightarrow> tenant_id \<Rightarrow> agent_id \<Rightarrow> session_token \<Rightarrow> timestamp \<Rightarrow> session_registry \<times> hub_db \<Rightarrow> (session_registry \<times> hub_db) repository_result" where
  "heartbeat_event uuid tenant agent token observed_at x =
     (if \<not> is_current agent token (fst x) then Ok x
      else case heartbeat_if_current uuid tenant agent token observed_at (snd x) of
             Ok (_, db') \<Rightarrow> Ok (snd (touch_heartbeat_if_current agent token observed_at (fst x)), db')
           | Err AgentSessionNotCurrent \<Rightarrow> Ok x
           | Err e \<Rightarrow> Err e)"

definition disconnect_session ::
  "uuid_parser \<Rightarrow> tenant_id \<Rightarrow> agent_id \<Rightarrow> session_token \<Rightarrow> timestamp \<Rightarrow> session_registry \<times> hub_db \<Rightarrow> agent_session option \<times> session_registry \<times> hub_db" where
  "disconnect_session uuid tenant agent token now x =
     (if \<not> is_current agent token (fst x) then (None, x)
      else case mark_offline_if_current uuid tenant agent token now (snd x) of
             Err _ \<Rightarrow> (None, x)
           | Ok (_, db') \<Rightarrow> (let (removed, reg') = remove_if_current agent token (fst x) in (removed, reg', db')))"

definition stale_before :: "(timestamp \<Rightarrow> int option) \<Rightarrow> timestamp \<Rightarrow> int \<Rightarrow> bool" where
  "stale_before parse_time observed_at cutoff = (case parse_time observed_at of Some t \<Rightarrow> t \<le> cutoff | None \<Rightarrow> False)"

text \<open>One turn of the loop of \<open>expire_stale\<close>, for a session that was stale when the loop began.\<close>

definition expire_one ::
  "uuid_parser \<Rightarrow> (timestamp \<Rightarrow> int option) \<Rightarrow> int \<Rightarrow> timestamp \<Rightarrow> agent_session \<Rightarrow> session_registry \<times> hub_db \<Rightarrow>
     (agent_session option \<times> session_registry \<times> hub_db) repository_result" where
  "expire_one uuid parse_time cutoff now stale x =
     (case current_session (as_agent_id stale)
             (\<lambda>s. as_token s = as_token stale \<and> stale_before parse_time (as_last_heartbeat_at s) cutoff) (fst x) of
        None \<Rightarrow> Ok (None, x)
      | Some s \<Rightarrow>
          and_then (mark_offline_if_current uuid (as_tenant_id s) (as_agent_id s) (as_token s) now (snd x)) (\<lambda>(_, db').
            let (removed, reg') = remove_if_current (as_agent_id s) (as_token s) (fst x) in Ok (removed, reg', db')))"

section \<open>Steps\<close>

text \<open>The third component lists the tokens that were ever given out; a new session has a fresh one (\<open>Uuid::new_v4\<close>).\<close>

type_synonym session_state = "session_registry \<times> hub_db \<times> session_token list"

inductive session_step :: "uuid_parser \<Rightarrow> (timestamp \<Rightarrow> int option) \<Rightarrow> session_state \<Rightarrow> session_state \<Rightarrow> bool"
  for uuid parse_time where
  connect: "as_token session \<notin> set used \<Longrightarrow> connect_session uuid session now (reg, db) = Ok (replaced, reg', db') \<Longrightarrow>
    session_step uuid parse_time (reg, db, used) (reg', db', as_token session # used)"
| heartbeat: "heartbeat_event uuid tenant agent token at_time (reg, db) = Ok (reg', db') \<Longrightarrow>
    session_step uuid parse_time (reg, db, used) (reg', db', used)"
| disconnect: "disconnect_session uuid tenant agent token now (reg, db) = (removed, reg', db') \<Longrightarrow>
    session_step uuid parse_time (reg, db, used) (reg', db', used)"
| expire: "expire_one uuid parse_time cutoff now stale (reg, db) = Ok (removed, reg', db') \<Longrightarrow>
    session_step uuid parse_time (reg, db, used) (reg', db', used)"
| close: "session_step uuid parse_time (reg, db, used) (snd (close_local_agent tenant agent reg), db, used)"
| wake: "session_step uuid parse_time (reg, db, used) (wake_local_agent tenant agent reg, db, used)"
| dispatch: "session_step uuid parse_time (reg, db, used)
    (snd (try_dispatch_live_command_inner tenant agent token capability c access_code refused reg), db, used)"
| finish: "session_step uuid parse_time (reg, db, used) (remove_pending token c reg, db, used)"
| drain: "session_step uuid parse_time (reg, db, used) (snd (drain_pending token reg), db, used)"

text \<open>Sessions change only by connecting, by a heartbeat and by leaving.\<close>

lemma pending_ops_sessions [simp]:
  "rg_sessions (remove_pending token c reg) = rg_sessions reg"
  "rg_sessions (insert_pending token c access_code reg) = rg_sessions reg"
  "rg_sessions (snd (drain_pending token reg)) = rg_sessions reg"
  "rg_sessions (wake_local_agent tenant agent reg) = rg_sessions reg"
  "rg_sessions (snd (try_dispatch_live_command_inner tenant agent token capability c access_code refused reg)) = rg_sessions reg"
  by (auto simp: remove_pending_def insert_pending_def drain_pending_def wake_local_agent_def try_dispatch_live_command_inner_def Let_def
      split: option.split)

lemma register_sessions [simp]:
  "rg_sessions (snd (register session reg)) = (rg_sessions reg)(as_agent_id session \<mapsto> session)"
  by (auto simp: register_def Let_def split: option.split)

lemma current_session_Some: "current_session agent p reg = Some s \<longleftrightarrow> rg_sessions reg agent = Some s \<and> p s"
  by (auto simp: current_session_def split: option.splits)

lemma remove_if_current_sessions:
  "rg_sessions (snd (remove_if_current agent token reg)) =
     (if is_current agent token reg then (rg_sessions reg)(agent := None) else rg_sessions reg)"
  by (auto simp: remove_if_current_def is_current_def split: option.split)

lemma close_local_sessions:
  "rg_sessions (snd (close_local_agent tenant agent reg)) agent' \<in> {None, rg_sessions reg agent'}"
  by (auto simp: close_local_agent_def split: option.split)

lemma touch_sessions:
  "rg_sessions (snd (touch_heartbeat_if_current agent token at_time reg)) =
     (if is_current agent token reg
      then (rg_sessions reg)(agent := map_option (\<lambda>s. s\<lparr>as_last_heartbeat_at := at_time\<rparr>) (rg_sessions reg agent)) else rg_sessions reg)"
  by (auto simp: touch_heartbeat_if_current_def is_current_def Let_def current_session_def split: option.split)

section \<open>Registry and database\<close>

definition agrees :: "hub_db \<Rightarrow> agent_id \<Rightarrow> agent_session \<Rightarrow> bool" where
  "agrees db agent s \<longleftrightarrow> as_agent_id s = agent \<and>
     (\<exists>row. locked_agent db agent = Some row \<and> ar_tenant_id row = as_tenant_id s \<and>
        ar_current_session_id row = Some (as_token s) \<and> ar_status row = AgentStatus_as_str Online)"

definition registry_inv :: "session_registry \<Rightarrow> hub_db \<Rightarrow> bool" where
  "registry_inv reg db \<longleftrightarrow> (\<forall>agent s. rg_sessions reg agent = Some s \<longrightarrow> agrees db agent s)"

lemma registry_inv_sub:
  assumes "registry_inv reg db" and "\<And>agent. rg_sessions reg' agent \<in> {None, rg_sessions reg agent}"
  shows "registry_inv reg' db"
  using assms unfolding registry_inv_def by (metis empty_iff insert_iff option.distinct(1))

lemma update_other_agent: "agent \<noteq> ar_id a \<Longrightarrow> locked_agent (update_agent_row a db) agent = locked_agent db agent"
  using update_agent_row_find [of agent a db] by (simp add: locked_agent_def)

lemma claim_other_agent:
  "claim_online_session uuid tenant i session version seen db = Ok (a, db') \<Longrightarrow> agent \<noteq> i \<Longrightarrow> locked_agent db' agent = locked_agent db agent"
  by (auto simp: claim_online_session_def result_simps Let_def update_other_agent dest: locked_agent_id split: if_splits)

lemma mark_offline_other_agent:
  "mark_offline_if_current uuid tenant i session seen db = Ok (a, db') \<Longrightarrow> agent \<noteq> i \<Longrightarrow> locked_agent db' agent = locked_agent db agent"
  by (auto simp: mark_offline_if_current_def result_simps Let_def update_other_agent dest: locked_agent_id split: if_splits)

lemma heartbeat_row:
  assumes "heartbeat_if_current uuid tenant i session seen db = Ok (a, db')"
  shows "agent \<noteq> i \<Longrightarrow> locked_agent db' agent = locked_agent db agent"
    and "locked_agent db i = Some row \<Longrightarrow>
      \<exists>row'. locked_agent db' i = Some row' \<and> ar_tenant_id row' = ar_tenant_id row \<and>
        ar_current_session_id row' = ar_current_session_id row \<and> ar_status row' = AgentStatus_as_str Online"
  using assms update_agent_row_find [of i] locked_agent_id [of db i]
  by (auto simp: heartbeat_if_current_def begin_current_agent_transaction_def locked_agent_def result_simps Let_def update_agent_row_find split: if_splits)

lemma connect_agrees:
  assumes "connect_session uuid session now (reg, db) = Ok (replaced, reg', db')" and "registry_inv reg db"
  shows "registry_inv reg' db'"
proof -
  obtain a where claim: "claim_online_session uuid (as_tenant_id session) (as_agent_id session) (as_token session) (as_version session) now db = Ok (a, db')"
    and reg': "reg' = snd (register session reg)"
    using assms(1) by (auto simp: connect_session_def result_simps Let_def case_prod_unfold)
  show ?thesis
    unfolding registry_inv_def reg' register_sessions
  proof (intro allI impI)
    fix agent s
    assume s: "((rg_sessions reg)(as_agent_id session \<mapsto> session)) agent = Some s"
    show "agrees db' agent s"
    proof (cases "agent = as_agent_id session")
      case True
      then show ?thesis
        using s claim_online_session_Ok [OF claim] by (simp add: agrees_def)
    next
      case False
      then show ?thesis
        using s assms(2) claim_other_agent [OF claim False] by (simp add: agrees_def registry_inv_def)
    qed
  qed
qed

lemma leave_agrees:
  assumes "registry_inv reg db" and "mark_offline_if_current uuid tenant agent token now db = Ok (a, db')" and "is_current agent token reg"
  shows "registry_inv (snd (remove_if_current agent token reg)) db'"
  using assms(1,3) mark_offline_other_agent [OF assms(2)]
  by (auto simp: registry_inv_def agrees_def remove_if_current_sessions split: if_splits)

lemma session_step_agrees:
  assumes "session_step uuid parse_time x y" and "registry_inv (fst x) (fst (snd x))"
  shows "registry_inv (fst y) (fst (snd y))"
  using assms
proof (induction rule: session_step.induct)
  case (connect session used now reg db replaced reg' db')
  then show ?case using connect_agrees by simp
next
  case (heartbeat tenant agent token at_time reg db reg' db' used)
  consider "reg' = reg" "db' = db"
    | a where "heartbeat_if_current uuid tenant agent token at_time db = Ok (a, db')" "reg' = snd (touch_heartbeat_if_current agent token at_time reg)"
    using heartbeat(1) by (auto simp: heartbeat_event_def split: if_splits result.splits repository_error.splits)
  then show ?case
  proof cases
    case 1
    then show ?thesis using heartbeat(2) by simp
  next
    case 2
    have "agrees db' i s" if s: "rg_sessions reg' i = Some s" for i s
    proof (cases "i = agent")
      case True
      then obtain s0 where "rg_sessions reg agent = Some s0" "as_token s = as_token s0" "as_agent_id s = as_agent_id s0" "as_tenant_id s = as_tenant_id s0"
        using s 2(2) by (auto simp: touch_sessions split: if_splits)
      then show ?thesis
        using heartbeat(2) heartbeat_row(2) [OF 2(1)] True by (fastforce simp: registry_inv_def agrees_def)
    next
      case False
      then show ?thesis
        using s 2(2) heartbeat(2) heartbeat_row(1) [OF 2(1) False] by (auto simp: registry_inv_def agrees_def touch_sessions split: if_splits)
    qed
    then show ?thesis by (simp add: registry_inv_def)
  qed
next
  case (disconnect tenant agent token now reg db removed reg' db' used)
  then show ?case
    using leave_agrees [of reg db uuid tenant agent token now]
    by (auto simp: disconnect_session_def Let_def split: if_splits result.splits prod.splits)
next
  case (expire cutoff now stale reg db removed reg' db' used)
  show ?case
  proof (cases "current_session (as_agent_id stale) (\<lambda>s. as_token s = as_token stale \<and> stale_before parse_time (as_last_heartbeat_at s) cutoff) reg")
    case None
    then show ?thesis using expire by (simp add: expire_one_def)
  next
    case (Some s)
    then have s: "rg_sessions reg (as_agent_id stale) = Some s" "as_token s = as_token stale"
      by (simp_all add: current_session_Some)
    then have i: "as_agent_id s = as_agent_id stale"
      using expire(2) by (auto simp: registry_inv_def agrees_def)
    obtain a where "mark_offline_if_current uuid (as_tenant_id s) (as_agent_id s) (as_token s) now db = Ok (a, db')"
      "reg' = snd (remove_if_current (as_agent_id s) (as_token s) reg)"
      using expire(1) Some by (auto simp: expire_one_def result_simps Let_def case_prod_unfold)
    then show ?thesis
      using leave_agrees [of reg db] expire(2) s i by (simp add: is_current_def current_session_Some)
  qed
next
  case (close reg db used tenant agent)
  then show ?case using registry_inv_sub [of reg db] close_local_sessions by simp
qed (simp_all add: registry_inv_def)


section \<open>Sessions that are over\<close>

definition not_registered :: "session_token \<Rightarrow> session_registry \<Rightarrow> bool" where
  "not_registered token reg \<longleftrightarrow> (\<forall>agent s. rg_sessions reg agent = Some s \<longrightarrow> as_token s \<noteq> token)"

lemma not_registered_sub:
  assumes "not_registered token reg" and "\<And>agent s. rg_sessions reg' agent = Some s \<Longrightarrow> \<exists>agent s'. rg_sessions reg agent = Some s' \<and> as_token s' = as_token s"
  shows "not_registered token reg'"
  using assms unfolding not_registered_def by metis

lemma not_registered_remove:
  assumes "not_registered token reg"
  shows "not_registered token (snd (remove_if_current i k reg))"
proof (rule not_registered_sub [OF assms])
  fix agent s
  assume "rg_sessions (snd (remove_if_current i k reg)) agent = Some s"
  then have "rg_sessions reg agent = Some s"
    by (simp add: remove_if_current_sessions split: if_splits)
  then show "\<exists>agent s'. rg_sessions reg agent = Some s' \<and> as_token s' = as_token s" by blast
qed

lemma session_step_token:
  assumes "session_step uuid parse_time x y" and "token \<in> set (snd (snd x))" and "not_registered token (fst x)"
  shows "token \<in> set (snd (snd y)) \<and> not_registered token (fst y)"
  using assms
proof (induction rule: session_step.induct)
  case (connect session used now reg db replaced reg' db')
  then have "reg' = snd (register session reg)"
    by (auto simp: connect_session_def result_simps Let_def case_prod_unfold)
  then show ?case using connect by (auto simp: not_registered_def)
next
  case (heartbeat tenant agent token' at_time reg db reg' db' used)
  then have "reg' = reg \<or> reg' = snd (touch_heartbeat_if_current agent token' at_time reg)"
    by (auto simp: heartbeat_event_def split: if_splits result.splits repository_error.splits)
  moreover have "not_registered token (snd (touch_heartbeat_if_current agent token' at_time reg))"
  proof (rule not_registered_sub)
    show "not_registered token reg" using heartbeat by simp
    fix i s
    assume "rg_sessions (snd (touch_heartbeat_if_current agent token' at_time reg)) i = Some s"
    then show "\<exists>i s'. rg_sessions reg i = Some s' \<and> as_token s' = as_token s"
      by (cases "i = agent"; auto simp: touch_sessions split: if_splits; blast)
  qed
  ultimately show ?case using heartbeat by auto
next
  case (disconnect tenant agent token' now reg db removed reg' db' used)
  then have "reg' = reg \<or> reg' = snd (remove_if_current agent token' reg)"
    by (auto simp: disconnect_session_def Let_def split: if_splits result.splits prod.splits)
  then show ?case
    using disconnect not_registered_remove [of token reg] by auto
next
  case (expire cutoff now stale reg db removed reg' db' used)
  then have "reg' = reg \<or> (\<exists>i k. reg' = snd (remove_if_current i k reg))"
    by (auto simp: expire_one_def result_simps Let_def case_prod_unfold split: option.splits)
  then show ?case
    using expire not_registered_remove [of token reg] by auto
next
  case (close reg db used tenant agent)
  then show ?case
    using close_local_sessions [of tenant agent reg] unfolding not_registered_def
    by simp (metis option.distinct(1))
qed (simp_all add: not_registered_def)


text \<open>Only a session that is stale when it is its turn, and still the one that was found stale, is expired.\<close>

lemma expire_only_stale:
  assumes "expire_one uuid parse_time cutoff now stale (reg, db) = Ok (Some s, reg', db')" and "registry_inv reg db"
  shows "rg_sessions reg (as_agent_id stale) = Some s" "as_token s = as_token stale"
    "stale_before parse_time (as_last_heartbeat_at s) cutoff" "rg_sessions reg' = (rg_sessions reg)(as_agent_id stale := None)"
proof -
  obtain s' where s': "rg_sessions reg (as_agent_id stale) = Some s'" "as_token s' = as_token stale" "stale_before parse_time (as_last_heartbeat_at s') cutoff"
    and r: "remove_if_current (as_agent_id s') (as_token s') reg = (Some s, reg')"
    using assms(1) by (auto simp: expire_one_def current_session_Some result_simps Let_def case_prod_unfold prod_eq_iff split: option.splits)
  then have "as_agent_id s' = as_agent_id stale"
    using assms(2) by (auto simp: registry_inv_def agrees_def)
  then show "rg_sessions reg (as_agent_id stale) = Some s" "as_token s = as_token stale"
    "stale_before parse_time (as_last_heartbeat_at s) cutoff" "rg_sessions reg' = (rg_sessions reg)(as_agent_id stale := None)"
    using s' r by (auto simp: remove_if_current_def current_session_def split: option.splits if_splits)
qed

section \<open>Samples\<close>

definition sample_session :: "session_token \<Rightarrow> agent_session" where
  "sample_session token =
     \<lparr>as_token = token, as_tenant_id = ''t1'', as_agent_id = ''a1'', as_name = ''garage'', as_version = ''1.0'', as_connected_at = ''2026-01-02T00:00:00Z'',
      as_last_heartbeat_at = ''2026-01-02T00:00:00Z'', as_capabilities = []\<rparr>"

definition no_sessions :: session_registry where
  "no_sessions = \<lparr>rg_sessions = Map.empty, rg_pending = \<lambda>_. [], rg_signals = []\<rparr>"

definition sample_registry :: session_registry where
  "sample_registry = snd (register (sample_session ''s1'') no_sessions)"

lemma sample_connect:
  "session_step Some parse_time (no_sessions, sample_agents_db, []) (sample_registry, snd sample_claimed, [''s1''])"
proof -
  have "connect_session Some (sample_session ''s1'') ''2026-01-02T00:00:00Z'' (no_sessions, sample_agents_db) =
      Ok (None, sample_registry, snd sample_claimed)"
    using sample_claim by (simp add: connect_session_def case_prod_unfold sample_session_def sample_registry_def register_def no_sessions_def)
  then show ?thesis
    using session_step.connect [of "sample_session ''s1''" "[]" Some] by (simp add: sample_session_def)
qed



end
