(* ===== verification/Agent_Firmware.thy ===== *)
theory Agent_Firmware
  imports Firmware_Types
begin

text \<open>
  The agent's firmware cache and firmware control: \<open>crates/pandar-agent/src/machine/firmware/cache.rs\<close>,
  \<open>firmware/control.rs\<close> and the data of \<open>firmware/types.rs\<close>. A printer's entry holds what was observed in the current
  generation of its connection and at most one reservation for a firmware command. A command is prepared, claimed for execution and
  published; meanwhile the connection may be lost (a new generation) or the session with the hub may end.

  The operations run concurrently. Each entry has a mutex, the transition guard; the epoch of the
  last ended session is an atomic that is read and raised without it, and a lease is dropped without it. An operation is
  a function from the entry to its result and the new entry; the step relation at the end splits the operations
  where other tasks can come in between. Every reading of the monotonic clock is an argument.
\<close>

section \<open>Data\<close>

record bambu_printer_endpoint =
  ep_host :: string
  ep_serial :: string
  ep_access_code :: string
  ep_model :: "string option"
  ep_name :: "string option"

record firmware_reservation_state =
  rs_command_id :: string
  rs_session_epoch :: u64
  rs_generation :: u64

record firmware_control_reservation =
  cr_state :: firmware_reservation_state
  cr_expires_at :: nat
  cr_in_flight :: bool

record firmware_entry_state =
  fe_endpoint :: "bambu_printer_endpoint option"
  fe_generation :: u64
  fe_next_generation :: u64
  fe_module_revision :: u64
  fe_status_revision :: u64
  fe_modules :: "printer_firmware_module list option"
  fe_status :: "printer_firmware_status option"
  fe_reservation :: "firmware_control_reservation option"

definition default_entry :: firmware_entry_state where
  "default_entry =
     \<lparr>fe_endpoint = None, fe_generation = 0, fe_next_generation = 0, fe_module_revision = 0, fe_status_revision = 0,
      fe_modules = None, fe_status = None, fe_reservation = None\<rparr>"

record firmware_modules_observation =
  mo_serial :: string
  mo_generation :: u64
  mo_revision :: u64
  mo_modules :: "printer_firmware_module list"

record firmware_status_observation =
  so_serial :: string
  so_generation :: u64
  so_revision :: u64
  so_status :: printer_firmware_status

record firmware_prepare_request =
  pq_command_id :: string
  pq_serial :: string
  pq_expected_generation :: u64
  pq_session_epoch :: u64

record firmware_prepared_observation =
  po_command_id :: string
  po_serial :: string
  po_generation :: u64

record firmware_cache_snapshot =
  sn_endpoint :: bambu_printer_endpoint
  sn_generation :: u64
  sn_module_revision :: u64
  sn_status_revision :: u64
  sn_modules :: "printer_firmware_module list option"
  sn_status :: "printer_firmware_status option"
  sn_reservation :: "firmware_reservation_state option"

text \<open>What the cache queues for the hub.\<close>

datatype firmware_event =
    FirmwareModules firmware_modules_observation
  | FirmwareStatus firmware_status_observation
  | FirmwareInvalidated string u64

text \<open>The last error is the panic of \<open>expect("current firmware generation has an endpoint")\<close>.\<close>

datatype firmware_error =
    EndedSession | StaleGeneration | FirmwareBusy | NotPrepared | OtherCommand | OtherSession | OtherGeneration
  | NoLongerCurrent | GenerationOverflow | RevisionOverflow | QueueClosed | EndpointMissing

definition checked_succ :: "u64 \<Rightarrow> u64 option" where
  "checked_succ n = (if n = - 1 then None else Some (n + 1))"

section \<open>Observations\<close>

text \<open>\<open>delivered\<close>: whether the queue to the hub takes the event. The entry has changed even if it does not.\<close>

definition begin_generation ::
  "bool \<Rightarrow> bambu_printer_endpoint \<Rightarrow> u64 option \<Rightarrow> firmware_entry_state \<Rightarrow>
     (u64 option, firmware_error) result \<times> firmware_event list \<times> firmware_entry_state" where
  "begin_generation delivered endpoint expected s =
     (if \<not> (case expected of None \<Rightarrow> True | Some e \<Rightarrow> fe_generation s = e) then (Ok None, [], s)
      else case checked_succ (fe_next_generation s) of
             None \<Rightarrow> (Err GenerationOverflow, [], s)
           | Some g \<Rightarrow>
               (let s' = \<lparr>fe_endpoint = Some endpoint, fe_generation = g, fe_next_generation = g, fe_module_revision = 0, fe_status_revision = 0,
                          fe_modules = None, fe_status = None, fe_reservation = None\<rparr>
                in if delivered then (Ok (Some g), [FirmwareInvalidated (ep_serial endpoint) g], s') else (Err QueueClosed, [], s')))"

text \<open>\<open>FirmwareGenerationTransition::commit_modules\<close>, with the guard already held.\<close>

definition transition_commit_modules ::
  "string \<Rightarrow> u64 \<Rightarrow> printer_firmware_module list \<Rightarrow> firmware_entry_state \<Rightarrow>
     (firmware_modules_observation, firmware_error) result \<times> firmware_entry_state" where
  "transition_commit_modules serial generation modules s =
     (case checked_succ (fe_module_revision s) of
        None \<Rightarrow> (Err RevisionOverflow, s)
      | Some r \<Rightarrow> (Ok \<lparr>mo_serial = serial, mo_generation = generation, mo_revision = r, mo_modules = modules\<rparr>,
                   s\<lparr>fe_module_revision := r, fe_modules := Some modules\<rparr>))"

definition commit_modules ::
  "string \<Rightarrow> u64 \<Rightarrow> printer_firmware_module list \<Rightarrow> firmware_entry_state \<Rightarrow>
     (firmware_modules_observation option, firmware_error) result \<times> firmware_entry_state" where
  "commit_modules serial generation modules s =
     (if fe_generation s \<noteq> generation then (Ok None, s)
      else case transition_commit_modules serial generation modules s of
             (Ok observation, s') \<Rightarrow> (Ok (Some observation), s')
           | (Err e, s') \<Rightarrow> (Err e, s'))"

definition commit_report_modules ::
  "bool \<Rightarrow> string \<Rightarrow> u64 \<Rightarrow> printer_firmware_module list \<Rightarrow> firmware_entry_state \<Rightarrow>
     (bool, firmware_error) result \<times> firmware_event list \<times> firmware_entry_state" where
  "commit_report_modules delivered serial generation modules s =
     (case commit_modules serial generation modules s of
        (Err e, s') \<Rightarrow> (Err e, [], s')
      | (Ok None, s') \<Rightarrow> (Ok False, [], s')
      | (Ok (Some observation), s') \<Rightarrow>
          if delivered then (Ok True, [FirmwareModules observation], s') else (Err QueueClosed, [], s'))"

definition apply_report_status ::
  "bool \<Rightarrow> firmware_status_observation \<Rightarrow> firmware_entry_state \<Rightarrow> (bool, firmware_error) result \<times> firmware_event list \<times> firmware_entry_state" where
  "apply_report_status delivered observation s =
     (if fe_generation s \<noteq> so_generation observation \<or> so_revision observation \<le> fe_status_revision s then (Ok False, [], s)
      else (let s' = s\<lparr>fe_status_revision := so_revision observation, fe_status := Some (so_status observation)\<rparr>
            in if delivered then (Ok True, [FirmwareStatus observation], s') else (Err QueueClosed, [], s')))"

section \<open>Control\<close>

definition expire_prepared :: "nat \<Rightarrow> firmware_entry_state \<Rightarrow> firmware_entry_state" where
  "expire_prepared now s =
     (case fe_reservation s of
        Some r \<Rightarrow> if \<not> cr_in_flight r \<and> cr_expires_at r \<le> now then s\<lparr>fe_reservation := None\<rparr> else s
      | None \<Rightarrow> s)"

definition snapshot :: "nat \<Rightarrow> firmware_entry_state \<Rightarrow> firmware_cache_snapshot option \<times> firmware_entry_state" where
  "snapshot now s =
     (let s1 = expire_prepared now s
      in (map_option (\<lambda>endpoint.
            \<lparr>sn_endpoint = endpoint, sn_generation = fe_generation s1, sn_module_revision = fe_module_revision s1,
             sn_status_revision = fe_status_revision s1, sn_modules = fe_modules s1, sn_status = fe_status s1,
             sn_reservation = map_option cr_state (fe_reservation s1)\<rparr>) (fe_endpoint s1), s1))"

text \<open>In milliseconds.\<close>

definition PREPARATION_LIFETIME :: nat where
  "PREPARATION_LIFETIME = 1000"

definition session_ended :: "u64 \<Rightarrow> u64 \<Rightarrow> bool" where
  "session_ended ended epoch \<longleftrightarrow> ended \<noteq> 0 \<and> epoch \<le> ended"

definition request_state :: "firmware_prepare_request \<Rightarrow> firmware_reservation_state" where
  "request_state request =
     \<lparr>rs_command_id = pq_command_id request, rs_session_epoch = pq_session_epoch request, rs_generation = pq_expected_generation request\<rparr>"

text \<open>\<open>ended\<close> is the ended epoch as it was loaded, \<open>now\<close> the clock for the expiry of the new reservation, \<open>now2\<close> that of the old one.\<close>

definition prepare_firmware_control ::
  "u64 \<Rightarrow> nat \<Rightarrow> nat \<Rightarrow> firmware_prepare_request \<Rightarrow> firmware_entry_state \<Rightarrow>
     (firmware_prepared_observation, firmware_error) result \<times> firmware_entry_state" where
  "prepare_firmware_control ended now now2 request s =
     (if session_ended ended (pq_session_epoch request) then (Err EndedSession, s)
      else if fe_endpoint s = None \<or> fe_generation s \<noteq> pq_expected_generation request then (Err StaleGeneration, s)
      else (let s1 = expire_prepared now2 s
            in if fe_reservation s1 \<noteq> None then (Err FirmwareBusy, s1)
               else (Ok \<lparr>po_command_id = pq_command_id request, po_serial = pq_serial request, po_generation = pq_expected_generation request\<rparr>,
                     s1\<lparr>fe_reservation := Some \<lparr>cr_state = request_state request, cr_expires_at = now + PREPARATION_LIFETIME,
                                                cr_in_flight = False\<rparr>\<rparr>)))"

text \<open>A request to execute carries the same identification as the request to prepare; the claim gives the state of the lease.\<close>

definition claim_firmware_execute ::
  "u64 \<Rightarrow> nat \<Rightarrow> firmware_prepare_request \<Rightarrow> firmware_entry_state \<Rightarrow>
     (firmware_reservation_state, firmware_error) result \<times> firmware_entry_state" where
  "claim_firmware_execute ended now request s =
     (if session_ended ended (pq_session_epoch request) then (Err EndedSession, s)
      else if fe_endpoint s = None \<or> fe_generation s \<noteq> pq_expected_generation request then (Err StaleGeneration, s)
      else (let s1 = expire_prepared now s; expected = request_state request
            in case fe_reservation s1 of
                 None \<Rightarrow> (Err NotPrepared, s1)
               | Some r \<Rightarrow>
                   if rs_command_id (cr_state r) \<noteq> rs_command_id expected then (Err OtherCommand, s1)
                   else if rs_session_epoch (cr_state r) \<noteq> rs_session_epoch expected then (Err OtherSession, s1)
                   else if rs_generation (cr_state r) \<noteq> rs_generation expected then (Err OtherGeneration, s1)
                   else if cr_in_flight r then (Err FirmwareBusy, s1)
                   else (Ok expected, s1\<lparr>fe_reservation := Some (r\<lparr>cr_in_flight := True\<rparr>)\<rparr>)))"

definition in_flight_for :: "firmware_reservation_state \<Rightarrow> firmware_entry_state \<Rightarrow> bool" where
  "in_flight_for lease s \<longleftrightarrow> (case fe_reservation s of Some r \<Rightarrow> cr_in_flight r \<and> cr_state r = lease | None \<Rightarrow> False)"

definition publish_transition :: "firmware_reservation_state \<Rightarrow> firmware_entry_state \<Rightarrow> (bambu_printer_endpoint, firmware_error) result" where
  "publish_transition lease s =
     (if \<not> in_flight_for lease s \<or> fe_generation s \<noteq> rs_generation lease then Err NoLongerCurrent
      else ok_or (fe_endpoint s) EndpointMissing)"

text \<open>\<open>Drop for FirmwareExecutionLease\<close>.\<close>

definition drop_lease :: "firmware_reservation_state \<Rightarrow> firmware_entry_state \<Rightarrow> firmware_entry_state" where
  "drop_lease lease s = (if in_flight_for lease s then s\<lparr>fe_reservation := None\<rparr> else s)"

text \<open>\<open>cancel_firmware_session\<close> for one entry.\<close>

definition cancel_entry :: "u64 \<Rightarrow> firmware_entry_state \<Rightarrow> firmware_entry_state" where
  "cancel_entry epoch s =
     (case fe_reservation s of
        Some r \<Rightarrow> if rs_session_epoch (cr_state r) = epoch then s\<lparr>fe_reservation := None\<rparr> else s
      | None \<Rightarrow> s)"

section \<open>Tasks\<close>

text \<open>
  What a task is in the middle of. \<open>Preparing\<close> and \<open>Claiming\<close> hold the guard and have loaded the ended epoch; \<open>Executing\<close> owns a lease;
  \<open>Publishing\<close> owns a lease and holds the guard; \<open>Invalidating\<close> is a generation transition, which holds the guard;
  \<open>Ending\<close> has raised the ended epoch and \<open>Cancelling\<close> has the entries still to visit.
\<close>

datatype firmware_task =
    FirmwareIdle
  | Preparing firmware_prepare_request u64
  | Claiming firmware_prepare_request u64
  | Executing string firmware_reservation_state
  | Publishing string firmware_reservation_state bambu_printer_endpoint
  | Invalidating string u64
  | Ending u64
  | Cancelling u64 "string list"

fun guards :: "string \<Rightarrow> firmware_task \<Rightarrow> bool" where
  "guards serial (Preparing request _) = (pq_serial request = serial)"
| "guards serial (Claiming request _) = (pq_serial request = serial)"
| "guards serial (Publishing s _ _) = (s = serial)"
| "guards serial (Invalidating s _) = (s = serial)"
| "guards serial _ = False"

fun lease_of :: "firmware_task \<Rightarrow> (string \<times> firmware_reservation_state) option" where
  "lease_of (Executing serial lease) = Some (serial, lease)"
| "lease_of (Publishing serial lease _) = Some (serial, lease)"
| "lease_of _ = None"

text \<open>
  The state of the process: the cache, the ended epoch and what every task is doing; the events that were queued, and the sessions whose
  cancellation is complete.
\<close>

record firmware_state =
  fw_entries :: "string \<rightharpoonup> firmware_entry_state"
  fw_ended :: u64
  fw_tasks :: "nat \<Rightarrow> firmware_task"
  fw_sent :: "firmware_event list"
  fw_cancelled :: "u64 list"

definition entry :: "string \<Rightarrow> firmware_state \<Rightarrow> firmware_entry_state" where
  "entry serial w = (case fw_entries w serial of Some s \<Rightarrow> s | None \<Rightarrow> default_entry)"

definition put :: "string \<Rightarrow> firmware_entry_state \<Rightarrow> firmware_state \<Rightarrow> firmware_state" where
  "put serial s w = w\<lparr>fw_entries := (fw_entries w)(serial \<mapsto> s)\<rparr>"

definition become :: "nat \<Rightarrow> firmware_task \<Rightarrow> firmware_state \<Rightarrow> firmware_state" where
  "become i task w = w\<lparr>fw_tasks := (fw_tasks w)(i := task)\<rparr>"

definition sent :: "firmware_event list \<Rightarrow> firmware_state \<Rightarrow> firmware_state" where
  "sent events w = w\<lparr>fw_sent := fw_sent w @ events\<rparr>"

definition unguarded :: "string \<Rightarrow> firmware_state \<Rightarrow> bool" where
  "unguarded serial w \<longleftrightarrow> (\<forall>i. \<not> guards serial (fw_tasks w i))"

text \<open>The epochs of sessions are drawn from a counter that starts at 1.\<close>

inductive firmware_step :: "firmware_state \<Rightarrow> firmware_state \<Rightarrow> bool" where
  touch: "firmware_step w (put serial (entry serial w) w)"
| begin_tr: "fw_tasks w i = FirmwareIdle \<Longrightarrow> unguarded (ep_serial endpoint) w \<Longrightarrow>
    begin_generation delivered endpoint expected (entry (ep_serial endpoint) w) = (r, events, s') \<Longrightarrow>
    task = (case r of Ok (Some g) \<Rightarrow> Invalidating (ep_serial endpoint) g | _ \<Rightarrow> FirmwareIdle) \<Longrightarrow>
    firmware_step w (become i task (sent events (put (ep_serial endpoint) s' w)))"
| commit_tr: "fw_tasks w i = Invalidating serial g \<Longrightarrow> transition_commit_modules serial g modules (entry serial w) = (r, s') \<Longrightarrow>
    firmware_step w (put serial s' w)"
| resend_tr: "fw_tasks w i = Invalidating serial g \<Longrightarrow> firmware_step w (sent [FirmwareInvalidated serial g] w)"
| end_tr: "fw_tasks w i = Invalidating serial g \<Longrightarrow> firmware_step w (become i FirmwareIdle w)"
| report_modules: "unguarded serial w \<Longrightarrow> commit_report_modules delivered serial g modules (entry serial w) = (r, events, s') \<Longrightarrow>
    firmware_step w (sent events (put serial s' w))"
| modules: "unguarded serial w \<Longrightarrow> commit_modules serial g modules (entry serial w) = (r, s') \<Longrightarrow> firmware_step w (put serial s' w)"
| report_status: "unguarded (so_serial observation) w \<Longrightarrow>
    apply_report_status delivered observation (entry (so_serial observation) w) = (r, events, s') \<Longrightarrow>
    firmware_step w (sent events (put (so_serial observation) s' w))"
| snap: "unguarded serial w \<Longrightarrow> fw_entries w serial = Some s \<Longrightarrow> firmware_step w (put serial (snd (snapshot now s)) w)"
| prepare_load: "fw_tasks w i = FirmwareIdle \<Longrightarrow> unguarded (pq_serial request) w \<Longrightarrow>
    firmware_step w (become i (Preparing request (fw_ended w)) (put (pq_serial request) (entry (pq_serial request) w) w))"
| prepare: "fw_tasks w i = Preparing request ended \<Longrightarrow>
    prepare_firmware_control ended now now2 request (entry (pq_serial request) w) = (r, s') \<Longrightarrow>
    firmware_step w (become i FirmwareIdle (put (pq_serial request) s' w))"
| claim_load: "fw_tasks w i = FirmwareIdle \<Longrightarrow> unguarded (pq_serial request) w \<Longrightarrow>
    firmware_step w (become i (Claiming request (fw_ended w)) (put (pq_serial request) (entry (pq_serial request) w) w))"
| claim: "fw_tasks w i = Claiming request ended \<Longrightarrow>
    claim_firmware_execute ended now request (entry (pq_serial request) w) = (r, s') \<Longrightarrow>
    task = (case r of Ok lease \<Rightarrow> Executing (pq_serial request) lease | Err _ \<Rightarrow> FirmwareIdle) \<Longrightarrow>
    firmware_step w (become i task (put (pq_serial request) s' w))"
| publish: "fw_tasks w i = Executing serial lease \<Longrightarrow> unguarded serial w \<Longrightarrow> publish_transition lease (entry serial w) = Ok endpoint \<Longrightarrow>
    firmware_step w (become i (Publishing serial lease endpoint) w)"
| published: "fw_tasks w i = Publishing serial lease endpoint \<Longrightarrow> firmware_step w (become i (Executing serial lease) w)"
| drop: "fw_tasks w i = Executing serial lease \<Longrightarrow>
    firmware_step w (become i FirmwareIdle (put serial (drop_lease lease (entry serial w)) w))"
| cancel_raise: "e \<noteq> 0 \<Longrightarrow> fw_tasks w i = FirmwareIdle \<Longrightarrow> firmware_step w (become i (Ending e) (w\<lparr>fw_ended := max (fw_ended w) e\<rparr>))"
| cancel_collect: "fw_tasks w i = Ending e \<Longrightarrow> set serials = dom (fw_entries w) \<Longrightarrow> firmware_step w (become i (Cancelling e serials) w)"
| cancel_visit: "fw_tasks w i = Cancelling e (serial # serials) \<Longrightarrow> unguarded serial w \<Longrightarrow>
    firmware_step w (become i (Cancelling e serials) (put serial (cancel_entry e (entry serial w)) w))"
| cancel_finish: "fw_tasks w i = Cancelling e [] \<Longrightarrow>
    firmware_step w (become i FirmwareIdle (w\<lparr>fw_cancelled := e # fw_cancelled w\<rparr>))"

definition no_firmware :: firmware_state where
  "no_firmware = \<lparr>fw_entries = Map.empty, fw_ended = 0, fw_tasks = \<lambda>_. FirmwareIdle, fw_sent = [], fw_cancelled = []\<rparr>"

section \<open>What the operations keep\<close>

lemma put_become_sent [simp]:
  "entry s (put t x w) = (if s = t then x else entry s w)"
  "fw_ended (put t x w) = fw_ended w" "fw_tasks (put t x w) = fw_tasks w" "fw_sent (put t x w) = fw_sent w"
  "fw_cancelled (put t x w) = fw_cancelled w" "dom (fw_entries (put t x w)) = insert t (dom (fw_entries w))"
  "entry s (become i task w) = entry s w" "fw_entries (become i task w) = fw_entries w" "fw_ended (become i task w) = fw_ended w"
  "fw_tasks (become i task w) = (fw_tasks w)(i := task)" "fw_sent (become i task w) = fw_sent w" "fw_cancelled (become i task w) = fw_cancelled w"
  "entry s (sent events w) = entry s w" "fw_entries (sent events w) = fw_entries w" "fw_ended (sent events w) = fw_ended w"
  "fw_tasks (sent events w) = fw_tasks w" "fw_sent (sent events w) = fw_sent w @ events" "fw_cancelled (sent events w) = fw_cancelled w"
  "entry s (w\<lparr>fw_ended := e\<rparr>) = entry s w" "entry s (w\<lparr>fw_cancelled := es\<rparr>) = entry s w"
  by (auto simp: put_def become_def sent_def entry_def)

lemma checked_succ_less: "checked_succ n = Some m \<Longrightarrow> n < m"
proof -
  assume "checked_succ n = Some m"
  then have "n \<noteq> - 1" "m = n + 1" by (auto simp: checked_succ_def split: if_splits)
  then show "n < m" using word_le_sub1 [of "n + 1"] unatSuc [of n] by (simp add: word_less_nat_alt add.commute eq_neg_iff_add_eq_0)
qed

text \<open>How an operation under the guard may change the part of an entry that controls firmware commands.\<close>

lemma expire_prepared_control:
  "fe_endpoint (expire_prepared now s) = fe_endpoint s" "fe_generation (expire_prepared now s) = fe_generation s"
  "fe_next_generation (expire_prepared now s) = fe_next_generation s"
  "fe_module_revision (expire_prepared now s) = fe_module_revision s" "fe_status_revision (expire_prepared now s) = fe_status_revision s"
  "fe_reservation (expire_prepared now s) = fe_reservation s \<or>
     fe_reservation (expire_prepared now s) = None \<and> (\<exists>r. fe_reservation s = Some r \<and> \<not> cr_in_flight r)"
  by (auto simp: expire_prepared_def split: option.splits)

definition entry_ok :: "firmware_entry_state \<Rightarrow> bool" where
  "entry_ok s \<longleftrightarrow> fe_next_generation s = fe_generation s \<and>
     (\<forall>r. fe_reservation s = Some r \<longrightarrow> fe_endpoint s \<noteq> None \<and> rs_generation (cr_state r) = fe_generation s)"

text \<open>A session is closed for a printer once its epoch is ended, whoever prepares knows it, and the printer has no reservation of it.\<close>

definition closed_for :: "string \<Rightarrow> u64 \<Rightarrow> firmware_state \<Rightarrow> bool" where
  "closed_for s e w \<longleftrightarrow> e \<noteq> 0 \<and> e \<le> fw_ended w \<and>
     (\<forall>i request ended. fw_tasks w i = Preparing request ended \<and> pq_serial request = s \<longrightarrow> e \<le> ended) \<and>
     (\<forall>r. fe_reservation (entry s w) = Some r \<longrightarrow> rs_session_epoch (cr_state r) \<noteq> e)"

lemma observation_control:
  "begin_generation delivered endpoint expected s = (r, events, s') \<Longrightarrow>
     s' = s \<and> events = [] \<and> (\<forall>g. r \<noteq> Ok (Some g)) \<or>
     fe_next_generation s < fe_generation s' \<and> fe_next_generation s' = fe_generation s' \<and> fe_endpoint s' = Some endpoint \<and> fe_reservation s' = None \<and>
     fe_module_revision s' = 0 \<and> fe_status_revision s' = 0 \<and> (events = [] \<or> events = [FirmwareInvalidated (ep_serial endpoint) (fe_generation s')]) \<and>
     (\<forall>g. r = Ok (Some g) \<longrightarrow> g = fe_generation s')"
  by (auto simp: begin_generation_def Let_def checked_succ_less split: if_splits option.splits)

definition same_control :: "firmware_entry_state \<Rightarrow> firmware_entry_state \<Rightarrow> bool" where
  "same_control s s' \<longleftrightarrow> fe_endpoint s' = fe_endpoint s \<and> fe_generation s' = fe_generation s \<and>
     fe_next_generation s' = fe_next_generation s \<and> fe_reservation s' = fe_reservation s"

lemma transition_commit_same: "transition_commit_modules serial g modules s = (r, s') \<Longrightarrow> same_control s s'"
  by (auto simp: transition_commit_modules_def same_control_def split: option.splits)

lemma commit_modules_same: "commit_modules serial g modules s = (r, s') \<Longrightarrow> same_control s s'"
  by (auto simp: commit_modules_def same_control_def transition_commit_modules_def split: option.splits if_splits)

lemma commit_report_same: "commit_report_modules delivered serial g modules s = (r, events, s') \<Longrightarrow> same_control s s'"
  using commit_modules_same [of serial g modules s]
  by (auto simp: commit_report_modules_def split: prod.splits result.splits option.splits if_splits)

lemma apply_status_same: "apply_report_status delivered observation s = (r, events, s') \<Longrightarrow> same_control s s'"
  by (auto simp: apply_report_status_def same_control_def Let_def split: if_splits)

text \<open>A reservation that is given up: it had not been claimed, and the rest of the entry stays.\<close>

definition gives_up :: "firmware_entry_state \<Rightarrow> firmware_entry_state \<Rightarrow> bool" where
  "gives_up s s' \<longleftrightarrow> same_control s s' \<or>
     fe_endpoint s' = fe_endpoint s \<and> fe_generation s' = fe_generation s \<and> fe_next_generation s' = fe_next_generation s \<and>
     fe_reservation s' = None \<and> (\<exists>r. fe_reservation s = Some r \<and> \<not> cr_in_flight r)"

lemma expire_gives_up [simp]: "gives_up s (expire_prepared now s)"
  using expire_prepared_control [of now s] by (auto simp: gives_up_def same_control_def)

lemma gives_up_refl [simp]: "gives_up s s"
  by (simp add: gives_up_def same_control_def)

lemma snapshot_gives_up: "gives_up s (snd (snapshot now s))"
  by (simp add: snapshot_def Let_def)

lemma prepare_control:
  assumes "prepare_firmware_control ended now now2 request s = (r, s')"
  shows "gives_up s s' \<or>
    \<not> session_ended ended (pq_session_epoch request) \<and> fe_endpoint s \<noteq> None \<and> fe_generation s = pq_expected_generation request \<and>
    (\<forall>q. fe_reservation s = Some q \<longrightarrow> \<not> cr_in_flight q) \<and>
    fe_endpoint s' = fe_endpoint s \<and> fe_generation s' = fe_generation s \<and> fe_next_generation s' = fe_next_generation s \<and>
    (\<exists>q. fe_reservation s' = Some q \<and> \<not> cr_in_flight q \<and> cr_state q = request_state request)"
  using assms expire_prepared_control [of now2 s]
  by (auto simp: prepare_firmware_control_def Let_def split: if_splits)

lemma claim_control:
  assumes "claim_firmware_execute ended now request s = (r, s')"
  shows "(\<exists>e. r = Err e) \<and> gives_up s s' \<or>
    (\<exists>q. r = Ok (request_state request) \<and> fe_reservation s = Some q \<and> \<not> cr_in_flight q \<and> cr_state q = request_state request \<and>
      fe_generation s' = fe_generation s \<and> fe_endpoint s' = fe_endpoint s \<and> fe_next_generation s' = fe_next_generation s \<and>
      fe_reservation s' = Some (q\<lparr>cr_in_flight := True\<rparr>))"
proof (cases r)
  case (Err e)
  then show ?thesis
    using assms by (auto simp: claim_firmware_execute_def Let_def split: if_splits option.splits)
next
  case (Ok l)
  then obtain q where q: "fe_reservation (expire_prepared now s) = Some q" "rs_command_id (cr_state q) = rs_command_id (request_state request)"
    "rs_session_epoch (cr_state q) = rs_session_epoch (request_state request)" "rs_generation (cr_state q) = rs_generation (request_state request)"
    "\<not> cr_in_flight q" "l = request_state request" "s' = (expire_prepared now s)\<lparr>fe_reservation := Some (q\<lparr>cr_in_flight := True\<rparr>)\<rparr>"
    using assms by (auto simp: claim_firmware_execute_def Let_def split: if_splits option.splits)
  then have "cr_state q = request_state request" by (intro firmware_reservation_state.equality) auto
  moreover have "fe_reservation s = Some q"
    using q(1) expire_prepared_control(6) [of now s] by auto
  ultimately show ?thesis
    using q Ok expire_prepared_control(1-3) [of now s] by (intro disjI2 exI [of _ q]) simp
qed

lemma drop_lease_control:
  "drop_lease l s = s \<and> \<not> in_flight_for l s \<or>
   in_flight_for l s \<and> fe_endpoint (drop_lease l s) = fe_endpoint s \<and> fe_generation (drop_lease l s) = fe_generation s \<and>
   fe_next_generation (drop_lease l s) = fe_next_generation s \<and> fe_reservation (drop_lease l s) = None"
  by (auto simp: drop_lease_def)

lemma cancel_entry_control:
  "cancel_entry e s = s \<and> (\<forall>r. fe_reservation s = Some r \<longrightarrow> rs_session_epoch (cr_state r) \<noteq> e) \<or>
   (\<exists>r. fe_reservation s = Some r \<and> rs_session_epoch (cr_state r) = e) \<and>
   fe_endpoint (cancel_entry e s) = fe_endpoint s \<and> fe_generation (cancel_entry e s) = fe_generation s \<and>
   fe_next_generation (cancel_entry e s) = fe_next_generation s \<and> fe_reservation (cancel_entry e s) = None"
  by (auto simp: cancel_entry_def split: option.splits)

section \<open>Sessions that have ended\<close>

text \<open>An entry changes without getting a reservation of a session that has none.\<close>

definition no_new_epoch :: "firmware_entry_state \<Rightarrow> firmware_entry_state \<Rightarrow> bool" where
  "no_new_epoch s s' \<longleftrightarrow> (\<forall>r'. fe_reservation s' = Some r' \<longrightarrow> (\<exists>r. fe_reservation s = Some r \<and> cr_state r = cr_state r'))"

lemma no_new_epoch_intros:
  "same_control s s' \<Longrightarrow> no_new_epoch s s'" "gives_up s s' \<Longrightarrow> no_new_epoch s s'" "fe_reservation s' = None \<Longrightarrow> no_new_epoch s s'"
  "no_new_epoch s (drop_lease l s)" "no_new_epoch s (cancel_entry e s)" "no_new_epoch s s"
  using drop_lease_control [of l s] cancel_entry_control [of e s] by (auto simp: no_new_epoch_def same_control_def gives_up_def)

lemma begin_no_new_epoch: "begin_generation delivered endpoint expected s = (r, events, s') \<Longrightarrow> no_new_epoch s s'"
  using observation_control no_new_epoch_intros(3,6) by metis

lemma claim_no_new_epoch: "claim_firmware_execute ended now request s = (r, s') \<Longrightarrow> no_new_epoch s s'"
  using claim_control no_new_epoch_intros(2) by (fastforce simp: no_new_epoch_def)

lemma closed_put: "closed_for s e w \<Longrightarrow> no_new_epoch (entry t w) x \<Longrightarrow> closed_for s e (put t x w)"
  by (auto simp: closed_for_def no_new_epoch_def)

lemma closed_become:
  "closed_for s e w \<Longrightarrow> (\<And>request ended. task = Preparing request ended \<Longrightarrow> e \<le> ended) \<Longrightarrow> closed_for s e (become i task w)"
  by (auto simp: closed_for_def)

fun is_preparing :: "firmware_task \<Rightarrow> bool" where
  "is_preparing (Preparing _ _) = True"
| "is_preparing _ = False"

lemma closed_become_other: "\<not> is_preparing task \<Longrightarrow> closed_for s e w \<Longrightarrow> closed_for s e (become i task w)"
  by (rule closed_become) auto

lemma closed_sent [simp]: "closed_for s e (sent events w) = closed_for s e w"
  by (simp add: closed_for_def)

lemma closed_ended: "closed_for s e w \<Longrightarrow> closed_for s e (w\<lparr>fw_ended := max (fw_ended w) d\<rparr>)"
  by (auto simp: closed_for_def le_max_iff_disj)

lemma closed_cancelled [simp]: "closed_for s e (w\<lparr>fw_cancelled := es\<rparr>) = closed_for s e w"
  by (simp add: closed_for_def)

lemma prepare_not_closed:
  assumes "closed_for s e w" and "fw_tasks w i = Preparing request ended" and "pq_serial request = s"
    and "prepare_firmware_control ended now now2 request (entry s w) = (r, s')" and "fe_reservation s' = Some q"
  shows "rs_session_epoch (cr_state q) \<noteq> e"
proof -
  have "e \<le> ended" "e \<noteq> 0" and old: "\<And>q. fe_reservation (entry s w) = Some q \<Longrightarrow> rs_session_epoch (cr_state q) \<noteq> e"
    using assms(1-3) by (auto simp: closed_for_def)
  then have "session_ended ended e"
    by (auto simp: session_ended_def)
  then have new: "pq_session_epoch request \<noteq> e" if "\<not> session_ended ended (pq_session_epoch request)"
    using that by auto
  show ?thesis
    using prepare_control [OF assms(4)]
  proof
    assume "gives_up (entry s w) s'"
    then show ?thesis
      using old assms(5) no_new_epoch_intros(2) by (metis no_new_epoch_def)
  qed (use new assms(5) in \<open>auto simp: request_state_def\<close>)
qed

lemma closed_step:
  assumes "firmware_step w w'" and "closed_for s e w"
  shows "closed_for s e w'"
  using assms
proof (induction rule: firmware_step.induct)
  case (begin_tr w i endpoint delivered expected r events s' task)
  then show ?case
    by (intro closed_become) (auto intro!: closed_put begin_no_new_epoch split: result.splits option.splits)
next
  case (prepare w i request ended now now2 r s')
  have "closed_for s e (put (pq_serial request) s' w)"
  proof (cases "pq_serial request = s")
    case True
    then have "rs_session_epoch (cr_state q) \<noteq> e" if "fe_reservation s' = Some q" for q
      using prepare_not_closed [OF prepare(3,1) True _ that] prepare(2) by simp
    then show ?thesis using prepare(3) True by (simp add: closed_for_def)
  next
    case False
    then show ?thesis using prepare(3) by (simp add: closed_for_def)
  qed
  then show ?case by (rule closed_become) simp
next
  case (claim w i request ended now r s' task)
  then show ?case
    by (intro closed_become closed_put claim_no_new_epoch) (auto split: result.splits)
next
  case (cancel_raise e' w i)
  then show ?case by (intro closed_become closed_ended) auto
next
  case (snap serial w s' now)
  then show ?case
    using snapshot_gives_up [of s' now] by (intro closed_put no_new_epoch_intros(2)) (auto simp: entry_def)
next
  case (prepare_load w i request)
  then have "e \<le> fw_ended w" by (simp add: closed_for_def)
  then show ?case
    using prepare_load(3) by (intro closed_become closed_put no_new_epoch_intros(6)) simp_all
next
  case (commit_tr w i serial g modules r s')
  then show ?case by (intro closed_put no_new_epoch_intros(1) transition_commit_same)
next
  case (report_modules serial w delivered g modules r events s')
  then show ?case by (simp add: closed_put no_new_epoch_intros(1) commit_report_same)
next
  case (modules serial w g modules r s')
  then show ?case by (intro closed_put no_new_epoch_intros(1) commit_modules_same)
next
  case (report_status observation w delivered r events s')
  then show ?case by (simp add: closed_put no_new_epoch_intros(1) apply_status_same)
qed (simp_all add: closed_become_other closed_put no_new_epoch_intros(4-6))

section \<open>The invariant\<close>

definition entries_ok :: "firmware_state \<Rightarrow> bool" where
  "entries_ok w \<longleftrightarrow> (\<forall>s. entry_ok (entry s w))"

lemma default_entry_ok [simp]: "entry_ok default_entry"
  by (simp add: entry_ok_def default_entry_def)

lemma entries_ok_put: "entries_ok w \<Longrightarrow> entry_ok x \<Longrightarrow> entries_ok (put t x w)"
  by (simp add: entries_ok_def)

lemma entries_ok_frame [simp]:
  "entries_ok (become i task w) = entries_ok w" "entries_ok (sent events w) = entries_ok w"
  "entries_ok (w\<lparr>fw_ended := e\<rparr>) = entries_ok w" "entries_ok (w\<lparr>fw_cancelled := es\<rparr>) = entries_ok w"
  by (simp_all add: entries_ok_def)

lemma entry_ok_gives_up: "entry_ok s \<Longrightarrow> gives_up s s' \<Longrightarrow> entry_ok s'"
  unfolding gives_up_def by (elim disjE) (simp_all add: entry_ok_def same_control_def)

lemma entry_ok_keeps:
  assumes "entry_ok s"
  shows "same_control s s' \<Longrightarrow> entry_ok s'" "gives_up s s' \<Longrightarrow> entry_ok s'" "entry_ok (drop_lease l s)" "entry_ok (cancel_entry e s)"
    "begin_generation delivered endpoint expected s = (r, events, s') \<Longrightarrow> entry_ok s'"
    "prepare_firmware_control ended now now2 request s = (r2, s') \<Longrightarrow> entry_ok s'"
    "claim_firmware_execute ended now request s = (r3, s') \<Longrightarrow> entry_ok s'"
  subgoal using assms by (simp add: entry_ok_def same_control_def)
  subgoal using assms by (rule entry_ok_gives_up)
  subgoal using assms drop_lease_control [of l s] by (auto simp: entry_ok_def)
  subgoal using assms cancel_entry_control [of e s] by (auto simp: entry_ok_def)
  subgoal using assms observation_control [of delivered endpoint expected s r events s'] by (auto simp: entry_ok_def)
  subgoal by (drule prepare_control, elim disjE, erule entry_ok_gives_up [OF assms]) (use assms in \<open>auto simp: entry_ok_def request_state_def\<close>)
  subgoal by (drule claim_control, elim disjE conjE, erule entry_ok_gives_up [OF assms]) (use assms in \<open>auto simp: entry_ok_def\<close>)
  done

lemma entries_ok_step:
  assumes "firmware_step w w'" and "entries_ok w"
  shows "entries_ok w'"
  using assms
proof (induction rule: firmware_step.induct)
  case (snap serial w s now)
  then have "entry_ok s" by (auto simp: entries_ok_def entry_def split: option.splits dest: spec [of _ serial])
  then show ?case using snap(3) by (simp add: entries_ok_put entry_ok_keeps(2) [OF _ snapshot_gives_up])
next
  case (commit_tr w i serial g modules r s')
  then show ?case using entry_ok_keeps(1) [OF _ transition_commit_same [OF commit_tr(2)]] by (simp add: entries_ok_put entries_ok_def)
next
  case (report_modules serial w delivered g modules r events s')
  then show ?case using entry_ok_keeps(1) [OF _ commit_report_same [OF report_modules(2)]] by (simp add: entries_ok_def)
next
  case (modules serial w g modules r s')
  then show ?case using entry_ok_keeps(1) [OF _ commit_modules_same [OF modules(2)]] by (simp add: entries_ok_def)
next
  case (report_status observation w delivered r events s')
  then show ?case using entry_ok_keeps(1) [OF _ apply_status_same [OF report_status(2)]] by (simp add: entries_ok_def)
next
  case (begin_tr w i endpoint delivered expected r events s' task)
  then show ?case using entry_ok_keeps(5) [OF _ begin_tr(3)] by (simp add: entries_ok_def)
next
  case (prepare w i request ended now now2 r s')
  then show ?case using entry_ok_keeps(6) [OF _ prepare(2)] by (simp add: entries_ok_def)
next
  case (claim w i request ended now r s' task)
  then show ?case using entry_ok_keeps(7) [OF _ claim(2)] by (simp add: entries_ok_def)
qed (simp_all add: entries_ok_def entry_ok_keeps(3,4))

text \<open>The guard of a printer has one holder.\<close>

definition guards_ok :: "firmware_state \<Rightarrow> bool" where
  "guards_ok w \<longleftrightarrow> (\<forall>s i j. guards s (fw_tasks w i) \<and> guards s (fw_tasks w j) \<longrightarrow> i = j)"

lemma guards_ok_take: "guards_ok w \<Longrightarrow> unguarded s w \<Longrightarrow> (\<And>t. guards t task \<Longrightarrow> t = s) \<Longrightarrow> guards_ok (become i task w)"
  unfolding guards_ok_def unguarded_def by (simp split: if_splits) metis

lemma guards_ok_keep: "guards_ok w \<Longrightarrow> (\<And>t. guards t task \<Longrightarrow> guards t (fw_tasks w i)) \<Longrightarrow> guards_ok (become i task w)"
  unfolding guards_ok_def by (simp split: if_splits) metis

lemma guards_ok_leave: "\<forall>t. \<not> guards t task \<Longrightarrow> guards_ok w \<Longrightarrow> guards_ok (become i task w)"
  by (rule guards_ok_keep) auto

lemma guards_ok_frame [simp]:
  "guards_ok (put t x w) = guards_ok w" "guards_ok (sent events w) = guards_ok w"
  "guards_ok (w\<lparr>fw_ended := e\<rparr>) = guards_ok w" "guards_ok (w\<lparr>fw_cancelled := es\<rparr>) = guards_ok w"
  "unguarded s (put t x w) = unguarded s w" "unguarded s (sent events w) = unguarded s w"
  by (simp_all add: guards_ok_def unguarded_def)

lemma guards_ok_step: "firmware_step w w' \<Longrightarrow> guards_ok w \<Longrightarrow> guards_ok w'"
proof (induction rule: firmware_step.induct)
  case (begin_tr w i endpoint delivered expected r events s' task)
  then show ?case by (intro guards_ok_take [where s = "ep_serial endpoint"]) (auto split: result.splits option.splits)
next
  case (prepare_load w i request)
  then show ?case by (intro guards_ok_take [where s = "pq_serial request"]) auto
next
  case (claim_load w i request)
  then show ?case by (intro guards_ok_take [where s = "pq_serial request"]) auto
next
  case (publish w i serial lease endpoint)
  then show ?case by (intro guards_ok_take [where s = serial]) auto
next
  case (claim w i request ended now r s' task)
  then show ?case by (intro guards_ok_keep) (auto split: result.splits)
qed (simp_all add: guards_ok_leave)

text \<open>
  The leases. A lease is of a generation that has been; it is the claimed reservation of its printer, or the generation is over, or its
  session is closed. Leases of a printer differ, also from a reservation that is not claimed. While a command is being published, its
  lease is current and the endpoint is that of the generation.
\<close>

definition lease_ok :: "string \<Rightarrow> firmware_reservation_state \<Rightarrow> firmware_state \<Rightarrow> bool" where
  "lease_ok s l w \<longleftrightarrow> rs_generation l \<le> fe_generation (entry s w) \<and>
     (in_flight_for l (entry s w) \<or> rs_generation l < fe_generation (entry s w) \<or> closed_for s (rs_session_epoch l) w)"

definition leases_ok :: "firmware_state \<Rightarrow> bool" where
  "leases_ok w \<longleftrightarrow>
     (\<forall>i s l. lease_of (fw_tasks w i) = Some (s, l) \<longrightarrow> lease_ok s l w \<and>
        (\<forall>r. fe_reservation (entry s w) = Some r \<and> \<not> cr_in_flight r \<longrightarrow> cr_state r \<noteq> l)) \<and>
     (\<forall>i j x. lease_of (fw_tasks w i) = Some x \<and> lease_of (fw_tasks w j) = Some x \<longrightarrow> i = j) \<and>
     (\<forall>i s l ep. fw_tasks w i = Publishing s l ep \<longrightarrow> in_flight_for l (entry s w) \<and> fe_endpoint (entry s w) = Some ep)"

definition quiet_change :: "firmware_entry_state \<Rightarrow> firmware_entry_state \<Rightarrow> bool" where
  "quiet_change x x' \<longleftrightarrow> fe_endpoint x' = fe_endpoint x \<and> fe_generation x' = fe_generation x \<and>
     (\<forall>l. in_flight_for l x' = in_flight_for l x) \<and>
     (\<forall>r. fe_reservation x' = Some r \<and> \<not> cr_in_flight r \<longrightarrow> fe_reservation x = Some r)"

lemma quiet_change_intros:
  "same_control x x' \<Longrightarrow> quiet_change x x'" "gives_up x x' \<Longrightarrow> quiet_change x x'" "quiet_change x x"
  by (auto simp: quiet_change_def same_control_def gives_up_def in_flight_for_def)

lemma leases_quiet:
  assumes ok: "leases_ok w" and quiet: "quiet_change (entry t w) x'"
    and closed: "\<And>s e. closed_for s e w \<Longrightarrow> closed_for s e w'"
    and entries: "\<And>s. entry s w' = (if s = t then x' else entry s w)"
    and tasks: "fw_tasks w' = (fw_tasks w)(i := task)"
    and task: "task = fw_tasks w i \<or> lease_of task = None \<or> (\<exists>s l ep. task = Executing s l \<and> fw_tasks w i = Publishing s l ep)"
  shows "leases_ok w'"
proof -
  have lease: "lease_of (fw_tasks w j) = Some (s, l)" if "lease_of (fw_tasks w' j) = Some (s, l)" for j s l
    using that task by (auto simp: tasks split: if_splits)
  have "lease_ok s l w'" if "lease_of (fw_tasks w' j) = Some (s, l)" for j s l
  proof -
    have "lease_ok s l w" using ok lease [OF that] by (simp add: leases_ok_def)
    then show ?thesis
      using quiet closed by (auto simp: lease_ok_def entries quiet_change_def)
  qed
  moreover have "cr_state r \<noteq> l" if "lease_of (fw_tasks w' j) = Some (s, l)" "fe_reservation (entry s w') = Some r" "\<not> cr_in_flight r" for j s l r
  proof -
    have "fe_reservation (entry s w) = Some r"
      using quiet that(2,3) by (auto simp: quiet_change_def entries split: if_splits)
    then show ?thesis
      using ok lease [OF that(1)] that(3) by (simp add: leases_ok_def)
  qed
  moreover have "j = k" if "lease_of (fw_tasks w' j) = Some x" "lease_of (fw_tasks w' k) = Some x" for j k x
    using ok lease that unfolding leases_ok_def by (metis surj_pair)
  moreover have "in_flight_for l (entry s w') \<and> fe_endpoint (entry s w') = Some ep" if "fw_tasks w' j = Publishing s l ep" for j s l ep
  proof -
    have "fw_tasks w j = Publishing s l ep"
      using that task by (auto simp: tasks split: if_splits)
    then have "in_flight_for l (entry s w) \<and> fe_endpoint (entry s w) = Some ep"
      using ok by (simp add: leases_ok_def)
    then show ?thesis
      using quiet by (auto simp: entries quiet_change_def)
  qed
  ultimately show ?thesis
    unfolding leases_ok_def by blast
qed

text \<open>An entry whose reservation goes away while no one publishes: the leases that lose their reservation are over.\<close>

lemma leases_revoke:
  assumes ok: "leases_ok w" and free: "unguarded t w"
    and closed: "\<And>s e. closed_for s e w \<Longrightarrow> closed_for s e w'"
    and entries: "\<And>s. entry s w' = (if s = t then x' else entry s w)"
    and tasks: "fw_tasks w' = (fw_tasks w)(i := task)" and task: "lease_of task = None"
    and gone: "fe_reservation x' = None" "fe_generation (entry t w) \<le> fe_generation x'"
    and over: "\<And>l. in_flight_for l (entry t w) \<Longrightarrow> fe_generation (entry t w) < fe_generation x' \<or> closed_for t (rs_session_epoch l) w'"
  shows "leases_ok w'"
proof -
  have lease: "lease_of (fw_tasks w j) = Some (s, l)" if "lease_of (fw_tasks w' j) = Some (s, l)" for j s l
    using that task by (auto simp: tasks split: if_splits)
  have "lease_ok s l w'" if "lease_of (fw_tasks w' j) = Some (s, l)" for j s l
  proof -
    have "lease_ok s l w" using ok lease [OF that] by (simp add: leases_ok_def)
    then show ?thesis
      using over [of l] gone(2) closed by (auto simp: lease_ok_def entries)
  qed
  moreover have "cr_state r \<noteq> l" if "lease_of (fw_tasks w' j) = Some (s, l)" "fe_reservation (entry s w') = Some r" "\<not> cr_in_flight r" for j s l r
    using ok lease [OF that(1)] that(2,3) gone(1) by (auto simp: leases_ok_def entries split: if_splits)
  moreover have "j = k" if "lease_of (fw_tasks w' j) = Some x" "lease_of (fw_tasks w' k) = Some x" for j k x
    using ok lease that unfolding leases_ok_def by (metis surj_pair)
  moreover have "in_flight_for l (entry s w') \<and> fe_endpoint (entry s w') = Some ep" if "fw_tasks w' j = Publishing s l ep" for j s l ep
  proof -
    have j: "fw_tasks w j = Publishing s l ep"
      using that task by (auto simp: tasks split: if_splits)
    then have "s \<noteq> t" using free by (metis guards.simps(3) unguarded_def)
    then show ?thesis
      using ok j by (simp add: leases_ok_def entries)
  qed
  ultimately show ?thesis
    unfolding leases_ok_def by blast
qed

lemma leases_begin:
  assumes "leases_ok w" and "unguarded (ep_serial endpoint) w" and "fw_tasks w i = FirmwareIdle" and "entry_ok (entry (ep_serial endpoint) w)"
    and "begin_generation delivered endpoint expected (entry (ep_serial endpoint) w) = (r, events, s')"
    and "w' = become i (case r of Ok (Some g) \<Rightarrow> Invalidating (ep_serial endpoint) g | _ \<Rightarrow> FirmwareIdle) (sent events (put (ep_serial endpoint) s' w))"
    and "\<And>s e. closed_for s e w \<Longrightarrow> closed_for s e w'"
  shows "leases_ok w'"
  using observation_control [OF assms(5)]
proof
  assume "s' = entry (ep_serial endpoint) w \<and> events = [] \<and> (\<forall>g. r \<noteq> Ok (Some g))"
  then show ?thesis
    by (intro leases_quiet [OF assms(1) quiet_change_intros(3) [of "entry (ep_serial endpoint) w"] assms(7)])
      (auto simp: assms(6) split: result.splits option.splits)
next
  let ?s = "entry (ep_serial endpoint) w"
  assume new: "fe_next_generation ?s < fe_generation s' \<and> fe_next_generation s' = fe_generation s' \<and> fe_endpoint s' = Some endpoint \<and>
    fe_reservation s' = None \<and> fe_module_revision s' = 0 \<and> fe_status_revision s' = 0 \<and>
    (events = [] \<or> events = [FirmwareInvalidated (ep_serial endpoint) (fe_generation s')]) \<and> (\<forall>g. r = Ok (Some g) \<longrightarrow> g = fe_generation s')"
  then have less: "fe_generation ?s < fe_generation s'" using assms(4) by (simp add: entry_ok_def)
  show ?thesis
    by (rule leases_revoke [OF assms(1,2,7), where x' = s' and i = i])
      (use new less in \<open>auto simp: assms(6) split: result.splits option.splits\<close>)
qed

lemma leases_cancel_visit:
  assumes "leases_ok w" and "unguarded serial w" and "fw_tasks w i = Cancelling e (serial # serials)" and "closed_for serial e w'"
    and "w' = become i (Cancelling e serials) (put serial (cancel_entry e (entry serial w)) w)"
    and "\<And>s e. closed_for s e w \<Longrightarrow> closed_for s e w'"
  shows "leases_ok w'"
  using cancel_entry_control [of e "entry serial w"]
proof
  assume "cancel_entry e (entry serial w) = entry serial w \<and> (\<forall>r. fe_reservation (entry serial w) = Some r \<longrightarrow> rs_session_epoch (cr_state r) \<noteq> e)"
  then show ?thesis
    by (intro leases_quiet [OF assms(1) quiet_change_intros(3) [of "entry serial w"] assms(6)]) (auto simp: assms(5))
next
  assume gone: "(\<exists>r. fe_reservation (entry serial w) = Some r \<and> rs_session_epoch (cr_state r) = e) \<and>
    fe_endpoint (cancel_entry e (entry serial w)) = fe_endpoint (entry serial w) \<and>
    fe_generation (cancel_entry e (entry serial w)) = fe_generation (entry serial w) \<and>
    fe_next_generation (cancel_entry e (entry serial w)) = fe_next_generation (entry serial w) \<and>
    fe_reservation (cancel_entry e (entry serial w)) = None"
  then have "rs_session_epoch l = e" if "in_flight_for l (entry serial w)" for l
    using that by (auto simp: in_flight_for_def)
  then show ?thesis
    by (intro leases_revoke [OF assms(1,2,6), where x' = "cancel_entry e (entry serial w)" and i = i and task = "Cancelling e serials"])
      (use gone assms(4) in \<open>auto simp: assms(5)\<close>)
qed

lemma in_flight_unique: "in_flight_for l x \<Longrightarrow> in_flight_for l' x \<Longrightarrow> l' = l"
  by (auto simp: in_flight_for_def split: option.splits)

lemma leases_okD:
  assumes "leases_ok w"
  shows "lease_of (fw_tasks w i) = Some (s, l) \<Longrightarrow> lease_ok s l w"
    "lease_of (fw_tasks w i) = Some (s, l) \<Longrightarrow> fe_reservation (entry s w) = Some r \<Longrightarrow> \<not> cr_in_flight r \<Longrightarrow> cr_state r \<noteq> l"
    "lease_of (fw_tasks w i) = Some x \<Longrightarrow> lease_of (fw_tasks w j) = Some x \<Longrightarrow> i = j"
    "fw_tasks w i = Publishing s l ep \<Longrightarrow> in_flight_for l (entry s w) \<and> fe_endpoint (entry s w) = Some ep"
  using assms unfolding leases_ok_def by blast+

lemma leases_okI:
  assumes "\<And>i s l. lease_of (fw_tasks w i) = Some (s, l) \<Longrightarrow> lease_ok s l w"
    "\<And>i s l r. lease_of (fw_tasks w i) = Some (s, l) \<Longrightarrow> fe_reservation (entry s w) = Some r \<Longrightarrow> \<not> cr_in_flight r \<Longrightarrow> cr_state r \<noteq> l"
    "\<And>i j s l. lease_of (fw_tasks w i) = Some (s, l) \<Longrightarrow> lease_of (fw_tasks w j) = Some (s, l) \<Longrightarrow> i = j"
    "\<And>i s l ep. fw_tasks w i = Publishing s l ep \<Longrightarrow> in_flight_for l (entry s w) \<and> fe_endpoint (entry s w) = Some ep"
  shows "leases_ok w"
  using assms unfolding leases_ok_def split_paired_All by blast

lemma leases_prepare:
  assumes ok: "leases_ok w" and i: "fw_tasks w i = Preparing request ended"
    and p: "prepare_firmware_control ended now now2 request (entry (pq_serial request) w) = (r, s')"
    and w': "w' = become i FirmwareIdle (put (pq_serial request) s' w)"
    and closed: "\<And>s e. closed_for s e w \<Longrightarrow> closed_for s e w'"
  shows "leases_ok w'"
  using prepare_control [OF p]
proof
  assume "gives_up (entry (pq_serial request) w) s'"
  then show ?thesis
    by (intro leases_quiet [OF ok quiet_change_intros(2) closed]) (auto simp: w')
next
  let ?t = "pq_serial request" and ?x = "entry (pq_serial request) w"
  assume "\<not> session_ended ended (pq_session_epoch request) \<and> fe_endpoint ?x \<noteq> None \<and> fe_generation ?x = pq_expected_generation request \<and>
    (\<forall>q. fe_reservation ?x = Some q \<longrightarrow> \<not> cr_in_flight q) \<and>
    fe_endpoint s' = fe_endpoint ?x \<and> fe_generation s' = fe_generation ?x \<and> fe_next_generation s' = fe_next_generation ?x \<and>
    (\<exists>q. fe_reservation s' = Some q \<and> \<not> cr_in_flight q \<and> cr_state q = request_state request)"
  then obtain q where x: "fe_generation ?x = pq_expected_generation request" "fe_generation s' = fe_generation ?x"
    and none: "\<And>l. \<not> in_flight_for l ?x"
    and q: "fe_reservation s' = Some q" "\<not> cr_in_flight q" "cr_state q = request_state request"
    by (auto simp: in_flight_for_def split: option.splits)
  have lease: "lease_of (fw_tasks w j) = Some (s, l)" if "lease_of (fw_tasks w' j) = Some (s, l)" for j s l
    using that by (auto simp: w' split: if_splits)
  have over: "rs_generation l < fe_generation ?x \<or> closed_for ?t (rs_session_epoch l) w" if "lease_of (fw_tasks w j) = Some (?t, l)" for j l
    using leases_okD(1) [OF ok that] none by (simp add: lease_ok_def)
  have open_session: "\<not> closed_for ?t (pq_session_epoch request) w"
    using prepare_not_closed [OF _ i refl p q(1), of "pq_session_epoch request"] q(3) by (auto simp: request_state_def)
  show ?thesis
  proof (rule leases_okI)
    fix j s l
    assume j: "lease_of (fw_tasks w' j) = Some (s, l)"
    show "lease_ok s l w'"
      using leases_okD(1) [OF ok lease [OF j]] closed none x(2) by (auto simp: lease_ok_def w')
    fix r'
    assume r': "fe_reservation (entry s w') = Some r'" "\<not> cr_in_flight r'"
    show "cr_state r' \<noteq> l"
    proof (cases "s = ?t")
      case True
      then have "r' = q" using r'(1) q(1) by (simp add: w')
      moreover have "l \<noteq> request_state request"
        using over [of j l] lease [OF j] True x(1) open_session by (auto simp: request_state_def)
      ultimately show ?thesis using q(3) by simp
    next
      case False
      then show ?thesis using leases_okD(2) [OF ok lease [OF j]] r' by (simp add: w')
    qed
  next
    fix j k s l
    assume "lease_of (fw_tasks w' j) = Some (s, l)" "lease_of (fw_tasks w' k) = Some (s, l)"
    then show "j = k" using lease leases_okD(3) [OF ok] by blast
  next
    fix j s l ep
    assume "fw_tasks w' j = Publishing s l ep"
    then have "fw_tasks w j = Publishing s l ep" by (auto simp: w' split: if_splits)
    then have "in_flight_for l (entry s w) \<and> fe_endpoint (entry s w) = Some ep" by (rule leases_okD(4) [OF ok])
    then show "in_flight_for l (entry s w') \<and> fe_endpoint (entry s w') = Some ep"
      using none by (auto simp: w')
  qed
qed

lemma leases_claim:
  assumes ok: "leases_ok w" and e: "entry_ok (entry (pq_serial request) w)"
    and p: "claim_firmware_execute ended now request (entry (pq_serial request) w) = (r, s')"
    and w': "w' = become i (case r of Ok l \<Rightarrow> Executing (pq_serial request) l | Err _ \<Rightarrow> FirmwareIdle) (put (pq_serial request) s' w)"
    and closed: "\<And>s e. closed_for s e w \<Longrightarrow> closed_for s e w'"
  shows "leases_ok w'"
  using claim_control [OF p]
proof
  assume "(\<exists>e. r = Err e) \<and> gives_up (entry (pq_serial request) w) s'"
  then show ?thesis
    by (intro leases_quiet [OF ok quiet_change_intros(2) closed]) (auto simp: w')
next
  let ?t = "pq_serial request" and ?x = "entry (pq_serial request) w" and ?l = "request_state request"
  assume "\<exists>q. r = Ok ?l \<and> fe_reservation ?x = Some q \<and> \<not> cr_in_flight q \<and> cr_state q = ?l \<and>
      fe_generation s' = fe_generation ?x \<and> fe_endpoint s' = fe_endpoint ?x \<and> fe_next_generation s' = fe_next_generation ?x \<and>
      fe_reservation s' = Some (q\<lparr>cr_in_flight := True\<rparr>)"
  then obtain q where r: "r = Ok ?l" and q: "fe_reservation ?x = Some q" "\<not> cr_in_flight q" "cr_state q = ?l"
    and s': "fe_generation s' = fe_generation ?x" "fe_reservation s' = Some (q\<lparr>cr_in_flight := True\<rparr>)" by blast
  have none: "\<not> in_flight_for l ?x" for l using q by (simp add: in_flight_for_def)
  have new: "in_flight_for ?l s'" "rs_generation ?l = fe_generation s'"
    using q s' e by (auto simp: in_flight_for_def entry_ok_def)
  have other: "\<not> lease_of (fw_tasks w j) = Some (?t, ?l)" for j
    using leases_okD(2) [OF ok _ q(1,2), of j] q(3) by auto
  have lease: "j = i \<and> s = ?t \<and> l = ?l \<or> j \<noteq> i \<and> lease_of (fw_tasks w j) = Some (s, l)" if "lease_of (fw_tasks w' j) = Some (s, l)" for j s l
    using that by (auto simp: w' r split: if_splits)
  show ?thesis
  proof (rule leases_okI)
    fix j s l
    assume j: "lease_of (fw_tasks w' j) = Some (s, l)"
    show "lease_ok s l w'"
      using lease [OF j] new closed leases_okD(1) [OF ok, of j s l] none s'(1) by (auto simp: lease_ok_def w')
    fix r'
    assume "fe_reservation (entry s w') = Some r'" "\<not> cr_in_flight r'"
    moreover from this have "s \<noteq> ?t" using s'(2) by (auto simp: w')
    ultimately show "cr_state r' \<noteq> l"
      using lease [OF j] leases_okD(2) [OF ok, of j s l r'] by (auto simp: w')
  next
    fix j k s l
    assume "lease_of (fw_tasks w' j) = Some (s, l)" "lease_of (fw_tasks w' k) = Some (s, l)"
    then show "j = k" using lease [of j s l] lease [of k s l] other leases_okD(3) [OF ok, of j "(s, l)" k] by auto
  next
    fix j s l ep
    assume "fw_tasks w' j = Publishing s l ep"
    then have "fw_tasks w j = Publishing s l ep" by (auto simp: w' r split: if_splits)
    then have "in_flight_for l (entry s w) \<and> fe_endpoint (entry s w) = Some ep" by (rule leases_okD(4) [OF ok])
    then show "in_flight_for l (entry s w') \<and> fe_endpoint (entry s w') = Some ep"
      using none by (auto simp: w')
  qed
qed

lemma leases_publish:
  assumes ok: "leases_ok w" and i: "fw_tasks w i = Executing serial l" and p: "publish_transition l (entry serial w) = Ok ep"
    and w': "w' = become i (Publishing serial l ep) w" and closed: "\<And>s e. closed_for s e w \<Longrightarrow> closed_for s e w'"
  shows "leases_ok w'"
proof (rule leases_okI)
  have lease: "lease_of (fw_tasks w j) = x" if "lease_of (fw_tasks w' j) = x" for j x
    using that i by (auto simp: w' split: if_splits)
  fix j s l'
  assume j: "lease_of (fw_tasks w' j) = Some (s, l')"
  show "lease_ok s l' w'" using leases_okD(1) [OF ok lease [OF j]] closed by (auto simp: lease_ok_def w')
  {
    fix r assume "fe_reservation (entry s w') = Some r" "\<not> cr_in_flight r"
    then show "cr_state r \<noteq> l'" using leases_okD(2) [OF ok lease [OF j]] by (simp add: w')
  next
    fix k assume "lease_of (fw_tasks w' k) = Some (s, l')"
    then show "j = k" using leases_okD(3) [OF ok lease [OF j]] lease by blast
  }
next
  fix j s l' ep'
  assume "fw_tasks w' j = Publishing s l' ep'"
  then show "in_flight_for l' (entry s w') \<and> fe_endpoint (entry s w') = Some ep'"
    using p leases_okD(4) [OF ok, of j s l' ep'] by (auto simp: w' publish_transition_def result_simps split: if_splits)
qed

lemma leases_drop:
  assumes ok: "leases_ok w" and i: "fw_tasks w i = Executing serial l"
    and w': "w' = become i FirmwareIdle (put serial (drop_lease l (entry serial w)) w)" and closed: "\<And>s e. closed_for s e w \<Longrightarrow> closed_for s e w'"
  shows "leases_ok w'"
  using drop_lease_control [of l "entry serial w"]
proof
  assume "drop_lease l (entry serial w) = entry serial w \<and> \<not> in_flight_for l (entry serial w)"
  then show ?thesis
    by (intro leases_quiet [OF ok quiet_change_intros(3) [of "entry serial w"] closed]) (auto simp: w')
next
  let ?x = "entry serial w" and ?x' = "drop_lease l (entry serial w)"
  assume x: "in_flight_for l ?x \<and> fe_endpoint ?x' = fe_endpoint ?x \<and> fe_generation ?x' = fe_generation ?x \<and>
    fe_next_generation ?x' = fe_next_generation ?x \<and> fe_reservation ?x' = None"
  have other: "j \<noteq> i \<and> lease_of (fw_tasks w j) = Some (s, l')" if "lease_of (fw_tasks w' j) = Some (s, l')" for j s l'
    using that by (auto simp: w' split: if_splits)
  have not_in_flight: "\<not> in_flight_for l' ?x" if "j \<noteq> i" "lease_of (fw_tasks w j) = Some (serial, l')" for j l'
    using in_flight_unique [of l ?x l'] x leases_okD(3) [OF ok, of j "(serial, l')" i] that i by auto
  show ?thesis
  proof (rule leases_okI)
    fix j s l'
    assume j: "lease_of (fw_tasks w' j) = Some (s, l')"
    show "lease_ok s l' w'"
      using leases_okD(1) [OF ok, of j s l'] other [OF j] not_in_flight [of j l'] closed x by (auto simp: lease_ok_def w')
    {
    fix r assume r: "fe_reservation (entry s w') = Some r" "\<not> cr_in_flight r"
    then have "s \<noteq> serial" using x by (auto simp: w')
    then show "cr_state r \<noteq> l'" using leases_okD(2) [OF ok, of j s l' r] other [OF j] r by (simp add: w')
    next
    fix k assume "lease_of (fw_tasks w' k) = Some (s, l')"
    then show "j = k" using leases_okD(3) [OF ok, of j "(s, l')" k] other [OF j] other [of k s l'] by simp
    }
  next
    fix j s l' ep
    assume "fw_tasks w' j = Publishing s l' ep"
    then have j: "j \<noteq> i" "fw_tasks w j = Publishing s l' ep" by (auto simp: w' split: if_splits)
    then show "in_flight_for l' (entry s w') \<and> fe_endpoint (entry s w') = Some ep"
      using leases_okD(4) [OF ok j(2)] not_in_flight [of j l'] by (auto simp: w')
  qed
qed

text \<open>Cancelling: the printers that have been visited are closed for the session.\<close>

definition cancel_ok :: "firmware_state \<Rightarrow> bool" where
  "cancel_ok w \<longleftrightarrow>
     (\<forall>e s. e \<in> set (fw_cancelled w) \<longrightarrow> closed_for s e w) \<and>
     (\<forall>i e. fw_tasks w i = Ending e \<longrightarrow> e \<noteq> 0 \<and> e \<le> fw_ended w) \<and>
     (\<forall>i e ss. fw_tasks w i = Cancelling e ss \<longrightarrow> e \<noteq> 0 \<and> e \<le> fw_ended w \<and> (\<forall>s. s \<notin> set ss \<longrightarrow> closed_for s e w)) \<and>
     (\<forall>i request ended. fw_tasks w i = Preparing request ended \<longrightarrow> pq_serial request \<in> dom (fw_entries w))"

fun is_cancelling :: "firmware_task \<Rightarrow> bool" where
  "is_cancelling (Ending _) = True"
| "is_cancelling (Cancelling _ _) = True"
| "is_cancelling _ = False"

lemma cancel_ok_other:
  assumes "cancel_ok w" and closed: "\<And>s e. closed_for s e w \<Longrightarrow> closed_for s e w'"
    and "fw_cancelled w' = fw_cancelled w" and "fw_ended w' = fw_ended w" and "dom (fw_entries w) \<subseteq> dom (fw_entries w')"
    and tasks: "fw_tasks w' = (fw_tasks w)(i := task)"
    and task: "task = fw_tasks w i \<or> \<not> is_cancelling task \<and> (\<forall>request ended. task = Preparing request ended \<longrightarrow> pq_serial request \<in> dom (fw_entries w'))"
  shows "cancel_ok w'"
proof -
  have old: "fw_tasks w j = b" if "fw_tasks w' j = b" "is_cancelling b" for j b
    using that task by (auto simp: tasks split: if_splits)
  have "pq_serial request \<in> dom (fw_entries w')" if "fw_tasks w' j = Preparing request ended" for j request ended
    using that assms(1,5) task unfolding cancel_ok_def tasks by (metis fun_upd_apply subsetD)
  moreover have "e \<noteq> 0 \<and> e \<le> fw_ended w'" if "fw_tasks w' j = Ending e" for j e
    using assms(1,4) old [OF that] by (simp add: cancel_ok_def)
  moreover have "e \<noteq> 0 \<and> e \<le> fw_ended w' \<and> (\<forall>s. s \<notin> set ss \<longrightarrow> closed_for s e w')" if "fw_tasks w' j = Cancelling e ss" for j e ss
    using assms(1,4) old [OF that] closed by (simp add: cancel_ok_def)
  moreover have "closed_for s e w'" if "e \<in> set (fw_cancelled w')" for s e
    using assms(1,3) that closed by (simp add: cancel_ok_def)
  ultimately show ?thesis
    unfolding cancel_ok_def by blast
qed

lemma cancel_ok_collect:
  assumes "cancel_ok w" and "fw_tasks w i = Ending e" and "set serials = dom (fw_entries w)" and "w' = become i (Cancelling e serials) w"
    and closed: "\<And>s e. closed_for s e w \<Longrightarrow> closed_for s e w'"
  shows "cancel_ok w'"
proof -
  have e: "e \<noteq> 0" "e \<le> fw_ended w" using assms(1,2) by (auto simp: cancel_ok_def)
  have fresh: "closed_for s e w'" if "s \<notin> set serials" for s
  proof -
    have none: "fw_entries w s = None" using that assms(3) by (simp add: domIff)
    then have "pq_serial request \<noteq> s" if "fw_tasks w j = Preparing request ended" for j request ended
      using assms(1) that unfolding cancel_ok_def by (metis domIff)
    then have "closed_for s e w" using e none by (auto simp: closed_for_def entry_def default_entry_def)
    then show ?thesis by (rule closed)
  qed
  show ?thesis
    using assms(1) e fresh closed unfolding cancel_ok_def assms(4) by (auto split: if_splits)
qed

lemma visit_closes:
  assumes "cancel_ok w" and "fw_tasks w i = Cancelling e (serial # serials)" and "unguarded serial w"
  shows "closed_for serial e (become i (Cancelling e serials) (put serial (cancel_entry e (entry serial w)) w))"
proof -
  have "pq_serial request \<noteq> serial" if "fw_tasks w j = Preparing request ended" for j request ended
    using assms(3) that by (metis guards.simps(1) unguarded_def)
  then show ?thesis
    using assms(1,2) cancel_entry_control [of e "entry serial w"] by (auto simp: closed_for_def cancel_ok_def split: if_splits)
qed

lemma cancel_ok_step:
  assumes "firmware_step w w'" and "cancel_ok w"
  shows "cancel_ok w'"
  using assms closed_step [OF assms(1)]
proof (induction rule: firmware_step.induct)
  case (cancel_collect w i e serials)
  then show ?case using cancel_ok_collect [OF cancel_collect(3,1,2) refl] by blast
next
  case (cancel_raise e w i)
  then show ?case by (auto simp: cancel_ok_def le_max_iff_disj split: if_splits)
next
  case (cancel_visit w i e serial serials)
  let ?w' = "become i (Cancelling e serials) (put serial (cancel_entry e (entry serial w)) w)"
  have "closed_for s e ?w'" if "s \<notin> set serials" for s
    using that visit_closes [OF cancel_visit(3,1,2)] cancel_visit(1,3,4) unfolding cancel_ok_def by (cases "s = serial") auto
  then show ?case
    using cancel_visit(1,3,4) unfolding cancel_ok_def by (auto split: if_splits)
next
  case (cancel_finish w i e)
  then show ?case unfolding cancel_ok_def by (auto split: if_splits)
next
  case (begin_tr w i endpoint delivered expected r events s' task)
  show ?case
    by (rule cancel_ok_other [OF begin_tr(5,6), where i = i and task = task]) (auto simp: begin_tr(4) split: result.splits option.splits)
next
  case (prepare_load w i request)
  show ?case by (rule cancel_ok_other [OF prepare_load(3,4), where i = i]) auto
next
  case (claim_load w i request)
  show ?case by (rule cancel_ok_other [OF claim_load(3,4), where i = i]) auto
next
  case (prepare w i request ended now now2 r s')
  show ?case by (rule cancel_ok_other [OF prepare(3,4), where i = i]) auto
next
  case (claim w i request ended now r s' task)
  show ?case by (rule cancel_ok_other [OF claim(4,5), where i = i and task = task]) (auto simp: claim(3) split: result.splits)
next
  case (publish w i serial lease endpoint)
  show ?case by (rule cancel_ok_other [OF publish(4,5), where i = i]) auto
next
  case (published w i serial lease endpoint)
  show ?case by (rule cancel_ok_other [OF published(2,3), where i = i]) auto
next
  case (drop w i serial lease)
  show ?case by (rule cancel_ok_other [OF drop(2,3), where i = i]) auto
next
  case (end_tr w i serial g)
  show ?case by (rule cancel_ok_other [OF end_tr(2,3), where i = i]) auto
qed (erule cancel_ok_other [where i = 0], assumption; auto)+

lemma leases_step:
  assumes "firmware_step w w'" and "leases_ok w" and "entries_ok w" and "cancel_ok w"
  shows "leases_ok w'"
  using assms closed_step [OF assms(1)]
proof (induction rule: firmware_step.induct)
  case (begin_tr w i endpoint delivered expected r events s' task)
  have "entry_ok (entry (ep_serial endpoint) w)" using begin_tr(6) by (simp add: entries_ok_def)
  from leases_begin [OF begin_tr(5,2,1) this begin_tr(3) _ begin_tr(8)] show ?case by (simp add: begin_tr(4))
next
  case (prepare w i request ended now now2 r s')
  show ?case by (rule leases_prepare [OF prepare(3,1,2) refl prepare(6)])
next
  case (claim w i request ended now r s' task)
  have "entry_ok (entry (pq_serial request) w)" using claim(5) by (simp add: entries_ok_def)
  from leases_claim [OF claim(4) this claim(2) _ claim(7)] show ?case by (simp add: claim(3))
next
  case (publish w i serial lease endpoint)
  show ?case by (rule leases_publish [OF publish(4,1,3) refl publish(7)])
next
  case (drop w i serial lease)
  show ?case by (rule leases_drop [OF drop(2,1) refl drop(5)])
next
  case (cancel_visit w i e serial serials)
  show ?case by (rule leases_cancel_visit [OF cancel_visit(3,2,1) visit_closes [OF cancel_visit(5,1,2)] refl cancel_visit(6)])
next
  case (touch w serial)
  show ?case by (rule leases_quiet [OF touch(1) quiet_change_intros(3) touch(4), where i = 0]) auto
next
  case (commit_tr w i serial g modules r s')
  show ?case by (rule leases_quiet [OF commit_tr(3) quiet_change_intros(1) [OF transition_commit_same [OF commit_tr(2)]] commit_tr(6), where i = 0]) auto
next
  case (resend_tr w i serial g)
  show ?case by (rule leases_quiet [OF resend_tr(2) quiet_change_intros(3) resend_tr(5), where i = 0]) auto
next
  case (end_tr w i serial g)
  show ?case by (rule leases_quiet [OF end_tr(2) quiet_change_intros(3) end_tr(5), where i = i]) auto
next
  case (report_modules serial w delivered g modules r events s')
  show ?case by (rule leases_quiet [OF report_modules(3) quiet_change_intros(1) [OF commit_report_same [OF report_modules(2)]] report_modules(6), where i = 0]) auto
next
  case (modules serial w g modules r s')
  show ?case by (rule leases_quiet [OF modules(3) quiet_change_intros(1) [OF commit_modules_same [OF modules(2)]] modules(6), where i = 0]) auto
next
  case (report_status observation w delivered r events s')
  show ?case by (rule leases_quiet [OF report_status(3) quiet_change_intros(1) [OF apply_status_same [OF report_status(2)]] report_status(6), where i = 0]) auto
next
  case (snap serial w s now)
  then have "entry serial w = s" by (simp add: entry_def)
  then show ?case
    using snapshot_gives_up [of s now] by (intro leases_quiet [OF snap(3) quiet_change_intros(2) snap(6), where i = 0]) auto
next
  case (prepare_load w i request)
  show ?case by (rule leases_quiet [OF prepare_load(3) quiet_change_intros(3) prepare_load(6), where i = i]) auto
next
  case (claim_load w i request)
  show ?case by (rule leases_quiet [OF claim_load(3) quiet_change_intros(3) claim_load(6), where i = i]) auto
next
  case (published w i serial lease endpoint)
  show ?case by (rule leases_quiet [OF published(2) quiet_change_intros(3) published(5), where i = i]) (auto simp: published(1))
next
  case (cancel_raise e w i)
  show ?case by (rule leases_quiet [OF cancel_raise(3) quiet_change_intros(3) cancel_raise(6), where i = i]) auto
next
  case (cancel_collect w i e serials)
  show ?case by (rule leases_quiet [OF cancel_collect(3) quiet_change_intros(3) cancel_collect(6), where i = i]) auto
next
  case (cancel_finish w i e)
  show ?case by (rule leases_quiet [OF cancel_finish(2) quiet_change_intros(3) cancel_finish(5), where i = i]) auto
qed

definition firmware_inv :: "firmware_state \<Rightarrow> bool" where
  "firmware_inv w \<longleftrightarrow> entries_ok w \<and> guards_ok w \<and> cancel_ok w \<and> leases_ok w"

lemma no_firmware_inv: "firmware_inv no_firmware"
  by (simp add: firmware_inv_def entries_ok_def guards_ok_def cancel_ok_def leases_ok_def no_firmware_def entry_def)

lemma firmware_reachable_inv: "firmware_step\<^sup>*\<^sup>* no_firmware w \<Longrightarrow> firmware_inv w"
proof (induction rule: rtranclp_induct)
  case base
  show ?case by (rule no_firmware_inv)
next
  case (step w w')
  then show ?case
    using entries_ok_step guards_ok_step cancel_ok_step leases_step unfolding firmware_inv_def by metis
qed

text \<open>The \<open>expect\<close> of \<open>publish_transition\<close> does not fail.\<close>

lemma publish_never_panics:
  assumes "firmware_step\<^sup>*\<^sup>* no_firmware w"
  shows "publish_transition l (entry serial w) \<noteq> Err EndpointMissing"
proof -
  have "entry_ok (entry serial w)"
    using firmware_reachable_inv [OF assms] by (simp add: firmware_inv_def entries_ok_def)
  then show ?thesis
    by (auto simp: publish_transition_def entry_ok_def in_flight_for_def result_simps split: option.splits)
qed

text \<open>
  C30: A firmware command is published by the owner of the printer's reservation and by no one else. Whatever the interleaving of the tasks
  that lose and renew the connection, prepare, claim, publish and drop commands and cancel sessions: while a
  command is being published, its generation is the printer's current one and the endpoint it goes to is that generation's endpoint, the
  cancellation of its session is not complete, and every other lease of the printer is refused.
\<close>

theorem firmware_published_by_owner:
  assumes "firmware_step\<^sup>*\<^sup>* no_firmware w" and "fw_tasks w i = Publishing serial lease endpoint"
  shows "fe_endpoint (entry serial w) = Some endpoint \<and> fe_generation (entry serial w) = rs_generation lease \<and>
    rs_session_epoch lease \<notin> set (fw_cancelled w) \<and>
    (\<forall>j l. j \<noteq> i \<longrightarrow> lease_of (fw_tasks w j) = Some (serial, l) \<longrightarrow> publish_transition l (entry serial w) = Err NoLongerCurrent)"
proof (intro conjI allI impI)
  have inv: "leases_ok w" "cancel_ok w" "entry_ok (entry serial w)"
    using firmware_reachable_inv [OF assms(1)] by (auto simp: firmware_inv_def entries_ok_def)
  have flight: "in_flight_for lease (entry serial w)" and ep: "fe_endpoint (entry serial w) = Some endpoint"
    using leases_okD(4) [OF inv(1) assms(2)] by auto
  then obtain r where r: "fe_reservation (entry serial w) = Some r" "cr_state r = lease"
    by (auto simp: in_flight_for_def split: option.splits)
  show "fe_endpoint (entry serial w) = Some endpoint" by (rule ep)
  show "fe_generation (entry serial w) = rs_generation lease" using inv(3) r by (simp add: entry_ok_def)
  show "rs_session_epoch lease \<notin> set (fw_cancelled w)"
    using inv(2) r unfolding cancel_ok_def closed_for_def by metis
  fix j l
  assume "j \<noteq> i" and j: "lease_of (fw_tasks w j) = Some (serial, l)"
  then have "l \<noteq> lease" using leases_okD(3) [OF inv(1) j, of i] assms(2) by auto
  then have "\<not> in_flight_for l (entry serial w)" using in_flight_unique [OF flight] by blast
  then show "publish_transition l (entry serial w) = Err NoLongerCurrent" by (simp add: publish_transition_def)
qed

section \<open>The order of events\<close>

fun event_serial :: "firmware_event \<Rightarrow> string" where
  "event_serial (FirmwareModules observation) = mo_serial observation"
| "event_serial (FirmwareStatus observation) = so_serial observation"
| "event_serial (FirmwareInvalidated serial _) = serial"

fun event_generation :: "firmware_event \<Rightarrow> u64" where
  "event_generation (FirmwareModules observation) = mo_generation observation"
| "event_generation (FirmwareStatus observation) = so_generation observation"
| "event_generation (FirmwareInvalidated _ generation) = generation"

text \<open>The revisions of two observations of the same kind.\<close>

fun newer_revision :: "firmware_event \<Rightarrow> firmware_event \<Rightarrow> bool" where
  "newer_revision (FirmwareModules a) (FirmwareModules b) = (mo_revision a < mo_revision b)"
| "newer_revision (FirmwareStatus a) (FirmwareStatus b) = (so_revision a < so_revision b)"
| "newer_revision _ _ = True"

definition event_before :: "firmware_event \<Rightarrow> firmware_event \<Rightarrow> bool" where
  "event_before a b \<longleftrightarrow> (event_serial a = event_serial b \<longrightarrow>
     event_generation a < event_generation b \<or> event_generation a = event_generation b \<and> newer_revision a b)"

text \<open>An event that was sent for the printer is not newer than its entry.\<close>

fun covered :: "firmware_entry_state \<Rightarrow> firmware_event \<Rightarrow> bool" where
  "covered s (FirmwareModules a) =
     (mo_generation a < fe_generation s \<or> mo_generation a = fe_generation s \<and> mo_revision a \<le> fe_module_revision s)"
| "covered s (FirmwareStatus a) =
     (so_generation a < fe_generation s \<or> so_generation a = fe_generation s \<and> so_revision a \<le> fe_status_revision s)"
| "covered s (FirmwareInvalidated _ g) = (g \<le> fe_generation s)"

definition advances :: "firmware_entry_state \<Rightarrow> firmware_entry_state \<Rightarrow> bool" where
  "advances s s' \<longleftrightarrow> fe_generation s < fe_generation s' \<or>
     fe_generation s = fe_generation s' \<and> fe_module_revision s \<le> fe_module_revision s' \<and> fe_status_revision s \<le> fe_status_revision s'"

lemma covered_advances: "covered s a \<Longrightarrow> advances s s' \<Longrightarrow> covered s' a"
  by (cases a) (auto simp: advances_def)

definition events_ok :: "firmware_state \<Rightarrow> bool" where
  "events_ok w \<longleftrightarrow> sorted_wrt event_before (fw_sent w) \<and> (\<forall>a \<in> set (fw_sent w). covered (entry (event_serial a) w) a) \<and>
     (\<forall>i s g. fw_tasks w i = Invalidating s g \<longrightarrow> fe_generation (entry s w) = g)"

definition announces :: "string \<Rightarrow> firmware_entry_state \<Rightarrow> firmware_entry_state \<Rightarrow> firmware_event list \<Rightarrow> bool" where
  "announces serial s s' events \<longleftrightarrow> advances s s' \<and>
     (events = [] \<or> (\<exists>b. events = [b] \<and> event_serial b = serial \<and> covered s' b \<and>
        (\<forall>a. covered s a \<and> event_serial a = serial \<longrightarrow> event_before a b)))"

lemma transition_commit_announces:
  assumes "transition_commit_modules serial g modules s = (r, s')" and "fe_generation s = g"
  shows "announces serial s s' (case r of Ok observation \<Rightarrow> [FirmwareModules observation] | Err _ \<Rightarrow> [])"
proof -
  have "event_before a (FirmwareModules b)" if "covered s a" "mo_generation b = g" "fe_module_revision s < mo_revision b" for a b
    using that assms(2) by (cases a) (auto simp: event_before_def)
  then show ?thesis
    using assms checked_succ_less by (force simp: transition_commit_modules_def announces_def advances_def split: option.splits)
qed

lemma announces_silent: "announces serial s s' events \<Longrightarrow> announces serial s s' []"
  by (simp add: announces_def)

lemma announces_refl [simp]: "announces serial s s []"
  by (simp add: announces_def advances_def)

lemma commit_modules_announces:
  assumes "commit_modules serial g modules s = (r, s')"
  shows "announces serial s s' (case r of Ok (Some observation) \<Rightarrow> [FirmwareModules observation] | _ \<Rightarrow> [])"
  using assms transition_commit_announces [of serial g modules s] by (auto simp: commit_modules_def split: if_splits prod.splits result.splits)

lemma commit_report_announces:
  assumes "commit_report_modules delivered serial g modules s = (r, events, s')"
  shows "announces serial s s' events"
  using assms commit_modules_announces [of serial g modules s]
  by (auto simp: commit_report_modules_def split: if_splits prod.splits result.splits option.splits intro: announces_silent)

lemma apply_status_announces:
  assumes "apply_report_status delivered observation s = (r, events, s')"
  shows "announces (so_serial observation) s s' events"
proof -
  have "event_before a (FirmwareStatus observation)" if "covered s a" "fe_generation s = so_generation observation" "fe_status_revision s < so_revision observation" for a
    using that by (cases a) (auto simp: event_before_def)
  then show ?thesis
    using assms by (force simp: apply_report_status_def announces_def advances_def Let_def split: if_splits)
qed

lemma begin_announces:
  assumes "begin_generation delivered endpoint expected s = (r, events, s')" and "entry_ok s"
  shows "announces (ep_serial endpoint) s s' events"
  using observation_control [OF assms(1)]
proof
  assume new: "fe_next_generation s < fe_generation s' \<and> fe_next_generation s' = fe_generation s' \<and> fe_endpoint s' = Some endpoint \<and>
    fe_reservation s' = None \<and> fe_module_revision s' = 0 \<and> fe_status_revision s' = 0 \<and>
    (events = [] \<or> events = [FirmwareInvalidated (ep_serial endpoint) (fe_generation s')]) \<and> (\<forall>g. r = Ok (Some g) \<longrightarrow> g = fe_generation s')"
  then have less: "fe_generation s < fe_generation s'" using assms(2) by (simp add: entry_ok_def)
  have "event_before a (FirmwareInvalidated t (fe_generation s'))" if "covered s a" for a t
    using that less by (cases a) (auto simp: event_before_def)
  then show ?thesis
    using new less by (auto simp: announces_def advances_def)
qed simp

lemma silent_announces:
  "gives_up s s' \<Longrightarrow> fe_module_revision s' = fe_module_revision s \<Longrightarrow> fe_status_revision s' = fe_status_revision s \<Longrightarrow> announces serial s s' []"
  by (auto simp: announces_def advances_def gives_up_def same_control_def)

lemma events_change:
  assumes ok: "events_ok w" and a: "announces t (entry t w) x' events"
    and entries: "\<And>s. entry s w' = (if s = t then x' else entry s w)" and sent: "fw_sent w' = fw_sent w @ events"
    and tasks: "fw_tasks w' = (fw_tasks w)(i := task)"
    and task: "task = fw_tasks w i \<or> (\<forall>s g. task = Invalidating s g \<longrightarrow> s = t \<and> fe_generation x' = g)"
    and keep: "fe_generation x' = fe_generation (entry t w) \<or> unguarded t w"
  shows "events_ok w'"
proof -
  have cov: "covered (entry (event_serial b) w') b" if "b \<in> set (fw_sent w)" for b
    using ok a that covered_advances by (auto simp: events_ok_def announces_def entries)
  have "sorted_wrt event_before (fw_sent w') \<and> (\<forall>b \<in> set (fw_sent w'). covered (entry (event_serial b) w') b)"
  proof (cases "events = []")
    case True
    then show ?thesis using ok cov by (simp add: events_ok_def sent)
  next
    case False
    then obtain b where b: "events = [b]" "event_serial b = t" "covered x' b" "\<And>c. covered (entry t w) c \<Longrightarrow> event_serial c = t \<Longrightarrow> event_before c b"
      using a by (auto simp: announces_def)
    have "event_before c b" if "c \<in> set (fw_sent w)" for c
    proof (cases "event_serial c = t")
      case True
      then have "covered (entry t w) c" using ok that by (auto simp: events_ok_def)
      then show ?thesis using b(4) True by blast
    qed (simp add: event_before_def b(2))
    then show ?thesis
      using ok cov b by (simp add: events_ok_def sent sorted_wrt_append entries)
  qed
  moreover have "fe_generation (entry s w') = g" if "fw_tasks w' j = Invalidating s g" for j s g
  proof (cases "j = i \<and> task \<noteq> fw_tasks w i")
    case True
    then show ?thesis using that task by (auto simp: tasks entries)
  next
    case False
    then have j: "fw_tasks w j = Invalidating s g" using that by (auto simp: tasks split: if_splits)
    then have "fe_generation (entry s w) = g" using ok by (simp add: events_ok_def)
    then show ?thesis
      using keep j by (auto simp: entries unguarded_def dest: spec [of _ j])
  qed
  ultimately show ?thesis
    unfolding events_ok_def by blast
qed

lemma prepare_revisions:
  "prepare_firmware_control ended now now2 request s = (r, s') \<Longrightarrow> advances s s' \<and> fe_generation s' = fe_generation s"
  using expire_prepared_control(2,4,5) [of now2 s] by (auto simp: prepare_firmware_control_def Let_def advances_def split: if_splits)

lemma claim_revisions:
  "claim_firmware_execute ended now request s = (r, s') \<Longrightarrow> advances s s' \<and> fe_generation s' = fe_generation s"
  using expire_prepared_control(2,4,5) [of now s] by (auto simp: claim_firmware_execute_def Let_def advances_def split: if_splits option.splits)

lemma drop_cancel_revisions:
  "advances s (drop_lease l s) \<and> fe_generation (drop_lease l s) = fe_generation s"
  "advances s (cancel_entry e s) \<and> fe_generation (cancel_entry e s) = fe_generation s"
  "advances s (snd (snapshot now s)) \<and> fe_generation (snd (snapshot now s)) = fe_generation s"
  using expire_prepared_control(2,4,5) [of now s]
  by (auto simp: drop_lease_def cancel_entry_def snapshot_def Let_def advances_def split: option.splits)

text \<open>A step that sends nothing, keeps the generations and ends or begins no transition.\<close>

lemma events_silent:
  assumes "events_ok w" and "advances (entry t w) x' \<and> fe_generation x' = fe_generation (entry t w)"
    and "\<And>s. entry s w' = (if s = t then x' else entry s w)" and "fw_sent w' = fw_sent w" and "fw_tasks w' = (fw_tasks w)(i := task)"
    and "task = fw_tasks w i \<or> (\<forall>s g. task \<noteq> Invalidating s g)"
  shows "events_ok w'"
  by (rule events_change [OF assms(1) _ assms(3) _ assms(5), where events = "[]"]) (use assms(2,4,6) in \<open>auto simp: announces_def\<close>)

lemma entry_advances_refl [simp]: "advances s s"
  by (simp add: advances_def)

lemma events_ok_step:
  assumes "firmware_step w w'" and "events_ok w" and "entries_ok w"
  shows "events_ok w'"
  using assms
proof (induction rule: firmware_step.induct)
  case (begin_tr w i endpoint delivered expected r events s' task)
  have "entry_ok (entry (ep_serial endpoint) w)" using begin_tr(6) by (simp add: entries_ok_def)
  note a = begin_announces [OF begin_tr(3) this]
  have "\<forall>s g. task = Invalidating s g \<longrightarrow> s = ep_serial endpoint \<and> fe_generation s' = g"
    using observation_control [OF begin_tr(3)] begin_tr(4) by (auto split: result.splits option.splits)
  then show ?case
    by (intro events_change [OF begin_tr(5) a, where i = i and task = task]) (auto simp: begin_tr(2))
next
  case (commit_tr w i serial g modules r s')
  then have g: "fe_generation (entry serial w) = g" by (simp add: events_ok_def)
  have "fe_generation s' = fe_generation (entry serial w)"
    using transition_commit_same [OF commit_tr(2)] by (simp add: same_control_def)
  then show ?case
    by (intro events_change [OF commit_tr(3) announces_silent [OF transition_commit_announces [OF commit_tr(2) g]], where i = 0]) auto
next
  case (resend_tr w i serial g)
  then have g: "fe_generation (entry serial w) = g" by (simp add: events_ok_def)
  have "event_before a (FirmwareInvalidated serial g)" if "covered (entry serial w) a" for a
    using that g by (cases a) (auto simp: event_before_def)
  then have "announces serial (entry serial w) (entry serial w) [FirmwareInvalidated serial g]"
    using g by (auto simp: announces_def)
  then show ?case
    by (intro events_change [OF resend_tr(2), where i = 0]) auto
next
  case (report_modules serial w delivered g modules r events s')
  show ?case by (rule events_change [OF report_modules(3) commit_report_announces [OF report_modules(2)], where i = 0]) (auto simp: report_modules(1))
next
  case (modules serial w g modules r s')
  show ?case
    by (rule events_change [OF modules(3) announces_silent [OF commit_modules_announces [OF modules(2)]], where i = 0]) (auto simp: modules(1))
next
  case (report_status observation w delivered r events s')
  show ?case by (rule events_change [OF report_status(3) apply_status_announces [OF report_status(2)], where i = 0]) (auto simp: report_status(1))
next
  case (snap serial w s now)
  then have "entry serial w = s" by (simp add: entry_def)
  then show ?case
    by (intro events_silent [OF snap(3), where i = 0 and t = serial]) (auto simp: drop_cancel_revisions(3))
next
  case (prepare w i request ended now now2 r s')
  show ?case by (rule events_silent [OF prepare(3) prepare_revisions [OF prepare(2)], where i = i]) auto
next
  case (claim w i request ended now r s' task)
  show ?case
    by (rule events_silent [OF claim(4) claim_revisions [OF claim(2)], where i = i and task = task]) (auto simp: claim(3) split: result.splits)
next
  case (drop w i serial lease)
  show ?case by (rule events_silent [OF drop(2) drop_cancel_revisions(1), where i = i]) auto
next
  case (cancel_visit w i e serial serials)
  show ?case by (rule events_silent [OF cancel_visit(3) drop_cancel_revisions(2), where i = i]) auto
next
  case (touch w serial)
  show ?case by (rule events_silent [OF touch(1), where i = 0 and t = serial and x' = "entry serial w"]) auto
next
  case (prepare_load w i request)
  show ?case by (rule events_silent [OF prepare_load(3), where i = i and t = "pq_serial request" and x' = "entry (pq_serial request) w"]) auto
next
  case (claim_load w i request)
  show ?case by (rule events_silent [OF claim_load(3), where i = i and t = "pq_serial request" and x' = "entry (pq_serial request) w"]) auto
qed (auto simp: events_ok_def split: if_splits)

lemma firmware_reachable_events: "firmware_step\<^sup>*\<^sup>* no_firmware w \<Longrightarrow> events_ok w"
proof (induction rule: rtranclp_induct)
  case base
  show ?case by (simp add: events_ok_def no_firmware_def)
next
  case (step w w')
  then show ?case
    using events_ok_step firmware_reachable_inv [OF step(1)] by (simp add: firmware_inv_def)
qed


section \<open>A run\<close>

definition sample_endpoint :: bambu_printer_endpoint where
  "sample_endpoint = \<lparr>ep_host = ''10.0.0.7'', ep_serial = ''01P'', ep_access_code = ''12345678'', ep_model = None, ep_name = None\<rparr>"

definition sample_request :: firmware_prepare_request where
  "sample_request = \<lparr>pq_command_id = ''c1'', pq_serial = ''01P'', pq_expected_generation = 1, pq_session_epoch = 1\<rparr>"

definition sample_connected :: firmware_state where
  "sample_connected =
     (let (r, events, s) = begin_generation True sample_endpoint None default_entry
      in become 0 (Invalidating ''01P'' 1) (sent events (put ''01P'' s no_firmware)))"

definition sample_reported :: firmware_state where
  "sample_reported =
     (let w = become 0 FirmwareIdle sample_connected;
          (r, events, s) = commit_report_modules True ''01P'' 1 [] (entry ''01P'' w)
      in sent events (put ''01P'' s w))"

definition sample_prepared :: firmware_state where
  "sample_prepared =
     (let w = become 0 (Preparing sample_request 0) (put ''01P'' (entry ''01P'' sample_reported) sample_reported)
      in become 0 FirmwareIdle (put ''01P'' (snd (prepare_firmware_control 0 5 6 sample_request (entry ''01P'' w))) w))"

definition sample_claimed_lease :: firmware_state where
  "sample_claimed_lease =
     (let w = become 0 (Claiming sample_request 0) (put ''01P'' (entry ''01P'' sample_prepared) sample_prepared)
      in become 0 (Executing ''01P'' (request_state sample_request))
           (put ''01P'' (snd (claim_firmware_execute 0 7 sample_request (entry ''01P'' w))) w))"

definition sample_publishing :: firmware_state where
  "sample_publishing = become 0 (Publishing ''01P'' (request_state sample_request) sample_endpoint) sample_claimed_lease"

lemmas sample_run_defs = sample_publishing_def sample_claimed_lease_def sample_prepared_def sample_reported_def sample_connected_def
  sample_endpoint_def sample_request_def no_firmware_def default_entry_def request_state_def Let_def begin_generation_def checked_succ_def
  commit_report_modules_def commit_modules_def transition_commit_modules_def prepare_firmware_control_def claim_firmware_execute_def
  expire_prepared_def session_ended_def PREPARATION_LIFETIME_def publish_transition_def in_flight_for_def

lemma unguarded_idle: "fw_tasks w = (\<lambda>_. FirmwareIdle)(i := task) \<Longrightarrow> \<not> guards s task \<Longrightarrow> unguarded s w"
  by (simp add: unguarded_def)

lemma sample_tasks:
  "fw_tasks sample_connected = (\<lambda>_. FirmwareIdle)(0 := Invalidating ''01P'' 1)"
  "fw_tasks sample_reported = (\<lambda>_. FirmwareIdle)(0 := FirmwareIdle)"
  "fw_tasks sample_prepared = (\<lambda>_. FirmwareIdle)(0 := FirmwareIdle)"
  "fw_tasks sample_claimed_lease = (\<lambda>_. FirmwareIdle)(0 := Executing ''01P'' (request_state sample_request))"
  by (simp_all add: sample_claimed_lease_def sample_prepared_def sample_reported_def sample_connected_def no_firmware_def Let_def
      case_prod_unfold)

lemma sample_run: "firmware_step\<^sup>*\<^sup>* no_firmware sample_publishing"
proof -
  note step = rtranclp.rtrancl_into_rtrancl [of firmware_step no_firmware]
  have 1: "firmware_step no_firmware sample_connected"
    using firmware_step.begin_tr [of no_firmware 0 sample_endpoint True None "Ok (Some 1)"]
    by (simp add: sample_run_defs unguarded_def entry_def)
  have 2: "firmware_step sample_connected (become 0 FirmwareIdle sample_connected)"
    by (rule firmware_step.end_tr) (simp add: sample_tasks)
  let ?report = "commit_report_modules True ''01P'' 1 [] (entry ''01P'' sample_connected)"
  have 3: "firmware_step (become 0 FirmwareIdle sample_connected) sample_reported"
    using firmware_step.report_modules [of "''01P''" "become 0 FirmwareIdle sample_connected" True 1 "[]" "fst ?report" "fst (snd ?report)" "snd (snd ?report)"]
    by (simp add: sample_reported_def Let_def case_prod_unfold sample_tasks unguarded_def)
  let ?p = "become 0 (Preparing sample_request 0) (put ''01P'' (entry ''01P'' sample_reported) sample_reported)"
  have serial: "pq_serial sample_request = ''01P''" by (simp add: sample_request_def)
  have ended: "fw_ended sample_reported = 0" "fw_ended sample_prepared = 0"
    by (simp_all add: sample_prepared_def sample_reported_def sample_connected_def no_firmware_def Let_def case_prod_unfold)
  have 4: "firmware_step sample_reported ?p"
    using firmware_step.prepare_load [of sample_reported 0 sample_request] by (simp add: sample_tasks serial ended unguarded_def)
  have 5: "firmware_step ?p sample_prepared"
    using firmware_step.prepare [of ?p 0 sample_request 0 5 6] by (simp add: sample_prepared_def Let_def serial prod_eq_iff)
  let ?c = "become 0 (Claiming sample_request 0) (put ''01P'' (entry ''01P'' sample_prepared) sample_prepared)"
  have 6: "firmware_step sample_prepared ?c"
    using firmware_step.claim_load [of sample_prepared 0 sample_request] by (simp add: sample_tasks serial ended unguarded_def)
  have "fst (claim_firmware_execute 0 7 sample_request (entry ''01P'' ?c)) = Ok (request_state sample_request)"
    by (simp add: sample_run_defs)
  then have 7: "firmware_step ?c sample_claimed_lease"
    using firmware_step.claim [of ?c 0 sample_request 0 7 "Ok (request_state sample_request)"] by (simp add: sample_claimed_lease_def Let_def serial prod_eq_iff)
  have "publish_transition (request_state sample_request) (entry ''01P'' sample_claimed_lease) = Ok sample_endpoint"
    by (simp add: sample_run_defs)
  then have 8: "firmware_step sample_claimed_lease sample_publishing"
    unfolding sample_publishing_def by (intro firmware_step.publish unguarded_idle [OF sample_tasks(4)]) (simp_all add: sample_tasks)
  show ?thesis
    by (rule step [OF step [OF step [OF step [OF step [OF step [OF step [OF step [OF rtranclp.rtrancl_refl 1] 2] 3] 4] 5] 6] 7] 8])
qed

theorem firmware_published_by_owner_witness:
  "fe_endpoint (entry ''01P'' sample_publishing) = Some sample_endpoint \<and> fe_generation (entry ''01P'' sample_publishing) = 1 \<and>
   1 \<notin> set (fw_cancelled sample_publishing)"
proof -
  have "fw_tasks sample_publishing 0 = Publishing ''01P'' (request_state sample_request) sample_endpoint"
    by (simp add: sample_publishing_def)
  from firmware_published_by_owner [OF sample_run this] show ?thesis
    by (simp add: request_state_def sample_request_def)
qed


end
