(* ===== verification/Agent_Brtc.thy ===== *)
theory Agent_Brtc
  imports Serde
begin

text \<open>
  The upload of print files through the printer's file tunnel: \<open>crates/pandar-agent/src/machine/brtc.rs\<close>, \<open>brtc/frames.rs\<close> and
  \<open>brtc/protocol.rs\<close>. The tunnel carries frames: a header of 16 bytes with the length of the payload, and the payload, which is a
  JSON object, followed by two newlines and a binary part where a piece of a file is sent.

  The connection is the bytes the printer sends, in order, and the number of writes it accepts; reading past the
  end, or writing past that number, is an I/O error. Parameters (\<open>brtc_codec\<close>): the JSON reader and writer of \<open>serde_json\<close> and MD5.
  Opening the TLS connection, the verification of its certificate and the overall time limit are not modelled. \<open>usize\<close> has 64 bits.
\<close>

section \<open>Bytes\<close>

definition to_le_bytes :: "u32 \<Rightarrow> string" where
  "to_le_bytes n = map (\<lambda>i. char_of (unat n div 256 ^ i)) [0, 1, 2, 3]"

definition from_le_bytes :: "string \<Rightarrow> u32" where
  "from_le_bytes s = of_nat (foldr (\<lambda>c n. of_char c + 256 * n) s 0)"

text \<open>The well-formed UTF-8 sequences (\<open>std::str::from_utf8\<close>).\<close>

definition between :: "nat \<Rightarrow> nat \<Rightarrow> char \<Rightarrow> bool" where
  "between a b c \<longleftrightarrow> a \<le> of_char c \<and> of_char c \<le> (b :: nat)"

fun utf8_step :: "string \<Rightarrow> nat" where
  "utf8_step (a # rest) =
     (if between 0x00 0x7F a then 1
      else case rest of
        b # rest2 \<Rightarrow>
          if between 0xC2 0xDF a \<and> between 0x80 0xBF b then 2
          else (case rest2 of
            c # rest3 \<Rightarrow>
              if between 0x80 0xBF c \<and>
                 (between 0xE0 0xE0 a \<and> between 0xA0 0xBF b \<or> between 0xE1 0xEC a \<and> between 0x80 0xBF b \<or>
                  between 0xED 0xED a \<and> between 0x80 0x9F b \<or> between 0xEE 0xEF a \<and> between 0x80 0xBF b) then 3
              else (case rest3 of
                d # _ \<Rightarrow>
                  if between 0x80 0xBF c \<and> between 0x80 0xBF d \<and>
                     (between 0xF0 0xF0 a \<and> between 0x90 0xBF b \<or> between 0xF1 0xF3 a \<and> between 0x80 0xBF b \<or>
                      between 0xF4 0xF4 a \<and> between 0x80 0x8F b) then 4 else 0
              | [] \<Rightarrow> 0)
          | [] \<Rightarrow> 0)
      | [] \<Rightarrow> 0)"
| "utf8_step [] = 0"

function is_utf8 :: "string \<Rightarrow> bool" where
  "is_utf8 s = (if s = [] then True else if utf8_step s = 0 then False else is_utf8 (drop (utf8_step s) s))"
  by pat_completeness auto
termination
  by (relation "measure length") auto

declare is_utf8.simps [simp del]

text \<open>The characters of a text, each as its bytes.\<close>

function chars :: "string \<Rightarrow> string list" where
  "chars s = (if s = [] then [] else if utf8_step s = 0 then [s] else take (utf8_step s) s # chars (drop (utf8_step s) s))"
  by pat_completeness auto
termination
  by (relation "measure length") auto

declare chars.simps [simp del]

section \<open>The connection\<close>

datatype brtc_error =
    BrtcIo | PayloadTooLong | FrameTooLong nat | UnexpectedMagic u32 | NotJson | NotUtf8 | BadJson
  | EmptyDestination | InitFailed i64 string | NoChunkSize | ChunkSizeOverflow | ChunkTooLarge nat | OffsetBeyondFile nat
  | ChunkEndOverflow | BinaryTooLong | FragmentOverflow | UploadFailed i64 string | NoFinalResult

record brtc_codec =
  bc_to_string :: "json \<Rightarrow> string"
  bc_from_str :: "string \<Rightarrow> json option"
  bc_md5 :: "string \<Rightarrow> string"

record brtc_session =
  bs_incoming :: string
  bs_writes :: nat
  bs_outgoing :: string
  bs_frame_seq :: u32
  bs_wire_seq :: u32

type_synonym 'a brtc = "('a \<times> brtc_session, brtc_error) result"

definition write_all :: "string \<Rightarrow> brtc_session \<Rightarrow> (brtc_session, brtc_error) result" where
  "write_all bytes s =
     (if bs_writes s = 0 then Err BrtcIo
      else Ok (s\<lparr>bs_outgoing := bs_outgoing s @ bytes, bs_writes := bs_writes s - 1\<rparr>))"

definition read_exact :: "nat \<Rightarrow> brtc_session \<Rightarrow> string brtc" where
  "read_exact n s =
     (if length (bs_incoming s) < n then Err BrtcIo
      else Ok (take n (bs_incoming s), s\<lparr>bs_incoming := drop n (bs_incoming s)\<rparr>))"

section \<open>Frames\<close>

definition BRTC_MAX_FRAME_PAYLOAD_SIZE :: nat where
  "BRTC_MAX_FRAME_PAYLOAD_SIZE = 16 * 1024 * 1024"

record brtc_frame =
  bf_magic :: u32
  bf_payload :: string

definition checked_frame_payload_len :: "u32 \<Rightarrow> (nat, brtc_error) result" where
  "checked_frame_payload_len n =
     (if unat n > BRTC_MAX_FRAME_PAYLOAD_SIZE then Err (FrameTooLong (unat n)) else Ok (unat n))"

definition checked_chunk_end :: "nat \<Rightarrow> nat \<Rightarrow> nat \<Rightarrow> (nat, brtc_error) result" where
  "checked_chunk_end offset chunk_size len =
     (if offset + chunk_size \<ge> 2 ^ 64 then Err ChunkEndOverflow else Ok (min (offset + chunk_size) len))"

definition checked_binary_frame_payload_len :: "nat \<Rightarrow> nat \<Rightarrow> (nat \<times> nat, brtc_error) result" where
  "checked_binary_frame_payload_len body_len binary_len =
     (if 2 + binary_len \<ge> 2 ^ 64 \<or> body_len + (2 + binary_len) \<ge> 2 ^ 64 \<or> body_len + (2 + binary_len) \<ge> 2 ^ 32 then Err BinaryTooLong
      else Ok (2 + binary_len, body_len + (2 + binary_len)))"

definition newlines :: string where
  "newlines = [CHR 0x0A, CHR 0x0A]"

definition append_binary_frame_payload :: "string \<Rightarrow> string \<Rightarrow> (string, brtc_error) result" where
  "append_binary_frame_payload body binary =
     and_then (checked_binary_frame_payload_len (length body) (length binary)) (\<lambda>_. Ok (body @ newlines @ binary))"

definition padded_ascii :: "string \<Rightarrow> nat \<Rightarrow> string" where
  "padded_ascii value width =
     (let out = concat (take width (chars value)) in out @ replicate (width - length out) (CHR 0x00))"

text \<open>The nesting depth is below the length of a frame, so the counter does not overflow.\<close>

fun json_scan :: "nat \<Rightarrow> int \<Rightarrow> bool \<Rightarrow> bool \<Rightarrow> string \<Rightarrow> nat option" where
  "json_scan index depth in_string escaped [] = None"
| "json_scan index depth in_string escaped (c # rest) =
     (if in_string then
        (if escaped then json_scan (index + 1) depth True False rest
         else if c = CHR 0x5C then json_scan (index + 1) depth True True rest
         else if c = CHR 0x22 then json_scan (index + 1) depth False False rest
         else json_scan (index + 1) depth True False rest)
      else if c = CHR 0x22 then json_scan (index + 1) depth True escaped rest
      else if c = CHR ''{'' then json_scan (index + 1) (depth + 1) False escaped rest
      else if c = CHR ''}'' then (if depth - 1 = 0 then Some (index + 1) else json_scan (index + 1) (depth - 1) False escaped rest)
      else json_scan (index + 1) depth False escaped rest)"

definition json_prefix_len :: "string \<Rightarrow> nat option" where
  "json_prefix_len bytes = (case bytes of [] \<Rightarrow> None | c # _ \<Rightarrow> if c \<noteq> CHR ''{'' then None else json_scan 0 0 False False bytes)"

definition frame_header :: "u32 \<Rightarrow> u32 \<Rightarrow> u32 \<Rightarrow> string" where
  "frame_header len magic seq = to_le_bytes len @ to_le_bytes magic @ to_le_bytes seq @ replicate 4 (CHR 0x00)"

definition send_frame :: "u32 \<Rightarrow> string \<Rightarrow> brtc_session \<Rightarrow> (brtc_session, brtc_error) result" where
  "send_frame magic payload s =
     (if length payload \<ge> 2 ^ 32 then Err PayloadTooLong
      else and_then (write_all (frame_header (of_nat (length payload)) magic (bs_frame_seq s)) (s\<lparr>bs_frame_seq := bs_frame_seq s + 1\<rparr>))
             (write_all payload))"

definition read_frame :: "brtc_session \<Rightarrow> brtc_frame brtc" where
  "read_frame s =
     and_then (read_exact 16 s) (\<lambda>(header, s1).
     and_then (checked_frame_payload_len (from_le_bytes (take 4 header))) (\<lambda>payload_len.
       let magic = from_le_bytes (take 4 (drop 4 header))
       in if payload_len > 0
          then and_then (read_exact payload_len s1) (\<lambda>(payload, s2). Ok (\<lparr>bf_magic = magic, bf_payload = payload\<rparr>, s2))
          else Ok (\<lparr>bf_magic = magic, bf_payload = []\<rparr>, s1)))"

definition read_json_frame_with_raw :: "brtc_codec \<Rightarrow> (json \<Rightarrow> 'a option) \<Rightarrow> brtc_session \<Rightarrow> ('a \<times> string) brtc" where
  "read_json_frame_with_raw cd decode s =
     and_then (read_frame s) (\<lambda>(frame, s1).
     and_then (ok_or (json_prefix_len (bf_payload frame)) NotJson) (\<lambda>json_len.
       let raw = take json_len (bf_payload frame)
       in if \<not> is_utf8 raw then Err NotUtf8
          else and_then (ok_or (Option.bind (bc_from_str cd raw) decode) BadJson) (\<lambda>value. Ok ((value, raw), s1))))"

section \<open>Messages\<close>

definition BRTC_LOGIN_CLIENT_MAGIC :: u32 where "BRTC_LOGIN_CLIENT_MAGIC = 0x0101013f"
definition BRTC_LOGIN_SERVER_MAGIC :: u32 where "BRTC_LOGIN_SERVER_MAGIC = 0x0001013f"
definition BRTC_CTRL_CLIENT_MAGIC :: u32 where "BRTC_CTRL_CLIENT_MAGIC = 0x0102013f"
definition BRTC_CTRL_SETUP_MTYPE :: i64 where "BRTC_CTRL_SETUP_MTYPE = 12291"
definition BRTC_CTRL_JSON_MTYPE :: i64 where "BRTC_CTRL_JSON_MTYPE = 12289"
definition BRTC_FILE_UPLOAD_CMD :: i64 where "BRTC_FILE_UPLOAD_CMD = 5"
definition BRTC_MAX_UPLOAD_CHUNK_SIZE :: nat where "BRTC_MAX_UPLOAD_CHUNK_SIZE = 16 * 1024 * 1024"

definition json_nat :: "nat \<Rightarrow> json" where
  "json_nat n = JNumber (PosInt (of_nat n))"

text \<open>The members of a message, in the order of the struct's fields.\<close>

definition setup_request :: "string \<Rightarrow> json_object" where
  "setup_request serial =
     [(''sequence'', json_nat 0), (''mtype'', json_nat (nat BRTC_CTRL_SETUP_MTYPE)),
      (''req'', JObject [(''t_av'', json_nat 1), (''mtype'', json_nat (nat BRTC_CTRL_JSON_MTYPE)), (''peer_t'', json_nat 3),
                         (''pid'', JString (''pandar-'' @ serial)), (''ver'', JString ''02.08.00.53'')])]"

definition upload_init_request :: "u32 \<Rightarrow> string \<Rightarrow> nat \<Rightarrow> json_object" where
  "upload_init_request sequence dest_name len =
     [(''cmdtype'', json_nat (nat BRTC_FILE_UPLOAD_CMD)), (''sequence'', json_nat (unat sequence)),
      (''req'', JObject [(''type'', JString ''model''), (''path'', JString dest_name), (''total'', json_nat len), (''storage'', JString ''emmc'')])]"

definition upload_chunk_request :: "u32 \<Rightarrow> u32 \<Rightarrow> nat \<Rightarrow> nat \<Rightarrow> string option \<Rightarrow> json_object" where
  "upload_chunk_request sequence fragment offset len file_md5 =
     [(''cmdtype'', json_nat (nat BRTC_FILE_UPLOAD_CMD)), (''sequence'', json_nat (unat sequence)),
      (''req'', JObject ([(''frag_id'', json_nat (unat fragment)), (''offset'', json_nat offset), (''size'', json_nat len)] @
                         (case file_md5 of Some digest \<Rightarrow> [(''file_md5'', JString digest)] | None \<Rightarrow> [])))]"

text \<open>The message is flattened into the object behind its \<open>mtype\<close>.\<close>

definition wrap_ctrl_json :: "brtc_codec \<Rightarrow> json_object \<Rightarrow> string" where
  "wrap_ctrl_json cd payload = bc_to_string cd (JObject ((''mtype'', json_nat (nat BRTC_CTRL_JSON_MTYPE)) # payload))"

fun i64_deserialize :: "json \<Rightarrow> i64 option" where
  "i64_deserialize (JNumber (PosInt n)) = (if unat n < 2 ^ 63 then Some (int (unat n)) else None)"
| "i64_deserialize (JNumber (NegInt n)) = Some n"
| "i64_deserialize _ = None"

fun u32_deserialize :: "json \<Rightarrow> u32 option" where
  "u32_deserialize (JNumber (PosInt n)) = (if unat n < 2 ^ 32 then Some (ucast n) else None)"
| "u32_deserialize _ = None"

record brtc_setup_ack =
  sa_mtype :: "i64 option"
  sa_result :: "i64 option"

record brtc_upload_reply_body =
  rb_chunk_size :: "u64 option"
  rb_offset :: "u64 option"

record brtc_upload_reply =
  ur_cmdtype :: "i64 option"
  ur_sequence :: "u32 option"
  ur_result :: "i64 option"
  ur_reply :: "brtc_upload_reply_body option"

definition setup_ack_deserialize :: "json \<Rightarrow> brtc_setup_ack option" where
  "setup_ack_deserialize v =
     Option.bind (struct_members [''mtype'', ''result''] v) (\<lambda>m.
     Option.bind (optional_field i64_deserialize ''mtype'' m) (\<lambda>mtype.
     Option.bind (optional_field i64_deserialize ''result'' m) (\<lambda>result.
       Some \<lparr>sa_mtype = mtype, sa_result = result\<rparr>)))"

definition reply_body_deserialize :: "json \<Rightarrow> brtc_upload_reply_body option" where
  "reply_body_deserialize v =
     Option.bind (struct_members [''chunk_size'', ''offset''] v) (\<lambda>m.
     Option.bind (optional_field as_u64 ''chunk_size'' m) (\<lambda>chunk_size.
     Option.bind (optional_field as_u64 ''offset'' m) (\<lambda>offset.
       Some \<lparr>rb_chunk_size = chunk_size, rb_offset = offset\<rparr>)))"

definition upload_reply_deserialize :: "json \<Rightarrow> brtc_upload_reply option" where
  "upload_reply_deserialize v =
     Option.bind (struct_members [''cmdtype'', ''sequence'', ''result'', ''reply''] v) (\<lambda>m.
     Option.bind (optional_field i64_deserialize ''cmdtype'' m) (\<lambda>cmdtype.
     Option.bind (optional_field u32_deserialize ''sequence'' m) (\<lambda>sequence.
     Option.bind (optional_field i64_deserialize ''result'' m) (\<lambda>result.
     Option.bind (optional_field reply_body_deserialize ''reply'' m) (\<lambda>reply.
       Some \<lparr>ur_cmdtype = cmdtype, ur_sequence = sequence, ur_result = result, ur_reply = reply\<rparr>)))))"

record brtc_upload_reply_frame =
  uf_raw :: string
  uf_reply :: brtc_upload_reply

definition setup_ack_success :: "brtc_setup_ack \<Rightarrow> bool" where
  "setup_ack_success ack \<longleftrightarrow> sa_mtype ack = Some BRTC_CTRL_SETUP_MTYPE \<and> sa_result ack = Some 0"

definition upload_reply :: "string \<Rightarrow> brtc_upload_reply \<Rightarrow> u32 \<Rightarrow> brtc_upload_reply_frame option" where
  "upload_reply raw reply sequence =
     (if ur_cmdtype reply = Some BRTC_FILE_UPLOAD_CMD \<and> ur_sequence reply = Some sequence
      then Some \<lparr>uf_raw = raw, uf_reply = reply\<rparr> else None)"

definition reply_result :: "brtc_upload_reply_frame \<Rightarrow> i64" where
  "reply_result f = (case ur_result (uf_reply f) of Some r \<Rightarrow> r | None \<Rightarrow> - 1)"

definition chunk_size_bytes :: "brtc_upload_reply_frame \<Rightarrow> (nat, brtc_error) result" where
  "chunk_size_bytes f =
     (case Option.bind (ur_reply (uf_reply f)) rb_chunk_size of
        None \<Rightarrow> Err NoChunkSize
      | Some kib \<Rightarrow>
          if \<not> kib > 0 then Err NoChunkSize
          else if unat kib * 1024 \<ge> 2 ^ 64 then Err ChunkSizeOverflow
          else if unat kib * 1024 > BRTC_MAX_UPLOAD_CHUNK_SIZE then Err (ChunkTooLarge (unat kib * 1024))
          else Ok (unat kib * 1024))"

definition reply_offset :: "brtc_upload_reply_frame \<Rightarrow> nat" where
  "reply_offset f = (case Option.bind (ur_reply (uf_reply f)) rb_offset of Some n \<Rightarrow> unat n | None \<Rightarrow> 0)"

section \<open>The session\<close>

definition next_wire_seq :: "brtc_session \<Rightarrow> u32 \<times> brtc_session" where
  "next_wire_seq s = (bs_wire_seq s, s\<lparr>bs_wire_seq := bs_wire_seq s + 1\<rparr>)"

definition send_abi_json :: "brtc_codec \<Rightarrow> json_object \<Rightarrow> brtc_session \<Rightarrow> (brtc_session, brtc_error) result" where
  "send_abi_json cd value = send_frame BRTC_CTRL_CLIENT_MAGIC (wrap_ctrl_json cd value)"

definition send_abi_json_with_binary :: "brtc_codec \<Rightarrow> json_object \<Rightarrow> string \<Rightarrow> brtc_session \<Rightarrow> (brtc_session, brtc_error) result" where
  "send_abi_json_with_binary cd value binary s =
     and_then (append_binary_frame_payload (wrap_ctrl_json cd value) binary) (\<lambda>body. send_frame BRTC_CTRL_CLIENT_MAGIC body s)"

lemma read_frame_consumes: "read_frame s = Ok (frame, s') \<Longrightarrow> length (bs_incoming s') < length (bs_incoming s)"
  by (auto simp: read_frame_def read_exact_def result_simps Let_def split: if_splits prod.splits)

lemma read_json_consumes: "read_json_frame_with_raw cd decode s = Ok (v, s') \<Longrightarrow> length (bs_incoming s') < length (bs_incoming s)"
  using read_frame_consumes by (auto simp: read_json_frame_with_raw_def result_simps Let_def split: if_splits prod.splits)

text \<open>The two loops that read until the awaited message comes: each turn takes a frame from the connection.\<close>

function read_matching_upload_reply :: "brtc_codec \<Rightarrow> u32 \<Rightarrow> brtc_session \<Rightarrow> brtc_upload_reply_frame brtc" where
  "read_matching_upload_reply cd sequence s =
     (case read_json_frame_with_raw cd upload_reply_deserialize s of
        Err e \<Rightarrow> Err e
      | Ok ((reply, raw), s1) \<Rightarrow>
          (case upload_reply raw reply sequence of
             Some f \<Rightarrow> Ok (f, s1)
           | None \<Rightarrow> read_matching_upload_reply cd sequence s1))"
  by pat_completeness auto
termination
  by (relation "measure (\<lambda>(cd, sequence, s). length (bs_incoming s))") (auto dest: read_json_consumes)

declare read_matching_upload_reply.simps [simp del]

function await_setup_ack :: "brtc_codec \<Rightarrow> brtc_session \<Rightarrow> (brtc_session, brtc_error) result" where
  "await_setup_ack cd s =
     (case read_json_frame_with_raw cd setup_ack_deserialize s of
        Err e \<Rightarrow> Err e
      | Ok ((ack, _), s1) \<Rightarrow> if setup_ack_success ack then Ok s1 else await_setup_ack cd s1)"
  by pat_completeness auto
termination
  by (relation "measure (\<lambda>(cd, s). length (bs_incoming s))") (auto dest: read_json_consumes)

declare await_setup_ack.simps [simp del]

definition handshake :: "brtc_codec \<Rightarrow> string \<Rightarrow> string \<Rightarrow> brtc_session \<Rightarrow> (brtc_session, brtc_error) result" where
  "handshake cd access_code serial s =
     and_then (send_frame BRTC_LOGIN_CLIENT_MAGIC (padded_ascii ''bblp'' 8 @ padded_ascii access_code 8) s) (\<lambda>s1.
     and_then (read_frame s1) (\<lambda>(login_ack, s2).
       if bf_magic login_ack \<noteq> BRTC_LOGIN_SERVER_MAGIC then Err (UnexpectedMagic (bf_magic login_ack))
       else and_then (send_abi_json cd (setup_request serial) s2) (await_setup_ack cd)))"

text \<open>The loop that sends the pieces. \<open>None\<close> is that it does not end.\<close>

partial_function (option) send_chunks ::
  "brtc_codec \<Rightarrow> u32 \<Rightarrow> string \<Rightarrow> nat \<Rightarrow> nat \<Rightarrow> u32 \<Rightarrow> brtc_session \<Rightarrow> (brtc_session, brtc_error) result option" where
  [code]: "send_chunks cd sequence bytes chunk_size offset fragment s =
     (if \<not> offset < length bytes then Some (Ok s)
      else case checked_chunk_end offset chunk_size (length bytes) of
        Err e \<Rightarrow> Some (Err e)
      | Ok end_at \<Rightarrow>
          (let chunk = take (end_at - offset) (drop offset bytes);
               is_last = (end_at = length bytes)
           in case send_abi_json_with_binary cd
                     (upload_chunk_request sequence fragment offset (length chunk) (if is_last then Some (bc_md5 cd bytes) else None)) chunk s of
                Err e \<Rightarrow> Some (Err e)
              | Ok s1 \<Rightarrow>
                  if is_last then send_chunks cd sequence bytes chunk_size end_at fragment s1
                  else if fragment = - 1 then Some (Err FragmentOverflow)
                  else send_chunks cd sequence bytes chunk_size end_at (fragment + 1) s1))"

fun await_final_result :: "nat \<Rightarrow> brtc_codec \<Rightarrow> u32 \<Rightarrow> brtc_session \<Rightarrow> (brtc_session, brtc_error) result" where
  "await_final_result 0 cd sequence s = Err NoFinalResult"
| "await_final_result (Suc n) cd sequence s =
     and_then (read_matching_upload_reply cd sequence s) (\<lambda>(f, s1).
       if reply_result f = 0 \<or> reply_result f = 19 then Ok s1
       else if reply_result f = 1 then await_final_result n cd sequence s1
       else Err (UploadFailed (reply_result f) (uf_raw f)))"

definition upload_emmc :: "brtc_codec \<Rightarrow> string \<Rightarrow> string \<Rightarrow> brtc_session \<Rightarrow> string brtc option" where
  "upload_emmc cd dest_name bytes s =
     (if dest_name = [] then Some (Err EmptyDestination)
      else (let (sequence, s1) = next_wire_seq s
            in case and_then (send_abi_json cd (upload_init_request sequence dest_name (length bytes)) s1)
                      (read_matching_upload_reply cd sequence) of
                 Err e \<Rightarrow> Some (Err e)
               | Ok (init_reply, s2) \<Rightarrow>
                   if reply_result init_reply \<noteq> 1 \<and> reply_result init_reply \<noteq> 19
                   then Some (Err (InitFailed (reply_result init_reply) (uf_raw init_reply)))
                   else (case chunk_size_bytes init_reply of
                      Err e \<Rightarrow> Some (Err e)
                    | Ok chunk_size \<Rightarrow>
                        if reply_offset init_reply > length bytes then Some (Err (OffsetBeyondFile (reply_offset init_reply)))
                        else map_option (\<lambda>sent.
                               and_then sent (\<lambda>s3.
                               and_then (await_final_result 32 cd sequence s3) (\<lambda>s4. Ok (bc_md5 cd bytes, s4))))
                             (send_chunks cd sequence bytes chunk_size (reply_offset init_reply) 0 s2))))"

section \<open>What the receiver sees\<close>

text \<open>The frames of a sequence of bytes, as the other end splits it.\<close>

function unframe :: "string \<Rightarrow> brtc_frame list option" where
  "unframe bytes =
     (if bytes = [] then Some []
      else if length bytes < 16 then None
      else (let n = unat (from_le_bytes (take 4 bytes)); body = drop 16 bytes
            in if length body < n then None
               else map_option (Cons \<lparr>bf_magic = from_le_bytes (take 4 (drop 4 bytes)), bf_payload = take n body\<rparr>) (unframe (drop n body))))"
  by pat_completeness auto
termination
  by (relation "measure length") auto

declare unframe.simps [simp del]

text \<open>The binary part of a frame: what follows the JSON object and the two newlines.\<close>

definition binary_part :: "brtc_frame \<Rightarrow> string" where
  "binary_part f = (case json_prefix_len (bf_payload f) of Some n \<Rightarrow> drop (n + 2) (bf_payload f) | None \<Rightarrow> [])"

text \<open>The pieces that are sent of a file from an offset on, and how many there are.\<close>

definition chunk_frame :: "brtc_codec \<Rightarrow> u32 \<Rightarrow> string \<Rightarrow> nat \<Rightarrow> nat \<Rightarrow> nat \<Rightarrow> nat \<Rightarrow> brtc_frame" where
  "chunk_frame cd sequence bytes chunk_size offset fragment i =
     (let a = offset + i * chunk_size; b = min (a + chunk_size) (length bytes)
      in \<lparr>bf_magic = BRTC_CTRL_CLIENT_MAGIC,
          bf_payload = wrap_ctrl_json cd (upload_chunk_request sequence (of_nat (fragment + i)) a (b - a)
                         (if b = length bytes then Some (bc_md5 cd bytes) else None)) @ newlines @ take (b - a) (drop a bytes)\<rparr>)"

definition chunk_count :: "nat \<Rightarrow> nat \<Rightarrow> nat \<Rightarrow> nat" where
  "chunk_count chunk_size offset len = (len - offset + chunk_size - 1) div chunk_size"

lemma length_to_le_bytes [simp]: "length (to_le_bytes n) = 4"
  by (simp add: to_le_bytes_def)

lemma le_roundtrip [simp]: "from_le_bytes (to_le_bytes n) = n"
proof -
  let ?x = "unat n"
  have bound: "?x < 256 * (256 * (256 * 256))" using unsigned_less [of n] by simp
  have "?x div 256 div 256 div 256 < 256" using bound by (simp add: less_mult_imp_div_less div_mult2_eq [symmetric])
  then have "?x mod 256 + 256 * (?x div 256 mod 256 + 256 * (?x div 256 div 256 mod 256 + 256 * (?x div 256 div 256 div 256 mod 256))) = ?x"
    by simp
  moreover have "?x div 65536 = ?x div 256 div 256" "?x div 16777216 = ?x div 256 div 256 div 256"
    by (simp_all add: div_mult2_eq [symmetric])
  ultimately have "foldr (\<lambda>c n. of_char c + 256 * n) (to_le_bytes n) 0 = ?x"
    by (simp add: to_le_bytes_def)
  then show ?thesis
    by (simp add: from_le_bytes_def)
qed

lemma frame_header_parts:
  "length (frame_header len magic seq) = 16" "take 4 (frame_header len magic seq) = to_le_bytes len"
  "take 4 (drop 4 (frame_header len magic seq)) = to_le_bytes magic"
  by (simp_all add: frame_header_def)

lemma unframe_frame:
  assumes "length p < 2 ^ 32"
  shows "unframe (frame_header (of_nat (length p)) magic seq @ p @ rest) = map_option (Cons \<lparr>bf_magic = magic, bf_payload = p\<rparr>) (unframe rest)"
proof -
  have n: "unat (of_nat (length p) :: u32) = length p" using assms by (simp add: unat_of_nat)
  show ?thesis
    by (subst unframe.simps) (use frame_header_parts [of "of_nat (length p)" magic seq] n in \<open>auto simp: Let_def\<close>)
qed

lemma unframe_Nil [simp]: "unframe [] = Some []"
  by (simp add: unframe.simps)

lemma unframe_append:
  "unframe a = Some fs \<Longrightarrow> unframe (a @ b) = map_option ((@) fs) (unframe b)"
proof (induction a arbitrary: fs rule: unframe.induct)
  case (1 bytes)
  show ?case
  proof (cases "bytes = []")
    case True
    then show ?thesis using 1(2) by (simp add: option.map_ident)
  next
    case False
    let ?n = "unat (from_le_bytes (take 4 bytes))" and ?body = "drop 16 bytes"
    from 1(2) False have len: "\<not> length bytes < 16" "\<not> length ?body < ?n"
      by (subst (asm) unframe.simps, auto simp: Let_def split: if_splits)+
    then obtain gs where gs: "unframe (drop ?n ?body) = Some gs"
      and fs: "fs = \<lparr>bf_magic = from_le_bytes (take 4 (drop 4 bytes)), bf_payload = take ?n ?body\<rparr> # gs"
      using 1(2) False by (subst (asm) unframe.simps) (auto simp: Let_def)
    have "unframe (drop ?n ?body @ b) = map_option ((@) gs) (unframe b)"
      using 1(1) [OF False len(1) refl refl len(2) gs] .
    then show ?thesis
      using False len by (subst unframe.simps) (auto simp: Let_def fs option.map_comp comp_def intro!: option.map_cong)
  qed
qed

lemma send_frame_bytes:
  assumes "send_frame magic payload s = Ok s'"
  shows "length payload < 2 ^ 32 \<and> bs_incoming s' = bs_incoming s \<and>
    bs_outgoing s' = bs_outgoing s @ frame_header (of_nat (length payload)) magic (bs_frame_seq s) @ payload"
  using assms by (auto simp: send_frame_def write_all_def result_simps split: if_splits)

lemma reads_write_nothing:
  "read_frame s = Ok (f, s') \<Longrightarrow> bs_outgoing s' = bs_outgoing s"
  "read_json_frame_with_raw cd decode s = Ok (v, s') \<Longrightarrow> bs_outgoing s' = bs_outgoing s"
  by (auto simp: read_json_frame_with_raw_def read_frame_def read_exact_def result_simps Let_def split: if_splits prod.splits)

lemma read_matching_writes_nothing: "read_matching_upload_reply cd sequence s = Ok (f, s') \<Longrightarrow> bs_outgoing s' = bs_outgoing s"
proof (induction cd sequence s rule: read_matching_upload_reply.induct)
  case (1 cd sequence s)
  show ?case
    using 1(2) 1(1) reads_write_nothing(2)
    by (subst (asm) read_matching_upload_reply.simps) (fastforce split: result.splits option.splits prod.splits)
qed

lemma await_final_writes_nothing: "await_final_result n cd sequence s = Ok s' \<Longrightarrow> bs_outgoing s' = bs_outgoing s"
  by (induction n arbitrary: s) (auto simp: result_simps dest: read_matching_writes_nothing split: if_splits prod.splits)

section \<open>The loop\<close>

lemma send_chunks_total:
  assumes "0 < chunk_size"
  shows "\<exists>r. send_chunks cd sequence bytes chunk_size offset fragment s = Some r"
proof (induction "length bytes - offset" arbitrary: offset fragment s rule: less_induct)
  case less
  show ?case
  proof (cases "offset < length bytes \<and> offset + chunk_size < 2 ^ 64")
    case True
    let ?e = "min (offset + chunk_size) (length bytes)"
    have "length bytes - ?e < length bytes - offset" using True assms by auto
    then have "\<exists>r. send_chunks cd sequence bytes chunk_size ?e f s1 = Some r" for f s1 by (rule less)
    then show ?thesis
      using True by (subst send_chunks.simps) (auto simp: checked_chunk_end_def Let_def split: result.splits)
  next
    case False
    then show ?thesis by (subst send_chunks.simps) (auto simp: checked_chunk_end_def)
  qed
qed

lemma chunk_count_step:
  assumes "offset < len" and "0 < chunk_size"
  shows "chunk_count chunk_size offset len = Suc (chunk_count chunk_size (min (offset + chunk_size) len) len)"
proof (cases "offset + chunk_size < len")
  case True
  then have "len - offset + chunk_size - 1 = (len - (offset + chunk_size) + chunk_size - 1) + chunk_size" using assms by simp
  then have "(len - offset + chunk_size - 1) div chunk_size = (len - (offset + chunk_size) + chunk_size - 1) div chunk_size + 1"
    using assms(2) div_add_self2 [of chunk_size "len - (offset + chunk_size) + chunk_size - 1"] by (metis less_not_refl)
  then show ?thesis using True by (simp add: chunk_count_def min_def)
next
  case False
  then have "(len - offset + chunk_size - 1) div chunk_size = 1"
    using assms by (intro div_nat_eqI) auto
  then show ?thesis using False assms(2) by (simp add: chunk_count_def)
qed

lemma chunk_frame_shift:
  "chunk_frame cd sequence bytes cs (offset + cs) (Suc fragment) i = chunk_frame cd sequence bytes cs offset fragment (Suc i)"
  by (simp add: chunk_frame_def add.assoc add.left_commute)

lemma send_binary_bytes:
  assumes "send_abi_json_with_binary cd value binary s = Ok s'"
  shows "\<exists>raw. bs_outgoing s' = bs_outgoing s @ raw \<and>
    unframe raw = Some [\<lparr>bf_magic = BRTC_CTRL_CLIENT_MAGIC, bf_payload = wrap_ctrl_json cd value @ newlines @ binary\<rparr>]"
proof -
  let ?p = "wrap_ctrl_json cd value @ newlines @ binary"
  have "send_frame BRTC_CTRL_CLIENT_MAGIC ?p s = Ok s'"
    using assms by (auto simp: send_abi_json_with_binary_def append_binary_frame_payload_def result_simps)
  then show ?thesis
    using send_frame_bytes [of BRTC_CTRL_CLIENT_MAGIC ?p s s'] unframe_frame [of ?p BRTC_CTRL_CLIENT_MAGIC "bs_frame_seq s" "[]"]
    by (intro exI [of _ "frame_header (of_nat (length ?p)) BRTC_CTRL_CLIENT_MAGIC (bs_frame_seq s) @ ?p"]) simp
qed

lemma send_chunks_frames:
  assumes "0 < cs" and "send_chunks cd sequence bytes cs offset (of_nat fragment) s = Some (Ok s')" and "fragment < 2 ^ 32" and "offset \<le> length bytes"
  shows "\<exists>raw. bs_outgoing s' = bs_outgoing s @ raw \<and>
    unframe raw = Some (map (chunk_frame cd sequence bytes cs offset fragment) [0..<chunk_count cs offset (length bytes)]) \<and>
    fragment + chunk_count cs offset (length bytes) \<le> 2 ^ 32"
  using assms(2-4)
proof (induction "length bytes - offset" arbitrary: offset fragment s rule: less_induct)
  case less
  show ?case
  proof (cases "offset < length bytes")
    case False
    then have "chunk_count cs offset (length bytes) = 0" using assms(1) by (simp add: chunk_count_def)
    moreover have "s' = s" using less(2) False by (subst (asm) send_chunks.simps) simp
    ultimately show ?thesis using less(3) by (intro exI [of _ "[]"]) simp
  next
    case True
    let ?e = "min (offset + cs) (length bytes)" and ?rec = "send_chunks cd sequence bytes cs"
    let ?f = "chunk_frame cd sequence bytes cs offset fragment"
    have e: "offset < ?e" "?e \<le> length bytes" using True assms(1) by auto
    have unfold: "?rec offset (of_nat fragment) s = Some (Ok s')" by (rule less(2))
    obtain s1 where s1: "send_abi_json_with_binary cd (upload_chunk_request sequence (of_nat fragment) offset (?e - offset)
          (if ?e = length bytes then Some (bc_md5 cd bytes) else None)) (take (?e - offset) (drop offset bytes)) s = Ok s1"
      and next_last: "?e = length bytes \<Longrightarrow> ?rec ?e (of_nat fragment) s1 = Some (Ok s')"
      and next_more: "?e \<noteq> length bytes \<Longrightarrow> (of_nat fragment :: u32) \<noteq> - 1 \<and> ?rec ?e (of_nat (Suc fragment)) s1 = Some (Ok s')"
      using unfold True e by (subst (asm) send_chunks.simps)
        (auto simp: checked_chunk_end_def Let_def ac_simps split: result.splits if_splits)
    obtain raw1 where raw1: "bs_outgoing s1 = bs_outgoing s @ raw1" "unframe raw1 = Some [?f 0]"
      using send_binary_bytes [OF s1] by (auto simp: chunk_frame_def Let_def)
    have count: "chunk_count cs offset (length bytes) = Suc (chunk_count cs ?e (length bytes))"
      by (rule chunk_count_step [OF True assms(1)])
    show ?thesis
    proof (cases "?e = length bytes")
      case True
      then have "s' = s1" using next_last [OF True] by (subst (asm) send_chunks.simps) simp
      moreover have "chunk_count cs offset (length bytes) = 1" using count True assms(1) by (simp add: chunk_count_def)
      ultimately show ?thesis using raw1 less(3) by (intro exI [of _ raw1]) simp
    next
      case False
      then have step: "?e = offset + cs" by simp
      have "fragment \<noteq> 2 ^ 32 - 1" using next_more [OF False] by auto
      then have "Suc fragment < 2 ^ 32" using less(3) by simp
      then obtain raw2 where raw2: "bs_outgoing s' = bs_outgoing s1 @ raw2"
        "unframe raw2 = Some (map (chunk_frame cd sequence bytes cs ?e (Suc fragment)) [0..<chunk_count cs ?e (length bytes)])"
        "Suc fragment + chunk_count cs ?e (length bytes) \<le> 2 ^ 32"
        using less(1) [of ?e "Suc fragment" s1] next_more [OF False] e by fastforce
      have "map ?f [0..<Suc n] = ?f 0 # map (chunk_frame cd sequence bytes cs ?e (Suc fragment)) [0..<n]" for n
        unfolding step by (simp add: chunk_frame_shift map_upt_Suc del: upt_Suc)
      then show ?thesis
        using raw1 raw2 unframe_append [OF raw1(2), of raw2] by (intro exI [of _ "raw1 @ raw2"]) (simp add: count)
    qed
  qed
qed

text \<open>The pieces put together are the rest of the file, if the JSON of a message can be told from what follows.\<close>

definition self_delimiting :: "brtc_codec \<Rightarrow> bool" where
  "self_delimiting cd \<longleftrightarrow> (\<forall>m rest. json_prefix_len (bc_to_string cd (JObject m) @ rest) = Some (length (bc_to_string cd (JObject m))))"

lemma binary_part_chunk:
  assumes "self_delimiting cd"
  shows "binary_part (chunk_frame cd sequence bytes cs offset fragment i) =
    take (min (offset + i * cs + cs) (length bytes) - (offset + i * cs)) (drop (offset + i * cs) bytes)"
  using assms by (simp add: self_delimiting_def binary_part_def chunk_frame_def Let_def wrap_ctrl_json_def newlines_def)

lemma take_min_drop: "take (min (a + cs) (length xs) - a) (drop a xs) = take cs (drop a xs)"
  by (cases "a + cs \<le> length xs") auto

lemma chunks_reassemble:
  assumes "self_delimiting cd" and "0 < cs"
  shows "concat (map (\<lambda>i. binary_part (chunk_frame cd sequence bytes cs offset fragment i)) [0..<chunk_count cs offset (length bytes)]) = drop offset bytes"
proof -
  have part: "concat (map (\<lambda>i. take cs (drop (offset + i * cs) bytes)) [0..<n]) = take (n * cs) (drop offset bytes)" for n
  proof (induction n)
    case (Suc n)
    have "take (n * cs) (drop offset bytes) @ take cs (drop (offset + n * cs) bytes) = take (n * cs + cs) (drop offset bytes)"
      using take_add [of "n * cs" cs "drop offset bytes"] by (simp add: add.commute)
    then show ?case using Suc by (simp add: add.commute [of cs])
  qed simp
  have "length bytes - offset \<le> chunk_count cs offset (length bytes) * cs"
  proof (cases "offset < length bytes")
    case True
    have "length bytes - offset + cs - 1 < (chunk_count cs offset (length bytes) + 1) * cs"
      unfolding chunk_count_def using assms(2) dividend_less_div_times [of cs "length bytes - offset + cs - 1"] by (simp add: algebra_simps)
    then show ?thesis using assms(2) by (simp add: algebra_simps)
  qed simp
  then show ?thesis
    using part [of "chunk_count cs offset (length bytes)"] by (simp add: binary_part_chunk [OF assms(1)] take_min_drop)
qed

section \<open>The upload\<close>



text \<open>A frame that was sent is read back, unless it is longer than the limit of the reader.\<close>

lemma frame_roundtrip:
  assumes "send_frame magic payload s = Ok s'" and "length payload \<le> BRTC_MAX_FRAME_PAYLOAD_SIZE"
  shows "\<exists>raw. bs_outgoing s' = bs_outgoing s @ raw \<and>
    (\<forall>r rest. bs_incoming r = raw @ rest \<longrightarrow> read_frame r = Ok (\<lparr>bf_magic = magic, bf_payload = payload\<rparr>, r\<lparr>bs_incoming := rest\<rparr>))"
proof -
  let ?h = "frame_header (of_nat (length payload)) magic (bs_frame_seq s)"
  have n: "unat (of_nat (length payload) :: u32) = length payload"
    using send_frame_bytes [OF assms(1)] by (simp add: unat_of_nat)
  have "read_frame r = Ok (\<lparr>bf_magic = magic, bf_payload = payload\<rparr>, r\<lparr>bs_incoming := rest\<rparr>)" if "bs_incoming r = (?h @ payload) @ rest" for r rest
    using that n assms(2) by (simp add: frame_header_parts read_frame_def read_exact_def checked_frame_payload_len_def Let_def)
  then show ?thesis
    using send_frame_bytes [OF assms(1)] by (intro exI [of _ "?h @ payload"]) simp
qed

text \<open>A printer that answers every message with success and asks for pieces of one kibibyte.\<close>

definition sample_brtc_codec :: brtc_codec where
  "sample_brtc_codec =
     \<lparr>bc_to_string = (\<lambda>_. ''{}''),
      bc_from_str = (\<lambda>_. Some (JObject [(''cmdtype'', json_nat 5), (''sequence'', json_nat 1), (''result'', json_nat 19),
        (''reply'', JObject [(''chunk_size'', json_nat 1), (''offset'', json_nat 1)])])),
      bc_md5 = (\<lambda>_. ''digest'')\<rparr>"

definition sample_brtc_session :: brtc_session where
  "sample_brtc_session =
     \<lparr>bs_incoming = concat (replicate 2 (frame_header 2 0 0 @ ''{}'')), bs_writes = 10, bs_outgoing = [], bs_frame_seq = 0, bs_wire_seq = 1\<rparr>"

definition sample_reply :: brtc_upload_reply_frame where
  "sample_reply = \<lparr>uf_raw = ''{}'', uf_reply = \<lparr>ur_cmdtype = Some 5, ur_sequence = Some 1, ur_result = Some 19,
     ur_reply = Some \<lparr>rb_chunk_size = Some 1, rb_offset = Some 1\<rparr>\<rparr>\<rparr>"

lemma sample_answer:
  assumes "bs_incoming s = frame_header 2 0 0 @ ''{}'' @ rest"
  shows "read_matching_upload_reply sample_brtc_codec 1 s = Ok (sample_reply, s\<lparr>bs_incoming := rest\<rparr>)"
proof -
  have f: "read_frame s = Ok (\<lparr>bf_magic = 0, bf_payload = ''{}''\<rparr>, s\<lparr>bs_incoming := rest\<rparr>)"
    using assms by (simp add: frame_header_parts read_frame_def read_exact_def checked_frame_payload_len_def BRTC_MAX_FRAME_PAYLOAD_SIZE_def Let_def)
  have u: "is_utf8 ''{}''" by (simp add: is_utf8.simps between_def)
  show ?thesis
    by (subst read_matching_upload_reply.simps)
      (simp add: read_json_frame_with_raw_def f u json_prefix_len_def Let_def sample_brtc_codec_def upload_reply_deserialize_def reply_body_deserialize_def
        struct_members_def optional_field_def one_member_def json_nat_def upload_reply_def BRTC_FILE_UPLOAD_CMD_def sample_reply_def)
qed

lemma sample_upload: "\<exists>s'. upload_emmc sample_brtc_codec ''plate.3mf'' ''abc'' sample_brtc_session = Some (Ok (''digest'', s'))"
proof -
  have "\<exists>s2. send_abi_json sample_brtc_codec v s = Ok s2 \<and> bs_incoming s2 = bs_incoming s \<and> bs_writes s2 = bs_writes s - 2" if "2 \<le> bs_writes s" for v s
    using that by (simp add: send_abi_json_def send_frame_def write_all_def wrap_ctrl_json_def sample_brtc_codec_def)
  then obtain s2 where s2: "send_abi_json sample_brtc_codec (upload_init_request 1 ''plate.3mf'' (length ''abc'')) (sample_brtc_session\<lparr>bs_wire_seq := 2\<rparr>) = Ok s2"
    "bs_incoming s2 = bs_incoming sample_brtc_session" "bs_writes s2 = 8"
    by (force simp: sample_brtc_session_def)
  let ?answer = "frame_header 2 0 0 @ ''{}''"
  have r1: "read_matching_upload_reply sample_brtc_codec 1 s2 = Ok (sample_reply, s2\<lparr>bs_incoming := ?answer\<rparr>)"
    by (rule sample_answer) (simp add: s2(2) sample_brtc_session_def numeral_2_eq_2)
  have end_of_file: "send_chunks cd 1 ''abc'' 1024 (Suc (Suc (Suc 0))) 0 s = Some (Ok s)" for cd s
    by (subst send_chunks.simps) simp
  have "\<exists>s3. send_chunks sample_brtc_codec 1 ''abc'' 1024 1 0 (s2\<lparr>bs_incoming := ?answer\<rparr>) = Some (Ok s3) \<and> bs_incoming s3 = ?answer"
    by (subst send_chunks.simps)
      (simp add: s2(3) end_of_file checked_chunk_end_def Let_def send_abi_json_with_binary_def append_binary_frame_payload_def checked_binary_frame_payload_len_def
        wrap_ctrl_json_def sample_brtc_codec_def newlines_def send_frame_def write_all_def)
  then obtain s3 where s3: "send_chunks sample_brtc_codec 1 ''abc'' 1024 1 0 (s2\<lparr>bs_incoming := ?answer\<rparr>) = Some (Ok s3)" "bs_incoming s3 = ?answer"
    by blast
  have r2: "await_final_result 32 sample_brtc_codec 1 s3 = Ok (s3\<lparr>bs_incoming := []\<rparr>)"
    using sample_answer [of s3 "[]"] s3(2) by (simp add: numeral_eq_Suc sample_reply_def reply_result_def)
  have "sample_brtc_session\<lparr>bs_wire_seq := bs_wire_seq sample_brtc_session + 1\<rparr> = sample_brtc_session\<lparr>bs_wire_seq := 2\<rparr>" "bs_wire_seq sample_brtc_session = 1"
    by (simp_all add: sample_brtc_session_def)
  moreover have "bc_md5 sample_brtc_codec ''abc'' = ''digest''" by (simp add: sample_brtc_codec_def)
  ultimately show ?thesis
    using s2(1) r1 s3(1) r2
    by (simp add: upload_emmc_def next_wire_seq_def Let_def sample_reply_def reply_result_def chunk_size_bytes_def reply_offset_def
        BRTC_MAX_UPLOAD_CHUNK_SIZE_def)
qed

lemma sample_self_delimiting: "self_delimiting sample_brtc_codec"
  by (simp add: self_delimiting_def sample_brtc_codec_def json_prefix_len_def)


end
