(* ===== verification/Hub_Deletions.thy ===== *)
theory Hub_Deletions
  imports Hub_Jobs "HOL-Library.Multiset"
begin

text \<open>
  The queue of files to delete: \<open>enqueue_deletion\<close>, \<open>drain_deletions_for_owner\<close>, \<open>claim_deletions\<close> and \<open>update_deletion_failure\<close> of
  \<open>crates/pandar-hub/src/artifacts/lifecycle.rs\<close>. Several hub processes drain the queue at the same time: each claims a batch of rows
  for five minutes, deletes the files, and removes a row once its file is gone, or gives it back with the error.

  Here the rows are modelled with their leases (\<open>Hub_Job_Control\<close> and \<open>Hub_Quota\<close> only need the paths). Whether the storage deletes a file, whether
  the database takes an update, and the clock are arguments.
\<close>

section \<open>Rows\<close>

record deletion_row =
  dl_id :: string
  dl_storage_path :: string
  dl_attempts :: i64
  dl_last_error :: "string option"
  dl_lease_owner :: "string option"
  dl_lease_expires_at :: "timestamp option"
  dl_created_at :: timestamp
  dl_updated_at :: timestamp

definition DELETION_BATCH_SIZE :: nat where
  "DELETION_BATCH_SIZE = 64"

text \<open>
  The path is unique: a second insertion of it is skipped, or aborts the transaction on PostgreSQL, and the queue stays as it is either way.
\<close>

definition enqueue_deletion_row :: "string \<Rightarrow> timestamp \<Rightarrow> string \<Rightarrow> deletion_row list \<Rightarrow> deletion_row list" where
  "enqueue_deletion_row new_id now path rows =
     (if path \<in> dl_storage_path ` set rows then rows
      else rows @ [\<lparr>dl_id = new_id, dl_storage_path = path, dl_attempts = 0, dl_last_error = None, dl_lease_owner = None,
                    dl_lease_expires_at = None, dl_created_at = now, dl_updated_at = now\<rparr>])"

definition claimable :: "timestamp \<Rightarrow> deletion_row \<Rightarrow> bool" where
  "claimable now r \<longleftrightarrow> dl_lease_owner r = None \<or> (case dl_lease_expires_at r of Some t \<Rightarrow> \<not> text_less now t | None \<Rightarrow> False)"

definition created_before :: "deletion_row \<Rightarrow> deletion_row \<Rightarrow> bool" where
  "created_before a b \<longleftrightarrow> text_less (dl_created_at a) (dl_created_at b) \<or> dl_created_at a = dl_created_at b \<and> text_less (dl_id a) (dl_id b)"

definition deletion_batch :: "timestamp \<Rightarrow> deletion_row list \<Rightarrow> deletion_row list" where
  "deletion_batch now rows = take DELETION_BATCH_SIZE (order_by created_before (filter (claimable now) rows))"

text \<open>The claim gives the rows as they were loaded.\<close>

definition claim_deletions :: "string \<Rightarrow> timestamp \<Rightarrow> timestamp \<Rightarrow> deletion_row list \<Rightarrow> deletion_row list \<times> deletion_row list" where
  "claim_deletions owner now expires_at rows =
     (let claimed = deletion_batch now rows
      in (claimed,
          map (\<lambda>r. if dl_id r \<in> dl_id ` set claimed
                   then r\<lparr>dl_lease_owner := Some owner, dl_lease_expires_at := Some expires_at, dl_updated_at := now\<rparr> else r) rows))"

definition saturating_succ :: "i64 \<Rightarrow> i64" where
  "saturating_succ n = (if n = 2 ^ 63 - 1 then n else n + 1)"

definition update_deletion_failure :: "deletion_row \<Rightarrow> string \<Rightarrow> string \<Rightarrow> timestamp \<Rightarrow> deletion_row list \<Rightarrow> deletion_row list" where
  "update_deletion_failure deletion owner err now rows =
     map (\<lambda>r. if dl_id r = dl_id deletion \<and> dl_lease_owner r = Some owner
              then r\<lparr>dl_attempts := saturating_succ (dl_attempts deletion), dl_last_error := Some err, dl_lease_owner := None,
                     dl_lease_expires_at := None, dl_updated_at := now\<rparr> else r) rows"

definition finish_deletion :: "deletion_row \<Rightarrow> string \<Rightarrow> deletion_row list \<Rightarrow> deletion_row list" where
  "finish_deletion deletion owner rows = filter (\<lambda>r. \<not> (dl_id r = dl_id deletion \<and> dl_lease_owner r = Some owner)) rows"

text \<open>
  What the storage and the database answer for one claimed row: the file is deleted and the row may be removed or not, or the file is not
  deleted and the error may be stored or not.
\<close>

datatype deletion_outcome = FileDeleted bool | FileKept string bool

definition drain_one :: "string \<Rightarrow> timestamp \<Rightarrow> deletion_row \<times> deletion_outcome \<Rightarrow> deletion_row list \<Rightarrow> deletion_row list" where
  "drain_one owner now x rows =
     (case snd x of
        FileDeleted stored \<Rightarrow> if stored then finish_deletion (fst x) owner rows else rows
      | FileKept err stored \<Rightarrow> if stored then update_deletion_failure (fst x) owner err now rows else rows)"

text \<open>A drain that no other process interrupts.\<close>

definition drain_deletions_for_owner ::
  "string \<Rightarrow> timestamp \<Rightarrow> timestamp \<Rightarrow> (deletion_row \<Rightarrow> deletion_outcome) \<Rightarrow> deletion_row list \<Rightarrow> deletion_row list" where
  "drain_deletions_for_owner owner now expires_at outcome rows =
     (let (claimed, rows1) = claim_deletions owner now expires_at rows
      in fold (\<lambda>d. drain_one owner now (d, outcome d)) claimed rows1)"

section \<open>Concurrent drains\<close>

datatype drain_worker = DrainIdle | Draining string "deletion_row list" | Removing string deletion_row "deletion_row list"

text \<open>The last two components record which paths were ever queued and which files were deleted.\<close>

record deletion_state =
  ds_rows :: "deletion_row list"
  ds_workers :: "nat \<Rightarrow> drain_worker"
  ds_ids :: "string list"
  ds_queued :: "string list"
  ds_deleted :: "string list"

fun worker_rows :: "drain_worker \<Rightarrow> deletion_row set" where
  "worker_rows DrainIdle = {}"
| "worker_rows (Draining _ ds) = set ds"
| "worker_rows (Removing _ d ds) = insert d (set ds)"

inductive deletion_step :: "deletion_state \<Rightarrow> deletion_state \<Rightarrow> bool" where
  enqueue: "new_id \<notin> set (ds_ids w) \<Longrightarrow>
    deletion_step w (w\<lparr>ds_rows := enqueue_deletion_row new_id now path (ds_rows w), ds_ids := new_id # ds_ids w, ds_queued := path # ds_queued w\<rparr>)"
| claim: "ds_workers w i = DrainIdle \<Longrightarrow> claim_deletions owner now expires_at (ds_rows w) = (claimed, rows') \<Longrightarrow>
    deletion_step w (w\<lparr>ds_rows := rows', ds_workers := (ds_workers w)(i := Draining owner claimed)\<rparr>)"
| delete_file: "ds_workers w i = Draining owner (d # ds) \<Longrightarrow>
    deletion_step w (w\<lparr>ds_workers := (ds_workers w)(i := Removing owner d ds), ds_deleted := dl_storage_path d # ds_deleted w\<rparr>)"
| keep_file: "ds_workers w i = Draining owner (d # ds) \<Longrightarrow>
    deletion_step w (w\<lparr>ds_rows := drain_one owner now (d, FileKept err stored) (ds_rows w), ds_workers := (ds_workers w)(i := Draining owner ds)\<rparr>)"
| remove_row: "ds_workers w i = Removing owner d ds \<Longrightarrow>
    deletion_step w (w\<lparr>ds_rows := drain_one owner now (d, FileDeleted stored) (ds_rows w), ds_workers := (ds_workers w)(i := Draining owner ds)\<rparr>)"
| stop: "deletion_step w (w\<lparr>ds_workers := (ds_workers w)(i := DrainIdle)\<rparr>)"

definition no_deletions :: deletion_state where
  "no_deletions = \<lparr>ds_rows = [], ds_workers = \<lambda>_. DrainIdle, ds_ids = [], ds_queued = [], ds_deleted = []\<rparr>"

section \<open>Nothing is forgotten\<close>

definition row_key :: "deletion_row \<Rightarrow> string \<times> string" where
  "row_key r = (dl_id r, dl_storage_path r)"

lemma map_keys: "(\<And>r. row_key (f r) = row_key r) \<Longrightarrow> row_key ` set (map f rows) = row_key ` set rows"
  by (simp add: image_image)

lemma drain_keys:
  "row_key ` set (snd (claim_deletions owner now expires_at rows)) = row_key ` set rows"
  "row_key ` set (update_deletion_failure d owner err now rows) = row_key ` set rows"
  unfolding claim_deletions_def update_deletion_failure_def Let_def snd_conv by (rule map_keys, simp add: row_key_def)+

lemma claimed_rows: "set (fst (claim_deletions owner now expires_at rows)) \<subseteq> set rows"
  using set_take_subset by (fastforce simp: claim_deletions_def deletion_batch_def Let_def)

definition known_row :: "deletion_state \<Rightarrow> deletion_row \<Rightarrow> bool" where
  "known_row w d \<longleftrightarrow> dl_id d \<in> set (ds_ids w) \<and> dl_storage_path d \<in> set (ds_queued w) \<and>
     (\<forall>(i, p) \<in> row_key ` set (ds_rows w). i = dl_id d \<longrightarrow> p = dl_storage_path d)"

definition deletion_inv :: "deletion_state \<Rightarrow> bool" where
  "deletion_inv w \<longleftrightarrow> (\<forall>d \<in> set (ds_rows w). known_row w d) \<and> (\<forall>i. \<forall>d \<in> worker_rows (ds_workers w i). known_row w d) \<and>
     (\<forall>i owner d ds. ds_workers w i = Removing owner d ds \<longrightarrow> dl_storage_path d \<in> set (ds_deleted w)) \<and>
     (\<forall>p \<in> set (ds_queued w). p \<in> dl_storage_path ` set (ds_rows w) \<or> p \<in> set (ds_deleted w)) \<and> set (ds_deleted w) \<subseteq> set (ds_queued w)"

text \<open>Rows that keep their keys, and workers that only lose rows, keep the invariant.\<close>

lemma same_keys:
  assumes "row_key ` set rows' = row_key ` set (ds_rows w)"
  shows "known_row (w\<lparr>ds_rows := rows'\<rparr>) d = known_row w d" "dl_storage_path ` set rows' = dl_storage_path ` set (ds_rows w)"
proof -
  show "known_row (w\<lparr>ds_rows := rows'\<rparr>) d = known_row w d" using assms by (simp add: known_row_def)
  have "snd ` row_key ` set rows' = snd ` row_key ` set (ds_rows w)" using assms by simp
  then show "dl_storage_path ` set rows' = dl_storage_path ` set (ds_rows w)" by (simp add: image_image row_key_def)
qed

lemma deletion_inv_rows:
  assumes "deletion_inv w" and keys: "row_key ` set rows' = row_key ` set (ds_rows w)"
  shows "deletion_inv (w\<lparr>ds_rows := rows'\<rparr>)"
proof -
  have "known_row w d" if "d \<in> set rows'" for d
  proof -
    have "row_key d \<in> row_key ` set (ds_rows w)" using keys that by blast
    then obtain d' where d': "d' \<in> set (ds_rows w)" "row_key d = row_key d'" by blast
    have "known_row w d'" using assms(1) d'(1) by (simp add: deletion_inv_def)
    moreover have "dl_id d = dl_id d'" "dl_storage_path d = dl_storage_path d'" using d'(2) unfolding row_key_def by simp_all
    ultimately show ?thesis unfolding known_row_def by metis
  qed
  moreover have "p \<in> dl_storage_path ` set rows' \<or> p \<in> set (ds_deleted w)" if "p \<in> set (ds_queued w)" for p
    using assms(1) that unfolding deletion_inv_def same_keys(2) [OF keys] by blast
  moreover have "ds_workers (w\<lparr>ds_rows := rows'\<rparr>) = ds_workers w" "ds_deleted (w\<lparr>ds_rows := rows'\<rparr>) = ds_deleted w"
    "ds_queued (w\<lparr>ds_rows := rows'\<rparr>) = ds_queued w" "ds_rows (w\<lparr>ds_rows := rows'\<rparr>) = rows'" by simp_all
  ultimately show ?thesis
    using assms(1) unfolding deletion_inv_def same_keys(1) [OF keys] by metis
qed

lemma deletion_inv_worker:
  assumes "deletion_inv w" and "worker_rows v \<subseteq> worker_rows (ds_workers w i) \<union> set (ds_rows w)"
    and "\<And>owner d ds. v = Removing owner d ds \<Longrightarrow> dl_storage_path d \<in> set (ds_deleted w)"
  shows "deletion_inv (w\<lparr>ds_workers := (ds_workers w)(i := v)\<rparr>)"
proof -
  have "known_row (w\<lparr>ds_workers := f\<rparr>) d = known_row w d" for f d by (simp add: known_row_def)
  moreover have "known_row w d" if "d \<in> worker_rows v" for d
    using assms(1,2) that unfolding deletion_inv_def by blast
  ultimately show ?thesis
    using assms(1,3) by (auto simp: deletion_inv_def)
qed

lemma deletion_inv_enqueue:
  assumes "deletion_inv w" and "new_id \<notin> set (ds_ids w)"
  shows "deletion_inv (w\<lparr>ds_rows := enqueue_deletion_row new_id now path (ds_rows w), ds_ids := new_id # ds_ids w, ds_queued := path # ds_queued w\<rparr>)"
    (is "deletion_inv ?w'")
proof -
  have old: "known_row ?w' d" if "known_row w d" for d
    using that assms(2) by (auto simp: known_row_def enqueue_deletion_row_def row_key_def)
  have fresh: "dl_id d \<noteq> new_id" if "d \<in> set (ds_rows w)" for d
    using assms that by (auto simp: deletion_inv_def known_row_def)
  have "known_row ?w' d" if "d \<in> set (ds_rows ?w')" for d
  proof (cases "d \<in> set (ds_rows w)")
    case True
    then show ?thesis using assms(1) old by (auto simp: deletion_inv_def)
  next
    case False
    then show ?thesis using that fresh by (auto simp: enqueue_deletion_row_def known_row_def row_key_def split: if_splits)
  qed
  moreover have "p \<in> dl_storage_path ` set (ds_rows ?w') \<or> p \<in> set (ds_deleted w)" if "p \<in> set (ds_queued ?w')" for p
    using assms(1) that by (auto simp: deletion_inv_def enqueue_deletion_row_def)
  ultimately show ?thesis
    using assms(1) old unfolding deletion_inv_def by auto
qed

lemma deletion_inv_remove:
  assumes "deletion_inv w" and "ds_workers w i = Removing owner d ds"
  shows "deletion_inv (w\<lparr>ds_rows := finish_deletion d owner (ds_rows w)\<rparr>)"
proof -
  have d: "known_row w d" "dl_storage_path d \<in> set (ds_deleted w)"
    using assms unfolding deletion_inv_def by (metis insertI1 worker_rows.simps(3), metis)
  have "p \<in> dl_storage_path ` set (finish_deletion d owner (ds_rows w)) \<or> p \<in> set (ds_deleted w)" if "p \<in> set (ds_queued w)" for p
  proof -
    have "p \<in> dl_storage_path ` set (ds_rows w) \<or> p \<in> set (ds_deleted w)"
      using assms(1) that unfolding deletion_inv_def by blast
    then consider r where "r \<in> set (ds_rows w)" "p = dl_storage_path r" | "p \<in> set (ds_deleted w)"
      by blast
    then show ?thesis
    proof cases
      case (1 r)
      then show ?thesis
        using d by (cases "dl_id r = dl_id d \<and> dl_lease_owner r = Some owner") (auto simp: finish_deletion_def known_row_def row_key_def)
    qed simp
  qed
  moreover have "known_row (w\<lparr>ds_rows := finish_deletion d owner (ds_rows w)\<rparr>) e" if "known_row w e" for e
    using that by (auto simp: known_row_def finish_deletion_def)
  ultimately show ?thesis
    using assms(1) by (auto simp: deletion_inv_def) (auto simp: finish_deletion_def)
qed

lemma deletion_inv_step:
  assumes "deletion_step w w'" and "deletion_inv w"
  shows "deletion_inv w'"
  using assms
proof (induction rule: deletion_step.induct)
  case (enqueue new_id w now path)
  then show ?case by (rule deletion_inv_enqueue [rotated])
next
  case (claim w i owner now expires_at claimed rows')
  have keys: "row_key ` set rows' = row_key ` set (ds_rows w)" using drain_keys(1) claim(2) by (metis snd_conv)
  have "set claimed \<subseteq> set (ds_rows w)" using claimed_rows claim(2) by (metis fst_conv)
  then have "deletion_inv (w\<lparr>ds_workers := (ds_workers w)(i := Draining owner claimed)\<rparr>)"
    by (intro deletion_inv_worker [OF claim(3)]) auto
  from deletion_inv_rows [OF this, of rows'] keys
  have "deletion_inv (w\<lparr>ds_workers := (ds_workers w)(i := Draining owner claimed), ds_rows := rows'\<rparr>)" by simp
  moreover have "w\<lparr>ds_workers := f, ds_rows := rows'\<rparr> = w\<lparr>ds_rows := rows', ds_workers := f\<rparr>" for f by (cases w) simp
  ultimately show ?case by simp
next
  case (delete_file w i owner d ds)
  have "known_row w d" using delete_file unfolding deletion_inv_def by (metis list.set_intros(1) worker_rows.simps(2))
  then have "deletion_inv (w\<lparr>ds_deleted := dl_storage_path d # ds_deleted w\<rparr>)"
    using delete_file(2) by (auto simp: deletion_inv_def known_row_def)
  from deletion_inv_worker [OF this, of "Removing owner d ds" i]
  have "deletion_inv (w\<lparr>ds_deleted := dl_storage_path d # ds_deleted w, ds_workers := (ds_workers w)(i := Removing owner d ds)\<rparr>)"
    using delete_file(1) by auto
  moreover have "w\<lparr>ds_deleted := ps, ds_workers := f\<rparr> = w\<lparr>ds_workers := f, ds_deleted := ps\<rparr>" for f ps by (cases w) simp
  ultimately show ?case by simp
next
  case (keep_file w i owner d ds now err stored)
  have "deletion_inv (w\<lparr>ds_rows := drain_one owner now (d, FileKept err stored) (ds_rows w)\<rparr>)"
    by (rule deletion_inv_rows [OF keep_file(2)]) (simp add: drain_one_def drain_keys(2))
  from deletion_inv_worker [OF this, of "Draining owner ds" i] show ?case using keep_file(1) by auto
next
  case (remove_row w i owner d ds now stored)
  have "deletion_inv (w\<lparr>ds_rows := drain_one owner now (d, FileDeleted stored) (ds_rows w)\<rparr>)"
    using deletion_inv_remove [OF remove_row(2,1)] remove_row(2) by (simp add: drain_one_def)
  from deletion_inv_worker [OF this, of "Draining owner ds" i] show ?case using remove_row(1) by auto
next
  case (stop w i)
  then show ?case by (intro deletion_inv_worker) auto
qed

text \<open>
  C13: No queued file is forgotten, and no other file is deleted. In every interleaving of processes that queue files, claim batches, delete files or fail to,
  store that outcome or fail to, are stopped at any point and claim again what others left when the lease has run out: a path that was ever queued is still in the
  queue or its file has been deleted, and only files whose path was queued have been deleted.
\<close>

theorem queued_file_not_forgotten:
  assumes "deletion_step\<^sup>*\<^sup>* no_deletions w"
  shows "set (ds_queued w) \<subseteq> dl_storage_path ` set (ds_rows w) \<union> set (ds_deleted w) \<and> set (ds_deleted w) \<subseteq> set (ds_queued w)"
proof -
  have "deletion_inv w"
    using assms
  proof (induction rule: rtranclp_induct)
    case base
    show ?case by (simp add: deletion_inv_def no_deletions_def)
  qed (rule deletion_inv_step)
  then show ?thesis by (auto simp: deletion_inv_def)
qed

section \<open>The order of the queue\<close>

lemma created_before_irrefl [simp]: "\<not> created_before r r"
  by (simp add: created_before_def)

lemma created_before_asym: "created_before a b \<Longrightarrow> \<not> created_before b a"
  by (auto simp: created_before_def dest: text_less_trans)

lemma not_created_before_trans: "\<not> created_before c b \<Longrightarrow> \<not> created_before b a \<Longrightarrow> \<not> created_before c a"
  unfolding created_before_def using text_less_linear text_less_trans by metis

lemma insert_by_sorted:
  "sorted_wrt (\<lambda>a b. \<not> created_before b a) ys \<Longrightarrow> sorted_wrt (\<lambda>a b. \<not> created_before b a) (insert_by created_before x ys)"
proof (induction ys)
  case (Cons y ys)
  have s: "set (insert_by created_before x ys) = insert x (set ys)" by (induction ys) auto
  show ?case
    using Cons s by (auto dest: created_before_asym not_created_before_trans)
qed simp

lemma order_by_sorted: "sorted_wrt (\<lambda>a b. \<not> created_before b a) (order_by created_before xs)"
  unfolding order_by_def by (induction xs) (auto intro: insert_by_sorted)

lemma order_by_mset: "mset (order_by lt xs) = mset xs"
proof -
  have "mset (insert_by lt x ys) = add_mset x (mset ys)" for x ys by (induction ys) auto
  then show ?thesis unfolding order_by_def by (induction xs) auto
qed

lemma length_filter_order_by: "length (filter P (order_by lt xs)) = length (filter P xs)"
  using order_by_mset [of lt xs] by (metis mset_filter size_mset)

text \<open>A row in the batch has fewer than a batch of claimable rows before it.\<close>

lemma batch_few_before:
  assumes "r \<in> set (deletion_batch now rows)"
  shows "length (filter (\<lambda>x. claimable now x \<and> created_before x r) rows) < DELETION_BATCH_SIZE"
proof -
  let ?l = "order_by created_before (filter (claimable now) rows)"
  obtain k where k: "k < DELETION_BATCH_SIZE" "k < length ?l" "?l ! k = r"
    using assms by (auto simp: deletion_batch_def in_set_conv_nth)
  have "\<not> created_before x r" if x: "x \<in> set (drop k ?l)" for x
  proof -
    obtain j where j: "j < length (drop k ?l)" "drop k ?l ! j = x" using x unfolding in_set_conv_nth by blast
    show ?thesis
    proof (cases j)
      case 0
      then show ?thesis using j k by simp
    next
      case (Suc m)
      then have "\<not> created_before (?l ! (k + j)) (?l ! k)"
        using sorted_wrt_nth_less [OF order_by_sorted, of k "k + j" "filter (claimable now) rows"] j(1) by simp
      then show ?thesis using j k by simp
    qed
  qed
  then have "filter (\<lambda>x. created_before x r) (drop k ?l) = []" by (simp add: filter_empty_conv)
  moreover have "length (filter (\<lambda>x. created_before x r) (take k ?l)) \<le> k"
    using length_filter_le [of "\<lambda>x. created_before x r" "take k ?l"] by simp
  ultimately have "length (filter (\<lambda>x. created_before x r) (take k ?l @ drop k ?l)) \<le> k"
    by (simp only: filter_append) simp
  then have "length (filter (\<lambda>x. created_before x r) (filter (claimable now) rows)) \<le> k"
    by (simp only: append_take_drop_id length_filter_order_by)
  then show ?thesis using k(1) by (simp add: conj_commute)
qed

definition blocked :: "deletion_row \<Rightarrow> deletion_row list \<Rightarrow> bool" where
  "blocked r rows \<longleftrightarrow> DELETION_BATCH_SIZE \<le> length (filter (\<lambda>x. dl_lease_owner x = None \<and> created_before x r) rows)"

lemma length_filter_mono: "(\<And>x. P x \<Longrightarrow> Q (h x)) \<Longrightarrow> length (filter P xs) \<le> length (filter Q (map h xs))"
  by (induction xs) auto

lemma blocked_not_claimed:
  assumes "blocked r rows" and "r \<in> set rows" and "distinct (map dl_id rows)"
  shows "dl_id r \<notin> dl_id ` set (deletion_batch now rows)"
proof
  assume "dl_id r \<in> dl_id ` set (deletion_batch now rows)"
  then obtain r' where r': "r' \<in> set (deletion_batch now rows)" "dl_id r' = dl_id r" by force
  have "set (deletion_batch now rows) \<subseteq> set rows"
    using set_take_subset by (fastforce simp: deletion_batch_def)
  then have "r' = r" using r' assms(2,3) by (metis distinct_map inj_onD subsetD)
  then have "length (filter (\<lambda>x. claimable now x \<and> created_before x r) rows) < DELETION_BATCH_SIZE"
    using batch_few_before r'(1) by blast
  moreover have "length (filter (\<lambda>x. dl_lease_owner x = None \<and> created_before x r) rows) \<le>
      length (filter (\<lambda>x. claimable now x \<and> created_before x r) (map id rows))"
    by (rule length_filter_mono) (simp add: claimable_def)
  ultimately show False using assms(1) by (simp add: blocked_def)
qed

text \<open>
  A whole drain in which no file can be deleted and every failure is stored. Drains may overlap in the program, and then a second one claims younger
  rows while the oldest are leased; a sequence of such rounds is a run in which each drain has ended before the next one claims.
\<close>

definition failing_round :: "string \<times> timestamp \<times> timestamp \<times> string \<Rightarrow> deletion_row list \<Rightarrow> deletion_row list" where
  "failing_round = (\<lambda>(owner, now, expires_at, err). drain_deletions_for_owner owner now expires_at (\<lambda>_. FileKept err True))"

definition fail_row :: "string \<Rightarrow> string \<Rightarrow> timestamp \<Rightarrow> deletion_row \<Rightarrow> deletion_row \<Rightarrow> deletion_row" where
  "fail_row owner err now d r =
     (if dl_id r = dl_id d \<and> dl_lease_owner r = Some owner
      then r\<lparr>dl_attempts := saturating_succ (dl_attempts d), dl_last_error := Some err, dl_lease_owner := None, dl_lease_expires_at := None, dl_updated_at := now\<rparr>
      else r)"

lemma fail_rows: "fold (\<lambda>d. drain_one owner now (d, FileKept err True)) ds rows = map (fold (fail_row owner err now) ds) rows"
proof (induction ds arbitrary: rows)
  case (Cons d ds)
  have "drain_one owner now (d, FileKept err True) rows = map (fail_row owner err now d) rows"
    by (simp add: drain_one_def update_deletion_failure_def fail_row_def)
  then show ?case using Cons by (simp add: comp_def)
qed (simp add: map_idI)

lemma fail_row_keeps:
  "dl_id (fold (fail_row owner err now) ds r) = dl_id r" "dl_created_at (fold (fail_row owner err now) ds r) = dl_created_at r"
  by (induction ds arbitrary: r) (auto simp: fail_row_def)

lemma fail_row_frees:
  "dl_lease_owner r = None \<or> dl_lease_owner r = Some owner \<and> dl_id r \<in> dl_id ` set ds \<Longrightarrow> dl_lease_owner (fold (fail_row owner err now) ds r) = None"
proof (induction ds arbitrary: r)
  case (Cons d ds)
  have "dl_lease_owner (fail_row owner err now d r) = None \<or>
      dl_lease_owner (fail_row owner err now d r) = Some owner \<and> dl_id (fail_row owner err now d r) \<in> dl_id ` set ds"
    using Cons(2) by (auto simp: fail_row_def)
  then show ?case using Cons(1) by simp
qed simp

lemma fail_row_other: "dl_id r \<notin> dl_id ` set ds \<Longrightarrow> fold (fail_row owner err now) ds r = r"
  by (induction ds arbitrary: r) (auto simp: fail_row_def)

lemma failing_round_rows:
  "\<exists>h. failing_round x rows = map h rows \<and> (\<forall>r. dl_id (h r) = dl_id r \<and> dl_created_at (h r) = dl_created_at r \<and>
     (dl_lease_owner r = None \<longrightarrow> dl_lease_owner (h r) = None) \<and> (dl_id r \<notin> dl_id ` set (deletion_batch (fst (snd x)) rows) \<longrightarrow> h r = r))"
proof -
  obtain owner now expires_at err where x: "x = (owner, now, expires_at, err)" by (metis prod_cases4)
  let ?ds = "deletion_batch now rows"
  let ?f = "\<lambda>r. if dl_id r \<in> dl_id ` set ?ds
    then r\<lparr>dl_lease_owner := Some owner, dl_lease_expires_at := Some expires_at, dl_updated_at := now\<rparr> else r"
  let ?h = "\<lambda>r. fold (fail_row owner err now) ?ds (?f r)"
  have "failing_round x rows = map ?h rows"
    by (simp add: x failing_round_def drain_deletions_for_owner_def claim_deletions_def Let_def fail_rows comp_def)
  moreover have "dl_id (?h r) = dl_id r" "dl_created_at (?h r) = dl_created_at r" for r
    by (simp_all add: fail_row_keeps)
  moreover have "dl_lease_owner (?h r) = None" if "dl_lease_owner r = None" for r
    by (rule fail_row_frees) (simp add: that)
  moreover have "?h r = r" if "dl_id r \<notin> dl_id ` set ?ds" for r
    using that by (simp add: fail_row_other)
  ultimately show ?thesis
    by (intro exI [of _ ?h]) (simp add: x)
qed

lemma failing_round_blocked:
  assumes "blocked r rows" and "r \<in> set rows" and "distinct (map dl_id rows)"
  shows "blocked r (failing_round x rows) \<and> r \<in> set (failing_round x rows) \<and> distinct (map dl_id (failing_round x rows))"
proof -
  obtain h where h: "failing_round x rows = map h rows" "\<And>r. dl_id (h r) = dl_id r" "\<And>r. dl_created_at (h r) = dl_created_at r"
    "\<And>r. dl_lease_owner r = None \<Longrightarrow> dl_lease_owner (h r) = None"
    "\<And>r. dl_id r \<notin> dl_id ` set (deletion_batch (fst (snd x)) rows) \<Longrightarrow> h r = r"
    using failing_round_rows [of x rows] by blast
  have "h r = r" using h(5) blocked_not_claimed [OF assms] by blast
  then have "r \<in> set (failing_round x rows)" using assms(2) h(1) by (metis image_eqI set_map)
  moreover have "length (filter (\<lambda>y. dl_lease_owner y = None \<and> created_before y r) rows) \<le>
      length (filter (\<lambda>y. dl_lease_owner y = None \<and> created_before y r) (map h rows))"
    by (rule length_filter_mono) (simp add: h(2-4) created_before_def)
  then have "blocked r (failing_round x rows)" using assms(1) h(1) by (simp add: blocked_def)
  moreover have "map dl_id (failing_round x rows) = map dl_id rows" by (simp add: h(1,2))
  ultimately show ?thesis using assms(3) by simp
qed


section \<open>Samples\<close>

definition sample_deletion :: "nat \<Rightarrow> timestamp \<Rightarrow> deletion_row" where
  "sample_deletion n created_at =
     \<lparr>dl_id = replicate n (CHR ''a''), dl_storage_path = replicate n (CHR ''p''), dl_attempts = 0, dl_last_error = None, dl_lease_owner = None,
      dl_lease_expires_at = None, dl_created_at = created_at, dl_updated_at = created_at\<rparr>"

definition sample_queue :: "deletion_row list" where
  "sample_queue = map (\<lambda>n. sample_deletion n ''2026'') [0..<64] @ [sample_deletion 64 ''2027'']"


lemma sample_deletion_run:
  "deletion_step\<^sup>*\<^sup>* no_deletions (no_deletions\<lparr>ds_rows := [sample_deletion 1 ''2026''], ds_ids := [''a''], ds_queued := [''p'']\<rparr>)"
proof (rule r_into_rtranclp)
  show "deletion_step no_deletions (no_deletions\<lparr>ds_rows := [sample_deletion 1 ''2026''], ds_ids := [''a''], ds_queued := [''p'']\<rparr>)"
    using deletion_step.enqueue [of "''a''" no_deletions "''p''" "''2026''"]
    by (simp add: no_deletions_def enqueue_deletion_row_def sample_deletion_def)
qed

theorem queued_file_not_forgotten_witness:
  "''p'' \<in> dl_storage_path ` set [sample_deletion 1 ''2026''] \<union> set (ds_deleted no_deletions)"
  using queued_file_not_forgotten [OF sample_deletion_run] by simp

end
