(* ===== verification/Spec2Isabelle.thy ===== *)
theory Spec2Isabelle
  imports Hub_System Core_Printer Ams_Units Gcode_Roundtrip Agent_Dispatch Hub_Authorize Hub_Camera Hub_Redaction Hub_Quota Hub_Sessions Agent_Firmware Agent_Brtc Hub_Deletions
begin

text \<open>
  \<^bold>\<open>A verification development for Pandar\<close>, a self-hosted replacement of the Bambu Studio
  cloud (\<open>src/README.md\<close>).

  \<^bold>\<open>The program.\<close> A multi-tenant server, \<open>crates/pandar-hub\<close>, keeps tenants, printers, print jobs and the
  commands sent to printers in a database. An agent, \<open>crates/pandar-agent\<close>, runs beside the printers and is
  connected to the hub by one session at a time; it executes commands and delivers reports of what the
  printers say. Studio talks to the hub through a network plugin. The domain types shared by all of
  them, with their validation and their stored texts, are \<open>crates/pandar-core\<close>. The logic that has to be
  right is in the core types, in the hub's repositories and process state, and in the language of printer commands
  that the agent writes and the plugin reads. In the hub each operation is one database transaction,
  several are fenced by the agent's current session, and agents, users and sweeps run concurrently, so
  what a transaction leaves behind must suit every transaction that may come next. Beside the
  database a hub process keeps the sessions of its agents and the camera streams in memory, guarded by locks.

  \<^bold>\<open>Modelling.\<close> A Rust function is a HOL function of the same name; a struct is a record whose fields carry a
  short prefix, an enum a datatype; \<open>Result\<close> is the datatype \<open>result\<close> with \<open>and_then\<close> for the \<open>?\<close> operator, so
  every early return is a branch. Text is its UTF-8 bytes. Unsigned integers are words of their width,
  signed columns integers with every conversion and its range check written out. A table is the list of its rows
  (record \<open>hub_db\<close>), an update is a map over the rows its filter selects, with the number of rows
  it hit, and a transaction is a function from the database to a result holding the new database: an error leaves the caller's
  database, which is the rollback. A lock is not a separate object: a transaction is one atomic step, and
  interleavings are sequences of steps. Where the code itself runs concurrently between its locks or atomic operations (the
  agent's sequence counter and firmware control, camera streams, session leases, draining deletions) the step relation has those critical sections as its steps. Clock
  readings and fresh identifiers are arguments.

  Third-party code appears only as parameters: the UUID, JSON and RFC 3339 readers and writers, SHA-256, the
  text of a JSON number, the reading of a printer row's encrypted access code, URL readers, the verifier of external
  identities, the signing of a printer command, MD5. They are collected in codec records (\<open>job_codec\<close>, \<open>live_codec\<close>,
  \<open>report_codec\<close>, \<open>material_codec\<close>, \<open>usage_codec\<close>, \<open>auth_codec\<close>, \<open>agent_codec\<close>, \<open>request_codec\<close>, \<open>redaction_codec\<close>, \<open>brtc_codec\<close>) or
  are arguments of their own. Where a property needs a fact about one of
  them (that what is written reads back, say) the fact is a hypothesis of that theorem, and the theorem
  has a witness with a concrete function in its place.

  \<^bold>\<open>The library.\<close>
  \<^item> \<open>Prelude\<close>, \<open>Floats\<close>, \<open>Json\<close>: results, strings, digits, integers, \<open>f32\<close>/\<open>f64\<close> with correctly rounded reading, and the
    value type of \<open>serde_json\<close>; the collections \<open>result_simps\<close> and \<open>str_simps\<close>.
  \<^item> \<open>Serde\<close>, \<open>Rust_Text\<close>, \<open>Float_Display\<close>: reading structs from JSON, Rust's text operations, and the shortest decimal text of
    an \<open>f64\<close>, each with the laws by which a written text reads back.
  \<^item> \<open>Statuses\<close>, \<open>Core_Entities\<close>, \<open>Core_Jobs\<close>, \<open>Core_Printer\<close> (\<open>pandar-core/src\<close>: \<open>ids.rs\<close>, \<open>agent.rs\<close>, \<open>command.rs\<close>,
    \<open>tenant.rs\<close>, \<open>studio_print.rs\<close>, \<open>job.rs\<close>, \<open>printer.rs\<close>, \<open>cooling.rs\<close>): identifiers, statuses and the validating
    constructors. The status texts share one contract, a locale interpreted per enum.
  \<^item> \<open>Device_Features\<close>, \<open>Ams_Units\<close>, \<open>H2c\<close>, \<open>Print_Error\<close>, \<open>Compatibility\<close>, \<open>Printer_Operation\<close>, \<open>Firmware_Types\<close> (the
    files of these names in \<open>pandar-core/src\<close>): the feature bitmap and its round trip, slot numbering, nozzle
    mapping requests, the recovery catalog, the capability tables and their agreement, the limits of
    printer operations, and that a firmware command's address is not disclosed.
  \<^item> \<open>Hub_Store\<close>, \<open>Hub_Audit\<close> (\<open>pandar-hub/src/entities\<close>, \<open>repositories/mod.rs\<close>, \<open>repositories/audit.rs\<close>): rows, queries, repository
    errors, audit events. A keyed guarded update is the locale \<open>guarded_table\<close>, interpreted for each update
    of jobs and commands.
  \<^item> \<open>Hub_Agents\<close> (\<open>repositories/agents\<close>): claiming a session, the session fences, heartbeat, going offline. A claim displaces
    every other session.
  \<^item> \<open>Hub_Commands\<close>, \<open>Hub_Live_Commands\<close> (\<open>repositories/commands\<close>, \<open>session_commands.rs\<close>, \<open>jobs/transitions.rs\<close>): insertion, guarded
    status transitions with the print job's status, firmware phases, the sweep of stale live commands. A
    session's transition refines one step of an abstract command machine.
  \<^item> \<open>Hub_Jobs\<close>, \<open>Hub_Job_Control\<close> (\<open>repositories/jobs\<close>: \<open>create.rs\<close>, \<open>rows.rs\<close>, \<open>hydration.rs\<close>, \<open>studio_ids.rs\<close>, \<open>cancel.rs\<close>,
    \<open>recovery.rs\<close>, \<open>stalled.rs\<close>, \<open>clear.rs\<close>): creation, reading back, submission ids without gaps, cancel, retry,
    reprint, stall marking and clearing, each with what it changes and what it leaves.
  \<^item> \<open>Hub_Lifecycle\<close>: the step relation of those transactions and its invariant; ended commands are frozen.
  \<^item> \<open>Hub_Live_Status\<close> (\<open>repositories/printers/live_status\<close>): merging a report into a printer's live status, task and
    error generations, storing it; merging is idempotent, and a task boundary leaves no stale task data.
  \<^item> \<open>Hub_Print_Reports\<close>, \<open>Hub_Materials\<close>, \<open>Hub_Usage\<close> (\<open>repositories/jobs/print_reports\<close>, \<open>repositories/materials\<close>): correlating a
    report with a job, reconciling the print state, machine events, material snapshots, filament usage. A
    print only moves forward; merging lists by identifier is the locale \<open>keyed_merge\<close>, over the orders of
    \<open>key_order\<close>, interpreted for units, trays and spools; secrets are dropped; events and usage are recorded once.
  \<^item> \<open>Hub_System\<close>: the print-report transaction composed from its stages, and the step relation of the whole hub.
    Reports are isolated to their own tenant, agent and printer; jobs, commands, materials and events stay consistent
    in every reachable state.

  \<^item> \<open>Hub_Auth\<close>, \<open>Hub_Onboarding\<close> (\<open>repositories/tenants.rs\<close>, \<open>auth.rs\<close>, \<open>auth/\<close>, \<open>printer_event_tickets.rs\<close>): tenants, users, identities,
    tenant tokens, join links, login tickets and event tickets with the constraints of their tables.
  \<^item> \<open>Hub_Auth_Steps\<close>: the step relation of those operations. A tenant keeps an administrator, a revoked token stays
    refused, a ticket is exchanged once, a join link is used at most as often as it allows. Rows that are only appended and
    updated in place are the locale \<open>row_history\<close>; a relation that every operation keeps is the locale \<open>auth_relation\<close>.
  \<^item> \<open>Hub_Authorize\<close> (\<open>routes/auth.rs\<close>): who is let in to what, on which evidence, and that a removed user is locked out.
  \<^item> \<open>Hub_Sessions\<close> (\<open>sessions.rs\<close>, \<open>sessions/\<close>, \<open>grpc.rs\<close>, \<open>grpc/inbound.rs\<close>): the leases that serialise what happens to an agent, the
    registry of sessions and their pending live commands. Leases exclude each other although idle ones are swept; the
    registry agrees with the database; a session that is over stays over.
  \<^item> \<open>Hub_Camera\<close> (\<open>camera_sessions.rs\<close>, \<open>camera_sessions/capacity.rs\<close>, \<open>grpc/camera_events.rs\<close>): camera streams and their permits under
    concurrency; permits are counted exactly, a printer has one stream.
  \<^item> \<open>Hub_Quota\<close> (\<open>repositories/jobs/quota.rs\<close>, \<open>jobs/audit.rs\<close>, \<open>artifacts/lifecycle.rs\<close>): reservations of upload space, the quota check,
    expiry. The quota holds in every reachable state and no stored file is queued for deletion.
  \<^item> \<open>Hub_Deletions\<close> (\<open>artifacts/lifecycle.rs\<close>): the queue of files to delete, drained by concurrent processes under leases. No
    queued file is forgotten when a process stops, and no other file is deleted.
  \<^item> \<open>Hub_Redaction\<close> (\<open>redaction.rs\<close>, \<open>redaction/json.rs\<close>, \<open>grpc/commands.rs\<close>, the agent's \<open>machine/diagnostics/redaction.rs\<close>): the
    scanner of secrets in texts and JSON. It ends on every text; the access code of a linked printer and the secrets of
    the agent's endpoints do not survive. The three markers share the locale \<open>placeholder\<close>.
  \<^item> \<open>Agent_Commands\<close>, \<open>Agent_Dispatch\<close> (\<open>pandar-agent/src/machine\<close>: \<open>operations\<close>, \<open>mqtt/commands\<close>, \<open>types.rs\<close>): the MQTT command of every
    printer operation, the shared sequence counter as a lock-free concurrent program, publishing and waiting for the
    printer's answer, the gate on device features.
  \<^item> \<open>Agent_Firmware\<close> (\<open>machine/firmware\<close>: \<open>cache.rs\<close>, \<open>control.rs\<close>, \<open>types.rs\<close>): what the agent knows of a printer's firmware per connection
    generation, and the reservation a firmware command goes through. Only its owner publishes, to the current endpoint;
    the events to the hub are in order.
  \<^item> \<open>Agent_Brtc\<close> (\<open>machine/brtc.rs\<close>, \<open>brtc/\<close>): the framed protocol that uploads a file to a printer. An upload ends, and a successful
    one has sent the rest of the file in order.
  \<^item> \<open>Plugin_Gcode\<close>, \<open>Gcode_Roundtrip\<close> (\<open>pandar-network-plugin/src/gcode\<close>): reading Studio's messages and G-code as printer
    operations; the plugin's reader inverts the agent's writer on every operation both can express.

  \<^bold>\<open>Bounds and recursion.\<close> There is no fuel: almost every loop of the modelled code walks a finite list or a number, so these functions
  are total. The chunked hydration, the digit writer, the scans of texts and the repeated prefix trim carry explicit
  termination proofs. The unbounded scan of the redaction is a partial function whose result is proved to exist for
  every text, so is the chunk loop of the upload, and the retry loop of the sequence counter is a step relation with a progress property. The
  chunk size (500), the thresholds of validation and the fifteen minutes of the stall sweep are the source's constants.

  \<^bold>\<open>What modelling showed.\<close> Oversized layer numbers are stored negative and make a job unreadable
  (\<open>Hub_Print_Reports\<close>); a material patch whose active tray is not an object fails its transaction
  (\<open>Hub_Materials\<close>); on PostgreSQL the second usage derivation of a job aborts its transaction
  (\<open>Hub_Usage\<close>); a camera stream whose viewer does not take a chunk is never closed at the agent (\<open>Hub_Camera\<close>); a user
  cannot be removed through a token of its own (\<open>Hub_Auth_Steps\<close>); the token of an authorization header inside a line, and
  an assignment after a quoted key, are not redacted (\<open>Hub_Redaction\<close>); deletions that keep failing block all younger ones (\<open>Hub_Deletions\<close>); a model text that is only the vendor's name normalises to
  an empty name (\<open>Compatibility\<close>).

  \<^bold>\<open>Not modelled.\<close> HTTP and gRPC transport and the cluster layer (asynchronous glue around the
  repositories); artifact storage and 3MF inspection (I/O and third-party archive code); encryption of access codes; the
  agent's MQTT, FTPS and camera clients, its report parsers, and the TLS layer of the upload; the plugin's C interface and accounts; the frontend and the
  tools. Of the hub's repositories: printer rows other than their live status, agent pairing, personal presets, the creation
  of firmware commands, and the paged list queries, which only read. Of the hub's process state: pending
  firmware commands and transient messages of a session. Re-reading a printer after a report's commit is left out of the report's result.
\<close>

end
